(* ===== verification/Py_Prelude.thy ===== *)
theory Py_Prelude
  imports Main "HOL-Library.AList" "HOL-Library.List_Lexorder" "HOL-Library.Char_ord"
begin

text \<open>
  The prelude of the development: the Python values the runtime passes around
  (JSON-like data held in dictionaries), the dictionary, string and conversion
  operations of the language that the source uses, and the generic lemmas the
  component theories share.

  Conventions. A string is a list of characters; the model is for ASCII text, so
  \<open>str.lower\<close>, \<open>str.upper\<close> and \<open>str.strip\<close> act on the ASCII letters and the ASCII white
  space. A dictionary is an association list in insertion order: \<open>AList.update\<close>
  overwrites in place or appends, as a Python \<open>dict\<close> does. Floating-point numbers do not
  occur in the modelled data. A raised exception is the left summand of a sum.
\<close>

named_theorems py_simps \<open>evaluation of Python conversions and dictionary operations\<close>

section \<open>Values\<close>

datatype pyval =
    PNone
  | PBool bool
  | PInt int
  | PStr string
  | PList "pyval list"
  | PDict "(string \<times> pyval) list"

type_synonym pydict = "(string \<times> pyval) list"

datatype py_exn =
    TypeError string
  | ValueError string
  | KeyError string
  | AttributeError string

fun truthy :: "pyval \<Rightarrow> bool" where
  "truthy PNone = False"
| "truthy (PBool b) = b"
| "truthy (PInt i) = (i \<noteq> 0)"
| "truthy (PStr s) = (s \<noteq> [])"
| "truthy (PList xs) = (xs \<noteq> [])"
| "truthy (PDict d) = (d \<noteq> [])"

text \<open>\<open>a or b\<close>.\<close>

definition py_or :: "pyval \<Rightarrow> pyval \<Rightarrow> pyval" where
  "py_or a b = (if truthy a then a else b)"

definition is_dict :: "pyval \<Rightarrow> bool" where
  "is_dict v = (case v of PDict _ \<Rightarrow> True | _ \<Rightarrow> False)"

definition as_dict :: "pyval \<Rightarrow> pydict option" where
  "as_dict v = (case v of PDict d \<Rightarrow> Some d | _ \<Rightarrow> None)"

lemma as_dict_simps [simp]:
  "as_dict (PDict d) = Some d" "as_dict PNone = None" "as_dict (PStr s) = None"
  "as_dict (PBool b) = None" "as_dict (PInt i) = None" "as_dict (PList xs) = None"
  by (simp_all add: as_dict_def)

lemma is_dict_simps [simp]:
  "is_dict (PDict d)" "\<not> is_dict PNone" "\<not> is_dict (PStr s)"
  "\<not> is_dict (PBool b)" "\<not> is_dict (PInt i)" "\<not> is_dict (PList xs)"
  by (simp_all add: is_dict_def)

lemma as_dict_Some [simp]: "as_dict v = Some d \<longleftrightarrow> v = PDict d"
  by (cases v) auto

lemma py_or_simps [py_simps]:
  "truthy a \<Longrightarrow> py_or a b = a" "\<not> truthy a \<Longrightarrow> py_or a b = b"
  by (simp_all add: py_or_def)

section \<open>Dictionaries\<close>

text \<open>\<open>d.get(k)\<close>, \<open>k in d\<close>, \<open>d[k] = v\<close>, \<open>d.pop(k, None)\<close>, \<open>d.setdefault(k, v)\<close>.\<close>

definition dget :: "pydict \<Rightarrow> string \<Rightarrow> pyval" where
  "dget d k = (case map_of d k of None \<Rightarrow> PNone | Some v \<Rightarrow> v)"

definition dget_default :: "pydict \<Rightarrow> string \<Rightarrow> pyval \<Rightarrow> pyval" where
  "dget_default d k v = (case map_of d k of None \<Rightarrow> v | Some w \<Rightarrow> w)"

definition has_key :: "pydict \<Rightarrow> string \<Rightarrow> bool" where
  "has_key d k = (map_of d k \<noteq> None)"

definition dset :: "string \<Rightarrow> pyval \<Rightarrow> pydict \<Rightarrow> pydict" where
  "dset k v d = AList.update k v d"

definition dpop :: "string \<Rightarrow> pydict \<Rightarrow> pydict" where
  "dpop k d = AList.delete k d"

definition dsetdefault :: "string \<Rightarrow> pyval \<Rightarrow> pydict \<Rightarrow> pydict" where
  "dsetdefault k v d = (if has_key d k then d else d @ [(k, v)])"

text \<open>\<open>value.get(k)\<close> of a mapping, \<open>None\<close> of anything else.\<close>

definition nested_get :: "pyval \<Rightarrow> string \<Rightarrow> pyval" where
  "nested_get v k = (case v of PDict d \<Rightarrow> dget d k | _ \<Rightarrow> PNone)"

lemma dget_Nil [simp]: "dget [] k = PNone"
  by (simp add: dget_def)

lemma dget_Cons [simp]: "dget ((k', v) # d) k = (if k' = k then v else dget d k)"
  by (simp add: dget_def)

lemma dget_dset [simp]: "dget (dset k v d) k' = (if k = k' then v else dget d k')"
  by (auto simp: dget_def dset_def update_conv')

lemma dget_dpop [simp]: "dget (dpop k d) k' = (if k = k' then PNone else dget d k')"
  by (auto simp: dget_def dpop_def delete_conv')

lemma has_key_simps [simp]:
  "\<not> has_key [] k" "has_key ((k', v) # d) k = (k' = k \<or> has_key d k)"
  by (auto simp: has_key_def)

lemma has_key_dset [simp]: "has_key (dset k v d) k' = (k = k' \<or> has_key d k')"
  by (auto simp: has_key_def dset_def update_conv')

lemma has_key_dpop [simp]: "has_key (dpop k d) k' = (k \<noteq> k' \<and> has_key d k')"
  by (auto simp: has_key_def dpop_def delete_conv')

lemma has_key_dom: "has_key d k \<longleftrightarrow> k \<in> fst ` set d"
  by (auto simp: has_key_def map_of_eq_None_iff)

lemma dget_append: "dget (d @ e) k = (if has_key d k then dget d k else dget e k)"
  by (auto simp: dget_def has_key_def map_add_def split: option.splits)

lemma has_key_append [simp]: "has_key (d @ e) k = (has_key d k \<or> has_key e k)"
  by (auto simp: has_key_dom)

lemma dget_not_has_key: "\<not> has_key d k \<Longrightarrow> dget d k = PNone"
  by (auto simp: dget_def has_key_def)

lemma dget_dsetdefault:
  "dget (dsetdefault k v d) k' = (if k = k' \<and> \<not> has_key d k then v else dget d k')"
  by (auto simp: dsetdefault_def dget_append dget_not_has_key)

lemma dset_Nil [simp]: "dset k v [] = [(k, v)]"
  by (simp add: dset_def)

lemma dset_Cons [simp]:
  "dset k v ((k', w) # d) = (if k = k' then (k, v) # d else (k', w) # dset k v d)"
  by (simp add: dset_def)

section \<open>Strings\<close>

definition lower_char :: "char \<Rightarrow> char" where
  "lower_char c = (let n = (of_char c :: nat) in if 65 \<le> n \<and> n \<le> 90 then char_of (n + 32) else c)"

definition upper_char :: "char \<Rightarrow> char" where
  "upper_char c = (let n = (of_char c :: nat) in if 97 \<le> n \<and> n \<le> 122 then char_of (n - 32) else c)"

definition py_lower :: "string \<Rightarrow> string" where
  "py_lower s = map lower_char s"

definition py_upper :: "string \<Rightarrow> string" where
  "py_upper s = map upper_char s"

definition is_space :: "char \<Rightarrow> bool" where
  "is_space c = ((of_char c :: nat) \<in> {9, 10, 11, 12, 13, 28, 29, 30, 31, 32})"

definition py_lstrip :: "string \<Rightarrow> string" where
  "py_lstrip s = dropWhile is_space s"

definition py_strip :: "string \<Rightarrow> string" where
  "py_strip s = rev (dropWhile is_space (rev (py_lstrip s)))"

definition startswith :: "string \<Rightarrow> string \<Rightarrow> bool" where
  "startswith s p = (take (length p) s = p)"

definition removeprefix :: "string \<Rightarrow> string \<Rightarrow> string" where
  "removeprefix s p = (if startswith s p then drop (length p) s else s)"

definition endswith :: "string \<Rightarrow> string \<Rightarrow> bool" where
  "endswith s p = startswith (rev s) (rev p)"

text \<open>
  \<open>s.partition(c)\<close> and \<open>s.rpartition(c)\<close> for a one-character separator: the part
  before, whether the separator was found, the part after. As in Python a missing
  separator leaves the whole string in the first component of \<open>partition\<close> and in the
  last one of \<open>rpartition\<close>.
\<close>

definition py_partition :: "char \<Rightarrow> string \<Rightarrow> string \<times> bool \<times> string" where
  "py_partition c s = (takeWhile (\<lambda>x. x \<noteq> c) s, c \<in> set s, drop 1 (dropWhile (\<lambda>x. x \<noteq> c) s))"

definition py_rpartition :: "char \<Rightarrow> string \<Rightarrow> string \<times> bool \<times> string" where
  "py_rpartition c s =
     (if c \<in> set s
      then (rev (drop 1 (dropWhile (\<lambda>x. x \<noteq> c) (rev s))), True, rev (takeWhile (\<lambda>x. x \<noteq> c) (rev s)))
      else ([], False, s))"

fun split_char :: "char \<Rightarrow> string \<Rightarrow> string list" where
  "split_char c [] = [[]]"
| "split_char c (x # xs) =
     (if x = c then [] # split_char c xs
      else (case split_char c xs of [] \<Rightarrow> [[x]] | y # ys \<Rightarrow> (x # y) # ys))"

fun py_join :: "string \<Rightarrow> string list \<Rightarrow> string" where
  "py_join sep [] = []"
| "py_join sep [x] = x"
| "py_join sep (x # y # ys) = x @ sep @ py_join sep (y # ys)"

definition replace_char :: "char \<Rightarrow> char \<Rightarrow> string \<Rightarrow> string" where
  "replace_char a b s = map (\<lambda>c. if c = a then b else c) s"

lemma startswith_append [simp]: "startswith (p @ s) p"
  by (simp add: startswith_def)

lemma removeprefix_append [simp]: "removeprefix (p @ s) p = s"
  by (simp add: removeprefix_def)

lemma startswithE: "startswith s p \<Longrightarrow> \<exists>t. s = p @ t"
  unfolding startswith_def by (metis append_take_drop_id)

lemma takeWhile_until:
  assumes "c \<notin> set a"
  shows "takeWhile (\<lambda>x. x \<noteq> c) (a @ c # b) = a" "dropWhile (\<lambda>x. x \<noteq> c) (a @ c # b) = c # b"
  using assms by (induction a) auto

lemma takeWhile_absent:
  assumes "c \<notin> set a"
  shows "takeWhile (\<lambda>x. x \<noteq> c) a = a" "dropWhile (\<lambda>x. x \<noteq> c) a = []"
  using assms by (induction a) auto

lemma py_partition_append [simp]:
  "c \<notin> set a \<Longrightarrow> py_partition c (a @ c # b) = (a, True, b)"
  by (simp add: py_partition_def takeWhile_until)

lemma py_rpartition_append [simp]:
  "c \<notin> set b \<Longrightarrow> py_rpartition c (a @ c # b) = (a, True, b)"
  using takeWhile_until [of c "rev b" "rev a"] by (simp add: py_rpartition_def)

lemma py_partition_absent: "c \<notin> set a \<Longrightarrow> py_partition c a = (a, False, [])"
  by (simp add: py_partition_def takeWhile_absent)

section \<open>Decimal numbers\<close>

definition digit_char :: "nat \<Rightarrow> char" where
  "digit_char n = char_of (48 + n)"

definition digit_val :: "char \<Rightarrow> nat option" where
  "digit_val c = (let n = (of_char c :: nat) in if 48 \<le> n \<and> n \<le> 57 then Some (n - 48) else None)"

fun nat_dec :: "nat \<Rightarrow> string" where
  "nat_dec n = (if n < 10 then [digit_char n] else nat_dec (n div 10) @ [digit_char (n mod 10)])"

declare nat_dec.simps [simp del]

definition int_dec :: "int \<Rightarrow> string" where
  "int_dec i = (if i < 0 then CHR ''-'' # nat_dec (nat (- i)) else nat_dec (nat i))"

text \<open>
  The digits of an \<open>int\<close> literal: at least one digit, single underscores allowed between
  digits (\<open>prev\<close> says whether the character before was a digit).
\<close>

fun parse_digits :: "nat \<Rightarrow> bool \<Rightarrow> string \<Rightarrow> nat option" where
  "parse_digits acc prev [] = (if prev then Some acc else None)"
| "parse_digits acc prev (c # cs) =
     (case digit_val c of
        Some d \<Rightarrow> parse_digits (10 * acc + d) True cs
      | None \<Rightarrow> if c = CHR ''_'' \<and> prev then parse_digits acc False cs else None)"

definition int_of_str :: "string \<Rightarrow> int option" where
  "int_of_str s =
     (case py_strip s of
        [] \<Rightarrow> None
      | c # cs \<Rightarrow>
          if c = CHR ''-'' then map_option (\<lambda>n. - int n) (parse_digits 0 False cs)
          else if c = CHR ''+'' then map_option int (parse_digits 0 False cs)
          else map_option int (parse_digits 0 False (c # cs)))"

text \<open>\<open>int(value)\<close>, with the exception it raises.\<close>

definition str_isdigit :: "string \<Rightarrow> bool" where
  "str_isdigit s = (s \<noteq> [] \<and> (\<forall>c \<in> set s. digit_val c \<noteq> None))"

lemma digit_val_char: "n < 10 \<Longrightarrow> digit_val (digit_char n) = Some n"
  by (simp add: digit_val_def digit_char_def)

lemma digit_char_nonspace: "n < 10 \<Longrightarrow> \<not> is_space (digit_char n)"
  by (auto simp: is_space_def digit_char_def)

lemma of_char_digit_char: "n < 10 \<Longrightarrow> (of_char (digit_char n) :: nat) = 48 + n"
  by (simp add: digit_char_def)

lemma digit_char_neqI:
  assumes "n < 10" and "(of_char c :: nat) < 48 \<or> 57 < (of_char c :: nat)"
  shows "digit_char n \<noteq> c"
  using assms of_char_digit_char [of n] by auto

lemma parse_digits_append:
  "parse_digits acc p (xs @ [digit_char d]) =
     map_option (\<lambda>n. 10 * n + d) (parse_digits acc True xs)"
  if "d < 10" "\<forall>c \<in> set xs. digit_val c \<noteq> None"
  using that
proof (induction xs arbitrary: acc p)
  case Nil
  then show ?case by (simp add: digit_val_char)
next
  case (Cons c cs)
  then show ?case by (auto split: option.splits)
qed

lemma nat_dec_digits: "\<forall>c \<in> set (nat_dec n). \<exists>d < 10. c = digit_char d"
proof (induction n rule: nat_dec.induct)
  case (1 n)
  show ?case
  proof (cases "n < 10")
    case True
    then show ?thesis by (subst nat_dec.simps) auto
  next
    case False
    have "\<exists>d<10. digit_char (n mod 10) = digit_char d" by (rule exI [of _ "n mod 10"]) simp
    with False "1.IH" show ?thesis by (subst nat_dec.simps) auto
  qed
qed

lemma nat_dec_nonempty [simp]: "nat_dec n \<noteq> []"
  by (subst nat_dec.simps) simp

lemma nat_dec_digit_val: "c \<in> set (nat_dec n) \<Longrightarrow> digit_val c \<noteq> None"
  using nat_dec_digits [of n] digit_val_char by force

lemma parse_digits_any:
  "xs \<noteq> [] \<Longrightarrow> \<forall>c \<in> set xs. digit_val c \<noteq> None \<Longrightarrow> parse_digits acc True xs = parse_digits acc False xs"
  by (cases xs) auto

lemma nat_dec_small: "n < 10 \<Longrightarrow> nat_dec n = [digit_char n]"
  by (subst nat_dec.simps) simp

lemma nat_dec_large: "\<not> n < 10 \<Longrightarrow> nat_dec n = nat_dec (n div 10) @ [digit_char (n mod 10)]"
  by (subst nat_dec.simps) simp

lemma parse_nat_dec: "parse_digits 0 False (nat_dec n) = Some n"
proof (induction n rule: nat_dec.induct)
  case (1 n)
  show ?case
  proof (cases "n < 10")
    case True
    then show ?thesis by (simp add: nat_dec_small digit_val_char)
  next
    case False
    let ?xs = "nat_dec (n div 10)"
    have ds: "\<forall>c \<in> set ?xs. digit_val c \<noteq> None" using nat_dec_digit_val by blast
    have "parse_digits 0 True ?xs = Some (n div 10)"
      using "1.IH" [OF False] parse_digits_any [OF nat_dec_nonempty ds] by metis
    moreover have "n mod 10 < 10" by simp
    ultimately have "parse_digits 0 False (?xs @ [digit_char (n mod 10)]) = Some (10 * (n div 10) + n mod 10)"
      by (simp only: parse_digits_append [OF _ ds] option.map)
    also have "10 * (n div 10) + n mod 10 = n" by (rule mult_div_mod_eq)
    finally show ?thesis by (simp only: nat_dec_large [OF False])
  qed
qed

lemma nat_dec_notin:
  assumes "(of_char c :: nat) < 48 \<or> 57 < (of_char c :: nat)"
  shows "c \<notin> set (nat_dec n)"
proof
  assume "c \<in> set (nat_dec n)"
  then obtain d where "d < 10" "c = digit_char d" using nat_dec_digits [of n] by auto
  with digit_char_neqI [OF \<open>d < 10\<close> assms] show False by simp
qed

lemma py_strip_id:
  assumes "xs = [] \<or> (\<not> is_space (hd xs) \<and> \<not> is_space (last xs))"
  shows "py_strip xs = xs"
proof (cases xs)
  case Nil
  then show ?thesis by (simp add: py_strip_def py_lstrip_def)
next
  case (Cons c cs)
  with assms have "\<not> is_space c" "\<not> is_space (last xs)" by auto
  with Cons have "py_lstrip xs = xs" by (simp add: py_lstrip_def)
  moreover have "dropWhile is_space (rev xs) = rev xs"
    using Cons \<open>\<not> is_space (last xs)\<close> by (metis dropWhile_eq_self_iff hd_rev)
  ultimately show ?thesis by (simp add: py_strip_def)
qed

lemma nat_dec_ends:
  "\<not> is_space (hd (nat_dec n))" "\<not> is_space (last (nat_dec n))"
  "hd (nat_dec n) \<noteq> CHR ''-''" "hd (nat_dec n) \<noteq> CHR ''+''"
proof -
  obtain d e where "d < 10" "hd (nat_dec n) = digit_char d" "e < 10" "last (nat_dec n) = digit_char e"
    using nat_dec_digits [of n] by (meson hd_in_set last_in_set nat_dec_nonempty)
  then show "\<not> is_space (hd (nat_dec n))" "\<not> is_space (last (nat_dec n))"
      "hd (nat_dec n) \<noteq> CHR ''-''" "hd (nat_dec n) \<noteq> CHR ''+''"
    using digit_char_neqI [of d "CHR ''-''"] digit_char_neqI [of d "CHR ''+''"]
    by (simp_all add: digit_char_nonspace)
qed

text \<open>Printing an integer and reading it back gives the integer.\<close>

lemma int_of_str_int_dec [simp]: "int_of_str (int_dec i) = Some i"
proof (cases "i < 0")
  case True
  let ?ds = "nat_dec (nat (- i))"
  have "py_strip (CHR ''-'' # ?ds) = CHR ''-'' # ?ds"
    using nat_dec_ends(2) [of "nat (- i)"] is_space_def [of "CHR ''-''"]
    by (intro py_strip_id) simp
  with True show ?thesis
    by (simp add: int_of_str_def int_dec_def parse_nat_dec)
next
  case False
  let ?ds = "nat_dec (nat i)"
  obtain c cs where ds: "?ds = c # cs" by (meson nat_dec_nonempty neq_Nil_conv)
  have "py_strip ?ds = ?ds" by (rule py_strip_id) (simp add: nat_dec_ends)
  moreover have "c \<noteq> CHR ''-''" "c \<noteq> CHR ''+''" using nat_dec_ends [of "nat i"] ds by auto
  ultimately show ?thesis
    using False ds parse_nat_dec [of "nat i"] by (simp add: int_of_str_def int_dec_def)
qed

lemma int_dec_inject [simp]: "int_dec i = int_dec j \<longleftrightarrow> i = j"
  by (metis int_of_str_int_dec option.inject)

section \<open>\<open>str(value)\<close> and \<open>int(value)\<close>\<close>

definition hex_digit :: "nat \<Rightarrow> char" where
  "hex_digit n = (if n < 10 then char_of (48 + n) else char_of (87 + n))"

definition repr_char :: "char \<Rightarrow> char \<Rightarrow> string" where
  "repr_char q c =
     (let n = (of_char c :: nat) in
      if c = q \<or> n = 92 then [char_of (92::nat), c]
      else if n = 9 then [char_of (92::nat), CHR ''t'']
      else if n = 10 then [char_of (92::nat), CHR ''n'']
      else if n = 13 then [char_of (92::nat), CHR ''r'']
      else if n < 32 \<or> n = 127 then [char_of (92::nat), CHR ''x'', hex_digit (n div 16), hex_digit (n mod 16)]
      else [c])"

text \<open>\<open>repr(s)\<close>: single quotes, unless the text has a single quote and no double quote.\<close>

definition str_repr :: "string \<Rightarrow> string" where
  "str_repr s =
     (let sq = char_of (39::nat); dq = char_of (34::nat);
          q = (if sq \<in> set s \<and> dq \<notin> set s then dq else sq)
      in [q] @ concat (map (repr_char q) s) @ [q])"

fun py_repr :: "pyval \<Rightarrow> string" where
  "py_repr PNone = ''None''"
| "py_repr (PBool b) = (if b then ''True'' else ''False'')"
| "py_repr (PInt i) = int_dec i"
| "py_repr (PStr s) = str_repr s"
| "py_repr (PList xs) = ''['' @ py_join '', '' (map py_repr xs) @ '']''"
| "py_repr (PDict d) = ''{'' @ py_join '', '' (map (\<lambda>(k, v). str_repr k @ '': '' @ py_repr v) d) @ ''}''"

definition py_str :: "pyval \<Rightarrow> string" where
  "py_str v = (case v of PStr s \<Rightarrow> s | _ \<Rightarrow> py_repr v)"

lemma py_str_simps [simp]:
  "py_str (PStr s) = s" "py_str PNone = ''None''" "py_str (PInt i) = int_dec i"
  "py_str (PBool b) = (if b then ''True'' else ''False'')"
  by (simp_all add: py_str_def)

text \<open>\<open>type(value).__name__\<close>, as it appears in the messages of built-in exceptions.\<close>

definition type_name :: "pyval \<Rightarrow> string" where
  "type_name v = (case v of PNone \<Rightarrow> ''NoneType'' | PBool _ \<Rightarrow> ''bool'' | PInt _ \<Rightarrow> ''int''
     | PStr _ \<Rightarrow> ''str'' | PList _ \<Rightarrow> ''list'' | PDict _ \<Rightarrow> ''dict'')"

definition py_int :: "pyval \<Rightarrow> py_exn + int" where
  "py_int v = (case v of
       PInt i \<Rightarrow> Inr i
     | PBool b \<Rightarrow> Inr (if b then 1 else 0)
     | PStr s \<Rightarrow> (case int_of_str s of
         Some i \<Rightarrow> Inr i
       | None \<Rightarrow> Inl (ValueError (''invalid literal for int() with base 10: '' @ str_repr s)))
     | _ \<Rightarrow> Inl (TypeError (''int() argument must be a string, a bytes-like object or a real number, not ''
              @ str_repr (type_name v))))"

text \<open>\<open>str(exc)\<close>.\<close>

definition exn_str :: "py_exn \<Rightarrow> string" where
  "exn_str e = (case e of TypeError m \<Rightarrow> m | ValueError m \<Rightarrow> m | KeyError k \<Rightarrow> str_repr k | AttributeError m \<Rightarrow> m)"

lemma py_int_simps [simp]:
  "py_int (PInt i) = Inr i" "py_int (PBool b) = Inr (if b then 1 else 0)"
  by (simp_all add: py_int_def)

section \<open>Normal forms of text\<close>

lemma py_lstrip_lstrip [simp]: "py_lstrip (py_lstrip s) = py_lstrip s"
  by (simp add: py_lstrip_def)

lemma py_strip_strip [simp]: "py_strip (py_strip s) = py_strip s"
proof (cases "py_strip s = []")
  case True
  moreover have "py_strip [] = []" by (simp add: py_strip_def py_lstrip_def)
  ultimately show ?thesis by simp
next
  case False
  let ?t = "py_lstrip s" and ?r = "rev (dropWhile is_space (rev (py_lstrip s)))"
  have r: "?r \<noteq> []" using False by (simp add: py_strip_def)
  obtain z where z: "?t = ?r @ z"
    by (metis rev_append rev_rev_ident takeWhile_dropWhile_id)
  have "?t \<noteq> []" using r z by auto
  then have "\<not> is_space (hd ?t)" unfolding py_lstrip_def by (rule hd_dropWhile)
  moreover have "hd ?t = hd ?r" using r z by (metis hd_append2)
  moreover have "\<not> is_space (last ?r)"
    using r hd_dropWhile [of is_space "rev ?t"] by (simp add: last_rev)
  ultimately show ?thesis
    using py_strip_id [of ?r] r by (simp add: py_strip_def)
qed

lemma lower_char_lower [simp]: "lower_char (lower_char c) = lower_char c"
  by (auto simp: lower_char_def Let_def)

lemma upper_char_upper [simp]: "upper_char (upper_char c) = upper_char c"
  by (auto simp: upper_char_def Let_def)

lemma py_lower_lower [simp]: "py_lower (py_lower s) = py_lower s"
  by (simp add: py_lower_def)

lemma py_upper_upper [simp]: "py_upper (py_upper s) = py_upper s"
  by (simp add: py_upper_def)

lemma py_lower_nonempty: "py_lower s = [] \<longleftrightarrow> s = []"
  by (simp add: py_lower_def)

lemma int_dec_nonempty [simp]: "int_dec i \<noteq> []"
  by (simp add: int_dec_def)

lemma py_str_truthy: "truthy v \<Longrightarrow> py_str v \<noteq> []"
  by (cases v) (auto simp: py_str_def)

section \<open>Lists and sums shared by the components\<close>

lemma map_of_value: "map_of xs k = Some v \<Longrightarrow> v \<in> set (map snd xs)"
  by (induction xs) (auto split: if_splits)

text \<open>A comprehension that stops at the first raised exception.\<close>

fun sum_map :: "('a \<Rightarrow> 'e + 'b) \<Rightarrow> 'a list \<Rightarrow> 'e + 'b list" where
  "sum_map f [] = Inr []"
| "sum_map f (x # xs) =
     (case f x of Inl e \<Rightarrow> Inl e
      | Inr y \<Rightarrow> (case sum_map f xs of Inl e \<Rightarrow> Inl e | Inr ys \<Rightarrow> Inr (y # ys)))"

lemma sum_map_Inr: "sum_map f xs = Inr ys \<longleftrightarrow> list_all2 (\<lambda>x y. f x = Inr y) xs ys"
proof (induction xs arbitrary: ys)
  case Nil
  then show ?case by auto
next
  case (Cons x xs)
  show ?case
    by (cases "f x"; cases "sum_map f xs"; cases ys) (auto simp: Cons.IH [symmetric])
qed

lemma sum_map_all_Inr: "(\<And>x. x \<in> set xs \<Longrightarrow> f x = Inr (g x)) \<Longrightarrow> sum_map f xs = Inr (map g xs)"
  by (induction xs) auto

end
