(* ===== verification/Thread_State.thy ===== *)
theory Thread_State
  imports Py_Prelude
begin

text \<open>
  The vocabulary of work-item states: \<open>core/github_thread_state.py\<close> (claimable, terminal,
  resolved and stale GitHub threads) and \<open>core/local_item_state.py\<close> (terminal local
  findings). A row is a dictionary as the session or the GitHub snapshot holds it.
\<close>

section \<open>Definitions\<close>

definition GITHUB_THREAD_CLAIMABLE_STATES :: "string list" where
  "GITHUB_THREAD_CLAIMABLE_STATES = [''open'', ''blocked'', ''waiting_for_fix'', ''stale'']"

definition GITHUB_THREAD_TERMINAL_STATES :: "string list" where
  "GITHUB_THREAD_TERMINAL_STATES =
     [''closed'', ''fixed'', ''clarified'', ''deferred'', ''rejected'', ''resolved'', ''verified'', ''published'']"

definition LOCAL_TERMINAL_STATES :: "string list" where
  "LOCAL_TERMINAL_STATES =
     [''closed'', ''fixed'', ''clarified'', ''deferred'', ''rejected'', ''verified'', ''published'']"

text \<open>\<open>str(row.get(key) or "")\<close>.\<close>

definition text_field :: "pydict \<Rightarrow> string \<Rightarrow> string" where
  "text_field row k = py_str (py_or (dget row k) (PStr []))"

definition normalized_thread_state :: "pydict \<Rightarrow> string" where
  "normalized_thread_state row =
     (let state = py_lower (py_strip (text_field row ''state'')) in
      if state \<noteq> [] then state
      else let status = py_lower (py_strip (text_field row ''status'')) in
        if status = ''closed'' then ''closed''
        else if status = ''stale'' then ''stale''
        else status)"

definition is_github_thread_item :: "pydict \<Rightarrow> bool" where
  "is_github_thread_item row =
     (py_lower (py_str (py_or (py_or (dget row ''item_kind'') (dget row ''kind'')) (PStr []))) = ''github_thread'')"

definition is_resolved_github_thread :: "pydict \<Rightarrow> bool" where
  "is_resolved_github_thread row =
     (if has_key row ''isResolved'' then truthy (dget row ''isResolved'')
      else if has_key row ''is_resolved'' then truthy (dget row ''is_resolved'')
      else normalized_thread_state row \<in> set GITHUB_THREAD_TERMINAL_STATES)"

definition is_stale_or_outdated_github_thread :: "pydict \<Rightarrow> bool" where
  "is_stale_or_outdated_github_thread row =
     (let state = normalized_thread_state row;
          status = py_upper (py_strip (text_field row ''status''))
      in state = ''stale'' \<or> status = ''STALE''
         \<or> truthy (py_or (dget row ''is_outdated'') (dget row ''isOutdated'')))"

definition is_stale_github_thread_item :: "pydict \<Rightarrow> bool" where
  "is_stale_github_thread_item row \<longleftrightarrow> is_github_thread_item row \<and> is_stale_or_outdated_github_thread row"

definition is_terminal_github_thread :: "pydict \<Rightarrow> bool" where
  "is_terminal_github_thread row \<longleftrightarrow> normalized_thread_state row \<in> set GITHUB_THREAD_TERMINAL_STATES"

definition is_claimable_github_thread :: "bool \<Rightarrow> pydict \<Rightarrow> bool" where
  "is_claimable_github_thread require_item_kind row =
     (if require_item_kind \<and> \<not> is_github_thread_item row then False
      else if is_resolved_github_thread row then False
      else
        let ns = normalized_thread_state row;
            state = (if ns \<noteq> [] then ns
                     else if is_stale_or_outdated_github_thread row then ''stale'' else ''open'')
        in state \<in> set GITHUB_THREAD_CLAIMABLE_STATES)"

definition returned_claimable_state :: "pydict \<Rightarrow> string \<times> string" where
  "returned_claimable_state row =
     (if is_stale_or_outdated_github_thread row then (''stale'', ''STALE'') else (''open'', ''OPEN''))"

text \<open>\<open>core/utils.py: return_item_to_claimable_state\<close>.\<close>

definition return_item_to_claimable_state :: "pydict \<Rightarrow> pydict" where
  "return_item_to_claimable_state item =
     (let (state, status) = returned_claimable_state item
      in dset ''status'' (PStr status) (dset ''state'' (PStr state) item))"

section \<open>Lemmas\<close>

lemma terminal_not_claimable:
  "s \<in> set GITHUB_THREAD_TERMINAL_STATES \<Longrightarrow> s \<notin> set GITHUB_THREAD_CLAIMABLE_STATES"
  by (auto simp: GITHUB_THREAD_TERMINAL_STATES_def GITHUB_THREAD_CLAIMABLE_STATES_def)

lemma local_terminal_is_terminal:
  "s \<in> set LOCAL_TERMINAL_STATES \<Longrightarrow> s \<in> set GITHUB_THREAD_TERMINAL_STATES"
  by (auto simp: GITHUB_THREAD_TERMINAL_STATES_def LOCAL_TERMINAL_STATES_def)

lemma text_field_dset [simp]:
  "text_field (dset k v d) k' = (if k = k' then py_str (py_or v (PStr [])) else text_field d k')"
  by (simp add: text_field_def)

lemma text_field_dpop [simp]:
  "text_field (dpop k d) k' = (if k = k' then [] else text_field d k')"
  by (simp add: text_field_def py_or_def)

lemma lower_strip_open: "py_lower (py_strip ''open'') = ''open''" "py_lower (py_strip ''stale'') = ''stale''"
  by code_simp+

lemma upper_strip_words: "py_upper (py_strip ''OPEN'') = ''OPEN''" "py_upper (py_strip ''STALE'') = ''STALE''"
  by code_simp+

lemma dget_return_item:
  "dget (return_item_to_claimable_state item) k =
     (if k = ''status'' then PStr (snd (returned_claimable_state item))
      else if k = ''state'' then PStr (fst (returned_claimable_state item))
      else dget item k)"
  by (auto simp: return_item_to_claimable_state_def split: prod.splits)

lemma has_key_return_item:
  "has_key (return_item_to_claimable_state item) k \<longleftrightarrow> k \<in> {''state'', ''status''} \<or> has_key item k"
  by (auto simp: return_item_to_claimable_state_def split: prod.splits)

lemma returned_state_cases:
  "returned_claimable_state item = (''stale'', ''STALE'') \<or> returned_claimable_state item = (''open'', ''OPEN'')"
  by (simp add: returned_claimable_state_def)

lemma normalized_state_returned:
  "normalized_thread_state (return_item_to_claimable_state item) = fst (returned_claimable_state item)"
  using returned_state_cases [of item]
  by (auto simp: normalized_thread_state_def text_field_def dget_return_item py_or_def lower_strip_open)

lemma returned_state_claimable:
  "fst (returned_claimable_state item) \<in> set GITHUB_THREAD_CLAIMABLE_STATES"
  using returned_state_cases [of item] by (auto simp: GITHUB_THREAD_CLAIMABLE_STATES_def)

lemma returned_state_nonempty: "fst (returned_claimable_state item) \<noteq> []"
  using returned_state_cases [of item] by auto

text \<open>
  Staleness survives the return: an outdated thread handed back after its lease ended is
  still stale, a thread that was not stale is not made stale.
\<close>

lemma stale_preserved_by_return:
  "is_stale_or_outdated_github_thread (return_item_to_claimable_state item)
     = is_stale_or_outdated_github_thread item"
proof (cases "is_stale_or_outdated_github_thread item")
  case True
  then have "returned_claimable_state item = (''stale'', ''STALE'')"
    by (simp add: returned_claimable_state_def)
  then have "normalized_thread_state (return_item_to_claimable_state item) = ''stale''"
    by (simp add: normalized_state_returned)
  with True show ?thesis by (simp add: is_stale_or_outdated_github_thread_def)
next
  case False
  then have r: "returned_claimable_state item = (''open'', ''OPEN'')"
    by (simp add: returned_claimable_state_def)
  from False have "\<not> truthy (py_or (dget item ''is_outdated'') (dget item ''isOutdated''))"
    by (simp add: is_stale_or_outdated_github_thread_def Let_def)
  with r have "\<not> is_stale_or_outdated_github_thread (return_item_to_claimable_state item)"
    by (simp add: is_stale_or_outdated_github_thread_def normalized_state_returned
        text_field_def dget_return_item py_or_def upper_strip_words)
  with False show ?thesis by simp
qed

text \<open>The keys the claim machinery reads are untouched when an item is returned.\<close>

lemma return_item_idem:
  "returned_claimable_state (return_item_to_claimable_state item) = returned_claimable_state item"
  by (simp add: returned_claimable_state_def stale_preserved_by_return)

section \<open>Properties\<close>

text \<open>
  A returned item is claimable. When a lease ends without an accepted result the item
  goes back through \<open>return_item_to_claimable_state\<close>. If the row carries no resolved
  flag, the resulting row is not resolved and is claimable again, whatever state the row
  was in before, and its staleness is exactly what it was.
\<close>

theorem returned_item_is_claimable:
  assumes "\<not> has_key item ''isResolved''" and "\<not> has_key item ''is_resolved''"
  shows "is_claimable_github_thread False (return_item_to_claimable_state item)
       \<and> \<not> is_resolved_github_thread (return_item_to_claimable_state item)
       \<and> is_stale_or_outdated_github_thread (return_item_to_claimable_state item)
           = is_stale_or_outdated_github_thread item"
proof -
  let ?r = "return_item_to_claimable_state item"
  have n: "normalized_thread_state ?r \<in> set GITHUB_THREAD_CLAIMABLE_STATES" "normalized_thread_state ?r \<noteq> []"
    by (simp_all add: normalized_state_returned returned_state_claimable returned_state_nonempty)
  then have "\<not> is_resolved_github_thread ?r"
    using assms terminal_not_claimable
    by (auto simp: is_resolved_github_thread_def has_key_return_item)
  with n show ?thesis
    by (simp add: is_claimable_github_thread_def stale_preserved_by_return)
qed

theorem returned_item_is_claimable_witness:
  "is_claimable_github_thread False
     (return_item_to_claimable_state [(''item_id'', PStr ''t1''), (''state'', PStr ''claimed'')])"
proof -
  have "\<not> has_key [(''item_id'', PStr ''t1''), (''state'', PStr ''claimed'')] ''isResolved''"
       "\<not> has_key [(''item_id'', PStr ''t1''), (''state'', PStr ''claimed'')] ''is_resolved''"
    by simp_all
  from returned_item_is_claimable [OF this] show ?thesis by blast
qed

text \<open>
  Resolved and claimable exclude each other, and a row with no explicit flag is
  resolved exactly when its normalized state is terminal; so a terminal thread is never
  offered for work, in any casing or with surrounding blanks, since both predicates read
  the same normalized state.
\<close>

theorem claimable_excludes_terminal:
  "\<not> (is_claimable_github_thread k row \<and> is_resolved_github_thread row) \<and>
   (\<not> has_key row ''isResolved'' \<and> \<not> has_key row ''is_resolved'' \<longrightarrow>
      is_resolved_github_thread row = is_terminal_github_thread row \<and>
      \<not> (is_claimable_github_thread k row \<and> is_terminal_github_thread row))"
  by (auto simp: is_claimable_github_thread_def is_resolved_github_thread_def is_terminal_github_thread_def)

theorem claimable_excludes_terminal_witness:
  "\<not> is_claimable_github_thread False [(''state'', PStr '' Fixed '')]
   \<and> is_terminal_github_thread [(''state'', PStr '' Fixed '')]"
proof -
  have t: "is_terminal_github_thread [(''state'', PStr '' Fixed '')]" by code_simp
  have "\<not> has_key [(''state'', PStr '' Fixed '')] ''isResolved'' \<and> \<not> has_key [(''state'', PStr '' Fixed '')] ''is_resolved''"
    by simp
  with t claimable_excludes_terminal [of False "[(''state'', PStr '' Fixed '')]"] show ?thesis by blast
qed

end
