(* ===== verification/Conflict_Keys.thy ===== *)
theory Conflict_Keys
  imports Py_Prelude
begin

text \<open>
  Conflict keys of work items (\<open>core/leases.py\<close>): the keys an item claims, the normalisation
  of repository paths, the printed form of a line range and its parser, and the overlap of
  two key sets. The abstract view of a key is the set of file cells it covers
  (\<open>key_region\<close>); the overlap test is proved exact for it.
\<close>

section \<open>Repository paths\<close>

abbreviation slash :: char where "slash \<equiv> CHR ''/''"
abbreviation backslash :: char where "backslash \<equiv> CHR 0x5C"

text \<open>\<open>posixpath.normpath\<close>: one component, then the whole path.\<close>

definition norm_comp :: "bool \<Rightarrow> string list \<Rightarrow> string \<Rightarrow> string list" where
  "norm_comp rooted acc part =
     (if part = [] \<or> part = ''.'' then acc
      else if part \<noteq> ''..'' \<or> (\<not> rooted \<and> acc = []) \<or> (acc \<noteq> [] \<and> last acc = ''..'')
      then acc @ [part]
      else if acc \<noteq> [] then butlast acc
      else acc)"

definition initial_slashes :: "string \<Rightarrow> nat" where
  "initial_slashes path =
     (if startswith path ''/''
      then (if startswith path ''//'' \<and> \<not> startswith path ''///'' then 2 else 1)
      else 0)"

definition norm_comps :: "string \<Rightarrow> string list" where
  "norm_comps path = foldl (norm_comp (initial_slashes path \<noteq> 0)) [] (split_char slash path)"

definition posix_normpath :: "string \<Rightarrow> string" where
  "posix_normpath path =
     (if path = [] then ''.''
      else let p = replicate (initial_slashes path) slash @ py_join ''/'' (norm_comps path)
           in if p = [] then ''.'' else p)"

definition normalize_repo_path :: "string \<Rightarrow> string" where
  "normalize_repo_path path =
     (let normalized = posix_normpath (replace_char backslash slash path)
      in if normalized = ''.'' then []
         else dropWhile (\<lambda>c. c = slash) (removeprefix normalized ''./''))"

section \<open>Keys\<close>

definition coerce_positive_int :: "pyval \<Rightarrow> int option" where
  "coerce_positive_int value =
     (case py_int value of Inl _ \<Rightarrow> None | Inr number \<Rightarrow> if number > 0 then Some number else None)"

text \<open>The text \<open>hunk:<path>:<start>-<end>\<close>.\<close>

definition hunk_key :: "string \<Rightarrow> int \<Rightarrow> int \<Rightarrow> string" where
  "hunk_key path start stop = ''hunk:'' @ path @ '':'' @ int_dec start @ ''-'' @ int_dec stop"

text \<open>The text \<open>file:<path>\<close>, its test and its path.\<close>

definition file_key :: "string \<Rightarrow> string" where
  "file_key path = ''file:'' @ path"

definition is_file_key :: "string \<Rightarrow> bool" where
  "is_file_key key = startswith key ''file:''"

definition file_key_path :: "string \<Rightarrow> string" where
  "file_key_path key = removeprefix key ''file:''"

definition hunk_conflict_key :: "pydict \<Rightarrow> string option" where
  "hunk_conflict_key item =
     (let path = dget item ''path'' in
      if \<not> truthy path then None
      else
        let start = coerce_positive_int
                (py_or (py_or (dget item ''start_line'') (dget item ''line'')) (dget item ''original_line''));
            stop = coerce_positive_int
                (py_or (py_or (py_or (dget item ''end_line'') (dget item ''original_end_line''))
                   (dget item ''line'')) (dget item ''original_line''))
        in (case (start, stop) of
              (Some s, Some e) \<Rightarrow>
                (let (s, e) = (if e < s then (e, s) else (s, e))
                 in Some (hunk_key (normalize_repo_path (py_str path)) s e))
            | _ \<Rightarrow> None))"

definition parse_hunk_key :: "string \<Rightarrow> (string \<times> int \<times> int) option" where
  "parse_hunk_key key =
     (if \<not> startswith key ''hunk:'' then None
      else let body = removeprefix key ''hunk:'';
               (path, separator, range_text) = py_rpartition CHR '':'' body
        in if \<not> separator then None
           else let (start_text, dash, end_text) = py_partition CHR ''-'' range_text
             in if \<not> dash then None
                else (case (coerce_positive_int (PStr start_text), coerce_positive_int (PStr end_text)) of
                        (Some s, Some e) \<Rightarrow> Some (path, s, e)
                      | _ \<Rightarrow> None))"

text \<open>Iterating over a value: the elements of a list, the characters of a text, the keys of
  a dictionary; anything else raises \<open>TypeError\<close>.\<close>

definition py_iter :: "pyval \<Rightarrow> py_exn + pyval list" where
  "py_iter v = (case v of
       PList xs \<Rightarrow> Inr xs
     | PStr s \<Rightarrow> Inr (map (\<lambda>c. PStr [c]) s)
     | PDict d \<Rightarrow> Inr (map (\<lambda>kv. PStr (fst kv)) d)
     | _ \<Rightarrow> Inl (TypeError (str_repr (type_name v) @ '' object is not iterable'')))"

definition calculate_conflict_keys :: "pydict \<Rightarrow> py_exn + string list" where
  "calculate_conflict_keys item =
     (let item_id = dget item ''item_id'';
          id_keys = (if truthy item_id then [''item:'' @ py_str item_id] else []);
          path = dget item ''path'';
          path_keys =
            (if truthy path
             then (case hunk_conflict_key item of
                     Some k \<Rightarrow> [k]
                   | None \<Rightarrow> [file_key (normalize_repo_path (py_str path))])
             else [])
      in case py_iter (py_or (dget item ''conflict_keys'') (PList [])) of
           Inl e \<Rightarrow> Inl e
         | Inr extra \<Rightarrow>
             let extra_keys = map py_str (filter truthy extra);
                 thread_id = py_or (py_or (dget item ''thread_id'') (dget item ''github_thread_id''))
                               (dget item ''remote_thread_id'');
                 thread_keys =
                   (if truthy thread_id
                    then (''thread:'' @ py_str thread_id)
                         # (if dget item ''item_kind'' = PStr ''github_thread''
                            then [''github_reply:'' @ py_str thread_id, ''github_resolve:'' @ py_str thread_id]
                            else [])
                    else [])
             in Inr (sort (remdups (id_keys @ path_keys @ extra_keys @ thread_keys))))"

section \<open>Overlap\<close>

definition file_paths :: "string list \<Rightarrow> string list" where
  "file_paths keys = map file_key_path (filter is_file_key keys)"

definition hunks_of :: "string list \<Rightarrow> (string \<times> int \<times> int) list" where
  "hunks_of keys = concat (map (\<lambda>k. case parse_hunk_key k of None \<Rightarrow> [] | Some h \<Rightarrow> [h]) keys)"

definition hunk_keys_in :: "string list \<Rightarrow> string list \<Rightarrow> string list" where
  "hunk_keys_in paths keys =
     filter (\<lambda>k. case parse_hunk_key k of None \<Rightarrow> False | Some (p, _, _) \<Rightarrow> p \<in> set paths) keys"

definition hunk_overlap :: "string list \<Rightarrow> string list \<Rightarrow> string set" where
  "hunk_overlap candidate_keys existing_keys =
     set (hunk_keys_in (file_paths existing_keys) candidate_keys)
     \<union> set (hunk_keys_in (file_paths candidate_keys) existing_keys)
     \<union> set (concat (map (\<lambda>(cp, cs, ce).
          concat (map (\<lambda>(ep, es, ee).
              if cp = ep \<and> cs \<le> ee \<and> es \<le> ce then [hunk_key cp (max cs es) (min ce ee)] else [])
            (hunks_of existing_keys)))
        (hunks_of candidate_keys)))"

section \<open>Lemmas: printing and parsing line ranges\<close>

lemma int_dec_notin:
  assumes "0 \<le> i" and "(of_char c :: nat) < 48 \<or> 57 < (of_char c :: nat)"
  shows "c \<notin> set (int_dec i)"
  using assms nat_dec_notin by (simp add: int_dec_def)

lemma coerce_int_dec [simp]: "coerce_positive_int (PStr (int_dec i)) = (if i > 0 then Some i else None)"
  by (simp add: coerce_positive_int_def py_int_def)

lemma coerce_positive: "coerce_positive_int v = Some n \<Longrightarrow> 0 < n"
  by (auto simp: coerce_positive_int_def split: sum.splits if_splits)

lemma parse_hunk_key_hunk_key:
  assumes "0 < s" "0 < e"
  shows "parse_hunk_key (hunk_key p s e) = Some (p, s, e)"
proof -
  have nc: "CHR '':'' \<notin> set (int_dec s @ CHR ''-'' # int_dec e)"
    using assms int_dec_notin [of s "CHR '':''"] int_dec_notin [of e "CHR '':''"] by simp
  have "py_rpartition CHR '':'' (p @ CHR '':'' # (int_dec s @ CHR ''-'' # int_dec e))
          = (p, True, int_dec s @ CHR ''-'' # int_dec e)"
    by (rule py_rpartition_append [OF nc])
  moreover have "py_partition CHR ''-'' (int_dec s @ CHR ''-'' # int_dec e) = (int_dec s, True, int_dec e)"
    using assms int_dec_notin [of s "CHR ''-''"] by (intro py_partition_append) simp
  moreover have "hunk_key p s e = ''hunk:'' @ (p @ CHR '':'' # (int_dec s @ CHR ''-'' # int_dec e))"
    by (simp add: hunk_key_def)
  ultimately show ?thesis
    using assms by (simp only: parse_hunk_key_def startswith_append removeprefix_append) simp
qed

lemma is_file_key [simp]: "is_file_key (file_key p)" and file_key_path [simp]: "file_key_path (file_key p) = p"
  by (simp_all only: is_file_key_def file_key_def file_key_path_def startswith_append removeprefix_append)

lemma file_keyE: "is_file_key k \<Longrightarrow> k = file_key (file_key_path k)"
  by (metis file_key_def file_key_path is_file_key_def startswithE)

lemma hunk_key_not_file: "\<not> is_file_key (hunk_key p s e)"
  by (simp add: hunk_key_def is_file_key_def startswith_def)

lemma parse_hunk_keyD: "parse_hunk_key k = Some (p, s, e) \<Longrightarrow> 0 < s \<and> 0 < e \<and> startswith k ''hunk:''"
  by (auto simp: parse_hunk_key_def Let_def split: if_splits prod.splits option.splits dest: coerce_positive)

lemma hunks_of_iff: "h \<in> set (hunks_of keys) \<longleftrightarrow> (\<exists>k \<in> set keys. parse_hunk_key k = Some h)"
  by (cases h) (force simp: hunks_of_def split: option.splits)

lemma hunk_keys_in_iff:
  "k \<in> set (hunk_keys_in ps keys) \<longleftrightarrow>
     k \<in> set keys \<and> (\<exists>p s e. parse_hunk_key k = Some (p, s, e) \<and> p \<in> set ps)"
  by (auto simp: hunk_keys_in_def split: option.splits)

lemma file_paths_iff: "p \<in> set (file_paths keys) \<longleftrightarrow> file_key p \<in> set keys"
  unfolding file_paths_def using file_keyE by (auto simp: image_iff intro!: exI [of _ "file_key p"])

section \<open>Lemmas: regions\<close>

text \<open>
  The abstract view: the (path, line) cells a key covers. A file key covers every line of
  its path, a line-range key its lines; other keys (items, threads) cover no cell.
\<close>

definition key_region :: "string \<Rightarrow> (string \<times> int) set" where
  "key_region k =
     (if is_file_key k then {file_key_path k} \<times> UNIV
      else (case parse_hunk_key k of None \<Rightarrow> {} | Some (p, s, e) \<Rightarrow> {p} \<times> {s..e}))"

definition region :: "string list \<Rightarrow> (string \<times> int) set" where
  "region keys = (\<Union>k \<in> set keys. key_region k)"

definition path_key :: "string \<Rightarrow> bool" where
  "path_key k \<longleftrightarrow> is_file_key k \<or> startswith k ''hunk:''"

text \<open>The ranges are written low to high, as \<open>hunk_conflict_key\<close> writes them.\<close>

definition ordered_hunks :: "string list \<Rightarrow> bool" where
  "ordered_hunks keys \<longleftrightarrow> (\<forall>(p, s, e) \<in> set (hunks_of keys). s \<le> e)"

lemma parse_file_key [simp]: "parse_hunk_key (file_key p) = None"
  by (simp add: parse_hunk_key_def startswith_def file_key_def)

lemma file_not_hunk: "is_file_key k \<Longrightarrow> parse_hunk_key k = None"
  using file_keyE [of k] parse_file_key [of "file_key_path k"] by simp

lemma key_region_file [simp]: "key_region (file_key p) = {p} \<times> UNIV"
  by (simp add: key_region_def)

lemma key_region_hunk: "parse_hunk_key k = Some (p, s, e) \<Longrightarrow> key_region k = {p} \<times> {s..e}"
  using file_not_hunk [of k] by (auto simp: key_region_def)

lemma region_iff:
  "(p, n) \<in> region keys \<longleftrightarrow>
     p \<in> set (file_paths keys) \<or> (\<exists>s e. (p, s, e) \<in> set (hunks_of keys) \<and> s \<le> n \<and> n \<le> e)"
proof
  assume "(p, n) \<in> region keys"
  then obtain k where k: "k \<in> set keys" "(p, n) \<in> key_region k" by (auto simp: region_def)
  show "p \<in> set (file_paths keys) \<or> (\<exists>s e. (p, s, e) \<in> set (hunks_of keys) \<and> s \<le> n \<and> n \<le> e)"
  proof (cases "is_file_key k")
    case True
    then obtain q where "k = file_key q" using file_keyE by blast
    with k show ?thesis by (auto simp: file_paths_iff)
  next
    case False
    with k obtain s e where h: "parse_hunk_key k = Some (p, s, e)" "s \<le> n" "n \<le> e"
      by (auto simp: key_region_def split: option.splits)
    with k(1) show ?thesis unfolding hunks_of_iff by blast
  qed
next
  assume "p \<in> set (file_paths keys) \<or> (\<exists>s e. (p, s, e) \<in> set (hunks_of keys) \<and> s \<le> n \<and> n \<le> e)"
  then show "(p, n) \<in> region keys"
    by (force simp: region_def file_paths_iff hunks_of_iff key_region_hunk)
qed

lemma hunk_overlap_iff:
  "hunk_overlap a b \<noteq> {} \<longleftrightarrow>
     (\<exists>p s e. (p, s, e) \<in> set (hunks_of a) \<and> p \<in> set (file_paths b)) \<or>
     (\<exists>p s e. (p, s, e) \<in> set (hunks_of b) \<and> p \<in> set (file_paths a)) \<or>
     (\<exists>p s e s' e'. (p, s, e) \<in> set (hunks_of a) \<and> (p, s', e') \<in> set (hunks_of b) \<and> s \<le> e' \<and> s' \<le> e)"
proof -
  have 1: "set (hunk_keys_in ps ks) \<noteq> {} \<longleftrightarrow> (\<exists>p s e. (p, s, e) \<in> set (hunks_of ks) \<and> p \<in> set ps)" for ps ks
  proof -
    have "set (hunk_keys_in ps ks) \<noteq> {} \<longleftrightarrow> (\<exists>k. k \<in> set (hunk_keys_in ps ks))" by (metis empty_iff equals0I)
    then show ?thesis unfolding hunk_keys_in_iff hunks_of_iff by blast
  qed
  have 2: "set (concat (map (\<lambda>(cp, cs, ce).
          concat (map (\<lambda>(ep, es, ee).
              if cp = ep \<and> cs \<le> ee \<and> es \<le> ce then [hunk_key cp (max cs es) (min ce ee)] else [])
            (hunks_of b))) (hunks_of a))) \<noteq> {} \<longleftrightarrow>
      (\<exists>p s e s' e'. (p, s, e) \<in> set (hunks_of a) \<and> (p, s', e') \<in> set (hunks_of b) \<and> s \<le> e' \<and> s' \<le> e)"
    by (fastforce split: if_splits)
  show ?thesis unfolding hunk_overlap_def Un_empty de_Morgan_conj 1 2 by blast
qed

lemma region_meet:
  assumes "ordered_hunks a" "ordered_hunks b"
  shows "region a \<inter> region b \<noteq> {} \<longleftrightarrow>
     (\<exists>p. p \<in> set (file_paths a) \<and> p \<in> set (file_paths b)) \<or> hunk_overlap a b \<noteq> {}"
proof -
  have "region a \<inter> region b \<noteq> {} \<longleftrightarrow> (\<exists>p n. (p, n) \<in> region a \<and> (p, n) \<in> region b)" by auto
  also have "\<dots> \<longleftrightarrow> (\<exists>p. p \<in> set (file_paths a) \<and> p \<in> set (file_paths b)) \<or>
     (\<exists>p s e. (p, s, e) \<in> set (hunks_of a) \<and> p \<in> set (file_paths b)) \<or>
     (\<exists>p s e. (p, s, e) \<in> set (hunks_of b) \<and> p \<in> set (file_paths a)) \<or>
     (\<exists>p s e s' e'. (p, s, e) \<in> set (hunks_of a) \<and> (p, s', e') \<in> set (hunks_of b) \<and> s \<le> e' \<and> s' \<le> e)"
    (is "?L = ?R")
  proof
    assume ?L
    then obtain p n where "(p, n) \<in> region a" "(p, n) \<in> region b" by blast
    then show ?R unfolding region_iff by (meson order_trans)
  next
    assume R: ?R
    have range: "s \<le> e" if "(p, s, e) \<in> set (hunks_of a) \<or> (p, s, e) \<in> set (hunks_of b)" for p s e
      using that assms by (auto simp: ordered_hunks_def)
    from R show ?L
    proof (elim disjE exE conjE)
      fix p s e s' e'
      assume h: "(p, s, e) \<in> set (hunks_of a)" "(p, s', e') \<in> set (hunks_of b)" "s \<le> e'" "s' \<le> e"
      then have "s \<le> max s s'" "max s s' \<le> e" "s' \<le> max s s'" "max s s' \<le> e'" using range by fastforce+
      with h show ?L unfolding region_iff by blast
    next
      fix p s e
      assume "(p, s, e) \<in> set (hunks_of a)" "p \<in> set (file_paths b)"
      then show ?L unfolding region_iff using range [of p s e] by blast
    next
      fix p s e
      assume "(p, s, e) \<in> set (hunks_of b)" "p \<in> set (file_paths a)"
      then show ?L unfolding region_iff using range [of p s e] by blast
    qed (use region_iff in blast)
  qed
  finally show ?thesis unfolding hunk_overlap_iff by blast
qed

lemma hunk_of_path_key: "(p, s, e) \<in> set (hunks_of ks) \<Longrightarrow> \<exists>k \<in> set ks. path_key k \<and> parse_hunk_key k = Some (p, s, e)"
  by (auto simp: hunks_of_iff path_key_def dest: parse_hunk_keyD)

text \<open>Every key \<open>calculate_conflict_keys\<close> derives from the item itself has an ordered range.\<close>

lemma hunk_conflict_key_ordered:
  "hunk_conflict_key item = Some k \<Longrightarrow> \<exists>p s e. parse_hunk_key k = Some (p, s, e) \<and> s \<le> e"
  by (auto simp: hunk_conflict_key_def Let_def parse_hunk_key_hunk_key dest!: coerce_positive
      split: if_splits option.splits)

section \<open>Lemmas: path normalisation\<close>

lemma split_char_notin: "\<forall>x \<in> set (split_char c s). c \<notin> set x \<and> set x \<subseteq> set s"
proof (induction s)
  case Nil
  then show ?case by simp
next
  case (Cons a s)
  show ?case
  proof (cases "a = c")
    case True
    with Cons show ?thesis by auto
  next
    case False
    with Cons show ?thesis by (cases "split_char c s") auto
  qed
qed

lemma split_char_nonempty [simp]: "split_char c s \<noteq> []"
  by (induction s) (auto split: list.splits)

lemma split_char_plain: "c \<notin> set x \<Longrightarrow> split_char c x = [x]"
  by (induction x) auto

lemma split_char_append: "c \<notin> set x \<Longrightarrow> split_char c (x @ c # s) = x # split_char c s"
  by (induction x) auto

lemma split_char_join:
  "xs \<noteq> [] \<Longrightarrow> \<forall>x \<in> set xs. c \<notin> set x \<Longrightarrow> split_char c (py_join [c] xs) = xs"
proof (induction xs)
  case Nil
  then show ?case by simp
next
  case (Cons x xs)
  then show ?case by (cases xs) (auto simp: split_char_plain split_char_append)
qed

text \<open>A path component that survives normalisation, and the shape of the component list.\<close>

definition plain_part :: "string \<Rightarrow> bool" where
  "plain_part p \<longleftrightarrow> p \<noteq> [] \<and> p \<noteq> ''.'' \<and> slash \<notin> set p \<and> backslash \<notin> set p"

definition norm_shape :: "bool \<Rightarrow> string list \<Rightarrow> bool" where
  "norm_shape rooted ps \<longleftrightarrow>
     (\<forall>p \<in> set ps. plain_part p) \<and>
     (\<exists>k rest. ps = replicate k ''..'' @ rest \<and> ''..'' \<notin> set rest \<and> (rooted \<longrightarrow> k = 0))"

lemma norm_shapeI:
  "ps = replicate k ''..'' @ rest \<Longrightarrow> \<forall>p \<in> set (replicate k ''..'' @ rest). plain_part p \<Longrightarrow> ''..'' \<notin> set rest \<Longrightarrow>
     (rooted \<longrightarrow> k = 0) \<Longrightarrow> norm_shape rooted ps"
  by (auto simp: norm_shape_def)

lemma plain_dotdot: "plain_part ''..''"
  by (simp add: plain_part_def)

lemma norm_shape_Nil [simp]: "norm_shape rooted []"
  by (simp add: norm_shape_def)

lemma norm_shape_norm_comp:
  assumes "norm_shape rooted acc" "slash \<notin> set part" "backslash \<notin> set part"
  shows "norm_shape rooted (norm_comp rooted acc part)"
proof -
  obtain k rest where acc: "acc = replicate k ''..'' @ rest" "''..'' \<notin> set rest" "rooted \<longrightarrow> k = 0"
      and plain: "\<forall>p \<in> set acc. plain_part p"
    using assms(1) by (auto simp: norm_shape_def)
  consider (skip) "part = [] \<or> part = ''.''" | (name) "plain_part part" "part \<noteq> ''..''"
    | (up) "part = ''..''"
    using assms(2,3) by (auto simp: plain_part_def)
  then show ?thesis
  proof cases
    case skip
    with assms(1) show ?thesis by (auto simp: norm_comp_def)
  next
    case name
    then have "norm_comp rooted acc part = replicate k ''..'' @ (rest @ [part])"
      using acc(1) by (auto simp: norm_comp_def plain_part_def)
    moreover have "\<forall>p \<in> set (replicate k ''..'' @ (rest @ [part])). plain_part p"
      using plain name(1) acc(1) by auto
    ultimately show ?thesis
      using acc(2,3) name(2)
      by (intro norm_shapeI [of _ k "rest @ [part]"]) auto
  next
    case up
    show ?thesis
    proof (cases "rest = []")
      case True
      show ?thesis
      proof (cases "rooted")
        case True
        with acc \<open>rest = []\<close> up show ?thesis by (simp add: norm_comp_def)
      next
        case False
        then have "norm_comp rooted acc part = replicate (Suc k) ''..'' @ []"
          using acc \<open>rest = []\<close> up by (cases k) (auto simp: norm_comp_def replicate_append_same)
        then show ?thesis
          using False plain_dotdot by (intro norm_shapeI [of _ "Suc k" "[]"]) auto
      qed
    next
      case False
      then have "last acc \<noteq> ''..''" using acc by (metis last_appendR last_in_set)
      then have "norm_comp rooted acc part = replicate k ''..'' @ butlast rest"
        using False acc(1) up by (auto simp: norm_comp_def butlast_append)
      moreover have "\<forall>p \<in> set (replicate k ''..'' @ butlast rest). plain_part p"
        using plain acc(1) by (auto dest: in_set_butlastD)
      ultimately show ?thesis
        using acc(2,3) by (intro norm_shapeI [of _ k "butlast rest"]) (auto dest: in_set_butlastD)
    qed
  qed
qed

lemma norm_shape_foldl:
  "\<forall>p \<in> set parts. slash \<notin> set p \<and> backslash \<notin> set p \<Longrightarrow> norm_shape rooted acc \<Longrightarrow>
     norm_shape rooted (foldl (norm_comp rooted) acc parts)"
  by (induction parts arbitrary: acc) (auto simp: norm_shape_norm_comp)

lemma norm_shape_norm_comps:
  "backslash \<notin> set path \<Longrightarrow> norm_shape (initial_slashes path \<noteq> 0) (norm_comps path)"
  unfolding norm_comps_def using split_char_notin [of slash path]
  by (intro norm_shape_foldl norm_shape_Nil) blast

lemma foldl_dotdots: "foldl (norm_comp False) (replicate j ''..'') (replicate k ''..'') = replicate (j + k) ''..''"
proof (induction k arbitrary: j)
  case 0
  then show ?case by simp
next
  case (Suc k)
  have "norm_comp False (replicate j ''..'') ''..'' = replicate (Suc j) ''..''"
    by (cases j) (auto simp: norm_comp_def replicate_append_same)
  with Suc [of "Suc j"] show ?case by simp
qed

lemma foldl_names:
  "\<forall>p \<in> set ps. plain_part p \<and> p \<noteq> ''..'' \<Longrightarrow> foldl (norm_comp False) acc ps = acc @ ps"
  by (induction ps arbitrary: acc) (auto simp: norm_comp_def plain_part_def)

lemma foldl_normal:
  assumes "norm_shape rooted ps"
  shows "foldl (norm_comp False) [] ps = ps"
proof -
  obtain k rest where ps: "ps = replicate k ''..'' @ rest" "''..'' \<notin> set rest" "\<forall>p \<in> set ps. plain_part p"
    using assms by (auto simp: norm_shape_def)
  have "foldl (norm_comp False) [] (replicate k ''..'') = replicate k ''..''"
    using foldl_dotdots [of 0 k] by simp
  moreover have "\<forall>p \<in> set rest. plain_part p \<and> p \<noteq> ''..''" using ps by auto
  ultimately show ?thesis using foldl_names [of rest "replicate k ''..''"] ps(1) by simp
qed

lemma join_plain_Cons:
  assumes "plain_part p"
  shows "\<exists>c cs. py_join ''/'' (p # ps) = c # cs \<and> c \<noteq> slash"
  using assms by (cases ps; cases p) (auto simp: plain_part_def)

lemma join_not_dot:
  assumes "plain_part p"
  shows "py_join ''/'' (p # ps) \<noteq> ''.'' \<and> \<not> startswith (py_join ''/'' (p # ps)) ''./''"
proof -
  obtain c cs where p: "p = c # cs" using assms by (cases p) (auto simp: plain_part_def)
  show ?thesis
  proof (cases cs)
    case Nil
    with p assms have "c \<noteq> CHR ''.''" by (auto simp: plain_part_def)
    with p Nil show ?thesis by (cases ps) (auto simp: startswith_def)
  next
    case (Cons d ds)
    with p assms have "d \<noteq> slash" by (auto simp: plain_part_def)
    with p Cons show ?thesis by (cases ps) (auto simp: startswith_def)
  qed
qed

lemma normalize_join:
  "normalize_repo_path path = py_join ''/'' (norm_comps (replace_char backslash slash path))"
proof -
  define s where "s = replace_char backslash slash path"
  have bs: "backslash \<notin> set s" by (auto simp: s_def replace_char_def)
  have shape: "\<forall>p \<in> set (norm_comps s). plain_part p"
    using norm_shape_norm_comps [OF bs] by (simp add: norm_shape_def)
  have drop: "dropWhile (\<lambda>c. c = slash) (replicate m slash @ xs) = dropWhile (\<lambda>c. c = slash) xs" for m xs
    by (induction m) auto
  show ?thesis
  proof (cases "norm_comps s")
    case Nil
    have dw: "dropWhile (\<lambda>c. c = slash) (replicate m slash) = []" for m by (induction m) auto
    have m: "initial_slashes s \<in> {0, 1, 2}" by (simp add: initial_slashes_def)
    then have "dropWhile (\<lambda>c. c = slash) (removeprefix (replicate (initial_slashes s) slash) ''./'') = []"
      by (auto simp: removeprefix_def startswith_def numeral_2_eq_2)
    then show ?thesis
      unfolding normalize_repo_path_def s_def [symmetric] posix_normpath_def Nil by (simp add: Let_def)
  next
    case (Cons p ps)
    then have pp: "plain_part p" using shape by simp
    obtain c cs where j: "py_join ''/'' (p # ps) = c # cs" "c \<noteq> slash" using join_plain_Cons [OF pp] by blast
    have s0: "s \<noteq> []" using Cons by (auto simp: norm_comps_def norm_comp_def)
    let ?n = "replicate (initial_slashes s) slash @ py_join ''/'' (p # ps)"
    have n: "posix_normpath s = ?n" using s0 Cons j by (simp add: posix_normpath_def)
    have nd: "?n \<noteq> ''.'' \<and> \<not> startswith ?n ''./''"
    proof (cases "initial_slashes s")
      case 0
      with join_not_dot [OF pp] show ?thesis by simp
    next
      case (Suc m)
      then show ?thesis by (simp add: startswith_def)
    qed
    then have "normalize_repo_path path = dropWhile (\<lambda>c. c = slash) ?n"
      unfolding normalize_repo_path_def s_def [symmetric] n by (simp add: removeprefix_def)
    also have "\<dots> = py_join ''/'' (p # ps)" using j by (simp only: drop) simp
    finally show ?thesis using Cons s_def by simp
  qed
qed

lemma join_chars: "c \<in> set (py_join sep ps) \<Longrightarrow> c \<in> set sep \<or> (\<exists>p \<in> set ps. c \<in> set p)"
  by (induction sep ps rule: py_join.induct) auto

section \<open>Properties\<close>

text \<open>
  Path normalisation is canonical. Normalising a normalised repository path changes
  nothing, and a normalised path never starts with a slash and has no backslash; so two
  spellings of one path that normalise to the same text give the same conflict keys.
\<close>

theorem normalize_repo_path_idem:
  "normalize_repo_path (normalize_repo_path path) = normalize_repo_path path
   \<and> \<not> startswith (normalize_repo_path path) ''/'' \<and> backslash \<notin> set (normalize_repo_path path)"
proof -
  define s where "s = replace_char backslash slash path"
  define r where "r = normalize_repo_path path"
  have r: "r = py_join ''/'' (norm_comps s)" by (simp add: r_def s_def normalize_join)
  have bs: "backslash \<notin> set s" by (auto simp: s_def replace_char_def)
  note shape = norm_shape_norm_comps [OF bs]
  then have plain: "\<forall>p \<in> set (norm_comps s). plain_part p" by (simp add: norm_shape_def)
  have nb: "backslash \<notin> set r"
  proof
    assume "backslash \<in> set r"
    then show False using plain r join_chars [of backslash "''/''" "norm_comps s"]
      by (auto simp: plain_part_def)
  qed
  have ns: "\<not> startswith r ''/''"
  proof (cases "norm_comps s")
    case Nil
    then show ?thesis by (simp add: r startswith_def)
  next
    case (Cons p ps)
    with plain have "plain_part p" by simp
    with r Cons show ?thesis using join_plain_Cons [of p ps] by (auto simp: startswith_def)
  qed
  have "replace_char backslash slash r = r"
    unfolding replace_char_def using nb by (intro map_idI) auto
  then have "normalize_repo_path r = py_join ''/'' (norm_comps r)" by (simp add: normalize_join)
  also have "norm_comps r = norm_comps s"
  proof (cases "norm_comps s = []")
    case True
    then show ?thesis using r by (simp add: norm_comps_def norm_comp_def)
  next
    case False
    have "split_char slash r = norm_comps s"
      unfolding r using False plain by (intro split_char_join) (auto simp: plain_part_def)
    moreover have "initial_slashes r = 0" using ns by (simp add: initial_slashes_def)
    ultimately show ?thesis using foldl_normal [OF shape] by (simp add: norm_comps_def [of r])
  qed
  finally show ?thesis using r r_def nb ns by simp
qed

text \<open>
  A line-range key survives printing and parsing, for every path (also one that
  contains colons or dashes) and every pair of positive lines.
\<close>

theorem hunk_key_roundtrip:
  assumes "0 < s" "0 < e"
  shows "parse_hunk_key (hunk_key p s e) = Some (p, s, e)"
  by (rule parse_hunk_key_hunk_key [OF assms])

theorem hunk_key_roundtrip_witness:
  "parse_hunk_key (hunk_key ''src/a:b-c.py'' 3 12) = Some (''src/a:b-c.py'', 3, 12)"
  by (rule hunk_key_roundtrip) simp_all

text \<open>
  The overlap test is exact. For key lists whose ranges are written low to high, two
  lists share a file key or have a non-empty \<open>hunk_overlap\<close> exactly when the file cells
  they cover intersect: a whole-file key meets every range of its file, ranges meet when
  they have a line in common, and nothing else is reported.
\<close>

theorem hunk_overlap_exact:
  assumes "ordered_hunks a" "ordered_hunks b"
  shows "((\<exists>p. file_key p \<in> set a \<and> file_key p \<in> set b) \<or> hunk_overlap a b \<noteq> {})
       \<longleftrightarrow> region a \<inter> region b \<noteq> {}"
  using region_meet [OF assms] by (simp add: file_paths_iff)

theorem hunk_overlap_exact_witness:
  "region [hunk_key ''a.py'' 1 5] \<inter> region [hunk_key ''a.py'' 5 9] \<noteq> {} \<and>
   region [hunk_key ''a.py'' 1 5] \<inter> region [hunk_key ''a.py'' 6 9, file_key ''b.py''] = {}"
proof -
  have h: "hunks_of [hunk_key ''a.py'' s e] = [(''a.py'', s, e)]"
      "hunks_of [hunk_key ''a.py'' s e, file_key ''b.py''] = [(''a.py'', s, e)]" if "0 < s" "0 < e" for s e
    using that by (simp_all add: hunks_of_def parse_hunk_key_hunk_key)
  have o: "ordered_hunks [hunk_key ''a.py'' 1 5]" "ordered_hunks [hunk_key ''a.py'' 5 9]"
      "ordered_hunks [hunk_key ''a.py'' 6 9, file_key ''b.py'']"
    by (simp_all add: ordered_hunks_def h)
  have nf: "file_key p \<notin> set [hunk_key ''a.py'' 1 5]" for p
    using hunk_key_not_file is_file_key by (metis empty_iff empty_set set_ConsD)
  have "hunk_overlap [hunk_key ''a.py'' 1 5] [hunk_key ''a.py'' 5 9] \<noteq> {}"
    unfolding hunk_overlap_iff by (simp add: h)
  moreover have "file_paths [hunk_key ''a.py'' 1 5] = []"
      "file_paths [hunk_key ''a.py'' 6 9, file_key ''b.py''] = [''b.py'']"
    by (simp_all add: file_paths_def hunk_key_not_file)
  then have "hunk_overlap [hunk_key ''a.py'' 1 5] [hunk_key ''a.py'' 6 9, file_key ''b.py''] = {}"
    using hunk_overlap_iff [of "[hunk_key ''a.py'' 1 5]" "[hunk_key ''a.py'' 6 9, file_key ''b.py'']"]
    by (simp add: h)
  ultimately show ?thesis
    using hunk_overlap_exact [OF o(1,2)] hunk_overlap_exact [OF o(1,3)] nf by blast
qed

end
