(* ===== verification/Command_Templates.thy ===== *)
theory Command_Templates
  imports Py_Prelude
begin

text \<open>
  \<open>core/command_templates.py\<close>: the command lines the runtime suggests as the next action.
  \<open>shell_command\<close> joins the arguments after quoting each the way \<open>shlex.quote\<close> does; an
  argument in angle brackets is a placeholder and stays literal. The templates are one
  definition per function. \<open>shell_words\<close> is the specification side: the words a POSIX shell
  reads from such a line.
\<close>

section \<open>Quoting\<close>

abbreviation sq :: char where "sq \<equiv> CHR 0x27"
abbreviation dq :: char where "dq \<equiv> CHR 0x22"

definition safe_char :: "char \<Rightarrow> bool" where
  "safe_char c =
     (let n = (of_char c :: nat) in
      (48 \<le> n \<and> n \<le> 57) \<or> (65 \<le> n \<and> n \<le> 90) \<or> (97 \<le> n \<and> n \<le> 122) \<or> c \<in> set ''_@%+=:,./-'')"

text \<open>\<open>shlex.quote\<close>.\<close>

definition quote_body :: "string \<Rightarrow> string" where
  "quote_body s = concat (map (\<lambda>c. if c = sq then [sq, dq, sq, dq, sq] else [c]) s)"

definition shlex_quote :: "string \<Rightarrow> string" where
  "shlex_quote s =
     (if s = [] then [sq, sq]
      else if \<forall>c \<in> set s. safe_char c then s
      else [sq] @ quote_body s @ [sq])"

definition quote_arg :: "string \<Rightarrow> string" where
  "quote_arg text =
     (if startswith text ''<'' \<and> endswith text ''>'' then text else shlex_quote text)"

definition shell_command :: "string list \<Rightarrow> string" where
  "shell_command parts = py_join '' '' (map quote_arg parts)"

section \<open>Templates\<close>

definition tmpl_address :: "string \<Rightarrow> string \<Rightarrow> string" where
  "tmpl_address repo pr_number =
     shell_command [''gh-address-cr'', ''address'', repo, pr_number, ''--lean'']"

definition tmpl_review :: "string \<Rightarrow> string \<Rightarrow> string" where
  "tmpl_review repo pr_number =
     shell_command [''gh-address-cr'', ''review'', repo, pr_number]"

definition tmpl_review_auto_simple :: "string \<Rightarrow> string \<Rightarrow> string" where
  "tmpl_review_auto_simple repo pr_number =
     shell_command [''gh-address-cr'', ''review'', ''--auto-simple'', repo, pr_number, ''--lean'']"

definition tmpl_findings_refresh :: "string \<Rightarrow> string \<Rightarrow> string" where
  "tmpl_findings_refresh repo pr_number =
     shell_command [''gh-address-cr'', ''findings'', repo, pr_number, ''--input'', ''<findings.json>'',
        ''--source'', ''<source>'']"

definition tmpl_threads :: "string \<Rightarrow> string \<Rightarrow> string" where
  "tmpl_threads repo pr_number =
     shell_command [''gh-address-cr'', ''threads'', repo, pr_number, ''--lean'']"

definition tmpl_threads_full :: "string \<Rightarrow> string \<Rightarrow> string" where
  "tmpl_threads_full repo pr_number =
     shell_command [''gh-address-cr'', ''threads'', repo, pr_number]"

definition tmpl_classify :: "string \<Rightarrow> string \<Rightarrow> string" where
  "tmpl_classify repo pr_number =
     shell_command [''gh-address-cr'', ''agent'', ''classify'', repo, pr_number, ''<item_id>'',
        ''--classification'', ''fix'', ''--note'', ''<note>'']"

definition tmpl_next_fixer :: "string \<Rightarrow> string \<Rightarrow> string" where
  "tmpl_next_fixer repo pr_number =
     shell_command [''gh-address-cr'', ''agent'', ''next'', repo, pr_number, ''--role'', ''fixer'',
        ''--agent-id'', ''<agent_id>'']"

definition tmpl_next_fixer_for_item :: "string \<Rightarrow> string \<Rightarrow> string \<Rightarrow> string \<Rightarrow> string" where
  "tmpl_next_fixer_for_item repo pr_number item_id agent_id =
     shell_command [''gh-address-cr'', ''agent'', ''next'', repo, pr_number, ''--role'', ''fixer'',
        ''--agent-id'', agent_id, ''--item-id'', item_id]"

definition tmpl_submit :: "string \<Rightarrow> string \<Rightarrow> string \<Rightarrow> string" where
  "tmpl_submit repo pr_number input_path =
     shell_command [''gh-address-cr'', ''agent'', ''submit'', repo, pr_number, ''--input'', input_path]"

definition tmpl_resolve_item :: "string \<Rightarrow> string \<Rightarrow> string \<Rightarrow> string" where
  "tmpl_resolve_item repo pr_number item_id =
     shell_command [''gh-address-cr'', ''agent'', ''resolve'', repo, pr_number, item_id, ''--commit'',
        ''<sha>'', ''--files'', ''<paths>'', ''--summary'', ''<text>'', ''--why'', ''<text>'',
        ''--validation'', ''<cmd=passed>'']"

definition tmpl_resolve_single :: "string \<Rightarrow> string \<Rightarrow> string" where
  "tmpl_resolve_single repo pr_number = tmpl_resolve_item repo pr_number ''<item_id>''"

definition tmpl_resolve_batch :: "string \<Rightarrow> string \<Rightarrow> string \<Rightarrow> string" where
  "tmpl_resolve_batch repo pr_number input_path =
     shell_command [''gh-address-cr'', ''agent'', ''resolve'', repo, pr_number, ''--input'', input_path]"

definition tmpl_resolve_homogeneous :: "string \<Rightarrow> string \<Rightarrow> string" where
  "tmpl_resolve_homogeneous repo pr_number =
     shell_command [''gh-address-cr'', ''agent'', ''resolve'', repo, pr_number, ''--commit'', ''<sha>'',
        ''--files'', ''<paths>'', ''--validation'', ''<cmd=passed>'', ''--why'', ''<why>'']"

definition tmpl_resolve_decline :: "string \<Rightarrow> string \<Rightarrow> string \<Rightarrow> string" where
  "tmpl_resolve_decline repo pr_number resolution =
     shell_command [''gh-address-cr'', ''agent'', ''resolve'', repo, pr_number, ''--disposition'', resolution,
        ''--files'', ''<paths>'', ''--why'', ''<why>'']"

definition tmpl_resolve_stale :: "string \<Rightarrow> string \<Rightarrow> string" where
  "tmpl_resolve_stale repo pr_number =
     shell_command [''gh-address-cr'', ''agent'', ''resolve'', repo, pr_number, ''--commit'', ''<sha>'',
        ''--files'', ''<paths>'', ''--validation'', ''<cmd=passed>'', ''--stale'']"

definition tmpl_evidence_add_validation :: "string \<Rightarrow> string \<Rightarrow> string \<Rightarrow> string" where
  "tmpl_evidence_add_validation repo pr_number item_id =
     shell_command [''gh-address-cr'', ''agent'', ''evidence'', ''add'', repo, pr_number, ''--item-id'',
        item_id, ''--commit'', ''<sha>'', ''--files'', ''<paths>'', ''--validation'',
        ''<cmd=passed>'']"

definition tmpl_evidence_add_reply :: "string \<Rightarrow> string \<Rightarrow> string \<Rightarrow> string" where
  "tmpl_evidence_add_reply repo pr_number item_id =
     shell_command [''gh-address-cr'', ''agent'', ''evidence'', ''add'', repo, pr_number, ''--item-id'',
        item_id, ''--reply-url'', ''<reply_url>'', ''--author-login'', ''<login>'']"

definition tmpl_resolve_closed_fix :: "string \<Rightarrow> string \<Rightarrow> string \<Rightarrow> string" where
  "tmpl_resolve_closed_fix repo pr_number item_id =
     shell_command [''gh-address-cr'', ''agent'', ''resolve'', repo, pr_number, item_id, ''--closed'',
        ''--commit'', ''<sha>'', ''--files'', ''<paths>'', ''--summary'', ''<text>'',
        ''--why'', ''<text>'', ''--validation'', ''<cmd=passed>'']"

definition tmpl_resolve_closed_clarify :: "string \<Rightarrow> string \<Rightarrow> string \<Rightarrow> string" where
  "tmpl_resolve_closed_clarify repo pr_number item_id =
     shell_command [''gh-address-cr'', ''agent'', ''resolve'', repo, pr_number, item_id, ''--closed'',
        ''--disposition'', ''clarify'', ''--why'', ''<text>'']"

definition tmpl_evidence_add_reply_with_validation :: "string \<Rightarrow> string \<Rightarrow> string \<Rightarrow> string" where
  "tmpl_evidence_add_reply_with_validation repo pr_number item_id =
     shell_command [''gh-address-cr'', ''agent'', ''evidence'', ''add'', repo, pr_number, ''--item-id'',
        item_id, ''--reply-url'', ''<reply_url>'', ''--author-login'', ''<login>'',
        ''--commit'', ''<sha>'', ''--files'', ''<paths>'', ''--validation'', ''<cmd=passed>'']"

definition tmpl_publish :: "string \<Rightarrow> string \<Rightarrow> string" where
  "tmpl_publish repo pr_number =
     shell_command [''gh-address-cr'', ''agent'', ''publish'', repo, pr_number]"

definition tmpl_reclaim :: "string \<Rightarrow> string \<Rightarrow> string" where
  "tmpl_reclaim repo pr_number =
     shell_command [''gh-address-cr'', ''agent'', ''reclaim'', repo, pr_number]"

definition tmpl_leases :: "string \<Rightarrow> string \<Rightarrow> string" where
  "tmpl_leases repo pr_number =
     shell_command [''gh-address-cr'', ''agent'', ''leases'', repo, pr_number]"

definition tmpl_final_gate :: "string \<Rightarrow> string \<Rightarrow> string" where
  "tmpl_final_gate repo pr_number =
     shell_command [''gh-address-cr'', ''final-gate'', repo, pr_number]"

definition tmpl_final_gate_stack :: "string \<Rightarrow> string \<Rightarrow> string" where
  "tmpl_final_gate_stack repo pr_number =
     shell_command [''gh-address-cr'', ''final-gate'', repo, pr_number, ''--stack'']"

text \<open>\<open>files\<close> is \<open>None\<close> or a list of paths; a path with a comma is dropped.\<close>

definition tmpl_batch_next :: "string \<Rightarrow> string \<Rightarrow> string list option \<Rightarrow> string" where
  "tmpl_batch_next repo pr_number files =
     (let parts = [''gh-address-cr'', ''agent'', ''next'', repo, pr_number, ''--batch'',
                   ''--agent-id'', ''<agent_id>''];
          extra = (case files of
              None \<Rightarrow> []
            | Some [] \<Rightarrow> []
            | Some fs \<Rightarrow>
                let usable = sort (filter (\<lambda>p. p \<noteq> [] \<and> CHR '','' \<notin> set p) fs)
                in if usable \<noteq> [] then [''--files'', py_join '','' usable] else [''--files'', ''<paths>''])
      in shell_command (parts @ extra))"

definition tmpl_stack_member_recovery :: "string \<Rightarrow> string \<Rightarrow> string option \<Rightarrow> string option \<Rightarrow> string" where
  "tmpl_stack_member_recovery repo pr_number reason_code layer_reason_code =
     (if reason_code \<in> {Some ''STACK_MEMBER_SESSION_MISSING'', Some ''STACK_MEMBER_SESSION_INVALID''}
      then tmpl_review_auto_simple repo pr_number
      else if reason_code = Some ''STACK_MEMBER_BLOCKED'' then
        (if layer_reason_code \<in> {Some ''FINAL_GATE_UNRESOLVED_REMOTE_THREADS'',
                                  Some ''FINAL_GATE_BLOCKING_GITHUB_ITEMS''}
         then tmpl_address repo pr_number
         else if layer_reason_code = Some ''FINAL_GATE_MISSING_REPLY_EVIDENCE''
         then tmpl_evidence_add_reply repo pr_number ''<item_id>''
         else if layer_reason_code \<in> {Some ''FINAL_GATE_MISSING_VALIDATION_EVIDENCE'',
                                       Some ''FINAL_GATE_STALE_REVISION_EVIDENCE'',
                                       Some ''FINAL_GATE_UNBOUND_REVISION_EVIDENCE''}
         then tmpl_evidence_add_validation repo pr_number ''<item_id>''
         else if layer_reason_code = Some ''FINAL_GATE_BLOCKING_LOCAL_ITEMS''
         then tmpl_review repo pr_number
         else tmpl_final_gate repo pr_number)
      else if reason_code \<in> {Some ''STACK_CONTEXT_STALE'', Some ''STACK_CONTEXT_INVALID'',
                              Some ''STACK_CONTEXT_UNAVAILABLE''}
      then tmpl_address repo pr_number
      else ''Inspect the named member state in GitHub, then rerun '' @ tmpl_final_gate_stack repo pr_number)"

section \<open>What a shell reads back\<close>

definition shell_blank :: "char \<Rightarrow> bool" where
  "shell_blank c = (c \<in> {CHR '' '', CHR 0x09, CHR 0x0A})"

definition word_of :: "string option \<Rightarrow> string" where
  "word_of cur = (case cur of None \<Rightarrow> [] | Some w \<Rightarrow> w)"

text \<open>
  \<open>shell_read q cur cs\<close>: the words of \<open>cs\<close>, inside quotes \<open>q\<close> if any, with the word \<open>cur\<close>
  begun so far if any; \<open>None\<close> for a quotation that is not closed.
\<close>

fun shell_read :: "char option \<Rightarrow> string option \<Rightarrow> string \<Rightarrow> string list option" where
  "shell_read None cur [] = Some (case cur of None \<Rightarrow> [] | Some w \<Rightarrow> [w])"
| "shell_read (Some q) cur [] = None"
| "shell_read None cur (c # cs) =
     (if shell_blank c then map_option (\<lambda>ws. (case cur of None \<Rightarrow> [] | Some w \<Rightarrow> [w]) @ ws) (shell_read None None cs)
      else if c = sq \<or> c = dq then shell_read (Some c) (Some (word_of cur)) cs
      else shell_read None (Some (word_of cur @ [c])) cs)"
| "shell_read (Some q) cur (c # cs) =
     (if c = q then shell_read None cur cs
      else shell_read (Some q) (Some (word_of cur @ [c])) cs)"

definition shell_words :: "string \<Rightarrow> string list option" where
  "shell_words s = shell_read None None s"

text \<open>An argument the templates quote faithfully: no placeholder, or one without blanks and quotes.\<close>

definition quotable :: "string \<Rightarrow> bool" where
  "quotable p =
     (startswith p ''<'' \<and> endswith p ''>'' \<longrightarrow> (\<forall>c \<in> set p. \<not> shell_blank c \<and> c \<noteq> sq \<and> c \<noteq> dq))"

lemma safe_char_plain: "safe_char c \<Longrightarrow> \<not> shell_blank c \<and> c \<noteq> sq \<and> c \<noteq> dq"
  by (auto simp: safe_char_def shell_blank_def)

lemma read_plain:
  "\<forall>c \<in> set s. \<not> shell_blank c \<and> c \<noteq> sq \<and> c \<noteq> dq \<Longrightarrow>
     shell_read None (Some w) (s @ rest) = shell_read None (Some (w @ s)) rest"
  by (induction s arbitrary: w) (auto simp: word_of_def)

lemma read_plain_start:
  "s \<noteq> [] \<Longrightarrow> \<forall>c \<in> set s. \<not> shell_blank c \<and> c \<noteq> sq \<and> c \<noteq> dq \<Longrightarrow>
     shell_read None None (s @ rest) = shell_read None (Some s) rest"
  using read_plain by (cases s) (auto simp: word_of_def)

lemma read_quote_body:
  "shell_read (Some sq) (Some w) (quote_body s @ sq # rest) = shell_read None (Some (w @ s)) rest"
proof (induction s arbitrary: w)
  case Nil
  then show ?case by (simp add: quote_body_def)
next
  case (Cons c s)
  then show ?case by (simp add: quote_body_def word_of_def shell_blank_def)
qed

lemma read_quote_arg:
  assumes "quotable p"
  shows "shell_read None None (quote_arg p @ rest) = shell_read None (Some p) rest"
proof -
  consider (ph) "startswith p ''<'' \<and> endswith p ''>''" | (empty) "p = []"
    | (safe) "quote_arg p = p" "p \<noteq> []" "\<forall>c \<in> set p. safe_char c"
    | (quoted) "quote_arg p = [sq] @ quote_body p @ [sq]"
    by (cases "startswith p ''<'' \<and> endswith p ''>''"; cases "p = []"; cases "\<forall>c \<in> set p. safe_char c")
      (simp_all add: quote_arg_def shlex_quote_def)
  then show ?thesis
  proof cases
    case ph
    then have "p \<noteq> []" by (auto simp: startswith_def)
    with ph assms show ?thesis
      by (simp add: quote_arg_def quotable_def read_plain_start)
  next
    case empty
    then show ?thesis
      by (simp add: quote_arg_def shlex_quote_def startswith_def word_of_def shell_blank_def)
  next
    case safe
    then show ?thesis using safe_char_plain by (simp add: read_plain_start)
  next
    case quoted
    then show ?thesis
      using read_quote_body [of "[]" p rest] by (simp add: word_of_def shell_blank_def)
  qed
qed

lemma read_join:
  "\<forall>p \<in> set ps. quotable p \<Longrightarrow> shell_read None None (py_join '' '' (map quote_arg ps)) = Some ps"
proof (induction ps)
  case Nil
  then show ?case by simp
next
  case (Cons p ps)
  show ?case
  proof (cases ps)
    case Nil
    with Cons.prems read_quote_arg [of p "[]"] show ?thesis by simp
  next
    case (Cons q qs)
    with Cons.prems Cons.IH show ?thesis
      by (simp add: read_quote_arg shell_blank_def)
  qed
qed

section \<open>Properties\<close>

text \<open>
  Every suggested command line reads back as the argument list it was built from. For
  any arguments (item ids with blanks, quotes or empty text included) a shell splits
  \<open>shell_command parts\<close> into exactly \<open>parts\<close>; only a placeholder that itself contains
  blanks or quotes is excluded. No argument is split, merged or dropped.
\<close>

theorem shell_command_roundtrip:
  assumes "\<forall>p \<in> set parts. quotable p"
  shows "shell_words (shell_command parts) = Some parts"
  unfolding shell_words_def shell_command_def by (rule read_join [OF assms])

theorem shell_command_roundtrip_witness:
  "shell_words (shell_command [''gh-address-cr'', ''a b'', [], [sq, CHR ''x'', dq], ''<item_id>''])
     = Some [''gh-address-cr'', ''a b'', [], [sq, CHR ''x'', dq], ''<item_id>'']"
proof -
  have "\<forall>p \<in> set [''gh-address-cr'', ''a b'', [], [sq, CHR ''x'', dq], ''<item_id>'']. quotable p"
    by code_simp
  then show ?thesis by (rule shell_command_roundtrip)
qed

end
