(* ===== verification/Leases.thy ===== *)
theory Leases
  imports Thread_State Conflict_Keys Command_Templates
begin

text \<open>
  Claim leases (\<open>core/leases.py\<close>, with \<open>return_expired_items_to_open\<close> of
  \<open>core/utils.py\<close>, \<open>parse_role\<close> of \<open>agent/roles.py\<close> and \<open>ClaimLease\<close> of
  \<open>core/models.py\<close>): claiming an item, submitting, accepting, releasing, expiring and
  reclaiming leases, and the recovery advice for a lease that cannot be used.

  The session is passed explicitly: an operation maps a session to a result (an error or a
  value) and the session it leaves behind, also when it raises, since the code mutates the
  session before it raises. Times are instants in microseconds. The random suffix of a new
  lease id is an argument.
\<close>

section \<open>State\<close>

text \<open>
  A role is a member of the \<open>AgentRole\<close> enumeration on a lease created in this process,
  and plain text on a lease loaded from the store. The two compare equal, but \<open>str\<close> of an
  enumeration member is its qualified name.
\<close>

datatype lease_role = EnumRole string | TextRole string

definition AGENT_ROLES :: "string list" where
  "AGENT_ROLES = [''coordinator'', ''review_producer'', ''triage'', ''fixer'', ''verifier'', ''publisher'',
                  ''gatekeeper'']"

fun role_value :: "lease_role \<Rightarrow> string" where
  "role_value (EnumRole r) = r"
| "role_value (TextRole r) = r"

fun role_str :: "lease_role \<Rightarrow> string" where
  "role_str (EnumRole r) = ''AgentRole.'' @ py_upper r"
| "role_str (TextRole r) = r"

definition parse_role :: "string \<Rightarrow> py_exn + lease_role" where
  "parse_role value =
     (if value \<in> set AGENT_ROLES then Inr (EnumRole value)
      else Inl (ValueError (''unsupported agent role: '' @ value)))"

record lease =
  lease_id :: string
  l_item_id :: string
  l_agent_id :: string
  l_role :: lease_role
  l_status :: string
  l_created_at :: int
  l_expires_at :: int
  l_resume_token :: "string option"
  l_request_hash :: "string option"
  l_request_id :: "string option"
  l_request_path :: "string option"
  l_conflict_keys :: "string list"
  l_submitted_at :: "int option"
  l_completed_at :: "int option"
  l_reason :: "string option"

datatype lease_event =
    LeaseEvent string int string string string lease_role string "string option"
      \<comment> \<open>event type, timestamp, lease, item, agent, role, status, reason\<close>
  | LeaseRecoveryEvent int string string string string string string
      \<comment> \<open>timestamp, lease, item, agent, status, recovery outcome, reason code\<close>

record lease_session =
  s_items :: pydict
  s_leases :: "(string \<times> lease) list"
  s_events :: "lease_event list"
  s_repo :: string
  s_pr :: string

record lease_recovery =
  r_lease_id :: string
  r_item_id :: string
  r_agent_id :: string
  r_request_id :: string
  r_request_hash :: string
  r_lease_status :: string
  r_item_state :: string
  r_recovery_outcome :: string
  r_reason_code :: string
  r_resume_command :: "string option"

datatype lease_error =
    LeaseConflictError string string
  | LeaseSubmissionError string string "lease_recovery option"
  | LeaseRaised py_exn

definition ACTIVE_LEASE_STATUSES :: "string list" where
  "ACTIVE_LEASE_STATUSES = [''active'', ''submitted'']"

definition TERMINAL_LEASE_STATUSES :: "string list" where
  "TERMINAL_LEASE_STATUSES = [''accepted'', ''rejected'', ''expired'', ''released'']"

definition READ_ONLY_ROLES :: "string list" where
  "READ_ONLY_ROLES = [''triage'', ''verifier'', ''review_producer'', ''gatekeeper'']"

definition LEASE_RECOVERY_OUTCOMES :: "string list" where
  "LEASE_RECOVERY_OUTCOMES = [''renew'', ''reclaim'', ''refresh_state'', ''stop'', ''already_completed'']"

abbreviation lease_at :: "lease_session \<Rightarrow> string \<Rightarrow> lease option" where
  "lease_at s k \<equiv> map_of (s_leases s) k"

definition put_lease :: "string \<Rightarrow> lease \<Rightarrow> lease_session \<Rightarrow> lease_session" where
  "put_lease k l s = s\<lparr>s_leases := AList.update k l (s_leases s)\<rparr>"

definition put_item :: "string \<Rightarrow> pydict \<Rightarrow> lease_session \<Rightarrow> lease_session" where
  "put_item k d s = s\<lparr>s_items := dset k (PDict d) (s_items s)\<rparr>"

definition append_event :: "lease_event \<Rightarrow> lease_session \<Rightarrow> lease_session" where
  "append_event e s = s\<lparr>s_events := s_events s @ [e]\<rparr>"

definition is_active :: "lease \<Rightarrow> bool" where
  "is_active l \<longleftrightarrow> l_status l \<in> set ACTIVE_LEASE_STATUSES"

definition is_expired :: "lease \<Rightarrow> int \<Rightarrow> bool" where
  "is_expired l now \<longleftrightarrow> l_expires_at l \<le> now"

definition is_read_only_role :: "string \<Rightarrow> bool" where
  "is_read_only_role role \<longleftrightarrow> role \<in> set READ_ONLY_ROLES"

definition append_lease_event :: "lease \<Rightarrow> string \<Rightarrow> int \<Rightarrow> string option \<Rightarrow> lease_session \<Rightarrow> lease_session" where
  "append_lease_event l event_type now reason s =
     append_event (LeaseEvent event_type now (lease_id l) (l_item_id l) (l_agent_id l) (l_role l) (l_status l) reason) s"

section \<open>Expiry\<close>

definition clear_claim :: "pydict \<Rightarrow> pydict" where
  "clear_claim item =
     dpop ''active_lease_id''
       (dset ''lease_expires_at'' PNone (dset ''claimed_at'' PNone (dset ''claimed_by'' PNone item)))"

definition return_expired_item :: "lease \<Rightarrow> lease_session \<Rightarrow> lease_session" where
  "return_expired_item l s =
     (case dget (s_items s) (l_item_id l) of
        PDict item \<Rightarrow>
          if dget item ''active_lease_id'' = PStr (lease_id l)
          then put_item (l_item_id l) (clear_claim (return_item_to_claimable_state item)) s
          else s
      | _ \<Rightarrow> s)"

definition return_expired_items_to_open :: "lease list \<Rightarrow> lease_session \<Rightarrow> lease_session" where
  "return_expired_items_to_open expired s = fold return_expired_item expired s"

definition reopen_claimed_item :: "lease \<Rightarrow> lease_session \<Rightarrow> lease_session" where
  "reopen_claimed_item l s =
     (case dget (s_items s) (l_item_id l) of
        PDict item \<Rightarrow>
          if dget item ''state'' = PStr ''claimed''
             \<and> dget item ''active_lease_id'' \<in> {PNone, PStr (lease_id l)}
             \<and> dget item ''claimed_by'' \<in> {PNone, PStr (l_agent_id l)}
          then put_item (l_item_id l) (clear_claim (dset ''state'' (PStr ''open'') item)) s
          else s
      | _ \<Rightarrow> s)"

text \<open>\<open>_expire_lease\<close> on the lease stored under the key \<open>k\<close>.\<close>

definition expire_lease :: "string \<Rightarrow> lease \<Rightarrow> int \<Rightarrow> lease_session \<Rightarrow> lease \<times> lease_session" where
  "expire_lease k l now s =
     (let l' = l\<lparr>l_status := ''expired'', l_completed_at := Some now\<rparr>;
          s1 = put_lease k l' s;
          s2 = return_expired_items_to_open [l'] s1;
          s3 = reopen_claimed_item l' s2
      in (l', append_lease_event l' ''lease_expired'' now None s3))"

fun expire_loop :: "int \<Rightarrow> string list \<Rightarrow> lease_session \<Rightarrow> lease list \<times> lease_session" where
  "expire_loop now [] s = ([], s)"
| "expire_loop now (k # ks) s =
     (case lease_at s k of
        None \<Rightarrow> expire_loop now ks s
      | Some l \<Rightarrow>
          if is_active l \<and> is_expired l now
          then let (l', s') = expire_lease k l now s;
                   (expired, s'') = expire_loop now ks s'
               in (l' # expired, s'')
          else expire_loop now ks s)"

definition expire_leases :: "int \<Rightarrow> lease_session \<Rightarrow> lease list \<times> lease_session" where
  "expire_leases now s = expire_loop now (map fst (s_leases s)) s"

section \<open>Claim\<close>

record claim_args =
  c_agent_id :: string
  c_role :: string
  c_request_hash :: string
  c_lease_id :: "string option"
  c_uuid_hex :: string
  c_now :: int
  c_ttl_seconds :: int
  c_resume_token :: "string option"
  c_request_id :: "string option"
  c_request_path :: "string option"
  c_conflict_keys :: "string list option"
  c_allow_overlap :: bool

definition same_agent_overlap_allowed :: "lease \<Rightarrow> string \<Rightarrow> string \<Rightarrow> string set \<Rightarrow> bool \<Rightarrow> bool" where
  "same_agent_overlap_allowed existing agent_id role overlap allow =
     (if \<not> allow then False
      else if role \<noteq> ''fixer'' \<or> role_value (l_role existing) \<noteq> role then False
      else if l_agent_id existing \<noteq> agent_id then False
      else if overlap = {} \<or> (\<exists>k \<in> overlap. \<not> (startswith k ''file:'' \<or> startswith k ''hunk:'')) then False
      else (\<exists>k \<in> set (l_conflict_keys existing). startswith k ''github_reply:'')
           \<and> (\<exists>k \<in> set (l_conflict_keys existing). startswith k ''github_resolve:''))"

definition key_overlap :: "string list \<Rightarrow> lease \<Rightarrow> string set" where
  "key_overlap keys existing =
     (set keys \<inter> set (l_conflict_keys existing)) \<union> hunk_overlap keys (l_conflict_keys existing)"

text \<open>An existing active lease on another item forbids the claim.\<close>

definition blocks_claim :: "claim_args \<Rightarrow> string list \<Rightarrow> lease \<Rightarrow> bool" where
  "blocks_claim a keys existing \<longleftrightarrow>
     key_overlap keys existing \<noteq> {}
     \<and> \<not> (is_read_only_role (c_role a) \<and> is_read_only_role (role_value (l_role existing)))
     \<and> \<not> same_agent_overlap_allowed existing (c_agent_id a) (c_role a) (key_overlap keys existing) (c_allow_overlap a)"

fun claim_conflict :: "claim_args \<Rightarrow> string \<Rightarrow> string list \<Rightarrow> lease list \<Rightarrow> lease_error option" where
  "claim_conflict a item_id keys [] = None"
| "claim_conflict a item_id keys (existing # ls) =
     (if \<not> is_active existing then claim_conflict a item_id keys ls
      else if l_item_id existing = item_id then Some (LeaseConflictError ''ITEM_ALREADY_LEASED'' item_id)
      else if blocks_claim a keys existing
      then Some (LeaseConflictError ''CONFLICT_KEYS_OVERLAP''
             (py_join '', '' (sorted_list_of_set (key_overlap keys existing))))
      else claim_conflict a item_id keys ls)"

definition claim_keys :: "claim_args \<Rightarrow> pydict \<Rightarrow> py_exn + string list" where
  "claim_keys a item =
     (case c_conflict_keys a of
        Some ks \<Rightarrow> Inr (sort (remdups ks))
      | None \<Rightarrow> (case calculate_conflict_keys item of Inl e \<Rightarrow> Inl e | Inr ks \<Rightarrow> Inr (sort (remdups ks))))"

definition new_lease :: "claim_args \<Rightarrow> string \<Rightarrow> string list \<Rightarrow> lease_role \<Rightarrow> lease" where
  "new_lease a item_id keys role =
     \<lparr>lease_id = (case c_lease_id a of Some i \<Rightarrow> if i \<noteq> [] then i else ''lease_'' @ c_uuid_hex a
                   | None \<Rightarrow> ''lease_'' @ c_uuid_hex a),
      l_item_id = item_id, l_agent_id = c_agent_id a, l_role = role, l_status = ''active'',
      l_created_at = c_now a, l_expires_at = c_now a + 1000000 * c_ttl_seconds a,
      l_resume_token = c_resume_token a, l_request_hash = Some (c_request_hash a),
      l_request_id = c_request_id a, l_request_path = c_request_path a, l_conflict_keys = keys,
      l_submitted_at = None, l_completed_at = None, l_reason = None\<rparr>"

definition claim_lease :: "claim_args \<Rightarrow> pydict \<Rightarrow> lease_session \<Rightarrow> (lease_error + lease) \<times> lease_session" where
  "claim_lease a item s0 =
     (let s = snd (expire_leases (c_now a) s0);
          item_value = dget item ''item_id''
      in if item_value \<in> {PNone, PStr []}
         then (Inl (LeaseRaised (ValueError ''item_id is required'')), s)
         else let item_id = py_str item_value in
           (case claim_keys a item of
              Inl e \<Rightarrow> (Inl (LeaseRaised e), s)
            | Inr keys \<Rightarrow>
                (case claim_conflict a item_id keys (map snd (s_leases s)) of
                   Some e \<Rightarrow> (Inl e, s)
                 | None \<Rightarrow>
                     (case parse_role (c_role a) of
                        Inl e \<Rightarrow> (Inl (LeaseRaised e), s)
                      | Inr role \<Rightarrow>
                          let l = new_lease a item_id keys role
                          in (Inr l, append_lease_event l ''lease_created'' (c_now a) None
                                       (put_lease (lease_id l) l s))))))"

text \<open>\<open>reclaim_lease\<close>: expire, then claim with the defaults of the optional arguments.\<close>

definition reclaim_lease :: "claim_args \<Rightarrow> pydict \<Rightarrow> lease_session \<Rightarrow> (lease_error + lease) \<times> lease_session" where
  "reclaim_lease a item s =
     claim_lease (a\<lparr>c_conflict_keys := None, c_allow_overlap := False\<rparr>) item (snd (expire_leases (c_now a) s))"

section \<open>Recovery advice\<close>

definition get_field :: "pyval \<Rightarrow> string \<Rightarrow> pyval" where
  "get_field v k = (case v of PDict d \<Rightarrow> dget d k | _ \<Rightarrow> PNone)"

definition recovery_field :: "pyval \<Rightarrow> string \<Rightarrow> string option \<Rightarrow> string" where
  "recovery_field value dflt false_default =
     (if value = PNone \<or> value = PStr [] then dflt
      else if value = PBool False then (case false_default of None \<Rightarrow> dflt | Some d \<Rightarrow> d)
      else py_str value)"

abbreviation opt_text :: "string option \<Rightarrow> pyval" where
  "opt_text x \<equiv> (case x of None \<Rightarrow> PNone | Some t \<Rightarrow> PStr t)"

definition role_text :: "lease_role option \<Rightarrow> string \<Rightarrow> string" where
  "role_text value dflt =
     (case value of None \<Rightarrow> dflt
      | Some r \<Rightarrow> if role_value r = [] then dflt else role_value r)"

record recovery_ctx =
  x_item :: pyval
  x_item_state :: string
  x_lease :: "lease option"
  x_lease_status :: string
  x_lease_agent_id :: string
  x_lease_role :: string
  x_lease_request_hash :: string
  x_agent_id :: string
  x_role :: string
  x_item_active_lease_id :: pyval
  x_item_claimed_by :: pyval
  x_request_hash :: string
  x_now :: int
  x_lease_id :: string

definition evaluate_lease_recovery_outcome :: "recovery_ctx \<Rightarrow> string \<times> string" where
  "evaluate_lease_recovery_outcome ctx =
     (if x_item ctx \<noteq> PNone \<and> (truthy (get_field (x_item ctx) ''handled'') \<or> x_item_state ctx = ''handled'')
      then (''already_completed'', ''LEASE_ALREADY_COMPLETED'')
      else if x_lease_status ctx = ''accepted'' then (''already_completed'', ''LEASE_ALREADY_COMPLETED'')
      else if x_lease ctx \<noteq> None \<and> (x_lease_agent_id ctx \<noteq> x_agent_id ctx \<or> x_lease_role ctx \<noteq> x_role ctx)
      then (''stop'', ''LEASE_RECOVERY_STOP'')
      else if truthy (x_item_active_lease_id ctx) \<and> py_str (x_item_active_lease_id ctx) \<noteq> x_lease_id ctx
      then (''stop'', ''LEASE_RECOVERY_STOP'')
      else if truthy (x_item_claimed_by ctx) \<and> py_str (x_item_claimed_by ctx) \<noteq> x_agent_id ctx
      then (''stop'', ''LEASE_RECOVERY_STOP'')
      else if x_lease_status ctx = ''active'' \<and> x_lease_request_hash ctx \<noteq> x_request_hash ctx
      then (''refresh_state'', ''STALE_REQUEST_CONTEXT'')
      else if x_lease_status ctx = ''active'' \<and> (case x_lease ctx of None \<Rightarrow> False | Some l \<Rightarrow> is_expired l (x_now ctx))
      then (''renew'', ''EXPIRED_LEASE_RENEWABLE'')
      else if x_lease_status ctx = ''expired'' \<and> x_item_state ctx \<in> {''open'', ''claimed''}
      then (''reclaim'', ''EXPIRED_LEASE_RECLAIMABLE'')
      else if x_lease_status ctx \<in> {''rejected'', ''released''}
      then (if x_item_state ctx = ''open'' then (''reclaim'', ''EXPIRED_LEASE_RECLAIMABLE'')
            else (''refresh_state'', ''STALE_REQUEST_CONTEXT''))
      else if x_lease_status ctx = ''active'' then (''stop'', ''LEASE_ACTIVE'')
      else if x_lease_status ctx \<notin> {''active'', ''submitted''} then (''stop'', ''LEASE_RECOVERY_STOP'')
      else (''refresh_state'', ''STALE_REQUEST_CONTEXT''))"

definition or_text :: "string \<Rightarrow> string \<Rightarrow> string" where
  "or_text a b = (if a = [] then b else a)"

definition lease_recovery_resume_command :: "lease_session \<Rightarrow> string \<Rightarrow> string \<Rightarrow> string \<Rightarrow> string" where
  "lease_recovery_resume_command s item_id role agent_id =
     ''gh-address-cr agent next '' @ or_text (s_repo s) ''<owner/repo>'' @ '' '' @ or_text (s_pr s) ''<pr_number>''
     @ '' --role '' @ role @ '' --agent-id '' @ agent_id @ '' --item-id '' @ item_id"

definition lease_recovery_command_for ::
    "lease_session \<Rightarrow> string \<Rightarrow> string \<Rightarrow> string \<Rightarrow> string \<Rightarrow> string \<Rightarrow> string option" where
  "lease_recovery_command_for s item_id role agent_id recovery_outcome reason_code =
     (if recovery_outcome \<in> {''reclaim'', ''refresh_state'', ''renew''}
      then Some (lease_recovery_resume_command s item_id role agent_id)
      else if reason_code = ''LEASE_ACTIVE''
      then Some (tmpl_submit (or_text (s_repo s) ''<owner/repo>'') (or_text (s_pr s) ''<pr_number>'') ''response.json'')
      else None)"

definition recovery_context ::
    "lease_session \<Rightarrow> string \<Rightarrow> string \<Rightarrow> string \<Rightarrow> string \<Rightarrow> string \<Rightarrow> int \<Rightarrow> recovery_ctx" where
  "recovery_context s lid agent_id role item_id request_hash now =
     (let l = lease_at s lid;
          lease_item_id = recovery_field (case l of None \<Rightarrow> PNone | Some l \<Rightarrow> PStr (l_item_id l)) item_id None;
          item = (if l \<noteq> None then dget (s_items s) lease_item_id else dget (s_items s) item_id)
      in \<lparr>x_item = item,
          x_item_state = recovery_field (get_field item ''state'') ''missing'' None,
          x_lease = l,
          x_lease_status = recovery_field (case l of None \<Rightarrow> PNone | Some l \<Rightarrow> PStr (l_status l)) ''missing'' (Some ''unknown''),
          x_lease_agent_id = recovery_field (case l of None \<Rightarrow> PNone | Some l \<Rightarrow> PStr (l_agent_id l)) agent_id None,
          x_lease_role = role_text (map_option l_role l) role,
          x_lease_request_hash =
            recovery_field (case l of None \<Rightarrow> PNone | Some l \<Rightarrow> opt_text (l_request_hash l)) request_hash None,
          x_agent_id = agent_id, x_role = role,
          x_item_active_lease_id = get_field item ''active_lease_id'',
          x_item_claimed_by = get_field item ''claimed_by'',
          x_request_hash = request_hash, x_now = now, x_lease_id = lid\<rparr>)"

definition calculate_lease_recovery_state ::
    "lease_session \<Rightarrow> string \<Rightarrow> string \<Rightarrow> string \<Rightarrow> string \<Rightarrow> string \<Rightarrow> int \<Rightarrow> lease_recovery" where
  "calculate_lease_recovery_state s lid agent_id role item_id request_hash now =
     (let l = lease_at s lid;
          lease_item_id = recovery_field (case l of None \<Rightarrow> PNone | Some l \<Rightarrow> PStr (l_item_id l)) item_id None;
          lease_request_id = recovery_field (case l of None \<Rightarrow> PNone | Some l \<Rightarrow> opt_text (l_request_id l)) [] None;
          ctx = recovery_context s lid agent_id role item_id request_hash now;
          (outcome, code) = evaluate_lease_recovery_outcome ctx
      in \<lparr>r_lease_id = lid, r_item_id = lease_item_id, r_agent_id = x_lease_agent_id ctx,
          r_request_id = lease_request_id, r_request_hash = x_lease_request_hash ctx,
          r_lease_status = x_lease_status ctx, r_item_state = x_item_state ctx,
          r_recovery_outcome = outcome, r_reason_code = code,
          r_resume_command = lease_recovery_command_for s lease_item_id role agent_id outcome code\<rparr>)"

definition append_lease_recovery_event :: "lease_recovery \<Rightarrow> int \<Rightarrow> lease_session \<Rightarrow> lease_session" where
  "append_lease_recovery_event r now s =
     append_event (LeaseRecoveryEvent now (r_lease_id r) (r_item_id r) (r_agent_id r) (r_lease_status r)
       (r_recovery_outcome r) (r_reason_code r)) s"

section \<open>Submit, accept, release\<close>

record submit_args =
  u_agent_id :: string
  u_role :: string
  u_item_id :: string
  u_request_hash :: string
  u_now :: int

definition raise_submission_error ::
    "string \<Rightarrow> string \<Rightarrow> lease \<Rightarrow> submit_args \<Rightarrow> lease_session \<Rightarrow> (lease_error + lease) \<times> lease_session" where
  "raise_submission_error reason_code detail l u s =
     (let recovery = calculate_lease_recovery_state s (or_text (lease_id l) detail)
            (u_agent_id u) (u_role u) (u_item_id u) (u_request_hash u) (u_now u)
      in (Inl (LeaseSubmissionError reason_code detail (Some recovery)),
          append_lease_recovery_event recovery (u_now u) s))"

definition submit_lease :: "string \<Rightarrow> submit_args \<Rightarrow> lease_session \<Rightarrow> (lease_error + lease) \<times> lease_session" where
  "submit_lease lid u s =
     (case lease_at s lid of
        None \<Rightarrow> (Inl (LeaseSubmissionError ''LEASE_NOT_FOUND'' lid None), s)
      | Some l \<Rightarrow>
          if l_status l = ''submitted'' then raise_submission_error ''DUPLICATE_SUBMISSION'' lid l u s
          else if l_status l \<in> set TERMINAL_LEASE_STATUSES then raise_submission_error ''STALE_LEASE'' lid l u s
          else if l_status l \<noteq> ''active'' then raise_submission_error ''STALE_LEASE'' lid l u s
          else if role_value (l_role l) \<noteq> u_role u
          then raise_submission_error ''CROSS_ROLE_SUBMISSION'' (u_role u) l u s
          else if l_agent_id l \<noteq> u_agent_id u then raise_submission_error ''WRONG_AGENT'' (u_agent_id u) l u s
          else if l_item_id l \<noteq> u_item_id u then raise_submission_error ''WRONG_ITEM'' (u_item_id u) l u s
          else if is_expired l (u_now u) then
            (let recovery = calculate_lease_recovery_state s lid
                   (u_agent_id u) (u_role u) (u_item_id u) (u_request_hash u) (u_now u);
                 s1 = append_lease_recovery_event recovery (u_now u) s;
                 s2 = snd (expire_lease lid l (u_now u) s1)
             in (Inl (LeaseSubmissionError ''EXPIRED_LEASE'' lid (Some recovery)), s2))
          else if l_request_hash l \<noteq> Some (u_request_hash u)
          then raise_submission_error ''STALE_REQUEST_CONTEXT'' lid l u s
          else
            let l' = l\<lparr>l_status := ''submitted'', l_submitted_at := Some (u_now u)\<rparr>
            in (Inr l', append_lease_event l' ''lease_submitted'' (u_now u) None (put_lease lid l' s)))"

definition accept_lease :: "string \<Rightarrow> int \<Rightarrow> lease_session \<Rightarrow> (lease_error + lease) \<times> lease_session" where
  "accept_lease lid now s =
     (case lease_at s lid of
        None \<Rightarrow> (Inl (LeaseSubmissionError ''LEASE_NOT_FOUND'' lid None), s)
      | Some l \<Rightarrow>
          if l_status l \<noteq> ''submitted'' then (Inl (LeaseSubmissionError ''STALE_LEASE'' lid None), s)
          else let l' = l\<lparr>l_status := ''accepted'', l_completed_at := Some now\<rparr>
               in (Inr l', append_lease_event l' ''lease_accepted'' now None (put_lease lid l' s)))"

definition release_lease ::
    "string \<Rightarrow> int \<Rightarrow> string option \<Rightarrow> lease_session \<Rightarrow> (lease_error + lease) \<times> lease_session" where
  "release_lease lid now reason s =
     (case lease_at s lid of
        None \<Rightarrow> (Inl (LeaseSubmissionError ''LEASE_NOT_FOUND'' lid None), s)
      | Some l \<Rightarrow>
          if \<not> is_active l then (Inl (LeaseSubmissionError ''STALE_LEASE'' lid None), s)
          else let l' = l\<lparr>l_status := ''released'', l_completed_at := Some now, l_reason := reason\<rparr>
               in (Inr l', append_lease_event l' ''lease_released'' now reason (put_lease lid l' s)))"

text \<open>The transaction body of \<open>release_claimed_lease\<close>.\<close>

definition release_claimed_lease :: "string \<Rightarrow> int \<Rightarrow> string \<Rightarrow> lease_session \<Rightarrow> (lease_error + bool) \<times> lease_session" where
  "release_claimed_lease lid now reason s =
     (case lease_at s lid of
        None \<Rightarrow> (Inr False, s)
      | Some l \<Rightarrow>
          if \<not> is_active l then (Inr False, s)
          else (case release_lease lid now (Some reason) s of
                  (Inl e, s') \<Rightarrow> (Inl e, s')
                | (Inr l', s') \<Rightarrow> (Inr True, return_expired_items_to_open [l'] s')))"

fun release_self_loop ::
    "string \<Rightarrow> string \<Rightarrow> int \<Rightarrow> string list \<Rightarrow> bool \<Rightarrow> lease_session \<Rightarrow> (lease_error + bool) \<times> lease_session" where
  "release_self_loop item_id agent_id now [] released s = (Inr released, s)"
| "release_self_loop item_id agent_id now (k # ks) released s =
     (case lease_at s k of
        None \<Rightarrow> release_self_loop item_id agent_id now ks released s
      | Some l \<Rightarrow>
          if is_active l \<and> l_item_id l = item_id \<and> l_agent_id l = agent_id \<and> role_str (l_role l) = ''fixer''
          then (case release_lease (lease_id l) now (Some ''stale_reclaim'') s of
                  (Inl e, s') \<Rightarrow> (Inl e, s')
                | (Inr _, s') \<Rightarrow> release_self_loop item_id agent_id now ks True s')
          else release_self_loop item_id agent_id now ks released s)"

definition release_self_stale_lease ::
    "string \<Rightarrow> string \<Rightarrow> int \<Rightarrow> lease_session \<Rightarrow> (lease_error + bool) \<times> lease_session" where
  "release_self_stale_lease item_id agent_id now s =
     (case release_self_loop item_id agent_id now (map fst (s_leases s)) False s of
        (Inl e, s') \<Rightarrow> (Inl e, s')
      | (Inr released, s') \<Rightarrow>
          (Inr released,
           if released
           then (case dget (s_items s') item_id of
                   PDict item \<Rightarrow>
                     put_item item_id
                       (dset ''status'' (PStr ''STALE'') (dset ''state'' (PStr ''stale'') (dpop ''active_lease_id'' item))) s'
                 | _ \<Rightarrow> s')
           else s'))"

section \<open>Repository-level operations\<close>

record ledger_row =
  g_item_id :: string
  g_lease_id :: string
  g_agent_id :: string
  g_role :: string
  g_event_type :: string
  g_reason :: string

text \<open>The transaction body of \<open>reclaim_leases\<close>: the expired leases and the evidence rows.\<close>

definition reclaim_body :: "int \<Rightarrow> lease_session \<Rightarrow> (lease list \<times> ledger_row list) \<times> lease_session" where
  "reclaim_body now s =
     (let (expired, s1) = expire_leases now s;
          s2 = return_expired_items_to_open expired s1
      in ((expired,
           map (\<lambda>l. \<lparr>g_item_id = l_item_id l, g_lease_id = lease_id l, g_agent_id = l_agent_id l,
                      g_role = role_str (l_role l), g_event_type = ''lease_expired'', g_reason = ''reclaimed''\<rparr>) expired),
          s2))"

definition reclaim_remediation :: "string \<Rightarrow> string \<Rightarrow> nat \<Rightarrow> string \<times> string" where
  "reclaim_remediation repo pr_number expired_count =
     (if expired_count \<noteq> 0
      then (''Reclaimed '' @ int_dec (int expired_count)
              @ '' expired lease(s). Request work again; the items they held are claimable.'',
            tmpl_address repo pr_number)
      else (''No lease had expired, so nothing was reclaimed. `'' @ tmpl_reclaim repo pr_number
              @ ''` only expires leases whose TTL has passed -- it does not release a still-valid one. If an item is still ''
              @ ''blocked, inspect the holder and its `lease_recovery` state instead of retrying.'',
            tmpl_leases repo pr_number))"

text \<open>One row of \<open>list_leases\<close>: the lease and its recovery state, from its own holder's view.\<close>

definition lease_listing_row :: "int \<Rightarrow> lease_session \<Rightarrow> lease \<Rightarrow> lease \<times> lease_recovery" where
  "lease_listing_row now s l =
     (l, calculate_lease_recovery_state s (lease_id l) (l_agent_id l) (role_str (l_role l)) (l_item_id l)
           (case l_request_hash l of None \<Rightarrow> [] | Some h \<Rightarrow> h) now)"

definition list_leases :: "int \<Rightarrow> lease_session \<Rightarrow> (lease \<times> lease_recovery) list" where
  "list_leases now s = map (\<lambda>kl. lease_listing_row now s (snd kl)) (s_leases s)"

end
