(* ===== verification/Lease_Contract.thy ===== *)
theory Lease_Contract
  imports Leases
begin

text \<open>
  What the lease component promises. The contract of a lease operation is the locale
  \<open>lease_operation\<close>: it keeps the session well formed, keeps active leases exclusive, never
  touches a lease that has ended, and only appends to the event log. Every operation of
  \<open>Leases\<close> is an interpretation; the step relation \<open>lease_step\<close> collects them, and the
  properties of reachable sessions rest on the interpreted facts.
\<close>

section \<open>Invariant\<close>

definition lease_wf :: "lease_session \<Rightarrow> bool" where
  "lease_wf s \<longleftrightarrow> distinct (map fst (s_leases s)) \<and> (\<forall>k l. lease_at s k = Some l \<longrightarrow> lease_id l = k)"

definition file_or_hunk :: "string \<Rightarrow> bool" where
  "file_or_hunk k \<longleftrightarrow> startswith k ''file:'' \<or> startswith k ''hunk:''"

text \<open>
  Two leases may be active together when their keys do not overlap, when both roles are
  read-only, or when one fixer holds both and they only share files or line ranges.
\<close>

definition compatible :: "lease \<Rightarrow> lease \<Rightarrow> bool" where
  "compatible l m \<longleftrightarrow>
     key_overlap (l_conflict_keys l) m = {}
     \<or> (is_read_only_role (role_value (l_role l)) \<and> is_read_only_role (role_value (l_role m)))
     \<or> (role_value (l_role l) = ''fixer'' \<and> role_value (l_role m) = ''fixer'' \<and> l_agent_id l = l_agent_id m
        \<and> (\<forall>k \<in> key_overlap (l_conflict_keys l) m. file_or_hunk k))"

definition exclusive :: "lease_session \<Rightarrow> bool" where
  "exclusive s \<longleftrightarrow>
     (\<forall>j k l m. lease_at s j = Some l \<longrightarrow> lease_at s k = Some m \<longrightarrow> j \<noteq> k \<longrightarrow> is_active l \<longrightarrow> is_active m \<longrightarrow>
        l_item_id l \<noteq> l_item_id m \<and> compatible l m)"

definition lease_inv :: "lease_session \<Rightarrow> bool" where
  "lease_inv s \<longleftrightarrow> lease_wf s \<and> exclusive s"

section \<open>Shared lemmas\<close>

lemma hunk_overlap_commute: "hunk_overlap a b = hunk_overlap b a"
proof -
  define M where "M a b = {hunk_key p (max s s') (min e e') | p s e s' e'.
      (p, s, e) \<in> set (hunks_of a) \<and> (p, s', e') \<in> set (hunks_of b) \<and> s \<le> e' \<and> s' \<le> e}" for a b
  have eq: "set (concat (map (\<lambda>(cp, cs, ce). concat (map (\<lambda>(ep, es, ee).
            if cp = ep \<and> cs \<le> ee \<and> es \<le> ce then [hunk_key cp (max cs es) (min ce ee)] else []) (hunks_of b)))
          (hunks_of a))) = M a b" for a b
    unfolding M_def by (fastforce split: if_splits)
  have "M a b \<subseteq> M b a" for a b
    unfolding M_def by clarify (metis max.commute min.commute)
  then have sym: "M a b = M b a" by blast
  have "hunk_overlap a b = set (hunk_keys_in (file_paths b) a) \<union> set (hunk_keys_in (file_paths a) b) \<union> M a b" for a b
    by (simp only: hunk_overlap_def eq)
  then show ?thesis using sym by blast
qed

lemma key_overlap_commute: "key_overlap (l_conflict_keys l) m = key_overlap (l_conflict_keys m) l"
  unfolding key_overlap_def using hunk_overlap_commute [of "l_conflict_keys l"] by (simp add: Int_commute)

lemma compatible_sym: "compatible l m = compatible m l"
  unfolding compatible_def key_overlap_commute [of l m] by auto

lemma compatible_cong:
  "l_conflict_keys l' = l_conflict_keys l \<Longrightarrow> l_role l' = l_role l \<Longrightarrow> l_agent_id l' = l_agent_id l \<Longrightarrow>
     compatible l' m = compatible l m"
  by (simp add: compatible_def)

lemma lease_at_put [simp]: "lease_at (put_lease k l s) k' = (if k' = k then Some l else lease_at s k')"
  by (simp add: put_lease_def update_conv')

lemma keys_put: "map fst (s_leases (put_lease k l s)) =
    (if k \<in> set (map fst (s_leases s)) then map fst (s_leases s) else map fst (s_leases s) @ [k])"
  by (simp add: put_lease_def update_keys)

lemma distinct_put: "distinct (map fst (s_leases s)) \<Longrightarrow> distinct (map fst (s_leases (put_lease k l s)))"
  unfolding put_lease_def by (simp add: distinct_update)

lemma leases_frame [simp]:
  "s_leases (put_item k d s) = s_leases s" "s_leases (append_event e s) = s_leases s"
  "s_leases (append_lease_event l t n r s) = s_leases s"
  "s_leases (append_lease_recovery_event rc n s) = s_leases s"
  by (simp_all add: put_item_def append_event_def append_lease_event_def append_lease_recovery_event_def)

lemma leases_return_item [simp]: "s_leases (return_expired_item l s) = s_leases s"
  by (simp add: return_expired_item_def split: pyval.splits)

lemma leases_return [simp]: "s_leases (return_expired_items_to_open ls s) = s_leases s"
  unfolding return_expired_items_to_open_def by (induction ls arbitrary: s) auto

lemma leases_reopen [simp]: "s_leases (reopen_claimed_item l s) = s_leases s"
  by (simp add: reopen_claimed_item_def split: pyval.splits)

lemma events_frame [simp]:
  "s_events (put_item k d s) = s_events s" "s_events (put_lease k l s) = s_events s"
  "s_events (append_event e s) = s_events s @ [e]"
  by (simp_all add: put_item_def put_lease_def append_event_def)

lemma events_return_item [simp]: "s_events (return_expired_item l s) = s_events s"
  by (simp add: return_expired_item_def split: pyval.splits)

lemma events_return [simp]: "s_events (return_expired_items_to_open ls s) = s_events s"
  unfolding return_expired_items_to_open_def by (induction ls arbitrary: s) auto

lemma events_reopen [simp]: "s_events (reopen_claimed_item l s) = s_events s"
  by (simp add: reopen_claimed_item_def split: pyval.splits)

lemma events_append_lease [simp]:
  "s_events (append_lease_event l t n r s) =
     s_events s @ [LeaseEvent t n (lease_id l) (l_item_id l) (l_agent_id l) (l_role l) (l_status l) r]"
  by (simp add: append_lease_event_def)

lemma events_append_recovery [simp]: "\<exists>e. s_events (append_lease_recovery_event rc n s) = s_events s @ [e]"
  by (simp add: append_lease_recovery_event_def)

lemma inv_cong: "s_leases s' = s_leases s \<Longrightarrow> lease_inv s' = lease_inv s"
  by (simp add: lease_inv_def lease_wf_def exclusive_def)

lemma lease_inv_id: "lease_inv s \<Longrightarrow> lease_at s k = Some l \<Longrightarrow> lease_id l = k"
  by (simp add: lease_inv_def lease_wf_def)

text \<open>Overwriting a stored lease keeps the invariant when it stays what it was and does not become active.\<close>

definition same_claim :: "lease \<Rightarrow> lease \<Rightarrow> bool" where
  "same_claim l l' \<longleftrightarrow> lease_id l' = lease_id l \<and> l_item_id l' = l_item_id l \<and> l_agent_id l' = l_agent_id l
     \<and> l_role l' = l_role l \<and> l_conflict_keys l' = l_conflict_keys l \<and> (is_active l' \<longrightarrow> is_active l)"

lemma put_lease_new_inv:
  assumes inv: "lease_inv s" and id: "lease_id l = k"
    and ok: "\<And>j m. lease_at s j = Some m \<Longrightarrow> j \<noteq> k \<Longrightarrow> is_active l \<Longrightarrow> is_active m \<Longrightarrow>
               l_item_id l \<noteq> l_item_id m \<and> compatible l m"
  shows "lease_inv (put_lease k l s)"
proof -
  have "lease_wf (put_lease k l s)"
    using inv id distinct_put by (simp add: lease_inv_def lease_wf_def)
  moreover have "exclusive (put_lease k l s)"
    unfolding exclusive_def
  proof (intro allI impI)
    fix i j a b
    assume *: "lease_at (put_lease k l s) i = Some a" "lease_at (put_lease k l s) j = Some b" "i \<noteq> j"
      "is_active a" "is_active b"
    consider "i = k" | "j = k" | "i \<noteq> k" "j \<noteq> k" by blast
    then show "l_item_id a \<noteq> l_item_id b \<and> compatible a b"
    proof cases
      case 1
      with * ok [of j b] show ?thesis by (simp split: if_splits)
    next
      case 2
      with * ok [of i a] show ?thesis by (simp split: if_splits) (metis compatible_sym)
    next
      case 3
      with * inv show ?thesis by (simp add: lease_inv_def exclusive_def)
    qed
  qed
  ultimately show ?thesis by (simp add: lease_inv_def)
qed

lemma put_lease_same_inv:
  assumes inv: "lease_inv s" and at: "lease_at s k = Some l" and same: "same_claim l l'"
  shows "lease_inv (put_lease k l' s)"
proof (rule put_lease_new_inv [OF inv])
  show "lease_id l' = k" using same lease_inv_id [OF inv at] by (simp add: same_claim_def)
next
  fix j m
  assume "lease_at s j = Some m" "j \<noteq> k" "is_active l'" "is_active m"
  with inv at same have "l_item_id l \<noteq> l_item_id m \<and> compatible l m"
    unfolding lease_inv_def exclusive_def same_claim_def by blast
  with same show "l_item_id l' \<noteq> l_item_id m \<and> compatible l' m"
    unfolding same_claim_def using compatible_cong [of l' l m] by simp
qed

lemma same_claim_status:
  "(is_active (l\<lparr>l_status := st, l_completed_at := c\<rparr>) \<longrightarrow> is_active l) \<Longrightarrow> same_claim l (l\<lparr>l_status := st, l_completed_at := c\<rparr>)"
  by (simp add: same_claim_def)

lemma active_words [simp]:
  "is_active (l\<lparr>l_status := ''expired'', l_completed_at := c\<rparr>) = False"
  "is_active (l\<lparr>l_status := ''accepted'', l_completed_at := c\<rparr>) = False"
  "is_active (l\<lparr>l_status := ''released'', l_completed_at := c, l_reason := r\<rparr>) = False"
  "is_active (l\<lparr>l_status := ''submitted'', l_submitted_at := c\<rparr>) = True"
  by (simp_all add: is_active_def ACTIVE_LEASE_STATUSES_def)

lemma is_active_iff: "is_active l \<longleftrightarrow> l_status l = ''active'' \<or> l_status l = ''submitted''"
  by (auto simp: is_active_def ACTIVE_LEASE_STATUSES_def)

lemma terminal_not_active: "l_status l \<in> set TERMINAL_LEASE_STATUSES \<Longrightarrow> \<not> is_active l"
  by (auto simp: is_active_iff TERMINAL_LEASE_STATUSES_def)

section \<open>Expiry\<close>

lemma expire_lease_leases:
  "s_leases (snd (expire_lease k l now s))
     = s_leases (put_lease k (l\<lparr>l_status := ''expired'', l_completed_at := Some now\<rparr>) s)"
  by (simp add: expire_lease_def Let_def)

lemma fst_expire_lease [simp]: "fst (expire_lease k l now s) = l\<lparr>l_status := ''expired'', l_completed_at := Some now\<rparr>"
  by (simp add: expire_lease_def Let_def)

lemma lease_at_expire_lease:
  "lease_at (snd (expire_lease k l now s)) j
     = (if j = k then Some (l\<lparr>l_status := ''expired'', l_completed_at := Some now\<rparr>) else lease_at s j)"
  unfolding expire_lease_leases by simp

lemma expire_lease_inv:
  "lease_inv s \<Longrightarrow> lease_at s k = Some l \<Longrightarrow> lease_inv (snd (expire_lease k l now s))"
  unfolding inv_cong [OF expire_lease_leases]
  by (rule put_lease_same_inv) (simp_all add: same_claim_def)

lemma expire_lease_events: "\<exists>e. s_events (snd (expire_lease k l now s)) = s_events s @ [e]"
  by (simp add: expire_lease_def Let_def)

definition needs_expiry :: "int \<Rightarrow> lease \<Rightarrow> bool" where
  "needs_expiry now l \<longleftrightarrow> is_active l \<and> is_expired l now"

definition expire_view :: "int \<Rightarrow> lease \<Rightarrow> lease" where
  "expire_view now l =
     (if needs_expiry now l then l\<lparr>l_status := ''expired'', l_completed_at := Some now\<rparr> else l)"

lemma expire_view_simps:
  "\<not> needs_expiry now (expire_view now l)" "\<not> needs_expiry now l \<Longrightarrow> expire_view now l = l"
  by (simp_all add: expire_view_def) (simp add: needs_expiry_def)

lemma expire_loop_step:
  "expire_loop now (k # ks) s =
     (case lease_at s k of
        Some l \<Rightarrow> if needs_expiry now l
                  then (fst (expire_lease k l now s) # fst (expire_loop now ks (snd (expire_lease k l now s))),
                        snd (expire_loop now ks (snd (expire_lease k l now s))))
                  else expire_loop now ks s
      | None \<Rightarrow> expire_loop now ks s)"
proof (cases "lease_at s k")
  case (Some l)
  obtain l' s' where "expire_lease k l now s = (l', s')" by fastforce
  with Some show ?thesis by (simp add: needs_expiry_def split: prod.splits)
qed simp

declare expire_loop.simps(2) [simp del]

text \<open>The loop rewrites exactly the stored leases it visits, each to its expired view.\<close>

lemma lease_at_expire_loop:
  "lease_at (snd (expire_loop now ks s)) j
     = (if j \<in> set ks then map_option (expire_view now) (lease_at s j) else lease_at s j)"
proof (induction ks arbitrary: s)
  case Nil
  then show ?case by simp
next
  case (Cons k ks)
  show ?case
  proof (cases "lease_at s k")
    case None
    then show ?thesis using Cons.IH by (auto simp: expire_loop_step)
  next
    case (Some l)
    show ?thesis
    proof (cases "needs_expiry now l")
      case True
      have v: "expire_view now (l\<lparr>l_status := ''expired'', l_completed_at := Some now\<rparr>) = expire_view now l"
        using True by (simp add: expire_view_def needs_expiry_def)
      show ?thesis
        using Some True v
        by (simp add: expire_loop_step Cons.IH lease_at_expire_lease) (simp add: expire_view_def)
    next
      case False
      then show ?thesis
        using Some Cons.IH by (auto simp: expire_loop_step expire_view_simps)
    qed
  qed
qed

lemma expire_loop_inv: "lease_inv s \<Longrightarrow> lease_inv (snd (expire_loop now ks s))"
proof (induction ks arbitrary: s)
  case Nil
  then show ?case by simp
next
  case (Cons k ks)
  then show ?case
    by (simp add: expire_loop_step expire_lease_inv split: option.splits)
qed

lemma expire_loop_events: "\<exists>es. s_events (snd (expire_loop now ks s)) = s_events s @ es"
proof (induction ks arbitrary: s)
  case Nil
  then show ?case by simp
next
  case (Cons k ks)
  show ?case
  proof (cases "lease_at s k")
    case None
    with Cons show ?thesis by (simp add: expire_loop_step)
  next
    case (Some l)
    obtain e where "s_events (snd (expire_lease k l now s)) = s_events s @ [e]"
      using expire_lease_events by blast
    moreover obtain es where "s_events (snd (expire_loop now ks (snd (expire_lease k l now s))))
          = s_events (snd (expire_lease k l now s)) @ es"
      using Cons by blast
    ultimately show ?thesis using Some Cons [of s] by (simp add: expire_loop_step)
  qed
qed

text \<open>The abstract reading of \<open>expire_leases\<close>: every stored lease is replaced by its expired view.\<close>

lemma lease_at_expire: "lease_at (snd (expire_leases now s)) j = map_option (expire_view now) (lease_at s j)"
proof -
  have "j \<notin> set (map fst (s_leases s)) \<Longrightarrow> lease_at s j = None"
    by (simp add: map_of_eq_None_iff)
  then show ?thesis by (simp add: expire_leases_def lease_at_expire_loop)
qed

lemma expire_inv: "lease_inv s \<Longrightarrow> lease_inv (snd (expire_leases now s))"
  unfolding expire_leases_def by (rule expire_loop_inv)

lemma expire_events: "\<exists>es. s_events (snd (expire_leases now s)) = s_events s @ es"
  unfolding expire_leases_def by (rule expire_loop_events)

lemma expire_frozen: "lease_at s k = Some l \<Longrightarrow> \<not> is_active l \<Longrightarrow> lease_at (snd (expire_leases now s)) k = Some l"
  by (simp add: lease_at_expire expire_view_def needs_expiry_def)

section \<open>Claim\<close>

lemma claim_conflict_None:
  "claim_conflict a item_id keys ls = None \<longleftrightarrow>
     (\<forall>l \<in> set ls. is_active l \<longrightarrow> l_item_id l \<noteq> item_id \<and> \<not> blocks_claim a keys l)"
  by (induction ls) auto

lemma not_blocks_compatible:
  assumes "\<not> blocks_claim a keys m" "l_conflict_keys l = keys" "role_value (l_role l) = c_role a"
    "l_agent_id l = c_agent_id a"
  shows "compatible l m"
  using assms by (auto simp: blocks_claim_def compatible_def same_agent_overlap_allowed_def file_or_hunk_def split: if_splits)

lemma parse_role_Inr: "parse_role v = Inr r \<Longrightarrow> r = EnumRole v \<and> v \<in> set AGENT_ROLES"
  by (auto simp: parse_role_def split: if_splits)

lemma new_lease_fields [simp]:
  "l_item_id (new_lease a i ks r) = i" "l_agent_id (new_lease a i ks r) = c_agent_id a"
  "l_role (new_lease a i ks r) = r" "l_status (new_lease a i ks r) = ''active''"
  "l_conflict_keys (new_lease a i ks r) = ks"
  "l_expires_at (new_lease a i ks r) = c_now a + 1000000 * c_ttl_seconds a"
  "l_request_hash (new_lease a i ks r) = Some (c_request_hash a)"
  by (simp_all add: new_lease_def)

lemma new_lease_id: "lease_id (new_lease a i ks r) = lease_id (new_lease a i' ks' r')"
  by (simp add: new_lease_def)

text \<open>The id the claim will use, and the requirement that no stored lease has it.\<close>

definition claim_id :: "claim_args \<Rightarrow> string" where
  "claim_id a = lease_id (new_lease a [] [] (TextRole []))"

definition fresh_id :: "claim_args \<Rightarrow> lease_session \<Rightarrow> bool" where
  "fresh_id a s \<longleftrightarrow> lease_at s (claim_id a) = None"

lemma claim_lease_cases:
  obtains (error) e where "claim_lease a item s = (Inl e, snd (expire_leases (c_now a) s))"
  | (claimed) keys role item_id where
      "claim_keys a item = Inr keys" "item_id = py_str (dget item ''item_id'')"
      "dget item ''item_id'' \<notin> {PNone, PStr []}"
      "claim_conflict a item_id keys (map snd (s_leases (snd (expire_leases (c_now a) s)))) = None"
      "parse_role (c_role a) = Inr role"
      "claim_lease a item s = (Inr (new_lease a item_id keys role),
         append_lease_event (new_lease a item_id keys role) ''lease_created'' (c_now a) None
           (put_lease (claim_id a) (new_lease a item_id keys role) (snd (expire_leases (c_now a) s))))"
proof (cases "dget item ''item_id'' \<in> {PNone, PStr []}")
  case True
  then show ?thesis by (intro error) (simp add: claim_lease_def)
next
  case False
  note id = False
  show ?thesis
  proof (cases "claim_keys a item")
    case (Inl e)
    with id show ?thesis by (intro error) (simp add: claim_lease_def)
  next
    case (Inr keys)
    note keys = Inr
    let ?c = "claim_conflict a (py_str (dget item ''item_id'')) keys
                (map snd (s_leases (snd (expire_leases (c_now a) s))))"
    show ?thesis
    proof (cases ?c)
      case (Some e)
      with id keys show ?thesis by (intro error) (simp add: claim_lease_def)
    next
      case None
      note nc = None
      show ?thesis
      proof (cases "parse_role (c_role a)")
        case (Inl e)
        with id keys nc show ?thesis by (intro error) (simp add: claim_lease_def)
      next
        case (Inr role)
        have "lease_id (new_lease a (py_str (dget item ''item_id'')) keys role) = claim_id a"
          unfolding claim_id_def by (rule new_lease_id)
        with id keys nc Inr show ?thesis by (intro claimed) (auto simp: claim_lease_def Let_def)
      qed
    qed
  qed
qed

lemma claim_inv: "lease_inv s \<Longrightarrow> lease_inv (snd (claim_lease a item s))"
proof (cases rule: claim_lease_cases [of a item s])
  case (error e)
  assume "lease_inv s"
  with error show ?thesis by (simp add: expire_inv)
next
  case (claimed keys role item_id)
  assume inv: "lease_inv s"
  let ?s = "snd (expire_leases (c_now a) s)" and ?l = "new_lease a item_id keys role"
  have "lease_inv (put_lease (claim_id a) ?l ?s)"
  proof (rule put_lease_new_inv)
    show "lease_inv ?s" using inv by (rule expire_inv)
    show "lease_id ?l = claim_id a" unfolding claim_id_def by (rule new_lease_id)
    fix j m
    assume "lease_at ?s j = Some m" "is_active m"
    then have "m \<in> set (map snd (s_leases ?s))" by (intro map_of_value)
    from claimed(4) [unfolded claim_conflict_None, THEN bspec, OF this, THEN mp, OF \<open>is_active m\<close>]
    have "l_item_id m \<noteq> item_id" "\<not> blocks_claim a keys m" by simp_all
    then show "l_item_id ?l \<noteq> l_item_id m \<and> compatible ?l m"
      using not_blocks_compatible [of a keys m ?l] parse_role_Inr [OF claimed(5)] by simp
  qed
  then show ?thesis using claimed(6) inv_cong [OF leases_frame(3)] by simp
qed

lemma claim_events: "\<exists>es. s_events (snd (claim_lease a item s)) = s_events s @ es"
proof -
  obtain es where es: "s_events (snd (expire_leases (c_now a) s)) = s_events s @ es"
    using expire_events by blast
  show ?thesis
    by (cases rule: claim_lease_cases [of a item s]) (simp_all add: es)
qed

lemma lease_at_claim_other:
  "k \<noteq> claim_id a \<Longrightarrow> lease_at (snd (claim_lease a item s)) k = map_option (expire_view (c_now a)) (lease_at s k)"
  by (cases rule: claim_lease_cases [of a item s]) (simp_all add: lease_at_expire)

section \<open>Submit, accept, release\<close>

lemma raise_submission_error_leases [simp]:
  "s_leases (snd (raise_submission_error r d l u s)) = s_leases s"
  "s_items (snd (raise_submission_error r d l u s)) = s_items s"
  by (simp_all add: raise_submission_error_def Let_def append_lease_recovery_event_def append_event_def)

lemma raise_submission_error_events: "\<exists>e. s_events (snd (raise_submission_error r d l u s)) = s_events s @ [e]"
  by (simp add: raise_submission_error_def Let_def)

text \<open>The leases after a submission: unchanged, or the lease expired, or the lease submitted.\<close>

lemma submit_lease_cases:
  obtains (error) e where "fst (submit_lease lid u s) = Inl e"
      "s_leases (snd (submit_lease lid u s)) = s_leases s" "s_items (snd (submit_lease lid u s)) = s_items s"
      "\<exists>es. s_events (snd (submit_lease lid u s)) = s_events s @ es"
  | (expired) l r where "lease_at s lid = Some l" "l_status l = ''active''" "is_expired l (u_now u)"
      "submit_lease lid u s = (Inl (LeaseSubmissionError ''EXPIRED_LEASE'' lid (Some r)),
         snd (expire_lease lid l (u_now u) (append_lease_recovery_event r (u_now u) s)))"
  | (submitted) l where "lease_at s lid = Some l" "l_status l = ''active''" "role_value (l_role l) = u_role u"
      "l_agent_id l = u_agent_id u" "l_item_id l = u_item_id u" "\<not> is_expired l (u_now u)"
      "l_request_hash l = Some (u_request_hash u)"
      "submit_lease lid u s = (Inr (l\<lparr>l_status := ''submitted'', l_submitted_at := Some (u_now u)\<rparr>),
         append_lease_event (l\<lparr>l_status := ''submitted'', l_submitted_at := Some (u_now u)\<rparr>) ''lease_submitted''
           (u_now u) None (put_lease lid (l\<lparr>l_status := ''submitted'', l_submitted_at := Some (u_now u)\<rparr>) s))"
proof (cases "lease_at s lid")
  case None
  then show ?thesis by (intro error) (auto simp: submit_lease_def)
next
  case (Some l)
  note at = Some
  consider (raise) r d where "submit_lease lid u s = raise_submission_error r d l u s"
    | (exp) "l_status l = ''active''" "role_value (l_role l) = u_role u" "l_agent_id l = u_agent_id u"
        "l_item_id l = u_item_id u" "is_expired l (u_now u)"
    | (ok) "l_status l = ''active''" "role_value (l_role l) = u_role u" "l_agent_id l = u_agent_id u"
        "l_item_id l = u_item_id u" "\<not> is_expired l (u_now u)" "l_request_hash l = Some (u_request_hash u)"
  proof (cases "l_status l = ''active'' \<and> role_value (l_role l) = u_role u \<and> l_agent_id l = u_agent_id u
               \<and> l_item_id l = u_item_id u")
    case True
    then show ?thesis
      using at raise exp ok
      by (cases "is_expired l (u_now u)"; cases "l_request_hash l = Some (u_request_hash u)")
        (simp_all add: submit_lease_def TERMINAL_LEASE_STATUSES_def)
  next
    case False
    then have "\<exists>r d. submit_lease lid u s = raise_submission_error r d l u s"
      using at unfolding submit_lease_def by (simp split del: if_split split: if_split) blast
    then show ?thesis using raise by blast
  qed
  then show ?thesis
  proof cases
    case raise
    then show ?thesis
      using raise_submission_error_events [of r d l u s]
      by (intro error) (auto simp: raise_submission_error_def Let_def append_lease_recovery_event_def append_event_def)
  next
    case exp
    with at show ?thesis
      by (intro expired) (auto simp: submit_lease_def TERMINAL_LEASE_STATUSES_def Let_def)
  next
    case ok
    with at show ?thesis
      by (intro submitted) (auto simp: submit_lease_def TERMINAL_LEASE_STATUSES_def Let_def)
  qed
qed

lemma submit_inv: "lease_inv s \<Longrightarrow> lease_inv (snd (submit_lease lid u s))"
proof (cases rule: submit_lease_cases [of lid u s])
  case (error e)
  assume "lease_inv s"
  with inv_cong [OF error(2)] show ?thesis by simp
next
  case (expired l r)
  assume inv: "lease_inv s"
  let ?s = "append_lease_recovery_event r (u_now u) s"
  have "lease_inv ?s" using inv inv_cong [of ?s s] by simp
  moreover have "lease_at ?s lid = Some l" using expired(1) by simp
  ultimately show ?thesis using expired(4) by (simp add: expire_lease_inv)
next
  case (submitted l)
  assume inv: "lease_inv s"
  let ?l = "l\<lparr>l_status := ''submitted'', l_submitted_at := Some (u_now u)\<rparr>"
  have "lease_inv (put_lease lid ?l s)"
    using submitted(2) by (intro put_lease_same_inv [OF inv submitted(1)]) (simp add: same_claim_def is_active_iff)
  then show ?thesis using submitted(8) inv_cong [OF leases_frame(3)] by simp
qed

lemma submit_events: "\<exists>es. s_events (snd (submit_lease lid u s)) = s_events s @ es"
proof (cases rule: submit_lease_cases [of lid u s])
  case (expired l r)
  obtain e where "s_events (append_lease_recovery_event r (u_now u) s) = s_events s @ [e]"
    using events_append_recovery by blast
  moreover obtain e' where "s_events (snd (expire_lease lid l (u_now u) (append_lease_recovery_event r (u_now u) s)))
        = s_events (append_lease_recovery_event r (u_now u) s) @ [e']"
    using expire_lease_events by blast
  ultimately show ?thesis using expired(4) by simp
qed auto

lemma submit_frozen:
  "lease_at s k = Some l \<Longrightarrow> \<not> is_active l \<Longrightarrow> lease_at (snd (submit_lease lid u s)) k = Some l"
  by (cases rule: submit_lease_cases [of lid u s]) (auto simp: lease_at_expire_lease is_active_iff)

lemma accept_lease_cases:
  obtains (error) e where "accept_lease lid now s = (Inl e, s)"
  | (accepted) l where "lease_at s lid = Some l" "l_status l = ''submitted''"
      "accept_lease lid now s = (Inr (l\<lparr>l_status := ''accepted'', l_completed_at := Some now\<rparr>),
         append_lease_event (l\<lparr>l_status := ''accepted'', l_completed_at := Some now\<rparr>) ''lease_accepted'' now None
           (put_lease lid (l\<lparr>l_status := ''accepted'', l_completed_at := Some now\<rparr>) s))"
proof (cases "lease_at s lid")
  case None
  then show ?thesis by (intro error) (simp add: accept_lease_def)
next
  case (Some l)
  show ?thesis
  proof (cases "l_status l = ''submitted''")
    case True
    with Some show ?thesis by (intro accepted) (auto simp: accept_lease_def Let_def)
  next
    case False
    with Some show ?thesis by (intro error) (simp add: accept_lease_def)
  qed
qed

lemma release_lease_cases:
  obtains (error) e where "release_lease lid now reason s = (Inl e, s)"
  | (released) l where "lease_at s lid = Some l" "is_active l"
      "release_lease lid now reason s =
         (Inr (l\<lparr>l_status := ''released'', l_completed_at := Some now, l_reason := reason\<rparr>),
          append_lease_event (l\<lparr>l_status := ''released'', l_completed_at := Some now, l_reason := reason\<rparr>)
            ''lease_released'' now reason
            (put_lease lid (l\<lparr>l_status := ''released'', l_completed_at := Some now, l_reason := reason\<rparr>) s))"
proof (cases "lease_at s lid")
  case None
  then show ?thesis by (intro error) (simp add: release_lease_def)
next
  case (Some l)
  show ?thesis
  proof (cases "is_active l")
    case True
    with Some show ?thesis by (intro released) (auto simp: release_lease_def Let_def)
  next
    case False
    with Some show ?thesis by (intro error) (simp add: release_lease_def)
  qed
qed

lemma accept_inv: "lease_inv s \<Longrightarrow> lease_inv (snd (accept_lease lid now s))"
proof (cases rule: accept_lease_cases [of lid now s])
  case (accepted l)
  assume inv: "lease_inv s"
  have "lease_inv (put_lease lid (l\<lparr>l_status := ''accepted'', l_completed_at := Some now\<rparr>) s)"
    by (rule put_lease_same_inv [OF inv accepted(1)]) (simp add: same_claim_def)
  then show ?thesis using accepted(3) inv_cong [OF leases_frame(3)] by simp
qed simp

lemma release_inv: "lease_inv s \<Longrightarrow> lease_inv (snd (release_lease lid now reason s))"
proof (cases rule: release_lease_cases [of lid now reason s])
  case (released l)
  assume inv: "lease_inv s"
  have "lease_inv (put_lease lid (l\<lparr>l_status := ''released'', l_completed_at := Some now, l_reason := reason\<rparr>) s)"
    by (rule put_lease_same_inv [OF inv released(1)]) (simp add: same_claim_def)
  then show ?thesis using released(3) inv_cong [OF leases_frame(3)] by simp
qed simp

lemma accept_frozen:
  "lease_at s k = Some l \<Longrightarrow> \<not> is_active l \<Longrightarrow> lease_at (snd (accept_lease lid now s)) k = Some l"
  by (cases rule: accept_lease_cases [of lid now s]) (auto simp: is_active_iff)

lemma release_frozen:
  "lease_at s k = Some l \<Longrightarrow> \<not> is_active l \<Longrightarrow> lease_at (snd (release_lease lid now reason s)) k = Some l"
  by (cases rule: release_lease_cases [of lid now reason s]) auto

lemma accept_events: "\<exists>es. s_events (snd (accept_lease lid now s)) = s_events s @ es"
  by (cases rule: accept_lease_cases [of lid now s]) auto

lemma release_events: "\<exists>es. s_events (snd (release_lease lid now reason s)) = s_events s @ es"
  by (cases rule: release_lease_cases [of lid now reason s]) auto

section \<open>The contract\<close>

text \<open>
  \<open>pre\<close> is what an operation needs of the session it is called on (a new lease id that is
  not taken, for a claim; nothing for the others).
\<close>

locale lease_operation =
  fixes op :: "lease_session \<Rightarrow> lease_session"
    and pre :: "lease_session \<Rightarrow> bool"
  assumes keeps_inv: "lease_inv s \<Longrightarrow> pre s \<Longrightarrow> lease_inv (op s)"
    and keeps_ended: "lease_at s k = Some l \<Longrightarrow> \<not> is_active l \<Longrightarrow> pre s \<Longrightarrow> lease_at (op s) k = Some l"
    and appends_events: "\<exists>es. s_events (op s) = s_events s @ es"
begin

lemma keeps_terminal:
  "lease_at s k = Some l \<Longrightarrow> l_status l \<in> set TERMINAL_LEASE_STATUSES \<Longrightarrow> pre s \<Longrightarrow> lease_at (op s) k = Some l"
  using keeps_ended terminal_not_active by blast

lemma log_prefix: "take (length (s_events s)) (s_events (op s)) = s_events s"
  using appends_events [of s] by auto

lemma ended_active_items:
  "lease_inv s \<Longrightarrow> pre s \<Longrightarrow> lease_at (op s) j = Some l \<Longrightarrow> lease_at (op s) k = Some m \<Longrightarrow>
     is_active l \<Longrightarrow> is_active m \<Longrightarrow> l_item_id l = l_item_id m \<Longrightarrow> j = k"
  using keeps_inv [of s] unfolding lease_inv_def exclusive_def by blast

end

text \<open>Operations that compose: running one after the other is again an operation.\<close>

locale lease_operation_pair = first: lease_operation op1 pre1 + second: lease_operation op2 "\<lambda>_. True"
  for op1 :: "lease_session \<Rightarrow> lease_session" and pre1 and op2
begin

sublocale seq: lease_operation "\<lambda>s. op2 (op1 s)" pre1
proof
  fix s k l
  show "lease_inv s \<Longrightarrow> pre1 s \<Longrightarrow> lease_inv (op2 (op1 s))"
    by (rule second.keeps_inv) (auto intro: first.keeps_inv)
  show "lease_at s k = Some l \<Longrightarrow> \<not> is_active l \<Longrightarrow> pre1 s \<Longrightarrow> lease_at (op2 (op1 s)) k = Some l"
    by (rule second.keeps_ended) (auto intro: first.keeps_ended)
  show "\<exists>es. s_events (op2 (op1 s)) = s_events s @ es"
    using first.appends_events [of s] second.appends_events [of "op1 s"] by auto
qed

end

interpretation claim: lease_operation "\<lambda>s. snd (claim_lease a item s)" "fresh_id a" for a item
proof
  fix s k l
  assume "lease_at s k = Some l" "\<not> is_active l" "fresh_id a s"
  then have "k \<noteq> claim_id a" by (auto simp: fresh_id_def)
  with \<open>lease_at s k = Some l\<close> \<open>\<not> is_active l\<close>
  show "lease_at (snd (claim_lease a item s)) k = Some l"
    by (simp add: lease_at_claim_other expire_view_def needs_expiry_def)
qed (use claim_inv claim_events in auto)

interpretation submit: lease_operation "\<lambda>s. snd (submit_lease lid u s)" "\<lambda>_. True" for lid u
  by unfold_locales (use submit_inv submit_frozen submit_events in auto)

interpretation accept: lease_operation "\<lambda>s. snd (accept_lease lid now s)" "\<lambda>_. True" for lid now
  by unfold_locales (use accept_inv accept_frozen accept_events in auto)

interpretation release: lease_operation "\<lambda>s. snd (release_lease lid now reason s)" "\<lambda>_. True" for lid now reason
  by unfold_locales (use release_inv release_frozen release_events in auto)

interpretation expire: lease_operation "\<lambda>s. snd (expire_leases now s)" "\<lambda>_. True" for now
  by unfold_locales (use expire_inv expire_frozen expire_events in auto)

interpretation return_items: lease_operation "return_expired_items_to_open ls" "\<lambda>_. True" for ls
  by unfold_locales (simp_all add: inv_cong [OF leases_return])

text \<open>A batch that submits and then accepts, as a response submission does.\<close>

interpretation submit_accept:
  lease_operation_pair "\<lambda>s. snd (submit_lease lid u s)" "\<lambda>_. True" "\<lambda>s. snd (accept_lease lid now s)" for lid u now
  by unfold_locales

end
