(* ===== verification/Lease_Properties.thy ===== *)
theory Lease_Properties
  imports Lease_Contract
begin

text \<open>
  The properties of the lease component: the step relation over all operations, reachable
  sessions, exclusivity, the exact conditions of a claim and of a submission, expiry, and
  the recovery advice.
\<close>

section \<open>Composite operations\<close>

lemma release_claimed_leases:
  "release_claimed_lease lid now reason s =
     (case lease_at s lid of
        None \<Rightarrow> (Inr False, s)
      | Some l \<Rightarrow> if is_active l
          then (Inr True, return_expired_items_to_open
                  [l\<lparr>l_status := ''released'', l_completed_at := Some now, l_reason := Some reason\<rparr>]
                  (snd (release_lease lid now (Some reason) s)))
          else (Inr False, s))"
  by (simp add: release_claimed_lease_def release_lease_def Let_def split: option.splits)

interpretation release_claimed: lease_operation "\<lambda>s. snd (release_claimed_lease lid now reason s)" "\<lambda>_. True"
  for lid now reason
proof
  fix s k l
  show "lease_inv s \<Longrightarrow> lease_inv (snd (release_claimed_lease lid now reason s))"
    unfolding release_claimed_leases by (auto simp: release_inv inv_cong [OF leases_return] split: option.splits)
  show "lease_at s k = Some l \<Longrightarrow> \<not> is_active l \<Longrightarrow>
      lease_at (snd (release_claimed_lease lid now reason s)) k = Some l"
    unfolding release_claimed_leases by (auto simp: release_frozen split: option.splits)
  show "\<exists>es. s_events (snd (release_claimed_lease lid now reason s)) = s_events s @ es"
    unfolding release_claimed_leases using release_events by (auto split: option.splits)
qed

text \<open>The loop of \<open>release_self_stale_lease\<close> is a run of releases.\<close>

lemma release_self_loop_step:
  "release_self_loop i ag now (k # ks) b s =
     (case lease_at s k of
        Some l \<Rightarrow> if is_active l \<and> l_item_id l = i \<and> l_agent_id l = ag \<and> role_str (l_role l) = ''fixer''
                  then (case fst (release_lease (lease_id l) now (Some ''stale_reclaim'') s) of
                          Inl e \<Rightarrow> (Inl e, snd (release_lease (lease_id l) now (Some ''stale_reclaim'') s))
                        | Inr _ \<Rightarrow> release_self_loop i ag now ks True
                                    (snd (release_lease (lease_id l) now (Some ''stale_reclaim'') s)))
                  else release_self_loop i ag now ks b s
      | None \<Rightarrow> release_self_loop i ag now ks b s)"
  by (auto split: option.splits prod.splits sum.splits)

declare release_self_loop.simps(2) [simp del]

lemma release_self_loop_inv: "lease_inv s \<Longrightarrow> lease_inv (snd (release_self_loop i ag now ks b s))"
  by (induction ks arbitrary: s b)
     (auto simp: release_self_loop_step release_inv split: option.splits sum.splits)

lemma release_self_loop_frozen:
  "lease_at s k = Some l \<Longrightarrow> \<not> is_active l \<Longrightarrow> lease_at (snd (release_self_loop i ag now ks b s)) k = Some l"
  by (induction ks arbitrary: s b)
     (auto simp: release_self_loop_step release_frozen split: option.splits sum.splits)

lemma release_self_loop_events: "\<exists>es. s_events (snd (release_self_loop i ag now ks b s)) = s_events s @ es"
proof (induction ks arbitrary: s b)
  case Nil
  then show ?case by simp
next
  case (Cons k ks)
  show ?case
  proof (cases "lease_at s k")
    case None
    with Cons show ?thesis by (simp add: release_self_loop_step)
  next
    case (Some l)
    let ?s = "snd (release_lease (lease_id l) now (Some ''stale_reclaim'') s)"
    obtain es where "s_events ?s = s_events s @ es" using release_events by blast
    moreover obtain es' where "s_events (snd (release_self_loop i ag now ks True ?s)) = s_events ?s @ es'"
      using Cons by blast
    ultimately show ?thesis using Some Cons [of b s]
      by (simp add: release_self_loop_step split: sum.splits)
  qed
qed

lemma release_self_snd:
  "s_leases (snd (release_self_stale_lease i ag now s)) = s_leases (snd (release_self_loop i ag now (map fst (s_leases s)) False s))"
  "s_events (snd (release_self_stale_lease i ag now s)) = s_events (snd (release_self_loop i ag now (map fst (s_leases s)) False s))"
  by (auto simp: release_self_stale_lease_def split: prod.splits sum.splits pyval.splits)

interpretation release_self: lease_operation "\<lambda>s. snd (release_self_stale_lease i ag now s)" "\<lambda>_. True" for i ag now
proof
  fix s k l
  show "lease_inv s \<Longrightarrow> lease_inv (snd (release_self_stale_lease i ag now s))"
    unfolding inv_cong [OF release_self_snd(1)] by (rule release_self_loop_inv)
  show "lease_at s k = Some l \<Longrightarrow> \<not> is_active l \<Longrightarrow> lease_at (snd (release_self_stale_lease i ag now s)) k = Some l"
    unfolding release_self_snd(1) by (rule release_self_loop_frozen)
  show "\<exists>es. s_events (snd (release_self_stale_lease i ag now s)) = s_events s @ es"
    unfolding release_self_snd(2) by (rule release_self_loop_events)
qed

text \<open>\<open>reclaim_lease\<close> and the transaction of \<open>reclaim_leases\<close> are compositions.\<close>

lemma reclaim_body_snd: "snd (reclaim_body now s) = return_expired_items_to_open (fst (expire_leases now s)) (snd (expire_leases now s))"
  by (simp add: reclaim_body_def split: prod.splits)

interpretation reclaim: lease_operation "\<lambda>s. snd (reclaim_body now s)" "\<lambda>_. True" for now
  by unfold_locales
     (simp_all add: reclaim_body_snd expire_inv inv_cong [OF leases_return] expire_frozen expire_events)

interpretation reclaim_one: lease_operation "\<lambda>s. snd (reclaim_lease a item s)" "fresh_id a" for a item
proof
  fix s k l
  let ?a = "a\<lparr>c_conflict_keys := None, c_allow_overlap := False\<rparr>"
  have id: "claim_id ?a = claim_id a" by (simp add: claim_id_def new_lease_def split: option.split)
  have fresh: "fresh_id a s \<Longrightarrow> fresh_id ?a (snd (expire_leases (c_now a) s))"
    using id by (simp add: fresh_id_def lease_at_expire)
  show "lease_inv s \<Longrightarrow> lease_inv (snd (reclaim_lease a item s))"
    by (simp add: reclaim_lease_def claim_inv expire_inv)
  show "lease_at s k = Some l \<Longrightarrow> \<not> is_active l \<Longrightarrow> fresh_id a s \<Longrightarrow> lease_at (snd (reclaim_lease a item s)) k = Some l"
    unfolding reclaim_lease_def by (rule claim.keeps_ended) (auto intro: expire_frozen fresh)
  show "\<exists>es. s_events (snd (reclaim_lease a item s)) = s_events s @ es"
  proof -
    obtain es es' where "s_events (snd (expire_leases (c_now a) s)) = s_events s @ es"
      "s_events (snd (claim_lease ?a item (snd (expire_leases (c_now a) s)))) = s_events (snd (expire_leases (c_now a) s)) @ es'"
      using expire_events claim_events by metis
    then show ?thesis by (simp add: reclaim_lease_def)
  qed
qed

section \<open>Reachable sessions\<close>

inductive lease_step :: "lease_session \<Rightarrow> lease_session \<Rightarrow> bool" where
  step_claim: "fresh_id a s \<Longrightarrow> lease_step s (snd (claim_lease a item s))"
| step_reclaim_one: "fresh_id a s \<Longrightarrow> lease_step s (snd (reclaim_lease a item s))"
| step_submit: "lease_step s (snd (submit_lease lid u s))"
| step_accept: "lease_step s (snd (accept_lease lid now s))"
| step_release: "lease_step s (snd (release_lease lid now reason s))"
| step_expire: "lease_step s (snd (expire_leases now s))"
| step_release_claimed: "lease_step s (snd (release_claimed_lease lid now why s))"
| step_release_self: "lease_step s (snd (release_self_stale_lease i ag now s))"
| step_reclaim: "lease_step s (snd (reclaim_body now s))"

inductive_cases lease_stepE: "lease_step s s'"

text \<open>
  Between two commands the session goes through the store. A lease made in this process is
  written with the fields of its dataclass (\<open>json_ready\<close>), so the attributes added to it
  later are lost and its role comes back as text; a lease that was loaded is written as it
  is. The order of the rows is not fixed.
\<close>

definition reload_lease :: "lease \<Rightarrow> lease" where
  "reload_lease l =
     (case l_role l of
        EnumRole r \<Rightarrow> l\<lparr>l_role := TextRole r, l_submitted_at := None, l_completed_at := None, l_reason := None\<rparr>
      | TextRole r \<Rightarrow> l)"

definition reloaded :: "lease_session \<Rightarrow> lease_session \<Rightarrow> bool" where
  "reloaded s s' \<longleftrightarrow>
     distinct (map fst (s_leases s')) \<and> (\<forall>k. lease_at s' k = map_option reload_lease (lease_at s k))"

inductive lease_reachable :: "lease_session \<Rightarrow> bool" where
  start: "s_leases s = [] \<Longrightarrow> lease_reachable s"
| step: "lease_reachable s \<Longrightarrow> lease_step s s' \<Longrightarrow> lease_reachable s'"
| reload: "lease_reachable s \<Longrightarrow> reloaded s s' \<Longrightarrow> lease_reachable s'"
| other: "lease_reachable s \<Longrightarrow> s_leases s' = s_leases s \<Longrightarrow> lease_reachable s'"
    \<comment> \<open>the rest of the program works on items and log\<close>

lemma reload_lease_fields [simp]:
  "lease_id (reload_lease l) = lease_id l" "l_item_id (reload_lease l) = l_item_id l"
  "l_agent_id (reload_lease l) = l_agent_id l" "role_value (l_role (reload_lease l)) = role_value (l_role l)"
  "l_status (reload_lease l) = l_status l" "l_conflict_keys (reload_lease l) = l_conflict_keys l"
  by (simp_all add: reload_lease_def split: lease_role.split)

lemma reload_active [simp]: "is_active (reload_lease l) = is_active l"
  by (simp add: is_active_def)

lemma reload_compatible [simp]: "compatible (reload_lease l) (reload_lease m) = compatible l m"
  by (simp add: compatible_def key_overlap_def)

lemma reloaded_inv:
  assumes "reloaded s s'" "lease_inv s" shows "lease_inv s'"
proof -
  have at: "lease_at s' k = Some l \<Longrightarrow> \<exists>m. lease_at s k = Some m \<and> l = reload_lease m" for k l
    using assms(1) by (auto simp: reloaded_def)
  have "lease_wf s'"
    using assms at by (fastforce simp: lease_inv_def lease_wf_def reloaded_def)
  moreover have "exclusive s'"
    unfolding exclusive_def
  proof (intro allI impI)
    fix i j l m
    assume "lease_at s' i = Some l" "lease_at s' j = Some m" and *: "i \<noteq> j" "is_active l" "is_active m"
    then obtain l0 m0 where "lease_at s i = Some l0" "l = reload_lease l0" "lease_at s j = Some m0" "m = reload_lease m0"
      using at by meson
    with * assms(2) show "l_item_id l \<noteq> l_item_id m \<and> compatible l m"
      by (simp add: lease_inv_def exclusive_def)
  qed
  ultimately show ?thesis by (simp add: lease_inv_def)
qed

lemmas contract_inv = claim.keeps_inv reclaim_one.keeps_inv submit.keeps_inv accept.keeps_inv release.keeps_inv
  expire.keeps_inv release_claimed.keeps_inv release_self.keeps_inv reclaim.keeps_inv

lemmas contract_ended = claim.keeps_ended reclaim_one.keeps_ended submit.keeps_ended accept.keeps_ended
  release.keeps_ended expire.keeps_ended release_claimed.keeps_ended release_self.keeps_ended reclaim.keeps_ended

lemmas contract_log = claim.log_prefix reclaim_one.log_prefix submit.log_prefix accept.log_prefix
  release.log_prefix expire.log_prefix release_claimed.log_prefix release_self.log_prefix reclaim.log_prefix

lemma lease_step_inv: "lease_step s s' \<Longrightarrow> lease_inv s \<Longrightarrow> lease_inv s'"
  by (erule lease_stepE) (simp_all add: contract_inv)

lemma lease_step_ended: "lease_step s s' \<Longrightarrow> lease_at s k = Some l \<Longrightarrow> \<not> is_active l \<Longrightarrow> lease_at s' k = Some l"
  by (erule lease_stepE) (simp_all add: contract_ended)

lemma lease_step_log: "lease_step s s' \<Longrightarrow> take (length (s_events s)) (s_events s') = s_events s"
  by (erule lease_stepE) (simp_all add: contract_log)

lemma reachable_inv: "lease_reachable s \<Longrightarrow> lease_inv s"
proof (induction rule: lease_reachable.induct)
  case (start s)
  then show ?case by (simp add: lease_inv_def lease_wf_def exclusive_def)
next
  case (step s s')
  then show ?case by (blast intro: lease_step_inv)
next
  case (reload s s')
  then show ?case by (blast intro: reloaded_inv)
next
  case (other s s')
  then show ?case by (simp only: inv_cong [OF other(2)])
qed


section \<open>Exclusivity\<close>

text \<open>A session with two claims, used by the witnesses.\<close>

definition ex_item :: "string \<Rightarrow> pydict" where
  "ex_item i = [(''item_id'', PStr i), (''state'', PStr ''open''), (''path'', PStr ''src/a.py''),
                (''start_line'', PInt (if i = ''one'' then 1 else 20)), (''end_line'', PInt (if i = ''one'' then 9 else 30))]"

definition ex_claim :: "string \<Rightarrow> string \<Rightarrow> claim_args" where
  "ex_claim agent uuid =
     \<lparr>c_agent_id = agent, c_role = ''fixer'', c_request_hash = ''h1'', c_lease_id = None, c_uuid_hex = uuid,
      c_now = 0, c_ttl_seconds = 60, c_resume_token = None, c_request_id = None, c_request_path = None,
      c_conflict_keys = None, c_allow_overlap = False\<rparr>"

definition ex_empty :: lease_session where
  "ex_empty = \<lparr>s_items = [(''one'', PDict (ex_item ''one'')), (''two'', PDict (ex_item ''two''))], s_leases = [],
               s_events = [], s_repo = ''o/r'', s_pr = ''7''\<rparr>"

definition ex_one :: lease_session where
  "ex_one = snd (claim_lease (ex_claim ''alice'' ''a1'') (ex_item ''one'') ex_empty)"

definition ex_two :: lease_session where
  "ex_two = snd (claim_lease (ex_claim ''bob'' ''b2'') (ex_item ''two'') ex_one)"

lemma ex_two_reachable: "lease_reachable ex_two"
proof -
  have "lease_reachable ex_empty" by (rule lease_reachable.start) (simp add: ex_empty_def)
  moreover have "lease_step ex_empty ex_one"
    unfolding ex_one_def by (rule step_claim) code_simp
  moreover have "lease_step ex_one ex_two"
    unfolding ex_two_def by (rule step_claim) code_simp
  ultimately show ?thesis by (meson lease_reachable.step)
qed

definition ex_lease :: "string \<Rightarrow> lease" where
  "ex_lease k = the (lease_at ex_two k)"

lemma ex_leases:
  "lease_at ex_two ''lease_a1'' = Some (ex_lease ''lease_a1'')" "lease_at ex_two ''lease_b2'' = Some (ex_lease ''lease_b2'')"
  "is_active (ex_lease ''lease_a1'')" "is_active (ex_lease ''lease_b2'')"
  "l_agent_id (ex_lease ''lease_a1'') \<noteq> l_agent_id (ex_lease ''lease_b2'')"
  "\<not> is_read_only_role (role_value (l_role (ex_lease ''lease_a1'')))"
  by code_simp+

text \<open>
  C2: claims are exclusive. In every session reached by the lease operations and by
  reloads from the store, two different active leases are on different items. When they
  belong to different agents and at least one of them may write, they share no conflict
  key and no line of a file: neither a file lease over the other's lines nor two
  overlapping line ranges.
\<close>

theorem active_leases_exclusive:
  assumes "lease_reachable s" "lease_at s j = Some l" "lease_at s k = Some m" "j \<noteq> k"
    and "is_active l" "is_active m"
  shows "l_item_id l \<noteq> l_item_id m
    \<and> (l_agent_id l \<noteq> l_agent_id m
         \<and> \<not> (is_read_only_role (role_value (l_role l)) \<and> is_read_only_role (role_value (l_role m)))
       \<longrightarrow> set (l_conflict_keys l) \<inter> set (l_conflict_keys m) = {}
         \<and> hunk_overlap (l_conflict_keys l) (l_conflict_keys m) = {})"
proof -
  have "exclusive s" using reachable_inv [OF assms(1)] by (simp add: lease_inv_def)
  then have "l_item_id l \<noteq> l_item_id m \<and> compatible l m"
    using assms by (simp add: exclusive_def)
  then show ?thesis by (auto simp: compatible_def key_overlap_def)
qed

theorem active_leases_exclusive_witness:
  "set (l_conflict_keys (ex_lease ''lease_a1'')) \<inter> set (l_conflict_keys (ex_lease ''lease_b2'')) = {}
   \<and> hunk_overlap (l_conflict_keys (ex_lease ''lease_a1'')) (l_conflict_keys (ex_lease ''lease_b2'')) = {}"
  using active_leases_exclusive [OF ex_two_reachable ex_leases(1,2) _ ex_leases(3,4)] ex_leases(5,6) by simp

section \<open>Ended leases\<close>

text \<open>
  The end of a lease is final. No operation of the component, whoever calls it and
  whether it succeeds or raises, changes a lease that is not active; and the event log only
  grows, so what was recorded stays recorded.
\<close>

theorem ended_lease_is_final:
  assumes "lease_step s s'" "lease_at s k = Some l" "\<not> is_active l"
  shows "lease_at s' k = Some l \<and> take (length (s_events s)) (s_events s') = s_events s"
  using assms lease_step_ended lease_step_log by simp

definition ex_ended :: lease_session where
  "ex_ended = snd (release_lease ''lease_a1'' 5 None ex_two)"

theorem ended_lease_is_final_witness:
  "lease_at (snd (claim_lease (ex_claim ''bob'' ''c3'') (ex_item ''one'') ex_ended)) ''lease_a1''
     = Some (the (lease_at ex_ended ''lease_a1''))"
proof -
  have st: "lease_step ex_ended (snd (claim_lease (ex_claim ''bob'' ''c3'') (ex_item ''one'') ex_ended))"
    by (rule step_claim) code_simp
  have at: "lease_at ex_ended ''lease_a1'' = Some (the (lease_at ex_ended ''lease_a1''))"
    and off: "\<not> is_active (the (lease_at ex_ended ''lease_a1''))"
    by code_simp+
  show ?thesis by (rule ended_lease_is_final [OF st at off, THEN conjunct1])
qed

section \<open>Submission\<close>

lemma submit_ok_iff:
  "(\<exists>l'. fst (submit_lease lid u s) = Inr l') \<longleftrightarrow>
     (\<exists>l. lease_at s lid = Some l \<and> l_status l = ''active'' \<and> role_value (l_role l) = u_role u
          \<and> l_agent_id l = u_agent_id u \<and> l_item_id l = u_item_id u \<and> u_now u < l_expires_at l
          \<and> l_request_hash l = Some (u_request_hash u))"
  (is "?A = ?B")
proof
  assume ?A
  then show ?B by (cases rule: submit_lease_cases [of lid u s]) (auto simp: is_expired_def)
next
  assume ?B
  then show ?A by (auto simp: submit_lease_def TERMINAL_LEASE_STATUSES_def is_expired_def Let_def)
qed

text \<open>
  The exact condition of a submission. \<open>submit_lease\<close> succeeds if and only if the lease
  exists, is active (not already submitted, not ended), is held by this agent in this role
  for this item, has not reached its expiry and was issued for this request hash.
\<close>

theorem submit_lease_succeeds_iff:
  "(\<exists>l'. fst (submit_lease lid u s) = Inr l') \<longleftrightarrow>
     (\<exists>l. lease_at s lid = Some l \<and> l_status l = ''active'' \<and> role_value (l_role l) = u_role u
          \<and> l_agent_id l = u_agent_id u \<and> l_item_id l = u_item_id u \<and> u_now u < l_expires_at l
          \<and> l_request_hash l = Some (u_request_hash u))"
  by (rule submit_ok_iff)

text \<open>
  One lease, one submission. After a successful submission the stored lease is the
  submitted one, and every later submission under it, by anyone and with any arguments, is
  refused as a duplicate and changes neither leases nor items.
\<close>

theorem second_submission_refused:
  assumes "submit_lease lid u s = (Inr l', s1)"
  shows "lease_at s1 lid = Some l' \<and> l_status l' = ''submitted''
    \<and> (\<exists>r. fst (submit_lease lid u2 s1) = Inl (LeaseSubmissionError ''DUPLICATE_SUBMISSION'' lid (Some r)))
    \<and> s_leases (snd (submit_lease lid u2 s1)) = s_leases s1
    \<and> s_items (snd (submit_lease lid u2 s1)) = s_items s1"
proof -
  have at: "lease_at s1 lid = Some l'" and st: "l_status l' = ''submitted''"
    using assms by (cases rule: submit_lease_cases [of lid u s]; auto)+
  have "submit_lease lid u2 s1 = raise_submission_error ''DUPLICATE_SUBMISSION'' lid l' u2 s1"
    using at st by (simp add: submit_lease_def)
  with at st show ?thesis
    using raise_submission_error_leases [of "''DUPLICATE_SUBMISSION''" lid l' u2 s1]
    by (simp add: raise_submission_error_def Let_def)
qed

definition ex_submit :: submit_args where
  "ex_submit = \<lparr>u_agent_id = ''alice'', u_role = ''fixer'', u_item_id = ''one'', u_request_hash = ''h1'', u_now = 7\<rparr>"

theorem second_submission_refused_witness:
  "s_leases (snd (submit_lease ''lease_a1'' ex_submit (snd (submit_lease ''lease_a1'' ex_submit ex_two))))
     = s_leases (snd (submit_lease ''lease_a1'' ex_submit ex_two))"
proof -
  have "\<not> isl (fst (submit_lease ''lease_a1'' ex_submit ex_two))" by code_simp
  then obtain l' where "submit_lease ''lease_a1'' ex_submit ex_two
      = (Inr l', snd (submit_lease ''lease_a1'' ex_submit ex_two))"
    by (metis prod.collapse sum.collapse(2))
  from second_submission_refused [OF this, of ex_submit] show ?thesis by blast
qed

section \<open>Expiry\<close>

lemma expire_loop_none: "(\<forall>k l. lease_at s k = Some l \<longrightarrow> \<not> needs_expiry now l) \<Longrightarrow> expire_loop now ks s = ([], s)"
  by (induction ks) (auto simp: expire_loop_step split: option.splits)

lemma keys_expire_lease:
  assumes "lease_at s k = Some l"
  shows "map fst (s_leases (snd (expire_lease k l now s))) = map fst (s_leases s)"
proof -
  have "k \<in> set (map fst (s_leases s))" using assms by (force dest: map_of_SomeD)
  then show ?thesis unfolding expire_lease_leases keys_put by simp
qed

lemma keys_expire_loop: "map fst (s_leases (snd (expire_loop now ks s))) = map fst (s_leases s)"
proof (induction ks arbitrary: s)
  case (Cons k ks)
  then show ?case by (simp add: expire_loop_step keys_expire_lease split: option.split)
qed simp

lemma expire_leases_settles:
  assumes "lease_at (snd (expire_leases now s)) k = Some l" shows "\<not> needs_expiry now l"
  using assms by (auto simp: lease_at_expire expire_view_simps)

text \<open>
  C35: \<open>expire_leases\<close> implements its abstract reading. Every stored lease becomes its
  expired view (\<open>expired\<close> with its completion time when it was active and past its expiry,
  unchanged otherwise), so no lease that should have expired is left, the order and keys of
  the store are kept, and a second run at the same time finds nothing.
\<close>

theorem expire_leases_refines:
  "lease_at (snd (expire_leases now s)) j = map_option (expire_view now) (lease_at s j)
   \<and> map fst (s_leases (snd (expire_leases now s))) = map fst (s_leases s)
   \<and> expire_leases now (snd (expire_leases now s)) = ([], snd (expire_leases now s))"
  using expire_loop_none [of "snd (expire_leases now s)" now] expire_leases_settles [of now s]
  by (intro conjI lease_at_expire) (simp_all add: keys_expire_loop expire_leases_def)

text \<open>The item of a lease that expires.\<close>

definition freed :: "pydict \<Rightarrow> pydict" where
  "freed d = clear_claim (return_item_to_claimable_state d)"

definition item_free :: "pydict \<Rightarrow> bool" where
  "item_free d \<longleftrightarrow> dget d ''active_lease_id'' = PNone \<and> dget d ''claimed_by'' = PNone
     \<and> dget d ''state'' \<in> {PStr ''open'', PStr ''stale''}"

lemma freed_is_free: "item_free (freed d)"
  using returned_state_cases [of d]
  by (auto simp: item_free_def freed_def clear_claim_def dget_return_item)

lemma dget_put_item: "dget (s_items (put_item k d s)) j = (if j = k then PDict d else dget (s_items s) j)"
  by (auto simp: put_item_def)

lemma items_frame [simp]:
  "s_items (put_lease k l s) = s_items s" "s_items (append_lease_event l t n r s) = s_items s"
  by (simp_all add: put_lease_def append_lease_event_def append_event_def)

lemma item_other_return: "l_item_id l \<noteq> i \<Longrightarrow> dget (s_items (return_expired_item l s)) i = dget (s_items s) i"
  by (simp add: return_expired_item_def dget_put_item split: pyval.split)

lemma item_other_reopen: "l_item_id l \<noteq> i \<Longrightarrow> dget (s_items (reopen_claimed_item l s)) i = dget (s_items s) i"
  by (simp add: reopen_claimed_item_def dget_put_item split: pyval.split)

lemma item_held_return:
  "dget (s_items s) i = PDict d \<Longrightarrow> dget d ''active_lease_id'' \<noteq> PStr (lease_id l) \<Longrightarrow>
     dget (s_items (return_expired_item l s)) i = PDict d"
  by (cases "l_item_id l = i") (simp add: return_expired_item_def, simp add: item_other_return)

lemma item_held_reopen:
  "dget (s_items s) i = PDict d \<Longrightarrow>
     dget d ''active_lease_id'' \<notin> {PNone, PStr (lease_id l)} \<or> dget d ''state'' \<noteq> PStr ''claimed'' \<Longrightarrow>
     dget (s_items (reopen_claimed_item l s)) i = PDict d"
proof (cases "l_item_id l = i")
  case True
  assume "dget (s_items s) i = PDict d"
    "dget d ''active_lease_id'' \<notin> {PNone, PStr (lease_id l)} \<or> dget d ''state'' \<noteq> PStr ''claimed''"
  with True show ?thesis by (auto simp: reopen_claimed_item_def)
qed (simp add: item_other_reopen)

lemma items_expire_lease:
  "s_items (snd (expire_lease k l now s)) =
     (let l' = l\<lparr>l_status := ''expired'', l_completed_at := Some now\<rparr>
      in s_items (reopen_claimed_item l' (return_expired_item l' (put_lease k l' s))))"
  by (simp add: expire_lease_def Let_def return_expired_items_to_open_def)

lemma item_kept_expire_lease:
  "dget (s_items s) i = PDict d \<Longrightarrow> item_free d \<or> (\<exists>j. dget d ''active_lease_id'' = PStr j \<and> j \<noteq> lease_id l) \<Longrightarrow>
     dget (s_items (snd (expire_lease k l now s))) i = PDict d"
  unfolding items_expire_lease Let_def
  by (rule item_held_reopen; (rule item_held_return)?) (auto simp: item_free_def)

lemma item_freed_expire_lease:
  assumes "dget (s_items s) (l_item_id l) = PDict d" "dget d ''active_lease_id'' = PStr (lease_id l)"
  shows "dget (s_items (snd (expire_lease k l now s))) (l_item_id l) = PDict (freed d)"
proof -
  let ?l = "l\<lparr>l_status := ''expired'', l_completed_at := Some now\<rparr>"
  have "dget (s_items (return_expired_item ?l (put_lease k ?l s))) (l_item_id l) = PDict (freed d)"
    using assms by (simp add: return_expired_item_def dget_put_item freed_def)
  moreover have "dget (freed d) ''state'' \<noteq> PStr ''claimed''"
    using freed_is_free [of d] by (auto simp: item_free_def)
  ultimately show ?thesis unfolding items_expire_lease Let_def by (intro item_held_reopen) auto
qed

lemma item_free_expire_loop:
  "dget (s_items s) i = PDict d \<Longrightarrow> item_free d \<Longrightarrow> dget (s_items (snd (expire_loop now ks s))) i = PDict d"
  by (induction ks arbitrary: s) (auto simp: expire_loop_step item_kept_expire_lease split: option.split)

lemma item_freed_expire_loop:
  assumes "lease_inv s" "lease_at s k = Some l" "needs_expiry now l" "k \<in> set ks"
    and "dget (s_items s) (l_item_id l) = PDict d" "dget d ''active_lease_id'' = PStr k"
  shows "dget (s_items (snd (expire_loop now ks s))) (l_item_id l) = PDict (freed d)"
  using assms
proof (induction ks arbitrary: s)
  case (Cons j ks)
  have k: "lease_id l = k" using Cons.prems(1,2) by (rule lease_inv_id)
  show ?case
  proof (cases "j = k")
    case True
    with Cons.prems k item_freed_expire_lease [of s l d] show ?thesis
      by (simp add: expire_loop_step item_free_expire_loop freed_is_free)
  next
    case False
    have step: "lease_at s j = Some m \<Longrightarrow>
        dget (s_items (snd (expire_lease j m now s))) (l_item_id l) = PDict d" for m
      using Cons.prems(5,6) False lease_inv_id [OF Cons.prems(1), of j m]
      by (intro item_kept_expire_lease) auto
    show ?thesis
      using Cons False step
      by (simp add: expire_loop_step expire_lease_inv lease_at_expire_lease split: option.split)
  qed
qed simp

text \<open>
  An expired lease gives its item back. When the lease an item is held by runs out,
  \<open>expire_leases\<close> marks the lease and hands the item back, whatever other leases expire in
  the same run: it names no lease and no claimant, its state is open or stale, and the
  fields that are not about the claim are what they were.
\<close>

theorem expired_item_is_freed:
  assumes "lease_reachable s" "lease_at s k = Some l" "is_active l" "l_expires_at l \<le> now"
    and "dget (s_items s) (l_item_id l) = PDict d" "dget d ''active_lease_id'' = PStr k"
  shows "\<exists>d'. dget (s_items (snd (expire_leases now s))) (l_item_id l) = PDict d'
    \<and> \<not> has_key d' ''active_lease_id'' \<and> dget d' ''claimed_by'' = PNone
    \<and> dget d' ''state'' = PStr (fst (returned_claimable_state d))
    \<and> (\<forall>f. f \<notin> {''state'', ''status'', ''active_lease_id'', ''claimed_by'', ''claimed_at'', ''lease_expires_at''}
           \<longrightarrow> dget d' f = dget d f)"
proof -
  have "k \<in> set (map fst (s_leases s))" using assms(2) by (force dest: map_of_SomeD)
  then have "dget (s_items (snd (expire_leases now s))) (l_item_id l) = PDict (freed d)"
    unfolding expire_leases_def using assms reachable_inv
    by (intro item_freed_expire_loop) (auto simp: needs_expiry_def is_expired_def)
  moreover have "\<not> has_key (freed d) ''active_lease_id'' \<and> dget (freed d) ''claimed_by'' = PNone
    \<and> dget (freed d) ''state'' = PStr (fst (returned_claimable_state d))"
    by (simp add: freed_def clear_claim_def dget_return_item has_key_return_item)
  moreover have "f \<notin> {''state'', ''status'', ''active_lease_id'', ''claimed_by'', ''claimed_at'', ''lease_expires_at''}
      \<Longrightarrow> dget (freed d) f = dget d f" for f
    by (auto simp: freed_def clear_claim_def dget_return_item)
  ultimately show ?thesis by blast
qed

definition ex_held_item :: pydict where
  "ex_held_item = [(''state'', PStr ''claimed''), (''claimed_by'', PStr ''alice''), (''active_lease_id'', PStr ''lease_a1''),
                   (''body'', PStr ''x'')]"

definition ex_held :: lease_session where
  "ex_held = ex_two\<lparr>s_items := [(''one'', PDict ex_held_item)]\<rparr>"

theorem expired_item_is_freed_witness:
  "\<exists>d'. dget (s_items (snd (expire_leases 60000000 ex_held))) ''one'' = PDict d'
     \<and> \<not> has_key d' ''active_lease_id'' \<and> dget d' ''state'' = PStr ''open''"
proof -
  have "lease_reachable ex_held"
    by (rule lease_reachable.other [OF ex_two_reachable]) (simp add: ex_held_def)
  moreover have "lease_at ex_held ''lease_a1'' = Some (ex_lease ''lease_a1'')"
    using ex_leases(1) by (simp add: ex_held_def)
  moreover have "l_expires_at (ex_lease ''lease_a1'') \<le> 60000000" and item: "l_item_id (ex_lease ''lease_a1'') = ''one''"
    by code_simp+
  moreover have "dget (s_items ex_held) (l_item_id (ex_lease ''lease_a1'')) = PDict ex_held_item"
    unfolding item by (simp add: ex_held_def)
  moreover have "dget ex_held_item ''active_lease_id'' = PStr ''lease_a1''"
    "fst (returned_claimable_state ex_held_item) = ''open''"
    by code_simp+
  ultimately show ?thesis
    using expired_item_is_freed [of ex_held "''lease_a1''" "ex_lease ''lease_a1''" 60000000 ex_held_item] ex_leases(3)
    unfolding item by auto
qed

section \<open>Claims\<close>

lemma claim_ok_iff:
  assumes "lease_inv s"
  shows "(\<exists>l. fst (claim_lease a item s) = Inr l) \<longleftrightarrow>
     dget item ''item_id'' \<notin> {PNone, PStr []} \<and> c_role a \<in> set AGENT_ROLES
     \<and> (\<exists>keys. claim_keys a item = Inr keys
          \<and> (\<forall>k l. lease_at s k = Some l \<and> is_active l \<and> c_now a < l_expires_at l
               \<longrightarrow> l_item_id l \<noteq> py_str (dget item ''item_id'') \<and> \<not> blocks_claim a keys l))"
    (is "?A \<longleftrightarrow> ?B")
proof -
  let ?s = "snd (expire_leases (c_now a) s)" and ?i = "py_str (dget item ''item_id'')"
  have wf: "distinct (map fst (s_leases ?s))"
    using expire_inv [OF assms] by (simp add: lease_inv_def lease_wf_def)
  have mem: "l \<in> set (map snd (s_leases ?s)) \<longleftrightarrow> (\<exists>k. lease_at ?s k = Some l)" for l
    using wf by (force dest: map_of_SomeD)
  have act: "is_active (expire_view (c_now a) l) \<longleftrightarrow> is_active l \<and> c_now a < l_expires_at l" for l
    by (auto simp: expire_view_def needs_expiry_def is_expired_def)
  have view: "is_active l \<Longrightarrow> c_now a < l_expires_at l \<Longrightarrow> expire_view (c_now a) l = l" for l
    by (simp add: expire_view_def needs_expiry_def is_expired_def)
  have none: "claim_conflict a ?i keys (map snd (s_leases ?s)) = None \<longleftrightarrow>
      (\<forall>k l. lease_at s k = Some l \<and> is_active l \<and> c_now a < l_expires_at l \<longrightarrow> l_item_id l \<noteq> ?i \<and> \<not> blocks_claim a keys l)"
    for keys
  proof -
    have "claim_conflict a ?i keys (map snd (s_leases ?s)) = None \<longleftrightarrow>
        (\<forall>k l. lease_at s k = Some l \<and> is_active (expire_view (c_now a) l)
           \<longrightarrow> l_item_id (expire_view (c_now a) l) \<noteq> ?i \<and> \<not> blocks_claim a keys (expire_view (c_now a) l))"
      unfolding claim_conflict_None Ball_def mem lease_at_expire by auto
    also have "\<dots> \<longleftrightarrow>
        (\<forall>k l. lease_at s k = Some l \<and> is_active l \<and> c_now a < l_expires_at l \<longrightarrow> l_item_id l \<noteq> ?i \<and> \<not> blocks_claim a keys l)"
      unfolding act using view by (intro all_cong1) auto
    finally show ?thesis .
  qed
  show ?thesis
  proof
    assume ?A
    then show ?B
    proof (cases rule: claim_lease_cases [of a item s])
      case (claimed keys role i)
      have "c_role a \<in> set AGENT_ROLES" using parse_role_Inr claimed(5) by blast
      moreover note claimed(1,3) none [of keys, THEN iffD1]
      ultimately show ?thesis using claimed(2,4) by simp
    qed auto
  next
    assume b: ?B
    then obtain keys where keys: "claim_keys a item = Inr keys" "claim_conflict a ?i keys (map snd (s_leases ?s)) = None"
      using none by auto
    moreover have "parse_role (c_role a) = Inr (EnumRole (c_role a))"
      using b by (simp add: parse_role_def)
    ultimately show ?A using b by (simp add: claim_lease_def Let_def)
  qed
qed

text \<open>
  C25: the exact condition of a claim. In a reachable session \<open>claim_lease\<close> succeeds if and
  only if the item has an id, the role is a known one, the conflict keys can be computed and
  no active lease that has not yet expired is on the item or blocks one of the keys. In
  particular expired leases never stand in the way, so every blocked claim becomes possible
  when the leases in its way run out.
\<close>

theorem claim_lease_succeeds_iff:
  assumes "lease_reachable s"
  shows "(\<exists>l. fst (claim_lease a item s) = Inr l) \<longleftrightarrow>
     dget item ''item_id'' \<notin> {PNone, PStr []} \<and> c_role a \<in> set AGENT_ROLES
     \<and> (\<exists>keys. claim_keys a item = Inr keys
          \<and> (\<forall>k l. lease_at s k = Some l \<and> is_active l \<and> c_now a < l_expires_at l
               \<longrightarrow> l_item_id l \<noteq> py_str (dget item ''item_id'') \<and> \<not> blocks_claim a keys l))"
  using claim_ok_iff reachable_inv [OF assms] by blast

theorem claim_lease_succeeds_iff_witness:
  "\<not> (\<exists>l. fst (claim_lease (ex_claim ''carol'' ''c3'') (ex_item ''one'') ex_two) = Inr l)"
proof
  assume "\<exists>l. fst (claim_lease (ex_claim ''carol'' ''c3'') (ex_item ''one'') ex_two) = Inr l"
  then obtain keys where *: "\<And>k l. lease_at ex_two k = Some l \<Longrightarrow> is_active l \<Longrightarrow>
      c_now (ex_claim ''carol'' ''c3'') < l_expires_at l \<Longrightarrow> l_item_id l \<noteq> py_str (dget (ex_item ''one'') ''item_id'')"
    using claim_lease_succeeds_iff [OF ex_two_reachable] by metis
  have "c_now (ex_claim ''carol'' ''c3'') < l_expires_at (ex_lease ''lease_a1'')"
    and "l_item_id (ex_lease ''lease_a1'') = py_str (dget (ex_item ''one'') ''item_id'')"
    by code_simp+
  with * [OF ex_leases(1,3)] show False by simp
qed

text \<open>
  What a successful claim leaves. The returned lease is the one stored under its id; it
  is active, held by the caller in the requested role, for the item and the request hash of
  the call, with its keys sorted and without duplicates, and it expires exactly the
  requested number of seconds after the claim. Every other lease is what the expiry run
  leaves, no item is touched beyond that run, and one creation event is logged last.
\<close>

theorem claim_lease_effect:
  assumes "claim_lease a item s = (Inr l, s')"
  shows "lease_at s' (lease_id l) = Some l \<and> l_status l = ''active'' \<and> l_agent_id l = c_agent_id a
    \<and> role_value (l_role l) = c_role a \<and> l_item_id l = py_str (dget item ''item_id'')
    \<and> l_request_hash l = Some (c_request_hash a) \<and> l_expires_at l = c_now a + 1000000 * c_ttl_seconds a
    \<and> sorted (l_conflict_keys l) \<and> distinct (l_conflict_keys l)
    \<and> (\<forall>k. k \<noteq> lease_id l \<longrightarrow> lease_at s' k = map_option (expire_view (c_now a)) (lease_at s k))
    \<and> s_items s' = s_items (snd (expire_leases (c_now a) s))
    \<and> last (s_events s') = LeaseEvent ''lease_created'' (c_now a) (lease_id l) (l_item_id l) (l_agent_id l)
                             (l_role l) ''active'' None"
proof (cases rule: claim_lease_cases [of a item s])
  case (claimed keys role i)
  have keys: "sorted keys \<and> distinct keys"
    using claimed(1) by (auto simp: claim_keys_def split: option.splits sum.splits)
  have l: "l = new_lease a i keys role" and s': "s' = append_lease_event l ''lease_created'' (c_now a) None
      (put_lease (claim_id a) l (snd (expire_leases (c_now a) s)))"
    using claimed(6) assms by auto
  have id: "lease_id l = claim_id a" unfolding l claim_id_def by (rule new_lease_id)
  show ?thesis
    unfolding id using parse_role_Inr [OF claimed(5)] keys claimed(2)
    by (simp add: s' id) (simp add: l lease_at_expire)
qed (use assms in simp)

theorem claim_lease_effect_witness:
  "l_expires_at (ex_lease ''lease_a1'') = 0 + 1000000 * 60 \<and> l_role (ex_lease ''lease_a1'') = EnumRole ''fixer''"
proof -
  have "\<not> isl (fst (claim_lease (ex_claim ''alice'' ''a1'') (ex_item ''one'') ex_empty))" by code_simp
  then obtain l where l: "claim_lease (ex_claim ''alice'' ''a1'') (ex_item ''one'') ex_empty = (Inr l, ex_one)"
    unfolding ex_one_def by (metis prod.collapse sum.collapse(2))
  have "l = projr (fst (claim_lease (ex_claim ''alice'' ''a1'') (ex_item ''one'') ex_empty))" using l by simp
  also have "\<dots> = ex_lease ''lease_a1''" by code_simp
  finally have eq: "l = ex_lease ''lease_a1''" .
  have "c_now (ex_claim ''alice'' ''a1'') = 0" "c_ttl_seconds (ex_claim ''alice'' ''a1'') = 60"
    "l_role (ex_lease ''lease_a1'') = EnumRole ''fixer''"
    by code_simp+
  with claim_lease_effect [OF l] show ?thesis unfolding eq by simp
qed

section \<open>Recovery advice\<close>

lemma evaluate_foreign:
  "x_lease ctx \<noteq> None \<Longrightarrow> x_lease_agent_id ctx \<noteq> x_agent_id ctx \<or> x_lease_role ctx \<noteq> x_role ctx \<Longrightarrow>
     evaluate_lease_recovery_outcome ctx
       \<in> {(''already_completed'', ''LEASE_ALREADY_COMPLETED''), (''stop'', ''LEASE_RECOVERY_STOP'')}"
  by (simp add: evaluate_lease_recovery_outcome_def)

lemma recovery_field_text: "t \<noteq> [] \<Longrightarrow> recovery_field (PStr t) d f = t"
  by (simp add: recovery_field_def)

text \<open>
  Recovery never helps a foreign agent. When the lease is held by another agent or in
  another role than the caller's, the advice is to stop (or that the work is done) and no
  resume command is given, whatever the state of the lease and of its item.
\<close>

theorem foreign_lease_recovery_stops:
  assumes "lease_at s lid = Some l" "l_agent_id l \<noteq> []" "role_value (l_role l) \<noteq> []"
    and "l_agent_id l \<noteq> agent \<or> role_value (l_role l) \<noteq> role"
  shows "r_recovery_outcome (calculate_lease_recovery_state s lid agent role item hash now)
           \<in> {''already_completed'', ''stop''}
    \<and> r_resume_command (calculate_lease_recovery_state s lid agent role item hash now) = None"
proof -
  let ?ctx = "recovery_context s lid agent role item hash now"
  have "x_lease ?ctx \<noteq> None" "x_lease_agent_id ?ctx = l_agent_id l" "x_lease_role ?ctx = role_value (l_role l)"
    "x_agent_id ?ctx = agent" "x_role ?ctx = role"
    using assms by (simp_all add: recovery_context_def Let_def recovery_field_text role_text_def)
  then have "evaluate_lease_recovery_outcome ?ctx
      \<in> {(''already_completed'', ''LEASE_ALREADY_COMPLETED''), (''stop'', ''LEASE_RECOVERY_STOP'')}"
    using assms(4) by (intro evaluate_foreign) auto
  then show ?thesis
    by (auto simp: calculate_lease_recovery_state_def Let_def lease_recovery_command_for_def)
qed

theorem foreign_lease_recovery_stops_witness:
  "r_resume_command (calculate_lease_recovery_state ex_two ''lease_a1'' ''bob'' ''fixer'' ''one'' ''h1'' 5) = None"
proof -
  have "l_agent_id (ex_lease ''lease_a1'') \<noteq> []" "role_value (l_role (ex_lease ''lease_a1'')) \<noteq> []"
    "l_agent_id (ex_lease ''lease_a1'') \<noteq> ''bob''"
    by code_simp+
  then show ?thesis using foreign_lease_recovery_stops [OF ex_leases(1)] by simp
qed

section \<open>Releases\<close>

text \<open>
  Releasing after a rejected action is tolerant. \<open>release_claimed_lease\<close> never raises;
  it reports true exactly when the lease was active, the lease is then released, and a
  second call reports false and changes nothing.
\<close>

theorem release_claimed_lease_tolerant:
  "fst (release_claimed_lease lid now reason s) = Inr (\<exists>l. lease_at s lid = Some l \<and> is_active l)
   \<and> (\<forall>l. lease_at (snd (release_claimed_lease lid now reason s)) lid = Some l \<longrightarrow> \<not> is_active l)
   \<and> release_claimed_lease lid now' reason' (snd (release_claimed_lease lid now reason s))
       = (Inr False, snd (release_claimed_lease lid now reason s))"
proof -
  have off: "\<not> is_active l" if "lease_at (snd (release_claimed_lease lid now reason s)) lid = Some l" for l
    using that unfolding release_claimed_leases
    by (cases rule: release_lease_cases [of lid now "Some reason" s])
       (auto simp: release_lease_def Let_def split: option.splits if_splits)
  then have "release_claimed_lease lid now' reason' (snd (release_claimed_lease lid now reason s))
       = (Inr False, snd (release_claimed_lease lid now reason s))"
    by (subst release_claimed_leases) (simp split: option.split)
  moreover have "fst (release_claimed_lease lid now reason s) = Inr (\<exists>l. lease_at s lid = Some l \<and> is_active l)"
    unfolding release_claimed_leases by (simp split: option.split)
  ultimately show ?thesis using off by blast
qed

theorem release_claimed_lease_tolerant_witness:
  "release_claimed_lease ''lease_a1'' 9 ''again'' (snd (release_claimed_lease ''lease_a1'' 5 ''rejected'' ex_held))
     = (Inr False, snd (release_claimed_lease ''lease_a1'' 5 ''rejected'' ex_held))"
  using release_claimed_lease_tolerant by blast

lemma release_self_loop_skips:
  "(\<forall>k l. lease_at s k = Some l \<longrightarrow> role_str (l_role l) \<noteq> ''fixer'') \<Longrightarrow>
     release_self_loop i ag now ks b s = (Inr b, s)"
  by (induction ks) (auto simp: release_self_loop_step split: option.splits)

lemma enum_role_str: "role_str (EnumRole r) \<noteq> ''fixer''"
  by simp

text \<open>
  \<open>release_self_stale_lease\<close> does not see a lease made in the same process. It compares
  the text of the role with \<open>fixer\<close>, and the text of an enumeration member is its qualified
  name; so when no lease has been reloaded from the store since it was claimed, nothing is
  released, although the agent holds an active fixer lease on the item.
\<close>

theorem release_self_ignores_unloaded_leases:
  assumes "\<forall>k l. lease_at s k = Some l \<longrightarrow> (\<exists>r. l_role l = EnumRole r)"
  shows "release_self_stale_lease item agent now s = (Inr False, s)"
proof -
  have "\<forall>k l. lease_at s k = Some l \<longrightarrow> role_str (l_role l) \<noteq> ''fixer''"
    using assms enum_role_str by metis
  then show ?thesis by (simp add: release_self_stale_lease_def release_self_loop_skips)
qed

theorem release_self_ignores_unloaded_leases_witness:
  "release_self_stale_lease ''one'' ''alice'' 5 ex_one = (Inr False, ex_one)
   \<and> is_active (the (lease_at ex_one ''lease_a1'')) \<and> l_agent_id (the (lease_at ex_one ''lease_a1'')) = ''alice''"
proof -
  have "list_all (\<lambda>kl. l_role (snd kl) = EnumRole ''fixer'') (s_leases ex_one)" by code_simp
  then have "\<forall>k l. lease_at ex_one k = Some l \<longrightarrow> (\<exists>r. l_role l = EnumRole r)"
    by (fastforce simp: list_all_iff dest: map_of_SomeD)
  moreover have "is_active (the (lease_at ex_one ''lease_a1''))" "l_agent_id (the (lease_at ex_one ''lease_a1'')) = ''alice''"
    by code_simp+
  ultimately show ?thesis using release_self_ignores_unloaded_leases by blast
qed

end
