(* ===== verification/Json_Hash.thy ===== *)
theory Json_Hash
  imports Py_Prelude "HOL-Library.Word"
begin

text \<open>
  The canonical JSON text and the SHA-256 digest the program identifies data by:
  \<open>json.dumps\<close> with sorted keys, compact separators and ASCII output, \<open>hashlib.sha256\<close> and
  its hexadecimal digest, and the stable ids of \<open>core/ids.py\<close>. The digest is computed on
  32-bit words, so equal texts have equal ids by construction; nothing here assumes that
  the digest is injective. The length block is written for messages below 2^61 bytes.
\<close>

unbundle bit_operations_syntax

section \<open>Canonical JSON\<close>

text \<open>
  With \<open>ensure_ascii\<close> every character outside the printable ASCII range is escaped, without
  it only the control characters below 32 are (the text of the model is ASCII, so UTF-8
  encoding leaves it as it is).
\<close>

definition json_char :: "bool \<Rightarrow> char \<Rightarrow> string" where
  "json_char ascii c =
     (let n = (of_char c :: nat); bs = char_of (92::nat) in
      if n = 34 \<or> n = 92 then [bs, c]
      else if n = 8 then [bs, CHR ''b''] else if n = 9 then [bs, CHR ''t'']
      else if n = 10 then [bs, CHR ''n''] else if n = 12 then [bs, CHR ''f'']
      else if n = 13 then [bs, CHR ''r'']
      else if n < 32 \<or> (ascii \<and> 126 < n) then bs # ''u00'' @ [hex_digit (n div 16), hex_digit (n mod 16)]
      else [c])"

definition json_string :: "bool \<Rightarrow> string \<Rightarrow> string" where
  "json_string ascii s = char_of (34::nat) # concat (map (json_char ascii) s) @ [char_of (34::nat)]"

text \<open>The members of an object are rendered and then put in the order of their keys.\<close>

fun json_text :: "bool \<Rightarrow> pyval \<Rightarrow> string" where
  "json_text ascii PNone = ''null''"
| "json_text ascii (PBool b) = (if b then ''true'' else ''false'')"
| "json_text ascii (PInt i) = int_dec i"
| "json_text ascii (PStr s) = json_string ascii s"
| "json_text ascii (PList xs) = ''['' @ py_join '','' (map (json_text ascii) xs) @ '']''"
| "json_text ascii (PDict d) =
     ''{'' @ py_join '','' (map (\<lambda>(k, t). json_string ascii k @ '':'' @ t)
                         (sort_key fst (map (\<lambda>(k, v). (k, json_text ascii v)) d))) @ ''}''"

definition json_dumps :: "pyval \<Rightarrow> string" where
  "json_dumps = json_text True"

definition json_canonical :: "pyval \<Rightarrow> string" where
  "json_canonical = json_text False"

section \<open>SHA-256\<close>

text \<open>
  The constants are the first 32 fractional bits of roots of primes: of the cube roots of
  the first 64 for the rounds, of the square roots of the first 8 for the initial state.
  \<open>root_floor\<close> finds an integer root bit by bit.
\<close>

definition primes_64 :: "int list" where
  "primes_64 =
    [2, 3, 5, 7, 11, 13, 17, 19, 23, 29, 31, 37, 41, 43, 47, 53, 59, 61, 67, 71, 73, 79, 83, 89, 97, 101, 103, 107,
     109, 113, 127, 131, 137, 139, 149, 151, 157, 163, 167, 173, 179, 181, 191, 193, 197, 199, 211, 223, 227, 229,
     233, 239, 241, 251, 257, 263, 269, 271, 277, 281, 283, 293, 307, 311]"

fun root_floor :: "nat \<Rightarrow> int \<Rightarrow> nat \<Rightarrow> int \<Rightarrow> int" where
  "root_floor n target 0 x = x"
| "root_floor n target (Suc b) x =
     root_floor n target b (if (x + 2 ^ b) ^ n \<le> target then x + 2 ^ b else x)"

definition root_fraction :: "nat \<Rightarrow> int \<Rightarrow> 32 word" where
  "root_fraction n p = word_of_int (root_floor n (p * 2 ^ (32 * n)) 40 0)"

definition sha_k :: "32 word list" where
  "sha_k = map (root_fraction 3) primes_64"

definition sha_h0 :: "32 word list" where
  "sha_h0 = map (root_fraction 2) (take 8 primes_64)"

definition rotr :: "nat \<Rightarrow> 32 word \<Rightarrow> 32 word" where
  "rotr n w = (drop_bit n w) OR (push_bit (32 - n) w)"

definition sha_pad :: "8 word list \<Rightarrow> 8 word list" where
  "sha_pad bs =
     (let n = length bs
      in bs @ [0x80] @ replicate ((119 - n mod 64) mod 64) 0
         @ map (\<lambda>i. word_of_nat (n * 8 div 256 ^ i)) (rev [0..<8]))"

definition be_word :: "8 word list \<Rightarrow> 32 word" where
  "be_word bs = foldl (\<lambda>a b. push_bit 8 a OR ucast b) 0 bs"

fun chunks :: "nat \<Rightarrow> nat \<Rightarrow> 'a list \<Rightarrow> 'a list list" where
  "chunks k 0 xs = []"
| "chunks k (Suc m) xs = take k xs # chunks k m (drop k xs)"

text \<open>The message schedule, kept with its newest word first.\<close>

fun sha_extend :: "nat \<Rightarrow> 32 word list \<Rightarrow> 32 word list" where
  "sha_extend 0 ws = ws"
| "sha_extend (Suc m) ws =
     (let w15 = ws ! 14; w2 = ws ! 1;
          s0 = rotr 7 w15 XOR rotr 18 w15 XOR drop_bit 3 w15;
          s1 = rotr 17 w2 XOR rotr 19 w2 XOR drop_bit 10 w2
      in sha_extend m ((ws ! 15 + s0 + ws ! 6 + s1) # ws))"

definition sha_schedule :: "8 word list \<Rightarrow> 32 word list" where
  "sha_schedule block = rev (sha_extend 48 (rev (map be_word (chunks 4 16 block))))"

definition sha_round :: "32 word list \<Rightarrow> 32 word \<times> 32 word \<Rightarrow> 32 word list" where
  "sha_round st kw =
     (case st of
        [a, b, c, d, e, f, g, h] \<Rightarrow>
          let s1 = rotr 6 e XOR rotr 11 e XOR rotr 25 e;
              ch = (e AND f) XOR (NOT e AND g);
              t1 = h + s1 + ch + fst kw + snd kw;
              s0 = rotr 2 a XOR rotr 13 a XOR rotr 22 a;
              maj = (a AND b) XOR (a AND c) XOR (b AND c)
          in [t1 + s0 + maj, a, b, c, d + t1, e, f, g]
      | _ \<Rightarrow> st)"

definition sha_block :: "32 word list \<Rightarrow> 8 word list \<Rightarrow> 32 word list" where
  "sha_block h block = map2 (+) h (foldl sha_round h (zip sha_k (sha_schedule block)))"

definition sha256_words :: "8 word list \<Rightarrow> 32 word list" where
  "sha256_words bs =
     (let p = sha_pad bs in foldl sha_block sha_h0 (chunks 64 (length p div 64) p))"

definition hex_word :: "32 word \<Rightarrow> string" where
  "hex_word w = map (\<lambda>i. hex_digit (unat (drop_bit (4 * i) w AND 0xF))) (rev [0..<8])"

definition sha256_hex :: "string \<Rightarrow> string" where
  "sha256_hex s = concat (map hex_word (sha256_words (map (\<lambda>c. word_of_nat (of_char c)) s)))"

section \<open>Stable ids\<close>

text \<open>\<open>core/ids.py\<close>; the payloads of the model are JSON data, on which \<open>json_ready\<close> is the identity.\<close>

definition stable_payload_hash :: "pydict \<Rightarrow> string" where
  "stable_payload_hash payload = sha256_hex (json_dumps (PDict payload))"

definition stable_id :: "string \<Rightarrow> pydict \<Rightarrow> string" where
  "stable_id prefix payload = prefix @ ''_'' @ take 20 (stable_payload_hash payload)"

end
