(* ===== verification/Stack_Context.thy ===== *)
theory Stack_Context
  imports Json_Hash
begin

text \<open>
  Stacked pull requests (\<open>core/runtime_kernel/stack.py\<close>): the member facts read from an
  observation, the projection of an observation to a stack context with its topology
  checks, the segment a selected member covers, the context policy, the revision binding of
  evidence, and the serialized form of a context. An observation is any JSON object; a
  raised exception that leaves \<open>project_stack_context\<close> is the left summand.
\<close>

section \<open>Member facts\<close>

definition PULL_REQUEST_STATES :: "string list" where
  "PULL_REQUEST_STATES = [''OPEN'', ''CLOSED'', ''MERGED'']"

definition STACK_AVAILABILITIES :: "string list" where
  "STACK_AVAILABILITIES = [''absent'', ''present'', ''unavailable'', ''invalid'']"

record member_fact =
  m_position :: int
  m_pr_number :: string
  m_state :: string
  m_is_draft :: bool
  m_base_ref_name :: string
  m_head_ref_name :: string
  m_head_oid :: string
  m_head_tree_oid :: string
  m_queue_state :: "string option"

text \<open>\<open>str(payload.get(field) or "")\<close>, stripped.\<close>

definition str_field :: "pydict \<Rightarrow> string \<Rightarrow> string" where
  "str_field d k = py_str (py_or (dget d k) (PStr []))"

definition stripped_field :: "pydict \<Rightarrow> string \<Rightarrow> string" where
  "stripped_field d k = py_strip (str_field d k)"

definition int_of_digits :: "string \<Rightarrow> int" where
  "int_of_digits s = (case int_of_str s of None \<Rightarrow> 0 | Some i \<Rightarrow> i)"

definition member_from_dict :: "pyval \<Rightarrow> py_exn + member_fact" where
  "member_from_dict payload =
     (case payload of
        PDict d \<Rightarrow>
          (case py_int (py_or (dget d ''position'') (PInt 0)) of
             Inl e \<Rightarrow> Inl e
           | Inr position \<Rightarrow>
               let pr_number = stripped_field d ''pr_number'';
                   state = py_upper (str_field d ''state'');
                   base_ref_name = stripped_field d ''base_ref_name'';
                   head_ref_name = stripped_field d ''head_ref_name'';
                   head_oid = stripped_field d ''head_oid'';
                   head_tree_oid = stripped_field d ''head_tree_oid'';
                   queue_state = dget d ''merge_queue_state''
               in if position < 1 then Inl (ValueError ''invalid_position'')
                  else if \<not> str_isdigit pr_number \<or> int_of_digits pr_number < 1
                  then Inl (ValueError ''invalid_pr_number'')
                  else if state \<notin> set PULL_REQUEST_STATES then Inl (ValueError ''invalid_member_state'')
                  else if base_ref_name = [] then Inl (ValueError ''missing_base_ref'')
                  else if head_ref_name = [] then Inl (ValueError ''missing_head_ref'')
                  else if head_oid = [] then Inl (ValueError ''missing_head_oid'')
                  else if head_tree_oid = [] \<and> state \<noteq> ''MERGED'' then Inl (ValueError ''missing_head_tree_oid'')
                  else Inr \<lparr>m_position = position, m_pr_number = pr_number, m_state = state,
                            m_is_draft = truthy (dget d ''is_draft''), m_base_ref_name = base_ref_name,
                            m_head_ref_name = head_ref_name, m_head_oid = head_oid, m_head_tree_oid = head_tree_oid,
                            m_queue_state = (if truthy queue_state then Some (py_lower (py_str queue_state)) else None)\<rparr>)
      | v \<Rightarrow> Inl (AttributeError (str_repr (type_name v) @ '' object has no attribute '' @ str_repr ''get'')))"

abbreviation opt_str :: "string option \<Rightarrow> pyval" where
  "opt_str x \<equiv> (case x of None \<Rightarrow> PNone | Some t \<Rightarrow> PStr t)"

abbreviation opt_int :: "int option \<Rightarrow> pyval" where
  "opt_int x \<equiv> (case x of None \<Rightarrow> PNone | Some i \<Rightarrow> PInt i)"

definition member_to_dict :: "member_fact \<Rightarrow> pyval" where
  "member_to_dict m = PDict
     [(''position'', PInt (m_position m)), (''pr_number'', PStr (m_pr_number m)), (''state'', PStr (m_state m)),
      (''is_draft'', PBool (m_is_draft m)), (''base_ref_name'', PStr (m_base_ref_name m)),
      (''head_ref_name'', PStr (m_head_ref_name m)), (''head_oid'', PStr (m_head_oid m)),
      (''head_tree_oid'', PStr (m_head_tree_oid m)), (''merge_queue_state'', opt_str (m_queue_state m))]"

section \<open>Stack contexts\<close>

record stack_context =
  k_availability :: string
  k_repo :: string
  k_selected_pr_number :: string
  k_observed_at :: string
  k_stack_node_id :: "string option"
  k_stack_number :: "int option"
  k_trunk_ref_name :: "string option"
  k_reported_size :: "int option"
  k_selected_position :: "int option"
  k_members :: "member_fact list"
  k_selected_pr :: "member_fact option"
  k_topology_fingerprint :: "pyval"
  k_diagnostic_code :: "string option"
  k_invalid_invariant :: "string option"
  k_diagnostic_cause :: "string option"

definition bare_context :: "string \<Rightarrow> string \<Rightarrow> string \<Rightarrow> string \<Rightarrow> stack_context" where
  "bare_context availability repo selected observed_at =
     \<lparr>k_availability = availability, k_repo = repo, k_selected_pr_number = selected, k_observed_at = observed_at,
      k_stack_node_id = None, k_stack_number = None, k_trunk_ref_name = None, k_reported_size = None,
      k_selected_position = None, k_members = [], k_selected_pr = None, k_topology_fingerprint = PNone,
      k_diagnostic_code = None, k_invalid_invariant = None, k_diagnostic_cause = None\<rparr>"

definition invalid_context :: "string \<Rightarrow> string \<Rightarrow> string \<Rightarrow> string \<Rightarrow> stack_context" where
  "invalid_context repo selected observed_at invariant =
     (bare_context ''invalid'' repo selected observed_at)
       \<lparr>k_diagnostic_code := Some ''STACK_CONTEXT_INVALID'', k_invalid_invariant := Some invariant\<rparr>"

text \<open>The topology checks, in the order of the code; the first failure is the diagnostic.\<close>

definition stack_invariant_failure :: "member_fact list \<Rightarrow> string \<Rightarrow> string \<Rightarrow> string option" where
  "stack_invariant_failure members selected trunk =
     (let open_part = dropWhile (\<lambda>m. m_state m = ''MERGED'') members
      in if length members < 2 then Some ''stack_requires_two_members''
         else if map m_position members \<noteq> map int [1..<length members + 1] then Some ''positions_not_contiguous''
         else if card (set (map m_pr_number members)) \<noteq> length members then Some ''duplicate_member_pr_number''
         else if length (filter (\<lambda>m. m_pr_number m = selected) members) \<noteq> 1
         then Some ''selected_member_missing_or_duplicate''
         else if \<exists>m \<in> set open_part. m_state m = ''MERGED'' then Some ''merged_members_not_prefix''
         else if open_part \<noteq> [] \<and> m_base_ref_name (hd open_part) \<noteq> trunk then Some ''lowest_unmerged_base_mismatch''
         else if \<exists>(lower, upper) \<in> set (zip open_part (tl open_part)). m_base_ref_name upper \<noteq> m_head_ref_name lower
         then Some ''dependency_chain_mismatch''
         else None)"

definition optional_int :: "pyval \<Rightarrow> int option" where
  "optional_int v = (if v = PNone then None else case py_int v of Inl _ \<Rightarrow> None | Inr i \<Rightarrow> Some i)"

definition fingerprint_present :: "stack_context \<Rightarrow> string" where
  "fingerprint_present c =
     ''sha256:'' @ sha256_hex (json_dumps (PDict
       [(''repo'', PStr (k_repo c)), (''stack_node_id'', opt_str (k_stack_node_id c)),
        (''stack_number'', opt_int (k_stack_number c)), (''trunk_ref_name'', opt_str (k_trunk_ref_name c)),
        (''reported_size'', opt_int (k_reported_size c)),
        (''members'', PList (map member_to_dict (k_members c)))]))"

definition fingerprint_absent :: "string \<Rightarrow> member_fact \<Rightarrow> string" where
  "fingerprint_absent repo m =
     ''sha256:'' @ sha256_hex (json_dumps (PDict [(''repo'', PStr repo), (''selected_pr'', member_to_dict m)]))"

definition project_absent :: "pydict \<Rightarrow> string \<Rightarrow> string \<Rightarrow> string \<Rightarrow> py_exn + stack_context" where
  "project_absent payload repo selected observed_at =
     (if \<not> has_key payload ''selected_pr''
      then Inr (invalid_context repo selected observed_at (exn_str (KeyError ''selected_pr'')))
      else case member_from_dict (dget payload ''selected_pr'') of
             Inl (AttributeError e) \<Rightarrow> Inl (AttributeError e)
           | Inl e \<Rightarrow> Inr (invalid_context repo selected observed_at (exn_str e))
           | Inr m \<Rightarrow>
               if m_pr_number m \<noteq> selected
               then Inr (invalid_context repo selected observed_at ''selected_member_mismatch'')
               else Inr ((bare_context ''absent'' repo selected observed_at)
                      \<lparr>k_selected_pr := Some m, k_topology_fingerprint := PStr (fingerprint_absent repo m)\<rparr>))"

definition present_context ::
    "pydict \<Rightarrow> string \<Rightarrow> string \<Rightarrow> string \<Rightarrow> int option \<Rightarrow> member_fact list \<Rightarrow> stack_context" where
  "present_context payload repo selected observed_at reported_size members =
     (let trunk = stripped_field payload ''trunk_ref_name'';
          node = stripped_field payload ''stack_node_id'';
          number = optional_int (dget payload ''stack_number'')
      in case stack_invariant_failure members selected trunk of
           Some invariant \<Rightarrow> invalid_context repo selected observed_at invariant
         | None \<Rightarrow>
             if node = [] then invalid_context repo selected observed_at ''missing_stack_node_id''
             else (case number of
                 None \<Rightarrow> invalid_context repo selected observed_at ''invalid_stack_number''
               | Some n \<Rightarrow>
                   if n < 1 then invalid_context repo selected observed_at ''invalid_stack_number''
                   else let pr = hd (filter (\<lambda>m. m_pr_number m = selected) members);
                            c = (bare_context ''present'' repo selected observed_at)
                                  \<lparr>k_stack_node_id := Some node, k_stack_number := Some n,
                                   k_trunk_ref_name := Some trunk, k_reported_size := reported_size,
                                   k_selected_position := Some (m_position pr), k_members := members,
                                   k_selected_pr := Some pr\<rparr>
                        in c\<lparr>k_topology_fingerprint := PStr (fingerprint_present c)\<rparr>))"

definition project_present :: "pydict \<Rightarrow> string \<Rightarrow> string \<Rightarrow> string \<Rightarrow> py_exn + stack_context" where
  "project_present payload repo selected observed_at =
     (case dget payload ''members'' of
        PList rows \<Rightarrow>
          let reported_size = optional_int (dget payload ''reported_size'')
          in if reported_size \<noteq> Some (int (length rows))
             then Inr (invalid_context repo selected observed_at ''reported_size_mismatch'')
             else (case sum_map member_from_dict rows of
                     Inl (AttributeError e) \<Rightarrow> Inl (AttributeError e)
                   | Inl e \<Rightarrow> Inr (invalid_context repo selected observed_at (exn_str e))
                   | Inr members \<Rightarrow>
                       Inr (present_context payload repo selected observed_at reported_size
                              (sort_key m_position members)))
      | _ \<Rightarrow> Inr (invalid_context repo selected observed_at ''members_not_array''))"

definition project_stack_context :: "pydict \<Rightarrow> py_exn + stack_context" where
  "project_stack_context payload =
     (let availability = py_lower (py_str (py_or (dget payload ''availability'') (PStr ''invalid'')));
          repo = stripped_field payload ''repo'';
          selected = stripped_field payload ''selected_pr_number'';
          observed_at = stripped_field payload ''observed_at''
      in if dget payload ''schema_version'' \<noteq> PStr ''stack_observation.v1''
         then Inr (invalid_context repo selected observed_at ''unsupported_schema'')
         else if availability \<notin> set STACK_AVAILABILITIES
         then Inr (invalid_context repo selected observed_at ''invalid_availability'')
         else if availability = ''unavailable''
         then (let cause = str_field payload ''diagnostic_cause''
               in Inr ((bare_context ''unavailable'' repo selected observed_at)
                    \<lparr>k_diagnostic_code := Some ''STACK_CONTEXT_UNAVAILABLE'',
                     k_diagnostic_cause := (if cause = [] then None else Some cause)\<rparr>))
         else if availability = ''invalid''
         then Inr (invalid_context repo selected observed_at
                     (py_str (py_or (dget payload ''invalid_invariant'') (PStr ''upstream_invalid''))))
         else if availability = ''absent'' then project_absent payload repo selected observed_at
         else project_present payload repo selected observed_at)"

definition unavailable_stack_context :: "string \<Rightarrow> string \<Rightarrow> string \<Rightarrow> string option \<Rightarrow> py_exn + stack_context" where
  "unavailable_stack_context repo pr_number timestamp cause =
     project_stack_context
       ([(''schema_version'', PStr ''stack_observation.v1''), (''availability'', PStr ''unavailable''),
         (''repo'', PStr repo), (''selected_pr_number'', PStr pr_number), (''observed_at'', PStr timestamp),
         (''diagnostic_code'', PStr ''STACK_CONTEXT_UNAVAILABLE'')]
        @ (case cause of None \<Rightarrow> [] | Some c \<Rightarrow> if c = [] then [] else [(''diagnostic_cause'', PStr c)])
        @ [(''members'', PList [])])"

section \<open>Serialized contexts\<close>

definition opt_or :: "string option \<Rightarrow> string option \<Rightarrow> string option" where
  "opt_or a b = (case a of None \<Rightarrow> b | Some t \<Rightarrow> if t = [] then b else a)"

definition diagnostic_dict :: "stack_context \<Rightarrow> (string \<times> pyval) list" where
  "diagnostic_dict c =
     (case k_diagnostic_code c of
        None \<Rightarrow> []
      | Some code \<Rightarrow>
          if code = [] then []
          else [(''diagnostic'', PDict ((''reason_code'', PStr code)
                  # (case opt_or (k_invalid_invariant c) (k_diagnostic_cause c) of
                       None \<Rightarrow> [] | Some i \<Rightarrow> if i = [] then [] else [(''invariant'', PStr i)])))])"

definition context_to_dict :: "stack_context \<Rightarrow> pydict" where
  "context_to_dict c =
     [(''schema_version'', PStr ''stack_context.v1''), (''availability'', PStr (k_availability c)),
      (''observed_at'', PStr (k_observed_at c))]
     @ (if truthy (k_topology_fingerprint c) then [(''topology_fingerprint'', k_topology_fingerprint c)] else [])
     @ (case k_selected_pr c of None \<Rightarrow> [] | Some m \<Rightarrow> [(''selected_pr'', member_to_dict m)])
     @ (if k_availability c = ''present''
        then [(''stack'', PDict
               [(''number'', opt_int (k_stack_number c)), (''trunk_ref_name'', opt_str (k_trunk_ref_name c)),
                (''size'', opt_int (k_reported_size c)), (''selected_position'', opt_int (k_selected_position c)),
                (''members'', PList (map member_to_dict (k_members c)))])]
        else [])
     @ diagnostic_dict c"

definition stack_diagnostic_payload :: "stack_context option \<Rightarrow> pydict" where
  "stack_diagnostic_payload c =
     (case c of
        None \<Rightarrow> []
      | Some c \<Rightarrow> if k_diagnostic_code c \<in> {None, Some []} then []
                  else (case dget (context_to_dict c) ''diagnostic'' of
                          PDict d \<Rightarrow> [(''stack_diagnostic'', PDict d)] | _ \<Rightarrow> []))"

definition stack_context_from_serialized :: "pydict \<Rightarrow> string \<Rightarrow> string \<Rightarrow> py_exn + stack_context" where
  "stack_context_from_serialized payload repo pr_number =
     (let availability = py_str (py_or (dget payload ''availability'') (PStr ''invalid''));
          selected = dget payload ''selected_pr'';
          stack = (case dget payload ''stack'' of PDict d \<Rightarrow> d | _ \<Rightarrow> []);
          base = [(''schema_version'', PStr ''stack_observation.v1''), (''availability'', PStr availability),
                  (''repo'', PStr repo), (''selected_pr_number'', PStr pr_number),
                  (''observed_at'', PStr (str_field payload ''observed_at''))];
          observation =
            (if availability = ''present''
             then base @ [(''stack_node_id'', PStr ''serialized-context''), (''stack_number'', dget stack ''number''),
                          (''trunk_ref_name'', dget stack ''trunk_ref_name''), (''reported_size'', dget stack ''size''),
                          (''members'', dget stack ''members'')]
             else if selected \<noteq> PNone then base @ [(''selected_pr'', selected)]
             else base)
      in case project_stack_context observation of
           Inl e \<Rightarrow> Inl e
         | Inr c \<Rightarrow>
             Inr (if availability = ''present'' \<and> truthy (dget payload ''topology_fingerprint'')
                  then c\<lparr>k_topology_fingerprint := dget payload ''topology_fingerprint''\<rparr> else c))"

section \<open>Segments, policy, revision bindings\<close>

definition stack_context_for_member :: "stack_context \<Rightarrow> string \<Rightarrow> stack_context" where
  "stack_context_for_member c target =
     (if k_availability c \<noteq> ''present'' then c
      else case filter (\<lambda>m. m_pr_number m = target) (k_members c) of
             [] \<Rightarrow> invalid_context (k_repo c) target (k_observed_at c) ''selected_member_missing''
           | m # _ \<Rightarrow> c\<lparr>k_selected_pr_number := target, k_selected_position := Some (m_position m),
                          k_selected_pr := Some m\<rparr>)"

record stack_segment =
  seg_merged_prefix :: "member_fact list"
  seg_included :: "member_fact list"
  seg_excluded :: "member_fact list"

definition project_stack_segment :: "stack_context \<Rightarrow> stack_segment" where
  "project_stack_segment c =
     (case (k_availability c = ''absent'', k_selected_pr c) of
        (True, Some m) \<Rightarrow> \<lparr>seg_merged_prefix = [], seg_included = [m], seg_excluded = []\<rparr>
      | _ \<Rightarrow>
          (case k_selected_position c of
             None \<Rightarrow> \<lparr>seg_merged_prefix = [], seg_included = [], seg_excluded = []\<rparr>
           | Some p \<Rightarrow>
               if k_availability c \<noteq> ''present''
               then \<lparr>seg_merged_prefix = [], seg_included = [], seg_excluded = []\<rparr>
               else let active = filter (\<lambda>m. m_state m \<noteq> ''MERGED'') (k_members c)
                    in \<lparr>seg_merged_prefix = filter (\<lambda>m. m_state m = ''MERGED'') (k_members c),
                        seg_included = filter (\<lambda>m. m_position m \<le> p) active,
                        seg_excluded = filter (\<lambda>m. m_position m > p) active\<rparr>))"

record stack_decision =
  d_allowed :: bool
  d_scope :: string
  d_covered :: "string list"
  d_reason_code :: "string option"
  d_waiting_on :: "string option"

definition evaluate_stack_context_policy :: "stack_context \<Rightarrow> bool \<Rightarrow> stack_decision" where
  "evaluate_stack_context_policy c explicit_stack =
     (let scope = (if explicit_stack then ''stack_segment'' else ''pull_request'')
      in if k_availability c \<in> {''unavailable'', ''invalid''}
         then (if \<not> explicit_stack
               then \<lparr>d_allowed = True, d_scope = scope, d_covered = [], d_reason_code = None, d_waiting_on = None\<rparr>
               else \<lparr>d_allowed = False, d_scope = scope, d_covered = [], d_reason_code = k_diagnostic_code c,
                     d_waiting_on = Some ''stack_context''\<rparr>)
         else
           let covered = (if explicit_stack then map m_pr_number (seg_included (project_stack_segment c))
                          else if k_selected_pr_number c \<noteq> [] then [k_selected_pr_number c] else [])
           in \<lparr>d_allowed = True, d_scope = scope, d_covered = covered, d_reason_code = None, d_waiting_on = None\<rparr>)"

definition revision_binding_for_context :: "stack_context \<Rightarrow> pydict option" where
  "revision_binding_for_context c =
     (case (k_selected_pr c, k_stack_number c) of
        (Some m, Some n) \<Rightarrow>
          if k_availability c \<noteq> ''present'' then None
          else Some [(''schema_version'', PStr ''revision_binding.v2''), (''pr_number'', PStr (m_pr_number m)),
                     (''head_oid'', PStr (m_head_oid m)), (''head_tree_oid'', PStr (m_head_tree_oid m)),
                     (''stack_number'', PInt n), (''stack_position'', PInt (m_position m)),
                     (''topology_fingerprint'', k_topology_fingerprint c), (''captured_at'', PStr (k_observed_at c))]
      | _ \<Rightarrow> None)"

definition compare_revision_binding :: "pyval \<Rightarrow> stack_context \<Rightarrow> string option" where
  "compare_revision_binding binding current =
     (case binding of
        PDict b \<Rightarrow>
          if str_field b ''pr_number'' \<noteq> k_selected_pr_number current then Some ''STACK_ACTION_CONTEXT_MISMATCH''
          else if k_availability current = ''invalid'' then Some ''STACK_CONTEXT_INVALID''
          else if k_availability current = ''unavailable'' then Some ''STACK_CONTEXT_UNAVAILABLE''
          else if k_availability current = ''absent'' then Some ''STALE_REQUEST_CONTEXT''
          else (case revision_binding_for_context current of
                  None \<Rightarrow> Some ''STACK_CONTEXT_UNAVAILABLE''
                | Some expected \<Rightarrow>
                    if \<exists>f \<in> set [''schema_version'', ''pr_number'', ''head_tree_oid'']. dget b f \<noteq> dget expected f
                    then Some ''STALE_REQUEST_CONTEXT'' else None)
      | _ \<Rightarrow> Some ''FINAL_GATE_UNBOUND_REVISION_EVIDENCE'')"

definition repository_context_for_stack :: "string \<Rightarrow> string \<Rightarrow> pyval \<Rightarrow> py_exn + pydict" where
  "repository_context_for_stack repo pr_number observed =
     (let payload = [(''repo'', PStr repo), (''pr_number'', PStr pr_number)]
      in case observed of
           PDict d \<Rightarrow>
             (let serialized = (dget d ''schema_version'' = PStr ''stack_context.v1'');
                  projected = (if serialized then stack_context_from_serialized d repo pr_number
                               else project_stack_context d)
              in case projected of
                   Inl e \<Rightarrow> Inl e
                 | Inr c \<Rightarrow>
                     Inr (payload @ [(''stack_context'', PDict (if serialized then d else context_to_dict c))]
                          @ (case revision_binding_for_context c of
                               None \<Rightarrow> [] | Some b \<Rightarrow> [(''revision_binding'', PDict b)])))
         | _ \<Rightarrow> Inr payload)"

section \<open>Well-formed stacks\<close>

text \<open>
  The abstract reading of the topology checks, by index: the positions are 1 to n, the pull
  requests are distinct and one of them is the selected one; the merged members are a
  prefix of length \<open>i\<close>; above it every member is based on the head of the one below, and the
  first on the trunk.
\<close>

definition stack_wf :: "member_fact list \<Rightarrow> string \<Rightarrow> string \<Rightarrow> bool" where
  "stack_wf ms selected trunk \<longleftrightarrow>
     2 \<le> length ms
     \<and> (\<forall>j < length ms. m_position (ms ! j) = int j + 1)
     \<and> distinct (map m_pr_number ms)
     \<and> selected \<in> set (map m_pr_number ms)
     \<and> (\<exists>i \<le> length ms. (\<forall>j < i. m_state (ms ! j) = ''MERGED'')
          \<and> (\<forall>j < length ms. i \<le> j \<longrightarrow> m_state (ms ! j) \<noteq> ''MERGED'')
          \<and> (i < length ms \<longrightarrow> m_base_ref_name (ms ! i) = trunk)
          \<and> (\<forall>j. i \<le> j \<longrightarrow> j + 1 < length ms \<longrightarrow> m_base_ref_name (ms ! (j + 1)) = m_head_ref_name (ms ! j)))"

lemma positions_iff: "map m_position ms = map int [1..<length ms + 1] \<longleftrightarrow> (\<forall>j < length ms. m_position (ms ! j) = int j + 1)"
proof -
  have "map int [1..<length ms + 1] ! j = int j + 1" if "j < length ms" for j
    using that by (simp only: nth_map nth_upt length_upt)
  then show ?thesis by (simp only: list_eq_iff_nth_eq length_map length_upt) simp
qed

lemma card_distinct_iff: "card (set xs) = length xs \<longleftrightarrow> distinct xs"
  using card_distinct distinct_card by blast

lemma one_selected:
  assumes "distinct (map f ms)"
  shows "length (filter (\<lambda>m. f m = x) ms) = 1 \<longleftrightarrow> x \<in> set (map f ms)"
  using assms
proof (induction ms)
  case (Cons m ms)
  show ?case
  proof (cases "f m = x")
    case True
    then have "filter (\<lambda>m. f m = x) ms = []" using Cons.prems by (auto simp: filter_empty_conv) (metis imageI)
    with True show ?thesis by simp
  next
    case False
    with Cons show ?thesis by auto
  qed
qed simp

lemma chain_iff:
  "(\<forall>(a, b) \<in> set (zip xs (tl xs)). R a b) \<longleftrightarrow> (\<forall>j. j + 1 < length xs \<longrightarrow> R (xs ! j) (xs ! (j + 1)))"
proof -
  have "set (zip xs (tl xs)) = {(xs ! j, xs ! (j + 1)) | j. j + 1 < length xs}"
    by (auto simp: set_zip nth_tl)
  then show ?thesis by auto
qed

lemma drop_all_iff: "(\<forall>m \<in> set (drop i ms). P m) \<longleftrightarrow> (\<forall>j < length ms. i \<le> j \<longrightarrow> P (ms ! j))"
proof
  assume l: "\<forall>m \<in> set (drop i ms). P m"
  show "\<forall>j < length ms. i \<le> j \<longrightarrow> P (ms ! j)"
  proof (intro allI impI)
    fix j assume "j < length ms" "i \<le> j"
    then have "ms ! j = drop i ms ! (j - i)" "j - i < length (drop i ms)" by auto
    with l show "P (ms ! j)" by (metis nth_mem)
  qed
next
  assume "\<forall>j < length ms. i \<le> j \<longrightarrow> P (ms ! j)"
  then show "\<forall>m \<in> set (drop i ms). P m" by (auto simp: in_set_conv_nth)
qed

text \<open>Split at the first element that does not satisfy the predicate.\<close>

lemma dropWhile_split:
  "\<exists>i \<le> length xs. dropWhile P xs = drop i xs \<and> (\<forall>j < i. P (xs ! j)) \<and> (i < length xs \<longrightarrow> \<not> P (xs ! i))"
proof (rule exI [of _ "length (takeWhile P xs)"], intro conjI)
  show "length (takeWhile P xs) \<le> length xs" by (rule length_takeWhile_le)
  show "dropWhile P xs = drop (length (takeWhile P xs)) xs" by (rule dropWhile_eq_drop)
  show "\<forall>j < length (takeWhile P xs). P (xs ! j)" using takeWhile_nth set_takeWhileD nth_mem by metis
  show "length (takeWhile P xs) < length xs \<longrightarrow> \<not> P (xs ! length (takeWhile P xs))"
    using nth_length_takeWhile by blast
qed

lemma prefix_split_unique:
  fixes i k :: nat
  assumes "i \<le> n" "\<forall>j < i. P j" "i < n \<longrightarrow> \<not> P i" "k \<le> n" "\<forall>j < k. P j" "\<forall>j < n. k \<le> j \<longrightarrow> \<not> P j"
  shows "i = k"
  using assms by (metis linorder_neqE_nat order_refl order_less_le_trans)

lemma stack_invariant_iff: "stack_invariant_failure ms selected trunk = None \<longleftrightarrow> stack_wf ms selected trunk"
proof -
  let ?P = "\<lambda>m. m_state m = ''MERGED''"
  obtain i where i: "i \<le> length ms" "dropWhile ?P ms = drop i ms" "\<forall>j < i. ?P (ms ! j)" "i < length ms \<longrightarrow> \<not> ?P (ms ! i)"
    using dropWhile_split [of ms ?P] by blast
  have uniq: "k = i" if "k \<le> length ms" "\<forall>j < k. ?P (ms ! j)" "\<forall>j < length ms. k \<le> j \<longrightarrow> \<not> ?P (ms ! j)" for k
    using prefix_split_unique [OF i(1,3,4) that] by simp
  have rest: "(\<forall>m \<in> set (drop i ms). \<not> ?P m) \<longleftrightarrow> (\<forall>j < length ms. i \<le> j \<longrightarrow> \<not> ?P (ms ! j))"
    by (rule drop_all_iff)
  have first: "drop i ms \<noteq> [] \<longrightarrow> hd (drop i ms) = ms ! i" by (simp add: hd_drop_conv_nth)
  have chain: "(\<forall>(a, b) \<in> set (zip (drop i ms) (tl (drop i ms))). m_base_ref_name b = m_head_ref_name a)
      \<longleftrightarrow> (\<forall>j. i \<le> j \<longrightarrow> j + 1 < length ms \<longrightarrow> m_base_ref_name (ms ! (j + 1)) = m_head_ref_name (ms ! j))"
  proof -
    have "(\<forall>(a, b) \<in> set (zip (drop i ms) (tl (drop i ms))). m_base_ref_name b = m_head_ref_name a)
        \<longleftrightarrow> (\<forall>k. k + 1 < length ms - i \<longrightarrow> m_base_ref_name (ms ! (i + (k + 1))) = m_head_ref_name (ms ! (i + k)))"
      using i(1) by (simp add: chain_iff)
    also have "\<dots> \<longleftrightarrow> (\<forall>j. i \<le> j \<longrightarrow> j + 1 < length ms \<longrightarrow> m_base_ref_name (ms ! (j + 1)) = m_head_ref_name (ms ! j))"
      (is "?A \<longleftrightarrow> ?B")
    proof
      assume ?A
      show ?B
      proof (intro allI impI)
        fix j assume "i \<le> j" "j + 1 < length ms"
        then show "m_base_ref_name (ms ! (j + 1)) = m_head_ref_name (ms ! j)" using \<open>?A\<close> [rule_format, of "j - i"] by simp
      qed
    next
      assume ?B
      then show ?A by simp
    qed
    finally show ?thesis .
  qed
  have split: "(\<exists>k \<le> length ms. (\<forall>j < k. ?P (ms ! j)) \<and> (\<forall>j < length ms. k \<le> j \<longrightarrow> \<not> ?P (ms ! j)) \<and> Q k)
      \<longleftrightarrow> (\<forall>m \<in> set (drop i ms). \<not> ?P m) \<and> Q i" for Q
    unfolding rest using i(1,3) uniq by blast
  have "stack_invariant_failure ms selected trunk = None \<longleftrightarrow>
      2 \<le> length ms \<and> (\<forall>j < length ms. m_position (ms ! j) = int j + 1) \<and> distinct (map m_pr_number ms)
      \<and> length (filter (\<lambda>m. m_pr_number m = selected) ms) = 1
      \<and> (\<forall>m \<in> set (drop i ms). \<not> ?P m)
      \<and> (drop i ms \<noteq> [] \<longrightarrow> m_base_ref_name (hd (drop i ms)) = trunk)
      \<and> (\<forall>(a, b) \<in> set (zip (drop i ms) (tl (drop i ms))). m_base_ref_name b = m_head_ref_name a)"
    unfolding stack_invariant_failure_def Let_def i(2) positions_iff
    using card_distinct_iff [of "map m_pr_number ms"]
    by (simp split del: if_split split: if_split) fastforce
  also have "\<dots> \<longleftrightarrow> stack_wf ms selected trunk"
    unfolding stack_wf_def split chain
    using one_selected [of m_pr_number ms selected] first by auto
  finally show ?thesis .
qed

section \<open>Valid members\<close>

definition trimmed :: "string \<Rightarrow> bool" where
  "trimmed s \<longleftrightarrow> py_strip s = s \<and> s \<noteq> []"

definition member_valid :: "member_fact \<Rightarrow> bool" where
  "member_valid m \<longleftrightarrow>
     1 \<le> m_position m \<and> trimmed (m_pr_number m) \<and> str_isdigit (m_pr_number m) \<and> 1 \<le> int_of_digits (m_pr_number m)
     \<and> m_state m \<in> set PULL_REQUEST_STATES
     \<and> trimmed (m_base_ref_name m) \<and> trimmed (m_head_ref_name m) \<and> trimmed (m_head_oid m)
     \<and> py_strip (m_head_tree_oid m) = m_head_tree_oid m \<and> (m_head_tree_oid m = [] \<longrightarrow> m_state m = ''MERGED'')
     \<and> (\<forall>q. m_queue_state m = Some q \<longrightarrow> q \<noteq> [] \<and> py_lower q = q)"

lemma stripped_field_strip [simp]: "py_strip (stripped_field d k) = stripped_field d k"
  by (simp add: stripped_field_def)

lemma str_isdigit_nonempty: "str_isdigit s \<Longrightarrow> s \<noteq> []"
  by (simp add: str_isdigit_def)

lemma member_from_dict_valid: "member_from_dict v = Inr m \<Longrightarrow> member_valid m"
  by (auto simp: member_from_dict_def member_valid_def trimmed_def Let_def str_isdigit_nonempty py_str_truthy py_lower_nonempty
      split: pyval.splits sum.splits if_splits)

lemma states_upper: "s \<in> set PULL_REQUEST_STATES \<Longrightarrow> py_upper s = s"
proof -
  have "list_all (\<lambda>s. py_upper s = s) PULL_REQUEST_STATES" by code_simp
  then show "s \<in> set PULL_REQUEST_STATES \<Longrightarrow> py_upper s = s" by (simp add: list_all_iff)
qed

lemma str_or_self: "py_str (py_or (PStr s) (PStr [])) = s"
  by (simp add: py_or_def)

text \<open>A valid member survives \<open>to_dict\<close> and \<open>from_dict\<close> unchanged.\<close>

lemma member_roundtrip:
  assumes "member_valid m" shows "member_from_dict (member_to_dict m) = Inr m"
proof -
  have pos: "py_or (PInt (m_position m)) (PInt 0) = PInt (m_position m)" by (simp add: py_or_def)
  have st: "m_state m \<in> set PULL_REQUEST_STATES" using assms by (simp add: member_valid_def)
  show ?thesis
    using assms states_upper [OF st]
    unfolding member_from_dict_def member_to_dict_def member_valid_def trimmed_def
    by (cases "m_queue_state m") (auto simp: pos str_field_def stripped_field_def str_or_self Let_def)
qed

section \<open>Present contexts\<close>

lemma sum_map_valid: "sum_map member_from_dict rows = Inr ms \<Longrightarrow> m \<in> set ms \<Longrightarrow> member_valid m"
  by (induction rows arbitrary: ms) (auto split: sum.splits dest: member_from_dict_valid)

lemma sum_map_length: "sum_map f xs = Inr ys \<Longrightarrow> length ys = length xs"
  by (simp add: sum_map_Inr list_all2_lengthD)

definition present_shape :: "stack_context \<Rightarrow> string \<Rightarrow> bool" where
  "present_shape c trunk \<longleftrightarrow>
     stack_wf (k_members c) (k_selected_pr_number c) trunk
     \<and> (\<forall>m \<in> set (k_members c). member_valid m)
     \<and> k_reported_size c = Some (int (length (k_members c)))
     \<and> k_trunk_ref_name c = Some trunk \<and> py_strip trunk = trunk
     \<and> (\<exists>n \<ge> 1. k_stack_number c = Some n)
     \<and> (\<exists>m \<in> set (k_members c). k_selected_pr c = Some m \<and> m_pr_number m = k_selected_pr_number c
           \<and> k_selected_position c = Some (m_position m))
     \<and> py_strip (k_repo c) = k_repo c \<and> py_strip (k_selected_pr_number c) = k_selected_pr_number c
     \<and> py_strip (k_observed_at c) = k_observed_at c
     \<and> (\<exists>h. k_topology_fingerprint c = PStr h \<and> h \<noteq> []) \<and> (\<exists>n. k_stack_node_id c = Some n)
     \<and> k_diagnostic_code c = None \<and> k_invalid_invariant c = None \<and> k_diagnostic_cause c = None"

lemma bare_context_simps [simp]:
  "k_availability (bare_context a r s t) = a" "k_repo (bare_context a r s t) = r"
  "k_selected_pr_number (bare_context a r s t) = s" "k_observed_at (bare_context a r s t) = t"
  "k_selected_pr (bare_context a r s t) = None" "k_diagnostic_code (bare_context a r s t) = None"
  "k_invalid_invariant (bare_context a r s t) = None" "k_diagnostic_cause (bare_context a r s t) = None"
  by (simp_all add: bare_context_def)

lemma invalid_context_simps [simp]:
  "k_availability (invalid_context r s t i) = ''invalid''" "k_selected_pr (invalid_context r s t i) = None"
  "k_selected_pr_number (invalid_context r s t i) = s"
  by (simp_all add: invalid_context_def)

lemma selected_in:
  assumes "stack_wf ms selected trunk"
  shows "hd (filter (\<lambda>m. m_pr_number m = selected) ms) \<in> set ms
    \<and> m_pr_number (hd (filter (\<lambda>m. m_pr_number m = selected) ms)) = selected"
proof -
  have "filter (\<lambda>m. m_pr_number m = selected) ms \<noteq> []"
    using assms by (auto simp: stack_wf_def filter_empty_conv)
  then have "hd (filter (\<lambda>m. m_pr_number m = selected) ms) \<in> set (filter (\<lambda>m. m_pr_number m = selected) ms)"
    by (rule hd_in_set)
  then show ?thesis by simp
qed

lemma present_context_shape:
  assumes "c = present_context d (stripped_field d ''repo'') (stripped_field d ''selected_pr_number'')
             (stripped_field d ''observed_at'') (Some (int (length ms))) ms"
    and "k_availability c = ''present''" "\<forall>m \<in> set ms. member_valid m"
  shows "present_shape c (stripped_field d ''trunk_ref_name'') \<and> k_members c = ms"
proof -
  let ?trunk = "stripped_field d ''trunk_ref_name''" and ?sel = "stripped_field d ''selected_pr_number''"
  have none: "stack_invariant_failure ms ?sel ?trunk = None"
    using assms by (auto simp: present_context_def Let_def split: option.splits)
  then have wf: "stack_wf ms ?sel ?trunk" by (simp only: stack_invariant_iff)
  show ?thesis
    using assms none wf selected_in [OF wf]
    by (auto simp: present_context_def present_shape_def fingerprint_present_def Let_def bare_context_def
        split: option.splits if_splits)
qed

lemma project_present_shape:
  assumes "project_stack_context d = Inr c" "k_availability c = ''present''"
  shows "\<exists>trunk. present_shape c trunk"
proof -
  have *: "project_present d (stripped_field d ''repo'') (stripped_field d ''selected_pr_number'')
             (stripped_field d ''observed_at'') = Inr c"
    using assms unfolding project_stack_context_def project_absent_def
    by (auto simp: Let_def split: if_splits sum.splits py_exn.splits)
  then obtain rows ms where rows: "dget d ''members'' = PList rows" "sum_map member_from_dict rows = Inr ms"
    "optional_int (dget d ''reported_size'') = Some (int (length rows))"
    "c = present_context d (stripped_field d ''repo'') (stripped_field d ''selected_pr_number'')
           (stripped_field d ''observed_at'') (optional_int (dget d ''reported_size'')) (sort_key m_position ms)"
    using assms(2) unfolding project_present_def
    by (auto simp: Let_def split: pyval.splits if_splits sum.splits py_exn.splits)
  have "\<forall>m \<in> set (sort_key m_position ms). member_valid m"
    using sum_map_valid [OF rows(2)] by simp
  then show ?thesis
    using present_context_shape [of c d "sort_key m_position ms"] rows sum_map_length [OF rows(2)] assms(2) by auto
qed

section \<open>Segments of a stack\<close>

lemma filter_prefix:
  assumes "i \<le> length xs" "\<forall>j < i. P (xs ! j)" "\<forall>j < length xs. i \<le> j \<longrightarrow> \<not> P (xs ! j)"
  shows "filter P xs = take i xs" "filter (\<lambda>x. \<not> P x) xs = drop i xs"
proof -
  have t: "\<forall>x \<in> set (take i xs). P x" using assms(1,2) by (auto simp: in_set_conv_nth)
  have d: "\<forall>x \<in> set (drop i xs). \<not> P x" using assms(3) by (simp only: drop_all_iff)
  have split: "filter Q xs = filter Q (take i xs) @ filter Q (drop i xs)" for Q
    by (metis append_take_drop_id filter_append)
  have "filter P (take i xs) = take i xs" "filter P (drop i xs) = []"
    "filter (\<lambda>x. \<not> P x) (take i xs) = []" "filter (\<lambda>x. \<not> P x) (drop i xs) = drop i xs"
    using t d by (simp_all add: filter_id_conv filter_empty_conv)
  then show "filter P xs = take i xs" "filter (\<lambda>x. \<not> P x) xs = drop i xs"
    unfolding split [of P] split [of "\<lambda>x. \<not> P x"] by simp_all
qed

lemma filter_threshold:
  assumes "sorted_wrt (\<lambda>a b. f a < f b) xs"
  shows "filter (\<lambda>x. f x \<le> p) xs @ filter (\<lambda>x. f x > (p::int)) xs = xs"
  using assms
proof (induction xs)
  case (Cons x xs)
  show ?case
  proof (cases "f x \<le> p")
    case True
    with Cons show ?thesis by simp
  next
    case False
    then have "filter (\<lambda>x. f x \<le> p) xs = []" "filter (\<lambda>x. f x > p) xs = xs"
      using Cons.prems by (auto simp: filter_empty_conv intro!: filter_True)
    with False show ?thesis by simp
  qed
qed simp

lemma wf_positions_sorted: "stack_wf ms sel trunk \<Longrightarrow> sorted_wrt (\<lambda>a b. m_position a < m_position b) ms"
  by (auto simp: stack_wf_def sorted_wrt_iff_nth_less)

lemma sorted_wrt_filter_pos:
  "sorted_wrt R xs \<Longrightarrow> sorted_wrt R (filter P xs)"
  by (rule sorted_wrt_filter)

lemma wf_merged_split:
  assumes "stack_wf ms sel trunk"
  shows "filter (\<lambda>m. m_state m = ''MERGED'') ms @ filter (\<lambda>m. m_state m \<noteq> ''MERGED'') ms = ms"
proof -
  obtain i where "i \<le> length ms" "\<forall>j < i. m_state (ms ! j) = ''MERGED''"
    "\<forall>j < length ms. i \<le> j \<longrightarrow> m_state (ms ! j) \<noteq> ''MERGED''"
    using assms unfolding stack_wf_def by blast
  from filter_prefix [of i ms "\<lambda>m. m_state m = ''MERGED''", OF this] show ?thesis by simp
qed

lemma segment_of_present:
  assumes "present_shape c trunk" "k_availability c = ''present''" "k_selected_pr c = Some m"
  shows "project_stack_segment c =
    \<lparr>seg_merged_prefix = filter (\<lambda>x. m_state x = ''MERGED'') (k_members c),
     seg_included = filter (\<lambda>x. m_position x \<le> m_position m) (filter (\<lambda>x. m_state x \<noteq> ''MERGED'') (k_members c)),
     seg_excluded = filter (\<lambda>x. m_position x > m_position m) (filter (\<lambda>x. m_state x \<noteq> ''MERGED'') (k_members c))\<rparr>"
proof -
  have "k_selected_position c = Some (m_position m)"
    using assms(1,3) by (auto simp: present_shape_def)
  with assms show ?thesis by (simp add: project_stack_segment_def)
qed

section \<open>Properties\<close>

text \<open>
  A present context is a well-formed stack. Whatever the observation, when the
  projection says \<open>present\<close> the members are at least two, at positions 1 to n, with
  distinct pull-request numbers of valid facts; the merged ones are a prefix, and above it
  each member is based on the head of the one below and the lowest on the trunk; the
  reported size is the number of members and the selected pull request is one of them, at
  the recorded position.
\<close>

theorem present_context_topology:
  assumes "project_stack_context payload = Inr c" "k_availability c = ''present''"
  shows "\<exists>trunk m. k_trunk_ref_name c = Some trunk \<and> stack_wf (k_members c) (k_selected_pr_number c) trunk
    \<and> (\<forall>x \<in> set (k_members c). member_valid x) \<and> k_reported_size c = Some (int (length (k_members c)))
    \<and> m \<in> set (k_members c) \<and> k_selected_pr c = Some m \<and> m_pr_number m = k_selected_pr_number c
    \<and> k_selected_position c = Some (m_position m)"
  using project_present_shape [OF assms] by (auto simp: present_shape_def)

text \<open>A stack of three, the lowest merged, with the second selected.\<close>

definition ex_member :: "int \<Rightarrow> string \<Rightarrow> string \<Rightarrow> string \<Rightarrow> string \<Rightarrow> string \<Rightarrow> pyval" where
  "ex_member position pr state base head tree = PDict
     [(''position'', PInt position), (''pr_number'', PStr pr), (''state'', PStr state), (''base_ref_name'', PStr base),
      (''head_ref_name'', PStr head), (''head_oid'', PStr ''oid''), (''head_tree_oid'', PStr tree)]"

definition ex_observation :: pydict where
  "ex_observation =
     [(''schema_version'', PStr ''stack_observation.v1''), (''availability'', PStr ''present''), (''repo'', PStr ''o/r''),
      (''selected_pr_number'', PStr ''12''), (''observed_at'', PStr ''now''), (''stack_node_id'', PStr ''S1''),
      (''stack_number'', PInt 4), (''trunk_ref_name'', PStr ''main''), (''reported_size'', PInt 3),
      (''members'', PList [ex_member 3 ''13'' ''open'' ''b2'' ''b3'' ''t3'', ex_member 1 ''11'' ''MERGED'' ''main'' ''b1'' '''',
                         ex_member 2 ''12'' ''OPEN'' ''main'' ''b2'' ''t2''])]"

definition ex_context :: stack_context where
  "ex_context = projr (project_stack_context ex_observation)"

lemma project_present_intro:
  assumes "dget d ''schema_version'' = PStr ''stack_observation.v1''"
    and "py_lower (py_str (py_or (dget d ''availability'') (PStr ''invalid''))) = ''present''"
    and "dget d ''members'' = PList rows" "sum_map member_from_dict rows = Inr ms"
    and "optional_int (dget d ''reported_size'') = Some (int (length rows))"
    and "stack_invariant_failure (sort_key m_position ms) (stripped_field d ''selected_pr_number'')
           (stripped_field d ''trunk_ref_name'') = None"
    and "stripped_field d ''stack_node_id'' \<noteq> []" "optional_int (dget d ''stack_number'') = Some n" "1 \<le> n"
  shows "\<exists>c. project_stack_context d = Inr c \<and> k_availability c = ''present'' \<and> k_members c = sort_key m_position ms
    \<and> k_selected_pr_number c = stripped_field d ''selected_pr_number'' \<and> k_repo c = stripped_field d ''repo''"
proof -
  have "project_stack_context d = project_present d (stripped_field d ''repo'')
      (stripped_field d ''selected_pr_number'') (stripped_field d ''observed_at'')"
    unfolding project_stack_context_def Let_def assms(1,2) by (simp add: STACK_AVAILABILITIES_def)
  moreover have "project_present d (stripped_field d ''repo'') (stripped_field d ''selected_pr_number'')
      (stripped_field d ''observed_at'') = Inr (present_context d (stripped_field d ''repo'')
      (stripped_field d ''selected_pr_number'') (stripped_field d ''observed_at'')
      (Some (int (length rows))) (sort_key m_position ms))"
    unfolding project_present_def assms(3,5) using assms(4) by simp
  ultimately show ?thesis
    unfolding present_context_def Let_def assms(6,8) using assms(7,9) by simp
qed

definition ex_rows :: "pyval list" where
  "ex_rows = [ex_member 3 ''13'' ''open'' ''b2'' ''b3'' ''t3'', ex_member 1 ''11'' ''MERGED'' ''main'' ''b1'' [],
              ex_member 2 ''12'' ''OPEN'' ''main'' ''b2'' ''t2'']"

lemma ex_context_present:
  "project_stack_context ex_observation = Inr ex_context" "k_availability ex_context = ''present''"
  "k_selected_pr_number ex_context = ''12''" "k_repo ex_context = ''o/r''"
proof -
  have "\<not> isl (sum_map member_from_dict ex_rows)" by code_simp
  then have rows: "sum_map member_from_dict ex_rows = Inr (projr (sum_map member_from_dict ex_rows))"
    by (rule sum.collapse(2) [symmetric])
  have members: "dget ex_observation ''members'' = PList ex_rows"
    by (simp add: ex_observation_def ex_rows_def)
  have *: "\<exists>c. project_stack_context ex_observation = Inr c \<and> k_availability c = ''present''
      \<and> k_members c = sort_key m_position (projr (sum_map member_from_dict ex_rows))
      \<and> k_selected_pr_number c = stripped_field ex_observation ''selected_pr_number''
      \<and> k_repo c = stripped_field ex_observation ''repo''"
    by (rule project_present_intro [OF _ _ members rows, where n = 4]) code_simp+
  have f: "stripped_field ex_observation ''selected_pr_number'' = ''12''" "stripped_field ex_observation ''repo'' = ''o/r''"
    by code_simp+
  from * f show "project_stack_context ex_observation = Inr ex_context" "k_availability ex_context = ''present''"
    "k_selected_pr_number ex_context = ''12''" "k_repo ex_context = ''o/r''"
    unfolding ex_context_def by auto
qed
theorem present_context_topology_witness:
  "\<exists>trunk. stack_wf (k_members ex_context) ''12'' trunk"
  using present_context_topology [OF ex_context_present(1,2)] unfolding ex_context_present(3) by blast

text \<open>
  The segment of a present stack. The merged prefix, the included members and the
  excluded upper members are exactly the members of the stack, in its order: every unmerged
  member is covered or excluded by its position against the selected one, and the selected
  member itself is covered unless it is merged already. An explicit-stack decision covers
  the pull requests of the included members, the default one the selected pull request.
\<close>

theorem stack_segment_partition:
  assumes "project_stack_context payload = Inr c" "k_availability c = ''present''" "k_selected_pr c = Some m"
  shows "seg_merged_prefix (project_stack_segment c) @ seg_included (project_stack_segment c)
           @ seg_excluded (project_stack_segment c) = k_members c
    \<and> (m_state m \<noteq> ''MERGED'' \<longrightarrow> m \<in> set (seg_included (project_stack_segment c)))
    \<and> d_covered (evaluate_stack_context_policy c True) = map m_pr_number (seg_included (project_stack_segment c))
    \<and> d_covered (evaluate_stack_context_policy c False) = [m_pr_number m]"
proof -
  obtain trunk where shape: "present_shape c trunk" using project_present_shape [OF assms(1,2)] by blast
  let ?open = "filter (\<lambda>x. m_state x \<noteq> ''MERGED'') (k_members c)"
  note seg = segment_of_present [OF shape assms(2,3)]
  have wf: "stack_wf (k_members c) (k_selected_pr_number c) trunk" using shape by (simp add: present_shape_def)
  have "sorted_wrt (\<lambda>a b. m_position a < m_position b) ?open"
    using wf_positions_sorted [OF wf] by (rule sorted_wrt_filter)
  from filter_threshold [OF this] wf_merged_split [OF wf]
  have "seg_merged_prefix (project_stack_segment c) @ seg_included (project_stack_segment c)
           @ seg_excluded (project_stack_segment c) = k_members c"
    unfolding seg by (simp del: filter_filter)
  moreover have m: "m \<in> set (k_members c)" "m_pr_number m = k_selected_pr_number c" "member_valid m"
    using shape assms(3) by (auto simp: present_shape_def)
  then have "m_state m \<noteq> ''MERGED'' \<longrightarrow> m \<in> set (seg_included (project_stack_segment c))"
    unfolding seg by simp
  moreover have "m_pr_number m \<noteq> []" using m(3) by (simp add: member_valid_def trimmed_def)
  ultimately show ?thesis
    using assms(2) m(2) by (auto simp: evaluate_stack_context_policy_def Let_def)
qed

lemma ex_selected: "k_selected_pr ex_context = Some (the (k_selected_pr ex_context))"
  using present_context_topology [OF ex_context_present(1,2)] by auto

theorem stack_segment_partition_witness:
  "seg_merged_prefix (project_stack_segment ex_context) @ seg_included (project_stack_segment ex_context)
     @ seg_excluded (project_stack_segment ex_context) = k_members ex_context"
  using stack_segment_partition [OF ex_context_present(1,2) ex_selected] by blast

section \<open>Revision bindings\<close>

lemma binding_of_present:
  assumes "present_shape c trunk" "k_availability c = ''present''" "k_selected_pr c = Some m"
  shows "\<exists>b. revision_binding_for_context c = Some b \<and> str_field b ''pr_number'' = m_pr_number m
    \<and> dget b ''schema_version'' = PStr ''revision_binding.v2'' \<and> dget b ''pr_number'' = PStr (m_pr_number m)
    \<and> dget b ''head_tree_oid'' = PStr (m_head_tree_oid m)"
proof -
  obtain n where "k_stack_number c = Some n" using assms(1) by (auto simp: present_shape_def)
  with assms show ?thesis
    by (simp add: revision_binding_for_context_def str_field_def str_or_self)
qed

lemma compare_present:
  assumes "present_shape c trunk" "k_availability c = ''present''" "k_selected_pr c = Some m"
  shows "compare_revision_binding (PDict b) c =
    (if str_field b ''pr_number'' \<noteq> m_pr_number m then Some ''STACK_ACTION_CONTEXT_MISMATCH''
     else if dget b ''schema_version'' = PStr ''revision_binding.v2'' \<and> dget b ''pr_number'' = PStr (m_pr_number m)
        \<and> dget b ''head_tree_oid'' = PStr (m_head_tree_oid m)
     then None else Some ''STALE_REQUEST_CONTEXT'')"
proof -
  have "m_pr_number m = k_selected_pr_number c" using assms(1,3) by (auto simp: present_shape_def)
  then show ?thesis
    using binding_of_present [OF assms] assms(2) by (auto simp: compare_revision_binding_def)
qed

text \<open>
  A revision binding follows the content, not the topology. A binding captured from one
  present context is judged against another present context only by the selected pull
  request and by the tree of its head: if the pull requests differ it is a mismatch, if the
  trees are equal it is current, whatever happened to the head commit, the positions, the
  stack number or the fingerprint, and otherwise it is stale.
\<close>

theorem revision_binding_content_only:
  assumes "project_stack_context p = Inr c" "k_availability c = ''present''" "k_selected_pr c = Some m"
    and "project_stack_context p' = Inr c'" "k_availability c' = ''present''" "k_selected_pr c' = Some m'"
  shows "\<exists>b. revision_binding_for_context c = Some b
    \<and> compare_revision_binding (PDict b) c' =
        (if m_pr_number m \<noteq> m_pr_number m' then Some ''STACK_ACTION_CONTEXT_MISMATCH''
         else if m_head_tree_oid m = m_head_tree_oid m' then None else Some ''STALE_REQUEST_CONTEXT'')"
proof -
  obtain t t' where s: "present_shape c t" "present_shape c' t'"
    using project_present_shape assms by blast
  from binding_of_present [OF s(1) assms(2,3)] obtain b where
    "revision_binding_for_context c = Some b" "str_field b ''pr_number'' = m_pr_number m"
    "dget b ''schema_version'' = PStr ''revision_binding.v2''" "dget b ''pr_number'' = PStr (m_pr_number m)"
    "dget b ''head_tree_oid'' = PStr (m_head_tree_oid m)" by blast
  then show ?thesis using compare_present [OF s(2) assms(5,6), of b] by auto
qed

theorem revision_binding_content_only_witness:
  "\<exists>b. revision_binding_for_context ex_context = Some b \<and> compare_revision_binding (PDict b) ex_context = None"
  using revision_binding_content_only [OF ex_context_present(1,2) ex_selected ex_context_present(1,2) ex_selected] by simp

section \<open>Serialized contexts\<close>

lemma sum_map_members: "\<forall>m \<in> set ms. member_valid m \<Longrightarrow> sum_map member_from_dict (map member_to_dict ms) = Inr ms"
  by (induction ms) (simp_all add: member_roundtrip)

lemma py_or_str: "py_str (py_or (PStr s) (PStr [])) = s"
  by (simp add: py_or_def)

lemma wf_sorted:
  assumes "stack_wf ms sel trunk" shows "sort_key m_position ms = ms"
proof -
  have "sorted_wrt (\<lambda>a b. m_position a \<le> m_position b) ms"
    by (rule sorted_wrt_mono_rel [OF _ wf_positions_sorted [OF assms]]) simp
  then show ?thesis by (intro sort_key_id_if_sorted) (simp add: sorted_wrt_map)
qed

lemma selected_unique:
  assumes "distinct (map f ms)" "m \<in> set ms"
  shows "hd (filter (\<lambda>x. f x = f m) ms) = m"
proof -
  have "filter (\<lambda>x. f x = f m) ms \<noteq> []" using assms(2) by (auto simp: filter_empty_conv)
  then have "hd (filter (\<lambda>x. f x = f m) ms) \<in> set (filter (\<lambda>x. f x = f m) ms)" by (rule hd_in_set)
  then have "hd (filter (\<lambda>x. f x = f m) ms) \<in> set ms" "f (hd (filter (\<lambda>x. f x = f m) ms)) = f m" by simp_all
  with assms show ?thesis by (metis distinct_map inj_onD)
qed

definition serialized_observation :: "stack_context \<Rightarrow> pydict" where
  "serialized_observation c =
     [(''schema_version'', PStr ''stack_observation.v1''), (''availability'', PStr ''present''),
      (''repo'', PStr (k_repo c)), (''selected_pr_number'', PStr (k_selected_pr_number c)),
      (''observed_at'', PStr (k_observed_at c)), (''stack_node_id'', PStr ''serialized-context''),
      (''stack_number'', opt_int (k_stack_number c)), (''trunk_ref_name'', opt_str (k_trunk_ref_name c)),
      (''reported_size'', opt_int (k_reported_size c)), (''members'', PList (map member_to_dict (k_members c)))]"

lemma serialized_reads:
  assumes "present_shape c trunk" "k_availability c = ''present''"
  shows "stack_context_from_serialized (context_to_dict c) (k_repo c) (k_selected_pr_number c) =
    (case project_stack_context (serialized_observation c) of
       Inl e \<Rightarrow> Inl e | Inr c' \<Rightarrow> Inr (c'\<lparr>k_topology_fingerprint := k_topology_fingerprint c\<rparr>))"
proof -
  obtain m h where *: "k_selected_pr c = Some m" "k_topology_fingerprint c = PStr h" "h \<noteq> []"
    using assms(1) by (auto simp: present_shape_def)
  have or: "py_or (PStr ''present'') x = PStr ''present''" for x by (simp add: py_or_def)
  show ?thesis
    using assms *
    by (simp add: stack_context_from_serialized_def context_to_dict_def serialized_observation_def
        str_field_def str_or_self or Let_def split: sum.split)
qed

lemma serialized_projects:
  assumes shape: "present_shape c trunk" and here: "k_availability c = ''present''"
  shows "project_stack_context (serialized_observation c) =
    Inr (let c' = c\<lparr>k_stack_node_id := Some ''serialized-context'', k_topology_fingerprint := PNone\<rparr>
         in c'\<lparr>k_topology_fingerprint := PStr (fingerprint_present c')\<rparr>)"
proof -
  let ?d = "serialized_observation c" and ?ms = "k_members c"
  obtain n m where n: "k_stack_number c = Some n" "1 \<le> n" and m: "m \<in> set ?ms" "k_selected_pr c = Some m"
    "m_pr_number m = k_selected_pr_number c" "k_selected_position c = Some (m_position m)"
    using shape by (auto simp: present_shape_def)
  have wf: "stack_wf ?ms (k_selected_pr_number c) trunk" and valid: "\<forall>m \<in> set ?ms. member_valid m"
    and size: "k_reported_size c = Some (int (length ?ms))" and trunk: "k_trunk_ref_name c = Some trunk" "py_strip trunk = trunk"
    and strips: "py_strip (k_repo c) = k_repo c" "py_strip (k_selected_pr_number c) = k_selected_pr_number c"
      "py_strip (k_observed_at c) = k_observed_at c"
    and quiet: "k_diagnostic_code c = None" "k_invalid_invariant c = None" "k_diagnostic_cause c = None"
    using shape by (auto simp: present_shape_def)
  have sel: "hd (filter (\<lambda>x. m_pr_number x = k_selected_pr_number c) ?ms) = m"
    using wf m selected_unique [of m_pr_number ?ms m] by (simp add: stack_wf_def)
  have fields: "stripped_field ?d ''repo'' = k_repo c" "stripped_field ?d ''selected_pr_number'' = k_selected_pr_number c"
    "stripped_field ?d ''observed_at'' = k_observed_at c" "stripped_field ?d ''trunk_ref_name'' = trunk"
    using strips trunk by (simp_all add: stripped_field_def str_field_def serialized_observation_def str_or_self)
  have node: "stripped_field ?d ''stack_node_id'' = ''serialized-context''"
    by (simp add: stripped_field_def str_field_def serialized_observation_def str_or_self) code_simp
  have avail: "py_lower (py_str (py_or (dget ?d ''availability'') (PStr ''invalid''))) = ''present''"
  proof -
    have "py_lower (py_str (py_or (PStr ''present'') (PStr ''invalid''))) = ''present''" by code_simp
    then show ?thesis by (simp add: serialized_observation_def)
  qed
  have "project_stack_context ?d = project_present ?d (k_repo c) (k_selected_pr_number c) (k_observed_at c)"
    unfolding project_stack_context_def Let_def avail fields
    by (simp add: STACK_AVAILABILITIES_def serialized_observation_def)
  also have "\<dots> = Inr (present_context ?d (k_repo c) (k_selected_pr_number c) (k_observed_at c)
      (Some (int (length ?ms))) ?ms)"
    using sum_map_members [OF valid] wf_sorted [OF wf] size
    by (simp add: project_present_def serialized_observation_def optional_int_def)
  also have "present_context ?d (k_repo c) (k_selected_pr_number c) (k_observed_at c) (Some (int (length ?ms))) ?ms =
      (let c' = c\<lparr>k_stack_node_id := Some ''serialized-context'', k_topology_fingerprint := PNone\<rparr>
       in c'\<lparr>k_topology_fingerprint := PStr (fingerprint_present c')\<rparr>)"
  proof -
    have num: "optional_int (dget ?d ''stack_number'') = Some n"
      using n by (simp add: serialized_observation_def optional_int_def)
    have ok: "stack_invariant_failure ?ms (k_selected_pr_number c) trunk = None" using wf by (simp only: stack_invariant_iff)
    have eq: "(bare_context ''present'' (k_repo c) (k_selected_pr_number c) (k_observed_at c))
        \<lparr>k_stack_node_id := Some ''serialized-context'', k_stack_number := Some n, k_trunk_ref_name := Some trunk,
         k_reported_size := Some (int (length ?ms)), k_selected_position := Some (m_position m), k_members := ?ms,
         k_selected_pr := Some m\<rparr>
      = c\<lparr>k_stack_node_id := Some ''serialized-context'', k_topology_fingerprint := PNone\<rparr>"
      using n m trunk size quiet here by (simp add: bare_context_def)
    show ?thesis
      unfolding present_context_def Let_def fields node num ok sel option.case using n(2) by (simp add: eq)
  qed
  finally show ?thesis .
qed

text \<open>
  A present context survives serialization. Reading back the dictionary a present
  context is stored as (in a session, in a request) gives the same context again, with its
  members, selection, size and its original topology fingerprint; only the node id, which is
  not stored, is replaced by a fixed marker.
\<close>

theorem stack_context_roundtrip:
  assumes "project_stack_context payload = Inr c" "k_availability c = ''present''"
  shows "stack_context_from_serialized (context_to_dict c) (k_repo c) (k_selected_pr_number c)
    = Inr (c\<lparr>k_stack_node_id := Some ''serialized-context''\<rparr>)"
proof -
  obtain trunk where shape: "present_shape c trunk" using project_present_shape [OF assms] by blast
  show ?thesis
    unfolding serialized_reads [OF shape assms(2)] serialized_projects [OF shape assms(2)]
    by (simp add: Let_def)
qed

theorem stack_context_roundtrip_witness:
  "stack_context_from_serialized (context_to_dict ex_context) ''o/r'' ''12''
     = Inr (ex_context\<lparr>k_stack_node_id := Some ''serialized-context''\<rparr>)"
  using stack_context_roundtrip [OF ex_context_present(1,2)] unfolding ex_context_present(3,4) .

section \<open>Policy and errors\<close>

lemma project_availability:
  "project_stack_context payload = Inr c \<Longrightarrow>
     k_availability c \<in> set STACK_AVAILABILITIES
     \<and> (k_availability c = ''unavailable'' \<longrightarrow> k_diagnostic_code c = Some ''STACK_CONTEXT_UNAVAILABLE'')
     \<and> (k_availability c = ''invalid'' \<longrightarrow> k_diagnostic_code c = Some ''STACK_CONTEXT_INVALID'')"
  unfolding project_stack_context_def project_absent_def project_present_def present_context_def Let_def
  by (auto simp: STACK_AVAILABILITIES_def invalid_context_def split: if_splits sum.splits py_exn.splits pyval.splits option.splits)

text \<open>
  The policy fails open for one pull request and closed for a stack. For every projected
  context the default scope is always allowed; the explicit stack scope is allowed exactly
  when the observation is present or absent, and a refusal carries the diagnostic of the
  observation (invalid or unavailable) and covers nothing.
\<close>

theorem stack_policy_fails_closed:
  assumes "project_stack_context payload = Inr c"
  shows "d_allowed (evaluate_stack_context_policy c False)
    \<and> (d_allowed (evaluate_stack_context_policy c True) \<longleftrightarrow> k_availability c \<in> {''present'', ''absent''})
    \<and> (\<not> d_allowed (evaluate_stack_context_policy c True) \<longrightarrow>
         d_covered (evaluate_stack_context_policy c True) = []
         \<and> d_reason_code (evaluate_stack_context_policy c True)
             = Some (if k_availability c = ''invalid'' then ''STACK_CONTEXT_INVALID'' else ''STACK_CONTEXT_UNAVAILABLE''))"
  using project_availability [OF assms]
  by (auto simp: evaluate_stack_context_policy_def STACK_AVAILABILITIES_def Let_def)

theorem stack_policy_fails_closed_witness:
  "d_allowed (evaluate_stack_context_policy ex_context True)
   \<and> \<not> d_allowed (evaluate_stack_context_policy (invalid_context [] [] [] ''unsupported_schema'') True)"
proof -
  have "project_stack_context [] = Inr (invalid_context [] [] [] ''unsupported_schema'')" by code_simp
  from stack_policy_fails_closed [OF this] stack_policy_fails_closed [OF ex_context_present(1)] ex_context_present(2)
  show ?thesis by simp
qed

definition ex_bad_rows :: pydict where
  "ex_bad_rows =
     [(''schema_version'', PStr ''stack_observation.v1''), (''availability'', PStr ''present''),
      (''reported_size'', PInt 2), (''members'', PList [PStr ''11'', PStr ''12''])]"

text \<open>
  What escapes the projection. The only exception \<open>project_stack_context\<close> can raise is
  an attribute error, and it does raise it: rows of the wrong type are not turned into an
  invalid context like every other malformed row, as in the observation of the statement,
  whose member list holds two strings.
\<close>

theorem project_stack_context_escape:
  "(\<forall>payload e. project_stack_context payload = Inl e \<longrightarrow> (\<exists>m. e = AttributeError m))
   \<and> (\<exists>m. project_stack_context ex_bad_rows = Inl (AttributeError m))"
proof
  show "\<forall>payload e. project_stack_context payload = Inl e \<longrightarrow> (\<exists>m. e = AttributeError m)"
    unfolding project_stack_context_def project_absent_def project_present_def Let_def
    by (auto split: if_splits sum.splits py_exn.splits pyval.splits)
  have "case project_stack_context ex_bad_rows of Inl (AttributeError m) \<Rightarrow> True | _ \<Rightarrow> False" by code_simp
  then show "\<exists>m. project_stack_context ex_bad_rows = Inl (AttributeError m)"
    by (auto split: sum.splits py_exn.splits)
qed

theorem project_stack_context_escape_witness:
  "project_stack_context ex_bad_rows \<noteq> Inl (ValueError ''invalid_position'')"
proof
  assume bad: "project_stack_context ex_bad_rows = Inl (ValueError ''invalid_position'')"
  from project_stack_context_escape have "\<exists>m. ValueError ''invalid_position'' = AttributeError m"
    using bad by blast
  then show False by simp
qed

end
