(* ===== verification/Validation_Evidence.thy ===== *)
theory Validation_Evidence
  imports Stack_Context Thread_State
begin

text \<open>
  Validation evidence (\<open>core/validation_evidence.py\<close>), the logic-validation signals computed
  from the items of a session (\<open>core/logic_validation.py\<close>), and the membership of a cited
  commit in a pull request (\<open>core/commit_membership.py\<close>).
\<close>

section \<open>Evidence of a successful validation\<close>

definition VALIDATION_SUCCESS_PREFIXES :: "string list" where
  "VALIDATION_SUCCESS_PREFIXES = [''passed'', ''pass'', ''success'', ''succeeded'', ''ok'']"

definition KNOWN_VALIDATION_RESULT_TOKENS :: "string list" where
  "KNOWN_VALIDATION_RESULT_TOKENS =
     [''passed'', ''pass'', ''success'', ''succeeded'', ''ok'', ''failed'', ''fail'', ''failure'', ''error'', ''skipped'']"

definition validation_result_is_success :: "pyval \<Rightarrow> bool" where
  "validation_result_is_success result =
     (let normalized = py_lower (py_strip (py_str (py_or result (PStr ''passed''))))
      in list_ex (\<lambda>p. startswith normalized p) VALIDATION_SUCCESS_PREFIXES)"

definition text_has_success :: "string \<Rightarrow> bool" where
  "text_has_success value =
     (let text = py_strip value
      in if text = [] then False
         else let (command, separator, result) = py_rpartition (CHR ''='') text
              in if separator \<and> py_lower (py_strip result) \<in> set KNOWN_VALIDATION_RESULT_TOKENS
                 then validation_result_is_success (PStr result)
                 else True)"

definition record_has_success :: "pydict \<Rightarrow> bool" where
  "record_has_success d =
     (if dget d ''exit_code'' \<noteq> PNone
         \<and> (case py_int (dget d ''exit_code'') of Inl _ \<Rightarrow> False | Inr code \<Rightarrow> code \<noteq> 0)
      then False
      else validation_result_is_success (dget d ''result''))"

fun validation_evidence_has_success :: "pyval \<Rightarrow> bool" where
  "validation_evidence_has_success PNone = False"
| "validation_evidence_has_success (PStr value) = text_has_success value"
| "validation_evidence_has_success (PDict d) =
     (if has_key d ''command'' \<or> has_key d ''result'' \<or> has_key d ''exit_code''
      then record_has_success d
      else list_ex (\<lambda>b. b) (map (\<lambda>kv. validation_evidence_has_success (snd kv)) d))"
| "validation_evidence_has_success (PList xs) = list_ex (\<lambda>b. b) (map validation_evidence_has_success xs)"
| "validation_evidence_has_success (PBool b) = b"
| "validation_evidence_has_success (PInt i) = (i \<noteq> 0)"

definition revision_evidence_status :: "pyval \<Rightarrow> stack_context \<Rightarrow> string" where
  "revision_evidence_status binding current_context =
     (case compare_revision_binding binding current_context of
        None \<Rightarrow> ''current''
      | Some reason \<Rightarrow> if reason = ''FINAL_GATE_UNBOUND_REVISION_EVIDENCE'' then ''unbound'' else ''stale'')"

section \<open>Cited commits\<close>

definition cited_commit :: "pydict \<Rightarrow> string" where
  "cited_commit response =
     (case dget response ''fix_reply'' of
        PDict fix_reply \<Rightarrow> stripped_field fix_reply ''commit_hash''
      | _ \<Rightarrow> [])"

definition commit_in_pr :: "string \<Rightarrow> string list \<Rightarrow> bool" where
  "commit_in_pr commit pr_commit_shas =
     (let prefix = py_lower (py_strip commit)
      in if length prefix < 4 then False
         else list_ex (\<lambda>sha. startswith (py_lower sha) prefix) pr_commit_shas)"

section \<open>Logic-validation signals\<close>

record logic_signal =
  ls_signal_id :: string
  ls_item_id :: string
  ls_item_kind :: string
  ls_signal_type :: string
  ls_confidence :: string
  ls_explanation :: string
  ls_recommended_action :: string
  ls_gate_effect :: string

definition logic_signal_of :: "string \<Rightarrow> string \<Rightarrow> string \<Rightarrow> string \<Rightarrow> string \<Rightarrow> string \<Rightarrow> string \<Rightarrow> logic_signal" where
  "logic_signal_of item_id item_kind signal_type confidence explanation recommended_action gate_effect =
     \<lparr>ls_signal_id = ''logic:'' @ signal_type @ '':'' @ item_id, ls_item_id = item_id, ls_item_kind = item_kind,
      ls_signal_type = signal_type, ls_confidence = confidence, ls_explanation = explanation,
      ls_recommended_action = recommended_action, ls_gate_effect = gate_effect\<rparr>"

fun deep_content :: "pyval \<Rightarrow> bool" where
  "deep_content PNone = False"
| "deep_content (PStr s) = (py_strip s \<noteq> [])"
| "deep_content (PDict d) = list_ex (\<lambda>b. b) (map (\<lambda>kv. deep_content (snd kv)) d)"
| "deep_content (PList xs) = list_ex (\<lambda>b. b) (map deep_content xs)"
| "deep_content (PBool b) = b"
| "deep_content (PInt i) = (i \<noteq> 0)"

definition evidence_keys :: "string list" where
  "evidence_keys = [''validation_evidence'', ''validation_commands'', ''validation_results'']"

definition lower_field :: "pydict \<Rightarrow> string \<Rightarrow> string" where
  "lower_field d k = py_lower (str_field d k)"

definition validation_evidence_bindings :: "pydict \<Rightarrow> pyval list" where
  "validation_evidence_bindings item =
     (let item_binding = dget item ''revision_binding'';
          own = (if \<exists>k \<in> set evidence_keys. validation_evidence_has_success (dget item k) then [item_binding] else []);
          accepted = (case dget item ''accepted_response'' of
              PDict r \<Rightarrow> (if \<exists>k \<in> set evidence_keys. validation_evidence_has_success (dget r k)
                          then [dget r ''revision_binding''] else [])
            | _ \<Rightarrow> [])
      in case dget item ''evidence'' of
           PDict e \<Rightarrow> own @ accepted
             @ (if validation_evidence_has_success (dget e ''validation'')
                   \<or> validation_evidence_has_success (dget e ''validation_evidence'')
                then [item_binding] else [])
         | _ \<Rightarrow> own @ accepted
             @ (if deep_content (dget item ''resolution_note'')
                   \<and> lower_field item ''decision'' \<in> {''accept'', ''manual'', ''sync''}
                then [item_binding] else []))"

definition logic_has_validation_evidence :: "pydict \<Rightarrow> bool" where
  "logic_has_validation_evidence item \<longleftrightarrow> validation_evidence_bindings item \<noteq> []"

definition item_revision_evidence_status :: "pydict \<Rightarrow> stack_context \<Rightarrow> string" where
  "item_revision_evidence_status item c =
     (let statuses = map (\<lambda>b. revision_evidence_status b c) (validation_evidence_bindings item)
      in if ''current'' \<in> set statuses then ''current''
         else if ''stale'' \<in> set statuses then ''stale'' else ''unbound'')"

definition has_state_contradiction :: "pydict \<Rightarrow> bool" where
  "has_state_contradiction item =
     (let claim = py_str (py_or (py_or (dget item ''completion_claim'') (dget item ''claim'')) (PStr []));
          state = str_field item ''state'';
          terminal = (if str_field item ''item_kind'' = ''github_thread'' then GITHUB_THREAD_TERMINAL_STATES
                      else LOCAL_TERMINAL_STATES)
      in if claim \<notin> {''ready_to_publish'', ''fixed'', ''handled''} then False
         else \<not> (state \<in> set terminal \<or> state = ''handled''))"

text \<open>The first of the three fields of a source that has content.\<close>

definition source_resolution :: "pyval \<Rightarrow> pyval option" where
  "source_resolution source =
     (case source of
        PDict d \<Rightarrow> find deep_content (map (dget d) [''resolution'', ''decision'', ''action''])
      | _ \<Rightarrow> None)"

definition github_resolution :: "pydict \<Rightarrow> string" where
  "github_resolution item =
     (case source_resolution (dget item ''accepted_response'') of
        Some v \<Rightarrow> py_lower (py_strip (py_str v))
      | None \<Rightarrow>
          (case source_resolution (PDict item) of
             Some v \<Rightarrow> py_lower (py_strip (py_str v))
           | None \<Rightarrow>
               (case dget item ''classification_evidence'' of
                  PDict e \<Rightarrow> if deep_content (dget e ''classification'')
                             then py_lower (py_strip (py_str (dget e ''classification''))) else []
                | _ \<Rightarrow> [])))"

definition requires_validation_evidence :: "pydict \<Rightarrow> string \<Rightarrow> string \<Rightarrow> bool" where
  "requires_validation_evidence item item_kind state =
     (if item_kind = ''local_finding'' then state \<in> set LOCAL_TERMINAL_STATES
      else if item_kind = ''github_thread'' then
        (let resolution = github_resolution item
         in if resolution \<in> {''clarify'', ''defer'', ''reject''} \<or> state \<in> {''clarified'', ''deferred'', ''rejected''}
            then False
            else if resolution \<in> {''fix'', ''fixed''} \<or> is_dict (dget item ''accepted_response'')
            then state \<in> set GITHUB_THREAD_TERMINAL_STATES
            else False)
      else False)"

definition is_low_confidence :: "pydict \<Rightarrow> bool" where
  "is_low_confidence item =
     (py_lower (py_str (py_or (py_or (dget item ''logic_confidence'') (dget item ''confidence'')) (PStr [])))
        \<in> {''low'', ''advisory''})"

definition item_signal :: "stack_context option \<Rightarrow> pydict \<Rightarrow> logic_signal option" where
  "item_signal stack_context item =
     (let item_id = str_field item ''item_id''; state = str_field item ''state''; item_kind = str_field item ''item_kind'' in
      if item_id = [] then None
      else if has_state_contradiction item then
        Some (logic_signal_of item_id item_kind ''state_contradiction'' ''high''
          ''Item claims publish readiness while runtime state is not terminal.''
          ''Refresh runtime state and submit the missing evidence before final-gate.'' ''blocking'')
      else if requires_validation_evidence item item_kind state \<and> \<not> logic_has_validation_evidence item then
        Some (logic_signal_of item_id item_kind ''missing_required_evidence'' ''high''
          ''Terminal work item is missing validation evidence.''
          ''Record validation evidence or reopen the item before final-gate.'' ''blocking'')
      else
        (let low = (if is_low_confidence item
                    then Some (logic_signal_of item_id item_kind ''low_confidence_advisory'' ''low''
                      ''Item carries a low-confidence logic validation marker.''
                      ''Review the rationale if more evidence is available; this advisory does not block completion.''
                      ''advisory'')
                    else None)
         in case stack_context of
              Some c \<Rightarrow>
                if requires_validation_evidence item item_kind state \<and> item_revision_evidence_status item c \<noteq> ''current''
                then Some (logic_signal_of item_id item_kind (item_revision_evidence_status item c @ ''_revision_evidence'')
                       ''high'' ''Validation evidence does not prove the current stacked-member revision.''
                       ''Refresh the stack and rerun validation for this PR layer.'' ''blocking'')
                else low
            | None \<Rightarrow> low))"

definition current_stack_context :: "pydict \<Rightarrow> py_exn + stack_context option" where
  "current_stack_context session =
     (case nested_get (nested_get (dget session ''metadata'') ''pull_request_context'') ''stack_context'' of
        PDict payload \<Rightarrow>
          if dget payload ''availability'' \<noteq> PStr ''present'' then Inr None
          else (case stack_context_from_serialized payload (str_field session ''repo'') (str_field session ''pr_number'') of
                  Inl e \<Rightarrow> Inl e | Inr c \<Rightarrow> Inr (Some c))
      | _ \<Rightarrow> Inr None)"

definition dict_rows :: "pyval list \<Rightarrow> pydict list" where
  "dict_rows vs = List.map_filter as_dict vs"

text \<open>The values of \<open>session.get("items") or {}\<close> that are dictionaries, or the error of iterating over it.\<close>

definition session_rows :: "pydict \<Rightarrow> py_exn + pydict list" where
  "session_rows session =
     (case py_or (dget session ''items'') (PDict []) of
        PDict d \<Rightarrow> Inr (dict_rows (map snd d))
      | PList xs \<Rightarrow> Inr (dict_rows xs)
      | PStr s \<Rightarrow> Inr []
      | v \<Rightarrow> Inl (TypeError (str_repr (type_name v) @ '' object is not iterable'')))"

definition generate_logic_validation_signals :: "pydict \<Rightarrow> py_exn + logic_signal list" where
  "generate_logic_validation_signals session =
     (case current_stack_context session of
        Inl e \<Rightarrow> Inl e
      | Inr c \<Rightarrow> (case session_rows session of
            Inl e \<Rightarrow> Inl e
          | Inr rows \<Rightarrow> Inr (List.map_filter (item_signal c) rows)))"

section \<open>Properties\<close>

lemma status_values: "revision_evidence_status b c \<in> {''current'', ''unbound'', ''stale''}"
  by (simp add: revision_evidence_status_def split: option.split)

lemma item_status_current:
  "item_revision_evidence_status item c = ''current'' \<longleftrightarrow>
     (\<exists>b \<in> set (validation_evidence_bindings item). revision_evidence_status b c = ''current'')"
  unfolding item_revision_evidence_status_def Let_def by (auto simp: image_iff)

lemma signal_fields [simp]:
  "ls_gate_effect (logic_signal_of i k t c e r g) = g" "ls_item_id (logic_signal_of i k t c e r g) = i"
  "ls_signal_type (logic_signal_of i k t c e r g) = t"
  by (simp_all add: logic_signal_of_def)

lemma item_signal_id: "item_signal c item = Some s \<Longrightarrow> ls_item_id s = str_field item ''item_id''"
  by (auto simp: item_signal_def Let_def split: if_splits option.splits)

lemma item_signal_blocking:
  "(\<exists>s. item_signal c item = Some s \<and> ls_gate_effect s = ''blocking'') \<longleftrightarrow>
     str_field item ''item_id'' \<noteq> []
     \<and> (has_state_contradiction item
        \<or> requires_validation_evidence item (str_field item ''item_kind'') (str_field item ''state'')
          \<and> \<not> (\<exists>b \<in> set (validation_evidence_bindings item).
                 \<forall>ctx. c = Some ctx \<longrightarrow> revision_evidence_status b ctx = ''current''))"
proof (cases c)
  case None
  then show ?thesis
    using ex_in_conv [of "set (validation_evidence_bindings item)"]
    by (auto simp: item_signal_def Let_def logic_has_validation_evidence_def)
next
  case (Some ctx)
  have "\<not> (\<exists>b \<in> set (validation_evidence_bindings item). revision_evidence_status b ctx = ''current'')
      \<longleftrightarrow> item_revision_evidence_status item ctx \<noteq> ''current''"
    by (simp add: item_status_current)
  moreover have "validation_evidence_bindings item = [] \<Longrightarrow> item_revision_evidence_status item ctx \<noteq> ''current''"
    by (simp add: item_status_current)
  ultimately show ?thesis
    unfolding Some by (auto simp: item_signal_def Let_def logic_has_validation_evidence_def simp del: One_nat_def)
qed

text \<open>
  The blocking signals, exactly. When the signals of a session can be computed, an item
  of it contributes a blocking signal if and only if it has an id and either claims to be
  done in a state that is not terminal, or is terminal work that needs evidence and has no
  successful validation bound to the current revision (to any revision, when no present
  stack context is cached); the signal carries the id of the item.
\<close>

theorem blocking_signal_iff:
  assumes "generate_logic_validation_signals session = Inr signals"
    and "current_stack_context session = Inr c" "session_rows session = Inr rows" "item \<in> set rows"
  shows "(\<exists>s \<in> set signals. item_signal c item = Some s \<and> ls_gate_effect s = ''blocking''
             \<and> ls_item_id s = str_field item ''item_id'') \<longleftrightarrow>
     str_field item ''item_id'' \<noteq> []
     \<and> (has_state_contradiction item
        \<or> requires_validation_evidence item (str_field item ''item_kind'') (str_field item ''state'')
          \<and> \<not> (\<exists>b \<in> set (validation_evidence_bindings item).
                 \<forall>ctx. c = Some ctx \<longrightarrow> revision_evidence_status b ctx = ''current''))"
proof -
  have "signals = List.map_filter (item_signal c) rows"
    using assms(1-3) by (simp add: generate_logic_validation_signals_def)
  then have mem: "item_signal c item = Some s \<Longrightarrow> s \<in> set signals" for s
    using assms(4) by (force simp: List.map_filter_def)
  show ?thesis unfolding item_signal_blocking [symmetric] using mem item_signal_id by metis
qed

definition ex_signals_session :: pydict where
  "ex_signals_session =
     [(''items'', PDict [(''a'', PDict [(''item_id'', PStr ''a''), (''item_kind'', PStr ''local_finding''),
                                     (''state'', PStr ''fixed''), (''validation_commands'', PStr ''pytest=failed'')])])]"

theorem blocking_signal_iff_witness:
  "\<exists>s \<in> set (projr (generate_logic_validation_signals ex_signals_session)). ls_gate_effect s = ''blocking''"
proof -
  define item where "item = [(''item_id'', PStr ''a''), (''item_kind'', PStr ''local_finding''),
                                     (''state'', PStr ''fixed''), (''validation_commands'', PStr ''pytest=failed'')]"
  have g: "generate_logic_validation_signals ex_signals_session
      = Inr (projr (generate_logic_validation_signals ex_signals_session))" by code_simp
  have c: "current_stack_context ex_signals_session = Inr None" by code_simp
  have r: "session_rows ex_signals_session = Inr [item]"
    unfolding item_def by code_simp
  have "str_field item ''item_id'' \<noteq> []" "validation_evidence_bindings item = []"
    "requires_validation_evidence item (str_field item ''item_kind'') (str_field item ''state'')"
    unfolding item_def by code_simp+
  then show ?thesis using blocking_signal_iff [OF g c r, of item] by auto
qed

end
