(* ===== verification/Final_Gate.thy ===== *)
theory Final_Gate
  imports Validation_Evidence "HOL-Library.Multiset"
begin

text \<open>
  The final gate (\<open>core/runtime_kernel/final_gate.py\<close>): the facts adapted from a session and
  the observed remote state, their ordering, their projection to the counted problem sets,
  and the policy decision. The observation time of a fact is kept as the instant it denotes;
  facts replayed from JSON (\<open>RuntimeFact.from_dict\<close> on a dictionary) are not modelled, only
  the fact objects the adapter makes.
\<close>

section \<open>Facts\<close>

datatype fact_kind =
    REVIEW_THREAD_OBSERVED
  | LOCAL_ITEM_OBSERVED
  | PENDING_REVIEW_OBSERVED
  | CHECK_RUN_OBSERVED
  | LOGIC_VALIDATION_OBSERVED

record runtime_fact =
  f_kind :: fact_kind
  f_id :: string
  f_observed_at :: int
  f_sequence :: int
  f_payload :: pydict

text \<open>The ordering key: instant, sequence, id, compared in this order.\<close>

datatype fact_key = FactKey int int string

fun key_tuple :: "fact_key \<Rightarrow> int \<times> int \<times> string" where
  "key_tuple (FactKey t s i) = (t, s, i)"

fun key_less :: "fact_key \<Rightarrow> fact_key \<Rightarrow> bool" where
  "key_less (FactKey t s i) (FactKey t' s' i') \<longleftrightarrow> t < t' \<or> (t = t' \<and> (s < s' \<or> (s = s' \<and> i < i')))"

instantiation fact_key :: linorder
begin

definition less_fact_key :: "fact_key \<Rightarrow> fact_key \<Rightarrow> bool" where
  "less_fact_key a b = key_less a b"

definition less_eq_fact_key :: "fact_key \<Rightarrow> fact_key \<Rightarrow> bool" where
  "less_eq_fact_key a b = (key_less a b \<or> a = b)"

instance
proof
  fix x y z :: fact_key
  show "x < y \<longleftrightarrow> x \<le> y \<and> \<not> y \<le> x"
    by (cases x; cases y) (auto simp: less_fact_key_def less_eq_fact_key_def)
  show "x \<le> x" by (simp add: less_eq_fact_key_def)
  show "x \<le> y \<Longrightarrow> y \<le> z \<Longrightarrow> x \<le> z"
    by (cases x; cases y; cases z) (auto simp: less_eq_fact_key_def)
  show "x \<le> y \<Longrightarrow> y \<le> x \<Longrightarrow> x = y"
    by (cases x; cases y) (auto simp: less_eq_fact_key_def)
  show "x \<le> y \<or> y \<le> x"
    by (cases x; cases y) (auto simp: less_eq_fact_key_def)
qed

end

definition fact_sort_key :: "runtime_fact \<Rightarrow> fact_key" where
  "fact_sort_key f = FactKey (f_observed_at f) (f_sequence f) (f_id f)"

fun duplicate_fact :: "fact_key set \<Rightarrow> runtime_fact list \<Rightarrow> runtime_fact option" where
  "duplicate_fact seen [] = None"
| "duplicate_fact seen (f # fs) =
     (if fact_sort_key f \<in> seen then Some f else duplicate_fact (insert (fact_sort_key f) seen) fs)"

definition sort_runtime_facts :: "runtime_fact list \<Rightarrow> py_exn + runtime_fact list" where
  "sort_runtime_facts facts =
     (case duplicate_fact {} facts of
        Some f \<Rightarrow> Inl (ValueError (''duplicate runtime fact ordering key: '' @ f_id f))
      | None \<Rightarrow> Inr (sort_key fact_sort_key facts))"

section \<open>Field readers\<close>

definition item_id_of :: "pydict \<Rightarrow> string option" where
  "item_id_of item = (if truthy (dget item ''item_id'') then Some (py_str (dget item ''item_id'')) else None)"

definition or_field :: "pydict \<Rightarrow> string \<Rightarrow> string \<Rightarrow> string" where
  "or_field d k k' = py_str (py_or (py_or (dget d k) (dget d k')) (PStr []))"

definition item_kind_of :: "pydict \<Rightarrow> string" where
  "item_kind_of item = py_lower (or_field item ''item_kind'' ''kind'')"

definition state_of :: "pydict \<Rightarrow> string" where
  "state_of item = py_lower (or_field item ''state'' ''status'')"

definition thread_identifier :: "pydict \<Rightarrow> string option" where
  "thread_identifier row =
     (case find truthy (map (dget row) [''thread_id'', ''remote_thread_id'', ''github_thread_id'', ''id'', ''node_id'']) of
        Some v \<Rightarrow> Some (py_str v)
      | None \<Rightarrow>
          (case dget row ''item_id'' of
             PStr i \<Rightarrow> if startswith i ''github-thread:'' then Some (drop 14 i) else None
           | _ \<Rightarrow> None))"

text \<open>The identifier when it is not empty, as in the code's truth tests on it.\<close>

definition thread_key :: "pydict \<Rightarrow> string option" where
  "thread_key row = (case thread_identifier row of Some (c # cs) \<Rightarrow> Some (c # cs) | _ \<Rightarrow> None)"

definition has_content :: "pyval \<Rightarrow> bool" where
  "has_content v = (case v of PStr s \<Rightarrow> py_strip s \<noteq> [] | _ \<Rightarrow> truthy v)"

definition string_or_none :: "pyval \<Rightarrow> string option" where
  "string_or_none v = (if v = PNone \<or> py_str v = [] then None else Some (py_str v))"

section \<open>Adapting the inputs to facts\<close>

definition append_fact :: "fact_kind \<Rightarrow> string \<Rightarrow> pydict \<Rightarrow> runtime_fact list \<Rightarrow> runtime_fact list" where
  "append_fact kind fact_id payload facts =
     facts @ [\<lparr>f_kind = kind, f_id = fact_id, f_observed_at = 0, f_sequence = int (length facts), f_payload = payload\<rparr>]"

definition given :: "string option \<Rightarrow> bool" where
  "given x \<longleftrightarrow> x \<noteq> None \<and> x \<noteq> Some []"

definition default_login :: "string option \<Rightarrow> pydict \<Rightarrow> pydict" where
  "default_login login payload = (if given login then dsetdefault ''current_login'' (PStr (the login)) payload else payload)"

definition item_payload :: "string option \<Rightarrow> pydict \<Rightarrow> pydict" where
  "item_payload login item = default_login login (dset ''source_scope'' (PStr ''session_item'') item)"

definition add_session_item :: "string option \<Rightarrow> pydict \<Rightarrow> runtime_fact list \<Rightarrow> runtime_fact list" where
  "add_session_item login item facts =
     (let item_id = (case item_id_of item of
              Some (c # cs) \<Rightarrow> c # cs | _ \<Rightarrow> ''session-item-'' @ int_dec (int (length facts)))
      in if item_kind_of item = ''github_thread''
         then append_fact REVIEW_THREAD_OBSERVED (''session-github-item:'' @ item_id) (item_payload login item) facts
         else if item_kind_of item = ''local_finding''
         then append_fact LOCAL_ITEM_OBSERVED (''session-local-item:'' @ item_id) (item_payload login item) facts
         else facts)"

definition remote_thread_id :: "nat \<Rightarrow> pydict \<Rightarrow> string" where
  "remote_thread_id index thread =
     (case thread_key thread of Some i \<Rightarrow> i | None \<Rightarrow> ''remote-row-'' @ int_dec (int index))"

definition remote_payload :: "nat \<Rightarrow> pydict \<Rightarrow> pydict" where
  "remote_payload index thread =
     dset ''source_scope'' (PStr ''remote_thread'')
       (dset ''item_id'' (PStr (''github-thread:'' @ remote_thread_id index thread))
         (dset ''thread_id'' (PStr (remote_thread_id index thread)) thread))"

definition add_remote_thread :: "nat \<times> pydict \<Rightarrow> runtime_fact list \<Rightarrow> runtime_fact list" where
  "add_remote_thread it facts =
     append_fact REVIEW_THREAD_OBSERVED
       (''remote-thread:'' @ remote_thread_id (fst it) (snd it) @ '':'' @ int_dec (int (fst it)))
       (remote_payload (fst it) (snd it)) facts"

definition add_pending_review :: "string option \<Rightarrow> nat \<times> pydict \<Rightarrow> runtime_fact list \<Rightarrow> runtime_fact list" where
  "add_pending_review login it facts =
     (let payload = default_login login (snd it);
          review_id = py_or (py_or (dget payload ''id'') (dget payload ''node_id''))
                        (PStr (''pending-review-'' @ int_dec (int (fst it))))
      in append_fact PENDING_REVIEW_OBSERVED
           (''pending-review:'' @ py_str review_id @ '':'' @ int_dec (int (fst it))) payload facts)"

definition check_payload :: "string option \<Rightarrow> pydict \<Rightarrow> pydict" where
  "check_payload requirement check =
     (if given requirement then dsetdefault ''check_requirement'' (PStr (the requirement)) check else check)"

definition add_check_run :: "string option \<Rightarrow> nat \<times> pydict \<Rightarrow> runtime_fact list \<Rightarrow> runtime_fact list" where
  "add_check_run requirement it facts =
     (let payload = check_payload requirement (snd it);
          check_id = py_or (py_or (py_or (dget payload ''id'') (dget payload ''name'')) (dget payload ''context''))
                       (PStr (''check-run-'' @ int_dec (int (fst it))))
      in append_fact CHECK_RUN_OBSERVED (''check-run:'' @ py_str check_id @ '':'' @ int_dec (int (fst it))) payload facts)"

definition add_logic_signal :: "nat \<times> pydict \<Rightarrow> runtime_fact list \<Rightarrow> runtime_fact list" where
  "add_logic_signal it facts =
     (let signal_id = py_or (py_or (dget (snd it) ''signal_type'') (dget (snd it) ''item_id''))
                        (PStr (''logic-signal-'' @ int_dec (int (fst it))))
      in append_fact LOGIC_VALIDATION_OBSERVED
           (''logic-validation:'' @ py_str signal_id @ '':'' @ int_dec (int (fst it))) (snd it) facts)"

record gate_inputs =
  gi_remote_threads :: "pydict list"
  gi_pending_reviews :: "pydict list"
  gi_current_login :: "string option"
  gi_check_runs :: "pydict list"
  gi_check_requirement :: "string option"
  gi_logic_signals :: "pydict list"

definition build_final_gate_facts :: "pydict \<Rightarrow> gate_inputs \<Rightarrow> py_exn + runtime_fact list" where
  "build_final_gate_facts session g =
     (case session_rows session of
        Inl e \<Rightarrow> Inl e
      | Inr items \<Rightarrow>
          Inr (fold add_logic_signal (List.enumerate 0 (gi_logic_signals g))
            (fold (add_check_run (gi_check_requirement g)) (List.enumerate 0 (gi_check_runs g))
              (fold (add_pending_review (gi_current_login g)) (List.enumerate 0 (gi_pending_reviews g))
                (fold add_remote_thread (List.enumerate 0 (gi_remote_threads g))
                  (fold (add_session_item (gi_current_login g)) items []))))))"

section \<open>Classifying the rows\<close>

definition remote_by_id :: "pydict list \<Rightarrow> (string \<times> pydict) list" where
  "remote_by_id rows =
     fold (\<lambda>t m. case thread_key t of None \<Rightarrow> m | Some i \<Rightarrow> AList.update i t m) rows []"

definition github_thread_requires_reply_evidence :: "pydict \<Rightarrow> (string \<times> pydict) list \<Rightarrow> bool" where
  "github_thread_requires_reply_evidence item remote =
     (case Option.bind (thread_key item) (map_of remote) of
        Some t \<Rightarrow> is_resolved_github_thread t
      | None \<Rightarrow> is_terminal_github_thread item)"

definition has_runtime_reply_expectation :: "pydict \<Rightarrow> bool" where
  "has_runtime_reply_expectation item \<longleftrightarrow>
     truthy (dget item ''reply_posted'') \<or> has_content (dget item ''reply_url'')
     \<or> is_dict (dget item ''reply_evidence'') \<or> is_dict (dget item ''accepted_response'')
     \<or> has_content (dget item ''publish_resolution'') \<or> is_dict (dget item ''classification_evidence'')
     \<or> has_content (dget item ''decision'')"

definition is_non_blocking_historical_reply_gap :: "pydict \<Rightarrow> pydict option \<Rightarrow> bool" where
  "is_non_blocking_historical_reply_gap item remote_thread =
     (if \<not> truthy (dget item ''historical_remote_only'') then False
      else case remote_thread of
             None \<Rightarrow> False
           | Some t \<Rightarrow>
               if \<not> is_resolved_github_thread t then False
               else if \<not> is_terminal_github_thread item then False
               else \<not> has_runtime_reply_expectation item)"

record reply_detail =
  rd_item_id :: "string option"
  rd_thread_id :: "string option"
  rd_state :: string
  rd_reason_code :: string
  rd_recoverability :: string

definition reply_evidence_detail :: "pydict \<Rightarrow> (string \<times> pydict) list \<Rightarrow> reply_detail" where
  "reply_evidence_detail item remote =
     (let thread_id = thread_identifier item;
          remote_thread = map_of remote (case thread_id of None \<Rightarrow> [] | Some i \<Rightarrow> i);
          gap = is_non_blocking_historical_reply_gap item remote_thread
      in \<lparr>rd_item_id = item_id_of item, rd_thread_id = thread_id, rd_state = state_of item,
          rd_reason_code = (if gap then ''CLOSED_HISTORICAL_ITEM'' else ''FINAL_GATE_MISSING_REPLY_EVIDENCE''),
          rd_recoverability = (if gap then ''non_blocking'' else ''reconcile'')\<rparr>)"

definition login_matches :: "pyval \<Rightarrow> string option \<Rightarrow> bool" where
  "login_matches author login = (if \<not> given login \<or> \<not> truthy author then True else py_str author = the login)"

definition has_reply_evidence :: "pydict \<Rightarrow> string option \<Rightarrow> bool" where
  "has_reply_evidence item login =
     (case dget item ''reply_evidence'' of
        PDict e \<Rightarrow>
          (let url = py_or (py_or (dget e ''reply_url'') (dget e ''url'')) (dget e ''external_url'');
               direct = py_or (dget e ''author_login'') (dget e ''login'');
               author = (case dget e ''author'' of
                           PDict a \<Rightarrow> if truthy direct then direct else dget a ''login'' | _ \<Rightarrow> direct)
           in truthy url \<and> login_matches author login)
      | _ \<Rightarrow>
          truthy (py_or (dget item ''reply_url'') (dget item ''reply_evidence_url''))
          \<and> truthy (dget_default item ''reply_posted'' (PBool True))
          \<and> login_matches (dget item ''reply_author_login'') login)"

definition review_login :: "pydict \<Rightarrow> string option" where
  "review_login review =
     (if truthy (dget review ''author_login'') then Some (py_str (dget review ''author_login''))
      else if truthy (nested_get (dget review ''user'') ''login'')
      then Some (py_str (nested_get (dget review ''user'') ''login''))
      else if truthy (nested_get (dget review ''author'') ''login'')
      then Some (py_str (nested_get (dget review ''author'') ''login''))
      else if truthy (dget review ''login'') then Some (py_str (dget review ''login''))
      else None)"

definition is_current_login_pending_review :: "pydict \<Rightarrow> string option \<Rightarrow> bool" where
  "is_current_login_pending_review review login =
     (if py_upper (str_field review ''state'') \<noteq> ''PENDING'' then False
      else if \<not> given login then True
      else review_login review = login)"

definition check_bucket :: "pydict \<Rightarrow> string" where
  "check_bucket check =
     (let bucket = py_lower (stripped_field check ''bucket'');
          state = py_lower (stripped_field check ''state'')
      in if bucket \<in> {''pass'', ''pending'', ''fail'', ''skipping'', ''cancel''} then bucket
         else if state \<in> {''success'', ''passed'', ''completed''} then ''pass''
         else if state \<in> {''queued'', ''pending'', ''in_progress'', ''requested'', ''waiting''} then ''pending''
         else if state \<in> {''failure'', ''failed'', ''error'', ''timed_out'', ''action_required''} then ''fail''
         else if state \<in> {''cancelled'', ''canceled'', ''neutral''} then ''cancel''
         else if state \<in> {''skipped'', ''skipping''} then ''skipping''
         else ''unknown'')"

definition is_local_blocking :: "pydict \<Rightarrow> bool" where
  "is_local_blocking item =
     (if has_key item ''blocking'' then truthy (dget item ''blocking'') else state_of item \<notin> set LOCAL_TERMINAL_STATES)"

definition is_blocking_item :: "pydict \<Rightarrow> bool" where
  "is_blocking_item item =
     (if item_kind_of item = ''local_finding'' then is_local_blocking item else truthy (dget item ''blocking''))"

definition is_terminal_local_item :: "pydict \<Rightarrow> bool" where
  "is_terminal_local_item item \<longleftrightarrow> state_of item \<in> set LOCAL_TERMINAL_STATES"

definition gate_has_validation_evidence :: "pydict \<Rightarrow> bool" where
  "gate_has_validation_evidence item =
     (if list_ex (\<lambda>k. validation_evidence_has_success (dget item k)) evidence_keys then True
      else case dget item ''evidence'' of
             PDict e \<Rightarrow> validation_evidence_has_success (dget e ''validation'')
                         \<or> validation_evidence_has_success (dget e ''validation_evidence'')
           | _ \<Rightarrow> has_content (dget item ''resolution_note'')
                  \<and> lower_field item ''decision'' \<in> {''accept'', ''manual'', ''sync''})"

section \<open>Projection\<close>

record gate_projection =
  p_counts :: "(string \<times> nat) list"
  p_unresolved_remote_threads :: "pydict list"
  p_missing_reply_items :: "reply_detail list"
  p_historical_reply_items :: "reply_detail list"
  p_blocking_github_items :: "pydict list"
  p_blocking_local_items :: "pydict list"
  p_missing_validation_items :: "pydict list"
  p_pending_current_login_reviews :: "pydict list"
  p_failed_checks :: "pydict list"
  p_pending_checks :: "pydict list"
  p_logic_signals :: "pydict list"
  p_blocking_logic_signals :: "pydict list"
  p_advisory_logic_signals :: "pydict list"

definition is_remote_row :: "runtime_fact \<Rightarrow> bool" where
  "is_remote_row f \<longleftrightarrow> f_kind f = REVIEW_THREAD_OBSERVED \<and> dget (f_payload f) ''source_scope'' = PStr ''remote_thread''"

definition is_github_row :: "runtime_fact \<Rightarrow> bool" where
  "is_github_row f \<longleftrightarrow> f_kind f = REVIEW_THREAD_OBSERVED \<and> \<not> is_remote_row f \<and> item_kind_of (f_payload f) = ''github_thread''"

definition rows_where :: "(runtime_fact \<Rightarrow> bool) \<Rightarrow> runtime_fact list \<Rightarrow> pydict list" where
  "rows_where P facts = map f_payload (filter P facts)"

definition rows_of :: "fact_kind \<Rightarrow> runtime_fact list \<Rightarrow> pydict list" where
  "rows_of k facts = rows_where (\<lambda>f. f_kind f = k) facts"

fun effective_requirement :: "string option \<Rightarrow> pydict list \<Rightarrow> string option" where
  "effective_requirement req [] = req"
| "effective_requirement req (check # cs) =
     effective_requirement (if given req then req else string_or_none (dget check ''check_requirement'')) cs"

definition project_rows ::
    "string option \<Rightarrow> string option \<Rightarrow> pydict list \<Rightarrow> pydict list \<Rightarrow> pydict list \<Rightarrow> pydict list \<Rightarrow> pydict list
       \<Rightarrow> pydict list \<Rightarrow> gate_projection" where
  "project_rows login requirement github_items local_items remote_rows review_rows check_rows signals =
     (let remote = remote_by_id remote_rows;
          unresolved = filter (\<lambda>t. \<not> is_resolved_github_thread t) remote_rows;
          pending = filter (\<lambda>r. is_current_login_pending_review r login) review_rows;
          failed = filter (\<lambda>c. check_bucket c \<in> {''fail'', ''cancel'', ''unknown''}) check_rows;
          waiting = filter (\<lambda>c. check_bucket c = ''pending'') check_rows;
          blocking_local = filter is_local_blocking local_items;
          blocking_github = filter is_blocking_item github_items;
          blocking = filter is_blocking_item (github_items @ local_items);
          details = map (\<lambda>i. reply_evidence_detail i remote)
                      (filter (\<lambda>i. github_thread_requires_reply_evidence i remote \<and> \<not> has_reply_evidence i login) github_items);
          missing_reply = filter (\<lambda>d. rd_recoverability d \<noteq> ''non_blocking'') details;
          historical = filter (\<lambda>d. rd_recoverability d = ''non_blocking'') details;
          missing_validation = filter (\<lambda>i. is_terminal_local_item i \<and> \<not> gate_has_validation_evidence i) local_items;
          blocking_signals = filter (\<lambda>s. dget s ''gate_effect'' = PStr ''blocking'') signals;
          advisory_signals = filter (\<lambda>s. dget s ''gate_effect'' = PStr ''advisory'') signals;
          required = given requirement
      in \<lparr>p_counts =
            [(''unresolved_github_threads_count'', length unresolved),
             (''pending_review_count'', length pending),
             (''blocking_items_count'', length blocking),
             (''blocking_github_items_count'', length blocking_github),
             (''github_threads_missing_reply_count'', length missing_reply),
             (''missing_validation_evidence_count'', length missing_validation),
             (''blocking_local_items_count'', length blocking_local),
             (''pending_current_login_review_count'', length pending),
             (''unresolved_remote_threads_count'', length unresolved),
             (''pr_checks_count'', length check_rows),
             (''pr_checks_failed_count'', length failed),
             (''pr_checks_pending_count'', length waiting),
             (''pr_checks_not_green_count'', if required then length failed + length waiting else 0),
             (''logic_validation_blocking_count'', length blocking_signals),
             (''logic_validation_advisory_count'', length advisory_signals),
             (''pr_checks_missing_count'', if required \<and> check_rows = [] then 1 else 0)],
          p_unresolved_remote_threads = unresolved, p_missing_reply_items = missing_reply,
          p_historical_reply_items = historical, p_blocking_github_items = blocking_github,
          p_blocking_local_items = blocking_local, p_missing_validation_items = missing_validation,
          p_pending_current_login_reviews = pending, p_failed_checks = failed, p_pending_checks = waiting,
          p_logic_signals = signals, p_blocking_logic_signals = blocking_signals,
          p_advisory_logic_signals = advisory_signals\<rparr>)"

definition project_sorted :: "string option \<Rightarrow> string option \<Rightarrow> runtime_fact list \<Rightarrow> gate_projection" where
  "project_sorted login requirement facts =
     project_rows login (effective_requirement requirement (rows_of CHECK_RUN_OBSERVED facts))
       (rows_where is_github_row facts) (rows_of LOCAL_ITEM_OBSERVED facts) (rows_where is_remote_row facts)
       (rows_of PENDING_REVIEW_OBSERVED facts) (rows_of CHECK_RUN_OBSERVED facts)
       (rows_of LOGIC_VALIDATION_OBSERVED facts)"

definition project_final_gate ::
    "string option \<Rightarrow> string option \<Rightarrow> runtime_fact list \<Rightarrow> py_exn + gate_projection" where
  "project_final_gate login requirement facts =
     (case sort_runtime_facts facts of
        Inl e \<Rightarrow> Inl e
      | Inr sorted_facts \<Rightarrow> Inr (project_sorted login requirement sorted_facts))"

section \<open>Policy\<close>

definition FAILURE_ORDER :: "(string \<times> string \<times> string) list" where
  "FAILURE_ORDER =
     [(''FINAL_GATE_UNRESOLVED_REMOTE_THREADS'', ''unresolved_remote_threads_count'', ''remote_threads''),
      (''FINAL_GATE_MISSING_REPLY_EVIDENCE'', ''github_threads_missing_reply_count'', ''reply_evidence''),
      (''FINAL_GATE_PENDING_CURRENT_LOGIN_REVIEW'', ''pending_current_login_review_count'', ''pending_review''),
      (''FINAL_GATE_BLOCKING_GITHUB_ITEMS'', ''blocking_github_items_count'', ''github_items''),
      (''FINAL_GATE_BLOCKING_LOCAL_ITEMS'', ''blocking_local_items_count'', ''local_items''),
      (''FINAL_GATE_MISSING_VALIDATION_EVIDENCE'', ''missing_validation_evidence_count'', ''validation_evidence''),
      (''FINAL_GATE_LOGIC_VALIDATION_BLOCKING'', ''logic_validation_blocking_count'', ''logic_validation''),
      (''FINAL_GATE_PR_CHECKS_NOT_GREEN'', ''pr_checks_not_green_count'', ''checks''),
      (''FINAL_GATE_REQUIRED_CHECKS_MISSING'', ''pr_checks_missing_count'', ''checks'')]"

definition count_of :: "gate_projection \<Rightarrow> string \<Rightarrow> nat" where
  "count_of p k = (case map_of (p_counts p) k of None \<Rightarrow> 0 | Some n \<Rightarrow> n)"

definition revision_signal_types :: "gate_projection \<Rightarrow> string list" where
  "revision_signal_types p = map (\<lambda>s. str_field s ''signal_type'') (p_blocking_logic_signals p)"

definition codes_of_entry :: "gate_projection \<Rightarrow> string \<times> string \<times> string \<Rightarrow> string list" where
  "codes_of_entry p entry =
     (case entry of
        (code, count_key, waiting) \<Rightarrow>
          if count_of p count_key = 0 then []
          else if code = ''FINAL_GATE_LOGIC_VALIDATION_BLOCKING''
          then (if ''stale_revision_evidence'' \<in> set (revision_signal_types p)
                then [''FINAL_GATE_STALE_REVISION_EVIDENCE''] else [])
               @ (if ''unbound_revision_evidence'' \<in> set (revision_signal_types p)
                  then [''FINAL_GATE_UNBOUND_REVISION_EVIDENCE''] else [])
               @ (if \<exists>t \<in> set (revision_signal_types p). t \<notin> {''stale_revision_evidence'', ''unbound_revision_evidence''}
                  then [code] else [])
          else [code])"

record gate_decision =
  gd_failure_codes :: "string list"
  gd_reason_code :: "string option"
  gd_waiting_on :: "string option"

definition waiting_on_code :: "string \<Rightarrow> string" where
  "waiting_on_code reason =
     (case find (\<lambda>(code, _, _). code = reason) FAILURE_ORDER of
        Some (_, _, waiting) \<Rightarrow> waiting
      | None \<Rightarrow> if reason \<in> {''FINAL_GATE_STALE_REVISION_EVIDENCE'', ''FINAL_GATE_UNBOUND_REVISION_EVIDENCE''}
                then ''validation_evidence'' else ''final_gate'')"

definition evaluate_final_gate_policy :: "gate_projection \<Rightarrow> gate_decision" where
  "evaluate_final_gate_policy p =
     (let codes = concat (map (codes_of_entry p) FAILURE_ORDER)
      in \<lparr>gd_failure_codes = codes,
          gd_reason_code = (case codes of [] \<Rightarrow> None | c # _ \<Rightarrow> Some c),
          gd_waiting_on = (case codes of [] \<Rightarrow> None | c # _ \<Rightarrow> Some (waiting_on_code c))\<rparr>)"

section \<open>Sorting by a key\<close>

text \<open>
  The interface of a sort by key: a permutation of its input, ordered by the key. The
  clients below need only this, and the gate's sort of facts provides it.
\<close>

locale keyed_sorter =
  fixes key :: "'a \<Rightarrow> 'k::linorder" and srt :: "'a list \<Rightarrow> 'a list"
  assumes perm: "mset (srt xs) = mset xs"
    and ordered: "sorted (map key (srt xs))"
begin

lemma set_srt: "set (srt xs) = set xs"
  using perm by (metis set_mset_mset)

lemma keys_determined: "mset xs = mset ys \<Longrightarrow> map key (srt xs) = map key (srt ys)"
  by (metis mset_map ordered perm properties_for_sort)

lemma determined:
  assumes "mset xs = mset ys" "distinct (map key xs)"
  shows "srt xs = srt ys"
proof -
  have "inj_on key (set (srt xs) \<union> set (srt ys))"
    using assms by (metis distinct_map set_srt set_mset_mset sup.idem)
  then show ?thesis using keys_determined [OF assms(1)] by (rule map_inj_on [rotated])
qed

lemma unchanged:
  assumes "sorted (map key xs)" "distinct (map key xs)"
  shows "srt xs = xs"
proof -
  have "map key (srt xs) = map key xs"
    using assms(1) by (metis mset_map ordered perm properties_for_sort)
  moreover have "inj_on key (set (srt xs) \<union> set xs)" using assms(2) by (simp add: set_srt distinct_map)
  ultimately show ?thesis using map_inj_on by blast
qed

end

interpretation facts: keyed_sorter fact_sort_key "sort_key fact_sort_key"
  by unfold_locales simp_all

lemma duplicate_fact_None:
  "duplicate_fact seen fs = None \<longleftrightarrow> distinct (map fact_sort_key fs) \<and> fact_sort_key ` set fs \<inter> seen = {}"
  by (induction fs arbitrary: seen) auto

lemma sort_runtime_facts_eq:
  "distinct (map fact_sort_key fs) \<Longrightarrow> sort_runtime_facts fs = Inr (sort_key fact_sort_key fs)"
  "\<not> distinct (map fact_sort_key fs) \<Longrightarrow> isl (sort_runtime_facts fs)"
proof -
  assume "distinct (map fact_sort_key fs)"
  then have "duplicate_fact {} fs = None" by (simp add: duplicate_fact_None)
  then show "sort_runtime_facts fs = Inr (sort_key fact_sort_key fs)" by (simp add: sort_runtime_facts_def)
next
  assume "\<not> distinct (map fact_sort_key fs)"
  then have "duplicate_fact {} fs \<noteq> None" by (simp add: duplicate_fact_None)
  then show "isl (sort_runtime_facts fs)" by (auto simp: sort_runtime_facts_def)
qed

section \<open>The facts the adapter makes\<close>

text \<open>Facts in the order they were appended.\<close>

definition appended :: "runtime_fact list \<Rightarrow> bool" where
  "appended fs \<longleftrightarrow> (\<forall>i < length fs. f_sequence (fs ! i) = int i \<and> f_observed_at (fs ! i) = 0)"

lemma appended_append [simp]: "appended fs \<Longrightarrow> appended (append_fact k i p fs)"
  by (auto simp: appended_def append_fact_def nth_append less_Suc_eq)

lemma appended_fold: "(\<And>x fs. appended fs \<Longrightarrow> appended (f x fs)) \<Longrightarrow> appended fs \<Longrightarrow> appended (fold f xs fs)"
  by (induction xs arbitrary: fs) auto

lemma appended_add:
  "appended fs \<Longrightarrow> appended (add_session_item login item fs)" "appended fs \<Longrightarrow> appended (add_remote_thread it fs)"
  "appended fs \<Longrightarrow> appended (add_pending_review login it fs)" "appended fs \<Longrightarrow> appended (add_check_run req it fs)"
  "appended fs \<Longrightarrow> appended (add_logic_signal it fs)"
  by (simp_all add: add_session_item_def add_remote_thread_def add_pending_review_def add_check_run_def
      add_logic_signal_def Let_def)

lemma built_appended: "build_final_gate_facts session g = Inr facts \<Longrightarrow> appended facts"
  by (auto simp: build_final_gate_facts_def appended_def [of "[]"] split: sum.splits
      intro!: appended_fold appended_add)

lemma appended_keys:
  assumes "appended fs"
  shows "sorted (map fact_sort_key fs)" "distinct (map fact_sort_key fs)"
proof -
  have lt: "fact_sort_key (fs ! i) < fact_sort_key (fs ! j)" if "i < j" "j < length fs" for i j
    using assms that by (simp add: appended_def fact_sort_key_def less_fact_key_def)
  then show "sorted (map fact_sort_key fs)"
    by (simp add: sorted_wrt_map sorted_wrt_iff_nth_less less_imp_le)
  show "distinct (map fact_sort_key fs)"
    unfolding distinct_conv_nth
  proof (intro allI impI)
    fix i j assume "i < length (map fact_sort_key fs)" "j < length (map fact_sort_key fs)" "i \<noteq> j"
    then show "map fact_sort_key fs ! i \<noteq> map fact_sort_key fs ! j"
      using lt [of i j] lt [of j i] by (cases "i < j") auto
  qed
qed

lemma built_projects:
  assumes "build_final_gate_facts session g = Inr facts"
  shows "project_final_gate login req facts = Inr (project_sorted login req facts)"
  using appended_keys [OF built_appended [OF assms]]
  by (simp add: project_final_gate_def sort_runtime_facts_eq facts.unchanged)

text \<open>The rows a projection reads back from appended facts, for a test on kind and payload.\<close>

definition rows_q :: "(fact_kind \<Rightarrow> pydict \<Rightarrow> bool) \<Rightarrow> runtime_fact list \<Rightarrow> pydict list" where
  "rows_q Q fs = rows_where (\<lambda>f. Q (f_kind f) (f_payload f)) fs"

definition keep :: "(fact_kind \<Rightarrow> pydict \<Rightarrow> bool) \<Rightarrow> fact_kind \<Rightarrow> pydict list \<Rightarrow> pydict list" where
  "keep Q k ps = filter (Q k) ps"

lemma rows_q_append: "rows_q Q (append_fact k i p fs) = rows_q Q fs @ keep Q k [p]"
  by (simp add: rows_q_def rows_where_def append_fact_def keep_def)

lemma rows_q_fold:
  assumes "\<And>x fs. rows_q Q (g x fs) = rows_q Q fs @ keep Q k [h x]"
  shows "rows_q Q (fold g xs fs) = rows_q Q fs @ keep Q k (map h xs)"
  using assms by (induction xs arbitrary: fs) (auto simp: keep_def)

lemma rows_q_stages:
  "rows_q Q (fold add_logic_signal its fs) = rows_q Q fs @ keep Q LOGIC_VALIDATION_OBSERVED (map snd its)"
  "rows_q Q (fold (add_check_run req) its fs) = rows_q Q fs @ keep Q CHECK_RUN_OBSERVED (map (check_payload req \<circ> snd) its)"
  "rows_q Q (fold (add_pending_review login) its fs)
     = rows_q Q fs @ keep Q PENDING_REVIEW_OBSERVED (map (default_login login \<circ> snd) its)"
  "rows_q Q (fold add_remote_thread its fs)
     = rows_q Q fs @ keep Q REVIEW_THREAD_OBSERVED (map (\<lambda>it. remote_payload (fst it) (snd it)) its)"
  by (rule rows_q_fold,
      simp add: add_remote_thread_def add_pending_review_def add_check_run_def add_logic_signal_def Let_def rows_q_append)+

definition item_kind_fact :: "pydict \<Rightarrow> fact_kind option" where
  "item_kind_fact item =
     (if item_kind_of item = ''github_thread'' then Some REVIEW_THREAD_OBSERVED
      else if item_kind_of item = ''local_finding'' then Some LOCAL_ITEM_OBSERVED else None)"

definition keep_items :: "(fact_kind \<Rightarrow> pydict \<Rightarrow> bool) \<Rightarrow> string option \<Rightarrow> pydict list \<Rightarrow> pydict list" where
  "keep_items Q login items =
     map (item_payload login)
       (filter (\<lambda>i. case item_kind_fact i of None \<Rightarrow> False | Some k \<Rightarrow> Q k (item_payload login i)) items)"

lemma rows_q_items: "rows_q Q (fold (add_session_item login) items fs) = rows_q Q fs @ keep_items Q login items"
  by (induction items arbitrary: fs)
     (auto simp: add_session_item_def Let_def rows_q_append keep_def keep_items_def item_kind_fact_def)

lemma rows_q_built:
  assumes "build_final_gate_facts session g = Inr facts" "session_rows session = Inr items"
  shows "rows_q Q facts =
     keep_items Q (gi_current_login g) items
     @ keep Q REVIEW_THREAD_OBSERVED (map (\<lambda>it. remote_payload (fst it) (snd it)) (List.enumerate 0 (gi_remote_threads g)))
     @ keep Q PENDING_REVIEW_OBSERVED (map (default_login (gi_current_login g)) (gi_pending_reviews g))
     @ keep Q CHECK_RUN_OBSERVED (map (check_payload (gi_check_requirement g)) (gi_check_runs g))
     @ keep Q LOGIC_VALIDATION_OBSERVED (gi_logic_signals g)"
proof -
  have "rows_q Q [] = []" by (simp add: rows_q_def rows_where_def)
  moreover have "map (h \<circ> snd) (List.enumerate 0 xs) = map h xs" for h :: "pydict \<Rightarrow> pydict" and xs
    by (simp only: map_map [symmetric] map_snd_enumerate)
  ultimately show ?thesis
    using assms by (auto simp: build_final_gate_facts_def rows_q_stages rows_q_items)
qed

lemma default_login_get: "k \<noteq> ''current_login'' \<Longrightarrow> dget (default_login login d) k = dget d k"
  by (simp add: default_login_def dget_dsetdefault)

lemma item_payload_get:
  "k \<noteq> ''current_login'' \<Longrightarrow> k \<noteq> ''source_scope'' \<Longrightarrow> dget (item_payload login d) k = dget d k"
  by (simp add: item_payload_def default_login_get)

lemma item_payload_has:
  "k \<noteq> ''current_login'' \<Longrightarrow> k \<noteq> ''source_scope'' \<Longrightarrow> has_key (item_payload login d) k = has_key d k"
  by (simp add: item_payload_def default_login_def dsetdefault_def)

lemma item_payload_scope: "dget (item_payload login d) ''source_scope'' = PStr ''session_item''"
  by (simp add: item_payload_def default_login_get)

lemma remote_payload_scope: "dget (remote_payload i t) ''source_scope'' = PStr ''remote_thread''"
  by (simp add: remote_payload_def)

lemma rows_of_q: "rows_of k = rows_q (\<lambda>k' p. k' = k)"
  by (rule ext) (simp add: rows_of_def rows_q_def)

lemma remote_rows_q:
  "rows_where is_remote_row = rows_q (\<lambda>k p. k = REVIEW_THREAD_OBSERVED \<and> dget p ''source_scope'' = PStr ''remote_thread'')"
  by (rule ext) (simp add: rows_q_def rows_where_def is_remote_row_def [abs_def])

lemmas built_rows_simps = rows_of_q remote_rows_q keep_items_def keep_def item_kind_fact_def item_payload_scope
  remote_payload_scope

text \<open>What each group of rows is, for built facts.\<close>

lemma built_rows:
  assumes "build_final_gate_facts session g = Inr facts" "session_rows session = Inr items"
  shows "rows_where is_remote_row facts
      = map (\<lambda>it. remote_payload (fst it) (snd it)) (List.enumerate 0 (gi_remote_threads g))"
    and "rows_of LOCAL_ITEM_OBSERVED facts
      = map (item_payload (gi_current_login g)) (filter (\<lambda>i. item_kind_of i = ''local_finding'') items)"
    and "rows_of PENDING_REVIEW_OBSERVED facts = map (default_login (gi_current_login g)) (gi_pending_reviews g)"
    and "rows_of CHECK_RUN_OBSERVED facts = map (check_payload (gi_check_requirement g)) (gi_check_runs g)"
    and "rows_of LOGIC_VALIDATION_OBSERVED facts = gi_logic_signals g"
proof -
  note b = rows_q_built [OF assms]
  show "rows_where is_remote_row facts
      = map (\<lambda>it. remote_payload (fst it) (snd it)) (List.enumerate 0 (gi_remote_threads g))"
    unfolding remote_rows_q b by (simp add: built_rows_simps comp_def)
  have "(\<lambda>i. case item_kind_fact i of None \<Rightarrow> False | Some k \<Rightarrow> k = LOCAL_ITEM_OBSERVED)
      = (\<lambda>i. item_kind_of i = ''local_finding'')"
    by (rule ext) (simp add: item_kind_fact_def)
  then show "rows_of LOCAL_ITEM_OBSERVED facts
      = map (item_payload (gi_current_login g)) (filter (\<lambda>i. item_kind_of i = ''local_finding'') items)"
    unfolding rows_of_q b by (simp add: keep_items_def keep_def)
  have none: "keep_items (\<lambda>k' p. k' = k) login items = []" if "k \<noteq> LOCAL_ITEM_OBSERVED" "k \<noteq> REVIEW_THREAD_OBSERVED" for k login
    using that by (auto simp: keep_items_def item_kind_fact_def filter_empty_conv)
  show "rows_of PENDING_REVIEW_OBSERVED facts = map (default_login (gi_current_login g)) (gi_pending_reviews g)"
    "rows_of CHECK_RUN_OBSERVED facts = map (check_payload (gi_check_requirement g)) (gi_check_runs g)"
    "rows_of LOGIC_VALIDATION_OBSERVED facts = gi_logic_signals g"
    unfolding rows_of_q b by (simp_all add: none keep_def)
qed

section \<open>Classification is unchanged by the adapter\<close>

lemma resolved_remote_payload [simp]: "is_resolved_github_thread (remote_payload i t) = is_resolved_github_thread t"
  by (simp add: is_resolved_github_thread_def remote_payload_def normalized_thread_state_def Let_def)

lemma pending_default_login [simp]:
  "is_current_login_pending_review (default_login l r) login = is_current_login_pending_review r login"
  by (simp add: is_current_login_pending_review_def review_login_def str_field_def default_login_get)

lemma bucket_check_payload [simp]: "check_bucket (check_payload req c) = check_bucket c"
  by (simp add: check_bucket_def check_payload_def stripped_field_def str_field_def dget_dsetdefault)

lemma item_payload_fields [simp]:
  "state_of (item_payload l i) = state_of i" "is_local_blocking (item_payload l i) = is_local_blocking i"
  "is_terminal_local_item (item_payload l i) = is_terminal_local_item i"
  by (simp_all add: state_of_def or_field_def is_local_blocking_def is_terminal_local_item_def item_payload_get item_payload_has)

lemma gate_evidence_item_payload [simp]: "gate_has_validation_evidence (item_payload l i) = gate_has_validation_evidence i"
  by (simp add: gate_has_validation_evidence_def evidence_keys_def item_payload_get lower_field_def str_field_def split: pyval.split)

lemma requirement_of_built:
  "given req \<Longrightarrow> effective_requirement req cs = req"
  by (induction cs) auto

section \<open>The decision\<close>

lemma string_keys_distinct: "distinct (map fst (p_counts (project_rows l r a b c d e f)))"
  by (simp add: project_rows_def Let_def)

lemma count_of_project [simp]:
  fixes l r a b c d e f
  defines "p \<equiv> project_rows l r a b c d e f"
  shows "count_of p ''unresolved_remote_threads_count'' = length (p_unresolved_remote_threads p)"
    "count_of p ''github_threads_missing_reply_count'' = length (p_missing_reply_items p)"
    "count_of p ''pending_current_login_review_count'' = length (p_pending_current_login_reviews p)"
    "count_of p ''blocking_github_items_count'' = length (p_blocking_github_items p)"
    "count_of p ''blocking_local_items_count'' = length (p_blocking_local_items p)"
    "count_of p ''missing_validation_evidence_count'' = length (p_missing_validation_items p)"
    "count_of p ''logic_validation_blocking_count'' = length (p_blocking_logic_signals p)"
    "count_of p ''pr_checks_not_green_count'' = (if given r then length (p_failed_checks p) + length (p_pending_checks p) else 0)"
    "count_of p ''pr_checks_missing_count'' = (if given r \<and> e = [] then 1 else 0)"
  unfolding p_def by (simp_all add: count_of_def project_rows_def Let_def)

lemma logic_codes_empty:
  "p_blocking_logic_signals p \<noteq> [] \<Longrightarrow>
     (''stale_revision_evidence'' \<in> set (revision_signal_types p)
      \<or> ''unbound_revision_evidence'' \<in> set (revision_signal_types p)
      \<or> (\<exists>t \<in> set (revision_signal_types p). t \<notin> {''stale_revision_evidence'', ''unbound_revision_evidence''}))"
  by (cases "p_blocking_logic_signals p") (auto simp: revision_signal_types_def)

lemma policy_pass_iff:
  fixes l r a b c d e f
  defines "p \<equiv> project_rows l r a b c d e f"
  shows "gd_failure_codes (evaluate_final_gate_policy p) = [] \<longleftrightarrow>
     p_unresolved_remote_threads p = [] \<and> p_missing_reply_items p = [] \<and> p_pending_current_login_reviews p = []
     \<and> p_blocking_github_items p = [] \<and> p_blocking_local_items p = [] \<and> p_missing_validation_items p = []
     \<and> p_blocking_logic_signals p = []
     \<and> (given r \<longrightarrow> e \<noteq> [] \<and> p_failed_checks p = [] \<and> p_pending_checks p = [])"
proof -
  have logic: "codes_of_entry p (''FINAL_GATE_LOGIC_VALIDATION_BLOCKING'', ''logic_validation_blocking_count'', w) = []
      \<longleftrightarrow> p_blocking_logic_signals p = []" for w
  proof (cases "p_blocking_logic_signals p = []")
    case True
    then show ?thesis by (simp add: codes_of_entry_def count_of_project(7) [of l r a b c d e f, folded p_def])
  next
    case False
    with logic_codes_empty [OF False] show ?thesis
      by (auto simp: codes_of_entry_def count_of_project(7) [of l r a b c d e f, folded p_def])
  qed
  have plain: "codes_of_entry p (code, k, w) = [] \<longleftrightarrow> count_of p k = 0"
    if "code \<noteq> ''FINAL_GATE_LOGIC_VALIDATION_BLOCKING''" for code k w
    using that by (simp add: codes_of_entry_def)
  have "gd_failure_codes (evaluate_final_gate_policy p) = [] \<longleftrightarrow> (\<forall>x \<in> set FAILURE_ORDER. codes_of_entry p x = [])"
    by (simp add: evaluate_final_gate_policy_def Let_def)
  also have "\<dots> \<longleftrightarrow> p_unresolved_remote_threads p = [] \<and> p_missing_reply_items p = []
     \<and> p_pending_current_login_reviews p = []
     \<and> p_blocking_github_items p = [] \<and> p_blocking_local_items p = [] \<and> p_missing_validation_items p = []
     \<and> p_blocking_logic_signals p = []
     \<and> (given r \<longrightarrow> e \<noteq> [] \<and> p_failed_checks p = [] \<and> p_pending_checks p = [])"
    unfolding FAILURE_ORDER_def by (simp add: logic plain) (auto simp: p_def)
  finally show ?thesis .
qed

section \<open>Properties\<close>

lemma project_fields:
  "p_unresolved_remote_threads (project_rows l r a b c d e f) = filter (\<lambda>t. \<not> is_resolved_github_thread t) c"
  "p_pending_current_login_reviews (project_rows l r a b c d e f) = filter (\<lambda>r. is_current_login_pending_review r l) d"
  "p_blocking_local_items (project_rows l r a b c d e f) = filter is_local_blocking b"
  "p_missing_validation_items (project_rows l r a b c d e f)
     = filter (\<lambda>i. is_terminal_local_item i \<and> \<not> gate_has_validation_evidence i) b"
  "p_blocking_logic_signals (project_rows l r a b c d e f) = filter (\<lambda>s. dget s ''gate_effect'' = PStr ''blocking'') f"
  "p_failed_checks (project_rows l r a b c d e f)
     = filter (\<lambda>c. check_bucket c \<in> {''fail'', ''cancel'', ''unknown''}) e"
  "p_pending_checks (project_rows l r a b c d e f) = filter (\<lambda>c. check_bucket c = ''pending'') e"
  by (simp_all add: project_rows_def Let_def)

lemma built_safety:
  assumes build: "build_final_gate_facts session g = Inr facts" and items: "session_rows session = Inr items"
    and pass: "gd_failure_codes (evaluate_final_gate_policy
        (project_sorted (gi_current_login g) (gi_check_requirement g) facts)) = []"
  shows "list_all is_resolved_github_thread (gi_remote_threads g)"
    and "list_all (\<lambda>r. \<not> is_current_login_pending_review r (gi_current_login g)) (gi_pending_reviews g)"
    and "list_all (\<lambda>i. item_kind_of i = ''local_finding'' \<longrightarrow>
           \<not> is_local_blocking i \<and> (is_terminal_local_item i \<longrightarrow> gate_has_validation_evidence i)) items"
    and "list_all (\<lambda>s. dget s ''gate_effect'' \<noteq> PStr ''blocking'') (gi_logic_signals g)"
    and "given (gi_check_requirement g) \<longrightarrow> gi_check_runs g \<noteq> []
           \<and> list_all (\<lambda>c. check_bucket c \<in> {''pass'', ''skipping''}) (gi_check_runs g)"
proof -
  note rows = built_rows [OF build items]
  let ?remote = "map (\<lambda>it. remote_payload (fst it) (snd it)) (List.enumerate 0 (gi_remote_threads g))"
  let ?checks = "map (check_payload (gi_check_requirement g)) (gi_check_runs g)"
  let ?req = "effective_requirement (gi_check_requirement g) ?checks"
  note all = pass [unfolded project_sorted_def rows policy_pass_iff project_fields]
  note empty = all [THEN conjunct1] all [THEN conjunct2, THEN conjunct2, THEN conjunct1]
    all [THEN conjunct2, THEN conjunct2, THEN conjunct2, THEN conjunct2, THEN conjunct1]
    all [THEN conjunct2, THEN conjunct2, THEN conjunct2, THEN conjunct2, THEN conjunct2, THEN conjunct1]
    all [THEN conjunct2, THEN conjunct2, THEN conjunct2, THEN conjunct2, THEN conjunct2, THEN conjunct2, THEN conjunct1]
    all [THEN conjunct2, THEN conjunct2, THEN conjunct2, THEN conjunct2, THEN conjunct2, THEN conjunct2, THEN conjunct2]
  have "snd ` set (List.enumerate 0 (gi_remote_threads g)) = set (gi_remote_threads g)"
    by (metis list.set_map map_snd_enumerate)
  then have "t \<in> set (gi_remote_threads g) \<Longrightarrow> \<exists>i. (i, t) \<in> set (List.enumerate 0 (gi_remote_threads g))" for t
    by force
  with empty(1) show "list_all is_resolved_github_thread (gi_remote_threads g)"
    unfolding list_all_iff filter_empty_conv by fastforce
  show "list_all (\<lambda>r. \<not> is_current_login_pending_review r (gi_current_login g)) (gi_pending_reviews g)"
    using empty(2) by (simp add: list_all_iff filter_empty_conv)
  show "list_all (\<lambda>i. item_kind_of i = ''local_finding'' \<longrightarrow>
           \<not> is_local_blocking i \<and> (is_terminal_local_item i \<longrightarrow> gate_has_validation_evidence i)) items"
    using empty(3,4) by (simp add: list_all_iff filter_empty_conv)
  show "list_all (\<lambda>s. dget s ''gate_effect'' \<noteq> PStr ''blocking'') (gi_logic_signals g)"
    using empty(5) by (simp add: list_all_iff filter_empty_conv)
  have bucket: "check_bucket c \<in> {''fail'', ''cancel'', ''unknown'', ''pending'', ''pass'', ''skipping''}" for c
    by (simp add: check_bucket_def Let_def)
  show "given (gi_check_requirement g) \<longrightarrow> gi_check_runs g \<noteq> []
           \<and> list_all (\<lambda>c. check_bucket c \<in> {''pass'', ''skipping''}) (gi_check_runs g)"
  proof
    assume req: "given (gi_check_requirement g)"
    then have "given ?req" by (simp add: requirement_of_built)
    with empty(6) have e: "?checks \<noteq> []" "filter (\<lambda>c. check_bucket c \<in> {''fail'', ''cancel'', ''unknown''}) ?checks = []"
      "filter (\<lambda>c. check_bucket c = ''pending'') ?checks = []" by blast+
    from e(2,3) bucket have "list_all (\<lambda>c. check_bucket c \<in> {''pass'', ''skipping''}) (gi_check_runs g)"
      by (auto simp: list_all_iff filter_empty_conv)
    with e(1) show "gi_check_runs g \<noteq> [] \<and> list_all (\<lambda>c. check_bucket c \<in> {''pass'', ''skipping''}) (gi_check_runs g)"
      by simp
  qed
qed

text \<open>
  C3: the final gate is safe. The facts the adapter makes are always accepted by the
  projection, and when the decision on them has no failure code then every observed remote
  thread is resolved, the current login has no pending review, no local finding blocks and
  every terminal one has successful validation evidence, no logic signal is blocking, and,
  if checks are required, there is at least one and all have passed or been skipped.
\<close>

theorem final_gate_safety:
  assumes "build_final_gate_facts session g = Inr facts" "session_rows session = Inr items"
  shows "\<exists>p. project_final_gate (gi_current_login g) (gi_check_requirement g) facts = Inr p
    \<and> (gd_failure_codes (evaluate_final_gate_policy p) = [] \<longrightarrow>
         list_all is_resolved_github_thread (gi_remote_threads g)
         \<and> list_all (\<lambda>r. \<not> is_current_login_pending_review r (gi_current_login g)) (gi_pending_reviews g)
         \<and> list_all (\<lambda>i. item_kind_of i = ''local_finding'' \<longrightarrow>
              \<not> is_local_blocking i \<and> (is_terminal_local_item i \<longrightarrow> gate_has_validation_evidence i)) items
         \<and> list_all (\<lambda>s. dget s ''gate_effect'' \<noteq> PStr ''blocking'') (gi_logic_signals g)
         \<and> (given (gi_check_requirement g) \<longrightarrow> gi_check_runs g \<noteq> []
              \<and> list_all (\<lambda>c. check_bucket c \<in> {''pass'', ''skipping''}) (gi_check_runs g)))"
  using built_projects [OF assms(1)] built_safety [OF assms] by simp

definition ex_gate :: gate_inputs where
  "ex_gate = \<lparr>gi_remote_threads = [[(''id'', PStr ''T1''), (''isResolved'', PBool True)]], gi_pending_reviews = [],
              gi_current_login = Some ''alice'', gi_check_runs = [[(''name'', PStr ''ci''), (''state'', PStr ''SUCCESS'')]],
              gi_check_requirement = Some ''required'', gi_logic_signals = []\<rparr>"

definition ex_gate_session :: pydict where
  "ex_gate_session = [(''items'', PDict
     [(''a'', PDict [(''item_id'', PStr ''a''), (''item_kind'', PStr ''local_finding''), (''state'', PStr ''fixed''),
                   (''validation_commands'', PStr ''pytest'')]),
      (''b'', PDict [(''item_id'', PStr ''b''), (''item_kind'', PStr ''github_thread''), (''thread_id'', PStr ''T1''),
                   (''reply_url'', PStr ''u'')])])]"

theorem final_gate_safety_witness:
  "list_all is_resolved_github_thread (gi_remote_threads ex_gate) \<and> given (gi_check_requirement ex_gate)
   \<and> list_all (\<lambda>c. check_bucket c \<in> {''pass'', ''skipping''}) (gi_check_runs ex_gate)"
proof -
  define facts where "facts = projr (build_final_gate_facts ex_gate_session ex_gate)"
  define items where "items = projr (session_rows ex_gate_session)"
  have b: "build_final_gate_facts ex_gate_session ex_gate = Inr facts" unfolding facts_def by code_simp
  have i: "session_rows ex_gate_session = Inr items" unfolding items_def by code_simp
  have "gd_failure_codes (evaluate_final_gate_policy
      (projr (project_final_gate (gi_current_login ex_gate) (gi_check_requirement ex_gate) facts))) = []"
    unfolding facts_def by code_simp
  moreover have "given (gi_check_requirement ex_gate)" by code_simp
  ultimately show ?thesis using final_gate_safety [OF b i] by fastforce
qed

text \<open>
  C34: the projection does not depend on the order of the facts. For two permutations of the
  same facts it raises on both or on neither, and when it does not raise the projections,
  with their counts and their lists in the order of the keys, are equal.
\<close>

theorem projection_order_independent:
  assumes "mset facts = mset facts'"
  shows "isl (project_final_gate login req facts) = isl (project_final_gate login req facts')
    \<and> (\<not> isl (project_final_gate login req facts) \<longrightarrow>
         project_final_gate login req facts = project_final_gate login req facts')"
proof (cases "distinct (map fact_sort_key facts)")
  case True
  then have "distinct (map fact_sort_key facts')"
    using assms by (metis mset_eq_imp_distinct_iff mset_map)
  with True facts.determined [OF assms True] show ?thesis
    by (simp add: project_final_gate_def sort_runtime_facts_eq)
next
  case False
  then have "\<not> distinct (map fact_sort_key facts')"
    using assms by (metis mset_eq_imp_distinct_iff mset_map)
  with False sort_runtime_facts_eq(2) [of facts] sort_runtime_facts_eq(2) [of facts'] show ?thesis
    by (auto simp: project_final_gate_def split: sum.splits)
qed

theorem projection_order_independent_witness:
  "project_final_gate None None (projr (build_final_gate_facts ex_gate_session ex_gate))
     = project_final_gate None None (rev (projr (build_final_gate_facts ex_gate_session ex_gate)))"
proof -
  have "mset (projr (build_final_gate_facts ex_gate_session ex_gate))
      = mset (rev (projr (build_final_gate_facts ex_gate_session ex_gate)))" by simp
  moreover have "\<not> isl (project_final_gate None None (projr (build_final_gate_facts ex_gate_session ex_gate)))"
    by code_simp
  ultimately show ?thesis using projection_order_independent by blast
qed



definition ex_drift_item :: pydict where
  "ex_drift_item = [(''item_id'', PStr ''a''), (''item_kind'', PStr ''local_finding''), (''state'', PStr ''fixed''),
                    (''accepted_response'', PDict [(''validation_commands'', PStr ''pytest=passed'')])]"

text \<open>
  Two judgements of validation evidence. The logic signals and the gate share the test of
  one evidence value but not the places they look at: a fixed local finding whose only
  successful validation is in its accepted response gets no signal at all, and the gate
  still counts it as terminal work without validation.
\<close>

theorem evidence_judgements_differ:
  "item_signal None ex_drift_item = None \<and> is_terminal_local_item ex_drift_item
   \<and> \<not> gate_has_validation_evidence ex_drift_item"
proof (intro conjI)
  show "item_signal None ex_drift_item = None" by code_simp
  show "is_terminal_local_item ex_drift_item" by code_simp
  show "\<not> gate_has_validation_evidence ex_drift_item" by code_simp
qed

end
