(* ===== verification/Severity.thy ===== *)
theory Severity
  imports Py_Prelude
begin

text \<open>
  Severities and reviewer priorities (\<open>core/severity.py\<close> and the severity helpers of
  \<open>core/utils.py\<close>): their normal forms, the evidence records, and the markers found in the
  text of a comment. The patterns are regular expressions; a small backtracking matcher
  with Python's search order runs them. Letters, digits and blanks are those of ASCII.
\<close>

section \<open>Regular expressions\<close>

text \<open>
  A match state is the text before the position (reversed), the text after it, and the
  last group captured. \<open>re_matches\<close> lists the states a pattern leads to in the order
  backtracking tries them.
\<close>

datatype regex =
    RClass "char \<Rightarrow> bool"
  | RStar "char \<Rightarrow> bool"
  | ROpt regex
  | RSeq regex regex
  | RAlt regex regex
  | RGroup regex
  | RBoundary
  | RNotBehind "char \<Rightarrow> bool"
  | RNotAhead "char \<Rightarrow> bool"
  | REnd
  | REmpty

type_synonym match_state = "string \<times> string \<times> string option"

definition is_word :: "char \<Rightarrow> bool" where
  "is_word c \<longleftrightarrow> (let n = (of_char c :: nat) in (48 \<le> n \<and> n \<le> 57) \<or> (65 \<le> n \<and> n \<le> 90) \<or> (97 \<le> n \<and> n \<le> 122) \<or> n = 95)"

definition is_alnum :: "char \<Rightarrow> bool" where
  "is_alnum c \<longleftrightarrow> is_word c \<and> c \<noteq> CHR ''_''"

definition first_is :: "(char \<Rightarrow> bool) \<Rightarrow> string \<Rightarrow> bool" where
  "first_is p s = (case s of [] \<Rightarrow> False | c # cs \<Rightarrow> p c)"

text \<open>\<open>p*\<close>: the longest run first.\<close>

fun star_matches :: "(char \<Rightarrow> bool) \<Rightarrow> string \<Rightarrow> string \<Rightarrow> (string \<times> string) list" where
  "star_matches p b [] = [(b, [])]"
| "star_matches p b (c # cs) = (if p c then star_matches p (c # b) cs @ [(b, c # cs)] else [(b, c # cs)])"

fun re_matches :: "regex \<Rightarrow> match_state \<Rightarrow> match_state list" where
  "re_matches (RClass p) = (\<lambda>(b, a, g). case a of [] \<Rightarrow> [] | c # cs \<Rightarrow> if p c then [(c # b, cs, g)] else [])"
| "re_matches (RStar p) = (\<lambda>(b, a, g). map (\<lambda>(b', a'). (b', a', g)) (star_matches p b a))"
| "re_matches (ROpt r) = (\<lambda>st. re_matches r st @ [st])"
| "re_matches (RSeq r s) = (\<lambda>st. concat (map (re_matches s) (re_matches r st)))"
| "re_matches (RAlt r s) = (\<lambda>st. re_matches r st @ re_matches s st)"
| "re_matches (RGroup r) =
     (\<lambda>(b, a, g). map (\<lambda>(b', a', g'). (b', a', Some (take (length a - length a') a))) (re_matches r (b, a, g)))"
| "re_matches RBoundary = (\<lambda>(b, a, g). if first_is is_word b \<noteq> first_is is_word a then [(b, a, g)] else [])"
| "re_matches (RNotBehind p) = (\<lambda>(b, a, g). if first_is p b then [] else [(b, a, g)])"
| "re_matches (RNotAhead p) = (\<lambda>(b, a, g). if first_is p a then [] else [(b, a, g)])"
| "re_matches REnd = (\<lambda>(b, a, g). if a = [] \<or> a = [char_of (10::nat)] then [(b, a, g)] else [])"
| "re_matches REmpty = (\<lambda>st. [st])"

text \<open>\<open>pattern.search\<close>: the first match at the first position that has one.\<close>

fun re_search_from :: "regex \<Rightarrow> string \<Rightarrow> string \<Rightarrow> match_state option" where
  "re_search_from r b [] = (case re_matches r (b, [], None) of [] \<Rightarrow> None | m # ms \<Rightarrow> Some m)"
| "re_search_from r b (c # cs) =
     (case re_matches r (b, c # cs, None) of [] \<Rightarrow> re_search_from r (c # b) cs | m # ms \<Rightarrow> Some m)"

definition re_search_group :: "regex \<Rightarrow> string \<Rightarrow> string option" where
  "re_search_group r s = (case re_search_from r [] s of None \<Rightarrow> None | Some (b, a, g) \<Rightarrow> g)"

fun re_word :: "string \<Rightarrow> regex" where
  "re_word [] = REmpty"
| "re_word (c # cs) = RSeq (RClass (\<lambda>x. lower_char x = c)) (re_word cs)"

definition re_seq :: "regex list \<Rightarrow> regex" where
  "re_seq rs = foldr RSeq rs REmpty"

definition one_of :: "string \<Rightarrow> char \<Rightarrow> bool" where
  "one_of s c \<longleftrightarrow> c \<in> set s"

abbreviation opt_char :: "char \<Rightarrow> regex" where
  "opt_char c \<equiv> ROpt (RClass (\<lambda>x. x = c))"

definition re_p_scale :: regex where
  "re_p_scale = RGroup (RSeq (RClass (\<lambda>c. lower_char c = CHR ''p'')) (RClass (one_of ''01234'')))"

definition re_level :: regex where
  "re_level = RGroup (RAlt (re_word ''high'') (RAlt (re_word ''medium'') (re_word ''low'')))"

definition EXPLICIT_P_SCALE_PATTERNS :: "regex list" where
  "EXPLICIT_P_SCALE_PATTERNS =
     [re_seq [RBoundary, RAlt (re_word ''severity'') (re_word ''priority''), RStar is_space,
              ROpt (RClass (one_of '':=-'')), RStar is_space, opt_char (char_of (96::nat)), opt_char CHR ''['', re_p_scale,
              opt_char CHR '']'', opt_char (char_of (96::nat)), RBoundary],
      re_seq [RNotBehind is_alnum, RClass (\<lambda>c. c = CHR ''[''), re_p_scale, RClass (\<lambda>c. c = CHR '']''), RNotAhead is_alnum],
      re_seq [RNotBehind is_alnum, re_p_scale, RClass is_space, RStar is_space, re_word ''badge'', RBoundary],
      re_seq [RBoundary, re_word ''badge/'', re_p_scale, RAlt (RClass (one_of ''-_/?#&.'')) REnd]]"

definition REVIEW_PRIORITY_PATTERNS :: "regex list" where
  "REVIEW_PRIORITY_PATTERNS =
     [re_seq [RBoundary, re_level, RClass (\<lambda>c. one_of ''-_'' c \<or> is_space c), RStar (\<lambda>c. one_of ''-_'' c \<or> is_space c),
              re_word ''priority'', RBoundary],
      re_seq [RBoundary, re_word ''priority'', RStar is_space, RClass (one_of '':=-''), RStar is_space, re_level, RBoundary]]"

section \<open>Severities\<close>

definition VALID_SEVERITIES :: "string list" where
  "VALID_SEVERITIES = [''P0'', ''P1'', ''P2'', ''P3'', ''P4'']"

definition VALID_REVIEW_PRIORITIES :: "string list" where
  "VALID_REVIEW_PRIORITIES = [''high'', ''medium'', ''low'']"

definition normalize_severity :: "pyval \<Rightarrow> string option" where
  "normalize_severity value =
     (if value = PNone then None
      else let normalized = py_upper (py_strip (py_str value))
           in if normalized \<in> set VALID_SEVERITIES then Some normalized else None)"

text \<open>The first of the given texts that is not empty.\<close>

definition text_or :: "string \<Rightarrow> string \<Rightarrow> string" where
  "text_or a b = (if a = [] then b else a)"

definition marker_evidence :: "string \<Rightarrow> string \<Rightarrow> string option \<Rightarrow> pyval \<Rightarrow> pydict" where
  "marker_evidence value source raw_marker observed_from =
     [(''value'', PStr value), (''source'', PStr source),
      (''raw_marker'', PStr (text_or (py_strip (text_or (case raw_marker of None \<Rightarrow> [] | Some m \<Rightarrow> m) value)) value))]
     @ (if truthy observed_from then [(''observed_from'', observed_from)] else [])"

definition severity_evidence :: "pyval \<Rightarrow> string \<Rightarrow> string option \<Rightarrow> pyval \<Rightarrow> pydict option" where
  "severity_evidence value source raw_marker observed_from =
     (case normalize_severity value of
        None \<Rightarrow> None
      | Some normalized \<Rightarrow> Some (marker_evidence normalized source raw_marker observed_from))"

definition extract_severity_evidence :: "pyval \<Rightarrow> string \<Rightarrow> pyval \<Rightarrow> pydict option" where
  "extract_severity_evidence text source observed_from =
     (let body = py_str (py_or text (PStr []))
      in if py_strip body = [] then None
         else case List.map_filter (\<lambda>r. re_search_group r body) EXPLICIT_P_SCALE_PATTERNS of
                [] \<Rightarrow> None
              | m # ms \<Rightarrow> let marker = py_upper m
                          in severity_evidence (PStr marker) source (Some marker) observed_from)"

definition review_priority_evidence :: "pyval \<Rightarrow> string \<Rightarrow> string option \<Rightarrow> pyval \<Rightarrow> pydict option" where
  "review_priority_evidence value source raw_marker observed_from =
     (let priority = py_lower (py_strip (py_str (py_or value (PStr []))))
      in if priority \<notin> set VALID_REVIEW_PRIORITIES then None
         else Some (marker_evidence priority source raw_marker observed_from))"

definition extract_review_priority_evidence :: "pyval \<Rightarrow> string \<Rightarrow> pyval \<Rightarrow> pydict option" where
  "extract_review_priority_evidence text source observed_from =
     (let body = py_str (py_or text (PStr []))
      in if py_strip body = [] then None
         else case List.map_filter (\<lambda>r. re_search_group r body) REVIEW_PRIORITY_PATTERNS of
                [] \<Rightarrow> None
              | m # ms \<Rightarrow>
                  let priority = py_lower m
                  in Some ([(''value'', PStr priority), (''source'', PStr source), (''raw_marker'', PStr priority)]
                           @ (if truthy observed_from then [(''observed_from'', observed_from)] else [])))"

definition apply_severity_evidence :: "pydict option \<Rightarrow> pydict \<Rightarrow> pydict" where
  "apply_severity_evidence evidence item =
     (case evidence of
        None \<Rightarrow> dpop ''severity_evidence'' (dpop ''severity'' item)
      | Some e \<Rightarrow> if e = [] then dpop ''severity_evidence'' (dpop ''severity'' item)
                  else dset ''severity_evidence'' (PDict e) (dset ''severity'' (dget e ''value'') item))"

definition first_scene_item_severity :: "pydict \<Rightarrow> string option" where
  "first_scene_item_severity item =
     (case dget item ''severity_evidence'' of PDict e \<Rightarrow> normalize_severity (dget e ''value'') | _ \<Rightarrow> None)"

definition review_priority_for_publish :: "pydict \<Rightarrow> string option \<times> string option" where
  "review_priority_for_publish item =
     (case dget item ''review_priority_evidence'' of
        PDict e \<Rightarrow>
          (let priority = py_lower (py_strip (py_str (py_or (dget e ''value'') (PStr []))));
               source = py_strip (py_str (py_or (dget e ''source'') (PStr [])))
           in if priority \<notin> set VALID_REVIEW_PRIORITIES then (None, None)
              else if source \<noteq> []
              then (Some priority, Some (''Reviewer-provided priority from '' @ source @ '' was preserved as raw priority evidence.''))
              else (Some priority, Some ''Reviewer-provided priority was preserved as raw priority evidence.''))
      | _ \<Rightarrow> (None, None))"

section \<open>Severity of a fix reply\<close>

definition severity_override_note :: "pydict \<Rightarrow> string" where
  "severity_override_note fix_reply =
     py_strip (py_str (py_or (py_or (dget fix_reply ''severity_note'') (dget fix_reply ''severity_override_note'')) (PStr [])))"

definition fix_reply_explicit_severity :: "pydict \<Rightarrow> string option \<times> string option" where
  "fix_reply_explicit_severity fix_reply =
     (if \<not> has_key fix_reply ''severity'' \<or> dget fix_reply ''severity'' \<in> {PNone, PStr []} then (None, None)
      else case normalize_severity (dget fix_reply ''severity'') of
             None \<Rightarrow> (None, Some ''INVALID_FIX_REPLY_SEVERITY'')
           | Some v \<Rightarrow> (Some v, None))"

definition fix_reply_severity_rejection_reason :: "pydict \<Rightarrow> pydict \<Rightarrow> string option" where
  "fix_reply_severity_rejection_reason fix_reply item =
     (case fix_reply_explicit_severity fix_reply of
        (_, Some err) \<Rightarrow> Some err
      | (None, None) \<Rightarrow> None
      | (Some v, None) \<Rightarrow>
          (case first_scene_item_severity item of
             Some w \<Rightarrow> if w \<noteq> v \<and> severity_override_note fix_reply = [] then Some ''SEVERITY_OVERRIDE_NOTE_REQUIRED'' else None
           | None \<Rightarrow> None))"

definition fix_reply_severity_for_publish :: "pydict \<Rightarrow> pydict \<Rightarrow> string option \<times> string option" where
  "fix_reply_severity_for_publish fix_reply item =
     (case fix_reply_explicit_severity fix_reply of
        (_, Some err) \<Rightarrow> (None, Some err)
      | (Some v, None) \<Rightarrow>
          (case fix_reply_severity_rejection_reason fix_reply item of
             Some conflict \<Rightarrow> (None, Some conflict) | None \<Rightarrow> (Some v, None))
      | (None, None) \<Rightarrow> (first_scene_item_severity item, None))"
section \<open>Properties\<close>

text \<open>A match moves within the text, and what it captures is a part of the text.\<close>

definition moves :: "match_state \<Rightarrow> match_state \<Rightarrow> bool" where
  "moves st st' \<longleftrightarrow>
     (case (st, st') of ((b, a, g), (b', a', g')) \<Rightarrow>
        rev b' @ a' = rev b @ a \<and> (g' = g \<or> (\<exists>x m y. g' = Some m \<and> rev b @ a = x @ m @ y)))"

lemma moves_refl [simp]: "moves st st"
  by (cases st) (simp add: moves_def)

lemma moves_trans: "moves st st' \<Longrightarrow> moves st' st'' \<Longrightarrow> moves st st''"
  by (cases st; cases st'; cases st'') (auto simp: moves_def)

lemma star_moves: "(b', a') \<in> set (star_matches p b a) \<Longrightarrow> rev b' @ a' = rev b @ a"
  by (induction p b a rule: star_matches.induct) (auto split: if_splits)

lemma re_moves: "st' \<in> set (re_matches r st) \<Longrightarrow> moves st st'"
proof (induction r arbitrary: st st')
  case (RClass p)
  then show ?case by (auto simp: moves_def split: prod.splits list.splits if_splits)
next
  case (RStar p)
  then show ?case by (auto simp: moves_def star_moves split: prod.splits)
next
  case (RSeq r s)
  then obtain m where "m \<in> set (re_matches r st)" "st' \<in> set (re_matches s m)" by auto
  with RSeq.IH show ?case using moves_trans by blast
next
  case (RGroup r)
  obtain b a g where st: "st = (b, a, g)" by (cases st)
  obtain b' a' g' where m: "(b', a', g') \<in> set (re_matches r (b, a, g))"
    "st' = (b', a', Some (take (length a - length a') a))"
    using RGroup.prems st by auto
  let ?t = "take (length a - length a') a" and ?d = "drop (length a - length a') a"
  have same: "rev b' @ a' = rev b @ a" using RGroup.IH [OF m(1)] by (simp add: moves_def)
  have part: "rev b @ a = rev b @ ?t @ ?d" by simp
  have "moves (b, a, g) (b', a', Some ?t)"
    unfolding moves_def using same part by (simp only: prod.case) blast
  then show ?case by (simp only: st m(2))
next
  case (ROpt r)
  then have "st' \<in> set (re_matches r st) \<or> st' = st" by auto
  with ROpt.IH [of st' st] show ?case by auto
next
  case (RAlt r s)
  then have "st' \<in> set (re_matches r st) \<or> st' \<in> set (re_matches s st)" by auto
  with RAlt.IH show ?case by blast
qed (auto split: prod.splits if_splits)

lemma re_search_moves: "re_search_from r b a = Some st \<Longrightarrow> moves (b, a, None) st"
proof (induction r b a rule: re_search_from.induct)
  case (1 r b)
  then have "st \<in> set (re_matches r (b, [], None))" by (auto split: list.splits)
  then show ?case by (rule re_moves)
next
  case (2 r b c cs)
  show ?case
  proof (cases "re_matches r (b, c # cs, None)")
    case Nil
    then have "moves (c # b, cs, None) st" using 2 by simp
    then show ?thesis by (cases st) (simp add: moves_def)
  next
    case (Cons m ms)
    then have "st \<in> set (re_matches r (b, c # cs, None))" using 2(2) by simp
    then show ?thesis by (rule re_moves)
  qed
qed

lemma re_search_group_part: "re_search_group r s = Some m \<Longrightarrow> \<exists>x y. s = x @ m @ y"
  by (auto simp: re_search_group_def moves_def split: option.splits prod.splits dest!: re_search_moves)

lemma map_filter_head: "List.map_filter f xs = m # ms \<Longrightarrow> \<exists>x \<in> set xs. f x = Some m"
  by (induction xs) (auto simp: List.map_filter_simps split: option.splits)

lemma normalize_severity_valid: "normalize_severity v = Some s \<Longrightarrow> s \<in> set VALID_SEVERITIES"
  by (auto simp: normalize_severity_def Let_def split: if_splits)

lemma valid_severity_normal:
  assumes "s \<in> set VALID_SEVERITIES"
  shows "normalize_severity (PStr s) = Some s"
proof -
  have "list_all (\<lambda>s. normalize_severity (PStr s) = Some s) VALID_SEVERITIES" by code_simp
  with assms show ?thesis by (simp add: list_all_iff)
qed

text \<open>
  A severity read from a comment is really there. If a severity is extracted from a
  text it is one of P0 to P4, some part of the text is that severity up to letter case, and
  an item the evidence is applied to reports exactly that severity, for itself and for a
  published fix reply that names none.
\<close>

theorem extracted_severity_sound:
  assumes "extract_severity_evidence (PStr body) source obs = Some e"
  shows "\<exists>v x m y. v \<in> set VALID_SEVERITIES \<and> body = x @ m @ y \<and> py_upper m = v
    \<and> dget e ''value'' = PStr v
    \<and> first_scene_item_severity (apply_severity_evidence (Some e) item) = Some v
    \<and> dget (apply_severity_evidence (Some e) item) ''severity'' = PStr v
    \<and> (\<not> has_key reply ''severity'' \<longrightarrow>
         fix_reply_severity_for_publish reply (apply_severity_evidence (Some e) item) = (Some v, None))"
proof -
  have b: "py_str (py_or (PStr body) (PStr [])) = body" by (cases body) (simp_all add: py_or_def)
  obtain m ms where m: "List.map_filter (\<lambda>r. re_search_group r body) EXPLICIT_P_SCALE_PATTERNS = m # ms"
    "severity_evidence (PStr (py_upper m)) source (Some (py_upper m)) obs = Some e"
    using assms unfolding extract_severity_evidence_def b by (auto simp: Let_def split: if_splits list.splits)
  obtain x y where p: "body = x @ m @ y" using map_filter_head [OF m(1)] re_search_group_part by blast
  obtain v where v: "normalize_severity (PStr (py_upper m)) = Some v"
    "e = marker_evidence v source (Some (py_upper m)) obs"
    using m(2) by (auto simp: severity_evidence_def split: option.splits)
  note valid = normalize_severity_valid [OF v(1)]
  obtain a where a: "v = py_upper (py_strip a)" "a = py_upper m"
    using v(1) by (auto simp: normalize_severity_def Let_def split: if_splits)
  have e: "dget e ''value'' = PStr v" "e \<noteq> []" using v(2) by (simp_all add: marker_evidence_def)
  have strip: "\<exists>x' y'. py_upper m = x' @ py_strip (py_upper m) @ y'"
  proof -
    let ?l = "py_lstrip (py_upper m)"
    have "py_upper m = takeWhile is_space (py_upper m) @ ?l" by (simp add: py_lstrip_def)
    moreover have "?l = rev (dropWhile is_space (rev ?l)) @ rev (takeWhile is_space (rev ?l))"
      by (metis rev_append rev_rev_ident takeWhile_dropWhile_id)
    ultimately show ?thesis unfolding py_strip_def by metis
  qed
  then obtain x' y' where s: "py_upper m = x' @ py_strip (py_upper m) @ y'" by blast
  define k where "k = py_strip (py_upper m)"
  have km: "py_upper (take (length k) (drop (length x') m)) = py_upper k"
  proof -
    have "take (length k) (drop (length x') (py_upper m)) = k" using s k_def by (metis append_eq_conv_conj)
    then show ?thesis unfolding py_upper_def by (metis drop_map take_map py_upper_def py_upper_upper)
  qed
  define m' where "m' = take (length k) (drop (length x') m)"
  have "m = take (length x') m @ m' @ drop (length k) (drop (length x') m)"
    unfolding m'_def by (metis append_take_drop_id)
  then have body: "body = (x @ take (length x') m) @ m' @ (drop (length k) (drop (length x') m) @ y)"
    using p by (metis append.assoc)
  have val: "py_upper m' = v" using km a by (simp add: m'_def k_def)
  have f: "first_scene_item_severity (apply_severity_evidence (Some e) item) = Some v"
    using e valid by (simp add: first_scene_item_severity_def apply_severity_evidence_def valid_severity_normal)
  have p: "fix_reply_severity_for_publish reply (apply_severity_evidence (Some e) item) = (Some v, None)"
    if "\<not> has_key reply ''severity''"
    using that f by (simp add: fix_reply_severity_for_publish_def fix_reply_explicit_severity_def)
  have s: "dget (apply_severity_evidence (Some e) item) ''severity'' = PStr v"
    using e by (simp add: apply_severity_evidence_def)
  from valid body val e(1) f s p show ?thesis by blast
qed

definition ex_badge :: string where
  "ex_badge = ''[p1] b''"

theorem extracted_severity_sound_witness:
  "first_scene_item_severity
     (apply_severity_evidence (extract_severity_evidence (PStr ex_badge) ''github_first_comment'' PNone) []) = Some ''P1''"
proof -
  define e where "e = the (extract_severity_evidence (PStr ex_badge) ''github_first_comment'' PNone)"
  have s: "extract_severity_evidence (PStr ex_badge) ''github_first_comment'' PNone = Some e"
    "dget e ''value'' = PStr ''P1''"
    unfolding e_def by code_simp+
  obtain v where v: "dget e ''value'' = PStr v" "first_scene_item_severity (apply_severity_evidence (Some e) []) = Some v"
    using extracted_severity_sound [OF s(1), of "[]" "[]"] by blast
  have "v = ''P1''" using v(1) s(2) by (simp only: pyval.inject)
  then show ?thesis using v(2) by (simp only: s(1))
qed

end
