(* ===== verification/Evidence_Ledger.thy ===== *)
theory Evidence_Ledger
  imports Json_Hash
begin

text \<open>
  The evidence ledger (\<open>evidence/ledger.py\<close>): evidence records and side-effect attempts with
  their ids and their JSON form, and the buffer in which a loaded session keeps the evidence
  that has not been committed yet. The clock is an argument.
\<close>

section \<open>Evidence records\<close>

definition ledger_stable_id :: "string \<Rightarrow> pydict \<Rightarrow> string" where
  "ledger_stable_id prefix payload = prefix @ ''_'' @ take 20 (sha256_hex (json_canonical (PDict payload)))"

definition payload_hash :: "pydict \<Rightarrow> string" where
  "payload_hash payload = sha256_hex (json_canonical (PDict payload))"

record evidence_record =
  er_record_id :: string
  er_timestamp :: string
  er_session_id :: string
  er_item_id :: string
  er_lease_id :: pyval
  er_agent_id :: string
  er_role :: string
  er_event_type :: string
  er_payload :: pydict
  er_payload_hash :: string

definition or_now :: "string option \<Rightarrow> string \<Rightarrow> string" where
  "or_now timestamp now = (case timestamp of None \<Rightarrow> now | Some t \<Rightarrow> if t = [] then now else t)"

definition new_evidence_record ::
    "string \<Rightarrow> string \<Rightarrow> string \<Rightarrow> pyval \<Rightarrow> string \<Rightarrow> string \<Rightarrow> string \<Rightarrow> pydict \<Rightarrow> string option \<Rightarrow> evidence_record" where
  "new_evidence_record now session_id item_id lease_id agent_id role event_type payload timestamp =
     (let created_at = or_now timestamp now;
          digest = payload_hash payload
      in \<lparr>er_record_id = ledger_stable_id ''ev''
            [(''timestamp'', PStr created_at), (''session_id'', PStr session_id), (''item_id'', PStr item_id),
             (''lease_id'', lease_id), (''agent_id'', PStr agent_id), (''role'', PStr role),
             (''event_type'', PStr event_type), (''payload_hash'', PStr digest)],
          er_timestamp = created_at, er_session_id = session_id, er_item_id = item_id, er_lease_id = lease_id,
          er_agent_id = agent_id, er_role = role, er_event_type = event_type, er_payload = payload,
          er_payload_hash = digest\<rparr>)"

definition record_to_json :: "evidence_record \<Rightarrow> pydict" where
  "record_to_json r =
     [(''record_id'', PStr (er_record_id r)), (''timestamp'', PStr (er_timestamp r)),
      (''session_id'', PStr (er_session_id r)), (''item_id'', PStr (er_item_id r)), (''lease_id'', er_lease_id r),
      (''agent_id'', PStr (er_agent_id r)), (''role'', PStr (er_role r)), (''event_type'', PStr (er_event_type r)),
      (''payload'', PDict (er_payload r)), (''payload_hash'', PStr (er_payload_hash r))]"

text \<open>\<open>value[key]\<close> and \<open>str(value[key])\<close>.\<close>

definition subscript :: "pydict \<Rightarrow> string \<Rightarrow> py_exn + pyval" where
  "subscript d k = (case map_of d k of None \<Rightarrow> Inl (KeyError k) | Some v \<Rightarrow> Inr v)"

definition text_of_key :: "pydict \<Rightarrow> string \<Rightarrow> py_exn + string" where
  "text_of_key d k = (case subscript d k of Inl e \<Rightarrow> Inl e | Inr v \<Rightarrow> Inr (py_str v))"

text \<open>
  \<open>dict(value)\<close>: a copy of a mapping, or the pairs of a sequence of two-element sequences
  with text keys; the error of the built-in otherwise.
\<close>

definition pair_of :: "pyval \<Rightarrow> (string \<times> pyval) option" where
  "pair_of v = (case v of PList [PStr k, x] \<Rightarrow> Some (k, x) | PStr [a, b] \<Rightarrow> Some ([a], PStr [b]) | _ \<Rightarrow> None)"

definition py_dict :: "pyval \<Rightarrow> py_exn + pydict" where
  "py_dict v =
     (case v of
        PDict d \<Rightarrow> Inr d
      | PList xs \<Rightarrow>
          if list_all (\<lambda>x. pair_of x \<noteq> None) xs
          then Inr (fold (\<lambda>x d. case pair_of x of None \<Rightarrow> d | Some (k, y) \<Rightarrow> dset k y d) xs [])
          else Inl (ValueError ''dictionary update sequence element is not a pair'')
      | PStr s \<Rightarrow> if s = [] then Inr []
                  else Inl (ValueError ''dictionary update sequence element #0 has length 1; 2 is required'')
      | _ \<Rightarrow> Inl (TypeError (str_repr (type_name v) @ '' object is not iterable'')))"

definition sum_bind :: "'e + 'a \<Rightarrow> ('a \<Rightarrow> 'e + 'b) \<Rightarrow> 'e + 'b" where
  "sum_bind x f = (case x of Inl e \<Rightarrow> Inl e | Inr a \<Rightarrow> f a)"

lemma sum_bind_simps [simp]: "sum_bind (Inl e) f = Inl e" "sum_bind (Inr a) f = f a"
  by (simp_all add: sum_bind_def)

definition record_from_json :: "pydict \<Rightarrow> py_exn + evidence_record" where
  "record_from_json value =
     sum_bind (text_of_key value ''record_id'') (\<lambda>record_id.
     sum_bind (text_of_key value ''timestamp'') (\<lambda>timestamp.
     sum_bind (text_of_key value ''session_id'') (\<lambda>session_id.
     sum_bind (text_of_key value ''item_id'') (\<lambda>item_id.
     sum_bind (text_of_key value ''agent_id'') (\<lambda>agent_id.
     sum_bind (text_of_key value ''role'') (\<lambda>role.
     sum_bind (text_of_key value ''event_type'') (\<lambda>event_type.
     sum_bind (py_dict (py_or (dget value ''payload'') (PDict []))) (\<lambda>payload.
     sum_bind (text_of_key value ''payload_hash'') (\<lambda>digest.
       Inr \<lparr>er_record_id = record_id, er_timestamp = timestamp, er_session_id = session_id, er_item_id = item_id,
            er_lease_id = dget value ''lease_id'', er_agent_id = agent_id, er_role = role, er_event_type = event_type,
            er_payload = payload, er_payload_hash = digest\<rparr>)))))))))"

section \<open>Side-effect attempts\<close>

record side_effect_attempt =
  sa_attempt_id :: string
  sa_session_id :: string
  sa_item_id :: string
  sa_side_effect_type :: string
  sa_idempotency_key :: string
  sa_status :: string
  sa_retry_count :: int
  sa_backoff_until :: pyval
  sa_last_error :: pyval
  sa_external_url :: pyval

definition new_side_effect_attempt ::
    "string \<Rightarrow> string \<Rightarrow> string \<Rightarrow> string \<Rightarrow> string \<Rightarrow> string \<Rightarrow> int \<Rightarrow> pyval \<Rightarrow> pyval \<Rightarrow> pyval \<Rightarrow> string option
       \<Rightarrow> side_effect_attempt" where
  "new_side_effect_attempt now session_id item_id side_effect_type idempotency_key status retry_count backoff_until
       last_error external_url timestamp =
     \<lparr>sa_attempt_id = ledger_stable_id ''attempt''
        [(''timestamp'', PStr (or_now timestamp now)), (''session_id'', PStr session_id), (''item_id'', PStr item_id),
         (''side_effect_type'', PStr side_effect_type), (''idempotency_key'', PStr idempotency_key),
         (''status'', PStr status), (''retry_count'', PInt retry_count), (''backoff_until'', backoff_until),
         (''last_error'', last_error), (''external_url'', external_url)],
      sa_session_id = session_id, sa_item_id = item_id, sa_side_effect_type = side_effect_type,
      sa_idempotency_key = idempotency_key, sa_status = status, sa_retry_count = retry_count,
      sa_backoff_until = backoff_until, sa_last_error = last_error, sa_external_url = external_url\<rparr>"

definition attempt_to_json :: "side_effect_attempt \<Rightarrow> pydict" where
  "attempt_to_json a =
     [(''attempt_id'', PStr (sa_attempt_id a)), (''session_id'', PStr (sa_session_id a)),
      (''item_id'', PStr (sa_item_id a)), (''side_effect_type'', PStr (sa_side_effect_type a)),
      (''idempotency_key'', PStr (sa_idempotency_key a)), (''status'', PStr (sa_status a)),
      (''retry_count'', PInt (sa_retry_count a)), (''backoff_until'', sa_backoff_until a),
      (''last_error'', sa_last_error a), (''external_url'', sa_external_url a)]"

definition attempt_from_json :: "pydict \<Rightarrow> py_exn + side_effect_attempt" where
  "attempt_from_json value =
     sum_bind (text_of_key value ''attempt_id'') (\<lambda>attempt_id.
     sum_bind (text_of_key value ''session_id'') (\<lambda>session_id.
     sum_bind (text_of_key value ''item_id'') (\<lambda>item_id.
     sum_bind (text_of_key value ''side_effect_type'') (\<lambda>side_effect_type.
     sum_bind (text_of_key value ''idempotency_key'') (\<lambda>idempotency_key.
     sum_bind (text_of_key value ''status'') (\<lambda>status.
     sum_bind (py_int (dget_default value ''retry_count'' (PInt 0))) (\<lambda>retry_count.
       Inr \<lparr>sa_attempt_id = attempt_id, sa_session_id = session_id, sa_item_id = item_id,
            sa_side_effect_type = side_effect_type, sa_idempotency_key = idempotency_key, sa_status = status,
            sa_retry_count = retry_count, sa_backoff_until = dget value ''backoff_until'',
            sa_last_error = dget value ''last_error'', sa_external_url = dget value ''external_url''\<rparr>)))))))"

section \<open>The buffer of a loaded session\<close>

definition pending_key :: string where
  "pending_key = ''_pending_evidence_records''"

definition buffer_append :: "evidence_record \<Rightarrow> pydict \<Rightarrow> py_exn + pydict" where
  "buffer_append r session =
     (case dget_default session pending_key (PList []) of
        PList pending \<Rightarrow> Inr (dset pending_key (PList (pending @ [PDict (record_to_json r)])) session)
      | _ \<Rightarrow> Inl (ValueError ''Session pending evidence must be a list.''))"

definition take_pending_evidence :: "pydict \<Rightarrow> py_exn + (pydict list \<times> pydict)" where
  "take_pending_evidence session =
     (case dget_default session pending_key (PList []) of
        PList pending \<Rightarrow> Inr (List.map_filter as_dict pending, dpop pending_key session)
      | _ \<Rightarrow> Inl (ValueError ''Session pending evidence must be a list.''))"

definition side_effect_record ::
    "string \<Rightarrow> side_effect_attempt \<Rightarrow> pyval \<Rightarrow> string \<Rightarrow> string \<Rightarrow> string option \<Rightarrow> evidence_record" where
  "side_effect_record now attempt lease_id agent_id role timestamp =
     new_evidence_record now (sa_session_id attempt) (sa_item_id attempt) lease_id agent_id role
       ''side_effect_attempt'' (attempt_to_json attempt) timestamp"

text \<open>
  \<open>record_new_item_observations\<close>: one observation per newly discovered item, in the order of
  the item ids.
\<close>

definition observation_for :: "string \<Rightarrow> string option \<Rightarrow> pydict \<Rightarrow> string \<Rightarrow> pydict \<Rightarrow> evidence_record option" where
  "observation_for now timestamp session item_id item =
     (let item_kind = py_str (py_or (dget item ''item_kind'') (PStr []))
      in if item_kind \<notin> {''github_thread'', ''local_finding''} then None
         else Some (new_evidence_record now (py_str (py_or (dget session ''session_id'') (PStr []))) item_id PNone
                ''gh-address-cr-runtime'' ''intake'' ''finding_observed''
                [(''item_kind'', PStr item_kind),
                 (''source'', PStr (py_str (py_or (dget item ''source'') (PStr ''unknown''))))] timestamp))"

fun buffer_all :: "evidence_record list \<Rightarrow> pydict \<Rightarrow> py_exn + pydict" where
  "buffer_all [] session = Inr session"
| "buffer_all (r # rs) session = (case buffer_append r session of Inl e \<Rightarrow> Inl e | Inr s \<Rightarrow> buffer_all rs s)"

definition new_item_observations ::
    "string \<Rightarrow> string option \<Rightarrow> string list \<Rightarrow> pydict \<Rightarrow> evidence_record list" where
  "new_item_observations now timestamp previous session =
     (case dget session ''items'' of
        PDict items \<Rightarrow>
          List.map_filter
            (\<lambda>i. case dget items i of PDict item \<Rightarrow> observation_for now timestamp session i item | _ \<Rightarrow> None)
            (sort (remdups (filter (\<lambda>i. i \<notin> set previous) (map fst items))))
      | _ \<Rightarrow> [])"

definition record_new_item_observations ::
    "string \<Rightarrow> string option \<Rightarrow> string list \<Rightarrow> pydict \<Rightarrow> py_exn + pydict" where
  "record_new_item_observations now timestamp previous session =
     buffer_all (new_item_observations now timestamp previous session) session"

section \<open>Properties\<close>

lemma record_roundtrip_aux: "record_from_json (record_to_json r) = Inr r"
proof -
  have "py_dict (py_or (PDict (er_payload r)) (PDict [])) = Inr (er_payload r)"
    by (simp add: py_or_def py_dict_def)
  then show ?thesis
    by (simp add: record_from_json_def record_to_json_def text_of_key_def subscript_def)
qed

lemma attempt_roundtrip_aux: "attempt_from_json (attempt_to_json a) = Inr a"
  by (simp add: attempt_from_json_def attempt_to_json_def text_of_key_def subscript_def dget_default_def)

text \<open>
  Evidence survives its JSON form. A record written to the ledger and a side-effect
  attempt stored in a record's payload are read back as they were; the attempt inside the
  record of an attempt is the attempt itself.
\<close>

theorem ledger_roundtrip:
  "record_from_json (record_to_json r) = Inr r \<and> attempt_from_json (attempt_to_json a) = Inr a
   \<and> attempt_from_json (er_payload (side_effect_record now a lease agent role ts)) = Inr a"
  by (simp add: record_roundtrip_aux attempt_roundtrip_aux side_effect_record_def new_evidence_record_def Let_def)

lemma buffer_all_take:
  assumes "dget_default session pending_key (PList []) = PList pending"
  shows "\<exists>s'. buffer_all rs session = Inr s'
    \<and> dget_default s' pending_key (PList []) = PList (pending @ map (PDict \<circ> record_to_json) rs)
    \<and> (\<forall>k. k \<noteq> pending_key \<longrightarrow> dget s' k = dget session k)"
  using assms
proof (induction rs arbitrary: session pending)
  case (Cons r rs)
  let ?s = "dset pending_key (PList (pending @ [PDict (record_to_json r)])) session"
  have step: "buffer_append r session = Inr ?s" using Cons.prems by (simp add: buffer_append_def)
  have "dget_default ?s pending_key (PList []) = PList (pending @ [PDict (record_to_json r)])"
    by (simp add: dget_default_def dset_def update_conv')
  from Cons.IH [OF this] step show ?case by auto
qed auto

text \<open>
  The buffer loses nothing. Starting from a session with no buffered evidence, the
  records buffered by any sequence of appends are exactly what \<open>take_pending_evidence\<close>
  hands to the transaction, in order; the buffer is then gone and every other key of the
  session is as it was.
\<close>

theorem buffered_evidence_is_taken:
  assumes "\<not> has_key session pending_key"
  shows "\<exists>s' s''. buffer_all rs session = Inr s' \<and> take_pending_evidence s' = Inr (map record_to_json rs, s'')
    \<and> \<not> has_key s'' pending_key \<and> (\<forall>k. k \<noteq> pending_key \<longrightarrow> dget s'' k = dget session k)"
proof -
  have "dget_default session pending_key (PList []) = PList []"
    using assms by (simp add: dget_default_def has_key_def)
  from buffer_all_take [OF this, of rs] obtain s' where
    s': "buffer_all rs session = Inr s'" "dget_default s' pending_key (PList []) = PList (map (PDict \<circ> record_to_json) rs)"
    "\<forall>k. k \<noteq> pending_key \<longrightarrow> dget s' k = dget session k" by auto
  have "List.map_filter as_dict (map (PDict \<circ> record_to_json) rs) = map record_to_json rs"
    by (induction rs) (simp_all add: List.map_filter_simps)
  with s' show ?thesis by (simp add: take_pending_evidence_def)
qed

theorem buffered_evidence_is_taken_witness:
  "\<forall>rs. \<exists>s' s''. buffer_all rs [(''session_id'', PStr ''s'')] = Inr s' \<and> take_pending_evidence s' = Inr (map record_to_json rs, s'')"
proof -
  have "\<not> has_key [(''session_id'', PStr ''s'')] pending_key" by (simp add: pending_key_def)
  from buffered_evidence_is_taken [OF this] show ?thesis by blast
qed

end
