(* ===== verification/Runtime_Store.thy ===== *)
theory Runtime_Store
  imports Evidence_Ledger Thread_State Conflict_Keys
begin

text \<open>
  The runtime store (\<open>core/runtime_store.py\<close>): the committed session with its items, leases
  and lease events, the evidence events and the side-effect outbox, and the transactions on
  them. SQLite gives each transaction exclusive access (\<open>BEGIN IMMEDIATE\<close>) and undoes it on
  any exception, so a transaction is a function from the store to a result and the store it
  leaves, and an error leaves the store as it was. The two revision columns are written
  together and are one number. Rows keep their decoded payload; the timestamps in it stay
  text. Lock contention (\<open>PERSISTENCE_BUSY\<close>), schema upgrades, the legacy import and the
  files materialized from the store are not modelled.
\<close>

section \<open>State\<close>

datatype store_error =
    StoreError string string
  | StaleRevisionError int nat
  | StoreRaised py_exn

definition PERSISTENCE_INVALID :: "string \<Rightarrow> store_error" where
  "PERSISTENCE_INVALID detail = StoreError ''PERSISTENCE_INVALID'' detail"

record item_row =
  ir_payload :: pydict
  ir_first_observed_revision :: nat
  ir_last_observed_revision :: nat

record lease_row =
  lr_payload :: pydict
  lr_transition_revision :: nat

record outbox_row =
  o_command_id :: string
  o_session_id :: string
  o_effect_type :: string
  o_idempotency_key :: string
  o_planned_revision :: nat
  o_operation_category :: string
  o_status :: string
  o_attempt_count :: nat
  o_retry_boundary :: pyval
  o_error_type :: "string option"
  o_external_result_reference :: "pyval"
  o_owner_token :: "string option"
  o_in_flight_since :: "string option"

record runtime_store =
  st_session_id :: string
  st_revision :: nat
  st_root :: pydict
  st_items :: "(string \<times> item_row) list"
  st_leases :: "(string \<times> lease_row) list"
  st_lease_events :: "pyval list"
  st_evidence :: "(evidence_record \<times> nat) list"
  st_outbox :: "outbox_row list"

section \<open>The claim projection\<close>

definition attr_error :: "pyval \<Rightarrow> string \<Rightarrow> py_exn" where
  "attr_error v name = AttributeError (str_repr (type_name v) @ '' object has no attribute '' @ str_repr name)"

definition text_or_empty :: "pydict \<Rightarrow> string \<Rightarrow> string" where
  "text_or_empty d k = py_str (py_or (dget d k) (PStr []))"

definition unhashable :: "pyval \<Rightarrow> bool" where
  "unhashable v \<longleftrightarrow> (case v of PDict d \<Rightarrow> True | PList xs \<Rightarrow> True | _ \<Rightarrow> False)"

definition lease_holds :: "pydict \<Rightarrow> bool" where
  "lease_holds l \<longleftrightarrow> dget l ''status'' \<in> {PStr ''active'', PStr ''submitted''}"

text \<open>The first loop: give every lease its id and index the active ones by item.\<close>

fun index_leases ::
    "(string \<times> pyval) list \<Rightarrow> (string \<times> pydict) list \<Rightarrow> (string \<times> pydict) list
       \<Rightarrow> store_error + ((string \<times> pydict) list \<times> (string \<times> pydict) list)" where
  "index_leases [] done active = Inr (done, active)"
| "index_leases ((lease_id, v) # ls) done active =
     (case v of
        PDict d \<Rightarrow>
          (let l = dsetdefault ''lease_id'' (PStr lease_id) d;
               item_id = text_or_empty l ''item_id''
           in if unhashable (dget l ''status'')
              then Inl (StoreRaised (TypeError (''unhashable type: '' @ str_repr (type_name (dget l ''status'')))))
              else if \<not> lease_holds l then index_leases ls (done @ [(lease_id, l)]) active
              else if map_of active item_id \<noteq> None
              then Inl (PERSISTENCE_INVALID ''Multiple active leases reference one item.'')
              else index_leases ls (done @ [(lease_id, l)]) (active @ [(item_id, l)]))
      | _ \<Rightarrow> Inl (StoreRaised (attr_error v ''setdefault'')))"

definition unclaimed_item :: "pydict \<Rightarrow> pydict" where
  "unclaimed_item item =
     (let base = (if dget item ''state'' = PStr ''claimed'' then return_item_to_claimable_state item else item)
      in dpop ''active_lease_id''
           (dset ''lease_expires_at'' PNone (dset ''claimed_at'' PNone (dset ''claimed_by'' PNone base))))"

definition claimed_item :: "pydict \<Rightarrow> pydict \<Rightarrow> pydict" where
  "claimed_item l item =
     dset ''lease_expires_at'' (dget l ''expires_at'')
       (dset ''claimed_at'' (dget l ''created_at'')
         (dset ''claimed_by'' (dget l ''agent_id'')
           (dset ''active_lease_id'' (PStr (py_str (dget l ''lease_id'')))
             (dset ''state'' (PStr ''claimed'') item))))"

definition project_item :: "(string \<times> pydict) list \<Rightarrow> string \<Rightarrow> pydict \<Rightarrow> pydict" where
  "project_item active item_id item =
     (case map_of active item_id of None \<Rightarrow> unclaimed_item item | Some l \<Rightarrow> claimed_item l item)"

fun project_items ::
    "(string \<times> pydict) list \<Rightarrow> (string \<times> pyval) list \<Rightarrow> store_error + (string \<times> pydict) list" where
  "project_items active [] = Inr []"
| "project_items active ((item_id, v) # is) =
     (case v of
        PDict item \<Rightarrow>
          (case project_items active is of
             Inl e \<Rightarrow> Inl e
           | Inr rest \<Rightarrow> Inr ((item_id, project_item active item_id item) # rest))
      | _ \<Rightarrow> Inl (StoreRaised (if map_of active item_id = None then attr_error v ''get''
              else TypeError (str_repr (type_name v) @ '' object does not support item assignment''))))"

definition derive_item_claim_projection ::
    "(string \<times> pyval) list \<Rightarrow> (string \<times> pyval) list
       \<Rightarrow> store_error + ((string \<times> pydict) list \<times> (string \<times> pydict) list)" where
  "derive_item_claim_projection items leases =
     sum_bind (index_leases leases [] []) (\<lambda>(ls, active).
     sum_bind (project_items active items) (\<lambda>is. Inr (is, ls)))"

section \<open>Loading and writing the session\<close>

abbreviation dicts :: "(string \<times> pydict) list \<Rightarrow> pydict" where
  "dicts xs \<equiv> map (\<lambda>kv. (fst kv, PDict (snd kv))) xs"

text \<open>\<open>_load_snapshot\<close>: the payload, with items and leases in the order of their ids.\<close>

definition load_snapshot :: "runtime_store \<Rightarrow> store_error + pydict" where
  "load_snapshot s =
     sum_bind (derive_item_claim_projection
        (map (\<lambda>kr. (fst kr, PDict (ir_payload (snd kr)))) (sort_key fst (st_items s)))
        (map (\<lambda>kr. (fst kr, PDict (lr_payload (snd kr)))) (sort_key fst (st_leases s))))
     (\<lambda>(items, leases).
        Inr (dset ''lease_events'' (PList (st_lease_events s))
              (dset ''leases'' (PDict (dicts leases)) (dset ''items'' (PDict (dicts items)) (st_root s)))))"

definition same_json :: "pydict \<Rightarrow> pydict \<Rightarrow> bool" where
  "same_json a b \<longleftrightarrow> json_canonical (PDict a) = json_canonical (PDict b)"

text \<open>Rows whose payload has the text it had keep their revisions.\<close>

definition write_item :: "(string \<times> item_row) list \<Rightarrow> nat \<Rightarrow> string \<times> pydict \<Rightarrow> string \<times> item_row" where
  "write_item stored revision kv =
     (fst kv,
      case map_of stored (fst kv) of
        None \<Rightarrow> \<lparr>ir_payload = snd kv, ir_first_observed_revision = revision, ir_last_observed_revision = revision\<rparr>
      | Some r \<Rightarrow>
          if same_json (ir_payload r) (snd kv) then r
          else \<lparr>ir_payload = snd kv, ir_first_observed_revision = ir_first_observed_revision r,
                ir_last_observed_revision = revision\<rparr>)"

definition write_lease :: "(string \<times> lease_row) list \<Rightarrow> nat \<Rightarrow> string \<times> pydict \<Rightarrow> string \<times> lease_row" where
  "write_lease stored revision kv =
     (fst kv,
      case map_of stored (fst kv) of
        None \<Rightarrow> \<lparr>lr_payload = snd kv, lr_transition_revision = revision\<rparr>
      | Some r \<Rightarrow> if same_json (lr_payload r) (snd kv) then r
                   else \<lparr>lr_payload = snd kv, lr_transition_revision = revision\<rparr>)"

definition integrity_error :: store_error where
  "integrity_error = PERSISTENCE_INVALID
     ''The transition violates a runtime store invariant, such as one active lease per item.''"

text \<open>The conflict keys of a changed lease are inserted under a primary key.\<close>

definition lease_keys_error :: "(string \<times> lease_row) list \<Rightarrow> string \<times> pydict \<Rightarrow> store_error option" where
  "lease_keys_error stored kv =
     (if (case map_of stored (fst kv) of None \<Rightarrow> False | Some r \<Rightarrow> same_json (lr_payload r) (snd kv)) then None
      else case py_iter (py_or (dget (snd kv) ''conflict_keys'') (PList [])) of
             Inl e \<Rightarrow> Some (StoreRaised e)
           | Inr ks \<Rightarrow> if distinct (map py_str ks) then None else Some integrity_error)"

fun first_error :: "('a \<Rightarrow> store_error option) \<Rightarrow> 'a list \<Rightarrow> store_error option" where
  "first_error f [] = None"
| "first_error f (x # xs) = (case f x of Some e \<Rightarrow> Some e | None \<Rightarrow> first_error f xs)"

definition write_session :: "pydict \<Rightarrow> nat \<Rightarrow> runtime_store \<Rightarrow> store_error + runtime_store" where
  "write_session payload revision s =
     (let session_id = text_or_empty payload ''session_id'';
          items_v = dget_default payload ''items'' (PDict []);
          leases_v = dget_default payload ''leases'' (PDict []);
          events_v = dget_default payload ''lease_events'' (PList []);
          root = dpop ''persistence'' (dpop ''lease_events'' (dpop ''leases'' (dpop ''items'' payload)));
          same = (session_id = st_session_id s);
          old_items = (if same then st_items s else []);
          old_leases = (if same then st_leases s else [])
      in if session_id = [] then Inl (PERSISTENCE_INVALID ''Session ID is required.'')
         else (case (items_v, leases_v, events_v) of
                 (PDict items, PDict leases, PList events) \<Rightarrow>
                   (case derive_item_claim_projection items leases of
                      Inl e \<Rightarrow> Inl e
                    | Inr (is, ls) \<Rightarrow>
                        (case first_error (lease_keys_error old_leases) ls of
                           Some e \<Rightarrow> Inl e
                         | None \<Rightarrow>
                             Inr (s\<lparr>st_session_id := session_id, st_root := root,
                                    st_items := map (write_item old_items revision) is,
                                    st_leases := map (write_lease old_leases revision) ls,
                                    st_lease_events := events\<rparr>)))
               | _ \<Rightarrow> Inl (PERSISTENCE_INVALID ''Session items, leases, and lease events have invalid shapes.'')))"

definition write_evidence_record :: "nat \<Rightarrow> pydict \<Rightarrow> runtime_store \<Rightarrow> store_error + runtime_store" where
  "write_evidence_record revision raw s =
     (case record_from_json raw of
        Inl e \<Rightarrow> Inl (StoreRaised e)
      | Inr r \<Rightarrow>
          if payload_hash (er_payload r) \<noteq> er_payload_hash r
          then Inl (PERSISTENCE_INVALID (''Evidence record '' @ er_record_id r @ '' has a payload hash mismatch.''))
          else (case find (\<lambda>rn. er_record_id (fst rn) = er_record_id r) (st_evidence s) of
                  Some (old, _) \<Rightarrow>
                    if same_json (record_to_json old) (record_to_json r) then Inr s
                    else Inl (PERSISTENCE_INVALID
                      (''Evidence record '' @ er_record_id r @ '' diverges from canonical content.''))
                | None \<Rightarrow> Inr (s\<lparr>st_evidence := st_evidence s @ [(r, revision)]\<rparr>)))"

fun write_evidence :: "nat \<Rightarrow> pydict list \<Rightarrow> runtime_store \<Rightarrow> store_error + runtime_store" where
  "write_evidence revision [] s = Inr s"
| "write_evidence revision (raw # raws) s =
     (case write_evidence_record revision raw s of Inl e \<Rightarrow> Inl e | Inr s' \<Rightarrow> write_evidence revision raws s')"

definition outbox_command_id :: "string \<Rightarrow> string \<Rightarrow> string" where
  "outbox_command_id effect_type idempotency_key =
     ''outbox_'' @ take 24 (sha256_hex (effect_type @ [char_of (0::nat)] @ idempotency_key))"

definition retry_boundary_for :: "string \<Rightarrow> string" where
  "retry_boundary_for effect_type = (if effect_type = ''github_reply'' then ''reconcile_only'' else ''idempotent'')"

definition command_fields :: "string list" where
  "command_fields = [''command_id'', ''effect_type'', ''idempotency_key'', ''operation_category'']"

definition new_outbox_row :: "string \<Rightarrow> nat \<Rightarrow> pydict \<Rightarrow> outbox_row" where
  "new_outbox_row session_id revision command =
     \<lparr>o_command_id = py_str (dget command ''command_id''), o_session_id = session_id,
      o_effect_type = py_str (dget command ''effect_type''),
      o_idempotency_key = py_str (dget command ''idempotency_key''), o_planned_revision = revision,
      o_operation_category = py_str (dget command ''operation_category''), o_status = ''planned'', o_attempt_count = 0,
      o_retry_boundary = dget command ''retry_boundary'', o_error_type = None, o_external_result_reference = PNone,
      o_owner_token = None, o_in_flight_since = None\<rparr>"

text \<open>The primary key and the uniqueness constraint of the table.\<close>

definition outbox_clash :: "outbox_row \<Rightarrow> outbox_row \<Rightarrow> bool" where
  "outbox_clash a b \<longleftrightarrow>
     o_command_id a = o_command_id b
     \<or> (o_session_id a = o_session_id b \<and> o_effect_type a = o_effect_type b \<and> o_idempotency_key a = o_idempotency_key b)"

definition write_outbox_command :: "nat \<Rightarrow> pydict \<Rightarrow> runtime_store \<Rightarrow> store_error + runtime_store" where
  "write_outbox_command revision command s =
     (let missing = sort (filter (\<lambda>f. \<not> has_key command f) command_fields);
          row = new_outbox_row (st_session_id s) revision command
      in if missing \<noteq> []
         then Inl (PERSISTENCE_INVALID (''Outbox command is missing required fields: '' @ py_join '', '' missing @ ''.''))
         else if list_ex (outbox_clash row) (st_outbox s) then Inl integrity_error
         else Inr (s\<lparr>st_outbox := st_outbox s @ [row]\<rparr>))"

fun write_outbox :: "nat \<Rightarrow> pydict list \<Rightarrow> runtime_store \<Rightarrow> store_error + runtime_store" where
  "write_outbox revision [] s = Inr s"
| "write_outbox revision (c # cs) s =
     (case write_outbox_command revision c s of Inl e \<Rightarrow> Inl e | Inr s' \<Rightarrow> write_outbox revision cs s')"

section \<open>Transactions\<close>

record 'v transaction_result =
  tr_payload :: pydict
  tr_revision :: nat
  tr_value :: 'v

text \<open>
  \<open>_committed_view\<close>: the payload a reload would give, from the payload just written (with
  the claim projection already applied to its items and leases).
\<close>

definition projected_payload :: "pydict \<Rightarrow> store_error + pydict" where
  "projected_payload payload =
     (case (dget_default payload ''items'' (PDict []), dget_default payload ''leases'' (PDict [])) of
        (PDict items, PDict leases) \<Rightarrow>
          sum_bind (derive_item_claim_projection items leases) (\<lambda>(is, ls).
            Inr (dset ''leases'' (PDict (dicts ls)) (dset ''items'' (PDict (dicts is)) payload)))
      | _ \<Rightarrow> Inl (PERSISTENCE_INVALID ''Session items, leases, and lease events have invalid shapes.''))"

definition committed_view :: "pydict \<Rightarrow> store_error + pydict" where
  "committed_view normalized =
     (let rest = dpop ''persistence'' (dpop ''leases'' (dpop ''items'' normalized))
      in case (py_or (dget normalized ''items'') (PDict []), py_or (dget normalized ''leases'') (PDict [])) of
           (PDict items, PDict leases) \<Rightarrow>
             sum_bind (derive_item_claim_projection (sort_key fst items) (sort_key fst leases)) (\<lambda>(is, ls).
               Inr (dset ''leases'' (PDict (dicts ls)) (dset ''items'' (PDict (dicts is)) rest)))
         | (v, _) \<Rightarrow> Inl (StoreRaised (attr_error v ''items'')))"

text \<open>
  \<open>_transact\<close>: a mutation maps the loaded payload to a value and the changed payload, or
  raises. What the mutation buffered as evidence is committed with the given evidence.
\<close>

type_synonym 'v mutation = "pydict \<Rightarrow> py_exn + ('v \<times> pydict)"

definition commit_transaction ::
    "bool \<Rightarrow> 'v mutation \<Rightarrow> pydict list \<Rightarrow> pydict list \<Rightarrow> pydict \<Rightarrow> runtime_store
       \<Rightarrow> store_error + ('v transaction_result \<times> runtime_store)" where
  "commit_transaction reload mutation evidence outbox current s =
     (case mutation current of
        Inl e \<Rightarrow> Inl (StoreRaised e)
      | Inr (value, changed) \<Rightarrow>
          (case take_pending_evidence changed of
             Inl e \<Rightarrow> Inl (StoreRaised e)
           | Inr (pending, working) \<Rightarrow>
               let revision = Suc (st_revision s)
               in sum_bind (write_session working revision s) (\<lambda>s1.
                  sum_bind (write_evidence revision (evidence @ pending) s1) (\<lambda>s2.
                  sum_bind (write_outbox revision outbox s2) (\<lambda>s3.
                  sum_bind (if reload then sum_bind (projected_payload working) committed_view else Inr working) (\<lambda>view.
                    Inr (\<lparr>tr_payload = view, tr_revision = revision, tr_value = value\<rparr>,
                         s3\<lparr>st_revision := revision\<rparr>)))))))"

definition atomically :: "(runtime_store \<Rightarrow> 'e + ('a \<times> runtime_store)) \<Rightarrow> runtime_store
      \<Rightarrow> ('e + 'a) \<times> runtime_store" where
  "atomically body s = (case body s of Inl e \<Rightarrow> (Inl e, s) | Inr (a, s') \<Rightarrow> (Inr a, s'))"

definition check_expected :: "int option \<Rightarrow> runtime_store \<Rightarrow> store_error option" where
  "check_expected expected s =
     (case expected of None \<Rightarrow> None
      | Some r \<Rightarrow> if r \<noteq> int (st_revision s) then Some (StaleRevisionError r (st_revision s)) else None)"

definition transact ::
    "'v mutation \<Rightarrow> int option \<Rightarrow> pydict list \<Rightarrow> pydict list \<Rightarrow> runtime_store
       \<Rightarrow> (store_error + 'v transaction_result) \<times> runtime_store" where
  "transact mutation expected evidence outbox =
     atomically (\<lambda>s.
       sum_bind (load_snapshot s) (\<lambda>current.
         case check_expected expected s of
           Some e \<Rightarrow> Inl e
         | None \<Rightarrow> commit_transaction True mutation evidence outbox current s))"

text \<open>\<open>replace\<close>: the given payload becomes the session; nothing is loaded first.\<close>

definition replace_session ::
    "pydict \<Rightarrow> int option \<Rightarrow> pydict list \<Rightarrow> pydict list \<Rightarrow> runtime_store
       \<Rightarrow> (store_error + unit transaction_result) \<times> runtime_store" where
  "replace_session payload expected evidence outbox =
     atomically (\<lambda>s.
       case check_expected expected s of
         Some e \<Rightarrow> Inl e
       | None \<Rightarrow> commit_transaction False (\<lambda>current. Inr ((), payload)) evidence outbox [] s)"

section \<open>The outbox\<close>

record outbox_commit =
  oc_base_revision :: nat
  oc_revision :: nat

text \<open>An UPDATE of the rows that satisfy a condition, and the number of rows it changed.\<close>

definition update_rows :: "(outbox_row \<Rightarrow> bool) \<Rightarrow> (outbox_row \<Rightarrow> outbox_row) \<Rightarrow> runtime_store \<Rightarrow> runtime_store" where
  "update_rows P f s = s\<lparr>st_outbox := map (\<lambda>r. if P r then f r else r) (st_outbox s)\<rparr>"

definition rowcount :: "(outbox_row \<Rightarrow> bool) \<Rightarrow> runtime_store \<Rightarrow> nat" where
  "rowcount P s = length (filter P (st_outbox s))"

definition commit_rows ::
    "(outbox_row \<Rightarrow> bool) \<Rightarrow> (outbox_row \<Rightarrow> outbox_row) \<Rightarrow> string \<Rightarrow> pydict list \<Rightarrow> runtime_store
       \<Rightarrow> store_error + (outbox_commit \<times> runtime_store)" where
  "commit_rows P f detail evidence s =
     (if rowcount P s \<noteq> 1 then Inl (PERSISTENCE_INVALID detail)
      else sum_bind (write_evidence (Suc (st_revision s)) evidence (update_rows P f s)) (\<lambda>s1.
             Inr (\<lparr>oc_base_revision = st_revision s, oc_revision = Suc (st_revision s)\<rparr>,
                  s1\<lparr>st_revision := Suc (st_revision s)\<rparr>)))"

definition may_enter_flight :: "string \<Rightarrow> outbox_row \<Rightarrow> bool" where
  "may_enter_flight command_id r \<longleftrightarrow>
     o_command_id r = command_id \<and> o_status r \<in> {''planned'', ''failed'', ''unknown''}
     \<and> (o_status r \<noteq> ''unknown'' \<or> o_retry_boundary r = PStr ''idempotent'')"

definition enter_flight :: "string option \<Rightarrow> string \<Rightarrow> outbox_row \<Rightarrow> outbox_row" where
  "enter_flight owner now r =
     r\<lparr>o_status := ''in_flight'', o_attempt_count := Suc (o_attempt_count r), o_error_type := None,
       o_external_result_reference := PNone, o_owner_token := owner, o_in_flight_since := Some now\<rparr>"

definition mark_outbox_in_flight ::
    "string \<Rightarrow> string option \<Rightarrow> string \<Rightarrow> pydict list \<Rightarrow> runtime_store
       \<Rightarrow> (store_error + outbox_commit) \<times> runtime_store" where
  "mark_outbox_in_flight command_id owner now evidence =
     atomically (commit_rows (may_enter_flight command_id) (enter_flight owner now)
       ''Outbox command is missing or cannot enter the requested state.'' evidence)"

definition may_record :: "string \<Rightarrow> string option \<Rightarrow> outbox_row \<Rightarrow> bool" where
  "may_record command_id owner r \<longleftrightarrow>
     o_command_id r = command_id
     \<and> (o_status r = ''unknown''
        \<or> (o_status r = ''in_flight'' \<and> (o_owner_token r = None \<or> (owner \<noteq> None \<and> o_owner_token r = owner))))"

definition record_result :: "string \<Rightarrow> string option \<Rightarrow> pyval \<Rightarrow> outbox_row \<Rightarrow> outbox_row" where
  "record_result status error_type reference r =
     r\<lparr>o_status := status, o_error_type := error_type, o_external_result_reference := reference,
       o_owner_token := None, o_in_flight_since := None\<rparr>"

definition record_outbox_result ::
    "string \<Rightarrow> string \<Rightarrow> pydict list \<Rightarrow> pyval \<Rightarrow> string option \<Rightarrow> string option \<Rightarrow> runtime_store
       \<Rightarrow> (store_error + outbox_commit) \<times> runtime_store" where
  "record_outbox_result command_id status evidence reference error_type owner =
     atomically (\<lambda>s.
       if status \<notin> {''succeeded'', ''failed''}
       then Inl (PERSISTENCE_INVALID ''Outbox result must be succeeded or failed.'')
       else if status = ''succeeded'' \<and> (evidence = [] \<or> \<not> truthy reference)
       then Inl (PERSISTENCE_INVALID ''A successful outbox result requires evidence and an external result reference.'')
       else commit_rows (may_record command_id owner) (record_result status error_type reference)
              ''Outbox command is missing, not owned by this executor, or cannot record the requested result.'' evidence s)"

text \<open>
  \<open>recover_outbox\<close> reads the in-flight commands, asks outside any transaction which of them
  still have an executor, and then demotes the dead ones that still have the owner it read.
\<close>

definition recovery_candidates :: "(string \<Rightarrow> bool) \<Rightarrow> runtime_store \<Rightarrow> (string \<times> string option) list" where
  "recovery_candidates lock_held s =
     filter (\<lambda>(command_id, _). \<not> lock_held command_id)
       (map (\<lambda>r. (o_command_id r, o_owner_token r)) (filter (\<lambda>r. o_status r = ''in_flight'') (st_outbox s)))"

definition demoted_by :: "(string \<times> string option) list \<Rightarrow> outbox_row \<Rightarrow> bool" where
  "demoted_by dead r \<longleftrightarrow> o_status r = ''in_flight'' \<and> (o_command_id r, o_owner_token r) \<in> set dead"

definition demote_row :: "outbox_row \<Rightarrow> outbox_row" where
  "demote_row r = r\<lparr>o_status := ''unknown'', o_owner_token := None, o_in_flight_since := None\<rparr>"

definition demote_dead ::
    "(string \<times> string option) list \<Rightarrow> runtime_store \<Rightarrow> (store_error + (outbox_commit \<times> nat) option) \<times> runtime_store" where
  "demote_dead dead s =
     (if rowcount (demoted_by dead) s = 0 then (Inr None, s)
      else (Inr (Some (\<lparr>oc_base_revision = st_revision s, oc_revision = Suc (st_revision s)\<rparr>,
                       rowcount (demoted_by dead) s)),
            (update_rows (demoted_by dead) demote_row s)\<lparr>st_revision := Suc (st_revision s)\<rparr>))"

definition outbox_command :: "string \<Rightarrow> string \<Rightarrow> runtime_store \<Rightarrow> outbox_row option" where
  "outbox_command effect_type idempotency_key s =
     find (\<lambda>r. o_effect_type r = effect_type \<and> o_idempotency_key r = idempotency_key) (st_outbox s)"

end
