(* ===== verification/Working_Set.thy ===== *)
theory Working_Set
  imports Runtime_Store
begin

text \<open>
  Working sets of the runtime store (\<open>_load_working_set\<close>, \<open>_write_working_set\<close> and the
  transactions on them in \<open>core/runtime_store.py\<close>): a command that declares the rows it needs
  loads and writes only those. The columns \<open>item_id\<close> and \<open>status\<close> of a lease row are the
  fields of its payload that they are filled from; one session is stored.
\<close>

section \<open>The rows of a request\<close>

record working_set_request =
  ws_item_ids :: "string list"
  ws_lease_ids :: "string list"
  ws_active_lease_item_ids :: "string list"
  ws_include_active_leases :: bool

definition items_request :: "string list \<Rightarrow> working_set_request" where
  "items_request ids =
     \<lparr>ws_item_ids = ids, ws_lease_ids = [], ws_active_lease_item_ids = [], ws_include_active_leases = False\<rparr>"

definition lease_item :: "lease_row \<Rightarrow> string" where
  "lease_item r = text_or_empty (lr_payload r) ''item_id''"

definition lease_live :: "lease_row \<Rightarrow> bool" where
  "lease_live r \<longleftrightarrow> text_or_empty (lr_payload r) ''status'' \<in> {''active'', ''submitted''}"

definition explicit_lease_ids :: "working_set_request \<Rightarrow> string list" where
  "explicit_lease_ids req = filter (\<lambda>i. i \<noteq> []) (ws_lease_ids req)"

definition active_item_ids :: "working_set_request \<Rightarrow> string list" where
  "active_item_ids req = filter (\<lambda>i. i \<noteq> []) (ws_item_ids req @ ws_active_lease_item_ids req)"

text \<open>The leases the first query selects, the items of those that were asked for, and the other active leases of these items.\<close>

definition asked_lease :: "working_set_request \<Rightarrow> string \<times> lease_row \<Rightarrow> bool" where
  "asked_lease req kr \<longleftrightarrow>
     fst kr \<in> set (explicit_lease_ids req)
     \<or> (lease_item (snd kr) \<in> set (active_item_ids req) \<and> lease_live (snd kr))
     \<or> (ws_include_active_leases req \<and> lease_live (snd kr))"

definition items_of_leases :: "working_set_request \<Rightarrow> (string \<times> lease_row) list \<Rightarrow> string list" where
  "items_of_leases req rows =
     map (\<lambda>kr. lease_item (snd kr))
       (filter (\<lambda>kr. asked_lease req kr \<and> (fst kr \<in> set (explicit_lease_ids req) \<or> ws_include_active_leases req)) rows)"

definition wanted_lease :: "working_set_request \<Rightarrow> (string \<times> lease_row) list \<Rightarrow> string \<times> lease_row \<Rightarrow> bool" where
  "wanted_lease req rows kr \<longleftrightarrow>
     asked_lease req kr
     \<or> (lease_item (snd kr) \<in> set (items_of_leases req rows) - set (active_item_ids req) \<and> lease_live (snd kr))"

definition wanted_item :: "working_set_request \<Rightarrow> (string \<times> lease_row) list \<Rightarrow> string \<Rightarrow> bool" where
  "wanted_item req rows i \<longleftrightarrow> (i \<noteq> [] \<and> i \<in> set (ws_item_ids req)) \<or> i \<in> set (items_of_leases req rows)"

text \<open>The rows of the session that the stored payload names.\<close>

definition root_session_id :: "runtime_store \<Rightarrow> string" where
  "root_session_id s = text_or_empty (st_root s) ''session_id''"

definition own_items :: "string \<Rightarrow> runtime_store \<Rightarrow> (string \<times> item_row) list" where
  "own_items sid s = (if sid = st_session_id s then st_items s else [])"

definition own_leases :: "string \<Rightarrow> runtime_store \<Rightarrow> (string \<times> lease_row) list" where
  "own_leases sid s = (if sid = st_session_id s then st_leases s else [])"

definition selected_items :: "working_set_request \<Rightarrow> runtime_store \<Rightarrow> (string \<times> item_row) list" where
  "selected_items req s =
     filter (\<lambda>kr. wanted_item req (own_leases (root_session_id s) s) (fst kr))
       (sort_key fst (own_items (root_session_id s) s))"

definition selected_leases :: "working_set_request \<Rightarrow> runtime_store \<Rightarrow> (string \<times> lease_row) list" where
  "selected_leases req s =
     filter (wanted_lease req (own_leases (root_session_id s) s))
       (sort_key fst (own_leases (root_session_id s) s))"

section \<open>Loading\<close>

definition load_working_set :: "working_set_request \<Rightarrow> runtime_store \<Rightarrow> store_error + pydict" where
  "load_working_set req s =
     (let root = dset ''lease_events'' (PList []) (dpop ''persistence'' (dpop ''leases'' (dpop ''items'' (st_root s))))
      in if root_session_id s = [] then Inl (PERSISTENCE_INVALID ''Session ID is required.'')
         else sum_bind (derive_item_claim_projection
                (map (\<lambda>kr. (fst kr, PDict (ir_payload (snd kr)))) (selected_items req s))
                (map (\<lambda>kr. (fst kr, PDict (lr_payload (snd kr)))) (selected_leases req s)))
              (\<lambda>(items, leases).
                 Inr (dset ''leases'' (PDict (dicts leases)) (dset ''items'' (PDict (dicts items)) root))))"

section \<open>Writing\<close>

definition unselected_error :: "string \<Rightarrow> string list \<Rightarrow> string list \<Rightarrow> string list \<Rightarrow> store_error option" where
  "unselected_error table candidates selected existing =
     (if \<exists>i \<in> set candidates. i \<notin> set selected \<and> i \<in> set existing
      then Some (PERSISTENCE_INVALID (''Working-set mutation attempted to overwrite unselected '' @ table @ '' rows.''))
      else None)"

definition item_changed :: "(string \<times> item_row) list \<Rightarrow> string \<times> pydict \<Rightarrow> bool" where
  "item_changed selected kv =
     (case map_of selected (fst kv) of None \<Rightarrow> True | Some r \<Rightarrow> \<not> same_json (ir_payload r) (snd kv))"

definition lease_changed :: "(string \<times> lease_row) list \<Rightarrow> string \<times> pydict \<Rightarrow> bool" where
  "lease_changed selected kv =
     (case map_of selected (fst kv) of None \<Rightarrow> True | Some r \<Rightarrow> \<not> same_json (lr_payload r) (snd kv))"

text \<open>Selected items that are gone are deleted, and changed or new ones replace their rows.\<close>

definition write_selected_items ::
    "(string \<times> item_row) list \<Rightarrow> nat \<Rightarrow> (string \<times> pydict) list \<Rightarrow> (string \<times> item_row) list \<Rightarrow> (string \<times> item_row) list" where
  "write_selected_items selected revision items rows =
     fold (\<lambda>kv. AList.update (fst kv) (snd (write_item selected revision kv)))
       (filter (item_changed selected) items)
       (filter (\<lambda>kr. \<not> (fst kr \<in> fst ` set selected \<and> fst kr \<notin> fst ` set items)) rows)"

text \<open>A changed lease is inserted under the unique index of active leases and the key of its conflict keys.\<close>

fun insert_leases ::
    "nat \<Rightarrow> (string \<times> pydict) list \<Rightarrow> (string \<times> lease_row) list \<Rightarrow> store_error + (string \<times> lease_row) list" where
  "insert_leases revision [] rows = Inr rows"
| "insert_leases revision (kv # kvs) rows =
     (let r = \<lparr>lr_payload = snd kv, lr_transition_revision = revision\<rparr>
      in if fst kv \<in> fst ` set rows \<or> (lease_live r \<and> (\<exists>kr \<in> set rows. lease_live (snd kr) \<and> lease_item (snd kr) = lease_item r))
         then Inl integrity_error
         else case lease_keys_error [] kv of
                Some e \<Rightarrow> Inl e
              | None \<Rightarrow> insert_leases revision kvs (rows @ [(fst kv, r)]))"

definition write_selected_leases ::
    "(string \<times> lease_row) list \<Rightarrow> nat \<Rightarrow> (string \<times> pydict) list \<Rightarrow> (string \<times> lease_row) list
       \<Rightarrow> store_error + (string \<times> lease_row) list" where
  "write_selected_leases selected revision leases rows =
     (let changed = filter (lease_changed selected) leases;
          gone = \<lambda>k. (k \<in> fst ` set selected \<and> k \<notin> fst ` set leases) \<or> k \<in> fst ` set changed
      in insert_leases revision changed (filter (\<lambda>kr. \<not> gone (fst kr)) rows))"

text \<open>
  Rows written for a session that is not stored violate their foreign key; with none to write,
  only the deletion of leases, which names no session, has an effect.
\<close>

definition write_foreign ::
    "(string \<times> item_row) list \<Rightarrow> (string \<times> lease_row) list \<Rightarrow> (string \<times> pydict) list \<Rightarrow> (string \<times> pydict) list
       \<Rightarrow> pyval list \<Rightarrow> runtime_store \<Rightarrow> store_error + runtime_store" where
  "write_foreign si sl items leases events s =
     (if events \<noteq> [] \<or> list_ex (item_changed si) items \<or> list_ex (lease_changed sl) leases then Inl integrity_error
      else Inr (s\<lparr>st_leases := filter (\<lambda>kr. \<not> (fst kr \<in> fst ` set sl \<and> fst kr \<notin> fst ` set leases)) (st_leases s)\<rparr>))"

definition write_selected ::
    "(string \<times> item_row) list \<Rightarrow> (string \<times> lease_row) list \<Rightarrow> string \<Rightarrow> pydict \<Rightarrow> (string \<times> pydict) list
       \<Rightarrow> (string \<times> pydict) list \<Rightarrow> pyval list \<Rightarrow> nat \<Rightarrow> runtime_store \<Rightarrow> store_error + runtime_store" where
  "write_selected si sl sid root items leases events revision s =
     (case unselected_error ''items'' (map fst items) (map fst si) (map fst (own_items sid s)) of
        Some e \<Rightarrow> Inl e
      | None \<Rightarrow>
          (case unselected_error ''leases'' (map fst leases) (map fst sl) (map fst (own_leases sid s)) of
             Some e \<Rightarrow> Inl e
           | None \<Rightarrow>
               if sid \<noteq> st_session_id s then write_foreign si sl items leases events s
               else sum_bind (write_selected_leases sl revision leases (st_leases s)) (\<lambda>rows.
                 Inr (s\<lparr>st_root := root, st_items := write_selected_items si revision items (st_items s),
                        st_leases := rows, st_lease_events := st_lease_events s @ events\<rparr>))))"

definition write_working_set ::
    "(string \<times> item_row) list \<Rightarrow> (string \<times> lease_row) list \<Rightarrow> pydict \<Rightarrow> nat \<Rightarrow> runtime_store \<Rightarrow> store_error + runtime_store" where
  "write_working_set si sl payload revision s =
     (let sid = text_or_empty payload ''session_id'';
          root = dpop ''persistence'' (dpop ''lease_events'' (dpop ''leases'' (dpop ''items'' payload)))
      in if sid = [] then Inl (PERSISTENCE_INVALID ''Session ID is required.'')
         else case (dget_default payload ''items'' (PDict []), dget_default payload ''leases'' (PDict []),
                    dget_default payload ''lease_events'' (PList [])) of
           (PDict items, PDict leases, PList events) \<Rightarrow>
             sum_bind (derive_item_claim_projection items leases) (\<lambda>(is, ls).
               if dget root ''metadata'' \<noteq> PNone \<and> \<not> is_dict (dget root ''metadata'')
               then Inl (PERSISTENCE_INVALID ''Working-set metadata must be an object.'')
               else write_selected si sl sid root is ls events revision s)
         | _ \<Rightarrow> Inl (PERSISTENCE_INVALID ''Working-set items, leases, and lease events have invalid shapes.''))"

section \<open>Transactions\<close>

text \<open>A mutation of a working set may raise errors of its own; they undo the transaction and are passed on.\<close>

datatype 'x working_error = StoreFailure store_error | Raised 'x

definition store_part :: "store_error + 'a \<Rightarrow> 'x working_error + 'a" where
  "store_part r = (case r of Inl e \<Rightarrow> Inl (StoreFailure e) | Inr a \<Rightarrow> Inr a)"

type_synonym ('x, 'v) working_mutation = "pydict \<Rightarrow> 'x + ('v \<times> pydict)"

definition commit_working_set ::
    "working_set_request \<Rightarrow> ('x, 'v) working_mutation \<Rightarrow> pydict list \<Rightarrow> pydict list \<Rightarrow> pydict \<Rightarrow> runtime_store
       \<Rightarrow> 'x working_error + ('v transaction_result \<times> runtime_store)" where
  "commit_working_set req mutation evidence outbox current s =
     (case mutation current of
        Inl x \<Rightarrow> Inl (Raised x)
      | Inr (value, changed) \<Rightarrow> store_part
          (case take_pending_evidence changed of
             Inl e \<Rightarrow> Inl (StoreRaised e)
           | Inr (pending, working) \<Rightarrow>
               let revision = Suc (st_revision s)
               in sum_bind (write_working_set (selected_items req s) (selected_leases req s) working revision s) (\<lambda>s1.
                  sum_bind (write_evidence revision (evidence @ pending) s1) (\<lambda>s2.
                  sum_bind (write_outbox revision outbox s2) (\<lambda>s3.
                  sum_bind (sum_bind (projected_payload working) committed_view) (\<lambda>view.
                    Inr (\<lparr>tr_payload = view, tr_revision = revision, tr_value = value\<rparr>,
                         s3\<lparr>st_revision := revision\<rparr>)))))))"

definition transact_working_set ::
    "working_set_request \<Rightarrow> ('x, 'v) working_mutation \<Rightarrow> int option \<Rightarrow> pydict list \<Rightarrow> pydict list \<Rightarrow> runtime_store
       \<Rightarrow> ('x working_error + 'v transaction_result) \<times> runtime_store" where
  "transact_working_set req mutation expected evidence outbox =
     atomically (\<lambda>s.
       sum_bind (store_part (load_working_set req s)) (\<lambda>current.
         case check_expected expected s of
           Some e \<Rightarrow> Inl (StoreFailure e)
         | None \<Rightarrow> commit_working_set req mutation evidence outbox current s))"

end
