(* ===== verification/Store_Contract.thy ===== *)
theory Store_Contract
  imports Working_Set
begin

text \<open>
  What the runtime store promises. A store operation either fails and changes nothing or
  commits one revision; it keeps the evidence log and moves every outbox row along at most
  one edge of the command state machine (locale \<open>store_operation\<close>). Every transaction of
  \<open>Runtime_Store\<close> is an interpretation, and the properties of histories rest on them.
\<close>

section \<open>The command state machine\<close>

inductive outbox_edge :: "outbox_row \<Rightarrow> outbox_row \<Rightarrow> bool" where
  start: "may_enter_flight (o_command_id r) r \<Longrightarrow> outbox_edge r (enter_flight owner now r)"
| result: "may_record (o_command_id r) owner r \<Longrightarrow> status \<in> {''succeeded'', ''failed''} \<Longrightarrow>
    status = ''succeeded'' \<longrightarrow> truthy reference \<Longrightarrow> outbox_edge r (record_result status err reference r)"
| demote: "o_status r = ''in_flight'' \<Longrightarrow> outbox_edge r (demote_row r)"

inductive_cases outbox_edgeE: "outbox_edge r r'"

definition row_step :: "outbox_row \<Rightarrow> outbox_row \<Rightarrow> bool" where
  "row_step r r' \<longleftrightarrow> r' = r \<or> outbox_edge r r'"

definition rows_follow :: "outbox_row list \<Rightarrow> outbox_row list \<Rightarrow> bool" where
  "rows_follow rs rs' \<longleftrightarrow>
     list_all2 row_step rs (take (length rs) rs') \<and> (\<forall>r \<in> set (drop (length rs) rs'). o_status r = ''planned'')"

lemma row_step_refl [simp]: "row_step r r"
  by (simp add: row_step_def)

lemma rows_follow_refl [simp]: "rows_follow rs rs"
  by (simp add: rows_follow_def list_all2_refl)

lemma rows_follow_map: "(\<And>r. r \<in> set rs \<Longrightarrow> row_step r (f r)) \<Longrightarrow> rows_follow rs (map f rs)"
  by (simp add: rows_follow_def list_all2_conv_all_nth)

lemma rows_follow_append: "(\<forall>r \<in> set new. o_status r = ''planned'') \<Longrightarrow> rows_follow rs (rs @ new)"
  by (simp add: rows_follow_def list_all2_refl)

lemma rows_follow_nth:
  "rows_follow rs rs' \<Longrightarrow> i < length rs \<Longrightarrow> i < length rs' \<and> row_step (rs ! i) (rs' ! i)"
  by (auto simp: rows_follow_def list_all2_conv_all_nth)

lemma edge_identity:
  "outbox_edge r r' \<Longrightarrow> o_command_id r' = o_command_id r \<and> o_session_id r' = o_session_id r
     \<and> o_effect_type r' = o_effect_type r \<and> o_idempotency_key r' = o_idempotency_key r
     \<and> o_retry_boundary r' = o_retry_boundary r \<and> o_attempt_count r \<le> o_attempt_count r'"
  by (erule outbox_edgeE) (simp_all add: enter_flight_def record_result_def demote_row_def)

lemma succeeded_no_edge: "o_status r = ''succeeded'' \<Longrightarrow> \<not> outbox_edge r r'"
  by (auto elim!: outbox_edgeE simp: may_enter_flight_def may_record_def)

lemma step_identity:
  "row_step r r' \<Longrightarrow> o_command_id r' = o_command_id r \<and> o_session_id r' = o_session_id r
     \<and> o_effect_type r' = o_effect_type r \<and> o_idempotency_key r' = o_idempotency_key r
     \<and> o_retry_boundary r' = o_retry_boundary r \<and> o_attempt_count r \<le> o_attempt_count r'"
  by (auto simp: row_step_def dest: edge_identity)

section \<open>Invariant\<close>

definition row_ok :: "outbox_row \<Rightarrow> bool" where
  "row_ok r \<longleftrightarrow> (o_status r = ''succeeded'' \<longrightarrow> truthy (o_external_result_reference r))"

definition outbox_ok :: "outbox_row list \<Rightarrow> bool" where
  "outbox_ok rs \<longleftrightarrow> sorted_wrt (\<lambda>a b. \<not> outbox_clash a b) rs \<and> (\<forall>r \<in> set rs. row_ok r)"

lemma clash_sym: "outbox_clash a b = outbox_clash b a"
  by (auto simp: outbox_clash_def)

lemma row_step_ok: "row_step r r' \<Longrightarrow> row_ok r \<Longrightarrow> row_ok r'"
  by (auto simp: row_step_def row_ok_def enter_flight_def record_result_def demote_row_def elim!: outbox_edgeE)

lemma clash_step: "row_step a a' \<Longrightarrow> row_step b b' \<Longrightarrow> outbox_clash a' b' = outbox_clash a b"
  by (simp add: outbox_clash_def step_identity)

lemma outbox_ok_map:
  assumes "outbox_ok rs" "\<And>r. r \<in> set rs \<Longrightarrow> row_step r (f r)"
  shows "outbox_ok (map f rs)"
proof -
  have "sorted_wrt (\<lambda>a b. \<not> outbox_clash (f a) (f b)) rs"
  proof (rule sorted_wrt_mono_rel)
    show "sorted_wrt (\<lambda>a b. \<not> outbox_clash a b) rs" using assms(1) by (simp add: outbox_ok_def)
  qed (use assms(2) clash_step in blast)
  then show ?thesis using assms row_step_ok by (auto simp: outbox_ok_def sorted_wrt_map)
qed

lemma outbox_ok_snoc:
  "outbox_ok rs \<Longrightarrow> \<not> list_ex (outbox_clash r) rs \<Longrightarrow> o_status r = ''planned'' \<Longrightarrow> outbox_ok (rs @ [r])"
  by (auto simp: outbox_ok_def sorted_wrt_append list_ex_iff clash_sym row_ok_def)

section \<open>The parts of a transaction\<close>

lemma write_session_frame:
  "write_session p n s = Inr s' \<Longrightarrow> st_evidence s' = st_evidence s \<and> st_outbox s' = st_outbox s \<and> st_revision s' = st_revision s"
  by (auto simp: write_session_def Let_def split: if_splits pyval.splits sum.splits prod.splits option.splits)

lemma write_evidence_record_frame:
  "write_evidence_record n raw s = Inr s' \<Longrightarrow>
     st_outbox s' = st_outbox s \<and> st_revision s' = st_revision s \<and> (\<exists>es. st_evidence s' = st_evidence s @ es)"
  by (auto simp: write_evidence_record_def split: if_splits sum.splits option.splits prod.splits)

lemma write_evidence_frame:
  "write_evidence n raws s = Inr s' \<Longrightarrow>
     st_outbox s' = st_outbox s \<and> st_revision s' = st_revision s \<and> (\<exists>es. st_evidence s' = st_evidence s @ es)"
proof (induction raws arbitrary: s)
  case (Cons raw raws)
  then obtain s1 where s1: "write_evidence_record n raw s = Inr s1" "write_evidence n raws s1 = Inr s'"
    by (auto split: sum.splits)
  from write_evidence_record_frame [OF s1(1)] Cons.IH [OF s1(2)] show ?case by auto
qed simp

lemma write_outbox_command_frame:
  assumes "write_outbox_command n c s = Inr s'"
  shows "st_revision s' = st_revision s \<and> st_evidence s' = st_evidence s
    \<and> (\<exists>r. st_outbox s' = st_outbox s @ [r] \<and> o_status r = ''planned'' \<and> \<not> list_ex (outbox_clash r) (st_outbox s))"
  using assms by (auto simp: write_outbox_command_def new_outbox_row_def Let_def split: if_splits)

lemma write_outbox_frame:
  "write_outbox n cs s = Inr s' \<Longrightarrow>
     st_revision s' = st_revision s \<and> st_evidence s' = st_evidence s
     \<and> (\<exists>new. st_outbox s' = st_outbox s @ new \<and> (\<forall>r \<in> set new. o_status r = ''planned''))
     \<and> (outbox_ok (st_outbox s) \<longrightarrow> outbox_ok (st_outbox s'))"
proof (induction cs arbitrary: s)
  case (Cons c cs)
  then obtain s1 where s1: "write_outbox_command n c s = Inr s1" "write_outbox n cs s1 = Inr s'"
    by (auto split: sum.splits)
  obtain r where r: "st_outbox s1 = st_outbox s @ [r]" "o_status r = ''planned''" "\<not> list_ex (outbox_clash r) (st_outbox s)"
    "st_revision s1 = st_revision s" "st_evidence s1 = st_evidence s"
    using write_outbox_command_frame [OF s1(1)] by blast
  have ok: "outbox_ok (st_outbox s) \<longrightarrow> outbox_ok (st_outbox s1)" using r outbox_ok_snoc by simp
  obtain new where new: "st_outbox s' = st_outbox s1 @ new" "\<forall>r \<in> set new. o_status r = ''planned''"
    "outbox_ok (st_outbox s1) \<longrightarrow> outbox_ok (st_outbox s')" "st_revision s' = st_revision s1" "st_evidence s' = st_evidence s1"
    using Cons.IH [OF s1(2)] by blast
  have "st_outbox s' = st_outbox s @ ([r] @ new)" using r new by simp
  moreover have "\<forall>x \<in> set ([r] @ new). o_status x = ''planned''" using r new by simp
  ultimately show ?case using ok new r by metis
qed simp

lemma write_working_set_frame:
  "write_working_set si sl p revision s = Inr s' \<Longrightarrow>
     st_evidence s' = st_evidence s \<and> st_outbox s' = st_outbox s \<and> st_revision s' = st_revision s"
  by (auto simp: write_working_set_def write_selected_def write_foreign_def sum_bind_def Let_def
      split: if_splits sum.splits option.splits prod.splits pyval.splits)

text \<open>What a commit adds to the store once its rows of the session are written.\<close>

lemma commit_frame:
  assumes "st_evidence s1 = st_evidence s \<and> st_outbox s1 = st_outbox s \<and> st_revision s1 = st_revision s"
    and ev: "write_evidence revision evs s1 = Inr s2" and ob: "write_outbox revision ob s2 = Inr s3"
  shows "(\<exists>es. st_evidence s3 = st_evidence s @ es) \<and> rows_follow (st_outbox s) (st_outbox s3)
    \<and> (outbox_ok (st_outbox s) \<longrightarrow> outbox_ok (st_outbox s3))"
proof -
  obtain es where es: "st_evidence s2 = st_evidence s1 @ es" "st_outbox s2 = st_outbox s1"
    using write_evidence_frame [OF ev] by blast
  obtain new where new: "st_outbox s3 = st_outbox s2 @ new" "\<forall>r \<in> set new. o_status r = ''planned''"
    "outbox_ok (st_outbox s2) \<longrightarrow> outbox_ok (st_outbox s3)" "st_evidence s3 = st_evidence s2"
    using write_outbox_frame [OF ob] by blast
  have "rows_follow (st_outbox s) (st_outbox s @ new)" using new(2) by (rule rows_follow_append)
  then show ?thesis using assms(1) es new(1,3,4) by simp
qed

lemma commit_transaction_frame:
  assumes "commit_transaction rl m ev ob current s = Inr (t, s')"
  shows "st_revision s' = Suc (st_revision s) \<and> (\<exists>es. st_evidence s' = st_evidence s @ es)
    \<and> rows_follow (st_outbox s) (st_outbox s') \<and> (outbox_ok (st_outbox s) \<longrightarrow> outbox_ok (st_outbox s'))
    \<and> tr_revision t = Suc (st_revision s)"
proof -
  obtain vl changed pending working s1 s2 s3 where *:
    "write_session working (Suc (st_revision s)) s = Inr s1"
    "write_evidence (Suc (st_revision s)) (ev @ pending) s1 = Inr s2"
    "write_outbox (Suc (st_revision s)) ob s2 = Inr s3" "s' = s3\<lparr>st_revision := Suc (st_revision s)\<rparr>"
    "tr_revision t = Suc (st_revision s)"
    using assms by (auto simp: commit_transaction_def sum_bind_def Let_def split: sum.splits prod.splits if_splits)
  show ?thesis using commit_frame [OF write_session_frame [OF *(1)] *(2,3)] *(4,5) by simp
qed

lemma commit_working_set_frame:
  assumes "commit_working_set req m ev ob current s = Inr (t, s')"
  shows "st_revision s' = Suc (st_revision s) \<and> (\<exists>es. st_evidence s' = st_evidence s @ es)
    \<and> rows_follow (st_outbox s) (st_outbox s') \<and> (outbox_ok (st_outbox s) \<longrightarrow> outbox_ok (st_outbox s'))
    \<and> tr_revision t = Suc (st_revision s)"
proof -
  obtain pending working s1 s2 s3 where *:
    "write_working_set (selected_items req s) (selected_leases req s) working (Suc (st_revision s)) s = Inr s1"
    "write_evidence (Suc (st_revision s)) (ev @ pending) s1 = Inr s2"
    "write_outbox (Suc (st_revision s)) ob s2 = Inr s3" "s' = s3\<lparr>st_revision := Suc (st_revision s)\<rparr>"
    "tr_revision t = Suc (st_revision s)"
    using assms
    by (auto simp: commit_working_set_def store_part_def sum_bind_def Let_def split: sum.splits prod.splits if_splits)
  show ?thesis using commit_frame [OF write_working_set_frame [OF *(1)] *(2,3)] *(4,5) by simp
qed

lemma commit_rows_frame:
  assumes "commit_rows P f detail ev s = Inr (c, s')" "\<And>r. P r \<Longrightarrow> outbox_edge r (f r)"
  shows "st_revision s' = Suc (st_revision s) \<and> (\<exists>es. st_evidence s' = st_evidence s @ es)
    \<and> rows_follow (st_outbox s) (st_outbox s') \<and> (outbox_ok (st_outbox s) \<longrightarrow> outbox_ok (st_outbox s'))
    \<and> oc_base_revision c = st_revision s \<and> oc_revision c = Suc (st_revision s)
    \<and> st_outbox s' = map (\<lambda>r. if P r then f r else r) (st_outbox s)"
proof -
  obtain s1 where s1: "write_evidence (Suc (st_revision s)) ev (update_rows P f s) = Inr s1"
    "s' = s1\<lparr>st_revision := Suc (st_revision s)\<rparr>" "c = \<lparr>oc_base_revision = st_revision s, oc_revision = Suc (st_revision s)\<rparr>"
    using assms(1) by (auto simp: commit_rows_def sum_bind_def split: if_splits sum.splits)
  have step: "row_step r (if P r then f r else r)" for r using assms(2) by (simp add: row_step_def)
  have out: "st_outbox s' = map (\<lambda>r. if P r then f r else r) (st_outbox s)"
    using write_evidence_frame [OF s1(1)] s1(2) by (simp add: update_rows_def)
  have "rows_follow (st_outbox s) (st_outbox s')" unfolding out using step by (rule rows_follow_map)
  moreover have "outbox_ok (st_outbox s) \<longrightarrow> outbox_ok (st_outbox s')" unfolding out using outbox_ok_map step by simp
  moreover have "\<exists>es. st_evidence s' = st_evidence s @ es"
    using write_evidence_frame [OF s1(1)] s1(2) by (simp add: update_rows_def)
  ultimately show ?thesis using s1(2,3) out by simp
qed

section \<open>The contract\<close>

locale store_operation =
  fixes op :: "runtime_store \<Rightarrow> ('e + 'a) \<times> runtime_store"
  assumes undone: "isl (fst (op s)) \<Longrightarrow> snd (op s) = s"
    and commits: "snd (op s) = s \<or> st_revision (snd (op s)) = Suc (st_revision s)"
    and evidence_kept: "\<exists>es. st_evidence (snd (op s)) = st_evidence s @ es"
    and rows: "rows_follow (st_outbox s) (st_outbox (snd (op s)))"
    and keeps_ok: "outbox_ok (st_outbox s) \<Longrightarrow> outbox_ok (st_outbox (snd (op s)))"
begin

lemma revision_le: "st_revision s \<le> st_revision (snd (op s))"
  using commits [of s] by auto

lemma same_revision: "st_revision (snd (op s)) = st_revision s \<Longrightarrow> snd (op s) = s"
  using commits [of s] by auto

lemma succeeded_final:
  assumes "i < length (st_outbox s)" "o_status (st_outbox s ! i) = ''succeeded''"
  shows "st_outbox (snd (op s)) ! i = st_outbox s ! i"
  using rows_follow_nth [OF rows [of s] assms(1)] succeeded_no_edge [OF assms(2)] by (auto simp: row_step_def)

lemma not_executed_blindly:
  assumes "i < length (st_outbox s)" "o_status (st_outbox s ! i) = ''unknown''"
    "o_retry_boundary (st_outbox s ! i) \<noteq> PStr ''idempotent''"
  shows "o_status (st_outbox (snd (op s)) ! i) \<noteq> ''in_flight''"
  using rows_follow_nth [OF rows [of s] assms(1)] assms(2,3)
  by (auto simp: row_step_def may_enter_flight_def record_result_def demote_row_def elim!: outbox_edgeE)

end

lemma atomically_operation:
  assumes "\<And>s a s'. body s = Inr (a, s') \<Longrightarrow> st_revision s' = Suc (st_revision s)
      \<and> (\<exists>es. st_evidence s' = st_evidence s @ es)
      \<and> rows_follow (st_outbox s) (st_outbox s') \<and> (outbox_ok (st_outbox s) \<longrightarrow> outbox_ok (st_outbox s'))"
  shows "store_operation (atomically body)"
proof
  fix s
  show "isl (fst (atomically body s)) \<Longrightarrow> snd (atomically body s) = s"
    by (auto simp: atomically_def split: sum.splits)
  show "snd (atomically body s) = s \<or> st_revision (snd (atomically body s)) = Suc (st_revision s)"
    using assms by (auto simp: atomically_def split: sum.splits)
  show "\<exists>es. st_evidence (snd (atomically body s)) = st_evidence s @ es"
    using assms by (auto simp: atomically_def split: sum.splits)
  show "rows_follow (st_outbox s) (st_outbox (snd (atomically body s)))"
    using assms by (auto simp: atomically_def split: sum.splits)
  show "outbox_ok (st_outbox s) \<Longrightarrow> outbox_ok (st_outbox (snd (atomically body s)))"
    using assms by (auto simp: atomically_def split: sum.splits)
qed

interpretation transact: store_operation "transact m expected ev ob" for m expected ev ob
  unfolding transact_def
  by (rule atomically_operation)
     (auto simp: sum_bind_def split: sum.splits option.splits dest: commit_transaction_frame)

interpretation working: store_operation "transact_working_set req m expected ev ob" for req m expected ev ob
  unfolding transact_working_set_def
  by (rule atomically_operation)
     (auto simp: sum_bind_def store_part_def split: sum.splits option.splits dest: commit_working_set_frame)

interpretation replace: store_operation "replace_session p expected ev ob" for p expected ev ob
  unfolding replace_session_def
  by (rule atomically_operation) (auto split: option.splits dest: commit_transaction_frame)

interpretation mark: store_operation "mark_outbox_in_flight cid owner now ev" for cid owner now ev
  unfolding mark_outbox_in_flight_def
  by (rule atomically_operation, drule commit_rows_frame)
     (auto simp: may_enter_flight_def intro: outbox_edge.start)

interpretation outcome: store_operation "record_outbox_result cid status ev ref err owner"
  for cid status ev ref err owner
proof -
  have edge: "outbox_edge r (record_result status err ref r)"
    if "status \<in> {''succeeded'', ''failed''}" "status = ''succeeded'' \<longrightarrow> truthy ref" "may_record cid owner r" for r
  proof (rule outbox_edge.result)
    show "may_record (o_command_id r) owner r" using that(3) by (simp add: may_record_def)
  qed (use that in auto)
  show "store_operation (record_outbox_result cid status ev ref err owner)"
    unfolding record_outbox_result_def
  proof (rule atomically_operation)
    fix s c s'
    assume body: "(if status \<notin> {''succeeded'', ''failed''}
       then Inl (PERSISTENCE_INVALID ''Outbox result must be succeeded or failed.'')
       else if status = ''succeeded'' \<and> (ev = [] \<or> \<not> truthy ref)
       then Inl (PERSISTENCE_INVALID ''A successful outbox result requires evidence and an external result reference.'')
       else commit_rows (may_record cid owner) (record_result status err ref)
              ''Outbox command is missing, not owned by this executor, or cannot record the requested result.'' ev s)
      = Inr (c, s')"
    then have ok: "status \<in> {''succeeded'', ''failed''}" "status = ''succeeded'' \<longrightarrow> truthy ref"
      and rows: "commit_rows (may_record cid owner) (record_result status err ref)
              ''Outbox command is missing, not owned by this executor, or cannot record the requested result.'' ev s
        = Inr (c, s')"
      by (simp_all split: if_split_asm)
    from commit_rows_frame [OF rows edge [OF ok]]
    show "st_revision s' = Suc (st_revision s) \<and> (\<exists>es. st_evidence s' = st_evidence s @ es)
      \<and> rows_follow (st_outbox s) (st_outbox s') \<and> (outbox_ok (st_outbox s) \<longrightarrow> outbox_ok (st_outbox s'))"
      by blast
  qed
qed

interpretation demote: store_operation "demote_dead dead" for dead
proof
  fix s
  have step: "row_step r (if demoted_by dead r then demote_row r else r)" for r
    by (auto simp: row_step_def demoted_by_def intro: outbox_edge.demote)
  show "isl (fst (demote_dead dead s)) \<Longrightarrow> snd (demote_dead dead s) = s"
    "snd (demote_dead dead s) = s \<or> st_revision (snd (demote_dead dead s)) = Suc (st_revision s)"
    "\<exists>es. st_evidence (snd (demote_dead dead s)) = st_evidence s @ es"
    by (auto simp: demote_dead_def update_rows_def)
  show "rows_follow (st_outbox s) (st_outbox (snd (demote_dead dead s)))"
    using rows_follow_map [of "st_outbox s"] step by (auto simp: demote_dead_def update_rows_def)
  show "outbox_ok (st_outbox s) \<Longrightarrow> outbox_ok (st_outbox (snd (demote_dead dead s)))"
    using outbox_ok_map [of "st_outbox s"] step by (auto simp: demote_dead_def update_rows_def)
qed

end
