(* ===== verification/Side_Effects.thy ===== *)
theory Side_Effects
  imports Store_Contract
begin

text \<open>
  Side effects through the outbox (\<open>core/side_effect_outbox.py\<close>): planning a command, marking
  its attempt in flight under the execution guard of this process, recording its result,
  reconciling it, and the revision token of the loaded session. A process has the store, its
  loaded session, the commands it holds with their owner tokens and a remaining life; whether some process
  holds the execution lock of a command, the clock and fresh owner tokens are arguments.
  Refreshing the files materialized from the store is not modelled.
\<close>

section \<open>State\<close>

text \<open>
  What a call of GitHub fails with: its reason code, whether it may be retried, and the
  details. \<open>ProcessDied\<close> is no exception of the program: it marks a run that was killed.
\<close>

record github_error =
  ge_reason_code :: string
  ge_retryable :: bool
  ge_detail :: string
  ge_diagnostics :: pydict

datatype effect_error =
    SessionError string store_error
  | WorkflowError string string pydict
  | RuntimeError string
  | AssertionError string
  | GitHubRaised github_error
  | EffectRaised py_exn
  | ProcessDied

record process =
  px_store :: runtime_store
  px_session :: pydict
  px_held :: "(string \<times> string) list"
  px_life :: nat

fun store_reason :: "store_error \<Rightarrow> string" where
  "store_reason (StoreError code detail) = code"
| "store_reason (StaleRevisionError expected actual) = ''STALE_REVISION''"
| "store_reason (StoreRaised e) = []"

text \<open>A store error is re-raised as a session error; any other exception passes through.\<close>

definition wrap_store_error :: "store_error \<Rightarrow> effect_error" where
  "wrap_store_error e = (case e of StoreRaised x \<Rightarrow> EffectRaised x | _ \<Rightarrow> SessionError (store_reason e) e)"

definition side_effect_in_progress :: "string \<Rightarrow> effect_error" where
  "side_effect_in_progress effect_type =
     WorkflowError ''PUBLISH_BLOCKED'' ''SIDE_EFFECT_IN_PROGRESS'' [(''effect_type'', PStr effect_type)]"

section \<open>The token of the session\<close>

definition session_token :: "pydict \<Rightarrow> pyval" where
  "session_token session = (case dget session ''persistence'' of PDict p \<Rightarrow> dget p ''revision'' | _ \<Rightarrow> PNone)"

text \<open>An integer or a truth value, as both compare and count as integers.\<close>

definition as_int :: "pyval \<Rightarrow> int option" where
  "as_int v = (case v of PInt i \<Rightarrow> Some i | PBool b \<Rightarrow> Some (if b then 1 else 0) | _ \<Rightarrow> None)"

definition advance_token :: "outbox_commit option \<Rightarrow> pydict \<Rightarrow> pydict" where
  "advance_token commit session =
     (case commit of
        None \<Rightarrow> session
      | Some c \<Rightarrow>
          (case dget session ''persistence'' of
             PDict p \<Rightarrow>
               if as_int (dget p ''revision'') = Some (int (oc_base_revision c))
               then dset ''persistence'' (PDict (dset ''revision'' (PInt (int (oc_revision c))) p)) session
               else session
           | _ \<Rightarrow> session))"

definition guard_token :: "pydict \<Rightarrow> int option" where
  "guard_token session = as_int (session_token session)"

section \<open>Operations\<close>

text \<open>Taking and leaving the execution guard of a command.\<close>

definition enter_guard :: "(string \<Rightarrow> bool) \<Rightarrow> string \<Rightarrow> string \<Rightarrow> string \<Rightarrow> process \<Rightarrow> (effect_error + unit) \<times> process" where
  "enter_guard locked owner effect_type idempotency_key x =
     (let command_id = outbox_command_id effect_type idempotency_key
      in if map_of (px_held x) command_id \<noteq> None
         then (Inl (RuntimeError ''An execution guard for this side effect is already active in this process.''), x)
         else if locked command_id then (Inl (side_effect_in_progress effect_type), x)
         else (Inr (), x\<lparr>px_held := (command_id, owner) # px_held x\<rparr>))"

definition leave_guard :: "string \<Rightarrow> string \<Rightarrow> process \<Rightarrow> process" where
  "leave_guard effect_type idempotency_key x =
     x\<lparr>px_held := AList.delete (outbox_command_id effect_type idempotency_key) (px_held x)\<rparr>"

text \<open>
  A process can be killed before any of its transactions, and never in the middle of one:
  \<open>px_life\<close> is the number of steps it still lives.
\<close>

definition tick :: "process \<Rightarrow> process" where
  "tick x = x\<lparr>px_life := px_life x - 1\<rparr>"

definition commit_store :: "(runtime_store \<Rightarrow> (store_error + 'a) \<times> runtime_store) \<Rightarrow> ('a \<Rightarrow> outbox_commit option)
      \<Rightarrow> process \<Rightarrow> (effect_error + unit) \<times> process" where
  "commit_store op commit_of x =
     (if px_life x = 0 then (Inl ProcessDied, x)
      else case op (px_store x) of
        (Inl e, st) \<Rightarrow> (Inl (wrap_store_error e), (tick x)\<lparr>px_store := st\<rparr>)
      | (Inr a, st) \<Rightarrow> (Inr (), (tick x)\<lparr>px_store := st, px_session := advance_token (commit_of a) (px_session x)\<rparr>))"

definition outbox_command_of :: "side_effect_attempt \<Rightarrow> string \<Rightarrow> pydict" where
  "outbox_command_of attempt command_id =
     [(''command_id'', PStr command_id), (''effect_type'', PStr (sa_side_effect_type attempt)),
      (''idempotency_key'', PStr (sa_idempotency_key attempt)),
      (''operation_category'', PStr (sa_side_effect_type attempt)),
      (''retry_boundary'', PStr (retry_boundary_for (sa_side_effect_type attempt)))]"

definition transaction_commit :: "'a transaction_result \<Rightarrow> outbox_commit option" where
  "transaction_commit t = Some \<lparr>oc_base_revision = tr_revision t - 1, oc_revision = tr_revision t\<rparr>"

definition plan_effect :: "side_effect_attempt \<Rightarrow> string \<Rightarrow> bool \<Rightarrow> process \<Rightarrow> (effect_error + unit) \<times> process" where
  "plan_effect attempt command_id guard_revision x =
     commit_store
       (transact (\<lambda>current. Inr ((), current)) (if guard_revision then guard_token (px_session x) else None) []
          [outbox_command_of attempt command_id])
       transaction_commit x"

definition mark_effect ::
    "string \<Rightarrow> string \<Rightarrow> string option \<Rightarrow> pydict list \<Rightarrow> process \<Rightarrow> (effect_error + unit) \<times> process" where
  "mark_effect now command_id owner evidence =
     commit_store (mark_outbox_in_flight command_id owner now evidence) Some"

definition may_begin :: "outbox_row \<Rightarrow> bool" where
  "may_begin r \<longleftrightarrow> o_status r \<in> {''planned'', ''failed''}
     \<or> (o_status r = ''unknown'' \<and> o_retry_boundary r = PStr ''idempotent'')"

definition reconcile_required :: "side_effect_attempt \<Rightarrow> effect_error" where
  "reconcile_required attempt =
     WorkflowError ''PUBLISH_BLOCKED'' ''PUBLISH_RECONCILE_REQUIRED''
       [(''item_id'', PStr (sa_item_id attempt)), (''effect_type'', PStr (sa_side_effect_type attempt))]"

definition find_command :: "side_effect_attempt \<Rightarrow> process \<Rightarrow> outbox_row option" where
  "find_command attempt x = outbox_command (sa_side_effect_type attempt) (sa_idempotency_key attempt) (px_store x)"

definition and_then :: "(effect_error + unit) \<times> process \<Rightarrow> (process \<Rightarrow> (effect_error + unit) \<times> process)
      \<Rightarrow> (effect_error + unit) \<times> process" where
  "and_then r f = (case r of (Inl e, x) \<Rightarrow> (Inl e, x) | (Inr u, x) \<Rightarrow> f x)"

definition begin_attempt ::
    "string \<Rightarrow> side_effect_attempt \<Rightarrow> pydict list \<Rightarrow> string \<Rightarrow> string \<Rightarrow> process \<Rightarrow> (effect_error + unit) \<times> process" where
  "begin_attempt now attempt records command_id owner x =
     (case find_command attempt x of
        None \<Rightarrow> and_then (plan_effect attempt command_id True x) (mark_effect now command_id (Some owner) records)
      | Some r \<Rightarrow> if may_begin r then mark_effect now command_id (Some owner) records x
                  else (Inl (reconcile_required attempt), x))"

definition finish_attempt ::
    "string \<Rightarrow> side_effect_attempt \<Rightarrow> pydict list \<Rightarrow> string \<Rightarrow> string option \<Rightarrow> process \<Rightarrow> (effect_error + unit) \<times> process" where
  "finish_attempt now attempt records command_id owner x =
     (let planned = (case find_command attempt x of
            None \<Rightarrow> plan_effect attempt command_id False x
          | Some r \<Rightarrow> (Inr (), x));
          is_planned = (case find_command attempt x of None \<Rightarrow> True | Some r \<Rightarrow> o_status r = ''planned'')
      in and_then planned (\<lambda>x1.
         and_then (if is_planned then mark_effect now command_id owner [] x1 else (Inr (), x1))
           (commit_store
              (record_outbox_result command_id (sa_status attempt) records (sa_external_url attempt)
                 (if sa_status attempt = ''failed'' then Some ''external_error'' else None) owner)
              Some)))"

definition persist_side_effect_attempt ::
    "string \<Rightarrow> pydict list \<Rightarrow> process \<Rightarrow> (effect_error + unit) \<times> process" where
  "persist_side_effect_attempt now records x =
     (case records of
        [r] \<Rightarrow>
          (case sum_bind (py_dict (py_or (dget r ''payload'') (PDict []))) attempt_from_json of
             Inl e \<Rightarrow> (Inl (EffectRaised e), x)
           | Inr attempt \<Rightarrow>
               let command_id = outbox_command_id (sa_side_effect_type attempt) (sa_idempotency_key attempt);
                   held = map_of (px_held x) command_id
               in if sa_status attempt = ''in_flight''
                  then (case held of
                          None \<Rightarrow> (Inl (RuntimeError ''Marking a side effect in flight requires its execution guard.''), x)
                        | Some owner \<Rightarrow> begin_attempt now attempt records command_id owner x)
                  else if sa_status attempt \<in> {''succeeded'', ''failed''}
                  then finish_attempt now attempt records command_id held x
                  else (Inl (EffectRaised (ValueError
                          (''Unsupported side-effect attempt status: '' @ sa_status attempt))), x))
      | _ \<Rightarrow> (Inl (EffectRaised (ValueError ''Side-effect persistence requires exactly one evidence record.'')), x))"

definition reconcile_side_effect_no_effect :: "string \<Rightarrow> string \<Rightarrow> process \<Rightarrow> (effect_error + unit) \<times> process" where
  "reconcile_side_effect_no_effect effect_type idempotency_key =
     commit_store
       (record_outbox_result (outbox_command_id effect_type idempotency_key) ''failed'' [] PNone
          (Some ''reconciled_no_effect'') None)
       Some"

definition owner_alive :: "(string \<Rightarrow> bool) \<Rightarrow> process \<Rightarrow> outbox_row \<Rightarrow> bool" where
  "owner_alive locked x r \<longleftrightarrow> map_of (px_held x) (o_command_id r) \<noteq> None \<or> locked (o_command_id r)"

text \<open>
  \<open>side_effect_state\<close>: the row, after demoting it when its executor is gone, and whether its
  owner is alive. The recovery probes the locks again, so its answer is an argument too.
\<close>

definition side_effect_state ::
    "(string \<Rightarrow> bool) \<Rightarrow> (string \<Rightarrow> bool) \<Rightarrow> string \<Rightarrow> string \<Rightarrow> process
       \<Rightarrow> (effect_error + (outbox_row \<times> bool) option) \<times> process" where
  "side_effect_state locked locked' effect_type idempotency_key x =
     (let row = (\<lambda>x. outbox_command effect_type idempotency_key (px_store x));
          recover = commit_store (demote_dead (recovery_candidates locked' (px_store x))) (map_option fst);
          stepped = (case row x of
              Some r \<Rightarrow> if o_status r = ''in_flight'' \<and> \<not> owner_alive locked x r then recover x else (Inr (), x)
            | None \<Rightarrow> (Inr (), x))
      in case stepped of
           (Inl e, x') \<Rightarrow> (Inl e, x')
         | (Inr u, x') \<Rightarrow>
             (Inr (map_option (\<lambda>r. (r, o_status r = ''in_flight'' \<and> owner_alive locked' x' r)) (row x')), x'))"

end
