(* ===== verification/Session_Store.thy ===== *)
theory Session_Store
  imports Side_Effects Stack_Context
begin

text \<open>
  The session as the commands see it (\<open>core/session.py\<close>): loading it from the store with its
  revision token, saving it back, transactions on it, the rerun of an operation that lost a
  race, the change a command made to the metadata, and the cached observation of the stack.
  A store that does not exist yet is \<open>None\<close>. The import of a legacy session file, the
  conversion of the lease timestamps to \<open>datetime\<close> values and the files written beside the
  store are not modelled; the path of the ledger is an argument.
\<close>

section \<open>Loading and saving\<close>

definition SCHEMA_VERSION :: int where
  "SCHEMA_VERSION = 3"

definition with_persistence :: "nat \<Rightarrow> pydict \<Rightarrow> pydict" where
  "with_persistence revision payload =
     dset ''persistence'' (PDict [(''schema_version'', PInt SCHEMA_VERSION), (''revision'', PInt (int revision))]) payload"

definition session_error :: "string \<Rightarrow> string \<Rightarrow> effect_error" where
  "session_error code detail = SessionError code (StoreError code detail)"

definition session_defaults :: "string \<Rightarrow> string \<Rightarrow> string \<Rightarrow> pydict \<Rightarrow> pydict" where
  "session_defaults repo pr_number ledger_path payload =
     dsetdefault ''ledger_path'' (PStr ledger_path)
       (dsetdefault ''leases'' (PDict [])
         (dsetdefault ''items'' (PDict [])
           (dsetdefault ''pr_number'' (PStr pr_number)
             (dsetdefault ''repo'' (PStr repo)
               (dsetdefault ''session_id'' (PStr (repo @ ''#'' @ pr_number)) payload)))))"

text \<open>\<open>store.recover()\<close>: the commands whose executor is gone become unknown.\<close>

definition recover :: "(string \<Rightarrow> bool) \<Rightarrow> runtime_store \<Rightarrow> runtime_store" where
  "recover lock_held s = snd (demote_dead (recovery_candidates lock_held s) s)"

definition load_session ::
    "string \<Rightarrow> string \<Rightarrow> string \<Rightarrow> (string \<Rightarrow> bool) \<Rightarrow> runtime_store option
       \<Rightarrow> (effect_error + pydict) \<times> runtime_store option" where
  "load_session repo pr_number ledger_path lock_held st =
     (case st of
        None \<Rightarrow> (Inl (session_error ''SESSION_NOT_FOUND''
                   (''No session exists for '' @ repo @ '' PR '' @ pr_number @ ''. Run review first.'')), None)
      | Some s \<Rightarrow>
          let s' = recover lock_held s
          in (case load_snapshot s' of
                Inl e \<Rightarrow> (Inl (wrap_store_error e), Some s')
              | Inr payload \<Rightarrow>
                  (Inr (session_defaults repo pr_number ledger_path (with_persistence (st_revision s') payload)), Some s')))"

definition new_session :: "string \<Rightarrow> string \<Rightarrow> string \<Rightarrow> string \<Rightarrow> pydict" where
  "new_session repo pr_number ledger_path status =
     [(''session_id'', PStr (repo @ ''#'' @ pr_number)), (''repo'', PStr repo), (''pr_number'', PStr pr_number),
      (''status'', PStr status), (''items'', PDict []), (''leases'', PDict []), (''ledger_path'', PStr ledger_path),
      (''metadata'', PDict [])]"

definition empty_store :: runtime_store where
  "empty_store = \<lparr>st_session_id = [], st_revision = 0, st_root = [], st_items = [], st_leases = [],
     st_lease_events = [], st_evidence = [], st_outbox = []\<rparr>"

text \<open>
  \<open>bootstrap\<close> with \<open>require_new\<close>: the payload becomes revision 1 of a new store; a store
  that exists already is not overwritten.
\<close>

definition bootstrap :: "pydict \<Rightarrow> pydict list \<Rightarrow> runtime_store option
      \<Rightarrow> (store_error + nat) \<times> runtime_store option" where
  "bootstrap payload evidence st =
     (case st of
        Some s \<Rightarrow> (Inl (case load_snapshot s of Inl e \<Rightarrow> e | Inr p \<Rightarrow> StaleRevisionError 0 (st_revision s)), Some s)
      | None \<Rightarrow>
          (case sum_bind (write_session payload 1 empty_store) (write_evidence 1 evidence) of
             Inl e \<Rightarrow> (Inl e, None)
           | Inr s \<Rightarrow>
               let s' = s\<lparr>st_revision := 1\<rparr>
               in (case load_snapshot s' of Inl e \<Rightarrow> (Inl e, Some s') | Inr p \<Rightarrow> (Inr 1, Some s'))))"

text \<open>
  \<open>save_session\<close> returns the payload it was given as it leaves it: without its buffered
  evidence, and with the new token when the save committed.
\<close>

definition save_session :: "pydict \<Rightarrow> runtime_store option \<Rightarrow> (effect_error + unit) \<times> pydict \<times> runtime_store option" where
  "save_session payload st =
     (case take_pending_evidence payload of
        Inl e \<Rightarrow> (Inl (EffectRaised e), dpop pending_key payload, st)
      | Inr (evidence, p) \<Rightarrow>
          (case st of
             Some s \<Rightarrow>
               (case guard_token p of
                  None \<Rightarrow> (Inl (session_error ''UNVERSIONED_SESSION_WRITE''
                             ''Existing runtime state must be loaded before it can be saved.''), p, st)
                | Some token \<Rightarrow>
                    (case replace_session p (Some token) evidence [] s of
                       (Inl e, s') \<Rightarrow> (Inl (wrap_store_error e), p, Some s')
                     | (Inr t, s') \<Rightarrow> (Inr (), with_persistence (tr_revision t) p, Some s')))
           | None \<Rightarrow>
               (case bootstrap p evidence None of
                  (Inl e, st') \<Rightarrow> (Inl (wrap_store_error e), p, st')
                | (Inr revision, st') \<Rightarrow> (Inr (), with_persistence revision p, st'))))"

definition transact_session ::
    "'v mutation \<Rightarrow> int option \<Rightarrow> pydict list \<Rightarrow> pydict list \<Rightarrow> runtime_store
       \<Rightarrow> (effect_error + 'v transaction_result) \<times> runtime_store" where
  "transact_session mutation expected evidence outbox s =
     (case transact mutation expected evidence outbox s of
        (Inl e, s') \<Rightarrow> (Inl (wrap_store_error e), s')
      | (Inr t, s') \<Rightarrow> (Inr (t\<lparr>tr_payload := with_persistence (tr_revision t) (tr_payload t)\<rparr>), s'))"

section \<open>Losing a race\<close>

definition STALE_REVISION_ATTEMPTS :: nat where
  "STALE_REVISION_ATTEMPTS = 3"

definition is_stale :: "effect_error \<Rightarrow> bool" where
  "is_stale e \<longleftrightarrow> (case e of SessionError code _ \<Rightarrow> code = ''STALE_REVISION'' | _ \<Rightarrow> False)"

fun retry_on_stale_revision :: "nat \<Rightarrow> ('w \<Rightarrow> (effect_error + 'a) \<times> 'w) \<Rightarrow> 'w \<Rightarrow> (effect_error + 'a) \<times> 'w" where
  "retry_on_stale_revision 0 operation w = (Inl (AssertionError ''unreachable''), w)"
| "retry_on_stale_revision (Suc n) operation w =
     (case operation w of
        (Inr a, w') \<Rightarrow> (Inr a, w')
      | (Inl e, w') \<Rightarrow> if \<not> is_stale e \<or> n = 0 then (Inl e, w') else retry_on_stale_revision n operation w')"

definition RETRYABLE_SESSION_REASONS :: "string list" where
  "RETRYABLE_SESSION_REASONS = [''STALE_REVISION'', ''PERSISTENCE_BUSY'']"

section \<open>Metadata\<close>

text \<open>\<open>==\<close> on decoded JSON: truth values are numbers, and dictionaries are compared by key.\<close>

fun py_eq :: "pyval \<Rightarrow> pyval \<Rightarrow> bool" where
  "py_eq PNone = (\<lambda>w. w = PNone)"
| "py_eq (PBool b) = (\<lambda>w. as_int w = Some (if b then 1 else 0))"
| "py_eq (PInt i) = (\<lambda>w. as_int w = Some i)"
| "py_eq (PStr s) = (\<lambda>w. w = PStr s)"
| "py_eq (PList xs) =
     (\<lambda>w. case w of
        PList ys \<Rightarrow> length xs = length ys \<and> list_all (\<lambda>(same, y). same y) (zip (map py_eq xs) ys)
      | _ \<Rightarrow> False)"
| "py_eq (PDict d) =
     (\<lambda>w. case w of
        PDict e \<Rightarrow> length d = length e
          \<and> list_all (\<lambda>(k, same). case map_of e k of None \<Rightarrow> False | Some v \<Rightarrow> same v)
              (map (\<lambda>(k, v). (k, py_eq v)) d)
      | _ \<Rightarrow> False)"

record metadata_change =
  mc_updates :: pydict
  mc_removed :: "string list"

definition dict_or_empty :: "pyval \<Rightarrow> pydict" where
  "dict_or_empty v = (case v of PDict d \<Rightarrow> d | _ \<Rightarrow> [])"

definition metadata_delta :: "pyval \<Rightarrow> pyval \<Rightarrow> metadata_change" where
  "metadata_delta base local =
     (let b = dict_or_empty base; l = dict_or_empty local
      in \<lparr>mc_updates = filter (\<lambda>(k, v). case map_of b k of None \<Rightarrow> True | Some w \<Rightarrow> \<not> py_eq w v) l,
          mc_removed = filter (\<lambda>k. \<not> has_key l k) (map fst b)\<rparr>)"

definition apply_metadata_delta :: "pydict \<Rightarrow> metadata_change \<Rightarrow> pydict" where
  "apply_metadata_delta current delta =
     (let metadata = dict_or_empty (dget current ''metadata'');
          updated = fold (\<lambda>(k, v). dset k v) (mc_updates delta) metadata
      in dset ''metadata'' (PDict (fold dpop (mc_removed delta) updated)) current)"

definition cache_pull_request_context :: "pydict \<Rightarrow> pydict \<Rightarrow> pydict" where
  "cache_pull_request_context session context =
     (let metadata = dict_or_empty (dget_default session ''metadata'' (PDict []));
          previous = dget metadata ''pull_request_context'';
          previous_context = nested_get previous ''stack_context'';
          availability = dget context ''availability'';
          observed =
            (if availability \<in> {PStr ''present'', PStr ''absent''} then availability = PStr ''present''
             else nested_get previous ''stack_membership_observed'' = PBool True
                  \<or> nested_get previous_context ''availability'' = PStr ''present'')
      in dset ''metadata'' (PDict (dset ''pull_request_context''
           (PDict [(''authority'', PStr ''github_observation''), (''authoritative'', PBool False),
                   (''stack_context'', PDict context), (''stack_membership_observed'', PBool observed),
                   (''refreshed_at'', PStr (str_field context ''observed_at''))]) metadata)) session)"

definition cached_stack_context :: "pydict \<Rightarrow> pydict option" where
  "cached_stack_context session =
     (let observed = nested_get (dget session ''metadata'') ''pull_request_context''
      in if nested_get observed ''authoritative'' \<noteq> PBool False then None
         else as_dict (nested_get observed ''stack_context''))"

definition has_observed_stack_membership :: "pydict \<Rightarrow> bool" where
  "has_observed_stack_membership session =
     (let observed = nested_get (dget session ''metadata'') ''pull_request_context''
      in nested_get observed ''stack_membership_observed'' = PBool True
         \<or> nested_get (nested_get observed ''stack_context'') ''availability'' = PStr ''present'')"

end
