(* ===== verification/Gate_Service.thy ===== *)
theory Gate_Service
  imports Final_Gate Severity Session_Store Command_Templates
begin

text \<open>
  The final-gate service (\<open>core/gate.py\<close>): merging the observed review threads into the
  session, evaluating the kernel on the merged session, the result with its next action, and
  a whole run that reads GitHub, evaluates and saves. GitHub is a client of functions on its
  state; the rows of a snapshot file, the clock and the locks of other processes are
  arguments. The parsing of the snapshot file and telemetry are not modelled.
\<close>

section \<open>Results\<close>

record gate_result =
  gr_repo :: string
  gr_pr_number :: string
  gr_counts :: "(string \<times> nat) list"
  gr_failure_codes :: "string list"
  gr_check_requirement :: "string option"
  gr_logic_signals :: "pydict list"
  gr_reply_blockers :: "reply_detail list"
  gr_historical_replies :: "reply_detail list"
  gr_stack_context :: "pydict option"

definition gate_passed :: "gate_result \<Rightarrow> bool" where
  "gate_passed r \<longleftrightarrow> gr_failure_codes r = []"

definition gate_reason_code :: "gate_result \<Rightarrow> string option" where
  "gate_reason_code r = (case gr_failure_codes r of [] \<Rightarrow> None | c # cs \<Rightarrow> Some c)"

definition gate_waiting_on :: "gate_result \<Rightarrow> string option" where
  "gate_waiting_on r =
     (case gate_reason_code r of
        None \<Rightarrow> None
      | Some code \<Rightarrow>
          if code = [] then None
          else (case find (\<lambda>(c, k, w). c = code) FAILURE_ORDER of
                  Some (c, k, w) \<Rightarrow> Some w
                | None \<Rightarrow> Some (if code \<in> {''FINAL_GATE_STALE_REVISION_EVIDENCE'', ''FINAL_GATE_UNBOUND_REVISION_EVIDENCE''}
                                then ''validation_evidence'' else ''final_gate'')))"

definition gate_exit_code :: "gate_result \<Rightarrow> int" where
  "gate_exit_code r = (if gate_passed r then 0 else 5)"

section \<open>The next action\<close>

definition in_backticks :: "string \<Rightarrow> string" where
  "in_backticks s = ''`'' @ s @ ''`''"

definition gate_command :: "string \<Rightarrow> string \<Rightarrow> string" where
  "gate_command repo pr_number = in_backticks (''gh-address-cr final-gate '' @ repo @ '' '' @ pr_number)"

definition logic_validation_next_action :: "string \<Rightarrow> string \<Rightarrow> pydict list \<Rightarrow> string option" where
  "logic_validation_next_action repo pr_number signals =
     (let ids = map (\<lambda>s. stripped_field s ''item_id'')
            (filter (\<lambda>s. dget s ''gate_effect'' = PStr ''blocking''
                         \<and> dget s ''signal_type'' = PStr ''missing_required_evidence'') signals)
      in if ids = [] \<or> [] \<in> set ids then None
         else Some (''Record terminal-item validation evidence with ''
           @ py_join '', '' (map (\<lambda>i. in_backticks (tmpl_evidence_add_validation repo pr_number i)) ids)
           @ '', then rerun '' @ in_backticks (tmpl_final_gate repo pr_number) @ ''.''))"

definition revision_validation_next_action :: "string \<Rightarrow> string \<Rightarrow> pydict list \<Rightarrow> string" where
  "revision_validation_next_action repo pr_number signals =
     (let signal = (case find (\<lambda>s. dget s ''signal_type'' \<in> {PStr ''stale_revision_evidence'', PStr ''unbound_revision_evidence''}
                                  \<and> dget s ''gate_effect'' = PStr ''blocking'') signals of
                      None \<Rightarrow> [] | Some s \<Rightarrow> s);
          item_id = py_str (py_or (dget signal ''item_id'') (PStr ''<item_id>''))
      in ''Record fresh revision-bound validation with '' @ in_backticks (tmpl_evidence_add_validation repo pr_number item_id)
         @ '', then rerun '' @ in_backticks (tmpl_final_gate repo pr_number) @ ''.'')"

definition missing_reply_next_action :: "string \<Rightarrow> string \<Rightarrow> reply_detail list \<Rightarrow> string" where
  "missing_reply_next_action repo pr_number blockers =
     (case find (\<lambda>b. rd_recoverability b = ''reconcile'') blockers of
        Some b \<Rightarrow>
          (let item_id = (case rd_item_id b of None \<Rightarrow> ''<item_id>'' | Some i \<Rightarrow> text_or i ''<item_id>'')
           in ''The thread was resolved without a reply from this session. Let the runtime reply: ''
              @ in_backticks (tmpl_resolve_closed_fix repo pr_number item_id) @ '' after a code fix, or ''
              @ in_backticks (tmpl_resolve_closed_clarify repo pr_number item_id)
              @ '' when no change was needed. If you already replied, record it with ''
              @ in_backticks (tmpl_evidence_add_reply repo pr_number item_id) @ ''. Then rerun ''
              @ gate_command repo pr_number @ ''.'')
      | None \<Rightarrow> ''Run `gh-address-cr agent publish '' @ repo @ '' '' @ pr_number @ ''`, then rerun ''
              @ gate_command repo pr_number @ ''.'')"

definition next_action_with_pr ::
    "string \<Rightarrow> string \<Rightarrow> string \<Rightarrow> pydict list \<Rightarrow> reply_detail list \<Rightarrow> string option" where
  "next_action_with_pr reason repo pr_number signals blockers =
     (let target = repo @ '' '' @ pr_number; rerun = '', then rerun '' @ gate_command repo pr_number @ ''.''
      in if reason = ''FINAL_GATE_UNRESOLVED_REMOTE_THREADS''
         then Some (''Run `gh-address-cr address '' @ target @ '' --lean`, publish accepted evidence'' @ rerun)
         else if reason = ''FINAL_GATE_MISSING_REPLY_EVIDENCE'' then Some (missing_reply_next_action repo pr_number blockers)
         else if reason = ''FINAL_GATE_PENDING_CURRENT_LOGIN_REVIEW''
         then Some (''Submit or dismiss pending reviews for the current GitHub login'' @ rerun)
         else if reason = ''FINAL_GATE_BLOCKING_GITHUB_ITEMS''
         then Some (''Run `gh-address-cr agent publish '' @ target @ ''` or `gh-address-cr address '' @ target
                    @ '' --lean`'' @ rerun)
         else if reason = ''FINAL_GATE_BLOCKING_LOCAL_ITEMS''
         then Some (''Run `gh-address-cr review '' @ target @ ''` or close/defer local items'' @ rerun)
         else if reason = ''FINAL_GATE_MISSING_VALIDATION_EVIDENCE''
         then Some (case logic_validation_next_action repo pr_number signals of
                Some a \<Rightarrow> a
              | None \<Rightarrow> ''Run `gh-address-cr agent evidence add '' @ target @ '' ...`'' @ rerun)
         else if reason \<in> {''FINAL_GATE_STALE_REVISION_EVIDENCE'', ''FINAL_GATE_UNBOUND_REVISION_EVIDENCE''}
         then Some (revision_validation_next_action repo pr_number signals)
         else if reason = ''FINAL_GATE_PR_CHECKS_NOT_GREEN''
         then Some (''Wait for PR checks to pass or fix failing checks'' @ rerun)
         else if reason = ''FINAL_GATE_REQUIRED_CHECKS_MISSING''
         then Some (''This PR has no check runs (or its base branch requires none), so `--require-checks` / ''
                    @ ''`--require-required-checks` cannot be satisfied. Configure CI or required status checks, ''
                    @ ''or rerun '' @ gate_command repo pr_number @ '' without that flag.'')
         else if reason = ''FINAL_GATE_LOGIC_VALIDATION_BLOCKING'' then logic_validation_next_action repo pr_number signals
         else None)"

definition next_action_generic :: "string \<Rightarrow> string" where
  "next_action_generic reason =
     (if reason = ''FINAL_GATE_UNRESOLVED_REMOTE_THREADS''
      then ''Resolve all remote GitHub review threads, then rerun final-gate.''
      else if reason = ''FINAL_GATE_MISSING_REPLY_EVIDENCE''
      then ''Record durable reply evidence for terminal GitHub threads, then rerun final-gate.''
      else if reason = ''FINAL_GATE_PENDING_CURRENT_LOGIN_REVIEW''
      then ''Submit or dismiss pending reviews for the current GitHub login, then rerun final-gate.''
      else if reason = ''FINAL_GATE_BLOCKING_GITHUB_ITEMS''
      then ''Publish or resolve blocking GitHub review-thread items, then rerun final-gate.''
      else if reason = ''FINAL_GATE_BLOCKING_LOCAL_ITEMS''
      then ''Close or explicitly defer blocking local items, then rerun final-gate.''
      else if reason = ''FINAL_GATE_MISSING_VALIDATION_EVIDENCE''
      then ''Record validation evidence for terminal local findings, then rerun final-gate.''
      else if reason = ''FINAL_GATE_PR_CHECKS_NOT_GREEN''
      then ''Wait for PR checks to pass or fix failing checks, then rerun final-gate.''
      else if reason = ''FINAL_GATE_REQUIRED_CHECKS_MISSING''
      then ''Configure CI or required status checks, or rerun final-gate without the checks requirement.''
      else ''Inspect final-gate diagnostics, fix blockers, then rerun final-gate.'')"

definition gate_next_action :: "gate_result \<Rightarrow> string" where
  "gate_next_action r =
     (case gate_reason_code r of
        None \<Rightarrow> if gate_passed r then ''Completion may be claimed.'' else ''Status unknown: pending check results.''
      | Some reason \<Rightarrow>
          if gr_repo r \<noteq> [] \<and> gr_pr_number r \<noteq> []
          then (case next_action_with_pr reason (gr_repo r) (gr_pr_number r) (gr_logic_signals r) (gr_reply_blockers r) of
                  Some a \<Rightarrow> a | None \<Rightarrow> next_action_generic reason)
          else next_action_generic reason)"

definition final_gate_commands :: "string \<Rightarrow> string \<Rightarrow> (string \<times> string) list" where
  "final_gate_commands repo pr =
     (if repo = [] \<or> pr = [] then []
      else [(''address'', tmpl_address repo pr), (''publish'', tmpl_publish repo pr), (''final_gate'', tmpl_final_gate repo pr),
            (''batch_next'', tmpl_batch_next repo pr None), (''resolve'', tmpl_resolve_single repo pr),
            (''resolve_batch'', tmpl_resolve_batch repo pr ''batch-response.json''),
            (''resolve_homogeneous'', tmpl_resolve_homogeneous repo pr), (''resolve_decline'', tmpl_resolve_decline repo pr ''reject''),
            (''resolve_stale'', tmpl_resolve_stale repo pr), (''evidence_add_reply'', tmpl_evidence_add_reply repo pr ''<item_id>''),
            (''evidence_add_validation'', tmpl_evidence_add_validation repo pr ''<item_id>'')])"

definition text_or_none :: "string option \<Rightarrow> pyval" where
  "text_or_none x = (case x of None \<Rightarrow> PNone | Some s \<Rightarrow> PStr s)"

definition detail_to_dict :: "reply_detail \<Rightarrow> pyval" where
  "detail_to_dict d = PDict
     [(''item_id'', text_or_none (rd_item_id d)), (''thread_id'', text_or_none (rd_thread_id d)), (''state'', PStr (rd_state d)),
      (''reason_code'', PStr (rd_reason_code d)), (''recoverability'', PStr (rd_recoverability d))]"

definition gate_machine_summary :: "gate_result \<Rightarrow> pydict" where
  "gate_machine_summary r =
     (let stack = (case gr_stack_context r of None \<Rightarrow> [] | Some d \<Rightarrow> d)
      in [(''status'', PStr (if gate_passed r then ''PASSED'' else ''FAILED'')), (''repo'', PStr (gr_repo r)),
          (''pr_number'', PStr (gr_pr_number r)), (''item_id'', PNone), (''item_kind'', PNone),
          (''counts'', PDict (map (\<lambda>(k, n). (k, PInt (int n))) (gr_counts r))), (''artifact_path'', PNone),
          (''reason_code'', text_or_none (gate_reason_code r)), (''waiting_on'', text_or_none (gate_waiting_on r)),
          (''next_action'', PStr (gate_next_action r)), (''exit_code'', PInt (gate_exit_code r)), (''gate_scope'', PStr ''final''),
          (''completion_scope'', PStr ''pull_request''), (''stack_context'', PDict stack),
          (''stack_merge_readiness'', PStr (if str_field stack ''availability'' \<in> {''unavailable'', ''invalid''}
                                           then ''unknown'' else ''not_evaluated'')),
          (''failure_codes'', PList (map PStr (gr_failure_codes r))),
          (''check_requirement'', text_or_none (gr_check_requirement r)),
          (''commands'', PDict (map (\<lambda>(k, c). (k, PStr c)) (final_gate_commands (gr_repo r) (gr_pr_number r)))),
          (''logic_validation_signals'', PList (map PDict (gr_logic_signals r))),
          (''reply_evidence_blockers'', PList (map detail_to_dict (gr_reply_blockers r))),
          (''historical_reply_items'', PList (map detail_to_dict (gr_historical_replies r)))])"

section \<open>Merging the observed threads\<close>

definition raw_marker_of :: "pyval \<Rightarrow> string option" where
  "raw_marker_of v = (if v = PNone then None else Some (py_strip (py_str v)))"

definition thread_severity :: "pydict \<Rightarrow> pyval \<Rightarrow> pyval \<Rightarrow> pydict option" where
  "thread_severity thread first_body first_url =
     (case severity_evidence (dget thread ''severity'') ''github_payload'' (raw_marker_of (dget thread ''severity''))
             (py_or (dget thread ''url'') first_url) of
        Some e \<Rightarrow> Some e
      | None \<Rightarrow> if first_body = PNone then None
                else extract_severity_evidence first_body ''github_first_comment'' first_url)"

definition thread_priority :: "pydict \<Rightarrow> pyval \<Rightarrow> pyval \<Rightarrow> pydict option" where
  "thread_priority thread first_body first_url =
     (let given_priority = py_or (dget thread ''review_priority'') (dget thread ''priority'');
          marker = py_strip (py_str (py_or given_priority (PStr [])))
      in case review_priority_evidence given_priority ''github_payload'' (if marker = [] then None else Some marker)
               (py_or (dget thread ''url'') first_url) of
           Some e \<Rightarrow> Some e
         | None \<Rightarrow> if first_body = PNone then None
                   else extract_review_priority_evidence first_body ''github_first_comment'' first_url)"

definition extract_thread_severity_and_priority :: "pydict \<Rightarrow> pyval \<Rightarrow> pyval \<Rightarrow> pydict \<Rightarrow> pydict" where
  "extract_thread_severity_and_priority thread first_body first_url item =
     (let item1 = (case thread_severity thread first_body first_url of
            Some e \<Rightarrow> apply_severity_evidence (Some e) item
          | None \<Rightarrow> (case first_scene_item_severity item of
                       Some v \<Rightarrow> dset ''severity'' (PStr v) item
                     | None \<Rightarrow> apply_severity_evidence None item))
      in case thread_priority thread first_body first_url of
           Some e \<Rightarrow> dset ''review_priority_evidence'' (PDict e) item1
         | None \<Rightarrow> if first_body = PNone then item1 else dpop ''review_priority_evidence'' item1)"

definition has_publish_ready_evidence :: "pydict \<Rightarrow> bool" where
  "has_publish_ready_evidence item \<longleftrightarrow>
     is_dict (dget item ''accepted_response'') \<or> has_content (dget item ''publish_resolution'')"

definition set_fields :: "(string \<times> pyval) list \<Rightarrow> pydict \<Rightarrow> pydict" where
  "set_fields changes item = fold (\<lambda>(k, v). dset k v) changes item"

definition merged_thread_state :: "pydict \<Rightarrow> pydict \<Rightarrow> (string \<times> pyval) list" where
  "merged_thread_state thread item =
     (let outdated = is_stale_or_outdated_github_thread thread
      in (''is_outdated'', PBool outdated) #
         (if is_resolved_github_thread thread
          then [(''state'', if py_lower (str_field item ''state'') \<in> set GITHUB_THREAD_TERMINAL_STATES
                            then dget item ''state'' else PStr ''closed''),
                (''status'', PStr ''CLOSED''), (''blocking'', PBool False), (''handled'', PBool True)]
          else if has_publish_ready_evidence item
          then [(''state'', PStr ''publish_ready''), (''status'', py_or (dget item ''status'') (PStr ''OPEN'')),
                (''blocking'', PBool True)]
          else if outdated then [(''state'', PStr ''stale''), (''status'', PStr ''STALE''), (''blocking'', PBool True)]
          else [(''state'', PStr ''open''), (''status'', PStr ''OPEN''), (''blocking'', PBool True)]))"

definition determine_merged_thread_state :: "pydict \<Rightarrow> pydict \<Rightarrow> pydict" where
  "determine_merged_thread_state thread item = set_fields (merged_thread_state thread item) item"

definition apply_viewer_reply_evidence :: "pydict \<Rightarrow> string option \<Rightarrow> pydict \<Rightarrow> pydict" where
  "apply_viewer_reply_evidence thread current_login item =
     (if truthy (dget thread ''viewer_replied'') \<and> truthy (dget thread ''viewer_reply_url'')
      then set_fields
        [(''reply_evidence'', PDict
            [(''reply_url'', dget thread ''viewer_reply_url''),
             (''author_login'', py_or (py_or (dget thread ''viewer_login'') (dget item ''reply_author_login''))
                (text_or_none current_login))]),
         (''reply_url'', dget thread ''viewer_reply_url''), (''reply_posted'', PBool True)] item
      else item)"

definition thread_item_id :: "string \<Rightarrow> string" where
  "thread_item_id thread_id = ''github-thread:'' @ thread_id"

lemma thread_item_id_inj [simp]: "thread_item_id i = thread_item_id j \<longleftrightarrow> i = j"
  by (simp add: thread_item_id_def)

definition merged_identity :: "pydict \<Rightarrow> string \<Rightarrow> pydict \<Rightarrow> pydict" where
  "merged_identity thread thread_id existing =
     (let item0 = dsetdefault ''source'' (PStr ''github'') (dsetdefault ''item_kind'' (PStr ''github_thread'')
            (dsetdefault ''item_id'' (PStr (thread_item_id thread_id)) existing));
          item1 = dset ''origin_ref'' (PStr thread_id) (dset ''thread_id'' (PStr thread_id) item0);
          item2 = fold (\<lambda>k d. dset k (py_or (dget thread k) (dget d k)) d) [''path'', ''line'', ''url'', ''body''] item1
      in fold (\<lambda>k d. if truthy (dget thread k) then dset k (dget thread k) d else d)
           [''first_author_login'', ''latest_author_login''] item2)"

definition first_body_of :: "pydict \<Rightarrow> pyval" where
  "first_body_of thread =
     (if dget thread ''first_body'' = PNone \<and> dget thread ''comment_source'' = PStr ''first'' then dget thread ''body''
      else dget thread ''first_body'')"

definition merge_single_remote_thread :: "pydict \<Rightarrow> string \<Rightarrow> pyval \<Rightarrow> string option \<Rightarrow> pydict" where
  "merge_single_remote_thread thread thread_id existing current_login =
     apply_viewer_reply_evidence thread current_login
       (determine_merged_thread_state thread
         (extract_thread_severity_and_priority thread (first_body_of thread)
           (py_or (dget thread ''first_url'') (dget thread ''url''))
           (merged_identity thread thread_id (dict_or_empty existing))))"

definition merge_remote_thread :: "string option \<Rightarrow> pydict \<Rightarrow> pydict \<Rightarrow> pydict" where
  "merge_remote_thread current_login thread items =
     (case thread_key thread of
        None \<Rightarrow> items
      | Some i \<Rightarrow> dset (thread_item_id i)
                    (PDict (merge_single_remote_thread thread i (dget items (thread_item_id i)) current_login)) items)"

definition session_with_remote_threads :: "pydict \<Rightarrow> pydict list \<Rightarrow> string option \<Rightarrow> pydict" where
  "session_with_remote_threads session remote_threads current_login =
     dset ''items'' (PDict (fold (merge_remote_thread current_login) remote_threads
       (dict_or_empty (dget session ''items'')))) session"

section \<open>Evaluation\<close>

definition signal_to_dict :: "logic_signal \<Rightarrow> pydict" where
  "signal_to_dict s =
     [(''signal_id'', PStr (ls_signal_id s)), (''item_id'', PStr (ls_item_id s)), (''signal_type'', PStr (ls_signal_type s)),
      (''confidence'', PStr (ls_confidence s)), (''explanation'', PStr (ls_explanation s)),
      (''recommended_action'', PStr (ls_recommended_action s)), (''gate_effect'', PStr (ls_gate_effect s)),
      (''item_kind'', PStr (ls_item_kind s))]"

definition evaluate_final_gate ::
    "pydict \<Rightarrow> pydict list \<Rightarrow> pydict list \<Rightarrow> string option \<Rightarrow> pydict list \<Rightarrow> string option \<Rightarrow> py_exn + gate_result" where
  "evaluate_final_gate session remote_threads pending_reviews current_login check_runs check_requirement =
     sum_bind (generate_logic_validation_signals session) (\<lambda>found.
       let signals = map signal_to_dict found;
           inputs = \<lparr>gi_remote_threads = remote_threads, gi_pending_reviews = pending_reviews,
             gi_current_login = current_login, gi_check_runs = check_runs, gi_check_requirement = check_requirement,
             gi_logic_signals = signals\<rparr>
       in sum_bind (build_final_gate_facts session inputs) (\<lambda>facts.
          sum_bind (project_final_gate current_login check_requirement facts) (\<lambda>p.
            Inr \<lparr>gr_repo = str_field session ''repo'', gr_pr_number = str_field session ''pr_number'', gr_counts = p_counts p,
                 gr_failure_codes = gd_failure_codes (evaluate_final_gate_policy p), gr_check_requirement = check_requirement,
                 gr_logic_signals = signals, gr_reply_blockers = p_missing_reply_items p,
                 gr_historical_replies = p_historical_reply_items p, gr_stack_context = cached_stack_context session\<rparr>)))"

section \<open>A run of the gate\<close>

record 'g gate_client =
  gk_viewer_login :: "'g \<Rightarrow> (github_error + string) \<times> 'g"
  gk_get_stack_context :: "'g \<Rightarrow> (github_error + stack_context) \<times> 'g"
  gk_list_threads :: "'g \<Rightarrow> (github_error + pydict list) \<times> 'g"
  gk_list_pending_reviews :: "string \<Rightarrow> 'g \<Rightarrow> (github_error + pydict list) \<times> 'g"
  gk_list_pr_checks :: "bool \<Rightarrow> 'g \<Rightarrow> (github_error + pydict list) \<times> 'g"

record gate_options =
  go_repo :: string
  go_pr_number :: string
  go_ledger_path :: "string \<Rightarrow> string"
  go_now :: string
  go_lock_held :: "string \<Rightarrow> bool"
  go_snapshot :: "pydict list option"
  go_require_checks :: bool
  go_require_required_checks :: bool
  go_observed_stack :: "stack_context option"
  go_require_existing_session :: bool

definition gate_requirement :: "gate_options \<Rightarrow> string option" where
  "gate_requirement opts =
     (if go_require_required_checks opts then Some ''required'' else if go_require_checks opts then Some ''all'' else None)"

definition gate_session ::
    "gate_options \<Rightarrow> runtime_store option \<Rightarrow> (effect_error + pydict) \<times> runtime_store option" where
  "gate_session opts st =
     (case load_session (go_repo opts) (go_pr_number opts) (go_ledger_path opts (go_pr_number opts)) (go_lock_held opts) st of
        (Inr session, st') \<Rightarrow> (Inr session, st')
      | (Inl (SessionError code detail), st') \<Rightarrow>
          if go_require_existing_session opts \<or> code \<noteq> ''SESSION_NOT_FOUND''
          then (Inl (SessionError code detail), st')
          else (Inr (new_session (go_repo opts) (go_pr_number opts) (go_ledger_path opts (go_pr_number opts)) ''WAITING_FOR_GATE''), st')
      | (Inl e, st') \<Rightarrow> (Inl e, st'))"

definition gate_stack :: "gate_options \<Rightarrow> 'g gate_client \<Rightarrow> 'g \<Rightarrow> (py_exn + stack_context) \<times> 'g" where
  "gate_stack opts client g =
     (case go_observed_stack opts of
        Some c \<Rightarrow> (Inr c, g)
      | None \<Rightarrow>
          (case gk_get_stack_context client g of
             (Inr c, g') \<Rightarrow> (Inr c, g')
           | (Inl e, g') \<Rightarrow> (unavailable_stack_context (go_repo opts) (go_pr_number opts) (go_now opts) None, g')))"

definition read_checks :: "gate_options \<Rightarrow> 'g gate_client \<Rightarrow> 'g \<Rightarrow> (github_error + pydict list) \<times> 'g" where
  "read_checks opts client g =
     (if \<not> (go_require_checks opts \<or> go_require_required_checks opts) then (Inr [], g)
      else case gk_list_pr_checks client (go_require_required_checks opts) g of
             (Inr rows, g') \<Rightarrow> (Inr rows, g')
           | (Inl e, g') \<Rightarrow> if ge_reason_code e = ''GITHUB_PR_HAS_NO_CHECKS'' then (Inr [], g') else (Inl e, g'))"

definition read_threads :: "gate_options \<Rightarrow> 'g gate_client \<Rightarrow> 'g \<Rightarrow> (github_error + pydict list) \<times> 'g" where
  "read_threads opts client g =
     (case go_snapshot opts of Some rows \<Rightarrow> (Inr rows, g) | None \<Rightarrow> gk_list_threads client g)"

text \<open>What a run observes: the reads are all issued, and the first failing one in this order is raised.\<close>

record observation =
  ob_threads :: "pydict list"
  ob_reviews :: "pydict list"
  ob_checks :: "pydict list"

definition observe :: "gate_options \<Rightarrow> 'g gate_client \<Rightarrow> string \<Rightarrow> 'g \<Rightarrow> (github_error + observation) \<times> 'g" where
  "observe opts client login g0 =
     (let (threads, g1) = read_threads opts client g0;
          (reviews, g2) = gk_list_pending_reviews client login g1;
          (checks, g3) = read_checks opts client g2
      in (sum_bind threads (\<lambda>t. sum_bind reviews (\<lambda>r. sum_bind checks (\<lambda>c.
            Inr \<lparr>ob_threads = t, ob_reviews = r, ob_checks = c\<rparr>))), g3))"

definition metric_keys :: "string list" where
  "metric_keys =
     [''blocking_items_count'', ''unresolved_github_threads_count'', ''github_threads_missing_reply_count'',
      ''pending_current_login_review_count'', ''pr_checks_failed_count'', ''pr_checks_pending_count'']"

definition count_value :: "gate_result \<Rightarrow> string \<Rightarrow> pyval" where
  "count_value r k = PInt (case map_of (gr_counts r) k of None \<Rightarrow> 0 | Some n \<Rightarrow> int n)"

definition with_metrics :: "gate_result \<Rightarrow> pydict \<Rightarrow> py_exn + pydict" where
  "with_metrics r session =
     sum_bind (py_dict (py_or (dget session ''metrics'') (PDict []))) (\<lambda>metrics.
       Inr (dset ''metrics'' (PDict (set_fields (map (\<lambda>k. (k, count_value r k)) metric_keys) metrics)) session))"

text \<open>The session a run evaluates and saves, and the result, from what it observed.\<close>

definition judge ::
    "gate_options \<Rightarrow> string \<Rightarrow> observation \<Rightarrow> pydict \<Rightarrow> py_exn + (gate_result \<times> pydict)" where
  "judge opts login ob session =
     (let previous = map fst (dict_or_empty (dget session ''items''));
          merged = session_with_remote_threads session (ob_threads ob) (Some login)
      in sum_bind (record_new_item_observations (go_now opts) None previous merged) (\<lambda>observed.
         sum_bind (evaluate_final_gate observed (ob_threads ob) (ob_reviews ob) (Some login) (ob_checks ob) (gate_requirement opts)) (\<lambda>r.
         sum_bind (with_metrics r observed) (\<lambda>measured. Inr (r, measured)))))"

definition run_gate ::
    "gate_options \<Rightarrow> 'g gate_client \<Rightarrow> runtime_store option \<times> 'g
       \<Rightarrow> (effect_error + gate_result) \<times> runtime_store option \<times> 'g" where
  "run_gate opts client w =
     (case gate_session opts (fst w) of
        (Inl e, st) \<Rightarrow> (Inl e, st, snd w)
      | (Inr session, st) \<Rightarrow>
          (case gate_stack opts client (snd w) of
             (stack, g1) \<Rightarrow>
               (case gk_viewer_login client g1 of
                  (login, g2) \<Rightarrow>
                    (case (stack, login) of
                       (Inl e, _) \<Rightarrow> (Inl (EffectRaised e), st, g2)
                     | (Inr _, Inl e) \<Rightarrow> (Inl (GitHubRaised e), st, g2)
                     | (Inr c, Inr l) \<Rightarrow>
                         (case observe opts client l g2 of
                            (Inl e, g3) \<Rightarrow> (Inl (GitHubRaised e), st, g3)
                          | (Inr ob, g3) \<Rightarrow>
                              (case judge opts l ob (cache_pull_request_context session (context_to_dict c)) of
                                 Inl e \<Rightarrow> (Inl (EffectRaised e), st, g3)
                               | Inr (r, merged) \<Rightarrow>
                                   (case save_session merged st of
                                      (Inl e, _, st') \<Rightarrow> (Inl e, st', g3)
                                    | (Inr _, _, st') \<Rightarrow> (Inr r, st', g3))))))))"

section \<open>What merging changes\<close>

definition observed_fields :: "string list" where
  "observed_fields =
     [''item_id'', ''item_kind'', ''source'', ''origin_ref'', ''thread_id'', ''path'', ''line'', ''url'', ''body'',
      ''first_author_login'', ''latest_author_login'', ''severity'', ''severity_evidence'', ''review_priority_evidence'',
      ''is_outdated'', ''state'', ''status'', ''blocking'', ''handled'', ''reply_evidence'', ''reply_url'', ''reply_posted'']"

definition same_outside :: "string list \<Rightarrow> pydict \<Rightarrow> pydict \<Rightarrow> bool" where
  "same_outside ks d d' \<longleftrightarrow> (\<forall>k. k \<notin> set ks \<longrightarrow> dget d' k = dget d k)"

lemma same_outside_refl [simp]: "same_outside ks d d"
  by (simp add: same_outside_def)

lemma same_outside_trans: "same_outside ks a b \<Longrightarrow> same_outside ks b c \<Longrightarrow> same_outside ks a c"
  by (simp add: same_outside_def)

lemma same_outside_dset: "k \<in> set ks \<Longrightarrow> same_outside ks d (dset k v d)"
  and same_outside_dpop: "k \<in> set ks \<Longrightarrow> same_outside ks d (dpop k d)"
  and same_outside_default: "k \<in> set ks \<Longrightarrow> same_outside ks d (dsetdefault k v d)"
  by (auto simp: same_outside_def dget_dsetdefault)

lemma same_outside_fold: "(\<And>x d. x \<in> set xs \<Longrightarrow> same_outside ks d (f x d)) \<Longrightarrow> same_outside ks d (fold f xs d)"
  by (induction xs arbitrary: d) (auto intro: same_outside_trans)

lemma same_outside_fields: "set (map fst changes) \<subseteq> set ks \<Longrightarrow> same_outside ks d (set_fields changes d)"
  unfolding set_fields_def by (rule same_outside_fold) (force intro: same_outside_dset)

lemmas outside_steps = same_outside_trans [OF _ same_outside_dset] same_outside_trans [OF _ same_outside_dpop]
  same_outside_trans [OF _ same_outside_default]

lemma outside_choice:
  assumes "same_outside ks d x" "k \<in> set ks"
  shows "same_outside ks d (case p of Some e \<Rightarrow> dset k (PDict e) x | None \<Rightarrow> if c then x else dpop k x)"
  using assms by (cases p; cases c) (simp_all add: outside_steps)

lemma merged_identity_outside: "same_outside observed_fields d (merged_identity thread i d)"
  unfolding merged_identity_def Let_def
  by (intro same_outside_trans [OF _ same_outside_fold] outside_steps same_outside_refl)
     (auto simp: observed_fields_def intro: same_outside_dset)

lemma apply_severity_outside: "same_outside observed_fields d (apply_severity_evidence e d)"
  by (auto simp: apply_severity_evidence_def observed_fields_def same_outside_def split: option.split)

lemma severity_outside: "same_outside observed_fields d (extract_thread_severity_and_priority thread b u d)"
proof -
  let ?d = "case thread_severity thread b u of
            Some e \<Rightarrow> apply_severity_evidence (Some e) d
          | None \<Rightarrow> (case first_scene_item_severity d of
                       Some v \<Rightarrow> dset ''severity'' (PStr v) d
                     | None \<Rightarrow> apply_severity_evidence None d)"
  have "same_outside observed_fields d ?d"
    using apply_severity_outside same_outside_dset [of "''severity''" observed_fields]
    by (simp add: observed_fields_def split: option.split)
  moreover have "''review_priority_evidence'' \<in> set observed_fields" by (simp add: observed_fields_def)
  ultimately show ?thesis
    unfolding extract_thread_severity_and_priority_def Let_def by (rule outside_choice)
qed

lemma merged_state_keys: "set (map fst (merged_thread_state thread item)) \<subseteq> set observed_fields"
  by (simp add: merged_thread_state_def Let_def observed_fields_def)

lemma viewer_outside: "same_outside observed_fields d (apply_viewer_reply_evidence thread l d)"
  unfolding apply_viewer_reply_evidence_def
  by (auto intro!: same_outside_fields simp: observed_fields_def)

lemma merge_outside: "same_outside observed_fields (dict_or_empty old) (merge_single_remote_thread thread i old l)"
  unfolding merge_single_remote_thread_def determine_merged_thread_state_def
  by (intro same_outside_trans [OF _ viewer_outside] same_outside_trans [OF _ same_outside_fields [OF merged_state_keys]]
      same_outside_trans [OF _ severity_outside] merged_identity_outside)

lemma merged_blocking: "dget (merge_single_remote_thread thread i old l) ''blocking'' = PBool (\<not> is_resolved_github_thread thread)"
proof -
  have v: "dget (apply_viewer_reply_evidence thread l d) ''blocking'' = dget d ''blocking''" for d
    by (simp add: apply_viewer_reply_evidence_def set_fields_def)
  have "dget (determine_merged_thread_state thread d) ''blocking'' = PBool (\<not> is_resolved_github_thread thread)" for d
    by (simp add: determine_merged_thread_state_def merged_thread_state_def set_fields_def Let_def)
  then show ?thesis by (simp add: merge_single_remote_thread_def v)
qed

lemma merge_other: "thread_key thread = Some i \<Longrightarrow> j \<noteq> thread_item_id i \<Longrightarrow> dget (merge_remote_thread l thread items) j = dget items j"
  "thread_key thread = None \<Longrightarrow> merge_remote_thread l thread items = items"
  "thread_key thread = Some i \<Longrightarrow>
     dget (merge_remote_thread l thread items) (thread_item_id i)
       = PDict (merge_single_remote_thread thread i (dget items (thread_item_id i)) l)"
  by (simp_all add: merge_remote_thread_def)

lemma merge_unobserved:
  "\<forall>thread \<in> set threads. thread_key thread \<noteq> Some i \<Longrightarrow>
     dget (fold (merge_remote_thread l) threads items) (thread_item_id i) = dget items (thread_item_id i)"
proof (induction threads arbitrary: items)
  case (Cons t ts)
  then show ?case by (cases "thread_key t") (auto simp: merge_remote_thread_def)
qed simp

lemma merge_unrelated:
  "\<forall>thread \<in> set threads. \<forall>i. thread_key thread = Some i \<longrightarrow> j \<noteq> thread_item_id i \<Longrightarrow>
     dget (fold (merge_remote_thread l) threads items) j = dget items j"
proof (induction threads arbitrary: items)
  case (Cons t ts)
  then show ?case by (cases "thread_key t") (auto simp: merge_remote_thread_def)
qed simp

lemma merge_observed:
  assumes "thread \<in> set threads" "thread_key thread = Some i" "distinct (List.map_filter thread_key threads)"
  shows "dget (fold (merge_remote_thread l) threads items) (thread_item_id i)
       = PDict (merge_single_remote_thread thread i (dget items (thread_item_id i)) l)"
  using assms
proof (induction threads arbitrary: items)
  case (Cons t ts)
  show ?case
  proof (cases "t = thread")
    case True
    then have "\<forall>u \<in> set ts. thread_key u \<noteq> Some i"
      using Cons.prems(2,3) by (auto simp: List.map_filter_def image_iff)
    then show ?thesis using True Cons.prems(2) by (simp add: merge_unobserved merge_other)
  next
    case False
    then have mem: "thread \<in> set ts" using Cons.prems(1) by simp
    then have "i \<in> set (List.map_filter thread_key ts)"
      using Cons.prems(2) by (force simp: List.map_filter_def)
    then have "thread_key t \<noteq> Some i" using Cons.prems(3) by (auto simp: List.map_filter_simps)
    then have same: "dget (merge_remote_thread l t items) (thread_item_id i) = dget items (thread_item_id i)"
      by (cases "thread_key t") (auto simp: merge_remote_thread_def)
    have "distinct (List.map_filter thread_key ts)"
      using Cons.prems(3) by (simp add: List.map_filter_simps split: option.splits)
    from Cons.IH [OF mem Cons.prems(2) this, of "merge_remote_thread l t items"] show ?thesis by (simp add: same)
  qed
qed simp

text \<open>
  Merging follows GitHub and loses no evidence. When the observed threads have distinct
  ids, the item of each of them blocks exactly when GitHub does not show it resolved; every
  field that is no observation (accepted responses, classifications, leases, validation
  evidence) is as it was, and so is every item whose thread was not observed.
\<close>

theorem merge_follows_github:
  assumes "distinct (List.map_filter thread_key threads)" "thread \<in> set threads" "thread_key thread = Some i"
  shows "\<exists>item items. dget (session_with_remote_threads session threads login) ''items'' = PDict items
    \<and> dget items (thread_item_id i) = PDict item
    \<and> dget item ''blocking'' = PBool (\<not> is_resolved_github_thread thread)
    \<and> (\<forall>k. k \<notin> set observed_fields \<longrightarrow>
          dget item k = dget (dict_or_empty (nested_get (dget session ''items'') (thread_item_id i))) k)
    \<and> (\<forall>j. (\<forall>t \<in> set threads. \<forall>i. thread_key t = Some i \<longrightarrow> j \<noteq> thread_item_id i) \<longrightarrow>
          dget items j = nested_get (dget session ''items'') j)"
proof -
  let ?items = "dict_or_empty (dget session ''items'')"
  let ?old = "dget ?items (thread_item_id i)"
  have n: "dget ?items j = nested_get (dget session ''items'') j" for j
    by (simp add: dict_or_empty_def nested_get_def dget_def split: pyval.split)
  note o = merge_outside [of ?old thread i login, unfolded same_outside_def n]
  show ?thesis
  proof (intro exI conjI)
    show "dget (session_with_remote_threads session threads login) ''items''
        = PDict (fold (merge_remote_thread login) threads ?items)"
      by (simp add: session_with_remote_threads_def)
    show "dget (fold (merge_remote_thread login) threads ?items) (thread_item_id i)
        = PDict (merge_single_remote_thread thread i ?old login)"
      by (rule merge_observed [OF assms(2,3,1)])
  qed (use merged_blocking o merge_unrelated n in auto)
qed

definition ex_threads :: "pydict list" where
  "ex_threads = [[(''id'', PStr ''T1''), (''isResolved'', PBool True)], [(''id'', PStr ''T2''), (''isOutdated'', PBool True)]]"

definition ex_merge_session :: pydict where
  "ex_merge_session = [(''items'', PDict [(''github-thread:T1'', PDict [(''accepted_response'', PDict [(''resolution'', PStr ''fix'')])])])]"

theorem merge_follows_github_witness:
  "\<exists>item items. dget (session_with_remote_threads ex_merge_session ex_threads None) ''items'' = PDict items
    \<and> dget items (thread_item_id ''T1'') = PDict item \<and> dget item ''blocking'' = PBool False
    \<and> dget item ''accepted_response'' = PDict [(''resolution'', PStr ''fix'')]"
proof -
  have k: "thread_key (ex_threads ! 0) = Some ''T1''" "thread_key (ex_threads ! Suc 0) = Some ''T2''" by code_simp+
  have t: "ex_threads = [ex_threads ! 0, ex_threads ! Suc 0]" by (simp add: ex_threads_def)
  have d: "distinct (List.map_filter thread_key ex_threads)"
    by (subst t) (simp add: List.map_filter_simps k)
  have m: "ex_threads ! 0 \<in> set ex_threads" by (subst (2) t) simp
  have r: "is_resolved_github_thread (ex_threads ! 0)" by code_simp
  have o: "dget (dict_or_empty (nested_get (dget ex_merge_session ''items'') (thread_item_id ''T1''))) ''accepted_response''
      = PDict [(''resolution'', PStr ''fix'')]" by code_simp
  have out: "''accepted_response'' \<notin> set observed_fields" by code_simp
  obtain item items where w: "dget (session_with_remote_threads ex_merge_session ex_threads None) ''items'' = PDict items"
    "dget items (thread_item_id ''T1'') = PDict item"
    "dget item ''blocking'' = PBool (\<not> is_resolved_github_thread (ex_threads ! 0))"
    "\<forall>k. k \<notin> set observed_fields \<longrightarrow>
       dget item k = dget (dict_or_empty (nested_get (dget ex_merge_session ''items'') (thread_item_id ''T1''))) k"
    using merge_follows_github [OF d m k(1), of ex_merge_session None] by (elim exE conjE)
  have "dget item ''accepted_response'' = PDict [(''resolution'', PStr ''fix'')]"
    using mp [OF spec [OF w(4)] out] o by (simp only:)
  then show ?thesis using w(1-3) r by (intro exI conjI) simp_all
qed

section \<open>What a passed run guarantees\<close>

lemma sum_bind_Inr: "sum_bind m f = Inr b \<longleftrightarrow> (\<exists>a. m = Inr a \<and> f a = Inr b)"
  by (cases m) (simp_all add: sum_bind_def)

lemma evaluate_passes:
  assumes "evaluate_final_gate session threads reviews login checks requirement = Inr r" "gate_passed r"
  shows "list_all is_resolved_github_thread threads
    \<and> list_all (\<lambda>x. \<not> is_current_login_pending_review x login) reviews
    \<and> (given requirement \<longrightarrow> checks \<noteq> [] \<and> list_all (\<lambda>c. check_bucket c \<in> {''pass'', ''skipping''}) checks)
    \<and> list_all (\<lambda>s. dget s ''gate_effect'' \<noteq> PStr ''blocking'') (gr_logic_signals r)
    \<and> (\<exists>items. session_rows session = Inr items \<and> list_all (\<lambda>i. item_kind_of i = ''local_finding'' \<longrightarrow>
           \<not> is_local_blocking i \<and> (is_terminal_local_item i \<longrightarrow> gate_has_validation_evidence i)) items)"
proof -
  obtain found facts p where e: "generate_logic_validation_signals session = Inr found"
    "build_final_gate_facts session \<lparr>gi_remote_threads = threads, gi_pending_reviews = reviews, gi_current_login = login,
       gi_check_runs = checks, gi_check_requirement = requirement, gi_logic_signals = map signal_to_dict found\<rparr> = Inr facts"
    "project_final_gate login requirement facts = Inr p" "gr_failure_codes r = gd_failure_codes (evaluate_final_gate_policy p)"
    "gr_logic_signals r = map signal_to_dict found"
    using assms(1) by (auto simp: evaluate_final_gate_def Let_def sum_bind_Inr)
  obtain items where items: "session_rows session = Inr items"
    using e(1) by (auto simp: generate_logic_validation_signals_def split: sum.splits)
  have p: "p = project_sorted login requirement facts" using built_projects [OF e(2)] e(3) by simp
  have pass: "gd_failure_codes (evaluate_final_gate_policy (project_sorted login requirement facts)) = []"
    using assms(2) e(4) by (simp add: gate_passed_def p)
  from built_safety [OF e(2) items] pass show ?thesis using items e(5) by simp
qed

lemma session_rows_metrics: "session_rows (dset ''metrics'' v session) = session_rows session"
  by (simp add: session_rows_def)

lemma judge_passes:
  assumes "judge opts l ob session = Inr (r, merged)" "gate_passed r"
  shows "list_all is_resolved_github_thread (ob_threads ob)
    \<and> list_all (\<lambda>x. \<not> is_current_login_pending_review x (Some l)) (ob_reviews ob)
    \<and> (given (gate_requirement opts) \<longrightarrow>
         ob_checks ob \<noteq> [] \<and> list_all (\<lambda>c. check_bucket c \<in> {''pass'', ''skipping''}) (ob_checks ob))
    \<and> list_all (\<lambda>s. dget s ''gate_effect'' \<noteq> PStr ''blocking'') (gr_logic_signals r)
    \<and> (\<exists>items. session_rows merged = Inr items \<and> list_all (\<lambda>i. item_kind_of i = ''local_finding'' \<longrightarrow>
           \<not> is_local_blocking i \<and> (is_terminal_local_item i \<longrightarrow> gate_has_validation_evidence i)) items)"
proof -
  obtain observed where e: "evaluate_final_gate observed (ob_threads ob) (ob_reviews ob) (Some l) (ob_checks ob) (gate_requirement opts) = Inr r"
    and m: "with_metrics r observed = Inr merged"
    using assms(1) by (auto simp: judge_def Let_def sum_bind_Inr)
  have "session_rows merged = session_rows observed"
    using m by (auto simp: with_metrics_def sum_bind_Inr session_rows_metrics)
  with evaluate_passes [OF e assms(2)] show ?thesis by simp
qed


definition ex_gate_client :: "unit gate_client" where
  "ex_gate_client = \<lparr>gk_viewer_login = (\<lambda>g. (Inr ''me'', g)), gk_get_stack_context = (\<lambda>g. (Inr (bare_context ''unavailable'' ''o/r'' ''7'' ''t''), g)),
     gk_list_threads = (\<lambda>g. (Inr [], g)), gk_list_pending_reviews = (\<lambda>l g. (Inr [], g)),
     gk_list_pr_checks = (\<lambda>b g. (Inr [[(''name'', PStr ''ci''), (''bucket'', PStr ''pass'')]], g))\<rparr>"

definition ex_gate_options :: gate_options where
  "ex_gate_options = \<lparr>go_repo = ''o/r'', go_pr_number = ''7'', go_ledger_path = (\<lambda>pr. ''l''), go_now = ''t'', go_lock_held = (\<lambda>c. False),
     go_snapshot = None, go_require_checks = True, go_require_required_checks = False, go_observed_stack = None,
     go_require_existing_session = False\<rparr>"


end
