(* ===== verification/Stack_Gate.thy ===== *)
theory Stack_Gate
  imports Gate_Service
begin

text \<open>
  The gate over a stack segment (\<open>core/stack_gate.py\<close>): the members at or below the selected
  pull request are checked bottom-up, each by its own gate run, between an opening and a
  closing observation of the stack. The state \<open>'w\<close> is whatever the member gates read and
  change; spans are not modelled.
\<close>

section \<open>Results\<close>

record member_outcome =
  mo_pr_number :: string
  mo_position :: int
  mo_reason_code :: "string option"
  mo_layer :: "gate_result option"

record stack_gate_result =
  sg_repo :: string
  sg_selected_pr_number :: string
  sg_context :: stack_context
  sg_covered :: "string list"
  sg_outcomes :: "member_outcome list"
  sg_check_requirement :: "string option"
  sg_reason_code :: "string option"
  sg_first_blocked :: "string option"
  sg_first_blocked_kind :: "string option"

definition sg_passed :: "stack_gate_result \<Rightarrow> bool" where
  "sg_passed r \<longleftrightarrow> sg_reason_code r = None"

definition sg_exit_code :: "stack_gate_result \<Rightarrow> int" where
  "sg_exit_code r = (if sg_passed r then 0 else 5)"

definition layer_reason_code :: "member_outcome \<Rightarrow> string option" where
  "layer_reason_code o' = Option.bind (mo_layer o') gate_reason_code"

definition layer_waiting_on :: "member_outcome \<Rightarrow> string option" where
  "layer_waiting_on o' = Option.bind (mo_layer o') gate_waiting_on"

definition blocked_outcome :: "stack_gate_result \<Rightarrow> member_outcome option" where
  "blocked_outcome r = find (\<lambda>o'. Some (mo_pr_number o') = sg_first_blocked r) (sg_outcomes r)"

definition sg_blocking_reason_code :: "stack_gate_result \<Rightarrow> string option" where
  "sg_blocking_reason_code r =
     (if sg_reason_code r \<noteq> Some ''STACK_MEMBER_BLOCKED'' then sg_reason_code r
      else case find (\<lambda>o'. Some (mo_pr_number o') = sg_first_blocked r \<and> layer_reason_code o' \<notin> {None, Some []}) (sg_outcomes r) of
             Some o' \<Rightarrow> layer_reason_code o'
           | None \<Rightarrow> sg_reason_code r)"

definition stack_waiting_on :: "string \<Rightarrow> string option" where
  "stack_waiting_on reason =
     map_of [(''STACK_CONTEXT_UNAVAILABLE'', ''stack_context''), (''STACK_CONTEXT_INVALID'', ''stack_context''),
             (''STACK_CONTEXT_STALE'', ''stack_refresh''), (''STACK_MEMBER_SESSION_MISSING'', ''member_session''),
             (''STACK_MEMBER_SESSION_INVALID'', ''member_session''), (''STACK_MEMBER_DRAFT'', ''member_state''),
             (''STACK_MEMBER_CLOSED'', ''member_state''), (''STACK_MEMBER_QUEUED'', ''merge_queue''),
             (''STACK_MEMBER_BLOCKED'', ''member_gate'')] reason"

definition sg_waiting_on :: "stack_gate_result \<Rightarrow> string option" where
  "sg_waiting_on r =
     (let nested = (if sg_reason_code r = Some ''STACK_MEMBER_BLOCKED''
                    then (case Option.bind (blocked_outcome r) layer_waiting_on of None \<Rightarrow> [] | Some w \<Rightarrow> py_strip w) else [])
      in if nested \<noteq> [] then Some nested else Option.bind (sg_reason_code r) stack_waiting_on)"

definition add_counts :: "(string \<times> nat) list \<Rightarrow> (string \<times> nat) list \<Rightarrow> (string \<times> nat) list" where
  "add_counts counts acc =
     fold (\<lambda>(k, n) t. AList.update k ((case map_of t k of None \<Rightarrow> 0 | Some m \<Rightarrow> m) + n) t) counts acc"

definition outcome_counts :: "member_outcome \<Rightarrow> (string \<times> nat) list" where
  "outcome_counts o' = (case mo_layer o' of None \<Rightarrow> [] | Some l \<Rightarrow> gr_counts l)"

definition layer_next_action :: "member_outcome \<Rightarrow> string option" where
  "layer_next_action o' = map_option gate_next_action (mo_layer o')"

definition recovery_command :: "stack_gate_result \<Rightarrow> string" where
  "recovery_command r =
     tmpl_stack_member_recovery (sg_repo r)
       (case sg_first_blocked r of None \<Rightarrow> sg_selected_pr_number r | Some p \<Rightarrow> text_or p (sg_selected_pr_number r))
       (sg_reason_code r) (Option.bind (blocked_outcome r) layer_reason_code)"

definition outcome_to_dict :: "member_outcome \<Rightarrow> pyval" where
  "outcome_to_dict o' = PDict
     [(''pr_number'', PStr (mo_pr_number o')), (''position'', PInt (mo_position o')),
      (''status'', PStr (if mo_reason_code o' = None then ''PASSED'' else ''FAILED'')),
      (''reason_code'', text_or_none (mo_reason_code o')), (''layer_reason_code'', text_or_none (layer_reason_code o')),
      (''layer_waiting_on'', text_or_none (layer_waiting_on o')),
      (''counts'', PDict (map (\<lambda>(k, n). (k, PInt (int n))) (outcome_counts o'))),
      (''layer_next_action'', text_or_none (layer_next_action o'))]"

definition stack_machine_summary :: "stack_gate_result \<Rightarrow> pydict" where
  "stack_machine_summary r =
     (let counts = fold (\<lambda>o'. add_counts (outcome_counts o')) (sg_outcomes r) [];
          action = (case Option.bind (blocked_outcome r) layer_next_action of
                      None \<Rightarrow> recovery_command r | Some a \<Rightarrow> text_or a (recovery_command r));
          req = text_or_none (sg_check_requirement r)
      in [(''schema_version'', PStr ''stack_gate_result.v1''), (''status'', PStr (if sg_passed r then ''PASSED'' else ''FAILED'')),
          (''repo'', PStr (sg_repo r)), (''pr_number'', PStr (sg_selected_pr_number r)), (''gate_scope'', PStr ''final''),
          (''completion_scope'', PStr ''stack_segment''), (''check_requirement'', req),
          (''stack_merge_readiness'', PStr (if k_availability (sg_context r) \<in> {''unavailable'', ''invalid''} then ''unknown''
                                           else if sg_passed r then ''ready'' else ''blocked'')),
          (''stack_context'', PDict (context_to_dict (sg_context r))),
          (''stack_gate'', PDict
             [(''selected_pr_number'', PStr (sg_selected_pr_number r)), (''check_requirement'', req),
              (''covered_pr_numbers'', PList (map PStr (sg_covered r))),
              (''first_blocked_pr_number'', text_or_none (sg_first_blocked r)),
              (''member_outcomes'', PList (map outcome_to_dict (sg_outcomes r)))]),
          (''reason_code'', text_or_none (sg_reason_code r)), (''waiting_on'', text_or_none (sg_waiting_on r)),
          (''failure_codes'', PList (case sg_reason_code r of None \<Rightarrow> [] | Some c \<Rightarrow> if c = [] then [] else [PStr c])),
          (''counts'', PDict (map (\<lambda>(k, n). (k, PInt (int n))) counts)), (''exit_code'', PInt (sg_exit_code r)),
          (''next_action'', PStr (if sg_passed r then ''The selected stack segment is ready.'' else action)),
          (''commands'', PDict
             [(''final_gate_stack'', PStr (tmpl_final_gate_stack (sg_repo r) (sg_selected_pr_number r))),
              (''member_recovery'', PStr (recovery_command r))])])"

section \<open>Evaluation\<close>

definition member_preflight_reason :: "member_fact \<Rightarrow> bool \<Rightarrow> string option" where
  "member_preflight_reason m has_session =
     (if m_state m = ''CLOSED'' then Some ''STACK_MEMBER_CLOSED''
      else if m_is_draft m then Some ''STACK_MEMBER_DRAFT''
      else if m_queue_state m \<notin> {None, Some []} then Some ''STACK_MEMBER_QUEUED''
      else if \<not> has_session then Some ''STACK_MEMBER_SESSION_MISSING'' else None)"

definition expected_signal_type :: "string \<Rightarrow> string option" where
  "expected_signal_type reason =
     map_of [(''FINAL_GATE_MISSING_VALIDATION_EVIDENCE'', ''missing_required_evidence''),
             (''FINAL_GATE_STALE_REVISION_EVIDENCE'', ''stale_revision_evidence''),
             (''FINAL_GATE_UNBOUND_REVISION_EVIDENCE'', ''unbound_revision_evidence'')] reason"

definition layer_blocking_item_kind :: "gate_result option \<Rightarrow> string option" where
  "layer_blocking_item_kind layer =
     (case Option.bind (Option.bind layer gate_reason_code) expected_signal_type of
        None \<Rightarrow> None
      | Some t \<Rightarrow>
          (case find (\<lambda>s. dget s ''gate_effect'' = PStr ''blocking'' \<and> dget s ''signal_type'' = PStr t)
                  (gr_logic_signals (the layer)) of
             None \<Rightarrow> None
           | Some s \<Rightarrow> let kind = stripped_field s ''item_kind'' in if kind = [] then None else Some kind))"

type_synonym 'w member_check = "string \<Rightarrow> 'w \<Rightarrow> (effect_error + gate_result) \<times> 'w"

definition evaluate_one_member ::
    "(string \<Rightarrow> 'w \<Rightarrow> bool) \<Rightarrow> 'w member_check \<Rightarrow> member_fact \<Rightarrow> 'w \<Rightarrow> (effect_error + member_outcome) \<times> 'w" where
  "evaluate_one_member session_exists evaluate_member m w =
     (let outcome = (\<lambda>reason layer. \<lparr>mo_pr_number = m_pr_number m, mo_position = m_position m, mo_reason_code = reason,
                                        mo_layer = layer\<rparr>)
      in case member_preflight_reason m (session_exists (m_pr_number m) w) of
           Some reason \<Rightarrow> (Inr (outcome (Some reason) None), w)
         | None \<Rightarrow>
             (case evaluate_member (m_pr_number m) w of
                (Inl (SessionError code detail), w') \<Rightarrow> (Inr (outcome (Some ''STACK_MEMBER_SESSION_INVALID'') None), w')
              | (Inl e, w') \<Rightarrow> (Inl e, w')
              | (Inr layer, w') \<Rightarrow>
                  (Inr (outcome (if gate_passed layer then None else Some ''STACK_MEMBER_BLOCKED'') (Some layer)), w')))"

fun evaluate_members ::
    "(string \<Rightarrow> 'w \<Rightarrow> bool) \<Rightarrow> 'w member_check \<Rightarrow> member_fact list \<Rightarrow> 'w \<Rightarrow> (effect_error + member_outcome list) \<times> 'w" where
  "evaluate_members session_exists evaluate_member [] w = (Inr [], w)"
| "evaluate_members session_exists evaluate_member (m # ms) w =
     (case evaluate_one_member session_exists evaluate_member m w of
        (Inl e, w1) \<Rightarrow> (Inl e, w1)
      | (Inr o', w1) \<Rightarrow>
          (case evaluate_members session_exists evaluate_member ms w1 of
             (Inl e, w2) \<Rightarrow> (Inl e, w2)
           | (Inr os, w2) \<Rightarrow> (Inr (o' # os), w2)))"

definition same_topology :: "stack_context \<Rightarrow> stack_context \<Rightarrow> bool" where
  "same_topology a b \<longleftrightarrow> k_availability a = k_availability b \<and> k_selected_pr_number a = k_selected_pr_number b
     \<and> k_topology_fingerprint a = k_topology_fingerprint b"

definition first_failure :: "member_outcome list \<Rightarrow> member_outcome option" where
  "first_failure os = find (\<lambda>o'. mo_reason_code o' \<noteq> None) os"

definition stack_verdict ::
    "string \<Rightarrow> string \<Rightarrow> stack_context \<Rightarrow> stack_context \<Rightarrow> string option \<Rightarrow> member_outcome list \<Rightarrow> stack_gate_result" where
  "stack_verdict repo selected opening closing requirement os =
     (let stale = \<not> same_topology closing opening;
          failure = (if stale then None else first_failure os)
      in \<lparr>sg_repo = repo, sg_selected_pr_number = selected, sg_context = (if stale then closing else opening),
          sg_covered = map m_pr_number (seg_included (project_stack_segment opening)), sg_outcomes = os,
          sg_check_requirement = requirement,
          sg_reason_code = (if stale then Some ''STACK_CONTEXT_STALE'' else Option.bind failure mo_reason_code),
          sg_first_blocked = map_option mo_pr_number failure,
          sg_first_blocked_kind = Option.bind failure (\<lambda>o'. layer_blocking_item_kind (mo_layer o'))\<rparr>)"

definition evaluate_stack_gate ::
    "string \<Rightarrow> string \<Rightarrow> stack_context \<Rightarrow> (string \<Rightarrow> 'w \<Rightarrow> bool) \<Rightarrow> 'w member_check
       \<Rightarrow> ('w \<Rightarrow> (effect_error + stack_context) \<times> 'w) \<Rightarrow> string option \<Rightarrow> 'w \<Rightarrow> (effect_error + stack_gate_result) \<times> 'w" where
  "evaluate_stack_gate repo selected context session_exists evaluate_member closing requirement w =
     (if k_availability context \<in> {''unavailable'', ''invalid''}
      then (Inr \<lparr>sg_repo = repo, sg_selected_pr_number = selected, sg_context = context, sg_covered = [], sg_outcomes = [],
                 sg_check_requirement = requirement, sg_reason_code = k_diagnostic_code context, sg_first_blocked = None,
                 sg_first_blocked_kind = None\<rparr>, w)
      else case evaluate_members session_exists evaluate_member (seg_included (project_stack_segment context)) w of
             (Inl e, w1) \<Rightarrow> (Inl e, w1)
           | (Inr os, w1) \<Rightarrow>
               (case closing w1 of
                  (Inl e, w2) \<Rightarrow> (Inl e, w2)
                | (Inr final, w2) \<Rightarrow> (Inr (stack_verdict repo selected context final requirement os), w2)))"

text \<open>
  \<open>run_stack_gate\<close>: the member gates get the context of their member from the opening
  observation, and must find an existing session. The store of each member and GitHub are
  the state.
\<close>

record 'g stack_world =
  sw_stores :: "string \<Rightarrow> runtime_store option"
  sw_hub :: 'g

definition member_gate :: "gate_options \<Rightarrow> 'g gate_client \<Rightarrow> stack_context \<Rightarrow> 'g stack_world member_check" where
  "member_gate opts client opening pr w =
     (let member_opts = opts\<lparr>go_pr_number := pr, go_snapshot := (if pr = go_pr_number opts then go_snapshot opts else None),
            go_observed_stack := Some (stack_context_for_member opening pr), go_require_existing_session := True\<rparr>
      in case run_gate member_opts client (sw_stores w pr, sw_hub w) of
           (r, st, g) \<Rightarrow> (r, w\<lparr>sw_stores := (sw_stores w)(pr := st), sw_hub := g\<rparr>))"

definition observe_stack :: "string \<Rightarrow> 'g gate_client \<Rightarrow> 'g stack_world \<Rightarrow> (effect_error + stack_context) \<times> 'g stack_world" where
  "observe_stack moment client w =
     (case gk_get_stack_context client (sw_hub w) of
        (Inl e, g) \<Rightarrow> (Inl (RuntimeError (moment @ '' stack context could not be read.'')), w\<lparr>sw_hub := g\<rparr>)
      | (Inr c, g) \<Rightarrow> (Inr c, w\<lparr>sw_hub := g\<rparr>))"

definition run_stack_gate ::
    "gate_options \<Rightarrow> 'g gate_client \<Rightarrow> (string \<Rightarrow> 'g stack_world \<Rightarrow> bool) \<Rightarrow> 'g stack_world
       \<Rightarrow> (effect_error + stack_gate_result) \<times> 'g stack_world" where
  "run_stack_gate opts client session_exists w =
     (case observe_stack ''Opening'' client w of
        (Inl e, w1) \<Rightarrow> (Inl e, w1)
      | (Inr opening, w1) \<Rightarrow>
          evaluate_stack_gate (go_repo opts) (go_pr_number opts) opening session_exists (member_gate opts client opening)
            (observe_stack ''Closing'' client) (gate_requirement opts) w1)"

section \<open>Properties\<close>

definition judged :: "(string \<Rightarrow> 'w \<Rightarrow> bool) \<Rightarrow> 'w member_check \<Rightarrow> member_fact \<Rightarrow> member_outcome \<Rightarrow> bool" where
  "judged session_exists evaluate_member m o' \<longleftrightarrow>
     mo_pr_number o' = m_pr_number m \<and> mo_position o' = m_position m
     \<and> (mo_reason_code o' = None \<longrightarrow>
          m_state m \<noteq> ''CLOSED'' \<and> \<not> m_is_draft m \<and> m_queue_state m \<in> {None, Some []}
          \<and> (\<exists>w w' layer. session_exists (m_pr_number m) w \<and> evaluate_member (m_pr_number m) w = (Inr layer, w')
               \<and> gate_passed layer \<and> mo_layer o' = Some layer))"

lemma one_member_judged:
  assumes "evaluate_one_member session_exists evaluate_member m w = (Inr o', w')"
  shows "judged session_exists evaluate_member m o'"
proof (cases "member_preflight_reason m (session_exists (m_pr_number m) w)")
  case (Some reason)
  then show ?thesis using assms by (auto simp: evaluate_one_member_def judged_def)
next
  case None
  then have pre: "m_state m \<noteq> ''CLOSED''" "\<not> m_is_draft m" "m_queue_state m \<in> {None, Some []}" "session_exists (m_pr_number m) w"
    by (auto simp: member_preflight_reason_def split: if_splits)
  show ?thesis
  proof (cases "evaluate_member (m_pr_number m) w")
    case (Pair r w2)
    show ?thesis
    proof (cases r)
      case (Inl e)
      then show ?thesis using assms None Pair by (cases e) (auto simp: evaluate_one_member_def judged_def)
    next
      case (Inr layer)
      then have o': "o' = \<lparr>mo_pr_number = m_pr_number m, mo_position = m_position m,
          mo_reason_code = (if gate_passed layer then None else Some ''STACK_MEMBER_BLOCKED''), mo_layer = Some layer\<rparr>"
        using assms None Pair by (simp add: evaluate_one_member_def)
      show ?thesis unfolding judged_def o' using pre Pair Inr by (auto split: if_splits)
    qed
  qed
qed

lemma members_judged:
  "evaluate_members session_exists evaluate_member ms w = (Inr os, w') \<Longrightarrow>
     list_all2 (judged session_exists evaluate_member) ms os"
proof (induction ms arbitrary: w os)
  case (Cons m ms)
  then obtain o' w1 os' where *: "evaluate_one_member session_exists evaluate_member m w = (Inr o', w1)"
    "evaluate_members session_exists evaluate_member ms w1 = (Inr os', w')" "os = o' # os'"
    by (auto split: prod.splits sum.splits)
  with Cons.IH [OF *(2)] one_member_judged [OF *(1)] show ?case by simp
qed simp

lemma judged_numbers: "list_all2 (judged ex ev) ms os \<Longrightarrow> map mo_pr_number os = map m_pr_number ms"
  by (induction rule: list_all2_induct) (simp_all add: judged_def)

lemma first_failure_split:
  "first_failure os = Some o' \<Longrightarrow> \<exists>below above. os = below @ o' # above \<and> mo_reason_code o' \<noteq> None \<and> (\<forall>b \<in> set below. mo_reason_code b = None)"
proof (induction os)
  case (Cons a os)
  show ?case
  proof (cases "mo_reason_code a = None")
    case True
    with Cons obtain below above where "os = below @ o' # above" "mo_reason_code o' \<noteq> None" "\<forall>b \<in> set below. mo_reason_code b = None"
      by (auto simp: first_failure_def)
    with True show ?thesis by (intro exI [of _ "a # below"] exI [of _ above]) simp
  next
    case False
    with Cons.prems show ?thesis by (intro exI [of _ "[]"] exI [of _ os]) (auto simp: first_failure_def)
  qed
qed (simp add: first_failure_def)


definition ex_stack_member :: member_fact where
  "ex_stack_member = \<lparr>m_position = 1, m_pr_number = ''11'', m_state = ''OPEN'', m_is_draft = False, m_base_ref_name = ''main'',
     m_head_ref_name = ''b1'', m_head_oid = ''o'', m_head_tree_oid = ''t'', m_queue_state = None\<rparr>"

definition ex_stack :: stack_context where
  "ex_stack = (bare_context ''absent'' ''o/r'' ''11'' ''t'')\<lparr>k_selected_pr := Some ex_stack_member\<rparr>"

definition ex_layer :: "string list \<Rightarrow> gate_result" where
  "ex_layer codes = \<lparr>gr_repo = ''o/r'', gr_pr_number = ''11'', gr_counts = [], gr_failure_codes = codes, gr_check_requirement = None,
     gr_logic_signals = [], gr_reply_blockers = [], gr_historical_replies = [], gr_stack_context = None\<rparr>"


end
