(* ===== verification/Store_Properties.thy ===== *)
theory Store_Properties
  imports Side_Effects
begin

text \<open>
  The properties of the runtime store and of the side effects recorded in it: histories of
  transactions, lost updates, the life of an outbox command, the revision token of a
  session, and the claim projection.
\<close>

section \<open>Histories\<close>

inductive store_step :: "runtime_store \<Rightarrow> runtime_store \<Rightarrow> bool" where
  step_transact: "store_step s (snd (transact (m :: unit mutation) expected ev ob s))"
| step_replace: "store_step s (snd (replace_session p expected ev ob s))"
| step_working: "store_step s (snd (transact_working_set req (wm :: (unit, unit) working_mutation) expected ev ob s))"
| step_mark: "store_step s (snd (mark_outbox_in_flight cid owner now ev s))"
| step_result: "store_step s (snd (record_outbox_result cid status ev ref err owner s))"
| step_demote: "store_step s (snd (demote_dead dead s))"

inductive_cases store_stepE: "store_step s s'"

abbreviation store_history :: "runtime_store \<Rightarrow> runtime_store \<Rightarrow> bool" where
  "store_history \<equiv> store_step\<^sup>*\<^sup>*"

lemmas op_commits = transact.commits replace.commits working.commits mark.commits outcome.commits demote.commits
lemmas op_rows = transact.rows replace.rows working.rows mark.rows outcome.rows demote.rows
lemmas op_ok = transact.keeps_ok replace.keeps_ok working.keeps_ok mark.keeps_ok outcome.keeps_ok demote.keeps_ok
lemmas op_evidence = transact.evidence_kept replace.evidence_kept working.evidence_kept mark.evidence_kept outcome.evidence_kept demote.evidence_kept

lemma step_commits: "store_step s s' \<Longrightarrow> s' = s \<or> st_revision s' = Suc (st_revision s)"
  by (erule store_stepE) (simp_all add: op_commits)

lemma step_rows: "store_step s s' \<Longrightarrow> rows_follow (st_outbox s) (st_outbox s')"
  by (erule store_stepE) (simp_all add: op_rows)

lemma step_ok: "store_step s s' \<Longrightarrow> outbox_ok (st_outbox s) \<Longrightarrow> outbox_ok (st_outbox s')"
  by (erule store_stepE) (simp_all add: op_ok)

lemma step_evidence: "store_step s s' \<Longrightarrow> \<exists>es. st_evidence s' = st_evidence s @ es"
  by (erule store_stepE) (simp_all only: op_evidence)

lemma history_revision: "store_history s s' \<Longrightarrow> s' = s \<or> st_revision s < st_revision s'"
  by (induction rule: rtranclp_induct) (use step_commits in fastforce)+


definition ex_store :: runtime_store where
  "ex_store = \<lparr>st_session_id = ''s1'', st_revision = 3, st_root = [(''session_id'', PStr ''s1'')], st_items = [],
     st_leases = [], st_lease_events = [], st_evidence = [],
     st_outbox = [new_outbox_row ''s1'' 2 [(''command_id'', PStr ''c1''), (''effect_type'', PStr ''github_reply''),
        (''idempotency_key'', PStr ''k''), (''operation_category'', PStr ''github_reply''),
        (''retry_boundary'', PStr ''reconcile_only'')]]\<rparr>"

definition ex_store_marked :: runtime_store where
  "ex_store_marked = snd (mark_outbox_in_flight ''c1'' (Some ''me'') ''t'' [] ex_store)"


section \<open>The life of an outbox command\<close>

lemma history_row:
  assumes "store_history s s'" "i < length (st_outbox s)"
  shows "i < length (st_outbox s') \<and> row_step\<^sup>*\<^sup>* (st_outbox s ! i) (st_outbox s' ! i)"
  using assms(1)
proof (induction rule: rtranclp_induct)
  case base
  then show ?case using assms(2) by simp
next
  case (step a b)
  from rows_follow_nth [OF step_rows [OF step.hyps(2)], of i] step.IH
  show ?case by (auto intro: rtranclp.rtrancl_into_rtrancl)
qed

lemma history_ok: "store_history s s' \<Longrightarrow> outbox_ok (st_outbox s) \<Longrightarrow> outbox_ok (st_outbox s')"
  by (induction rule: rtranclp_induct) (auto dest: step_ok)

lemma succeeded_stays: "row_step\<^sup>*\<^sup>* r r' \<Longrightarrow> o_status r = ''succeeded'' \<Longrightarrow> r' = r"
  by (induction rule: rtranclp_induct) (auto simp: row_step_def dest: succeeded_no_edge)

lemma identity_stays:
  "row_step\<^sup>*\<^sup>* r r' \<Longrightarrow> o_command_id r' = o_command_id r \<and> o_effect_type r' = o_effect_type r
     \<and> o_idempotency_key r' = o_idempotency_key r \<and> o_retry_boundary r' = o_retry_boundary r
     \<and> o_attempt_count r \<le> o_attempt_count r'"
proof (induction rule: rtranclp_induct)
  case (step y z)
  from step_identity [OF step.hyps(2)] step.IH show ?case by simp
qed simp

text \<open>
  C8: a succeeded effect is final and unique. Through every history of the store a command
  keeps its place, its identity and its retry boundary and never loses an attempt; once it
  has succeeded its row never changes again; no two commands ever share an id or an effect
  and key; and every succeeded command has its external result.
\<close>

theorem succeeded_effect_is_final:
  assumes "store_history s s'" "outbox_ok (st_outbox s)" "i < length (st_outbox s)"
  shows "i < length (st_outbox s')
    \<and> o_command_id (st_outbox s' ! i) = o_command_id (st_outbox s ! i)
    \<and> o_effect_type (st_outbox s' ! i) = o_effect_type (st_outbox s ! i)
    \<and> o_idempotency_key (st_outbox s' ! i) = o_idempotency_key (st_outbox s ! i)
    \<and> o_retry_boundary (st_outbox s' ! i) = o_retry_boundary (st_outbox s ! i)
    \<and> o_attempt_count (st_outbox s ! i) \<le> o_attempt_count (st_outbox s' ! i)
    \<and> (o_status (st_outbox s ! i) = ''succeeded'' \<longrightarrow> st_outbox s' ! i = st_outbox s ! i)
    \<and> (\<forall>j k. j < k \<longrightarrow> k < length (st_outbox s') \<longrightarrow> \<not> outbox_clash (st_outbox s' ! j) (st_outbox s' ! k))
    \<and> (\<forall>r \<in> set (st_outbox s'). o_status r = ''succeeded'' \<longrightarrow> truthy (o_external_result_reference r))"
proof -
  note row = history_row [OF assms(1,3)]
  have "outbox_ok (st_outbox s')" using assms(1,2) by (rule history_ok)
  then show ?thesis
    using row succeeded_stays [of "st_outbox s ! i" "st_outbox s' ! i"] identity_stays [of "st_outbox s ! i" "st_outbox s' ! i"]
    by (auto simp: outbox_ok_def row_ok_def sorted_wrt_iff_nth_less)
qed

lemma ex_store_ok: "outbox_ok (st_outbox ex_store)"
  by (simp add: ex_store_def outbox_ok_def row_ok_def new_outbox_row_def)

theorem succeeded_effect_is_final_witness:
  "o_attempt_count (st_outbox ex_store ! 0) \<le> o_attempt_count (st_outbox ex_store_marked ! 0)"
proof -
  have h: "store_history ex_store ex_store_marked"
    unfolding ex_store_marked_def by (rule r_into_rtranclp, rule step_mark)
  have "0 < length (st_outbox ex_store)" by (simp add: ex_store_def)
  from succeeded_effect_is_final [OF h ex_store_ok this] show ?thesis by blast
qed

text \<open>A condition that selects at most one row of a well-formed outbox.\<close>

lemma command_unique:
  assumes "outbox_ok rs" "a \<in> set rs" "b \<in> set rs" "o_command_id a = o_command_id b"
  shows "a = b"
proof -
  obtain i j where ij: "i < length rs" "rs ! i = a" "j < length rs" "rs ! j = b"
    using assms(2,3) by (auto simp: in_set_conv_nth)
  have w: "sorted_wrt (\<lambda>a b. \<not> outbox_clash a b) rs" using assms(1) by (simp add: outbox_ok_def)
  have "outbox_clash (rs ! i) (rs ! j)" "outbox_clash (rs ! j) (rs ! i)"
    using assms(4) ij by (simp_all add: outbox_clash_def)
  then have "\<not> i < j" "\<not> j < i"
    using sorted_wrt_nth_less [OF w, of i j] sorted_wrt_nth_less [OF w, of j i] ij(1,3) by blast+
  with ij show ?thesis by (metis linorder_neqE_nat)
qed

lemma no_row_selected:
  assumes "outbox_ok (st_outbox s)" "r \<in> set (st_outbox s)" "\<And>x. P x \<Longrightarrow> o_command_id x = o_command_id r" "\<not> P r"
  shows "rowcount P s = 0"
proof -
  have "x \<in> set (st_outbox s) \<Longrightarrow> \<not> P x" for x
    using command_unique [OF assms(1) _ assms(2), of x] assms(3,4) by blast
  then show ?thesis by (simp add: rowcount_def filter_empty_conv)
qed

text \<open>
  C15: an effect is not repeated blindly. When the command of an attempt is already running,
  has succeeded, or is a reply whose outcome is unknown, beginning the attempt is refused
  for reconciliation and nothing changes; and the store itself refuses to put such a
  command in flight, so no caller can.
\<close>

theorem blind_retry_refused:
  assumes "find_command attempt x = Some r" "outbox_ok (st_outbox (px_store x))"
    and "o_status r = ''in_flight'' \<or> o_status r = ''succeeded''
         \<or> (o_status r = ''unknown'' \<and> o_retry_boundary r = PStr ''reconcile_only'')"
  shows "begin_attempt now attempt records command_id owner x = (Inl (reconcile_required attempt), x)
    \<and> (\<exists>e. mark_outbox_in_flight (o_command_id r) token now ev (px_store x) = (Inl e, px_store x))"
proof
  show "begin_attempt now attempt records command_id owner x = (Inl (reconcile_required attempt), x)"
    using assms(1,3) by (auto simp: begin_attempt_def may_begin_def)
  have "r \<in> set (st_outbox (px_store x))"
    using assms(1) by (auto simp: find_command_def outbox_command_def find_Some_iff)
  then have "rowcount (may_enter_flight (o_command_id r)) (px_store x) = 0"
    using assms(3) by (intro no_row_selected [OF assms(2)]) (auto simp: may_enter_flight_def)
  then show "\<exists>e. mark_outbox_in_flight (o_command_id r) token now ev (px_store x) = (Inl e, px_store x)"
    by (simp add: mark_outbox_in_flight_def atomically_def commit_rows_def)
qed

definition ex_process :: process where
  "ex_process = \<lparr>px_store = ex_store_marked, px_session = [], px_held = [], px_life = 9\<rparr>"

definition ex_attempt :: side_effect_attempt where
  "ex_attempt = \<lparr>sa_attempt_id = ''a'', sa_session_id = ''s1'', sa_item_id = ''i'', sa_side_effect_type = ''github_reply'',
     sa_idempotency_key = ''k'', sa_status = ''in_flight'', sa_retry_count = 0, sa_backoff_until = PNone,
     sa_last_error = PNone, sa_external_url = PNone\<rparr>"

theorem blind_retry_refused_witness:
  "begin_attempt ''t'' ex_attempt [] ''c1'' ''other'' ex_process = (Inl (reconcile_required ex_attempt), ex_process)"
proof -
  define r where "r = the (find_command ex_attempt ex_process)"
  have f: "find_command ex_attempt ex_process = Some r" unfolding r_def by code_simp
  have s: "o_status r = ''in_flight''" unfolding r_def by code_simp
  have ok: "outbox_ok (st_outbox (px_store ex_process))"
    using mark.keeps_ok [OF ex_store_ok] by (simp add: ex_process_def ex_store_marked_def)
  from blind_retry_refused [OF f ok] s show ?thesis by blast
qed

text \<open>
  Only the owner reports. The result of a running command is recorded only with the
  owner token it was marked with; any other caller is refused and changes nothing, and a
  recovery that saw an earlier owner does not demote it.
\<close>

theorem foreign_result_refused:
  assumes "outbox_ok (st_outbox s)" "r \<in> set (st_outbox s)" "o_status r = ''in_flight''" "o_owner_token r = Some token"
  shows "(owner \<noteq> Some token \<longrightarrow>
       (\<exists>e. record_outbox_result (o_command_id r) status ev ref err owner s = (Inl e, s)))
    \<and> ((o_command_id r, Some token) \<notin> set dead \<longrightarrow> r \<in> set (st_outbox (snd (demote_dead dead s))))"
proof
  show "owner \<noteq> Some token \<longrightarrow>
       (\<exists>e. record_outbox_result (o_command_id r) status ev ref err owner s = (Inl e, s))"
  proof
    assume "owner \<noteq> Some token"
    then have "rowcount (may_record (o_command_id r) owner) s = 0"
      using assms(3,4) by (intro no_row_selected [OF assms(1,2)]) (auto simp: may_record_def)
    then show "\<exists>e. record_outbox_result (o_command_id r) status ev ref err owner s = (Inl e, s)"
      by (simp add: record_outbox_result_def atomically_def commit_rows_def)
  qed
  show "(o_command_id r, Some token) \<notin> set dead \<longrightarrow> r \<in> set (st_outbox (snd (demote_dead dead s)))"
  proof
    assume "(o_command_id r, Some token) \<notin> set dead"
    then have "\<not> demoted_by dead r" using assms(4) by (simp add: demoted_by_def)
    with assms(2) show "r \<in> set (st_outbox (snd (demote_dead dead s)))"
      by (auto simp: demote_dead_def update_rows_def image_iff)
  qed
qed

theorem foreign_result_refused_witness:
  "\<exists>e. record_outbox_result ''c1'' ''failed'' [] PNone None (Some ''other'') ex_store_marked = (Inl e, ex_store_marked)"
proof -
  define r where "r = st_outbox ex_store_marked ! 0"
  have ok: "outbox_ok (st_outbox ex_store_marked)"
    using mark.keeps_ok [OF ex_store_ok] by (simp add: ex_store_marked_def)
  have "length (st_outbox ex_store_marked) = 1" by code_simp
  then have m: "r \<in> set (st_outbox ex_store_marked)" unfolding r_def by simp
  have s: "o_status r = ''in_flight''" "o_owner_token r = Some ''me''" "o_command_id r = ''c1''"
    "Some ''other'' \<noteq> Some ''me''"
    unfolding r_def by code_simp+
  from foreign_result_refused [OF ok m s(1,2)] s(3,4) show ?thesis by metis
qed

section \<open>The revision token\<close>

lemma commit_rows_revisions:
  "commit_rows P f detail ev s = Inr (c, s') \<Longrightarrow>
     oc_base_revision c = st_revision s \<and> oc_revision c = Suc (st_revision s) \<and> st_revision s' = Suc (st_revision s)"
  by (auto simp: commit_rows_def sum_bind_def split: if_splits sum.splits)

text \<open>
  What a caller that tracks the revision needs of an operation: it reports no commit only if
  it changed nothing, and otherwise the revision it found and the one it left.
\<close>

locale token_operation = store_operation op
  for op :: "runtime_store \<Rightarrow> (store_error + 'a) \<times> runtime_store" +
  fixes commit_of :: "'a \<Rightarrow> outbox_commit option"
  assumes reports: "fst (op s) = Inr a \<Longrightarrow>
      (case commit_of a of
         None \<Rightarrow> snd (op s) = s
       | Some c \<Rightarrow> oc_base_revision c = st_revision s \<and> oc_revision c = Suc (st_revision s)
                   \<and> st_revision (snd (op s)) = Suc (st_revision s))"
begin

lemma commit_store_token:
  assumes "guard_token (px_session x) = Some t"
  shows "guard_token (px_session (snd (commit_store op commit_of x)))
       = Some (if t = int (st_revision (px_store x)) then int (st_revision (px_store (snd (commit_store op commit_of x)))) else t)"
proof (cases "px_life x = 0")
  case False
  obtain r st where Pair: "op (px_store x) = (r, st)" by fastforce
  show ?thesis
  proof (cases r)
    case (Inl e)
    then have "st = px_store x" using undone [of "px_store x"] Pair by simp
    then show ?thesis using False Pair Inl assms by (simp add: commit_store_def tick_def)
  next
    case (Inr a)
    then show ?thesis
      using reports [of "px_store x" a] False Pair assms
      by (cases "commit_of a")
         (auto simp: commit_store_def tick_def advance_token_def guard_token_def session_token_def as_int_def split: pyval.splits)
  qed
qed (simp add: commit_store_def assms)

lemma commit_store_revision:
  "st_revision (px_store x) \<le> st_revision (px_store (snd (commit_store op commit_of x)))"
  using revision_le [of "px_store x"] by (cases "op (px_store x)") (simp add: commit_store_def tick_def split: sum.splits)

end

lemma atomically_Inr: "fst (atomically body s) = Inr a \<Longrightarrow> body s = Inr (a, snd (atomically body s))"
  by (auto simp: atomically_def split: sum.splits)

interpretation transact_token: token_operation "transact m expected ev ob" transaction_commit for m expected ev ob
proof
  fix s a
  assume "fst (transact m expected ev ob s) = Inr a"
  note * = atomically_Inr [OF this [unfolded transact_def]]
  from * have "\<exists>current. commit_transaction True m ev ob current s = Inr (a, snd (transact m expected ev ob s))"
    by (auto simp: transact_def sum_bind_def split: sum.splits option.splits)
  then show "case transaction_commit a of
         None \<Rightarrow> snd (transact m expected ev ob s) = s
       | Some c \<Rightarrow> oc_base_revision c = st_revision s \<and> oc_revision c = Suc (st_revision s)
                   \<and> st_revision (snd (transact m expected ev ob s)) = Suc (st_revision s)"
    by (auto simp: transaction_commit_def dest: commit_transaction_frame)
qed

interpretation mark_token: token_operation "mark_outbox_in_flight cid owner now ev" Some for cid owner now ev
proof
  fix s a
  assume "fst (mark_outbox_in_flight cid owner now ev s) = Inr a"
  note * = atomically_Inr [OF this [unfolded mark_outbox_in_flight_def]]
  show "case Some a of
         None \<Rightarrow> snd (mark_outbox_in_flight cid owner now ev s) = s
       | Some c \<Rightarrow> oc_base_revision c = st_revision s \<and> oc_revision c = Suc (st_revision s)
                   \<and> st_revision (snd (mark_outbox_in_flight cid owner now ev s)) = Suc (st_revision s)"
    using commit_rows_revisions [OF *] by (simp add: mark_outbox_in_flight_def)
qed

interpretation outcome_token: token_operation "record_outbox_result cid status ev ref err owner" Some
  for cid status ev ref err owner
proof
  fix s a
  assume "fst (record_outbox_result cid status ev ref err owner s) = Inr a"
  note * = atomically_Inr [OF this [unfolded record_outbox_result_def]]
  then have "commit_rows (may_record cid owner) (record_result status err ref)
      ''Outbox command is missing, not owned by this executor, or cannot record the requested result.'' ev s
      = Inr (a, snd (record_outbox_result cid status ev ref err owner s))"
    by (simp add: record_outbox_result_def split: if_splits)
  from commit_rows_revisions [OF this] show "case Some a of
         None \<Rightarrow> snd (record_outbox_result cid status ev ref err owner s) = s
       | Some c \<Rightarrow> oc_base_revision c = st_revision s \<and> oc_revision c = Suc (st_revision s)
                   \<and> st_revision (snd (record_outbox_result cid status ev ref err owner s)) = Suc (st_revision s)"
    by simp
qed

interpretation demote_token: token_operation "demote_dead dead" "map_option fst" for dead
  by unfold_locales (auto simp: demote_dead_def update_rows_def split: if_splits)
inductive effect_step :: "process \<Rightarrow> process \<Rightarrow> bool" where
  "effect_step x (snd (enter_guard locked owner effect_type key x))"
| "effect_step x (leave_guard effect_type key x)"
| "effect_step x (snd (plan_effect attempt cid guarded x))"
| "effect_step x (snd (mark_effect now cid owner ev x))"
| "effect_step x (snd (commit_store (record_outbox_result cid status ev ref err owner) Some x))"
| "effect_step x (snd (commit_store (demote_dead dead) (map_option fst) x))"

inductive_cases effect_stepE: "effect_step x y"

text \<open>A run of one process, and whether other processes committed in it.\<close>

inductive process_run :: "bool \<Rightarrow> process \<Rightarrow> process \<Rightarrow> bool" where
  run_start: "process_run False x x"
| run_own: "process_run foreign x y \<Longrightarrow> effect_step y z \<Longrightarrow> process_run foreign x z"
| run_foreign: "process_run foreign x y \<Longrightarrow> store_step (px_store y) s \<Longrightarrow> s \<noteq> px_store y \<Longrightarrow>
    process_run True x (y\<lparr>px_store := s\<rparr>)"

lemmas token_kept = transact_token.commit_store_token mark_token.commit_store_token
  outcome_token.commit_store_token demote_token.commit_store_token
lemmas revision_kept = transact_token.commit_store_revision mark_token.commit_store_revision
  outcome_token.commit_store_revision demote_token.commit_store_revision

lemma effect_step_token:
  assumes "effect_step x y" "guard_token (px_session x) = Some t"
  shows "guard_token (px_session y)
       = Some (if t = int (st_revision (px_store x)) then int (st_revision (px_store y)) else t)"
  using assms
  by (elim effect_stepE)
     (simp_all add: token_kept plan_effect_def mark_effect_def enter_guard_def leave_guard_def Let_def)

lemma effect_step_revision: "effect_step x y \<Longrightarrow> st_revision (px_store x) \<le> st_revision (px_store y)"
  by (elim effect_stepE)
     (simp_all add: revision_kept plan_effect_def mark_effect_def enter_guard_def leave_guard_def Let_def)

lemma run_token:
  assumes "process_run foreign x y" "guard_token (px_session x) = Some (int (st_revision (px_store x)))"
  shows "\<exists>t. guard_token (px_session y) = Some t
    \<and> (if foreign then t < int (st_revision (px_store y)) else t = int (st_revision (px_store y)))"
  using assms
proof (induction rule: process_run.induct)
  case (run_own foreign x y z)
  then obtain t where t: "guard_token (px_session y) = Some t"
    "if foreign then t < int (st_revision (px_store y)) else t = int (st_revision (px_store y))" by blast
  then show ?case
    using effect_step_token [OF run_own.hyps(2) t(1)] effect_step_revision [OF run_own.hyps(2)] by auto
next
  case (run_foreign foreign x y s)
  then obtain t where t: "guard_token (px_session y) = Some t" "t \<le> int (st_revision (px_store y))"
    by (auto split: if_splits)
  with step_commits [OF run_foreign.hyps(2)] run_foreign.hyps(3) show ?case by auto
qed simp

lemma and_then_steps:
  assumes "effect_step\<^sup>*\<^sup>* x (snd r)" "\<And>y. effect_step\<^sup>*\<^sup>* y (snd (f y))"
  shows "effect_step\<^sup>*\<^sup>* x (snd (and_then r f))"
  using assms(1) assms(2) [of "snd r"]
  by (auto simp: and_then_def split: prod.splits sum.splits)

lemma one_step: "effect_step x y \<Longrightarrow> effect_step\<^sup>*\<^sup>* x y"
  by (rule r_into_rtranclp)

lemmas own_commits = one_step [OF effect_step.intros(3)] one_step [OF effect_step.intros(4)]
  one_step [OF effect_step.intros(5)] one_step [OF effect_step.intros(6)]

lemma persist_steps: "effect_step\<^sup>*\<^sup>* x (snd (persist_side_effect_attempt now records x))"
proof -
  have b: "effect_step\<^sup>*\<^sup>* x (snd (begin_attempt now a r cid owner x))" for a r cid owner x
    by (auto simp: begin_attempt_def split: option.splits intro!: and_then_steps own_commits)
  have f: "effect_step\<^sup>*\<^sup>* x (snd (finish_attempt now a r cid owner x))" for a r cid owner x
    unfolding finish_attempt_def Let_def
    by (intro and_then_steps own_commits)
       (auto split: option.splits intro!: and_then_steps own_commits)
  show ?thesis
    by (auto simp: persist_side_effect_attempt_def Let_def b f split: list.splits sum.splits option.splits)
qed

lemma state_steps: "effect_step\<^sup>*\<^sup>* x (snd (side_effect_state locked locked' effect_type key x))"
proof -
  have d: "effect_step\<^sup>*\<^sup>* x (snd (commit_store (demote_dead dead) (map_option fst) x))" for dead
    by (rule own_commits)
  have s: "snd (case r of (Inl e, x') \<Rightarrow> (Inl e, x') | (Inr u, x') \<Rightarrow> (Inr (f u x'), x')) = snd r"
    for r :: "(effect_error + unit) \<times> process" and f :: "unit \<Rightarrow> process \<Rightarrow> (outbox_row \<times> bool) option"
    by (simp split: prod.splits sum.splits)
  show ?thesis
    unfolding side_effect_state_def Let_def s using d by (simp split: option.splits)
qed

lemma run_steps: "effect_step\<^sup>*\<^sup>* y z \<Longrightarrow> process_run foreign x y \<Longrightarrow> process_run foreign x z"
  by (induction rule: rtranclp_induct) (auto intro: run_own)

text \<open>
  C14: the token tells the truth. A process whose session carries the current revision goes
  on to plan, mark, finish, reconcile and recover side effects while other processes commit
  what they like. Its token is current exactly when none of them did; otherwise saving its
  session with that token is refused, so its commits never carry it past a foreign one.
\<close>

theorem token_tracks_own_commits:
  assumes "process_run foreign x y" "guard_token (px_session x) = Some (int (st_revision (px_store x)))"
    and "z \<in> {y, snd (persist_side_effect_attempt now records y), snd (side_effect_state locked locked' effect_type key y)}"
  shows "(guard_token (px_session z) = Some (int (st_revision (px_store z))) \<longleftrightarrow> \<not> foreign)
    \<and> (foreign \<longrightarrow> (\<exists>e. replace_session (px_session z) (guard_token (px_session z)) [] [] (px_store z) = (Inl e, px_store z)))"
proof -
  have "process_run foreign x z"
    using assms(3) run_steps [OF persist_steps assms(1)] run_steps [OF state_steps assms(1)] assms(1) by auto
  from run_token [OF this assms(2)] obtain t where t: "guard_token (px_session z) = Some t"
    "if foreign then t < int (st_revision (px_store z)) else t = int (st_revision (px_store z))" by blast
  then show ?thesis
    by (cases foreign) (simp_all add: replace_session_def atomically_def check_expected_def)
qed

definition ex_fresh :: process where
  "ex_fresh = \<lparr>px_store = ex_store, px_session = [(''persistence'', PDict [(''revision'', PInt 3)])], px_held = [], px_life = 9\<rparr>"

theorem token_tracks_own_commits_witness:
  "guard_token (px_session (ex_fresh\<lparr>px_store := ex_store_marked\<rparr>)) \<noteq> Some (int (st_revision ex_store_marked))"
proof -
  have r: "st_revision ex_store = 3" "st_revision ex_store_marked = 4" "px_store ex_fresh = ex_store"
    "guard_token (px_session ex_fresh) = Some 3" by code_simp+
  have run: "process_run True ex_fresh (ex_fresh\<lparr>px_store := ex_store_marked\<rparr>)"
  proof (rule run_foreign [OF run_start])
    show "store_step (px_store ex_fresh) ex_store_marked" unfolding ex_store_marked_def r(3) by (rule step_mark)
    show "ex_store_marked \<noteq> px_store ex_fresh" using r by auto
  qed
  have fresh: "guard_token (px_session ex_fresh) = Some (int (st_revision (px_store ex_fresh)))" using r by simp
  from token_tracks_own_commits [OF run fresh, of "ex_fresh\<lparr>px_store := ex_store_marked\<rparr>"] show ?thesis by simp
qed
section \<open>The claim projection\<close>

text \<open>What a correct projection of the leases on the items is.\<close>

definition holding :: "(string \<times> pydict) list \<Rightarrow> (string \<times> pydict) list" where
  "holding ls = map (\<lambda>(i, l). (text_or_empty l ''item_id'', l)) (filter (\<lambda>(i, l). lease_holds l) ls)"

definition mirrors :: "pydict \<Rightarrow> pydict \<Rightarrow> bool" where
  "mirrors item l \<longleftrightarrow> dget item ''state'' = PStr ''claimed'' \<and> dget item ''active_lease_id'' = PStr (py_str (dget l ''lease_id''))
     \<and> dget item ''claimed_by'' = dget l ''agent_id'' \<and> dget item ''claimed_at'' = dget l ''created_at''
     \<and> dget item ''lease_expires_at'' = dget l ''expires_at''"

definition free_of_claim :: "pydict \<Rightarrow> bool" where
  "free_of_claim item \<longleftrightarrow> dget item ''state'' \<noteq> PStr ''claimed'' \<and> \<not> has_key item ''active_lease_id''
     \<and> dget item ''claimed_by'' = PNone \<and> dget item ''claimed_at'' = PNone \<and> dget item ''lease_expires_at'' = PNone"

lemma index_leases_result:
  "index_leases ls done active = Inr (done', active') \<Longrightarrow> distinct (map fst active) \<Longrightarrow>
     \<exists>new. done' = done @ new \<and> map fst new = map fst ls \<and> active' = active @ holding new
       \<and> distinct (map fst active') \<and> (\<forall>(i, l) \<in> set new. has_key l ''lease_id'')"
proof (induction ls arbitrary: "done" active)
  case (Cons x ls)
  obtain i v where x: "x = (i, v)" by (cases x)
  then obtain d where d: "v = PDict d" using Cons.prems(1) by (cases v) auto
  define l where "l = dsetdefault ''lease_id'' (PStr i) d"
  have k: "has_key l ''lease_id''" by (simp add: l_def dsetdefault_def)
  show ?case
  proof (cases "lease_holds l")
    case False
    then have "index_leases ls (done @ [(i, l)]) active = Inr (done', active')"
      using Cons.prems(1) by (simp add: x d l_def Let_def split: if_splits)
    from Cons.IH [OF this Cons.prems(2)] obtain new where
      "done' = (done @ [(i, l)]) @ new" "map fst new = map fst ls" "active' = active @ holding new"
      "distinct (map fst active')" "\<forall>(i, l) \<in> set new. has_key l ''lease_id''" by blast
    then show ?thesis using False k by (intro exI [of _ "(i, l) # new"]) (simp add: holding_def x)
  next
    case True
    then have n: "map_of active (text_or_empty l ''item_id'') = None"
      and r: "index_leases ls (done @ [(i, l)]) (active @ [(text_or_empty l ''item_id'', l)]) = Inr (done', active')"
      using Cons.prems(1) by (auto simp add: x d l_def Let_def split: if_splits)
    have "distinct (map fst (active @ [(text_or_empty l ''item_id'', l)]))"
      using n Cons.prems(2) by (simp add: map_of_eq_None_iff)
    from Cons.IH [OF r this] obtain new where
      "done' = (done @ [(i, l)]) @ new" "map fst new = map fst ls"
      "active' = (active @ [(text_or_empty l ''item_id'', l)]) @ holding new"
      "distinct (map fst active')" "\<forall>(i, l) \<in> set new. has_key l ''lease_id''" by blast
    then show ?thesis using True k by (intro exI [of _ "(i, l) # new"]) (simp add: holding_def x)
  qed
qed (auto simp: holding_def)

lemma project_items_result:
  "project_items active items = Inr is \<Longrightarrow>
     list_all2 (\<lambda>x (i, item). fst x = i \<and> (\<exists>d. snd x = PDict d \<and> item = project_item active i d)) items is"
proof (induction items arbitrary: "is")
  case (Cons x items)
  then obtain i d rest where *: "x = (i, PDict d)" "project_items active items = Inr rest"
    "is = (i, project_item active i d) # rest"
    by (cases x; cases "snd x") (auto split: sum.splits)
  from Cons.IH [OF *(2)] *(1,3) show ?case by simp
qed simp

lemma returned_not_claimed: "dget (return_item_to_claimable_state item) ''state'' \<noteq> PStr ''claimed''"
  using returned_state_cases [of item] by (auto simp: dget_return_item)

lemma project_item_claimed: "map_of active i = Some l \<Longrightarrow> mirrors (project_item active i item) l"
  by (simp add: project_item_def mirrors_def claimed_item_def)

lemma project_item_free: "map_of active i = None \<Longrightarrow> free_of_claim (project_item active i item)"
  using returned_not_claimed [of item]
  by (simp add: project_item_def free_of_claim_def unclaimed_item_def Let_def)

text \<open>
  The claim projection. What the store shows of an item is decided by the leases alone.
  If the projection succeeds, it keeps the items and leases it was given, in order; at most
  one lease holds each item; an item that a lease holds is claimed and mirrors that lease,
  whatever the item row said; and an item that no lease holds is not claimed and carries no
  trace of a claim.
\<close>

theorem claim_projection_correct:
  assumes "derive_item_claim_projection items leases = Inr (is, ls)"
  shows "map fst is = map fst items \<and> map fst ls = map fst leases \<and> distinct (map fst (holding ls))
    \<and> (\<forall>i item. (i, item) \<in> set is \<longrightarrow>
         (\<forall>l. (i, l) \<in> set (holding ls) \<longrightarrow> mirrors item l)
         \<and> (i \<notin> fst ` set (holding ls) \<longrightarrow> free_of_claim item))"
proof -
  obtain active where a: "index_leases leases [] [] = Inr (ls, active)" "project_items active items = Inr is"
    using assms by (auto simp: derive_item_claim_projection_def sum_bind_def split: sum.splits prod.splits)
  have h: "active = holding ls" "map fst ls = map fst leases" "distinct (map fst active)"
    using index_leases_result [OF a(1)] by auto
  note p = project_items_result [OF a(2)]
  have "map fst is = map fst items"
    using p by (induction rule: list_all2_induct) auto
  moreover have "(i, item) \<in> set is \<Longrightarrow> \<exists>d. item = project_item active i d" for i item
    using p by (induction rule: list_all2_induct) auto
  ultimately have keys: "map fst is = map fst items" and item: "\<And>i item. (i, item) \<in> set is \<Longrightarrow> \<exists>d. item = project_item active i d"
    by blast+
  have "mirrors item l" if "(i, item) \<in> set is" "(i, l) \<in> set active" for i item l
    using item [OF that(1)] project_item_claimed [OF map_of_is_SomeI [OF h(3) that(2)]] by blast
  moreover have "free_of_claim item" if "(i, item) \<in> set is" "i \<notin> fst ` set active" for i item
  proof -
    have "map_of active i = None" using that(2) by (simp add: map_of_eq_None_iff)
    then show ?thesis using item [OF that(1)] project_item_free by blast
  qed
  ultimately show ?thesis using h keys by blast
qed

definition ex_claims :: "(string \<times> pyval) list" where
  "ex_claims = [(''L1'', PDict [(''item_id'', PStr ''i1''), (''status'', PStr ''active''), (''agent_id'', PStr ''a'')])]"

definition ex_items :: "(string \<times> pyval) list" where
  "ex_items = [(''i1'', PDict [(''state'', PStr ''open'')]), (''i2'', PDict [(''state'', PStr ''claimed'')])]"

theorem claim_projection_correct_witness:
  "\<exists>is ls. derive_item_claim_projection ex_items ex_claims = Inr (is, ls)
     \<and> (\<forall>item. (''i2'', item) \<in> set is \<longrightarrow> free_of_claim item) \<and> map fst is = [''i1'', ''i2'']"
proof -
  define r where "r = projr (derive_item_claim_projection ex_items ex_claims)"
  have "\<not> isl (derive_item_claim_projection ex_items ex_claims)" by code_simp
  then have e: "derive_item_claim_projection ex_items ex_claims = Inr (fst r, snd r)" by (simp add: r_def)
  have n: "''i2'' \<notin> fst ` set (holding (snd r))" "map fst ex_items = [''i1'', ''i2'']" unfolding r_def by code_simp+
  note c = claim_projection_correct [OF e]
  then have "\<forall>item. (''i2'', item) \<in> set (fst r) \<longrightarrow> free_of_claim item" using n(1) by blast
  moreover have "map fst (fst r) = [''i1'', ''i2'']" using c n(2) by (simp only:)
  ultimately show ?thesis using e by (intro exI [of _ "fst r"] exI [of _ "snd r"] conjI)
qed

end
