(* ===== verification/Working_Set_Properties.thy ===== *)
theory Working_Set_Properties
  imports Store_Properties
begin

text \<open>
  What a working set guarantees: it shows every row it selects as the whole session would,
  writing it leaves every other row alone, and no transaction lets two active leases hold
  one item.
\<close>

section \<open>The projection of selected rows\<close>

abbreviation encoded :: "(string \<times> pydict) list \<Rightarrow> (string \<times> pyval) list" where
  "encoded xs \<equiv> map (\<lambda>(i, d). (i, PDict d)) xs"

definition with_lease_id :: "string \<times> pydict \<Rightarrow> string \<times> pydict" where
  "with_lease_id = (\<lambda>(i, d). (i, dsetdefault ''lease_id'' (PStr i) d))"

lemma with_lease_id_fst [simp]: "fst (with_lease_id x) = fst x"
  by (simp add: with_lease_id_def split: prod.split)

lemma with_lease_id_get: "k \<noteq> ''lease_id'' \<Longrightarrow> dget (snd (with_lease_id x)) k = dget (snd x) k"
  by (simp add: with_lease_id_def dget_dsetdefault split: prod.split)

lemma with_lease_id_text: "k \<noteq> ''lease_id'' \<Longrightarrow> text_or_empty (snd (with_lease_id x)) k = text_or_empty (snd x) k"
  by (simp add: text_or_empty_def with_lease_id_get)

lemma with_lease_id_holds: "lease_holds (snd (with_lease_id x)) = lease_holds (snd x)"
  by (simp add: lease_holds_def with_lease_id_get)

definition hashable_status :: "string \<times> pydict \<Rightarrow> bool" where
  "hashable_status x \<longleftrightarrow> \<not> unhashable (dget (snd x) ''status'')"

definition held_items :: "(string \<times> pydict) list \<Rightarrow> string list" where
  "held_items xs = map (\<lambda>x. text_or_empty (snd x) ''item_id'') (filter (\<lambda>x. lease_holds (snd x)) xs)"

lemma held_items_simps [simp]:
  "held_items [] = []"
  "held_items (x # xs) = (if lease_holds (snd x) then text_or_empty (snd x) ''item_id'' # held_items xs else held_items xs)"
  by (simp_all add: held_items_def)

lemma holding_simps [simp]:
  "holding [] = []"
  "holding (x # xs) = (if lease_holds (snd x) then (text_or_empty (snd x) ''item_id'', snd x) # holding xs else holding xs)"
  by (auto simp: holding_def split: prod.split)

lemma index_leases_encoded:
  "index_leases (encoded xs) done active = Inr r \<longleftrightarrow>
     list_all hashable_status xs \<and> distinct (held_items xs) \<and> set (held_items xs) \<inter> fst ` set active = {}
     \<and> r = (done @ map with_lease_id xs, active @ holding (map with_lease_id xs))"
proof (induction xs arbitrary: "done" active)
  case (Cons x xs)
  obtain i d where x: "x = (i, d)" by (cases x)
  let ?l = "dsetdefault ''lease_id'' (PStr i) d"
  have l: "with_lease_id (i, d) = (i, ?l)" by (simp add: with_lease_id_def)
  have g: "dget ?l ''status'' = dget d ''status''" "text_or_empty ?l ''item_id'' = text_or_empty d ''item_id''"
    "lease_holds ?l = lease_holds d"
    by (simp_all add: text_or_empty_def lease_holds_def dget_dsetdefault)
  show ?case
  proof (cases "unhashable (dget d ''status'')")
    case True
    then show ?thesis by (simp add: x hashable_status_def g)
  next
    case hashable: False
    show ?thesis
    proof (cases "lease_holds d")
      case False
      then show ?thesis using hashable Cons.IH [of "done @ [(i, ?l)]" active] by (simp add: x l g hashable_status_def)
    next
      case True
      show ?thesis
      proof (cases "map_of active (text_or_empty d ''item_id'')")
        case (Some y)
        then have "text_or_empty d ''item_id'' \<in> fst ` set active" by (force dest: map_of_SomeD)
        then show ?thesis using hashable True Some by (simp add: x l g hashable_status_def)
      next
        case None
        then have "text_or_empty d ''item_id'' \<notin> fst ` set active" by (simp add: map_of_eq_None_iff)
        then have free: "set (held_items (x # xs)) \<inter> fst ` set active = {} \<and> distinct (held_items (x # xs)) \<longleftrightarrow>
            distinct (held_items xs) \<and> set (held_items xs) \<inter> fst ` set (active @ [(text_or_empty d ''item_id'', ?l)]) = {}"
          using True by (auto simp: x)
        have step: "index_leases (encoded (x # xs)) done active
            = index_leases (encoded xs) (done @ [(i, ?l)]) (active @ [(text_or_empty d ''item_id'', ?l)])"
          using hashable True None by (simp add: x g Let_def)
        have list: "list_all hashable_status (x # xs) = list_all hashable_status xs"
          using hashable by (simp add: x hashable_status_def)
        have acc: "done @ map with_lease_id (x # xs) = (done @ [(i, ?l)]) @ map with_lease_id xs"
          "active @ holding (map with_lease_id (x # xs))
             = (active @ [(text_or_empty d ''item_id'', ?l)]) @ holding (map with_lease_id xs)"
          using True by (simp_all add: x l g)
        show ?thesis unfolding step Cons.IH list acc using free by blast
      qed
    qed
  qed
qed auto

lemma project_items_encoded: "project_items active (encoded xs) = Inr (map (\<lambda>(i, d). (i, project_item active i d)) xs)"
  by (induction xs) auto

lemma projection_encoded:
  "derive_item_claim_projection (encoded items) (encoded leases) = Inr r \<longleftrightarrow>
     list_all hashable_status leases \<and> distinct (held_items leases)
     \<and> r = (map (\<lambda>(i, d). (i, project_item (holding (map with_lease_id leases)) i d)) items, map with_lease_id leases)"
proof (cases "index_leases (encoded leases) [] []")
  case (Inl e)
  then have "\<not> (list_all hashable_status leases \<and> distinct (held_items leases))"
    using index_leases_encoded [of leases "[]" "[]" "(map with_lease_id leases, holding (map with_lease_id leases))"] by simp
  then show ?thesis using Inl by (auto simp: derive_item_claim_projection_def)
next
  case (Inr a)
  from iffD1 [OF index_leases_encoded this]
  have a: "list_all hashable_status leases" "distinct (held_items leases)"
    "a = (map with_lease_id leases, holding (map with_lease_id leases))" by simp_all
  with Inr show ?thesis by (auto simp: derive_item_claim_projection_def project_items_encoded)
qed

lemma held_items_holding: "map fst (holding (map with_lease_id xs)) = held_items xs"
  by (induction xs) (simp_all add: with_lease_id_holds with_lease_id_text)

lemma holding_member:
  "(i, l) \<in> set (holding (map with_lease_id xs)) \<longleftrightarrow>
     (\<exists>x \<in> set xs. lease_holds (snd x) \<and> i = text_or_empty (snd x) ''item_id'' \<and> l = snd (with_lease_id x))"
  by (induction xs) (auto simp: with_lease_id_holds with_lease_id_text)

lemma held_items_subset: "set (held_items (filter P xs)) \<subseteq> set (held_items xs)"
  by (auto simp: held_items_def)

lemma held_items_filter: "distinct (held_items xs) \<Longrightarrow> distinct (held_items (filter P xs))"
  by (induction xs) (use held_items_subset in \<open>auto split: if_splits\<close>)

text \<open>Leaving out leases that do not hold an item does not change what holds it.\<close>

lemma holder_filter:
  assumes "distinct (held_items xs)" "\<And>x. x \<in> set xs \<Longrightarrow> lease_holds (snd x) \<Longrightarrow> text_or_empty (snd x) ''item_id'' = i \<Longrightarrow> P x"
  shows "map_of (holding (map with_lease_id (filter P xs))) i = map_of (holding (map with_lease_id xs)) i"
proof (rule option.exhaust [of "map_of (holding (map with_lease_id xs)) i"])
  assume "map_of (holding (map with_lease_id xs)) i = None"
  then have n: "i \<notin> fst ` set (holding (map with_lease_id xs))" by (simp add: map_of_eq_None_iff)
  have "i \<notin> fst ` set (holding (map with_lease_id (filter P xs)))"
  proof
    assume "i \<in> fst ` set (holding (map with_lease_id (filter P xs)))"
    then obtain l where "(i, l) \<in> set (holding (map with_lease_id (filter P xs)))" by force
    then have "(i, l) \<in> set (holding (map with_lease_id xs))" unfolding holding_member set_filter by blast
    with n show False by force
  qed
  then have "map_of (holding (map with_lease_id (filter P xs))) i = None" by (simp only: map_of_eq_None_iff simp_thms)
  then show ?thesis using \<open>map_of (holding (map with_lease_id xs)) i = None\<close> by simp
next
  fix l
  assume l: "map_of (holding (map with_lease_id xs)) i = Some l"
  then have "(i, l) \<in> set (holding (map with_lease_id xs))" by (rule map_of_SomeD)
  then have "(i, l) \<in> set (holding (map with_lease_id (filter P xs)))"
    using assms(2) unfolding holding_member set_filter by blast
  moreover have "distinct (map fst (holding (map with_lease_id (filter P xs))))"
    by (simp add: held_items_holding held_items_filter [OF assms(1)])
  ultimately have "map_of (holding (map with_lease_id (filter P xs))) i = Some l" by (rule map_of_is_SomeI [rotated])
  then show ?thesis using l by simp
qed

section \<open>The view\<close>

abbreviation item_payload_of :: "string \<times> item_row \<Rightarrow> string \<times> pydict" where
  "item_payload_of kr \<equiv> (fst kr, ir_payload (snd kr))"

abbreviation lease_payload_of :: "string \<times> lease_row \<Rightarrow> string \<times> pydict" where
  "lease_payload_of kr \<equiv> (fst kr, lr_payload (snd kr))"

lemma holds_live: "lease_holds (lr_payload r) \<Longrightarrow> lease_live r"
  by (auto simp: lease_holds_def lease_live_def text_or_empty_def py_or_def)

definition row_of_payload :: "string \<times> pydict \<Rightarrow> string \<times> lease_row" where
  "row_of_payload x = (fst x, \<lparr>lr_payload = snd x, lr_transition_revision = 0\<rparr>)"

lemma wanted_lease_payload: "wanted_lease req rows (row_of_payload (lease_payload_of kr)) = wanted_lease req rows kr"
  by (simp add: wanted_lease_def asked_lease_def row_of_payload_def lease_item_def lease_live_def)

lemma payloads_of_wanted:
  "map lease_payload_of (filter (wanted_lease req rows) xs)
     = filter (\<lambda>x. wanted_lease req rows (row_of_payload x)) (map lease_payload_of xs)"
  by (simp add: filter_map comp_def wanted_lease_payload)

text \<open>Every lease that holds a wanted item is wanted.\<close>

lemma holder_wanted:
  assumes "wanted_item req rows i" "lease_live (snd kr)" "lease_item (snd kr) = i"
  shows "wanted_lease req rows kr"
proof (cases "i \<in> set (active_item_ids req)")
  case True
  then show ?thesis using assms(2,3) by (simp add: wanted_lease_def asked_lease_def)
next
  case False
  then have "i \<in> set (items_of_leases req rows)"
    using assms(1) by (auto simp: wanted_item_def active_item_ids_def)
  then show ?thesis using False assms(2,3) by (simp add: wanted_lease_def)
qed

lemma map_of_filter_key: "map_of (filter (\<lambda>x. Q (fst x)) xs) k = (if Q k then map_of xs k else None)"
  by (induction xs) auto

lemma map_of_project: "map_of (map (\<lambda>(i, d). (i, f i d)) xs) k = map_option (f k) (map_of xs k)"
  by (induction xs) auto

lemma dget_dicts: "dget (dicts xs) k = (case map_of xs k of None \<Rightarrow> PNone | Some d \<Rightarrow> PDict d)"
  by (induction xs) (auto simp: dget_def)

lemma map_of_with_lease_id: "map_of (map with_lease_id xs) k = map_option (dsetdefault ''lease_id'' (PStr k)) (map_of xs k)"
  by (induction xs) (auto simp: with_lease_id_def)

lemma map_of_filter_distinct_keys:
  "distinct (map fst xs) \<Longrightarrow> map_of (filter P xs) k = (if k \<in> fst ` set (filter P xs) then map_of xs k else None)"
proof (induction xs)
  case (Cons x xs)
  then show ?case by (cases x) (auto simp: map_of_eq_None_iff image_iff dest!: map_of_SomeD)
qed simp

text \<open>
  A working set shows what the session shows. When the whole session can be loaded, so can
  every working set of it; the items of the request and of its leases appear exactly as in the
  whole session, claims included, the selected leases too, and so does every other field;
  nothing else of the items and leases appears.
\<close>

theorem working_set_view:
  assumes full: "load_snapshot s = Inr full" and root: "root_session_id s = st_session_id s" "st_session_id s \<noteq> []"
    and keys: "distinct (map fst (st_leases s))"
  shows "\<exists>ws items leases. load_working_set req s = Inr ws \<and> dget ws ''items'' = PDict items \<and> dget ws ''leases'' = PDict leases
    \<and> (\<forall>i. dget items i = (if wanted_item req (st_leases s) i then nested_get (dget full ''items'') i else PNone))
    \<and> (\<forall>k. dget leases k = (if k \<in> fst ` set (selected_leases req s) then nested_get (dget full ''leases'') k else PNone))
    \<and> (\<forall>k. k \<notin> {''items'', ''leases'', ''lease_events'', ''persistence''} \<longrightarrow> dget ws k = dget full k)"
proof -
  let ?W = "wanted_lease req (st_leases s)"
  let ?P = "\<lambda>x. ?W (row_of_payload x)"
  let ?L = "map lease_payload_of (sort_key fst (st_leases s))"
  let ?I = "map item_payload_of (sort_key fst (st_items s))"
  let ?Iw = "filter (\<lambda>x. wanted_item req (st_leases s) (fst x)) ?I"
  have enc: "map (\<lambda>kr. (fst kr, PDict (lr_payload (snd kr)))) xs = encoded (map lease_payload_of xs)"
    "map (\<lambda>kr. (fst kr, PDict (ir_payload (snd kr)))) ys = encoded (map item_payload_of ys)" for xs ys
    by simp_all
  have sel: "map lease_payload_of (selected_leases req s) = filter ?P ?L" "map item_payload_of (selected_items req s) = ?Iw"
    unfolding selected_leases_def selected_items_def own_leases_def own_items_def root(1) if_True simp_thms payloads_of_wanted
    by (simp_all add: filter_map comp_def)
  obtain r where r: "derive_item_claim_projection (encoded ?I) (encoded ?L) = Inr r"
    "full = dset ''lease_events'' (PList (st_lease_events s))
       (dset ''leases'' (PDict (dicts (snd r))) (dset ''items'' (PDict (dicts (fst r))) (st_root s)))"
    using full unfolding load_snapshot_def enc by (auto simp: sum_bind_def split: sum.splits prod.splits)
  note f = iffD1 [OF projection_encoded r(1)]
  define iw where "iw = map (\<lambda>(i, d). (i, project_item (holding (map with_lease_id (filter ?P ?L))) i d)) ?Iw"
  define ls where "ls = map with_lease_id (filter ?P ?L)"
  have w: "derive_item_claim_projection (encoded ?Iw) (encoded (filter ?P ?L)) = Inr (iw, ls)"
    using f unfolding projection_encoded iw_def ls_def
    by (auto simp: held_items_filter list_all_iff)
  define root' where "root' = dset ''lease_events'' (PList []) (dpop ''persistence'' (dpop ''leases'' (dpop ''items'' (st_root s))))"
  have load: "load_working_set req s = Inr (dset ''leases'' (PDict (dicts ls)) (dset ''items'' (PDict (dicts iw)) root'))"
    unfolding load_working_set_def enc sel w root'_def using root by simp
  have items: "dget (dicts iw) i = (if wanted_item req (st_leases s) i then nested_get (dget full ''items'') i else PNone)" for i
  proof (cases "wanted_item req (st_leases s) i")
    case True
    have "map_of (holding (map with_lease_id (filter ?P ?L))) i = map_of (holding (map with_lease_id ?L)) i"
    proof (rule holder_filter)
      show "distinct (held_items ?L)" using f by simp
      fix x assume x: "x \<in> set ?L" "lease_holds (snd x)" "text_or_empty (snd x) ''item_id'' = i"
      then show "?P x" using holder_wanted [OF True, of "row_of_payload x"] holds_live [of "snd (row_of_payload x)"]
        by (simp add: row_of_payload_def lease_item_def)
    qed
    then have "project_item (holding (map with_lease_id (filter ?P ?L))) i = project_item (holding (map with_lease_id ?L)) i"
      by (simp add: project_item_def fun_eq_iff)
    then show ?thesis using True f
      by (simp add: r(2) nested_get_def iw_def dget_dicts map_of_project map_of_filter_key del: map_map)
  next
    case False
    then show ?thesis by (simp add: iw_def dget_dicts map_of_project map_of_filter_key del: map_map)
  qed
  have d: "distinct (map fst ?L)" using keys by (simp add: comp_def) (simp add: distinct_map)
  have sk: "fst ` set (filter ?P ?L) = fst ` set (selected_leases req s)"
    unfolding sel(1) [symmetric] by (simp add: image_image)
  have leases: "dget (dicts ls) k = (if k \<in> fst ` set (selected_leases req s) then nested_get (dget full ''leases'') k else PNone)" for k
    using f by (simp only: ls_def dget_dicts map_of_with_lease_id map_of_filter_distinct_keys [OF d] sk)
      (simp add: r(2) nested_get_def dget_dicts map_of_with_lease_id del: map_map)
  have other: "k \<notin> {''items'', ''leases'', ''lease_events'', ''persistence''} \<Longrightarrow>
      dget (dset ''leases'' (PDict (dicts ls)) (dset ''items'' (PDict (dicts iw)) root')) k = dget full k" for k
    unfolding insert_iff empty_iff simp_thms de_Morgan_disj eq_commute [of k] by (elim conjE) (simp add: r(2) root'_def)
  show ?thesis
  proof (intro exI conjI allI impI)
    show "dget (dset ''leases'' (PDict (dicts ls)) (dset ''items'' (PDict (dicts iw)) root')) ''items'' = PDict (dicts iw)"
      "dget (dset ''leases'' (PDict (dicts ls)) (dset ''items'' (PDict (dicts iw)) root')) ''leases'' = PDict (dicts ls)"
      by simp_all
  qed (rule load items leases | erule other)+
qed

section \<open>The frame\<close>

definition single_holder :: "runtime_store \<Rightarrow> bool" where
  "single_holder s \<longleftrightarrow> distinct (map (\<lambda>kr. lease_item (snd kr)) (filter (\<lambda>kr. lease_live (snd kr)) (st_leases s)))"

definition same_session :: "runtime_store \<Rightarrow> runtime_store \<Rightarrow> bool" where
  "same_session s s' \<longleftrightarrow> st_session_id s' = st_session_id s \<and> st_root s' = st_root s \<and> st_items s' = st_items s
     \<and> st_leases s' = st_leases s \<and> st_lease_events s' = st_lease_events s"

lemma write_evidence_session: "write_evidence n raws s = Inr s' \<Longrightarrow> same_session s s'"
proof (induction raws arbitrary: s)
  case (Cons raw raws)
  then obtain s1 where s1: "write_evidence_record n raw s = Inr s1" "write_evidence n raws s1 = Inr s'"
    by (auto split: sum.splits)
  have "same_session s s1"
    using s1(1) by (auto simp: write_evidence_record_def same_session_def split: if_splits sum.splits option.splits prod.splits)
  with Cons.IH [OF s1(2)] show ?case by (simp add: same_session_def)
qed (simp add: same_session_def)

lemma write_outbox_session: "write_outbox n cs s = Inr s' \<Longrightarrow> same_session s s'"
proof (induction cs arbitrary: s)
  case (Cons c cs)
  then obtain s1 where s1: "write_outbox_command n c s = Inr s1" "write_outbox n cs s1 = Inr s'"
    by (auto split: sum.splits)
  have "same_session s s1"
    using s1(1) by (auto simp: write_outbox_command_def same_session_def Let_def split: if_splits)
  with Cons.IH [OF s1(2)] show ?case by (simp add: same_session_def)
qed (simp add: same_session_def)

lemma update_fold_other:
  "i \<notin> fst ` set kvs \<Longrightarrow> map_of (fold (\<lambda>kv. AList.update (fst kv) (f kv)) kvs rows) i = map_of rows i"
  by (induction kvs arbitrary: rows) (auto simp: update_conv')

lemma write_selected_items_other:
  assumes "i \<notin> fst ` set selected" "i \<notin> fst ` set items"
  shows "map_of (write_selected_items selected revision items rows) i = map_of rows i"
proof -
  have "i \<notin> fst ` set (filter (item_changed selected) items)" using assms(2) by auto
  then show ?thesis using assms
    by (simp add: write_selected_items_def update_fold_other
        map_of_filter_key [where Q = "\<lambda>k. k \<in> fst ` set selected \<longrightarrow> k \<in> fst ` set items"])
qed

lemma insert_leases_keeps:
  "insert_leases revision kvs rows = Inr rows' \<Longrightarrow> \<exists>new. rows' = rows @ new"
  by (induction kvs arbitrary: rows) (fastforce simp: Let_def split: if_splits option.splits)+

lemma insert_leases_holder:
  "insert_leases revision kvs rows = Inr rows' \<Longrightarrow>
     distinct (map (\<lambda>kr. lease_item (snd kr)) (filter (\<lambda>kr. lease_live (snd kr)) rows)) \<Longrightarrow>
     distinct (map (\<lambda>kr. lease_item (snd kr)) (filter (\<lambda>kr. lease_live (snd kr)) rows'))"
proof (induction kvs arbitrary: rows)
  case (Cons kv kvs)
  let ?r = "\<lparr>lr_payload = snd kv, lr_transition_revision = revision\<rparr>"
  from Cons.prems(1) have ok: "\<not> (lease_live ?r \<and> (\<exists>kr \<in> set rows. lease_live (snd kr) \<and> lease_item (snd kr) = lease_item ?r))"
    and r: "insert_leases revision kvs (rows @ [(fst kv, ?r)]) = Inr rows'"
    by (simp_all add: Let_def split: if_splits option.splits)
  show ?case
  proof (rule Cons.IH [OF r])
    show "distinct (map (\<lambda>kr. lease_item (snd kr)) (filter (\<lambda>kr. lease_live (snd kr)) (rows @ [(fst kv, ?r)])))"
      using ok Cons.prems(2) by auto
  qed
qed simp

lemma distinct_map_filter_sub: "distinct (map f (filter P xs)) \<Longrightarrow> distinct (map f (filter P (filter Q xs)))"
  by (induction xs) auto

lemma write_selected_leases_frame:
  assumes "write_selected_leases selected revision leases rows = Inr rows'"
  shows "\<And>k. map_of rows k \<noteq> None \<Longrightarrow> k \<notin> fst ` set selected \<Longrightarrow> k \<notin> fst ` set leases \<Longrightarrow> map_of rows' k = map_of rows k"
    and "distinct (map (\<lambda>kr. lease_item (snd kr)) (filter (\<lambda>kr. lease_live (snd kr)) rows)) \<Longrightarrow>
      distinct (map (\<lambda>kr. lease_item (snd kr)) (filter (\<lambda>kr. lease_live (snd kr)) rows'))"
proof -
  define gone where "gone = (\<lambda>k. (k \<in> fst ` set selected \<and> k \<notin> fst ` set leases)
      \<or> k \<in> fst ` set (filter (lease_changed selected) leases))"
  have i: "insert_leases revision (filter (lease_changed selected) leases) (filter (\<lambda>kr. \<not> gone (fst kr)) rows) = Inr rows'"
    using assms by (simp add: write_selected_leases_def Let_def gone_def)
  obtain new where new: "rows' = filter (\<lambda>kr. \<not> gone (fst kr)) rows @ new"
    using insert_leases_keeps [OF i] by blast
  show "map_of rows' k = map_of rows k" if "map_of rows k \<noteq> None" "k \<notin> fst ` set selected" "k \<notin> fst ` set leases" for k
  proof -
    have "\<not> gone k" using that(2,3) by (auto simp: gone_def)
    then have "map_of (filter (\<lambda>kr. \<not> gone (fst kr)) rows) k = map_of rows k"
      by (simp add: map_of_filter_key [where Q = "\<lambda>k. \<not> gone k"])
    with that(1) show ?thesis by (auto simp: new map_add_def)
  qed
  show "distinct (map (\<lambda>kr. lease_item (snd kr)) (filter (\<lambda>kr. lease_live (snd kr)) rows'))"
    if "distinct (map (\<lambda>kr. lease_item (snd kr)) (filter (\<lambda>kr. lease_live (snd kr)) rows))"
    by (rule insert_leases_holder [OF i]) (rule distinct_map_filter_sub [OF that])
qed

lemma unselected_None:
  "unselected_error table candidates selected existing = None \<Longrightarrow>
     i \<in> set existing \<Longrightarrow> i \<notin> set selected \<Longrightarrow> i \<notin> set candidates"
  by (auto simp: unselected_error_def split: if_splits)

text \<open>What writing a working set leaves alone.\<close>

definition framed :: "string set \<Rightarrow> string set \<Rightarrow> runtime_store \<Rightarrow> runtime_store \<Rightarrow> bool" where
  "framed items leases s s' \<longleftrightarrow>
     st_session_id s' = st_session_id s
     \<and> (\<forall>i r. map_of (st_items s) i = Some r \<longrightarrow> i \<in> items \<or> map_of (st_items s') i = Some r)
     \<and> (\<forall>k r. map_of (st_leases s) k = Some r \<longrightarrow> k \<in> leases \<or> map_of (st_leases s') k = Some r)
     \<and> (\<exists>es. st_lease_events s' = st_lease_events s @ es)
     \<and> (single_holder s \<longrightarrow> single_holder s')"

lemma write_foreign_framed:
  assumes "write_foreign si sl items leases events s = Inr s'"
  shows "framed (fst ` set si) (fst ` set sl) s s'"
proof -
  have s': "s' = s\<lparr>st_leases := filter (\<lambda>kr. \<not> (fst kr \<in> fst ` set sl \<and> fst kr \<notin> fst ` set leases)) (st_leases s)\<rparr>"
    using assms by (simp add: write_foreign_def split: if_splits)
  show ?thesis
    by (simp add: framed_def s' single_holder_def distinct_map_filter_sub
        map_of_filter_key [where Q = "\<lambda>k. k \<in> fst ` set sl \<longrightarrow> k \<in> fst ` set leases"] del: filter_filter)
qed

lemma write_working_set_framed:
  assumes "write_working_set si sl payload revision s = Inr s'"
  shows "framed (fst ` set si) (fst ` set sl) s s'"
proof -
  obtain sid root iw lw events where "write_selected si sl sid root iw lw events revision s = Inr s'"
    using assms unfolding write_working_set_def Let_def
    by (auto simp: sum_bind_def split: if_splits sum.splits prod.splits pyval.splits)
  then have w: "unselected_error ''items'' (map fst iw) (map fst si) (map fst (own_items sid s)) = None"
    "unselected_error ''leases'' (map fst lw) (map fst sl) (map fst (own_leases sid s)) = None"
    "(if sid \<noteq> st_session_id s then write_foreign si sl iw lw events s
      else sum_bind (write_selected_leases sl revision lw (st_leases s)) (\<lambda>rows.
        Inr (s\<lparr>st_root := root, st_items := write_selected_items si revision iw (st_items s),
               st_leases := rows, st_lease_events := st_lease_events s @ events\<rparr>))) = Inr s'"
    unfolding write_selected_def by (simp_all split: option.splits if_splits)
  show ?thesis
  proof (cases "sid = st_session_id s")
    case False
    then show ?thesis using w(3) by (simp add: write_foreign_framed)
  next
    case True
    then obtain rows where rows: "write_selected_leases sl revision lw (st_leases s) = Inr rows"
      "s' = s\<lparr>st_root := root, st_items := write_selected_items si revision iw (st_items s),
               st_leases := rows, st_lease_events := st_lease_events s @ events\<rparr>"
      using w(3) by (auto simp: sum_bind_def split: sum.splits)
    have own: "own_items sid s = st_items s" "own_leases sid s = st_leases s"
      using True by (simp_all add: own_items_def own_leases_def)
    have i: "map_of (st_items s') i = Some r" if "map_of (st_items s) i = Some r" "i \<notin> fst ` set si" for i r
    proof -
      have "i \<in> set (map fst (st_items s))" using map_of_SomeD [OF that(1)] by force
      then have "i \<notin> fst ` set iw" using unselected_None [OF w(1) [unfolded own], of i] that(2) by simp
      then show ?thesis using that by (simp add: rows(2) write_selected_items_other)
    qed
    have k: "map_of (st_leases s') k = Some r" if "map_of (st_leases s) k = Some r" "k \<notin> fst ` set sl" for k r
    proof -
      have "k \<in> set (map fst (st_leases s))" using map_of_SomeD [OF that(1)] by force
      then have "k \<notin> fst ` set lw" using unselected_None [OF w(2) [unfolded own], of k] that(2) by simp
      then show ?thesis using that write_selected_leases_frame(1) [OF rows(1), of k] by (simp add: rows(2))
    qed
    have h: "single_holder s \<longrightarrow> single_holder s'"
      using write_selected_leases_frame(2) [OF rows(1)] by (simp add: single_holder_def rows(2))
    show ?thesis unfolding framed_def
    proof (intro conjI)
      show "\<forall>i r. map_of (st_items s) i = Some r \<longrightarrow> i \<in> fst ` set si \<or> map_of (st_items s') i = Some r"
        using i by blast
      show "\<forall>k r. map_of (st_leases s) k = Some r \<longrightarrow> k \<in> fst ` set sl \<or> map_of (st_leases s') k = Some r"
        using k by blast
    qed (use h in \<open>simp_all add: rows(2)\<close>)
  qed
qed

text \<open>
  C36: A transaction on a working set changes only what it selected. If it commits, every item
  and every lease outside the working set keeps its row, the lease events are only added to,
  the revision grows by one, and if no item was held by two active leases before, none is
  afterwards, although the leases outside were never loaded. If it fails nothing changes.
\<close>

theorem working_set_frame:
  assumes "transact_working_set req m expected ev ob s = (r, s')"
  shows "case r of
      Inl e \<Rightarrow> s' = s
    | Inr t \<Rightarrow> framed (fst ` set (selected_items req s)) (fst ` set (selected_leases req s)) s s'
        \<and> st_revision s' = Suc (st_revision s)"
proof (cases r)
  case (Inl e)
  then show ?thesis using working.undone [of req m expected ev ob s] assms by simp
next
  case (Inr t)
  have "\<exists>current. commit_working_set req m ev ob current s = Inr (t, s')"
    using assms unfolding Inr transact_working_set_def atomically_def
    by (auto simp: sum_bind_def store_part_def split: sum.splits option.splits)
  then obtain current where c: "commit_working_set req m ev ob current s = Inr (t, s')" ..
  then obtain pending working s1 s2 s3 where *:
    "write_working_set (selected_items req s) (selected_leases req s) working (Suc (st_revision s)) s = Inr s1"
    "write_evidence (Suc (st_revision s)) (ev @ pending) s1 = Inr s2"
    "write_outbox (Suc (st_revision s)) ob s2 = Inr s3" "s' = s3\<lparr>st_revision := Suc (st_revision s)\<rparr>"
    by (auto simp: commit_working_set_def store_part_def sum_bind_def Let_def split: sum.splits prod.splits if_splits)
  have same: "same_session s1 s'"
    using write_evidence_session [OF *(2)] write_outbox_session [OF *(3)] *(4) by (simp add: same_session_def)
  have "framed (fst ` set (selected_items req s)) (fst ` set (selected_leases req s)) s s1"
    by (rule write_working_set_framed [OF *(1)])
  then show ?thesis using same *(4) by (simp add: Inr framed_def same_session_def single_holder_def)
qed

definition ex_leased :: runtime_store where
  "ex_leased = \<lparr>st_session_id = ''s1'', st_revision = 3, st_root = [(''session_id'', PStr ''s1''), (''status'', PStr ''open'')],
     st_items = [(''i1'', \<lparr>ir_payload = [(''state'', PStr ''open'')], ir_first_observed_revision = 1, ir_last_observed_revision = 1\<rparr>),
                 (''i2'', \<lparr>ir_payload = [(''state'', PStr ''open'')], ir_first_observed_revision = 1, ir_last_observed_revision = 1\<rparr>)],
     st_leases = [(''l1'', \<lparr>lr_payload = [(''item_id'', PStr ''i1''), (''status'', PStr ''active''), (''agent_id'', PStr ''a'')],
                            lr_transition_revision = 2\<rparr>)],
     st_lease_events = [], st_evidence = [], st_outbox = []\<rparr>"

theorem working_set_view_witness:
  "\<exists>ws items leases. load_working_set (items_request [''i1'']) ex_leased = Inr ws \<and> dget ws ''items'' = PDict items
     \<and> dget items ''i2'' = PNone \<and> nested_get (dget items ''i1'') ''state'' = PStr ''claimed''
     \<and> dget ws ''leases'' = PDict leases \<and> dget ws ''status'' = PStr ''open''"
proof -
  obtain full where f: "load_snapshot ex_leased = Inr full"
    and c: "nested_get (nested_get (dget full ''items'') ''i1'') ''state'' = PStr ''claimed''" "dget full ''status'' = PStr ''open''"
  proof -
    have "case load_snapshot ex_leased of Inl e \<Rightarrow> False
        | Inr full \<Rightarrow> nested_get (nested_get (dget full ''items'') ''i1'') ''state'' = PStr ''claimed'' \<and> dget full ''status'' = PStr ''open''"
      by code_simp
    then show ?thesis using that by (cases "load_snapshot ex_leased") simp_all
  qed
  have r: "root_session_id ex_leased = st_session_id ex_leased" "st_session_id ex_leased \<noteq> []" "distinct (map fst (st_leases ex_leased))"
    by code_simp+
  have w: "wanted_item (items_request [''i1'']) (st_leases ex_leased) ''i1''"
    "\<not> wanted_item (items_request [''i1'']) (st_leases ex_leased) ''i2''" by code_simp+
  obtain ws items leases where *: "load_working_set (items_request [''i1'']) ex_leased = Inr ws" "dget ws ''items'' = PDict items"
    "dget ws ''leases'' = PDict leases"
    "\<forall>i. dget items i = (if wanted_item (items_request [''i1'']) (st_leases ex_leased) i then nested_get (dget full ''items'') i else PNone)"
    "\<forall>k. k \<notin> {''items'', ''leases'', ''lease_events'', ''persistence''} \<longrightarrow> dget ws k = dget full k"
    using working_set_view [OF f r, of "items_request [''i1'']"] by (elim exE conjE) (rule that)
  have i: "dget items ''i2'' = PNone" "dget items ''i1'' = nested_get (dget full ''items'') ''i1''"
    using *(4) w by (simp_all only: if_True if_False simp_thms)
  have "nested_get (dget items ''i1'') ''state'' = PStr ''claimed''" unfolding i(2) by (rule c(1))
  moreover have "dget ws ''status'' = PStr ''open''" using *(5) c(2) by simp
  ultimately show ?thesis using *(1-3) i(1) by (intro exI conjI)
qed

theorem working_set_frame_witness:
  "framed {''i2''} {} ex_leased (snd (transact_working_set (items_request [''i2''])
     (\<lambda>p. Inr ((), p) :: unit + (unit \<times> pydict)) None [] [] ex_leased))"
proof -
  let ?x = "transact_working_set (items_request [''i2'']) (\<lambda>p. Inr ((), p) :: unit + (unit \<times> pydict)) None [] [] ex_leased"
  have i: "\<not> isl (fst ?x)" by code_simp
  have s: "fst ` set (selected_items (items_request [''i2'']) ex_leased) = {''i2''}"
    "fst ` set (selected_leases (items_request [''i2'']) ex_leased) = {}" by code_simp+
  obtain t where t: "?x = (Inr t, snd ?x)" using i by (metis prod.collapse sum.collapse(2))
  show ?thesis using working_set_frame [OF t] by (simp add: s)
qed

end
