(* ===== verification/Session_Properties.thy ===== *)
theory Session_Properties
  imports Session_Store Store_Properties
begin

text \<open>
  The properties of the session: what a load and a save guarantee together, when a save is
  refused as stale, how many runs a retried operation takes and that a quiet moment among
  them is enough, the merge of a metadata change, and the stack-membership hint.
\<close>

section \<open>Which errors are stale\<close>

definition stale_store :: "store_error \<Rightarrow> bool" where
  "stale_store e \<longleftrightarrow> (case e of StaleRevisionError a b \<Rightarrow> True | StoreError code d \<Rightarrow> code = ''STALE_REVISION'' | StoreRaised x \<Rightarrow> False)"

lemma is_stale_wrap [simp]: "is_stale (wrap_store_error e) = stale_store e"
  by (cases e) (simp_all add: is_stale_def wrap_store_error_def stale_store_def)

lemma invalid_not_stale [simp]:
  "\<not> stale_store (PERSISTENCE_INVALID d)" "\<not> stale_store (StoreRaised x)" "\<not> stale_store integrity_error"
  by (simp_all add: stale_store_def PERSISTENCE_INVALID_def integrity_error_def)

lemma session_error_stale [simp]: "is_stale (session_error code d) = (code = ''STALE_REVISION'')"
  by (simp add: session_error_def is_stale_def)

lemma index_leases_error: "index_leases ls d a = Inl e \<Longrightarrow> \<not> stale_store e"
  by (induction ls d a rule: index_leases.induct) (auto simp: Let_def split: pyval.splits if_splits)

lemma project_items_error: "project_items a is = Inl e \<Longrightarrow> \<not> stale_store e"
  by (induction a "is" rule: project_items.induct) (auto split: pyval.splits sum.splits if_splits)

lemma projection_error: "derive_item_claim_projection items leases = Inl e \<Longrightarrow> \<not> stale_store e"
  by (auto simp: derive_item_claim_projection_def sum_bind_def split: sum.splits
      dest: index_leases_error project_items_error)

lemma keys_first_error: "first_error (lease_keys_error old) ls = Some e \<Longrightarrow> \<not> stale_store e"
  by (induction ls) (auto simp: lease_keys_error_def split: option.splits if_splits sum.splits)

lemma write_session_error: "write_session p n s = Inl e \<Longrightarrow> \<not> stale_store e"
  by (auto simp: write_session_def Let_def split: if_splits pyval.splits sum.splits prod.splits option.splits
      dest: projection_error keys_first_error)

lemma write_evidence_error: "write_evidence n raws s = Inl e \<Longrightarrow> \<not> stale_store e"
proof (induction raws arbitrary: s)
  case (Cons raw raws)
  then show ?case
    by (auto simp: write_evidence_record_def split: sum.splits if_splits option.splits prod.splits)
qed simp

lemma write_outbox_error: "write_outbox n cs s = Inl e \<Longrightarrow> \<not> stale_store e"
proof (induction cs arbitrary: s)
  case (Cons c cs)
  then show ?case
    by (auto simp: write_outbox_command_def Let_def split: sum.splits if_splits)
qed simp

lemma replace_error:
  assumes "replace_session p expected ev ob s = (Inl e, s')"
  shows "stale_store e \<longleftrightarrow> (\<exists>r. expected = Some r \<and> r \<noteq> int (st_revision s))"
proof (cases "check_expected expected s")
  case None
  then have "commit_transaction False (\<lambda>current. Inr ((), p)) ev ob [] s = Inl e"
    using assms by (auto simp: replace_session_def atomically_def split: sum.splits)
  then have "\<not> stale_store e"
    by (auto simp: commit_transaction_def sum_bind_def Let_def split: sum.splits prod.splits
        dest: write_session_error write_evidence_error write_outbox_error)
  then show ?thesis using None by (auto simp: check_expected_def split: option.splits if_splits)
next
  case (Some x)
  then show ?thesis
    using assms by (auto simp: replace_session_def atomically_def check_expected_def stale_store_def
        split: option.splits if_splits)
qed

section \<open>Loading and saving\<close>

lemma guard_token_persistence [simp]: "guard_token (with_persistence n p) = Some (int n)"
  by (simp add: guard_token_def session_token_def with_persistence_def as_int_def)

lemma guard_token_dsetdefault [simp]:
  "k \<noteq> ''persistence'' \<Longrightarrow> guard_token (dsetdefault k v p) = guard_token p"
  by (simp add: guard_token_def session_token_def dget_dsetdefault)

lemma guard_token_defaults [simp]: "guard_token (session_defaults r n l p) = guard_token p"
  by (simp add: session_defaults_def)

lemma guard_token_taken:
  "take_pending_evidence p = Inr (ev, q) \<Longrightarrow> guard_token q = guard_token p"
  by (auto simp: take_pending_evidence_def guard_token_def session_token_def pending_key_def split: pyval.splits)

lemma load_token:
  "load_session repo pr l held (Some s) = (Inr p, st') \<Longrightarrow>
     st' = Some (recover held s) \<and> guard_token p = Some (int (st_revision (recover held s)))"
  by (auto simp: load_session_def Let_def split: sum.splits)

lemma save_stale_iff:
  assumes "guard_token p = Some r"
  shows "(\<exists>e. fst (save_session p (Some s)) = Inl e \<and> is_stale e)
    \<longleftrightarrow> (\<exists>ev q. take_pending_evidence p = Inr (ev, q)) \<and> r \<noteq> int (st_revision s)"
proof (cases "take_pending_evidence p")
  case (Inl x)
  then show ?thesis by (simp add: save_session_def is_stale_def)
next
  case (Inr y)
  obtain ev q where y: "y = (ev, q)" by (cases y)
  have q: "guard_token q = Some r" using guard_token_taken assms Inr y by auto
  obtain res s' where rs: "replace_session q (Some r) ev [] s = (res, s')" by fastforce
  show ?thesis
  proof (cases res)
    case (Inl e)
    then show ?thesis using Inr y q rs replace_error [of q "Some r" ev "[]" s e s'] by (simp add: save_session_def)
  next
    case (Inr t)
    then have "r = int (st_revision s)"
      using rs by (auto simp: replace_session_def atomically_def check_expected_def split: sum.splits if_splits)
    then show ?thesis using Inr \<open>take_pending_evidence p = Inr y\<close> y q rs by (simp add: save_session_def)
  qed
qed
text \<open>
  C19: a save is stale exactly when it was overtaken. Take a session a command loaded and
  changed in any way that keeps the token and the buffer of evidence. Saving it is refused
  as stale if and only if the store is no longer the one the load left, whatever
  transactions ran in between and whoever ran them; a refused save changes nothing in the
  store, and a save that succeeds leaves the session with the token of its own commit.
\<close>

theorem save_is_stale_iff_overtaken:
  assumes "load_session repo pr l held (Some s) = (Inr p, Some s1)" "store_history s1 s2"
    and "guard_token p' = guard_token p" "take_pending_evidence p' = Inr (ev, q)"
  shows "((\<exists>e. fst (save_session p' (Some s2)) = Inl e \<and> is_stale e) \<longleftrightarrow> s2 \<noteq> s1)
    \<and> (isl (fst (save_session p' (Some s2))) \<longrightarrow> snd (snd (save_session p' (Some s2))) = Some s2)
    \<and> (\<not> isl (fst (save_session p' (Some s2))) \<longrightarrow>
         (\<exists>s3. save_session p' (Some s2) = (Inr (), with_persistence (st_revision s3) q, Some s3)
            \<and> st_revision s3 = Suc (st_revision s2)))"
proof -
  have s1: "s1 = recover held s" "guard_token p = Some (int (st_revision s1))"
    using load_token [OF assms(1)] by auto
  have rev: "s2 \<noteq> s1 \<longleftrightarrow> int (st_revision s1) \<noteq> int (st_revision s2)"
    using history_revision [OF assms(2)] by auto
  obtain r where g: "guard_token p' = Some r" "r = int (st_revision s1)" using s1 assms(3) by simp
  note stale = save_stale_iff [OF g(1), of s2]
  have q: "guard_token q = Some r" using guard_token_taken [OF assms(4)] g by simp
  obtain res s' where rs: "replace_session q (Some r) ev [] s2 = (res, s')" by fastforce
  have kept: "isl res \<Longrightarrow> s' = s2" using replace.undone [of q "Some r" ev "[]" s2] rs by simp
  have grows: "res = Inr t \<Longrightarrow> st_revision s' = Suc (st_revision s2) \<and> tr_revision t = st_revision s'" for t
    using rs by (auto simp: replace_session_def atomically_def split: option.splits sum.splits dest!: commit_transaction_frame)
  have sv: "save_session p' (Some s2) =
      (case res of Inl e \<Rightarrow> (Inl (wrap_store_error e), q, Some s') | Inr t \<Rightarrow> (Inr (), with_persistence (tr_revision t) q, Some s'))"
    using assms(4) q rs by (simp add: save_session_def split: sum.splits)
  have "(\<exists>e. fst (save_session p' (Some s2)) = Inl e \<and> is_stale e) \<longleftrightarrow> s2 \<noteq> s1"
    using stale rev g(2) assms(4) by simp
  moreover have "isl (fst (save_session p' (Some s2))) \<longrightarrow> snd (snd (save_session p' (Some s2))) = Some s2"
    using kept by (cases res) (simp_all add: sv)
  moreover have "\<not> isl (fst (save_session p' (Some s2))) \<longrightarrow>
      (\<exists>s3. save_session p' (Some s2) = (Inr (), with_persistence (st_revision s3) q, Some s3)
         \<and> st_revision s3 = Suc (st_revision s2))"
    using grows by (cases res) (simp_all add: sv)
  ultimately show ?thesis by blast
qed

definition ex_saved :: pydict where
  "ex_saved = projr (fst (load_session ''o/r'' ''1'' ''l'' (\<lambda>c. False) (Some ex_store)))"

theorem save_is_stale_iff_overtaken_witness:
  "\<exists>e. fst (save_session ex_saved (Some ex_store_marked)) = Inl e \<and> is_stale e"
proof -
  have l: "load_session ''o/r'' ''1'' ''l'' (\<lambda>c. False) (Some ex_store) = (Inr ex_saved, Some ex_store)"
    unfolding ex_saved_def by code_simp
  have h: "store_history ex_store ex_store_marked"
    unfolding ex_store_marked_def by (rule r_into_rtranclp, rule step_mark)
  have r: "st_revision ex_store = 3" "st_revision ex_store_marked = 4" by code_simp+
  then have ne: "ex_store_marked \<noteq> ex_store" by auto
  have t: "take_pending_evidence ex_saved = Inr ([], snd (projr (take_pending_evidence ex_saved)))"
    unfolding ex_saved_def by code_simp
  from save_is_stale_iff_overtaken [OF l h refl t] ne show ?thesis by blast
qed

section \<open>Rerunning a lost race\<close>

text \<open>The worlds in which the successive runs of an operation start.\<close>

fun nth_world :: "('w \<Rightarrow> (effect_error + 'a) \<times> 'w) \<Rightarrow> 'w \<Rightarrow> nat \<Rightarrow> 'w" where
  "nth_world op w 0 = w"
| "nth_world op w (Suc k) = nth_world op (snd (op w)) k"

definition stale_run :: "('w \<Rightarrow> (effect_error + 'a) \<times> 'w) \<Rightarrow> 'w \<Rightarrow> bool" where
  "stale_run op w \<longleftrightarrow> (\<exists>e. fst (op w) = Inl e \<and> is_stale e)"

text \<open>
  C29: the retry is bounded and transparent. With n attempts an operation runs at least once
  and at most n times; every run but the last was refused as stale, and the outcome is that
  of the last run, which is not stale unless all n were used up. So a retried command always
  returns, and never hides or invents an outcome.
\<close>

theorem retry_runs_bounded:
  assumes "0 < n"
  shows "\<exists>k < n. retry_on_stale_revision n op w = op (nth_world op w k)
    \<and> (\<forall>j < k. stale_run op (nth_world op w j))
    \<and> (stale_run op (nth_world op w k) \<longrightarrow> Suc k = n)"
  using assms
proof (induction n arbitrary: w)
  case (Suc n)
  show ?case
  proof (cases "stale_run op w \<and> n \<noteq> 0")
    case True
    then have r: "retry_on_stale_revision (Suc n) op w = retry_on_stale_revision n op (snd (op w))"
      by (auto simp: stale_run_def split: prod.splits)
    obtain k where k: "k < n" "retry_on_stale_revision n op (snd (op w)) = op (nth_world op (snd (op w)) k)"
      "\<forall>j < k. stale_run op (nth_world op (snd (op w)) j)" "stale_run op (nth_world op (snd (op w)) k) \<longrightarrow> Suc k = n"
      using Suc.IH [of "snd (op w)"] True by blast
    have "\<forall>j < Suc k. stale_run op (nth_world op w j)"
      using k(3) True by (auto simp: less_Suc_eq_0_disj)
    then show ?thesis using k r by (intro exI [of _ "Suc k"]) simp
  next
    case False
    obtain res w' where o: "op w = (res, w')" by fastforce
    have "retry_on_stale_revision (Suc n) op w = op w"
      using False o by (cases res) (auto simp: stale_run_def)
    then show ?thesis using False by (intro exI [of _ 0]) simp
  qed
qed simp


definition ex_save_run :: "pydict \<times> runtime_store option \<Rightarrow> (effect_error + unit) \<times> pydict \<times> runtime_store option" where
  "ex_save_run w = save_session (fst w) (snd w)"

theorem retry_runs_bounded_witness:
  "\<exists>k < STALE_REVISION_ATTEMPTS.
     retry_on_stale_revision STALE_REVISION_ATTEMPTS ex_save_run (ex_saved, Some ex_store_marked)
       = ex_save_run (nth_world ex_save_run (ex_saved, Some ex_store_marked) k)"
proof -
  have "0 < STALE_REVISION_ATTEMPTS" by (simp add: STALE_REVISION_ATTEMPTS_def)
  from retry_runs_bounded [OF this, of ex_save_run "(ex_saved, Some ex_store_marked)"] show ?thesis by blast
qed

text \<open>
  An operation of a command in a world where others write: it loads, works, and before it
  saves the next interference happens.
\<close>

type_synonym contended = "runtime_store option \<times> (runtime_store \<Rightarrow> runtime_store) list"

definition update_in_race ::
    "(runtime_store option \<Rightarrow> (effect_error + pydict) \<times> runtime_store option) \<Rightarrow> (pydict \<Rightarrow> pydict)
       \<Rightarrow> contended \<Rightarrow> (effect_error + unit) \<times> contended" where
  "update_in_race load work w =
     (case load (fst w) of
        (Inl e, st) \<Rightarrow> (Inl e, (st, snd w))
      | (Inr p, st) \<Rightarrow>
          let st' = (case snd w of [] \<Rightarrow> st | f # fs \<Rightarrow> map_option f st);
              (r, p', st'') = save_session (work p) st'
          in (r, (st'', tl (snd w))))"

lemma update_quiet:
  assumes "\<And>p. guard_token (work p) = guard_token p" "snd w = [] \<or> (\<forall>s. hd (snd w) s = s)"
  shows "\<not> stale_run (update_in_race (load_session repo pr l held) work) w"
proof (cases "fst w")
  case None
  then show ?thesis by (simp add: stale_run_def update_in_race_def load_session_def)
next
  case (Some s)
  obtain res st where ls: "load_session repo pr l held (Some s) = (res, st)" by fastforce
  show ?thesis
  proof (cases res)
    case (Inl e)
    then have "\<exists>x. load_snapshot (recover held s) = Inl x \<and> e = wrap_store_error x"
      using ls by (auto simp: load_session_def Let_def split: sum.splits)
    then have "\<not> is_stale e" using projection_error
      by (auto simp: load_snapshot_def sum_bind_def split: sum.splits prod.splits)
    then show ?thesis using Some ls Inl by (simp add: stale_run_def update_in_race_def)
  next
    case (Inr p)
    then have st: "st = Some (recover held s)" "guard_token p = Some (int (st_revision (recover held s)))"
      using load_token [of repo pr l held s p st] ls by auto
    have "(case snd w of [] \<Rightarrow> st | f # fs \<Rightarrow> map_option f st) = st"
      using assms(2) st by (cases "snd w") auto
    moreover have "\<not> (\<exists>e. fst (save_session (work p) st) = Inl e \<and> is_stale e)"
      using save_stale_iff [of "work p" "int (st_revision (recover held s))"] assms(1) st by simp
    ultimately show ?thesis
      using Some ls Inr by (auto simp: stale_run_def update_in_race_def Let_def split: prod.splits)
  qed
qed

lemma nth_world_interference:
  "\<forall>j < k. stale_run (update_in_race load work) (nth_world (update_in_race load work) w j) \<Longrightarrow>
     (\<And>st e st'. load st = (Inl e, st') \<Longrightarrow> \<not> is_stale e) \<Longrightarrow>
     snd (nth_world (update_in_race load work) w k) = drop k (snd w)"
proof (induction k arbitrary: w)
  case (Suc k)
  let ?op = "update_in_race load work"
  have "stale_run ?op w" using Suc.prems(1) by (force dest: spec [of _ 0])
  then have tl: "snd (snd (?op w)) = tl (snd w)"
    using Suc.prems(2) by (auto simp: stale_run_def update_in_race_def Let_def split: prod.splits sum.splits)
  have "\<forall>j < k. stale_run ?op (nth_world ?op (snd (?op w)) j)"
    using Suc.prems(1) by (metis Suc_less_eq nth_world.simps(2))
  from Suc.IH [OF this Suc.prems(2)] tl show ?case by (simp add: drop_Suc)
qed simp

text \<open>
  C28: one quiet moment is enough. A command that loads, works and saves, rerun when it is
  stale, ends without a stale error whenever the store is left alone during any one of its
  attempts: with three attempts it survives two races, whatever the others commit.
\<close>

theorem retry_survives_races:
  assumes "\<And>p. guard_token (work p) = guard_token p" "i < n" "i < length fs" "\<And>s. (fs ! i) s = s"
  shows "\<not> (\<exists>e. fst (retry_on_stale_revision n (update_in_race (load_session repo pr l held) work) (st, fs)) = Inl e
    \<and> is_stale e)"
proof -
  let ?op = "update_in_race (load_session repo pr l held) work"
  obtain k where k: "k < n" "retry_on_stale_revision n ?op (st, fs) = ?op (nth_world ?op (st, fs) k)"
    "\<forall>j < k. stale_run ?op (nth_world ?op (st, fs) j)" "stale_run ?op (nth_world ?op (st, fs) k) \<longrightarrow> Suc k = n"
    using retry_runs_bounded [of n ?op "(st, fs)"] assms(2) by auto
  have load: "load_session repo pr l held st1 = (Inl e, st2) \<Longrightarrow> \<not> is_stale e" for st1 e st2
    using projection_error
    by (cases st1) (auto simp: load_session_def load_snapshot_def sum_bind_def Let_def split: sum.splits prod.splits)
  have int: "j \<le> k \<Longrightarrow> snd (nth_world ?op (st, fs) j) = drop j fs" for j
    using nth_world_interference [of j "load_session repo pr l held" work "(st, fs)"] k(3) load by auto
  have quiet: "\<not> stale_run ?op (nth_world ?op (st, fs) i)" if "i \<le> k"
  proof (rule update_quiet [OF assms(1)])
    have "hd (snd (nth_world ?op (st, fs) i)) = fs ! i"
      using int [OF that] assms(3) by (simp add: hd_drop_conv_nth)
    then show "snd (nth_world ?op (st, fs) i) = [] \<or> (\<forall>s. hd (snd (nth_world ?op (st, fs) i)) s = s)"
      using assms(4) by simp
  qed
  have "\<not> stale_run ?op (nth_world ?op (st, fs) k)"
  proof
    assume s: "stale_run ?op (nth_world ?op (st, fs) k)"
    then have "i \<le> k" using k(4) assms(2) by simp
    with k(3) quiet s show False by (cases "i = k") auto
  qed
  then show ?thesis using k(2) by (simp add: stale_run_def)
qed
definition ex_foreign :: "runtime_store \<Rightarrow> runtime_store" where
  "ex_foreign s = s\<lparr>st_revision := Suc (st_revision s)\<rparr>"

theorem retry_survives_races_witness:
  "\<not> (\<exists>e. fst (retry_on_stale_revision STALE_REVISION_ATTEMPTS
        (update_in_race (load_session ''o/r'' ''1'' ''l'' (\<lambda>c. False)) id) (Some ex_store, [ex_foreign, ex_foreign, id])) = Inl e
      \<and> is_stale e)"
proof -
  have "2 < STALE_REVISION_ATTEMPTS" by (simp add: STALE_REVISION_ATTEMPTS_def)
  then show ?thesis
    by (intro retry_survives_races [of id 2]) simp_all
qed

section \<open>Metadata\<close>

lemma dict_or_empty_PDict [simp]: "dict_or_empty (PDict d) = d"
  by (simp add: dict_or_empty_def)

lemma map_of_dset [simp]: "map_of (dset k v d) = (map_of d)(k \<mapsto> v)"
  by (simp add: dset_def update_conv')

lemma map_of_dpop [simp]: "map_of (dpop k d) = (map_of d)(k := None)"
  by (simp add: dpop_def delete_conv')

lemma map_of_fold_dpop: "map_of (fold dpop ks d) k = (if k \<in> set ks then None else map_of d k)"
  by (induction ks arbitrary: d) auto

lemma map_of_fold_dset:
  "distinct (map fst us) \<Longrightarrow>
     map_of (fold (\<lambda>(k, v). dset k v) us d) k = (case map_of us k of None \<Rightarrow> map_of d k | Some v \<Rightarrow> Some v)"
proof (induction us arbitrary: d)
  case (Cons u us)
  obtain k0 v0 where u: "u = (k0, v0)" by (cases u)
  have "k0 \<notin> fst ` set us" using Cons.prems u by simp
  then have "map_of us k0 = None" by (simp add: map_of_eq_None_iff)
  then show ?case using Cons u by (auto split: option.splits)
qed simp

lemma map_of_filter_distinct:
  "distinct (map fst xs) \<Longrightarrow>
     map_of (filter (\<lambda>(k, v). P k v) xs) k = (case map_of xs k of None \<Rightarrow> None | Some v \<Rightarrow> if P k v then Some v else None)"
proof (induction xs)
  case (Cons x xs)
  obtain k0 v0 where x: "x = (k0, v0)" by (cases x)
  have "k0 \<notin> fst ` set xs" using Cons.prems x by simp
  then have "map_of xs k0 = None" "map_of (filter (\<lambda>(k, v). P k v) xs) k0 = None"
    by (auto simp: map_of_eq_None_iff)
  then show ?case using Cons x by (auto split: option.splits)
qed simp

text \<open>The metadata a session holds, as a map.\<close>

definition metadata_map :: "pydict \<Rightarrow> string \<Rightarrow> pyval option" where
  "metadata_map session = map_of (dict_or_empty (dget session ''metadata''))"

text \<open>
  The merge of a metadata change. A command loaded the metadata \<open>base\<close>, holds \<open>local\<close>
  and applies the difference to what is committed now. Each key the command set or changed
  gets the command's value, each key it removed is gone, and every other key keeps what is
  committed, so a key another writer committed in between survives; the rest of the session
  is untouched.
\<close>

theorem metadata_delta_merges:
  assumes "distinct (map fst local)"
  shows "metadata_map (apply_metadata_delta current (metadata_delta (PDict base) (PDict local))) k =
      (case map_of local k of
         Some v \<Rightarrow> if (\<exists>w. map_of base k = Some w \<and> py_eq w v) then metadata_map current k else Some v
       | None \<Rightarrow> if has_key base k then None else metadata_map current k)
    \<and> (k \<noteq> ''metadata'' \<longrightarrow>
         dget (apply_metadata_delta current (metadata_delta (PDict base) (PDict local))) k = dget current k)"
proof -
  let ?P = "\<lambda>k v. case map_of base k of None \<Rightarrow> True | Some w \<Rightarrow> \<not> py_eq w v"
  let ?u = "filter (\<lambda>(k, v). ?P k v) local"
  let ?m = "dict_or_empty (dget current ''metadata'')"
  have d: "distinct (map fst ?u)" using assms distinct_map_filter [of fst local] by simp
  have r: "k \<in> set (filter (\<lambda>k. \<not> has_key local k) (map fst base)) \<longleftrightarrow> has_key base k \<and> map_of local k = None"
    by (auto simp: has_key_dom map_of_eq_None_iff)
  have "metadata_map (apply_metadata_delta current (metadata_delta (PDict base) (PDict local))) k
      = (if has_key base k \<and> map_of local k = None then None
         else case map_of ?u k of None \<Rightarrow> map_of ?m k | Some v \<Rightarrow> Some v)"
    using r by (simp add: metadata_map_def apply_metadata_delta_def metadata_delta_def Let_def
        map_of_fold_dpop map_of_fold_dset [OF d])
  then show ?thesis
    using map_of_filter_distinct [OF assms, of ?P k]
    by (auto simp: metadata_map_def apply_metadata_delta_def Let_def split: option.splits)
qed

theorem metadata_delta_merges_witness:
  "metadata_map (apply_metadata_delta [(''metadata'', PDict [(''theirs'', PInt 1), (''old'', PInt 0)])]
      (metadata_delta (PDict [(''old'', PInt 0)]) (PDict [(''mine'', PInt 2)]))) ''theirs'' = Some (PInt 1)"
proof -
  have d: "distinct (map fst [(''mine'', PInt 2)])" by simp
  have v: "map_of [(''mine'', PInt 2)] ''theirs'' = None" "\<not> has_key [(''old'', PInt 0)] ''theirs''"
    "metadata_map [(''metadata'', PDict [(''theirs'', PInt 1), (''old'', PInt 0)])] ''theirs'' = Some (PInt 1)"
    by code_simp+
  from metadata_delta_merges [OF d, of "[(''metadata'', PDict [(''theirs'', PInt 1), (''old'', PInt 0)])]" "[(''old'', PInt 0)]" "''theirs''"]
  show ?thesis by (simp only: v option.case if_False)
qed

section \<open>The stack-membership hint\<close>

text \<open>
  The hint errs on the safe side. After an observation is cached it can be read back;
  it says the pull request is part of a stack exactly when the observation shows a stack,
  or shows nothing usable and the hint said so before. Only an observation that shows there
  is no stack clears it, so an outage never makes a stacked pull request look single.
\<close>

theorem membership_hint_conservative:
  "cached_stack_context (cache_pull_request_context session context) = Some context
   \<and> has_observed_stack_membership (cache_pull_request_context session context) =
       (dget context ''availability'' = PStr ''present''
        \<or> (dget context ''availability'' \<noteq> PStr ''absent'' \<and> has_observed_stack_membership session))"
proof -
  have m: "nested_get (PDict (dict_or_empty (dget_default session ''metadata'' (PDict [])))) k
      = nested_get (dget session ''metadata'') k" for k
    by (auto simp: nested_get_def dict_or_empty_def dget_default_def dget_def split: option.splits pyval.splits)
  show ?thesis
    using m by (auto simp: cached_stack_context_def has_observed_stack_membership_def cache_pull_request_context_def
        Let_def nested_get_def)
qed

end
