(* ===== verification/Reply_Templates.thy ===== *)
theory Reply_Templates
  imports Severity
begin

text \<open>
  The replies the program posts on a review thread (\<open>core/reply_templates.py\<close>): fix,
  clarify, defer and reject, each closed by the attribution the publisher later recognises
  its own replies by. A \<open>SystemExit\<close> is the left summand with its message. Text outside
  ASCII, as the emoji of the attribution, is its UTF-8 bytes.
\<close>

definition newline :: char where
  "newline = char_of (10::nat)"

definition backtick :: char where
  "backtick = char_of (96::nat)"

definition code_span :: "string \<Rightarrow> string" where
  "code_span s = backtick # s @ [backtick]"

section \<open>Attribution\<close>

definition robot :: string where
  "robot = map char_of [240::nat, 159, 164, 150]"

definition REPLY_ATTRIBUTION :: string where
  "REPLY_ATTRIBUTION = ''_'' @ robot @ '' Addressed by [gh-address-cr](https://gh-address-cr.rbbtsn0w.me)_''"

definition LEGACY_REPLY_ATTRIBUTIONS :: "string list" where
  "LEGACY_REPLY_ATTRIBUTIONS = [''_'' @ robot @ '' Addressed by gh-address-cr_'']"

definition KNOWN_REPLY_ATTRIBUTIONS :: "string list" where
  "KNOWN_REPLY_ATTRIBUTIONS = REPLY_ATTRIBUTION # LEGACY_REPLY_ATTRIBUTIONS"

definition finalize_reply :: "string list \<Rightarrow> string" where
  "finalize_reply lines = py_join [newline] (lines @ [[], REPLY_ATTRIBUTION]) @ [newline]"

section \<open>Labels\<close>

definition reply_normalize_severity :: "string option \<Rightarrow> string + string option" where
  "reply_normalize_severity severity =
     (case severity of
        None \<Rightarrow> Inr None
      | Some s \<Rightarrow>
          if s = [] then Inr None
          else let normalized = py_upper (py_strip s)
               in if normalized \<in> set VALID_SEVERITIES then Inr (Some normalized)
                  else Inl (''Invalid severity: '' @ s @ '' (expected P0/P1/P2/P3/P4)''))"

definition normalize_review_priority :: "string option \<Rightarrow> string + string option" where
  "normalize_review_priority priority =
     (case priority of
        None \<Rightarrow> Inr None
      | Some s \<Rightarrow>
          if s = [] then Inr None
          else let normalized = py_lower (py_strip s)
               in if normalized \<in> set VALID_REVIEW_PRIORITIES then Inr (Some normalized)
                  else Inl (''Invalid reviewer priority: '' @ s @ '' (expected high/medium/low)''))"

definition sentence_with_period :: "string \<Rightarrow> string" where
  "sentence_with_period value =
     (let text = py_strip value
      in if text = [] then text else if last text \<in> {CHR ''.'', CHR ''!'', CHR ''?''} then text else text @ ''.'')"

text \<open>\<open>title()\<close> of a single lower-case word.\<close>

definition review_priority_label :: "string \<Rightarrow> string" where
  "review_priority_label priority = (case priority of [] \<Rightarrow> [] | c # cs \<Rightarrow> upper_char c # py_lower cs) @ '' Priority''"

definition review_signal_label :: "string option \<Rightarrow> string option \<Rightarrow> string option" where
  "review_signal_label severity review_priority =
     (case severity of
        Some s \<Rightarrow> Some (if s \<in> set VALID_SEVERITIES then code_span s else code_span ''unknown'')
      | None \<Rightarrow>
          (case review_priority of
             Some p \<Rightarrow> if p = [] then None else Some (code_span (review_priority_label p))
           | None \<Rightarrow> None))"

definition display_commit_hash :: "string \<Rightarrow> string" where
  "display_commit_hash commit_hash =
     (let normalized = py_strip commit_hash
      in if 12 < length normalized \<and> list_all (\<lambda>c. c \<in> set ''0123456789abcdefABCDEF'') normalized
         then take 7 normalized else normalized)"

section \<open>Rationale\<close>

text \<open>\<open>text.split("\n\n")\<close>: leftmost, not overlapping.\<close>

fun split_paragraphs :: "string \<Rightarrow> string list" where
  "split_paragraphs [] = [[]]"
| "split_paragraphs [c] = [[c]]"
| "split_paragraphs (c # d # s) =
     (if c = newline \<and> d = newline then [] # split_paragraphs s
      else (case split_paragraphs (d # s) of [] \<Rightarrow> [[c]] | p # ps \<Rightarrow> (c # p) # ps))"

definition stripped_parts :: "string list \<Rightarrow> string list" where
  "stripped_parts ps = filter (\<lambda>p. p \<noteq> []) (map py_strip ps)"

definition rationale_lines :: "string \<Rightarrow> string list" where
  "rationale_lines p =
     (if startswith p ''- '' \<or> startswith p ''* '' \<or> startswith p ''1. '' then [p]
      else (case split_char newline p of
              [] \<Rightarrow> [''- '']
            | l # ls \<Rightarrow> (''- '' @ l) # map (\<lambda>s. ''  '' @ s) ls))"

definition format_rationale :: "string \<Rightarrow> string list" where
  "format_rationale text =
     (let paragraphs = stripped_parts (split_paragraphs text);
          parts = (if paragraphs = [] then stripped_parts (split_char newline text) else paragraphs)
      in concat (map rationale_lines parts))"

section \<open>Replies\<close>

definition fix_usage :: string where
  "fix_usage = ''Usage for fix reply: gh-address-cr agent submit <repo> <pr> --input <action-response.json> ''
     @ ''or gh-address-cr submit-action <action-request.json> --resolution fix ''
     @ ''<commit_hash> <files_csv> <test_command> <test_result> [why]''"

definition file_line :: "string option \<Rightarrow> string \<Rightarrow> string" where
  "file_line file_summary path =
     (case file_summary of
        None \<Rightarrow> ''- '' @ code_span path
      | Some s \<Rightarrow> if s = [] then ''- '' @ code_span path else ''- '' @ code_span path @ '': '' @ s)"

definition why_lines :: "string \<Rightarrow> string list" where
  "why_lines why =
     (case format_rationale why of
        [l] \<Rightarrow> if startswith l ''- '' then [''- Why: '' @ drop 2 l] else [''- Why:'', ''  '' @ l]
      | ls \<Rightarrow> ''- Why:'' # map (\<lambda>l. ''  '' @ l) ls)"

definition fix_reply_lines ::
    "string option \<Rightarrow> string option \<Rightarrow> string \<Rightarrow> string \<Rightarrow> string \<Rightarrow> string \<Rightarrow> string \<Rightarrow> string option \<Rightarrow> string option
       \<Rightarrow> string list" where
  "fix_reply_lines severity priority commit_hash files_csv test_command test_result why summary note =
     (let files = stripped_parts (split_char CHR '','' files_csv);
          file_summary = map_option py_strip summary
      in [''Addressed in '' @ code_span (display_commit_hash commit_hash) @ ''.'', []]
         @ (case review_signal_label severity priority of None \<Rightarrow> [] | Some l \<Rightarrow> [''Review signal: '' @ l, []])
         @ (if files = [] then [''- No file list provided.''] else map (file_line file_summary) files)
         @ why_lines why
         @ (let priority_note = py_strip (case note of None \<Rightarrow> [] | Some n \<Rightarrow> n)
            in if severity = None \<and> priority \<noteq> None \<and> priority_note \<noteq> []
               then [''- Review note: '' @ priority_note] else [])
         @ [''- Validation: '' @ code_span test_command @ '' '' @ test_result])"

definition fix_reply ::
    "string option \<Rightarrow> string list \<Rightarrow> string option \<Rightarrow> string option \<Rightarrow> string option \<Rightarrow> string + string" where
  "fix_reply severity payload summary review_priority review_priority_note =
     (case payload of
        commit_hash # files_csv # test_command # test_result # rest \<Rightarrow>
          (case reply_normalize_severity severity of
             Inl e \<Rightarrow> Inl e
           | Inr s \<Rightarrow>
               (case normalize_review_priority review_priority of
                  Inl e \<Rightarrow> Inl e
                | Inr p \<Rightarrow>
                    Inr (finalize_reply (fix_reply_lines s p commit_hash files_csv test_command test_result
                      (case rest of [] \<Rightarrow> ''Addressed the CR with minimal targeted changes and regression coverage.'' | w # ws \<Rightarrow> w)
                      summary review_priority_note))))
      | _ \<Rightarrow> Inl fix_usage)"

definition clarify_reply :: "string list \<Rightarrow> string" where
  "clarify_reply payload =
     finalize_reply
       ([''Thanks for the review.'', [], ''Analysis & Rationale:'']
        @ format_rationale (case payload of [] \<Rightarrow> ''No code changes were made for this specific comment.'' | p # ps \<Rightarrow> p)
        @ [[], ''Decision:'', ''- No code changes were made for this specific comment.'', [],
           ''If you feel this still needs an adjustment, let me know and I can follow up with a patch!''])"

definition defer_reply :: "string list \<Rightarrow> string" where
  "defer_reply payload =
     (let reason = (case payload of [] \<Rightarrow> ''Marking as deferred (non-blocking for this PR).'' | p # ps \<Rightarrow> p)
      in finalize_reply
           ([''Thanks, this is valid feedback.'', [], ''Decision:'']
            @ format_rationale (''Marking as deferred (non-blocking for this PR) because: '' @ sentence_with_period reason)
            @ [[], ''If you prefer, I can bring this into the current PR instead.'']))"

definition reject_reply :: "string list \<Rightarrow> string" where
  "reject_reply payload =
     (let raw = (case payload of [] \<Rightarrow> [] | p # ps \<Rightarrow> py_strip p)
      in finalize_reply
           ([''Thanks for the review.'', [], ''Analysis & Rationale:'']
            @ format_rationale (text_or raw ''Declined with rationale.'')
            @ [[], ''Decision:'', ''- Declined for the current PR.'', [],
               ''If you have additional context or feel this requires further discussion, please let me know!'']))"

section \<open>Properties\<close>

text \<open>\<open>part in s\<close>.\<close>

fun contains_part :: "string \<Rightarrow> string \<Rightarrow> bool" where
  "contains_part [] part = (part = [])"
| "contains_part (c # cs) part = (startswith (c # cs) part \<or> contains_part cs part)"

lemma contains_iff: "contains_part s part \<longleftrightarrow> (\<exists>x y. s = x @ part @ y)"
proof (induction s)
  case (Cons c cs)
  show ?case
  proof
    assume "contains_part (c # cs) part"
    then consider "startswith (c # cs) part" | "contains_part cs part" by auto
    then show "\<exists>x y. c # cs = x @ part @ y"
    proof cases
      case 1
      then obtain t where "c # cs = part @ t" using startswithE by blast
      then show ?thesis by (intro exI [of _ "[]"] exI [of _ t]) simp
    next
      case 2
      then obtain x y where "cs = x @ part @ y" using Cons.IH by blast
      then show ?thesis by (intro exI [of _ "c # x"] exI [of _ y]) simp
    qed
  next
    assume "\<exists>x y. c # cs = x @ part @ y"
    then obtain x y where xy: "c # cs = x @ part @ y" by blast
    show "contains_part (c # cs) part"
    proof (cases x)
      case Nil
      then have "startswith (c # cs) part" using xy by (simp only: append_Nil startswith_append)
      then show ?thesis by simp
    next
      case (Cons d x')
      then have "cs = x' @ part @ y" using xy by simp
      then have "contains_part cs part" using \<open>contains_part cs part \<longleftrightarrow> (\<exists>x y. cs = x @ part @ y)\<close> by blast
      then show ?thesis by simp
    qed
  qed
qed auto

lemma contains_mid: "contains_part (x @ part @ y) part"
  by (auto simp: contains_iff)

lemma contains_in: "contains_part s part \<Longrightarrow> contains_part (x @ s @ y) part"
  by (auto simp: contains_iff) (metis append.assoc)

lemma py_join_member: "l \<in> set ls \<Longrightarrow> contains_part (py_join sep ls) l"
proof (induction sep ls rule: py_join.induct)
  case (2 sep x)
  then show ?case using contains_mid [of "[]" x "[]"] by simp
next
  case (3 sep x y ys)
  then show ?case
    using contains_mid [of "[]" x "sep @ py_join sep (y # ys)"]
      contains_in [of "py_join sep (y # ys)" l "x @ sep" "[]"] by auto
qed auto

lemma finalize_contains: "l \<in> set ls \<Longrightarrow> contains_part (finalize_reply ls) l"
  using py_join_member [of l "ls @ [[], REPLY_ATTRIBUTION]" "[newline]"] contains_in [of _ l "[]" "[newline]"]
  by (simp add: finalize_reply_def)

lemma finalize_attribution: "contains_part (finalize_reply ls) REPLY_ATTRIBUTION"
  using py_join_member [of REPLY_ATTRIBUTION "ls @ [[], REPLY_ATTRIBUTION]" "[newline]"]
    contains_in [of _ REPLY_ATTRIBUTION "[]" "[newline]"]
  by (simp add: finalize_reply_def)

lemma contains_trans: "contains_part s p \<Longrightarrow> contains_part p q \<Longrightarrow> contains_part s q"
  by (auto simp: contains_iff) (metis append.assoc)

text \<open>
  A fix reply carries its evidence. Whenever a fix reply is rendered it names the
  commit, every file of the list and the test command with its result, and it ends with the
  attribution; so does every clarify, defer and reject reply.
\<close>

theorem fix_reply_carries_evidence:
  assumes "fix_reply severity (commit # files # cmd # result # rest) summary priority note = Inr body"
  shows "contains_part body (''Addressed in '' @ code_span (display_commit_hash commit) @ ''.'')
    \<and> (\<forall>f \<in> set (stripped_parts (split_char CHR '','' files)). contains_part body (code_span f))
    \<and> contains_part body (''- Validation: '' @ code_span cmd @ '' '' @ result)
    \<and> contains_part body REPLY_ATTRIBUTION \<and> contains_part (clarify_reply args) REPLY_ATTRIBUTION
    \<and> contains_part (defer_reply args) REPLY_ATTRIBUTION \<and> contains_part (reject_reply args) REPLY_ATTRIBUTION"
proof -
  obtain s p why where b: "body = finalize_reply (fix_reply_lines s p commit files cmd result why summary note)"
    using assms by (auto simp: fix_reply_def split: sum.splits list.splits)
  let ?ls = "fix_reply_lines s p commit files cmd result why summary note"
  have l: "''Addressed in '' @ code_span (display_commit_hash commit) @ ''.'' \<in> set ?ls"
    "''- Validation: '' @ code_span cmd @ '' '' @ result \<in> set ?ls"
    by (simp_all add: fix_reply_lines_def Let_def)
  have f: "contains_part body (code_span f)" if "f \<in> set (stripped_parts (split_char CHR '','' files))" for f
  proof -
    have "file_line (map_option py_strip summary) f \<in> set ?ls"
      using that by (auto simp: fix_reply_lines_def Let_def)
    then have "contains_part body (file_line (map_option py_strip summary) f)"
      unfolding b by (rule finalize_contains)
    moreover have "contains_part (file_line (map_option py_strip summary) f) (code_span f)"
      using contains_mid [of "''- ''" "code_span f" "[]"] contains_mid [of "''- ''" "code_span f"]
      by (auto simp: file_line_def split: option.splits)
    ultimately show ?thesis by (rule contains_trans)
  qed
  show ?thesis
    using finalize_contains [OF l(1)] finalize_contains [OF l(2)] finalize_attribution f
    by (simp add: b clarify_reply_def defer_reply_def reject_reply_def Let_def)
qed

theorem fix_reply_carries_evidence_witness:
  "\<exists>body. fix_reply (Some ''P1'') [''abc123'', ''a.py, b.py'', ''pytest'', ''passed''] None None None = Inr body
     \<and> contains_part body (code_span ''b.py'')"
proof -
  define r where "r = projr (fix_reply (Some ''P1'') [''abc123'', ''a.py, b.py'', ''pytest'', ''passed''] None None None)"
  have e: "fix_reply (Some ''P1'') [''abc123'', ''a.py, b.py'', ''pytest'', ''passed''] None None None = Inr r"
    unfolding r_def by code_simp
  have m: "''b.py'' \<in> set (stripped_parts (split_char CHR '','' ''a.py, b.py''))" by code_simp
  from fix_reply_carries_evidence [OF e] m e show ?thesis by blast
qed

end
