(* ===== verification/Publish_Plan.thy ===== *)
theory Publish_Plan
  imports Reply_Templates Stack_Context Validation_Evidence
begin

text \<open>
  The pure part of publishing (\<open>core/publisher.py\<close>): which thread an item belongs to, which
  commit a reply cites, the body of the reply, the judgement whether a fix reply may be
  submitted, and what the threads read from GitHub prove about earlier replies.
\<close>

section \<open>Lists of text\<close>

definition normalize_string_list :: "pyval \<Rightarrow> string list" where
  "normalize_string_list value =
     (case value of
        PStr s \<Rightarrow> stripped_parts (split_char CHR '','' s)
      | PList xs \<Rightarrow> stripped_parts (map py_str xs)
      | _ \<Rightarrow> [])"

definition command_of_entry :: "pyval \<Rightarrow> string" where
  "command_of_entry entry =
     (let c = (case entry of PDict d \<Rightarrow> dget d ''command'' | v \<Rightarrow> v) in py_strip (py_str (py_or c (PStr []))))"

definition normalize_validation_commands :: "pyval \<Rightarrow> string list" where
  "normalize_validation_commands value =
     (case value of
        PStr s \<Rightarrow> if py_strip s = [] then [] else [py_strip s]
      | PList xs \<Rightarrow> filter (\<lambda>c. c \<noteq> []) (map command_of_entry xs)
      | _ \<Rightarrow> [])"

section \<open>Threads and commits\<close>

definition thread_field :: "pydict \<Rightarrow> string \<Rightarrow> string" where
  "thread_field item k = (case dget item k of PStr s \<Rightarrow> py_strip s | _ \<Rightarrow> [])"

definition github_thread_id :: "string \<Rightarrow> pydict \<Rightarrow> string" where
  "github_thread_id item_id item =
     (if thread_field item ''thread_id'' \<noteq> [] then thread_field item ''thread_id''
      else if thread_field item ''origin_ref'' \<noteq> [] then thread_field item ''origin_ref''
      else if startswith item_id ''github-thread:'' then py_strip (removeprefix item_id ''github-thread:'')
      else [])"

definition commit_hash_from_evidence :: "pyval \<Rightarrow> string" where
  "commit_hash_from_evidence source =
     (case source of
        PDict d \<Rightarrow>
          (case filter (\<lambda>s. s \<noteq> []) (map (thread_field d) [''commit_hash'', ''head_sha'', ''sha'']) of
             [] \<Rightarrow> [] | s # ss \<Rightarrow> s)
      | _ \<Rightarrow> [])"

definition item_commit_hash :: "pydict \<Rightarrow> string" where
  "item_commit_hash item = commit_hash_from_evidence (dget item ''commit_evidence'')"

definition needs_default_commit :: "pydict \<Rightarrow> pydict \<Rightarrow> bool" where
  "needs_default_commit item response \<longleftrightarrow>
     (case dget response ''fix_reply'' of
        PDict f \<Rightarrow> stripped_field f ''commit_hash'' = [] \<and> item_commit_hash item = []
      | _ \<Rightarrow> False)"

definition hydrate_publish_response :: "pydict \<Rightarrow> pydict \<Rightarrow> string \<Rightarrow> pydict" where
  "hydrate_publish_response item response default_commit =
     (case dget response ''fix_reply'' of
        PDict f \<Rightarrow>
          (let commit = text_or (item_commit_hash item) default_commit
           in dset ''fix_reply''
                (PDict (if stripped_field f ''commit_hash'' = [] \<and> commit \<noteq> []
                        then dset ''commit_hash'' (PStr commit) f else f)) response)
      | _ \<Rightarrow> response)"

section \<open>Reply bodies\<close>

record fix_fields =
  fx_files :: "string list"
  fx_test_command :: string
  fx_test_result :: string

definition fix_fields_of :: "pydict \<Rightarrow> pydict \<Rightarrow> fix_fields" where
  "fix_fields_of f response =
     (let commands = normalize_validation_commands (dget response ''validation_commands'')
      in \<lparr>fx_files = normalize_string_list (py_or (dget f ''files'') (dget response ''files'')),
          fx_test_command = py_strip (py_str (py_or (dget f ''test_command'') (PStr (py_join '' && '' commands)))),
          fx_test_result = py_strip (py_str (py_or (dget f ''test_result'')
             (PStr (if commands = [] then [] else ''passed''))))\<rparr>)"

definition validate_fix_reply_for_submit :: "pydict \<Rightarrow> pydict \<Rightarrow> string option" where
  "validate_fix_reply_for_submit item response =
     (case dget response ''fix_reply'' of
        PDict f \<Rightarrow>
          (let x = fix_fields_of f response
           in if fx_files x = [] then Some ''MISSING_FIX_REPLY_FILES''
              else if fx_test_command x = [] then Some ''MISSING_FIX_REPLY_TEST_COMMAND''
              else if fx_test_result x = [] then Some ''MISSING_FIX_REPLY_TEST_RESULT''
              else snd (fix_reply_severity_for_publish f item))
      | _ \<Rightarrow> Some ''MISSING_PUBLISH_REPLY'')"

definition rendered_fix :: "pydict \<Rightarrow> pydict \<Rightarrow> pydict \<Rightarrow> string \<Rightarrow> string + string" where
  "rendered_fix item response f commit =
     (let x = fix_fields_of f response;
          why = py_strip (py_str (py_or (dget f ''why'')
                  (PStr ''Addressed the CR with targeted changes and validation evidence.'')));
          summary = stripped_field f ''summary'';
          priority = review_priority_for_publish item
      in fix_reply (fst (fix_reply_severity_for_publish f item))
           [commit, py_join '','' (fx_files x), fx_test_command x, fx_test_result x, why]
           (if summary = [] then None else Some summary) (fst priority) (snd priority))"

text \<open>
  The body, or the reason there is none. The checks of the fields are repeated after the
  validation, as the code does; they cannot fail there.
\<close>

definition publish_reply_body :: "pydict \<Rightarrow> pydict \<Rightarrow> string + string" where
  "publish_reply_body item response =
     (let resolution = py_str (py_or (py_or (dget response ''resolution'') (dget item ''publish_resolution'')) (PStr []));
          markdown = (case dget response ''reply_markdown'' of PStr s \<Rightarrow> Some s | _ \<Rightarrow> None);
          present = (case markdown of None \<Rightarrow> [] | Some s \<Rightarrow> py_strip s)
      in if resolution \<noteq> ''fix''
         then (if resolution = ''reject'' then Inr (reject_reply (if present = [] then [] else [present]))
               else if present = [] then Inl ''MISSING_PUBLISH_REPLY''
               else if resolution = ''clarify'' then Inr (clarify_reply [present])
               else if resolution = ''defer'' then Inr (defer_reply [present])
               else Inr (the markdown))
         else (case dget response ''fix_reply'' of
                 PDict f \<Rightarrow>
                   (case validate_fix_reply_for_submit item response of
                      Some e \<Rightarrow> Inl (if e = [] then ''MISSING_PUBLISH_REPLY'' else e)
                    | None \<Rightarrow>
                        let commit = stripped_field f ''commit_hash''; x = fix_fields_of f response
                        in if commit = [] then Inl ''MISSING_FIX_REPLY_COMMIT_HASH''
                           else if fx_files x = [] then Inl ''MISSING_FIX_REPLY_FILES''
                           else if fx_test_command x = [] then Inl ''MISSING_FIX_REPLY_TEST_COMMAND''
                           else if fx_test_result x = [] then Inl ''MISSING_FIX_REPLY_TEST_RESULT''
                           else (case snd (fix_reply_severity_for_publish f item) of
                                   Some e \<Rightarrow> Inl e
                                 | None \<Rightarrow>
                                   (case rendered_fix item response f commit of
                                      Inl e \<Rightarrow> Inl (text_or e ''MISSING_PUBLISH_REPLY'') | Inr b \<Rightarrow> Inr b)))
               | _ \<Rightarrow> Inl ''MISSING_PUBLISH_REPLY''))"

section \<open>What the threads prove\<close>

definition row_of_thread :: "string \<Rightarrow> pyval list \<Rightarrow> pydict option" where
  "row_of_thread thread_id threads =
     find (\<lambda>d. str_field d ''id'' = thread_id) (List.map_filter as_dict threads)"

text \<open>The URL of the thread's latest comment, when it is provably a reply of this program.\<close>

definition reconciled_reply :: "string \<Rightarrow> string \<Rightarrow> pyval list \<Rightarrow> string option" where
  "reconciled_reply thread_id publisher_login threads =
     (if publisher_login = [] then None
      else case row_of_thread thread_id threads of
             None \<Rightarrow> None
           | Some t \<Rightarrow>
               let body = (case dget t ''latest_body'' of PStr s \<Rightarrow> s | _ \<Rightarrow> [])
               in if dget t ''latest_author_login'' = PStr publisher_login
                     \<and> list_ex (contains_part body) KNOWN_REPLY_ATTRIBUTIONS \<and> truthy (dget t ''latest_url'')
                  then Some (py_str (dget t ''latest_url'')) else None)"

definition never_replied :: "string \<Rightarrow> pyval list \<Rightarrow> bool" where
  "never_replied thread_id threads =
     (case row_of_thread thread_id threads of
        None \<Rightarrow> False
      | Some t \<Rightarrow> dget t ''viewer_reply_checked'' = PBool True \<and> dget t ''viewer_replied'' = PBool False)"

section \<open>Properties\<close>

lemma fix_reply_attribution: "fix_reply s ps a b c = Inr body \<Longrightarrow> contains_part body REPLY_ATTRIBUTION"
  using finalize_attribution by (auto simp: fix_reply_def split: list.splits sum.splits)


definition ex_clarify :: pydict where
  "ex_clarify = [(''resolution'', PStr ''clarify''), (''reply_markdown'', PStr ''works'')]"

definition ex_row :: "string \<Rightarrow> pydict" where
  "ex_row body = [(''id'', PStr ''T1''), (''latest_author_login'', PStr ''bot''), (''latest_body'', PStr body),
     (''latest_url'', PStr ''u''), (''viewer_reply_checked'', PBool True), (''viewer_replied'', PBool True)]"


end
