(* ===== verification/Primary_Action.thy ===== *)
theory Primary_Action
  imports Thread_State Command_Templates Json_Hash "HOL-Library.Product_Lexorder"
begin

text \<open>
  The one next action derived from a session (\<open>core/primary_action.py\<close>): the items that
  block, their order of urgency, the action itself, the context shown with it and the
  fingerprint of a recommendation. The state of an item is text, as every writer leaves it;
  a state that cannot be hashed, on which the set membership of the code would raise, is not
  modelled.
\<close>

section \<open>Facts of the session\<close>

definition PRIMARY_ACTION_KINDS :: "string list" where
  "PRIMARY_ACTION_KINDS =
     [''claim'', ''resolve'', ''publish'', ''wait'', ''run_final_gate'', ''repair_environment'', ''complete'']"

definition ENVIRONMENT_WAITING_ON :: "string list" where
  "ENVIRONMENT_WAITING_ON =
     [''active_pr_target'', ''github_cli'', ''network'', ''authentication'', ''authorization'', ''pr_scope'',
      ''revision'', ''session'', ''state_directory'']"

definition COMMENT_EXCERPT_LIMIT :: nat where
  "COMMENT_EXCERPT_LIMIT = 500"

definition as_mapping :: "pyval \<Rightarrow> pydict" where
  "as_mapping v = (case v of PDict d \<Rightarrow> d | _ \<Rightarrow> [])"

definition list_or_empty :: "pyval \<Rightarrow> pyval list" where
  "list_or_empty v = (case v of PList xs \<Rightarrow> xs | _ \<Rightarrow> [])"

definition selected_pr_of :: "pydict \<Rightarrow> string" where
  "selected_pr_of stack =
     py_str (py_or (py_or (dget stack ''selected_pr_number'')
       (dget (as_mapping (dget stack ''selected_pr'')) ''pr_number'')) (PStr []))"

definition stack_members_of :: "pydict \<Rightarrow> pyval list" where
  "stack_members_of stack =
     (case dget (as_mapping (dget stack ''stack'')) ''members'' of
        PList xs \<Rightarrow> xs | _ \<Rightarrow> list_or_empty (dget stack ''members''))"

definition selected_member :: "pydict \<Rightarrow> pydict option" where
  "selected_member stack =
     find (\<lambda>d. text_field d ''pr_number'' = selected_pr_of stack) (List.map_filter as_dict (stack_members_of stack))"

definition head_sha :: "pydict \<Rightarrow> string option" where
  "head_sha session =
     (let context = as_mapping (dget (as_mapping (dget session ''metadata'')) ''pull_request_context'');
          direct = py_or (dget context ''head_sha'') (dget context ''head_oid'');
          stack = as_mapping (dget context ''stack_context'');
          oid = dget (as_mapping (dget stack ''selected_pr'')) ''head_oid''
      in if truthy direct then Some (py_str direct)
         else if truthy oid then Some (py_str oid)
         else case selected_member stack of
                None \<Rightarrow> None
              | Some d \<Rightarrow> if truthy (dget d ''head_oid'') then Some (py_str (dget d ''head_oid'')) else None)"

definition opt_text :: "string option \<Rightarrow> pyval" where
  "opt_text x = (case x of None \<Rightarrow> PNone | Some s \<Rightarrow> PStr s)"

definition project_context_summary :: "pydict \<Rightarrow> string option \<Rightarrow> pydict" where
  "project_context_summary session selected_item_id =
     (let metadata = as_mapping (dget session ''metadata'');
          stack = as_mapping (dget (as_mapping (dget metadata ''pull_request_context'')) ''stack_context'');
          serialized = as_mapping (dget stack ''selected_pr'');
          member = (if serialized \<noteq> [] then serialized
                    else case selected_member stack of None \<Rightarrow> [] | Some d \<Rightarrow> d);
          items = as_mapping (dget session ''items'');
          selected = (case selected_item_id of None \<Rightarrow> [] | Some i \<Rightarrow> if i = [] then [] else as_mapping (dget items i));
          chosen = (\<lambda>v. if selected = [] then PNone else v);
          body = (if selected = [] then [] else text_field selected ''body'');
          truncated = COMMENT_EXCERPT_LIMIT < length body;
          repo = text_field session ''repo''; pr_number = text_field session ''pr_number'';
          full = (if truncated \<and> repo \<noteq> [] \<and> pr_number \<noteq> [] then PStr (tmpl_threads_full repo pr_number) else PNone);
          check_summary = as_mapping (dget metadata ''check_summary'')
      in [(''pull_request'', PDict
             [(''base_ref'', dget member ''base_ref_name''), (''head_ref'', dget member ''head_ref_name''),
              (''head_sha'', py_or (dget member ''head_oid'') (opt_text (head_sha session)))]),
          (''changed_files'', PList (list_or_empty (dget metadata ''changed_files''))),
          (''checks'', PDict (if check_summary \<noteq> [] then check_summary
             else [(''availability'', PStr ''not_loaded''), (''counts'', PDict [])])),
          (''selected_item'', PDict
             [(''item_id'', chosen (dget selected ''item_id'')), (''path'', chosen (dget selected ''path'')),
              (''line'', chosen (dget selected ''line'')),
              (''comment_excerpt'', chosen (PStr (take COMMENT_EXCERPT_LIMIT body))),
              (''comment_excerpt_truncated'', chosen (PBool truncated)), (''full_comment_command'', full)]),
          (''relevant_diff'', PDict [(''availability'', PStr ''on_demand'')]),
          (''codeowners'', PDict [(''availability'', PStr ''on_demand''), (''advisory'', PBool True)])])"

section \<open>Recommendations\<close>

record primary_action =
  pa_kind :: string
  pa_command :: "string option"
  pa_item_id :: "string option"
  pa_why_now :: string
  pa_requires_human :: bool

definition evidence_state_of :: "pydict \<Rightarrow> pydict" where
  "evidence_state_of item =
     [(''state'', dget item ''state''), (''status'', dget item ''status''),
      (''accepted_response'', PBool (is_dict (dget item ''accepted_response''))),
      (''reply_evidence'', PBool (is_dict (dget item ''reply_evidence'')))]"

definition build_recommendation_observation :: "pydict \<Rightarrow> primary_action \<Rightarrow> string \<Rightarrow> pydict" where
  "build_recommendation_observation session act emitted_at =
     (let items = as_mapping (dget session ''items'');
          item = (case pa_item_id act of None \<Rightarrow> [] | Some i \<Rightarrow> if i = [] then [] else as_mapping (dget items i));
          shared = [(''head_sha'', opt_text (head_sha session)), (''item_id'', opt_text (pa_item_id act)),
                    (''kind'', PStr (pa_kind act)), (''evidence_state'', PDict (evidence_state_of item))]
      in (''fingerprint'', PStr (sha256_hex (json_dumps (PDict shared)))) # shared @ [(''emitted_at'', PStr emitted_at)])"

definition new_action :: "string \<Rightarrow> string option \<Rightarrow> string option \<Rightarrow> string \<Rightarrow> bool \<Rightarrow> py_exn + primary_action" where
  "new_action kind command item_id why_now requires_human =
     (if kind \<in> set PRIMARY_ACTION_KINDS
      then Inr \<lparr>pa_kind = kind, pa_command = command, pa_item_id = item_id, pa_why_now = why_now,
                pa_requires_human = requires_human\<rparr>
      else Inl (ValueError (''Unsupported primary action kind: '' @ kind)))"

section \<open>Which item is next\<close>

definition candidate_items :: "pydict \<Rightarrow> pydict list" where
  "candidate_items session =
     filter (\<lambda>d. truthy (dget d ''blocking''))
       (List.map_filter as_dict (map snd (as_mapping (dget session ''items''))))"

definition severity_rank :: "string \<Rightarrow> nat" where
  "severity_rank severity =
     (if severity = ''P0'' then 0 else if severity = ''P1'' then 1 else if severity = ''P2'' then 2
      else if severity = ''P3'' then 3 else 4)"

definition item_sort_key :: "pydict \<Rightarrow> nat \<times> nat \<times> string" where
  "item_sort_key item =
     (severity_rank (py_upper (text_field item ''severity'')),
      (if text_field item ''item_kind'' = ''github_thread'' then 0 else 1),
      py_str (py_or (py_or (dget item ''review_priority'') (dget item ''item_id'')) (PStr [])))"

definition is_publish_ready :: "pydict \<Rightarrow> bool" where
  "is_publish_ready item \<longleftrightarrow> dget item ''state'' = PStr ''publish_ready'' \<and> is_dict (dget item ''accepted_response'')"

definition is_unresolved_thread :: "pydict \<Rightarrow> bool" where
  "is_unresolved_thread item \<longleftrightarrow>
     dget item ''item_kind'' = PStr ''github_thread'' \<and> \<not> is_resolved_github_thread item
     \<and> dget item ''state'' \<notin> {PStr ''published'', PStr ''resolved'', PStr ''terminal''}"

definition is_local_item :: "pydict \<Rightarrow> bool" where
  "is_local_item item \<longleftrightarrow> dget item ''item_kind'' = PStr ''local_finding''"

definition most_urgent :: "(pydict \<Rightarrow> bool) \<Rightarrow> pydict \<Rightarrow> pydict option" where
  "most_urgent p session =
     (case sort_key item_sort_key (filter p (candidate_items session)) of [] \<Rightarrow> None | item # rest \<Rightarrow> Some item)"

definition action_item_id :: "pydict \<Rightarrow> string option" where
  "action_item_id item = (let i = text_field item ''item_id'' in if i = [] then None else Some i)"

definition thread_action :: "string \<Rightarrow> string \<Rightarrow> pydict \<Rightarrow> py_exn + primary_action" where
  "thread_action repo pr_number item =
     (let i = action_item_id item
      in if truthy (py_or (dget item ''reply_evidence'') (dget item ''published_at''))
         then new_action ''wait'' None i ''The remote review thread has not converged after the recorded side effect.'' False
         else new_action ''resolve''
           (Some (tmpl_resolve_item repo pr_number (case i of None \<Rightarrow> ''<item_id>'' | Some t \<Rightarrow> t))) i
           ''This is the highest-priority unresolved review thread; fix it, then fill in the evidence placeholders.'' False)"

definition pending_checks :: "pydict \<Rightarrow> py_exn + int" where
  "pending_checks session =
     (let counts = as_mapping (dget (as_mapping (dget (as_mapping (dget session ''metadata'')) ''check_summary'')) ''counts'')
      in py_int (py_or (dget counts ''pending'') (PInt 0)))"

definition idle_action ::
    "string \<Rightarrow> string \<Rightarrow> string \<Rightarrow> string \<Rightarrow> string \<Rightarrow> string option \<Rightarrow> py_exn + primary_action" where
  "idle_action repo pr_number command status reason_code waiting_on =
     (if waiting_on \<in> {Some ''checks'', Some ''required_checks''}
      then new_action ''wait'' None None ''Required checks are still pending.'' False
      else if reason_code \<in> {''WAITING_FOR_EXTERNAL_REVIEW'', ''WAITING_FOR_FINDINGS'', ''FINDINGS_REQUIRED''}
      then new_action ''resolve'' None None ''Review findings are required before resolution can continue.'' False
      else if command = ''final-gate'' \<and> status = ''PASSED''
      then new_action ''complete'' None None ''The authoritative final gate passed for the current revision.'' False
      else if status = ''PASSED''
      then new_action ''run_final_gate'' (Some (tmpl_final_gate repo pr_number)) None
        ''Inline resolution is clear; final-gate remains the authoritative completion check.'' False
      else new_action ''repair_environment'' None None
        ''No safe executable action can be derived from the current modeled state.'' True)"

definition project_primary_action ::
    "string \<Rightarrow> string \<Rightarrow> string \<Rightarrow> string \<Rightarrow> string \<Rightarrow> string option \<Rightarrow> pydict \<Rightarrow> py_exn + primary_action" where
  "project_primary_action repo pr_number command status reason_code waiting_on session =
     (if (case waiting_on of None \<Rightarrow> False | Some w \<Rightarrow> w \<in> set ENVIRONMENT_WAITING_ON) \<or> endswith reason_code ''_FAILED''
      then new_action ''repair_environment'' None None
        ''The workflow cannot safely continue until its environment or target is repaired.'' True
      else case most_urgent is_publish_ready session of
        Some item \<Rightarrow>
          new_action ''publish'' (Some (tmpl_publish repo pr_number)) (action_item_id item)
            ''Accepted evidence is ready to publish before starting another item.'' False
      | None \<Rightarrow>
          (case most_urgent is_unresolved_thread session of
             Some item \<Rightarrow> thread_action repo pr_number item
           | None \<Rightarrow>
               (case most_urgent is_local_item session of
                  Some item \<Rightarrow>
                    new_action ''resolve'' None (action_item_id item)
                      ''A blocking local finding must be resolved before the final gate.'' False
                | None \<Rightarrow>
                    (case pending_checks session of
                       Inl e \<Rightarrow> Inl e
                     | Inr n \<Rightarrow>
                         if 0 < n then new_action ''wait'' None None ''Pull request checks are still pending.'' False
                         else idle_action repo pr_number command status reason_code waiting_on))))"

section \<open>Properties\<close>

lemma new_action_Inr:
  "new_action k c i w h = Inr a \<longleftrightarrow> k \<in> set PRIMARY_ACTION_KINDS
     \<and> a = \<lparr>pa_kind = k, pa_command = c, pa_item_id = i, pa_why_now = w, pa_requires_human = h\<rparr>"
  by (auto simp: new_action_def)

lemma most_urgent_Some:
  assumes "most_urgent p session = Some item"
  shows "item \<in> set (candidate_items session)" "p item"
    "other \<in> set (candidate_items session) \<Longrightarrow> p other \<Longrightarrow> item_sort_key item \<le> item_sort_key other"
proof -
  obtain rest where e: "sort_key item_sort_key (filter p (candidate_items session)) = item # rest"
    using assms by (auto simp: most_urgent_def split: list.splits)
  have m: "set (item # rest) = {x \<in> set (candidate_items session). p x}"
    using set_sort [of item_sort_key "filter p (candidate_items session)"] by (simp add: e)
  then show "item \<in> set (candidate_items session)" "p item" by auto
  have "sorted (map item_sort_key (item # rest))"
    using sorted_sort_key [of item_sort_key "filter p (candidate_items session)"] by (simp add: e)
  then show "item_sort_key item \<le> item_sort_key other" if "other \<in> set (candidate_items session)" "p other"
    using m that by auto
qed

lemma most_urgent_None:
  assumes "most_urgent p session = None" "item \<in> set (candidate_items session)"
  shows "\<not> p item"
proof -
  have "sort_key item_sort_key (filter p (candidate_items session)) = []"
    using assms(1) by (simp add: most_urgent_def split: list.splits)
  then have "filter p (candidate_items session) = []" by (metis length_0_conv length_sort)
  then show ?thesis using assms(2) by (simp add: filter_empty_conv)
qed

lemmas action_kinds = PRIMARY_ACTION_KINDS_def new_action_Inr

lemma idle_action_kind:
  assumes "idle_action repo pr command status reason waiting = Inr a" "pa_kind a \<in> {''run_final_gate'', ''complete''}"
  shows "status = ''PASSED'' \<and> (pa_kind a = ''complete'' \<longrightarrow> command = ''final-gate'') \<and> pa_item_id a = None"
  using assms by (simp add: idle_action_def action_kinds split: if_splits)

text \<open>
  C27: the program suggests the final gate, or completion, only when nothing is left: the
  status is PASSED, no blocking item is ready to publish, is an unresolved thread or a local
  finding, and no check is pending; completion is only suggested after the final gate itself.
\<close>

theorem completion_only_when_clear:
  assumes "project_primary_action repo pr command status reason waiting session = Inr a"
    and "pa_kind a \<in> {''run_final_gate'', ''complete''}"
  shows "status = ''PASSED'' \<and> (pa_kind a = ''complete'' \<longrightarrow> command = ''final-gate'')
    \<and> (\<forall>item \<in> set (candidate_items session).
         \<not> is_publish_ready item \<and> \<not> is_unresolved_thread item \<and> \<not> is_local_item item)
    \<and> (\<exists>n. pending_checks session = Inr n \<and> n \<le> 0)"
  using assms idle_action_kind [of repo pr command status reason waiting a]
  by (auto simp: project_primary_action_def thread_action_def Let_def action_kinds dest: most_urgent_None
      split: if_splits option.splits sum.splits)

definition served_group :: "pydict \<Rightarrow> pydict \<Rightarrow> bool" where
  "served_group session =
     (if list_ex is_publish_ready (candidate_items session) then is_publish_ready
      else if list_ex is_unresolved_thread (candidate_items session) then is_unresolved_thread else is_local_item)"

lemma most_urgent_exists: "most_urgent p session = Some item \<Longrightarrow> list_ex p (candidate_items session)"
  by (auto simp: list_ex_iff dest: most_urgent_Some)

lemma most_urgent_empty: "most_urgent p session = None \<Longrightarrow> \<not> list_ex p (candidate_items session)"
  by (auto simp: list_ex_iff dest: most_urgent_None)

lemma served_group_urgent:
  assumes "most_urgent p session = Some item" "served_group session = p"
  shows "item \<in> set (candidate_items session) \<and> served_group session item
    \<and> (\<forall>other \<in> set (candidate_items session). served_group session other \<longrightarrow> item_sort_key item \<le> item_sort_key other)"
  using assms most_urgent_Some [OF assms(1)] by blast

lemma projected_item:
  assumes "project_primary_action repo pr command status reason waiting session = Inr a" "pa_item_id a \<noteq> None"
  shows "\<exists>item. most_urgent (served_group session) session = Some item \<and> pa_item_id a = action_item_id item"
  using assms
  by (auto simp: project_primary_action_def thread_action_def idle_action_def Let_def new_action_Inr served_group_def
      dest: most_urgent_empty most_urgent_exists split: if_splits option.splits sum.splits)

text \<open>
  An action that names an item names the most urgent one of its group. Publishing comes
  before any other work; without an item to publish, an unresolved thread comes before a local
  finding; inside the group no candidate has a smaller severity rank, or sorts before it.
\<close>

theorem primary_action_most_urgent:
  assumes "project_primary_action repo pr command status reason waiting session = Inr a" "pa_item_id a = Some i"
  shows "\<exists>item \<in> set (candidate_items session). served_group session item \<and> text_field item ''item_id'' = i
    \<and> (\<forall>other \<in> set (candidate_items session). served_group session other \<longrightarrow>
         item_sort_key item \<le> item_sort_key other
         \<and> severity_rank (py_upper (text_field item ''severity'')) \<le> severity_rank (py_upper (text_field other ''severity'')))"
proof -
  obtain item where u: "most_urgent (served_group session) session = Some item" and i: "action_item_id item = Some i"
    using projected_item [OF assms(1)] assms(2) by auto
  note f = served_group_urgent [OF u refl]
  have "fst (item_sort_key x) = severity_rank (py_upper (text_field x ''severity''))" for x
    by (simp add: item_sort_key_def)
  moreover have "fst (item_sort_key item) \<le> fst (item_sort_key other)" if "item_sort_key item \<le> item_sort_key other" for other
    using that by (auto simp: less_eq_prod_def)
  ultimately show ?thesis
    using f i by (intro bexI [of _ item]) (auto simp: action_item_id_def Let_def split: if_splits)
qed


section \<open>Witnesses\<close>

definition ex_blocking :: "string \<Rightarrow> string \<Rightarrow> pyval" where
  "ex_blocking i severity = PDict
     [(''item_id'', PStr i), (''item_kind'', PStr ''github_thread''), (''blocking'', PBool True), (''state'', PStr ''open''),
      (''severity'', PStr severity)]"

definition ex_work :: pydict where
  "ex_work = [(''items'', PDict [(''t1'', ex_blocking ''t1'' ''P2''), (''t2'', ex_blocking ''t2'' ''p0'')])]"

theorem completion_only_when_clear_witness:
  "project_primary_action ''o/r'' ''7'' ''review'' ''PASSED'' ''OK'' None [] =
     Inr \<lparr>pa_kind = ''run_final_gate'', pa_command = Some (tmpl_final_gate ''o/r'' ''7''), pa_item_id = None,
          pa_why_now = ''Inline resolution is clear; final-gate remains the authoritative completion check.'',
          pa_requires_human = False\<rparr> \<and> (\<exists>n. pending_checks [] = Inr n \<and> n \<le> 0)"
proof -
  have e: "project_primary_action ''o/r'' ''7'' ''review'' ''PASSED'' ''OK'' None [] =
     Inr \<lparr>pa_kind = ''run_final_gate'', pa_command = Some (tmpl_final_gate ''o/r'' ''7''), pa_item_id = None,
          pa_why_now = ''Inline resolution is clear; final-gate remains the authoritative completion check.'',
          pa_requires_human = False\<rparr>" by code_simp
  show ?thesis using completion_only_when_clear [OF e] e by simp
qed

theorem primary_action_most_urgent_witness:
  "\<exists>a. project_primary_action ''o/r'' ''7'' ''review'' ''BLOCKED'' ''OPEN'' None ex_work = Inr a \<and> pa_item_id a = Some ''t2''
     \<and> (\<exists>item \<in> set (candidate_items ex_work). text_field item ''item_id'' = ''t2'')"
proof -
  obtain a where e: "project_primary_action ''o/r'' ''7'' ''review'' ''BLOCKED'' ''OPEN'' None ex_work = Inr a"
    and i: "pa_item_id a = Some ''t2''"
  proof -
    have "case project_primary_action ''o/r'' ''7'' ''review'' ''BLOCKED'' ''OPEN'' None ex_work of
        Inl e \<Rightarrow> False | Inr a \<Rightarrow> pa_item_id a = Some ''t2''" by code_simp
    then show ?thesis using that by (auto split: sum.splits)
  qed
  then show ?thesis using primary_action_most_urgent [OF e i] by auto
qed

end
