(* ===== verification/Publishing.thy ===== *)
theory Publishing
  imports Publish_Plan Session_Store Primary_Action
begin

text \<open>
  Publishing accepted responses to GitHub (\<open>core/publisher.py\<close>). A world is the publishing
  process with its store and session, and the state of GitHub; the client is a record of
  functions on that state, and the locks other processes hold, fresh owner tokens, the
  clock and the checked-out commit are the environment. A process may die before any
  transaction and any call of GitHub; what it did before stays. Sleeping, spans and the
  files materialized from the store are not modelled.
\<close>

section \<open>Worlds\<close>

record 'g world =
  w_process :: process
  w_hub :: 'g

record 'g github_client =
  gc_post_reply :: "string \<Rightarrow> string \<Rightarrow> 'g \<Rightarrow> (github_error + string) \<times> 'g"
  gc_resolve_thread :: "string \<Rightarrow> 'g \<Rightarrow> (github_error + unit) \<times> 'g"
  gc_list_threads :: "'g \<Rightarrow> (github_error + pyval list) \<times> 'g"
  gc_is_thread_resolved :: "string \<Rightarrow> 'g \<Rightarrow> (github_error + bool) \<times> 'g"
  gc_list_pr_commit_shas :: "'g \<Rightarrow> (github_error + string list) \<times> 'g"
  gc_get_stack_context :: "'g \<Rightarrow> (github_error + stack_context) \<times> 'g"
  gc_viewer_login :: "'g \<Rightarrow> (github_error + string) \<times> 'g"

record publish_env =
  pe_repo :: string
  pe_pr_number :: string
  pe_ledger_path :: string
  pe_agent_id :: string
  pe_timestamp :: string
  pe_now :: string
  pe_head_commit :: string
  pe_lock_held :: "string \<Rightarrow> bool"
  pe_owner :: "string \<Rightarrow> string"

type_synonym ('g, 'a) effect_run = "'g world \<Rightarrow> (effect_error + 'a) \<times> 'g world"

definition ereturn :: "'a \<Rightarrow> ('g, 'a) effect_run" where
  "ereturn a w = (Inr a, w)"

definition eraise :: "effect_error \<Rightarrow> ('g, 'a) effect_run" where
  "eraise e w = (Inl e, w)"

definition ebind :: "('g, 'a) effect_run \<Rightarrow> ('a \<Rightarrow> ('g, 'b) effect_run) \<Rightarrow> ('g, 'b) effect_run" where
  "ebind m f w = (case m w of (Inl e, w') \<Rightarrow> (Inl e, w') | (Inr a, w') \<Rightarrow> f a w')"

definition on_process :: "(process \<Rightarrow> (effect_error + 'a) \<times> process) \<Rightarrow> ('g, 'a) effect_run" where
  "on_process f w = (case f (w_process w) of (r, x) \<Rightarrow> (r, w\<lparr>w_process := x\<rparr>))"

text \<open>A call of GitHub; its error is returned to be handled.\<close>

definition call_hub :: "('g \<Rightarrow> (github_error + 'a) \<times> 'g) \<Rightarrow> ('g, github_error + 'a) effect_run" where
  "call_hub f w =
     (if px_life (w_process w) = 0 then (Inl ProcessDied, w)
      else case f (w_hub w) of (r, g) \<Rightarrow> (Inr r, \<lparr>w_process = tick (w_process w), w_hub = g\<rparr>))"

definition get_session :: "('g, pydict) effect_run" where
  "get_session w = (Inr (px_session (w_process w)), w)"

definition update_session :: "(pydict \<Rightarrow> pydict) \<Rightarrow> ('g, unit) effect_run" where
  "update_session f w = (Inr (), w\<lparr>w_process := (w_process w)\<lparr>px_session := f (px_session (w_process w))\<rparr>\<rparr>)"

section \<open>Session and ledger of the process\<close>

definition save_process :: "process \<Rightarrow> (effect_error + unit) \<times> process" where
  "save_process x =
     (if px_life x = 0 then (Inl ProcessDied, x)
      else case save_session (px_session x) (Some (px_store x)) of
        (r, p, st) \<Rightarrow> (r, (tick x)\<lparr>px_session := p, px_store := (case st of None \<Rightarrow> px_store x | Some s \<Rightarrow> s)\<rparr>))"

definition load_process :: "publish_env \<Rightarrow> process \<Rightarrow> (effect_error + unit) \<times> process" where
  "load_process env x =
     (if px_life x = 0 then (Inl ProcessDied, x)
      else case load_session (pe_repo env) (pe_pr_number env) (pe_ledger_path env) (pe_lock_held env) (Some (px_store x)) of
        (Inl e, st) \<Rightarrow> (Inl e, (tick x)\<lparr>px_store := the st\<rparr>)
      | (Inr p, st) \<Rightarrow> (Inr (), (tick x)\<lparr>px_session := p, px_store := the st\<rparr>))"

definition item_of :: "pydict \<Rightarrow> string \<Rightarrow> pydict" where
  "item_of session item_id = dict_or_empty (nested_get (dget session ''items'') item_id)"

definition set_item :: "string \<Rightarrow> (pydict \<Rightarrow> pydict) \<Rightarrow> pydict \<Rightarrow> pydict" where
  "set_item item_id f session =
     (case dget session ''items'' of
        PDict items \<Rightarrow> dset ''items'' (PDict (dset item_id (PDict (f (item_of session item_id))) items)) session
      | _ \<Rightarrow> session)"

definition session_id_of :: "pydict \<Rightarrow> string" where
  "session_id_of session = py_str (dget session ''session_id'')"

definition publish_event ::
    "publish_env \<Rightarrow> string \<Rightarrow> pyval \<Rightarrow> string \<Rightarrow> pydict \<Rightarrow> string option \<Rightarrow> ('g, unit) effect_run" where
  "publish_event env item_id lease_id event_type payload timestamp =
     ebind get_session (\<lambda>session.
       case buffer_append (new_evidence_record (pe_now env) (session_id_of session) item_id lease_id (pe_agent_id env)
              ''publisher'' event_type payload timestamp) session of
         Inl e \<Rightarrow> eraise (EffectRaised e)
       | Inr s \<Rightarrow> update_session (\<lambda>_. s))"

text \<open>
  \<open>record_side_effect_attempt\<close> of the session ledger: the record is buffered, taken out again
  and persisted at once; an empty buffer is removed.
\<close>

definition record_side_effect_attempt ::
    "publish_env \<Rightarrow> string \<Rightarrow> pyval \<Rightarrow> string \<Rightarrow> string \<Rightarrow> string \<Rightarrow> pyval \<Rightarrow> pyval \<Rightarrow> ('g, unit) effect_run" where
  "record_side_effect_attempt env item_id lease_id effect_type key status external_url last_error =
     ebind get_session (\<lambda>session.
       let attempt = new_side_effect_attempt (pe_now env) (session_id_of session) item_id effect_type key status 0
             PNone last_error external_url (Some (pe_timestamp env));
           entry = record_to_json (side_effect_record (pe_now env) attempt lease_id (pe_agent_id env) ''publisher''
             (Some (pe_timestamp env)))
       in case dget_default session pending_key (PList []) of
            PList pending \<Rightarrow>
              ebind (update_session (dset pending_key (PList pending))) (\<lambda>_.
              ebind (on_process (persist_side_effect_attempt (pe_timestamp env) [entry])) (\<lambda>_.
                if pending = [] then update_session (dpop pending_key) else ereturn ()))
          | _ \<Rightarrow> eraise (EffectRaised (ValueError ''Session pending evidence must be a list.'')))"

definition publish_blocked :: "string \<Rightarrow> string \<Rightarrow> effect_error" where
  "publish_blocked reason item_id = WorkflowError ''PUBLISH_BLOCKED'' reason [(''item_id'', PStr item_id)]"

text \<open>A blocked publish is recorded in the session, which is saved before the error is raised.\<close>

definition record_publish_blocked :: "publish_env \<Rightarrow> string \<Rightarrow> string \<Rightarrow> ('g, unit) effect_run" where
  "record_publish_blocked env item_id reason =
     ebind (publish_event env item_id PNone ''publish_blocked'' [(''reason_code'', PStr reason)] None) (\<lambda>_.
       on_process save_process)"

definition block_publish :: "publish_env \<Rightarrow> string \<Rightarrow> string \<Rightarrow> ('g, 'a) effect_run" where
  "block_publish env item_id reason =
     ebind (record_publish_blocked env item_id reason) (\<lambda>_. eraise (publish_blocked reason item_id))"

section \<open>One GitHub mutation under its guard\<close>

definition publish_error :: "publish_env \<Rightarrow> string \<Rightarrow> github_error \<Rightarrow> effect_error" where
  "publish_error env item_id e =
     WorkflowError ''PUBLISH_BLOCKED'' (ge_reason_code e)
       ([(''item_id'', PStr item_id), (''retryable'', PBool (ge_retryable e)), (''repo'', PStr (pe_repo env)),
         (''pr_number'', PStr (pe_pr_number env))]
        @ (if ge_diagnostics e = [] then [] else [(''diagnostics'', PDict (ge_diagnostics e))]))"

definition guarded :: "publish_env \<Rightarrow> string \<Rightarrow> string \<Rightarrow> ('g, 'a) effect_run \<Rightarrow> ('g, 'a) effect_run" where
  "guarded env effect_type key body w =
     (case on_process (enter_guard (pe_lock_held env) (pe_owner env effect_type) effect_type key) w of
        (Inl e, w1) \<Rightarrow> (Inl e, w1)
      | (Inr u, w1) \<Rightarrow>
          (case body w1 of
             (r, w2) \<Rightarrow> (r, w2\<lparr>w_process := leave_guard effect_type key (w_process w2)\<rparr>)))"

definition execute_github_side_effect ::
    "publish_env \<Rightarrow> string \<Rightarrow> pyval \<Rightarrow> string \<Rightarrow> string \<Rightarrow> ('g \<Rightarrow> (github_error + 'a) \<times> 'g) \<Rightarrow> ('a \<Rightarrow> string)
       \<Rightarrow> ('g, 'a) effect_run" where
  "execute_github_side_effect env item_id lease_id effect_type key call external_url =
     guarded env effect_type key
       (ebind (record_side_effect_attempt env item_id lease_id effect_type key ''in_flight'' PNone PNone) (\<lambda>_.
        ebind (call_hub call) (\<lambda>outcome.
          case outcome of
            Inl e \<Rightarrow>
              ebind (record_side_effect_attempt env item_id lease_id effect_type key ''failed'' PNone (PStr (ge_detail e))) (\<lambda>_.
              ebind (on_process save_process) (\<lambda>_. eraise (publish_error env item_id e)))
          | Inr a \<Rightarrow>
              ebind (record_side_effect_attempt env item_id lease_id effect_type key ''succeeded'' (PStr (external_url a)) PNone)
                (\<lambda>_. ereturn a))))"

section \<open>One plan\<close>

record publish_plan =
  pp_item_id :: string
  pp_thread_id :: string
  pp_reply_body :: string

definition side_effect_key :: "pydict \<Rightarrow> string \<Rightarrow> string \<Rightarrow> string" where
  "side_effect_key session item_id effect_type = session_id_of session @ '':'' @ item_id @ '':'' @ effect_type"

definition effect_state :: "publish_env \<Rightarrow> string \<Rightarrow> string \<Rightarrow> ('g, (outbox_row \<times> bool) option) effect_run" where
  "effect_state env effect_type key =
     on_process (side_effect_state (pe_lock_held env) (pe_lock_held env) effect_type key)"

definition alive :: "(outbox_row \<times> bool) option \<Rightarrow> bool" where
  "alive st = (case st of None \<Rightarrow> False | Some (r, a) \<Rightarrow> a)"

definition has_status :: "string \<Rightarrow> (outbox_row \<times> bool) option \<Rightarrow> bool" where
  "has_status status st = (case st of None \<Rightarrow> False | Some (r, a) \<Rightarrow> o_status r = status)"

definition recorded_url :: "(outbox_row \<times> bool) option \<Rightarrow> pyval \<Rightarrow> pyval" where
  "recorded_url st url =
     (case st of
        None \<Rightarrow> url
      | Some (r, a) \<Rightarrow>
          if o_status r = ''succeeded'' \<and> truthy (o_external_result_reference r)
          then PStr (py_str (o_external_result_reference r)) else url)"

text \<open>
  The reply of an interrupted attempt: adopted when the thread proves it was posted, cleared
  for a new attempt when the thread proves nothing was, and otherwise left for a person.
\<close>

definition reconcile_reply ::
    "publish_env \<Rightarrow> 'g github_client \<Rightarrow> string \<Rightarrow> publish_plan \<Rightarrow> pyval \<Rightarrow> string \<Rightarrow> ('g, pyval) effect_run" where
  "reconcile_reply env client login plan lease_id key =
     ebind (if login = [] then ereturn None
            else ebind (call_hub (gc_list_threads client)) (\<lambda>r.
                   ereturn (case r of Inl e \<Rightarrow> None | Inr rows \<Rightarrow> reconciled_reply (pp_thread_id plan) login rows))) (\<lambda>found.
       case found of
         None \<Rightarrow>
           ebind (call_hub (gc_list_threads client)) (\<lambda>r.
             if (case r of Inl e \<Rightarrow> True | Inr rows \<Rightarrow> \<not> never_replied (pp_thread_id plan) rows)
             then block_publish env (pp_item_id plan) ''PUBLISH_RECONCILE_REQUIRED''
             else ebind (on_process (reconcile_side_effect_no_effect ''github_reply'' key)) (\<lambda>_. ereturn PNone))
       | Some url \<Rightarrow>
           ebind (record_side_effect_attempt env (pp_item_id plan) lease_id ''github_reply'' key ''succeeded'' (PStr url) PNone) (\<lambda>_.
           ebind (publish_event env (pp_item_id plan) lease_id ''reply_reconciled''
             [(''thread_id'', PStr (pp_thread_id plan)), (''reply_url'', PStr url), (''idempotency_key'', PStr key)]
             (Some (pe_timestamp env))) (\<lambda>_. ereturn (PStr url))))"

definition ensure_reply ::
    "publish_env \<Rightarrow> 'g github_client \<Rightarrow> string \<Rightarrow> publish_plan \<Rightarrow> pyval \<Rightarrow> string \<Rightarrow> pyval \<Rightarrow> ('g, pyval) effect_run" where
  "ensure_reply env client login plan lease_id key url0 =
     ebind (effect_state env ''github_reply'' key) (\<lambda>st.
       let url1 = recorded_url st url0
       in if \<not> truthy url1 \<and> alive st then eraise (side_effect_in_progress ''github_reply'')
          else ebind (if \<not> truthy url1 \<and> has_status ''unknown'' st
                      then reconcile_reply env client login plan lease_id key else ereturn url1) (\<lambda>url2.
               if truthy url2 then ereturn url2
               else ebind (execute_github_side_effect env (pp_item_id plan) lease_id ''github_reply'' key
                            (gc_post_reply client (pp_thread_id plan) (pp_reply_body plan)) id) (\<lambda>url.
                    ebind (publish_event env (pp_item_id plan) lease_id ''reply_posted''
                      [(''thread_id'', PStr (pp_thread_id plan)), (''reply_url'', PStr url), (''idempotency_key'', PStr key)]
                      (Some (pe_timestamp env))) (\<lambda>_. ereturn (PStr url)))))"

fun wait_for_resolution :: "nat \<Rightarrow> 'g github_client \<Rightarrow> string \<Rightarrow> ('g, unit) effect_run" where
  "wait_for_resolution 0 client thread_id = ereturn ()"
| "wait_for_resolution (Suc n) client thread_id =
     ebind (call_hub (gc_is_thread_resolved client thread_id)) (\<lambda>r.
       case r of Inl e \<Rightarrow> ereturn () | Inr True \<Rightarrow> ereturn () | Inr False \<Rightarrow> wait_for_resolution n client thread_id)"

definition ensure_resolved ::
    "publish_env \<Rightarrow> 'g github_client \<Rightarrow> publish_plan \<Rightarrow> pyval \<Rightarrow> string \<Rightarrow> ('g, unit) effect_run" where
  "ensure_resolved env client plan lease_id key =
     ebind (effect_state env ''github_resolve'' key) (\<lambda>st.
     ebind get_session (\<lambda>session.
       if has_status ''succeeded'' st \<or> truthy (dget (item_of session (pp_item_id plan)) ''thread_resolved'') then ereturn ()
       else if alive st then eraise (side_effect_in_progress ''github_resolve'')
       else ebind (execute_github_side_effect env (pp_item_id plan) lease_id ''github_resolve'' key
                    (gc_resolve_thread client (pp_thread_id plan)) (\<lambda>_. pp_thread_id plan)) (\<lambda>_.
            ebind (publish_event env (pp_item_id plan) lease_id ''thread_resolved''
              [(''thread_id'', PStr (pp_thread_id plan)), (''idempotency_key'', PStr key)] (Some (pe_timestamp env))) (\<lambda>_.
              wait_for_resolution 2 client (pp_thread_id plan)))))"

definition reply_done :: "pyval \<Rightarrow> string \<Rightarrow> pydict \<Rightarrow> pydict" where
  "reply_done url login item =
     dset ''reply_evidence'' (PDict [(''reply_url'', url), (''author_login'', PStr login)])
       (dset ''reply_url'' url (dset ''reply_posted'' (PBool True) item))"

definition closed_item :: "string \<Rightarrow> pydict \<Rightarrow> pydict" where
  "closed_item timestamp item =
     dpop ''active_lease_id''
       (fold (\<lambda>(k, v). dset k v)
          [(''state'', PStr ''closed''), (''status'', PStr ''CLOSED''), (''blocking'', PBool False), (''handled'', PBool True),
           (''thread_resolved'', PBool True), (''handled_at'', PStr timestamp), (''claimed_by'', PNone),
           (''claimed_at'', PNone), (''lease_expires_at'', PNone)] item)"

definition execute_single_publish_plan ::
    "publish_env \<Rightarrow> 'g github_client \<Rightarrow> string \<Rightarrow> publish_plan \<Rightarrow> ('g, string) effect_run" where
  "execute_single_publish_plan env client login plan =
     ebind get_session (\<lambda>session.
       let item = item_of session (pp_item_id plan);
           lease_id = dget item ''active_lease_id'';
           url0 = (if truthy (dget item ''reply_posted'') then dget item ''reply_url'' else PNone);
           reply_key = side_effect_key session (pp_item_id plan) ''github_reply'';
           resolve_key = side_effect_key session (pp_item_id plan) ''github_resolve''
       in ebind (ensure_reply env client login plan lease_id reply_key url0) (\<lambda>url.
          ebind (update_session (set_item (pp_item_id plan) (reply_done url login))) (\<lambda>_.
          ebind (ensure_resolved env client plan lease_id resolve_key) (\<lambda>_.
          ebind (update_session (set_item (pp_item_id plan) (closed_item (pe_timestamp env)))) (\<lambda>_.
          ebind (publish_event env (pp_item_id plan) lease_id ''response_published''
            [(''thread_id'', PStr (pp_thread_id plan)), (''reply_url'', url)] (Some (pe_timestamp env))) (\<lambda>_.
            ereturn (pp_item_id plan)))))))"

section \<open>The plans of one run\<close>

definition publish_ready_items :: "pydict \<Rightarrow> (effect_error + (string \<times> pydict) list)" where
  "publish_ready_items session =
     (case dget_default session ''items'' (PDict []) of
        PDict items \<Rightarrow>
          Inr (filter (\<lambda>(i, item). dget item ''item_kind'' = PStr ''github_thread''
                                   \<and> py_lower (str_field item ''state'') = ''publish_ready'')
                 (List.map_filter (\<lambda>(i, v). map_option (Pair i) (as_dict v)) items))
      | _ \<Rightarrow> Inl (WorkflowError ''INVALID_SESSION'' ''INVALID_ITEMS_SHAPE'' []))"

definition publisher_login :: "'g github_client \<Rightarrow> string \<Rightarrow> ('g, string) effect_run" where
  "publisher_login client fallback =
     ebind (call_hub (gc_viewer_login client)) (\<lambda>r.
       let login = (case r of Inl e \<Rightarrow> [] | Inr l \<Rightarrow> py_strip l)
       in ereturn (if login = [] then fallback else login))"

definition item_binding :: "pydict \<Rightarrow> pyval option" where
  "item_binding item = map_option (\<lambda>r. dget r ''revision_binding'') (as_dict (dget item ''accepted_response''))"

definition binding_mismatch :: "bool \<Rightarrow> pydict list \<Rightarrow> stack_context \<Rightarrow> string option" where
  "binding_mismatch was_known_stacked items current =
     (if k_availability current = ''invalid'' then Some ''STACK_CONTEXT_INVALID''
      else if k_availability current = ''unavailable'' \<and> was_known_stacked then Some ''STACK_CONTEXT_UNAVAILABLE''
      else let bindings = List.map_filter item_binding items;
               compared = (if k_availability current = ''present'' then bindings else filter is_dict bindings)
           in (case List.map_filter (\<lambda>b. compare_revision_binding b current) compared of
                 [] \<Rightarrow> None | reason # rest \<Rightarrow> Some reason))"

definition publish_refused :: "string \<Rightarrow> pydict \<Rightarrow> effect_error" where
  "publish_refused reason payload = WorkflowError ''PUBLISH_BLOCKED'' reason payload"

definition verify_publish_revision_bindings ::
    "'g github_client \<Rightarrow> (string \<times> pydict) list \<Rightarrow> ('g, unit) effect_run" where
  "verify_publish_revision_bindings client publish_items =
     ebind get_session (\<lambda>session.
     ebind (call_hub (gc_get_stack_context client)) (\<lambda>r.
       case r of
         Inl e \<Rightarrow> eraise (publish_refused ''STACK_CONTEXT_UNAVAILABLE'' [])
       | Inr current \<Rightarrow>
           ebind (update_session (\<lambda>s. cache_pull_request_context s (context_to_dict current))) (\<lambda>_.
             case binding_mismatch (has_observed_stack_membership session) (map snd publish_items) current of
               None \<Rightarrow> ereturn ()
             | Some reason \<Rightarrow>
                 eraise (publish_refused reason
                   (if reason \<in> {''STACK_CONTEXT_INVALID'', ''STACK_CONTEXT_UNAVAILABLE''}
                    then stack_diagnostic_payload (Some current) else [])))))"

text \<open>
  The two reads run side by side in the code and neither sees the other; here they run one
  after the other. The errors come back as values, unless the process dies.
\<close>

definition gather_reads :: "('g, 'a) effect_run \<Rightarrow> ('g, 'b) effect_run \<Rightarrow> ('g, (effect_error + 'a) \<times> (effect_error + 'b)) effect_run" where
  "gather_reads m n w =
     (case m w of
        (Inl ProcessDied, w1) \<Rightarrow> (Inl ProcessDied, w1)
      | (r1, w1) \<Rightarrow>
          (case n w1 of
             (Inl ProcessDied, w2) \<Rightarrow> (Inl ProcessDied, w2)
           | (r2, w2) \<Rightarrow> (Inr (r1, r2), w2)))"

definition unwrap :: "effect_error + 'a \<Rightarrow> ('g, 'a) effect_run" where
  "unwrap r w = (r, w)"

definition default_commit_hash_for_publish :: "publish_env \<Rightarrow> pydict \<Rightarrow> string" where
  "default_commit_hash_for_publish env session =
     text_or (commit_hash_from_evidence (dget session ''commit_evidence'')) (pe_head_commit env)"

definition fallback_remediation :: "publish_env \<Rightarrow> pydict \<Rightarrow> pydict" where
  "fallback_remediation env session =
     (let head_ref = dget (as_mapping (dget (project_context_summary session None) ''pull_request'')) ''head_ref'';
          branch = (if truthy head_ref then ''`'' @ py_str head_ref @ ''`''
                    else ''the pull request'' @ [char_of (39::nat)] @ ''s head branch'')
      in [(''summary'', PStr (''The local HEAD fallback is not a commit of this pull request. Push the fix, check out ''
             @ branch @ '' at the pushed commit, then rerun publish.'')),
          (''command'', PStr (tmpl_publish (pe_repo env) (pe_pr_number env)))])"

definition require_fallback_commit_in_pr ::
    "publish_env \<Rightarrow> 'g github_client \<Rightarrow> string \<Rightarrow> string \<Rightarrow> ('g, unit) effect_run" where
  "require_fallback_commit_in_pr env client item_id commit =
     (if commit = [] then ereturn ()
      else ebind (call_hub (gc_list_pr_commit_shas client)) (\<lambda>r.
        case r of
          Inl e \<Rightarrow> eraise (GitHubRaised e)
        | Inr shas \<Rightarrow>
            if commit_in_pr commit shas then ereturn ()
            else ebind get_session (\<lambda>session.
                 ebind (record_publish_blocked env item_id ''COMMIT_NOT_IN_PR'') (\<lambda>_.
                   eraise (publish_refused ''COMMIT_NOT_IN_PR''
                     [(''item_id'', PStr item_id), (''remediation'', PDict (fallback_remediation env session))])))))"

text \<open>The fallback commit is looked up and checked once, at the first item that needs it.\<close>

definition fallback_for ::
    "publish_env \<Rightarrow> 'g github_client \<Rightarrow> string \<Rightarrow> string option \<Rightarrow> ('g, string) effect_run" where
  "fallback_for env client item_id default_commit =
     (case default_commit of
        Some c \<Rightarrow> ereturn c
      | None \<Rightarrow>
          ebind get_session (\<lambda>session.
            let c = default_commit_hash_for_publish env session
            in ebind (require_fallback_commit_in_pr env client item_id c) (\<lambda>_. ereturn c)))"

fun build_publish_plans ::
    "publish_env \<Rightarrow> 'g github_client \<Rightarrow> string option \<Rightarrow> (string \<times> pydict) list \<Rightarrow> ('g, publish_plan list) effect_run" where
  "build_publish_plans env client default_commit [] = ereturn []"
| "build_publish_plans env client default_commit ((item_id, item) # rest) =
     (case dget item ''accepted_response'' of
        PDict response \<Rightarrow>
          (let thread_id = github_thread_id item_id item
           in if thread_id = [] then block_publish env item_id ''MISSING_THREAD_ID''
              else ebind (if needs_default_commit item response
                          then ebind (fallback_for env client item_id default_commit) (\<lambda>c. ereturn (c, Some c))
                          else ereturn ([], default_commit)) (\<lambda>(commit, default_commit').
                   case publish_reply_body item (hydrate_publish_response item response commit) of
                     Inl e \<Rightarrow> block_publish env item_id (text_or e ''MISSING_PUBLISH_REPLY'')
                   | Inr body \<Rightarrow>
                       if body = [] then block_publish env item_id ''MISSING_PUBLISH_REPLY''
                       else ebind (build_publish_plans env client default_commit' rest) (\<lambda>plans.
                         ereturn (\<lparr>pp_item_id = item_id, pp_thread_id = thread_id, pp_reply_body = body\<rparr> # plans))))
      | _ \<Rightarrow> block_publish env item_id ''MISSING_ACCEPTED_RESPONSE'')"

fun execute_publish_plans ::
    "publish_env \<Rightarrow> 'g github_client \<Rightarrow> string \<Rightarrow> publish_plan list \<Rightarrow> ('g, string list) effect_run" where
  "execute_publish_plans env client login [] = ereturn []"
| "execute_publish_plans env client login (plan # plans) =
     ebind (execute_single_publish_plan env client login plan) (\<lambda>i.
     ebind (execute_publish_plans env client login plans) (\<lambda>is. ereturn (i # is)))"

definition publish_outcome :: "publish_env \<Rightarrow> string \<Rightarrow> string list \<Rightarrow> pydict" where
  "publish_outcome env status published =
     [(''status'', PStr status), (''repo'', PStr (pe_repo env)), (''pr_number'', PStr (pe_pr_number env)),
      (''published_count'', PInt (int (length published)))]
     @ (if status = ''PUBLISH_COMPLETE'' then [(''published_items'', PList (map PStr published))] else [])"

definition publish_once :: "publish_env \<Rightarrow> 'g github_client \<Rightarrow> ('g, pydict) effect_run" where
  "publish_once env client =
     ebind (on_process (load_process env)) (\<lambda>_.
     ebind get_session (\<lambda>session.
     ebind (unwrap (publish_ready_items session)) (\<lambda>publish_items.
       if publish_items = [] then ereturn (publish_outcome env ''NO_PUBLISH_READY_ITEMS'' [])
       else ebind (gather_reads (verify_publish_revision_bindings client publish_items)
                    (publisher_login client (pe_agent_id env))) (\<lambda>(stack_outcome, login_outcome).
            ebind (unwrap stack_outcome) (\<lambda>_.
            ebind (unwrap login_outcome) (\<lambda>login.
            ebind (build_publish_plans env client None publish_items) (\<lambda>plans.
            ebind (execute_publish_plans env client login plans) (\<lambda>published.
            ebind (on_process save_process) (\<lambda>_.
              ereturn (publish_outcome env ''PUBLISH_COMPLETE'' published)))))))))) "

definition publish_github_thread_responses :: "publish_env \<Rightarrow> 'g github_client \<Rightarrow> ('g, pydict) effect_run" where
  "publish_github_thread_responses env client =
     retry_on_stale_revision STALE_REVISION_ATTEMPTS (publish_once env client)"

text \<open>
  \<open>publish_outcome_status\<close> of \<open>core/utils.py\<close>: whether publishing covered every item of a call.
\<close>

definition publish_outcome_status :: "string \<Rightarrow> bool \<Rightarrow> pyval \<Rightarrow> string list \<Rightarrow> string" where
  "publish_outcome_status prefix publish published item_ids =
     (let posted = (case nested_get published ''published_items'' of PList xs \<Rightarrow> map py_str xs | _ \<Rightarrow> [])
      in if \<not> publish \<or> posted = [] \<or> item_ids = [] \<or> \<not> set item_ids \<subseteq> set posted
         then prefix @ ''_ACCEPTED'' else prefix @ ''_COMPLETE'')"

end
