(* ===== verification/Publish_Contract.thy ===== *)
theory Publish_Contract
  imports Publishing Store_Properties
begin

text \<open>
  What the outbox guarantees a publisher about one reply. Every row is named after its effect
  and key and carries their retry boundary; a command is \<open>unsent\<close> while its row is missing,
  planned or failed; and an operation is \<open>calm\<close> for a reply when it keeps the rows named and
  never makes the reply unsent again. Recording a failure of the reply itself is the only
  operation that is not calm.
\<close>

section \<open>Rows\<close>

definition named_row :: "outbox_row \<Rightarrow> bool" where
  "named_row r \<longleftrightarrow> o_command_id r = outbox_command_id (o_effect_type r) (o_idempotency_key r)
     \<and> o_retry_boundary r = PStr (retry_boundary_for (o_effect_type r))"

definition rows_named :: "outbox_row list \<Rightarrow> bool" where
  "rows_named rs \<longleftrightarrow> outbox_ok rs \<and> (\<forall>r \<in> set rs. named_row r)"

definition unsent :: "string \<Rightarrow> runtime_store \<Rightarrow> bool" where
  "unsent key s \<longleftrightarrow>
     (case outbox_command ''github_reply'' key s of None \<Rightarrow> True | Some r \<Rightarrow> o_status r \<in> {''planned'', ''failed''})"

definition planned_at :: "string \<Rightarrow> string \<Rightarrow> runtime_store \<Rightarrow> bool" where
  "planned_at e k s \<longleftrightarrow> outbox_command e k s \<noteq> None"

definition calm :: "string \<Rightarrow> runtime_store \<Rightarrow> runtime_store \<Rightarrow> bool" where
  "calm key s s' \<longleftrightarrow> (rows_named (st_outbox s) \<longrightarrow>
     rows_named (st_outbox s') \<and> (unsent key s' \<longrightarrow> unsent key s) \<and> (\<forall>e k. planned_at e k s \<longrightarrow> planned_at e k s'))"

lemma calm_refl [simp]: "calm key s s"
  by (simp add: calm_def)

lemma calm_trans: "calm key a b \<Longrightarrow> calm key b c \<Longrightarrow> calm key a c"
  by (simp add: calm_def)

lemma calm_same_rows: "st_outbox s' = st_outbox s \<Longrightarrow> calm key s s'"
  by (simp add: calm_def unsent_def planned_at_def outbox_command_def)

lemma find_map_same: "(\<And>r. r \<in> set rs \<Longrightarrow> P (f r) = P r) \<Longrightarrow> find P (map f rs) = map_option f (find P rs)"
  by (induction rs) auto

lemma outbox_command_map:
  assumes "st_outbox s' = map f (st_outbox s)" "\<And>r. r \<in> set (st_outbox s) \<Longrightarrow> row_step r (f r)"
  shows "outbox_command e k s' = map_option f (outbox_command e k s)"
  unfolding outbox_command_def assms(1) using assms(2) step_identity by (intro find_map_same) metis

lemma outbox_command_member:
  "outbox_command e k s = Some r \<Longrightarrow> r \<in> set (st_outbox s) \<and> o_effect_type r = e \<and> o_idempotency_key r = k"
  by (auto simp: outbox_command_def find_Some_iff)

lemma rows_named_map:
  assumes "rows_named rs" "\<And>r. r \<in> set rs \<Longrightarrow> row_step r (f r)"
  shows "rows_named (map f rs)"
proof -
  have "named_row (f r)" if "r \<in> set rs" for r
    using assms(1) step_identity [OF assms(2) [OF that]] that by (simp add: rows_named_def named_row_def)
  then show ?thesis using outbox_ok_map [of rs f] assms by (auto simp: rows_named_def)
qed

lemma calm_map:
  assumes "st_outbox s' = map f (st_outbox s)" "\<And>r. r \<in> set (st_outbox s) \<Longrightarrow> row_step r (f r)"
    and "\<And>r. rows_named (st_outbox s) \<Longrightarrow> outbox_command ''github_reply'' key s = Some r \<Longrightarrow>
           o_status (f r) \<in> {''planned'', ''failed''} \<Longrightarrow> o_status r \<in> {''planned'', ''failed''}"
  shows "calm key s s'"
proof -
  note c = outbox_command_map [OF assms(1,2)]
  show ?thesis unfolding calm_def
  proof (intro impI conjI)
    assume n: "rows_named (st_outbox s)"
    then show "rows_named (st_outbox s')" unfolding assms(1) using assms(2) by (rule rows_named_map)
    show "unsent key s" if "unsent key s'"
      using that assms(3) [OF n] by (simp add: unsent_def c split: option.splits)
    show "\<forall>e k. planned_at e k s \<longrightarrow> planned_at e k s'" by (simp add: planned_at_def c)
  qed
qed

section \<open>Store operations\<close>

lemma transact_rows_kept: "st_outbox (snd (transact m expected ev [] s)) = st_outbox s"
  by (auto simp: transact_def atomically_def commit_transaction_def sum_bind_def Let_def split: sum.splits option.splits prod.splits if_splits
      dest!: write_session_frame write_evidence_frame)

lemma replace_rows_kept: "st_outbox (snd (replace_session p expected ev [] s)) = st_outbox s"
  by (auto simp: replace_session_def atomically_def commit_transaction_def sum_bind_def Let_def split: sum.splits option.splits prod.splits if_splits
      dest!: write_session_frame write_evidence_frame)

lemma transact_one_row:
  assumes "transact m expected ev [c] s = (Inr t, s')"
  shows "\<exists>sid n. st_outbox s' = st_outbox s @ [new_outbox_row sid n c]
    \<and> \<not> list_ex (outbox_clash (new_outbox_row sid n c)) (st_outbox s)"
  using assms
  by (auto simp: transact_def atomically_def commit_transaction_def write_outbox_command_def sum_bind_def Let_def
      split: sum.splits option.splits prod.splits if_splits dest!: write_session_frame write_evidence_frame) blast

lemma calm_new_row:
  assumes "st_outbox s' = st_outbox s @ [r]" "\<not> list_ex (outbox_clash r) (st_outbox s)" "named_row r" "o_status r = ''planned''"
  shows "calm key s s' \<and> planned_at (o_effect_type r) (o_idempotency_key r) s'"
proof -
  have f: "find P (rs @ [r]) = (case find P rs of None \<Rightarrow> (if P r then Some r else None) | Some x \<Rightarrow> Some x)" for P rs
    by (induction rs) auto
  have c: "outbox_command e k s' = (case outbox_command e k s of
      None \<Rightarrow> (if o_effect_type r = e \<and> o_idempotency_key r = k then Some r else None) | Some x \<Rightarrow> Some x)" for e k
    by (simp add: outbox_command_def assms(1) f)
  have "rows_named (st_outbox s')" if "rows_named (st_outbox s)"
    using that outbox_ok_snoc [OF _ assms(2,4)] assms(3) by (simp add: rows_named_def assms(1))
  moreover have "unsent key s' \<longrightarrow> unsent key s" by (simp add: unsent_def c split: option.split)
  moreover have "planned_at e k s \<longrightarrow> planned_at e k s'" for e k by (simp add: planned_at_def c split: option.split)
  ultimately show ?thesis by (simp add: calm_def planned_at_def c split: option.split)
qed

lemma mark_rows:
  "mark_outbox_in_flight cid owner now ev s = (Inr c, s') \<Longrightarrow>
     rowcount (may_enter_flight cid) s = 1
     \<and> st_outbox s' = map (\<lambda>r. if may_enter_flight cid r then enter_flight owner now r else r) (st_outbox s)"
  by (auto simp: mark_outbox_in_flight_def atomically_def commit_rows_def sum_bind_def update_rows_def
      split: sum.splits if_splits dest!: write_evidence_frame)

lemma record_rows:
  "record_outbox_result cid status ev ref err owner s = (Inr c, s') \<Longrightarrow>
     status \<in> {''succeeded'', ''failed''} \<and> (status = ''succeeded'' \<longrightarrow> truthy ref)
     \<and> st_outbox s' = map (\<lambda>r. if may_record cid owner r then record_result status err ref r else r) (st_outbox s)"
  by (auto simp: record_outbox_result_def atomically_def commit_rows_def sum_bind_def update_rows_def
      split: sum.splits if_splits dest!: write_evidence_frame)

lemma mark_step: "row_step r (if may_enter_flight cid r then enter_flight owner now r else r)"
  by (auto simp: row_step_def may_enter_flight_def intro: outbox_edge.start)

lemma record_step:
  "status \<in> {''succeeded'', ''failed''} \<Longrightarrow> (status = ''succeeded'' \<longrightarrow> truthy ref) \<Longrightarrow>
     row_step r (if may_record cid owner r then record_result status err ref r else r)"
  by (auto simp: row_step_def may_record_def intro!: outbox_edge.result)

lemma mark_calm: "calm key s (snd (mark_outbox_in_flight cid owner now ev s))"
proof (cases "mark_outbox_in_flight cid owner now ev s")
  case (Pair r s')
  show ?thesis
  proof (cases r)
    case (Inl e)
    then show ?thesis using mark.undone [of cid owner now ev s] Pair by simp
  next
    case (Inr c)
    note m = mark_rows [OF Pair [unfolded Inr]]
    have "calm key s s'"
      by (rule calm_map [OF conjunct2 [OF m] mark_step]) (auto simp: enter_flight_def split: if_splits)
    then show ?thesis using Pair by simp
  qed
qed

lemma demote_calm: "calm key s (snd (demote_dead dead s))"
proof (cases "rowcount (demoted_by dead) s = 0")
  case False
  have "calm key s ((update_rows (demoted_by dead) demote_row s)\<lparr>st_revision := Suc (st_revision s)\<rparr>)"
    by (rule calm_map [where f = "\<lambda>r. if demoted_by dead r then demote_row r else r"])
       (auto simp: update_rows_def row_step_def demoted_by_def demote_row_def split: if_splits intro: outbox_edge.demote [unfolded demote_row_def])
  then show ?thesis using False by (simp add: demote_dead_def)
qed (simp add: demote_dead_def)

text \<open>A result never makes the reply unsent, unless it is the failure of that reply.\<close>

lemma record_calm:
  assumes "status = ''succeeded'' \<or> (planned_at e k s \<and> (e, k) \<noteq> (''github_reply'', key))"
  shows "calm key s (snd (record_outbox_result (outbox_command_id e k) status ev ref err owner s))"
proof (cases "record_outbox_result (outbox_command_id e k) status ev ref err owner s")
  case (Pair r s')
  show ?thesis
  proof (cases r)
    case (Inl x)
    then show ?thesis using outcome.undone [of "outbox_command_id e k" status ev ref err owner s] Pair by simp
  next
    case (Inr c)
    note m = record_rows [OF Pair [unfolded Inr]]
    have "calm key s s'"
    proof (rule calm_map [OF _ record_step [of status ref]])
      show "st_outbox s' = map (\<lambda>r. if may_record (outbox_command_id e k) owner r then record_result status err ref r else r) (st_outbox s)"
        "status \<in> {''succeeded'', ''failed''}" "status = ''succeeded'' \<longrightarrow> truthy ref" using m by blast+
      fix r
      assume n: "rows_named (st_outbox s)" and r: "outbox_command ''github_reply'' key s = Some r"
        and f: "o_status (if may_record (outbox_command_id e k) owner r then record_result status err ref r else r) \<in> {''planned'', ''failed''}"
      show "o_status r \<in> {''planned'', ''failed''}"
      proof (cases "may_record (outbox_command_id e k) owner r")
        case True
        then have "status \<noteq> ''succeeded''" using f by (auto simp: record_result_def)
        with assms obtain r' where r': "outbox_command e k s = Some r'" "(e, k) \<noteq> (''github_reply'', key)"
          by (auto simp: planned_at_def)
        note mem = outbox_command_member [OF r] outbox_command_member [OF r'(1)]
        have "o_command_id r' = outbox_command_id e k" using n mem by (auto simp: rows_named_def named_row_def)
        with True have "o_command_id r = o_command_id r'" by (simp add: may_record_def)
        then have "r = r'" using n mem by (auto simp: rows_named_def intro: command_unique)
        with mem r'(2) show ?thesis by auto
      qed (use f in simp)
    qed
    then show ?thesis using Pair by simp
  qed
qed

lemma record_named: "rows_named (st_outbox s) \<Longrightarrow> rows_named (st_outbox (snd (record_outbox_result cid status ev ref err owner s)))"
proof (cases "record_outbox_result cid status ev ref err owner s")
  case (Pair r s')
  assume n: "rows_named (st_outbox s)"
  show ?thesis
  proof (cases r)
    case (Inl x)
    then show ?thesis using outcome.undone [of cid status ev ref err owner s] Pair n by simp
  next
    case (Inr c)
    note m = record_rows [OF Pair [unfolded Inr]]
    show ?thesis using m Pair rows_named_map [OF n record_step [of status ref]] by simp
  qed
qed

lemma mark_sends:
  assumes "rows_named (st_outbox s)" "planned_at ''github_reply'' key s"
    "mark_outbox_in_flight (outbox_command_id ''github_reply'' key) owner now ev s = (Inr c, s')"
  shows "unsent key s \<and> \<not> unsent key s'"
proof -
  note m = mark_rows [OF assms(3)]
  obtain r where r: "outbox_command ''github_reply'' key s = Some r" using assms(2) by (auto simp: planned_at_def)
  note mem = outbox_command_member [OF r]
  have id: "o_command_id r = outbox_command_id ''github_reply'' key" "o_retry_boundary r = PStr ''reconcile_only''"
    using assms(1) mem by (auto simp: rows_named_def named_row_def retry_boundary_for_def)
  have "filter (may_enter_flight (outbox_command_id ''github_reply'' key)) (st_outbox s) \<noteq> []"
    using m by (auto simp: rowcount_def)
  then obtain r' where r': "r' \<in> set (st_outbox s)" "may_enter_flight (outbox_command_id ''github_reply'' key) r'"
    by (auto simp: filter_empty_conv)
  then have "r' = r" using assms(1) mem id by (intro command_unique) (auto simp: rows_named_def may_enter_flight_def)
  with r' have e: "may_enter_flight (outbox_command_id ''github_reply'' key) r" by simp
  then have "unsent key s" using id r by (auto simp: unsent_def may_enter_flight_def)
  moreover have "\<not> unsent key s'"
    using outbox_command_map [OF conjunct2 [OF m] mark_step, of "''github_reply''" key] r e
    by (simp add: unsent_def enter_flight_def)
  ultimately show ?thesis ..
qed

section \<open>Operations of the process\<close>

definition same_id :: "process \<Rightarrow> process \<Rightarrow> bool" where
  "same_id x x' \<longleftrightarrow> dget (px_session x') ''session_id'' = dget (px_session x) ''session_id''"

definition calm_p :: "string \<Rightarrow> process \<Rightarrow> process \<Rightarrow> bool" where
  "calm_p key x x' \<longleftrightarrow> calm key (px_store x) (px_store x') \<and> same_id x x'"

lemma calm_p_refl [simp]: "calm_p key x x"
  by (simp add: calm_p_def same_id_def)

lemma calm_p_trans: "calm_p key a b \<Longrightarrow> calm_p key b c \<Longrightarrow> calm_p key a c"
  by (auto simp: calm_p_def same_id_def intro: calm_trans)

lemma dget_dset_other [simp]: "k \<noteq> k' \<Longrightarrow> dget (dset k' v d) k = dget d k"
  by (simp add: dget_def dset_def update_conv')

lemma advance_token_id: "dget (advance_token c p) ''session_id'' = dget p ''session_id''"
  by (simp add: advance_token_def split: option.split pyval.split)

lemma commit_store_same_id: "same_id x (snd (commit_store op f x))"
  by (auto simp: commit_store_def same_id_def tick_def advance_token_id split: prod.splits sum.splits)

lemma commit_store_calm:
  "calm key (px_store x) (snd (op (px_store x))) \<Longrightarrow> calm_p key x (snd (commit_store op f x))"
  using commit_store_same_id [of x op f]
  by (auto simp: commit_store_def calm_p_def same_id_def tick_def split: prod.splits sum.splits)

lemma commit_store_Inr:
  "commit_store op f x = (Inr u, x') \<Longrightarrow> \<exists>a. op (px_store x) = (Inr a, px_store x')"
  by (auto simp: commit_store_def split: if_splits prod.splits sum.splits)

definition well_named :: "side_effect_attempt \<Rightarrow> string \<Rightarrow> bool" where
  "well_named a cid \<longleftrightarrow> cid = outbox_command_id (sa_side_effect_type a) (sa_idempotency_key a)"

lemma plan_row_named:
  "well_named a cid \<Longrightarrow> named_row (new_outbox_row sid n (outbox_command_of a cid))
     \<and> o_effect_type (new_outbox_row sid n (outbox_command_of a cid)) = sa_side_effect_type a
     \<and> o_idempotency_key (new_outbox_row sid n (outbox_command_of a cid)) = sa_idempotency_key a
     \<and> o_status (new_outbox_row sid n (outbox_command_of a cid)) = ''planned''"
  by (simp add: named_row_def new_outbox_row_def outbox_command_of_def well_named_def)

lemma plan_transact:
  assumes "well_named a cid"
  shows "calm key s (snd (transact m expected ev [outbox_command_of a cid] s))
    \<and> (\<forall>t s'. transact m expected ev [outbox_command_of a cid] s = (Inr t, s') \<longrightarrow>
         planned_at (sa_side_effect_type a) (sa_idempotency_key a) s')"
proof (cases "transact m expected ev [outbox_command_of a cid] s")
  case (Pair r s')
  show ?thesis
  proof (cases r)
    case (Inl e)
    then show ?thesis using transact.undone [of m expected ev "[outbox_command_of a cid]" s] Pair by simp
  next
    case (Inr t)
    obtain sid n where n: "st_outbox s' = st_outbox s @ [new_outbox_row sid n (outbox_command_of a cid)]"
      "\<not> list_ex (outbox_clash (new_outbox_row sid n (outbox_command_of a cid))) (st_outbox s)"
      using transact_one_row [OF Pair [unfolded Inr]] by blast
    show ?thesis
      using calm_new_row [OF n] plan_row_named [OF assms] Pair Inr by simp
  qed
qed

lemma plan_effect_calm:
  assumes "well_named a cid"
  shows "calm_p key x (snd (plan_effect a cid g x))
    \<and> (\<forall>u x'. plan_effect a cid g x = (Inr u, x') \<longrightarrow> planned_at (sa_side_effect_type a) (sa_idempotency_key a) (px_store x'))"
  unfolding plan_effect_def
proof (intro conjI allI impI)
  show "calm_p key x (snd (commit_store (transact (\<lambda>current. Inr ((), current)) (if g then guard_token (px_session x) else None) []
        [outbox_command_of a cid]) transaction_commit x))"
    by (intro commit_store_calm conjunct1 [OF plan_transact [OF assms]])
qed (use plan_transact [OF assms] in \<open>blast dest: commit_store_Inr\<close>)

lemma mark_effect_calm: "calm_p key x (snd (mark_effect now cid owner ev x))"
  unfolding mark_effect_def by (intro commit_store_calm mark_calm)

lemma and_then_calm:
  assumes "calm_p key x (snd r)" "\<And>u y. r = (Inr u, y) \<Longrightarrow> calm_p key y (snd (f y))"
  shows "calm_p key x (snd (and_then r f))"
  using assms by (cases r) (auto simp: and_then_def split: sum.splits intro: calm_p_trans)

lemma find_command_planned: "find_command a x \<noteq> None \<longleftrightarrow> planned_at (sa_side_effect_type a) (sa_idempotency_key a) (px_store x)"
  by (simp add: find_command_def planned_at_def)

lemma begin_attempt_calm:
  assumes "well_named a cid"
  shows "calm_p key x (snd (begin_attempt now a records cid owner x))"
  using plan_effect_calm [OF assms]
  by (auto simp: begin_attempt_def mark_effect_calm split: option.split intro!: and_then_calm)

lemma begin_attempt_sends:
  assumes "well_named a cid" "sa_side_effect_type a = ''github_reply''" "sa_idempotency_key a = key"
    and "rows_named (st_outbox (px_store x))" "begin_attempt now a records cid owner x = (Inr u, x')"
  shows "unsent key (px_store x) \<and> \<not> unsent key (px_store x')"
proof -
  obtain y where y: "calm_p key x y" "planned_at ''github_reply'' key (px_store y)" "mark_effect now cid (Some owner) records y = (Inr u, x')"
    "rows_named (st_outbox (px_store y))"
  proof (cases "find_command a x")
    case None
    then obtain u' y where p: "plan_effect a cid True x = (Inr u', y)" and m: "mark_effect now cid (Some owner) records y = (Inr u, x')"
      using assms(5) by (auto simp: begin_attempt_def and_then_def split: prod.splits sum.splits)
    have "calm_p key x y" "planned_at ''github_reply'' key (px_store y)"
      using plan_effect_calm [OF assms(1), of key x True] p assms(2,3) by auto
    with m that show ?thesis using assms(4) by (auto simp: calm_p_def calm_def)
  next
    case (Some r)
    then have "planned_at ''github_reply'' key (px_store x)" using find_command_planned [of a x] assms(2,3) by simp
    with Some that [of x] show ?thesis using assms(4,5) by (auto simp: begin_attempt_def split: if_splits)
  qed
  obtain c where "mark_outbox_in_flight cid (Some owner) now records (px_store y) = (Inr c, px_store x')"
    using y(3) unfolding mark_effect_def by (auto dest!: commit_store_Inr)
  then have "unsent key (px_store y) \<and> \<not> unsent key (px_store x')"
    using mark_sends [OF y(4,2)] assms(1,2,3) by (simp add: well_named_def)
  then show ?thesis using y(1,4) assms(4) by (auto simp: calm_p_def calm_def)
qed

lemma record_effect_calm:
  assumes "status = ''succeeded'' \<or> (planned_at e k (px_store x) \<and> (e, k) \<noteq> (''github_reply'', key))"
  shows "calm_p key x (snd (commit_store (record_outbox_result (outbox_command_id e k) status ev ref err owner) f x))"
  by (intro commit_store_calm record_calm assms)

text \<open>The start of \<open>finish_attempt\<close>: afterwards the command has a row, and nothing was reset.\<close>

definition ensure_marked :: "string \<Rightarrow> side_effect_attempt \<Rightarrow> string \<Rightarrow> string option \<Rightarrow> process \<Rightarrow> (effect_error + unit) \<times> process" where
  "ensure_marked now a cid owner x =
     and_then (case find_command a x of None \<Rightarrow> plan_effect a cid False x | Some r \<Rightarrow> (Inr (), x))
       (\<lambda>x1. if (case find_command a x of None \<Rightarrow> True | Some r \<Rightarrow> o_status r = ''planned'')
              then mark_effect now cid owner [] x1 else (Inr (), x1))"

lemma finish_attempt_split:
  "finish_attempt now a records cid owner x =
     and_then (ensure_marked now a cid owner x)
       (commit_store (record_outbox_result cid (sa_status a) records (sa_external_url a)
         (if sa_status a = ''failed'' then Some ''external_error'' else None) owner) Some)"
  by (simp add: finish_attempt_def ensure_marked_def and_then_def Let_def split: prod.splits sum.splits option.splits)

lemma ensure_marked_calm:
  assumes "well_named a cid"
  shows "calm_p key x (snd (ensure_marked now a cid owner x))"
  using plan_effect_calm [OF assms]
  by (auto simp: ensure_marked_def mark_effect_calm split: option.split intro!: and_then_calm)

lemma planned_kept: "calm_p key x y \<Longrightarrow> rows_named (st_outbox (px_store x)) \<Longrightarrow> planned_at e k (px_store x) \<Longrightarrow> planned_at e k (px_store y)"
  by (simp add: calm_p_def calm_def)

lemma ensure_marked_planned:
  assumes "well_named a cid" "rows_named (st_outbox (px_store x))" "ensure_marked now a cid owner x = (Inr u, y)"
  shows "planned_at (sa_side_effect_type a) (sa_idempotency_key a) (px_store y)"
proof -
  obtain z where z: "calm_p [] x z" "planned_at (sa_side_effect_type a) (sa_idempotency_key a) (px_store z)"
    "y = z \<or> (\<exists>u. mark_effect now cid owner [] z = (Inr u, y))"
  proof (cases "find_command a x")
    case None
    then obtain u' z where p: "plan_effect a cid False x = (Inr u', z)" "mark_effect now cid owner [] z = (Inr u, y)"
      using assms(3) by (auto simp: ensure_marked_def and_then_def split: prod.splits sum.splits)
    with plan_effect_calm [OF assms(1), of "[]" x False] that [of z] show ?thesis by auto
  next
    case (Some r)
    then have "planned_at (sa_side_effect_type a) (sa_idempotency_key a) (px_store x)" using find_command_planned [of a x] by simp
    moreover have "y = x \<or> (\<exists>u. mark_effect now cid owner [] x = (Inr u, y))"
      using Some assms(3) by (auto simp: ensure_marked_def and_then_def split: if_splits)
    ultimately show ?thesis using that [of x] by simp
  qed
  have n: "rows_named (st_outbox (px_store z))" using z(1) assms(2) by (simp add: calm_p_def calm_def)
  show ?thesis
    using z(2,3) planned_kept [OF _ n] mark_effect_calm [of "[]" z now cid owner "[]"] by (auto split: prod.splits)
qed

lemma finish_attempt_calm:
  assumes "well_named a cid" "rows_named (st_outbox (px_store x))"
    and "sa_status a = ''succeeded'' \<or> (sa_side_effect_type a, sa_idempotency_key a) \<noteq> (''github_reply'', key)"
  shows "calm_p key x (snd (finish_attempt now a records cid owner x))"
  unfolding finish_attempt_split
proof (intro and_then_calm ensure_marked_calm assms(1))
  fix u y
  assume "ensure_marked now a cid owner x = (Inr u, y)"
  note p = ensure_marked_planned [OF assms(1,2) this]
  show "calm_p key y (snd (commit_store (record_outbox_result cid (sa_status a) records (sa_external_url a)
         (if sa_status a = ''failed'' then Some ''external_error'' else None) owner) Some y))"
    using assms(1,3) p unfolding well_named_def by (auto intro!: record_effect_calm)
qed

text \<open>The failure of the reply itself keeps the rows named, and no more.\<close>

definition keeps_names :: "process \<Rightarrow> process \<Rightarrow> bool" where
  "keeps_names x x' \<longleftrightarrow> (rows_named (st_outbox (px_store x)) \<longrightarrow> rows_named (st_outbox (px_store x'))) \<and> same_id x x'"

lemma calm_names: "calm_p key x y \<Longrightarrow> keeps_names x y"
  by (simp add: calm_p_def calm_def keeps_names_def)

lemma keeps_names_trans: "keeps_names a b \<Longrightarrow> keeps_names b c \<Longrightarrow> keeps_names a c"
  by (simp add: keeps_names_def same_id_def)

lemma record_effect_names:
  "keeps_names x (snd (commit_store (record_outbox_result cid status ev ref err owner) f x))"
  using commit_store_same_id [of x "record_outbox_result cid status ev ref err owner" f]
    record_named [of "px_store x" cid status ev ref err owner]
  by (auto simp: commit_store_def keeps_names_def same_id_def tick_def split: prod.splits sum.splits)

lemma finish_attempt_names:
  assumes "well_named a cid"
  shows "keeps_names x (snd (finish_attempt now a records cid owner x))"
  unfolding finish_attempt_split
proof (cases "ensure_marked now a cid owner x")
  case (Pair r y)
  have "keeps_names x y" using calm_names [OF ensure_marked_calm [OF assms]] Pair by (metis snd_conv)
  then show "keeps_names x (snd (and_then (ensure_marked now a cid owner x)
       (commit_store (record_outbox_result cid (sa_status a) records (sa_external_url a)
         (if sa_status a = ''failed'' then Some ''external_error'' else None) owner) Some)))"
    using Pair record_effect_names by (auto simp: and_then_def split: sum.splits intro: keeps_names_trans)
qed

section \<open>Attempts as the publisher persists them\<close>

definition attempt_of :: "publish_env \<Rightarrow> pydict \<Rightarrow> string \<Rightarrow> string \<Rightarrow> string \<Rightarrow> string \<Rightarrow> pyval \<Rightarrow> pyval \<Rightarrow> side_effect_attempt" where
  "attempt_of env session item_id e k status url err =
     new_side_effect_attempt (pe_now env) (session_id_of session) item_id e k status 0 PNone err url (Some (pe_timestamp env))"

lemma attempt_of_simps [simp]:
  "sa_side_effect_type (attempt_of env session i e k status url err) = e"
  "sa_idempotency_key (attempt_of env session i e k status url err) = k"
  "sa_status (attempt_of env session i e k status url err) = status"
  by (simp_all add: attempt_of_def new_side_effect_attempt_def)

definition attempt_entry :: "publish_env \<Rightarrow> pydict \<Rightarrow> string \<Rightarrow> pyval \<Rightarrow> string \<Rightarrow> string \<Rightarrow> string \<Rightarrow> pyval \<Rightarrow> pyval \<Rightarrow> pydict" where
  "attempt_entry env session i lease e k status url err =
     record_to_json (side_effect_record (pe_now env) (attempt_of env session i e k status url err) lease (pe_agent_id env)
       ''publisher'' (Some (pe_timestamp env)))"

lemma attempt_entry_decodes:
  "sum_bind (py_dict (py_or (dget (attempt_entry env session i lease e k status url err) ''payload'') (PDict []))) attempt_from_json
   = Inr (attempt_of env session i e k status url err)"
proof -
  let ?a = "attempt_of env session i e k status url err"
  have "dget (attempt_entry env session i lease e k status url err) ''payload'' = PDict (attempt_to_json ?a)"
    by (simp add: attempt_entry_def record_to_json_def side_effect_record_def new_evidence_record_def Let_def)
  moreover have "py_dict (py_or (PDict d) (PDict [])) = Inr d" for d by (simp add: py_or_def py_dict_def)
  ultimately show ?thesis using attempt_roundtrip_aux [of ?a] by simp
qed

lemma persist_attempt:
  "persist_side_effect_attempt now [attempt_entry env session i lease e k status url err] x =
     (let a = attempt_of env session i e k status url err; cid = outbox_command_id e k; held = map_of (px_held x) cid
      in if status = ''in_flight''
         then (case held of
                 None \<Rightarrow> (Inl (RuntimeError ''Marking a side effect in flight requires its execution guard.''), x)
               | Some owner \<Rightarrow> begin_attempt now a [attempt_entry env session i lease e k status url err] cid owner x)
         else if status \<in> {''succeeded'', ''failed''}
         then finish_attempt now a [attempt_entry env session i lease e k status url err] cid held x
         else (Inl (EffectRaised (ValueError (''Unsupported side-effect attempt status: '' @ status))), x))"
  by (simp only: persist_side_effect_attempt_def list.case attempt_entry_decodes sum.case attempt_of_simps Let_def)

lemma well_named_attempt: "well_named (attempt_of env session i e k status url err) (outbox_command_id e k)"
  by (simp add: well_named_def)

lemma persist_calm:
  assumes "rows_named (st_outbox (px_store x))" "status \<noteq> ''failed'' \<or> (e, k) \<noteq> (''github_reply'', key)"
  shows "calm_p key x (snd (persist_side_effect_attempt now [attempt_entry env session i lease e k status url err] x))"
  unfolding persist_attempt Let_def
  using begin_attempt_calm [OF well_named_attempt] finish_attempt_calm [OF well_named_attempt assms(1)] assms(2)
  by (auto split: option.split)

lemma persist_names:
  "keeps_names x (snd (persist_side_effect_attempt now [attempt_entry env session i lease e k status url err] x))"
  unfolding persist_attempt Let_def
  using calm_names [OF begin_attempt_calm [OF well_named_attempt]] finish_attempt_names [OF well_named_attempt] calm_names [OF calm_p_refl]
  by (auto split: option.split)

lemma persist_sends:
  assumes "rows_named (st_outbox (px_store x))"
    and "persist_side_effect_attempt now [attempt_entry env session i lease ''github_reply'' key ''in_flight'' url err] x = (Inr u, x')"
  shows "unsent key (px_store x) \<and> \<not> unsent key (px_store x')"
  using assms(2) unfolding persist_attempt Let_def
  by (auto split: option.splits
      dest!: begin_attempt_sends [OF well_named_attempt attempt_of_simps(1) attempt_of_simps(2) assms(1)])

section \<open>Reading the state of a command\<close>

lemma side_effect_state_calm: "calm_p key x (snd (side_effect_state locked locked' e k x))"
proof -
  have d: "calm_p key x (snd (commit_store (demote_dead dead) (map_option fst) x))" for dead
    by (intro commit_store_calm demote_calm)
  have s: "snd (case r of (Inl e, x') \<Rightarrow> (Inl e, x') | (Inr u, x') \<Rightarrow> (Inr (f u x'), x')) = snd r"
    for r :: "(effect_error + unit) \<times> process" and f :: "unit \<Rightarrow> process \<Rightarrow> (outbox_row \<times> bool) option"
    by (simp split: prod.splits sum.splits)
  show ?thesis unfolding side_effect_state_def Let_def s using d by (simp split: option.splits)
qed

lemma side_effect_state_row:
  "side_effect_state locked locked' e k x = (Inr (Some (r, a)), x') \<Longrightarrow> outbox_command e k (px_store x') = Some r"
  by (auto simp: side_effect_state_def Let_def split: prod.splits sum.splits)

lemma recover_calm: "calm key s (recover lock_held s)"
  by (simp add: recover_def demote_calm)

end
