(* ===== verification/Publish_Properties.thy ===== *)
theory Publish_Properties
  imports Publish_Contract
begin

text \<open>
  At most one reply. Executing plans is judged by triples over worlds: what holds before, what
  holds after a normal end, and the invariant that holds wherever a run ends by an error or
  is killed. The triples of the calls, the outbox operations and the session compose to the
  triple of a plan, and histories of runs, each killed wherever it is, keep the invariant.
\<close>

section \<open>Triples\<close>

definition valid :: "('g world \<Rightarrow> bool) \<Rightarrow> ('g world \<Rightarrow> bool) \<Rightarrow> ('g, 'a) effect_run \<Rightarrow> ('a \<Rightarrow> 'g world \<Rightarrow> bool) \<Rightarrow> bool" where
  "valid J P m Q \<longleftrightarrow> (\<forall>w. P w \<longrightarrow> (case m w of (Inl e, w') \<Rightarrow> J w' | (Inr a, w') \<Rightarrow> Q a w'))"

lemma valid_I:
  assumes "\<And>w e w'. P w \<Longrightarrow> m w = (Inl e, w') \<Longrightarrow> J w'" "\<And>w a w'. P w \<Longrightarrow> m w = (Inr a, w') \<Longrightarrow> Q a w'"
  shows "valid J P m Q"
  using assms unfolding valid_def by (simp split: prod.split sum.split)

lemma valid_error: "valid J P m Q \<Longrightarrow> P w \<Longrightarrow> m w = (Inl e, w') \<Longrightarrow> J w'"
  unfolding valid_def by (drule spec [of _ w]) simp

lemma valid_result: "valid J P m Q \<Longrightarrow> P w \<Longrightarrow> m w = (Inr a, w') \<Longrightarrow> Q a w'"
  unfolding valid_def by (drule spec [of _ w]) simp

lemma ebind_Inl: "ebind m f w = (Inl e, w'') \<Longrightarrow> m w = (Inl e, w'') \<or> (\<exists>a w'. m w = (Inr a, w') \<and> f a w' = (Inl e, w''))"
  by (auto simp: ebind_def split: prod.splits sum.splits)

lemma ebind_Inr: "ebind m f w = (Inr b, w'') \<Longrightarrow> \<exists>a w'. m w = (Inr a, w') \<and> f a w' = (Inr b, w'')"
  by (auto simp: ebind_def split: prod.splits sum.splits)

lemma valid_bind:
  assumes "valid J P m Q" "\<And>a. valid J (Q a) (f a) R"
  shows "valid J P (ebind m f) R"
proof (rule valid_I)
  fix w e w''
  assume "P w" "ebind m f w = (Inl e, w'')"
  then show "J w''"
    using ebind_Inl [of m f w e w''] valid_error [OF assms(1)] valid_result [OF assms(1)] valid_error [OF assms(2)] by blast
next
  fix w b w''
  assume "P w" "ebind m f w = (Inr b, w'')"
  then show "R b w''"
    using ebind_Inr [of m f w b w''] valid_result [OF assms(1)] valid_result [OF assms(2)] by blast
qed

lemma valid_return: "(\<And>w. P w \<Longrightarrow> Q a w) \<Longrightarrow> valid J P (ereturn a) Q"
  by (simp add: valid_def ereturn_def)

lemma valid_raise: "(\<And>w. P w \<Longrightarrow> J w) \<Longrightarrow> valid J P (eraise e) Q"
  by (simp add: valid_def eraise_def)

lemma valid_conseq:
  assumes "valid J P' m Q'" "\<And>w. P w \<Longrightarrow> P' w" "\<And>a w. Q' a w \<Longrightarrow> Q a w"
  shows "valid J P m Q"
  by (rule valid_I) (use assms valid_error [OF assms(1)] valid_result [OF assms(1)] in blast)+

lemma valid_if: "(b \<Longrightarrow> valid J P m Q) \<Longrightarrow> (\<not> b \<Longrightarrow> valid J P n Q) \<Longrightarrow> valid J P (if b then m else n) Q"
  by simp

section \<open>The invariant of one reply\<close>

definition grounded :: "string \<Rightarrow> 'g world \<Rightarrow> bool" where
  "grounded sid w \<longleftrightarrow> rows_named (st_outbox (px_store (w_process w)))
     \<and> dget (px_session (w_process w)) ''session_id'' = PStr sid"

definition publish_inv :: "('g \<Rightarrow> nat) \<Rightarrow> string \<Rightarrow> string \<Rightarrow> 'g world \<Rightarrow> bool" where
  "publish_inv posts key sid w \<longleftrightarrow> grounded sid w \<and> posts (w_hub w) \<le> 1
     \<and> (unsent key (px_store (w_process w)) \<longrightarrow> posts (w_hub w) = 0)"

definition none_posted :: "('g \<Rightarrow> nat) \<Rightarrow> string \<Rightarrow> 'g world \<Rightarrow> bool" where
  "none_posted posts sid w \<longleftrightarrow> grounded sid w \<and> posts (w_hub w) = 0"

definition now_sending :: "('g \<Rightarrow> nat) \<Rightarrow> string \<Rightarrow> string \<Rightarrow> 'g world \<Rightarrow> bool" where
  "now_sending posts key sid w \<longleftrightarrow> none_posted posts sid w \<and> \<not> unsent key (px_store (w_process w))"

lemma none_posted_inv: "none_posted posts sid w \<Longrightarrow> publish_inv posts key sid w"
  by (simp add: none_posted_def publish_inv_def)

lemma now_sending_inv: "now_sending posts key sid w \<Longrightarrow> publish_inv posts key sid w"
  by (simp add: now_sending_def none_posted_inv)

text \<open>
  What is assumed of GitHub for the thread: a reply is posted when the call returns its
  address and is not when the call fails; the other calls post nothing; and a listing that
  proves the publisher never replied is right. \<open>posts\<close> counts the replies on the thread.
\<close>

definition silent :: "('g \<Rightarrow> nat) \<Rightarrow> ('g \<Rightarrow> (github_error + 'a) \<times> 'g) \<Rightarrow> bool" where
  "silent posts f \<longleftrightarrow> (\<forall>g. posts (snd (f g)) = posts g)"

definition honest_client :: "'g github_client \<Rightarrow> string \<Rightarrow> ('g \<Rightarrow> nat) \<Rightarrow> bool" where
  "honest_client client t posts \<longleftrightarrow>
     (\<forall>body g. case gc_post_reply client t body g of
        (Inl e, g') \<Rightarrow> posts g' = posts g | (Inr url, g') \<Rightarrow> posts g' = posts g + 1)
     \<and> (\<forall>t' body. t' \<noteq> t \<longrightarrow> silent posts (gc_post_reply client t' body))
     \<and> (\<forall>t'. silent posts (gc_resolve_thread client t') \<and> silent posts (gc_is_thread_resolved client t'))
     \<and> silent posts (gc_list_threads client)
     \<and> (\<forall>g rows g'. gc_list_threads client g = (Inr rows, g') \<longrightarrow> never_replied t rows \<longrightarrow> posts g = 0)"

lemma honest_post:
  assumes "honest_client client t posts"
  shows "case gc_post_reply client t body g of
    (Inl e, g') \<Rightarrow> posts g' = posts g | (Inr url, g') \<Rightarrow> posts g' = posts g + 1"
  by (rule spec [OF spec [OF conjunct1 [OF assms [unfolded honest_client_def]]]])

lemma honest_silent:
  assumes "honest_client client t posts"
  shows "t' \<noteq> t \<Longrightarrow> silent posts (gc_post_reply client t' body)" "silent posts (gc_resolve_thread client t')"
    "silent posts (gc_is_thread_resolved client t')" "silent posts (gc_list_threads client)"
    "gc_list_threads client g = (Inr rows, g') \<Longrightarrow> never_replied t rows \<Longrightarrow> posts g = 0"
  using assms unfolding honest_client_def by simp_all

section \<open>Triples of the steps\<close>

abbreviation kept :: "('g \<Rightarrow> nat) \<Rightarrow> string \<Rightarrow> string \<Rightarrow> ('g, 'a) effect_run \<Rightarrow> bool" where
  "kept posts key sid m \<equiv> valid (publish_inv posts key sid) (publish_inv posts key sid) m (\<lambda>_. publish_inv posts key sid)"

lemma calm_inv:
  assumes "publish_inv posts key sid w" "calm_p key (w_process w) x"
  shows "publish_inv posts key sid (w\<lparr>w_process := x\<rparr>)"
  using assms by (auto simp: publish_inv_def grounded_def calm_p_def calm_def same_id_def)

lemma names_none_posted:
  assumes "none_posted posts sid w" "keeps_names (w_process w) x"
  shows "none_posted posts sid (w\<lparr>w_process := x\<rparr>)"
  using assms by (simp add: none_posted_def grounded_def keeps_names_def same_id_def)

lemma on_process_eq: "on_process f w = (fst (f (w_process w)), w\<lparr>w_process := snd (f (w_process w))\<rparr>)"
  by (simp add: on_process_def split: prod.split)

lemma kept_on_process:
  assumes "\<And>x. rows_named (st_outbox (px_store x)) \<Longrightarrow> calm_p key x (snd (f x))"
  shows "kept posts key sid (on_process f)"
proof -
  have "publish_inv posts key sid (w\<lparr>w_process := snd (f (w_process w))\<rparr>)" if "publish_inv posts key sid w" for w
    using that assms [of "w_process w"] calm_inv [OF that] by (simp add: publish_inv_def grounded_def)
  then show ?thesis by (intro valid_I) (auto simp: on_process_eq)
qed

lemma none_posted_on_process:
  assumes "\<And>x. keeps_names x (snd (f x))"
  shows "valid (publish_inv posts key sid) (none_posted posts sid) (on_process f) (\<lambda>_. none_posted posts sid)"
proof -
  note n = names_none_posted [OF _ assms]
  show ?thesis by (intro valid_I) (auto simp: on_process_eq intro: n none_posted_inv)
qed

lemma tick_calm: "calm_p key x (tick x)"
  by (simp add: calm_p_def same_id_def tick_def)

lemma call_hub_eq:
  "call_hub f w = (if px_life (w_process w) = 0 then (Inl ProcessDied, w)
     else (Inr (fst (f (w_hub w))), \<lparr>w_process = tick (w_process w), w_hub = snd (f (w_hub w))\<rparr>))"
  by (simp add: call_hub_def split: prod.split)

lemma kept_call:
  assumes "silent posts f"
  shows "kept posts key sid (call_hub f)"
  using assms by (intro valid_I) (auto simp: call_hub_eq silent_def publish_inv_def grounded_def tick_def split: if_splits)

lemma kept_get_session:
  "valid J (publish_inv posts key sid) get_session
     (\<lambda>s w. publish_inv posts key sid w \<and> dget s ''session_id'' = PStr sid)"
  by (simp add: valid_def get_session_def publish_inv_def grounded_def)

lemma kept_update_session:
  assumes "\<And>s. dget (f s) ''session_id'' = dget s ''session_id''"
  shows "kept posts key sid (update_session f)"
  using assms by (simp add: valid_def update_session_def publish_inv_def grounded_def)

lemmas kept_bind = valid_bind [of "publish_inv posts key sid" "publish_inv posts key sid" _ "\<lambda>_. publish_inv posts key sid" _ "\<lambda>_. publish_inv posts key sid"
  for posts key sid]

lemma kept_get_then:
  assumes "\<And>s. dget s ''session_id'' = PStr sid \<Longrightarrow> kept posts key sid (f s)"
  shows "kept posts key sid (ebind get_session f)"
proof (rule valid_bind [OF kept_get_session])
  fix s
  show "valid (publish_inv posts key sid) (\<lambda>w. publish_inv posts key sid w \<and> dget s ''session_id'' = PStr sid) (f s)
      (\<lambda>_. publish_inv posts key sid)"
    using assms by (cases "dget s ''session_id'' = PStr sid") (auto simp: valid_def)
qed

lemma kept_return: "kept posts key sid (ereturn a)"
  by (rule valid_return)

lemma kept_raise: "kept posts key sid (eraise e)"
  by (rule valid_raise)

lemma dget_dpop_other [simp]: "k \<noteq> k' \<Longrightarrow> dget (dpop k' d) k = dget d k"
  by (simp add: dget_def dpop_def delete_conv')

lemma pending_other [simp]: "''session_id'' \<noteq> pending_key" "pending_key \<noteq> ''session_id''"
  by (simp_all add: pending_key_def)

lemma buffer_append_id: "buffer_append r s = Inr s' \<Longrightarrow> dget s' ''session_id'' = dget s ''session_id''"
  by (auto simp: buffer_append_def split: pyval.splits)

lemma kept_publish_event: "kept posts key sid (publish_event env i lease et payload ts)"
  unfolding publish_event_def
proof (rule valid_bind [OF kept_get_session])
  fix s
  let ?r = "new_evidence_record (pe_now env) (session_id_of s) i lease (pe_agent_id env) ''publisher'' et payload ts"
  show "valid (publish_inv posts key sid) (\<lambda>w. publish_inv posts key sid w \<and> dget s ''session_id'' = PStr sid)
      (case buffer_append ?r s of Inl e \<Rightarrow> eraise (EffectRaised e) | Inr s' \<Rightarrow> update_session (\<lambda>_. s'))
      (\<lambda>_. publish_inv posts key sid)"
  proof (cases "buffer_append ?r s")
    case (Inl e)
    then show ?thesis by (simp only: Inl sum.case) (rule valid_raise, rule conjunct1)
  next
    case (Inr s')
    then show ?thesis using buffer_append_id [OF Inr]
      by (simp add: valid_def update_session_def publish_inv_def grounded_def)
  qed
qed

lemma save_calm: "calm_p key x (snd (save_process x))"
proof -
  have rows: "st_outbox s' = st_outbox (px_store x)" if "save_session (px_session x) (Some (px_store x)) = (r, p, Some s')" for r p s'
    using that replace_rows_kept
    by (auto simp: save_session_def split: sum.splits prod.splits option.splits) (metis snd_conv)+
  have some: "\<exists>s'. st = Some s'" if "save_session (px_session x) (Some (px_store x)) = (r, p, st)" for r p st
    using that by (auto simp: save_session_def split: sum.splits prod.splits option.splits)
  have id: "dget p ''session_id'' = dget (px_session x) ''session_id''"
    if "save_session (px_session x) (Some (px_store x)) = (r, p, st)" for r p st
    using that by (auto simp: save_session_def take_pending_evidence_def with_persistence_def
        split: sum.splits prod.splits option.splits pyval.splits)
  obtain r p st where s: "save_session (px_session x) (Some (px_store x)) = (r, p, st)" by (metis prod_cases3)
  show ?thesis
    using rows some [OF s] id [OF s] s
    by (auto simp: save_process_def calm_p_def same_id_def tick_def intro!: calm_same_rows)
qed

section \<open>Triples of one effect\<close>

text \<open>Buffering around a persisted attempt only moves evidence inside the session.\<close>

lemma record_attempt_eq:
  "record_side_effect_attempt env i lease e k status url err =
     ebind get_session (\<lambda>s.
       case dget_default s pending_key (PList []) of
         PList pending \<Rightarrow>
           ebind (update_session (dset pending_key (PList pending))) (\<lambda>_.
           ebind (on_process (persist_side_effect_attempt (pe_timestamp env) [attempt_entry env s i lease e k status url err])) (\<lambda>_.
             if pending = [] then update_session (dpop pending_key) else ereturn ()))
       | _ \<Rightarrow> eraise (EffectRaised (ValueError ''Session pending evidence must be a list.'')))"
  unfolding record_side_effect_attempt_def attempt_entry_def attempt_of_def Let_def ..

lemma kept_record_attempt:
  assumes "status \<noteq> ''failed'' \<or> (e, k) \<noteq> (''github_reply'', key)"
  shows "kept posts key sid (record_side_effect_attempt env i lease e k status url err)"
  unfolding record_attempt_eq
proof (rule kept_get_then)
  fix s
  have "kept posts key sid (on_process (persist_side_effect_attempt (pe_timestamp env) [attempt_entry env s i lease e k status url err]))"
    using persist_calm assms by (intro kept_on_process) blast
  then show "kept posts key sid
      (case dget_default s pending_key (PList []) of
         PList pending \<Rightarrow>
           ebind (update_session (dset pending_key (PList pending))) (\<lambda>_.
           ebind (on_process (persist_side_effect_attempt (pe_timestamp env) [attempt_entry env s i lease e k status url err])) (\<lambda>_.
             if pending = [] then update_session (dpop pending_key) else ereturn ()))
       | _ \<Rightarrow> eraise (EffectRaised (ValueError ''Session pending evidence must be a list.'')))"
    by (auto intro!: kept_bind kept_update_session kept_return kept_raise split: pyval.split)
qed

lemma update_session_keeps:
  assumes "\<And>s. dget (f s) ''session_id'' = dget s ''session_id''"
  shows "valid J (none_posted posts sid) (update_session f) (\<lambda>_. none_posted posts sid)"
    "valid J (now_sending posts key sid) (update_session f) (\<lambda>_. now_sending posts key sid)"
  using assms by (simp_all add: valid_def update_session_def none_posted_def now_sending_def grounded_def)

lemma valid_session_any: "(\<And>s. valid J P (f s) Q) \<Longrightarrow> valid J P (ebind get_session f) Q"
  by (rule valid_bind [where Q = "\<lambda>_. P"]) (auto simp: valid_def get_session_def)

text \<open>Whatever is recorded while nothing is posted keeps that so.\<close>

lemma none_posted_record:
  "valid (publish_inv posts key sid) (none_posted posts sid) (record_side_effect_attempt env i lease e k status url err)
     (\<lambda>_. none_posted posts sid)"
  unfolding record_attempt_eq
proof (rule valid_session_any)
  fix s
  note b = valid_bind [where P = "none_posted posts sid" and Q = "\<lambda>_. none_posted posts sid" and J = "publish_inv posts key sid"]
  have "valid (publish_inv posts key sid) (none_posted posts sid)
      (on_process (persist_side_effect_attempt (pe_timestamp env) [attempt_entry env s i lease e k status url err])) (\<lambda>_. none_posted posts sid)"
    by (intro none_posted_on_process persist_names)
  then show "valid (publish_inv posts key sid) (none_posted posts sid)
      (case dget_default s pending_key (PList []) of
         PList pending \<Rightarrow>
           ebind (update_session (dset pending_key (PList pending))) (\<lambda>_.
           ebind (on_process (persist_side_effect_attempt (pe_timestamp env) [attempt_entry env s i lease e k status url err])) (\<lambda>_.
             if pending = [] then update_session (dpop pending_key) else ereturn ()))
       | _ \<Rightarrow> eraise (EffectRaised (ValueError ''Session pending evidence must be a list.''))) (\<lambda>_. none_posted posts sid)"
    by (auto intro!: b update_session_keeps valid_return valid_raise none_posted_inv split: pyval.split)
qed

text \<open>A reply is put in flight only when nothing was posted, and is unsent no more.\<close>

lemma record_in_flight:
  "valid (publish_inv posts key sid) (publish_inv posts key sid)
     (record_side_effect_attempt env i lease ''github_reply'' key ''in_flight'' url err) (\<lambda>_. now_sending posts key sid)"
  unfolding record_attempt_eq
proof (rule valid_session_any)
  fix s
  let ?f = "persist_side_effect_attempt (pe_timestamp env) [attempt_entry env s i lease ''github_reply'' key ''in_flight'' url err]"
  have p: "valid (publish_inv posts key sid) (publish_inv posts key sid) (on_process ?f) (\<lambda>_. now_sending posts key sid)"
  proof (rule valid_I)
    fix w e w'
    assume w: "publish_inv posts key sid w" and "on_process ?f w = (Inl e, w')"
    then have "w' = w\<lparr>w_process := snd (?f (w_process w))\<rparr>" by (simp add: on_process_eq)
    moreover have "calm_p key (w_process w) (snd (?f (w_process w)))"
      using w by (intro persist_calm) (simp_all add: publish_inv_def grounded_def)
    ultimately show "publish_inv posts key sid w'" using calm_inv [OF w] by simp
  next
    fix w u w'
    assume w: "publish_inv posts key sid w" and f: "on_process ?f w = (Inr u, w')"
    then have n: "rows_named (st_outbox (px_store (w_process w)))" by (simp add: publish_inv_def grounded_def)
    have w': "w' = w\<lparr>w_process := snd (?f (w_process w))\<rparr>" and ok: "?f (w_process w) = (Inr u, snd (?f (w_process w)))"
      using f by (simp_all add: on_process_eq prod_eq_iff)
    have "calm_p key (w_process w) (snd (?f (w_process w)))" using n by (intro persist_calm) simp_all
    from calm_inv [OF w this] persist_sends [OF n ok] w show "now_sending posts key sid w'"
      by (simp add: w' now_sending_def none_posted_def publish_inv_def)
  qed
  note b = valid_bind [where P = "publish_inv posts key sid" and Q = "\<lambda>_. publish_inv posts key sid"]
    and c = valid_bind [where Q = "\<lambda>_. now_sending posts key sid"]
  show "valid (publish_inv posts key sid) (publish_inv posts key sid)
      (case dget_default s pending_key (PList []) of
         PList pending \<Rightarrow>
           ebind (update_session (dset pending_key (PList pending))) (\<lambda>_.
           ebind (on_process ?f) (\<lambda>_. if pending = [] then update_session (dpop pending_key) else ereturn ()))
       | _ \<Rightarrow> eraise (EffectRaised (ValueError ''Session pending evidence must be a list.''))) (\<lambda>_. now_sending posts key sid)"
    by (auto intro!: b [OF kept_update_session] c [OF p] update_session_keeps valid_return valid_raise split: pyval.split)
qed

lemma kept_guarded:
  assumes "kept posts key sid body"
  shows "kept posts key sid (guarded env e k body)"
proof -
  have en: "kept posts key sid (on_process (enter_guard l o' e k))" for l o'
    by (rule kept_on_process) (simp add: enter_guard_def Let_def calm_p_def same_id_def)
  have lv: "publish_inv posts key sid (w\<lparr>w_process := leave_guard e k (w_process w)\<rparr>)" if "publish_inv posts key sid w" for w
    by (rule calm_inv [OF that]) (simp add: leave_guard_def calm_p_def same_id_def)
  show ?thesis
  proof (rule valid_I)
    fix w er w'
    assume w: "publish_inv posts key sid w" and g: "guarded env e k body w = (Inl er, w')"
    show "publish_inv posts key sid w'"
    proof (cases "on_process (enter_guard (pe_lock_held env) (pe_owner env e) e k) w")
      case (Pair r w1)
      then show ?thesis
        using g lv valid_error [OF en w, of _ _ _ w1] valid_result [OF en w, of _ _ _ w1] valid_error [OF assms, of w1]
        by (auto simp: guarded_def split: sum.splits prod.splits)
    qed
  next
    fix w a w'
    assume w: "publish_inv posts key sid w" and g: "guarded env e k body w = (Inr a, w')"
    show "publish_inv posts key sid w'"
    proof (cases "on_process (enter_guard (pe_lock_held env) (pe_owner env e) e k) w")
      case (Pair r w1)
      then show ?thesis
        using g lv valid_result [OF en w, of _ _ _ w1] valid_result [OF assms, of w1]
        by (auto simp: guarded_def split: sum.splits prod.splits)
    qed
  qed
qed

lemma kept_save: "kept posts key sid (on_process save_process)"
  by (intro kept_on_process save_calm)

lemma kept_silent_effect:
  assumes "silent posts call" "(e, k) \<noteq> (''github_reply'', key)"
  shows "kept posts key sid (execute_github_side_effect env i lease e k call url)"
  unfolding execute_github_side_effect_def
  using assms
  by (auto intro!: kept_guarded kept_bind kept_record_attempt kept_call kept_save kept_return kept_raise split: sum.split)

lemma kept_reply_effect:
  assumes "honest_client client t posts"
  shows "kept posts key sid (execute_github_side_effect env i lease ''github_reply'' key (gc_post_reply client t body) url)"
  unfolding execute_github_side_effect_def
proof (intro kept_guarded valid_bind [OF record_in_flight])
  let ?Q = "\<lambda>outcome w. case outcome of Inl e \<Rightarrow> none_posted posts sid w | Inr a \<Rightarrow> publish_inv posts key sid w"
  have call: "valid (publish_inv posts key sid) (now_sending posts key sid) (call_hub (gc_post_reply client t body)) ?Q"
  proof (rule valid_I)
    fix w r w'
    assume w: "now_sending posts key sid w" and c: "call_hub (gc_post_reply client t body) w = (Inr r, w')"
    have h: "case gc_post_reply client t body (w_hub w) of
        (Inl e, g') \<Rightarrow> posts g' = posts (w_hub w) | (Inr url, g') \<Rightarrow> posts g' = posts (w_hub w) + 1"
      by (rule honest_post [OF assms])
    show "?Q r w'"
      using w c h
      by (cases "gc_post_reply client t body (w_hub w)")
         (auto simp: call_hub_eq now_sending_def none_posted_def publish_inv_def grounded_def tick_def split: if_splits sum.splits)
  qed (auto simp: call_hub_eq now_sending_inv split: if_splits)
  have then_case: "valid (publish_inv posts key sid) (?Q outcome)
      (case outcome of
         Inl e \<Rightarrow>
           ebind (record_side_effect_attempt env i lease ''github_reply'' key ''failed'' PNone (PStr (ge_detail e))) (\<lambda>_.
           ebind (on_process save_process) (\<lambda>_. eraise (publish_error env i e)))
       | Inr a \<Rightarrow>
           ebind (record_side_effect_attempt env i lease ''github_reply'' key ''succeeded'' (PStr (url a)) PNone)
             (\<lambda>_. ereturn a)) (\<lambda>_. publish_inv posts key sid)" for outcome
  proof (cases outcome)
    case (Inl e)
    have "valid (publish_inv posts key sid) (none_posted posts sid)
        (record_side_effect_attempt env i lease ''github_reply'' key ''failed'' PNone (PStr (ge_detail e))) (\<lambda>_. publish_inv posts key sid)"
      by (rule valid_conseq [OF none_posted_record]) (auto intro: none_posted_inv)
    then show ?thesis by (auto simp: Inl intro!: valid_bind [where Q = "\<lambda>_. publish_inv posts key sid"] kept_save valid_raise)
  next
    case (Inr a)
    then show ?thesis by (auto intro!: kept_bind kept_record_attempt kept_return)
  qed
  show "valid (publish_inv posts key sid) (now_sending posts key sid)
      (ebind (call_hub (gc_post_reply client t body)) (\<lambda>outcome.
         case outcome of
           Inl e \<Rightarrow>
             ebind (record_side_effect_attempt env i lease ''github_reply'' key ''failed'' PNone (PStr (ge_detail e))) (\<lambda>_.
             ebind (on_process save_process) (\<lambda>_. eraise (publish_error env i e)))
         | Inr a \<Rightarrow>
             ebind (record_side_effect_attempt env i lease ''github_reply'' key ''succeeded'' (PStr (url a)) PNone)
               (\<lambda>_. ereturn a))) (\<lambda>_. publish_inv posts key sid)"
    by (rule valid_bind [OF call then_case])
qed

section \<open>Triples of a plan\<close>

text \<open>The plan of the reply itself, or a plan that concerns another item and another thread.\<close>

definition own_or_other :: "string \<Rightarrow> string \<Rightarrow> string \<Rightarrow> string \<Rightarrow> bool" where
  "own_or_other t key thread_id k \<longleftrightarrow> (k = key \<and> thread_id = t) \<or> (k \<noteq> key \<and> thread_id \<noteq> t)"

definition inv_planned :: "('g \<Rightarrow> nat) \<Rightarrow> string \<Rightarrow> string \<Rightarrow> string \<Rightarrow> 'g world \<Rightarrow> bool" where
  "inv_planned posts key sid k w \<longleftrightarrow>
     publish_inv posts key sid w \<and> planned_at ''github_reply'' k (px_store (w_process w))"

lemma inv_planned_inv: "inv_planned posts key sid k w \<Longrightarrow> publish_inv posts key sid w"
  by (simp add: inv_planned_def)

lemma kept_effect_state:
  "valid (publish_inv posts key sid) (publish_inv posts key sid) (effect_state env e k)
     (\<lambda>st w. publish_inv posts key sid w \<and> (st \<noteq> None \<longrightarrow> planned_at e k (px_store (w_process w))))"
proof -
  have k: "kept posts key sid (effect_state env e k)"
    unfolding effect_state_def by (intro kept_on_process side_effect_state_calm)
  show ?thesis
  proof (rule valid_I)
    fix w st w'
    assume w: "publish_inv posts key sid w" and st: "effect_state env e k w = (Inr st, w')"
    have "planned_at e k (px_store (w_process w'))" if "st = Some (r, a)" for r a
      using st side_effect_state_row [of "pe_lock_held env" "pe_lock_held env" e k "w_process w" r a "w_process w'"] that
      by (auto simp: effect_state_def on_process_eq planned_at_def prod_eq_iff)
    then show "publish_inv posts key sid w' \<and> (st \<noteq> None \<longrightarrow> planned_at e k (px_store (w_process w')))"
      using valid_result [OF k w st] by (cases st) auto
  qed (rule valid_error [OF k])
qed

lemma kept_block: "kept posts key sid (block_publish env i reason)"
  unfolding block_publish_def record_publish_blocked_def
  by (intro kept_bind kept_publish_event kept_save kept_raise)

lemma planned_call:
  assumes "silent posts f"
  shows "valid (publish_inv posts key sid) (inv_planned posts key sid k) (call_hub f) (\<lambda>_. inv_planned posts key sid k)"
  using assms
  by (intro valid_I)
     (auto simp: call_hub_eq silent_def inv_planned_def publish_inv_def grounded_def tick_def split: if_splits)

text \<open>Clearing an interrupted attempt after GitHub proved that nothing was posted.\<close>

lemma kept_no_effect:
  assumes "k = key \<Longrightarrow> P = none_posted posts sid" "k \<noteq> key \<Longrightarrow> P = inv_planned posts key sid k"
  shows "valid (publish_inv posts key sid) P (on_process (reconcile_side_effect_no_effect ''github_reply'' k)) (\<lambda>_. publish_inv posts key sid)"
proof (cases "k = key")
  case True
  have "valid (publish_inv posts key sid) (none_posted posts sid) (on_process (reconcile_side_effect_no_effect ''github_reply'' k))
      (\<lambda>_. none_posted posts sid)"
    unfolding reconcile_side_effect_no_effect_def by (intro none_posted_on_process record_effect_names)
  then show ?thesis unfolding assms(1) [OF True] by (rule valid_conseq) (auto intro: none_posted_inv)
next
  case False
  have "publish_inv posts key sid (w\<lparr>w_process := snd (reconcile_side_effect_no_effect ''github_reply'' k (w_process w))\<rparr>)"
    if "inv_planned posts key sid k w" for w
  proof (rule calm_inv [OF inv_planned_inv [OF that]])
    show "calm_p key (w_process w) (snd (reconcile_side_effect_no_effect ''github_reply'' k (w_process w)))"
      unfolding reconcile_side_effect_no_effect_def using that False
      by (intro record_effect_calm) (simp add: inv_planned_def)
  qed
  then show ?thesis unfolding assms(2) [OF False] by (intro valid_I) (auto simp: on_process_eq)
qed

lemma kept_reconcile_reply:
  assumes h: "honest_client client t posts" and o: "own_or_other t key (pp_thread_id plan) k"
  shows "valid (publish_inv posts key sid) (inv_planned posts key sid k) (reconcile_reply env client login plan lease k)
    (\<lambda>_. publish_inv posts key sid)"
proof -
  let ?J = "publish_inv posts key sid" and ?P = "inv_planned posts key sid k" and ?list = "call_hub (gc_list_threads client)"
  let ?N = "if k = key then none_posted posts sid else inv_planned posts key sid k"
  note list = planned_call [OF honest_silent(4) [OF h], of key sid k]
  define blocked :: "github_error + pyval list \<Rightarrow> bool"
    where "blocked r = (case r of Inl e \<Rightarrow> True | Inr rows \<Rightarrow> \<not> never_replied (pp_thread_id plan) rows)" for r
  have proved: "valid ?J ?P ?list (\<lambda>r w. ?J w \<and> (\<not> blocked r \<longrightarrow> ?N w))"
  proof (rule valid_I)
    fix w r w'
    assume w: "?P w" and c: "?list w = (Inr r, w')"
    note kept = valid_result [OF list w c]
    have "none_posted posts sid w'" if k: "k = key" and nb: "\<not> blocked r"
    proof -
      from o k have "pp_thread_id plan = t" by (simp add: own_or_other_def)
      moreover obtain rows where "r = Inr rows" "never_replied (pp_thread_id plan) rows"
        using nb by (auto simp: blocked_def split: sum.splits)
      moreover have "gc_list_threads client (w_hub w) = (r, w_hub w')" using c by (auto simp: call_hub_eq prod_eq_iff split: if_splits)
      ultimately have "posts (w_hub w) = 0" using honest_silent(5) [OF h] by simp
      moreover have "posts (w_hub w') = posts (w_hub w)"
        using c honest_silent(4) [OF h] by (auto simp: call_hub_eq silent_def split: if_splits)
      ultimately show ?thesis using inv_planned_inv [OF kept] by (simp add: none_posted_def publish_inv_def)
    qed
    then show "?J w' \<and> (\<not> blocked r \<longrightarrow> ?N w')" using kept inv_planned_inv [OF kept] by simp
  qed (use list valid_error in blast)
  have cleared: "valid ?J (\<lambda>w. ?J w \<and> (\<not> blocked r \<longrightarrow> ?N w))
      (if blocked r then block_publish env (pp_item_id plan) ''PUBLISH_RECONCILE_REQUIRED''
       else ebind (on_process (reconcile_side_effect_no_effect ''github_reply'' k)) (\<lambda>_. ereturn PNone)) (\<lambda>_. ?J)" for r
  proof (cases "blocked r")
    case True
    then show ?thesis using valid_conseq [OF kept_block] by simp
  next
    case False
    have "valid ?J ?N (on_process (reconcile_side_effect_no_effect ''github_reply'' k)) (\<lambda>_. ?J)"
      by (rule kept_no_effect) simp_all
    then have "valid ?J ?N (ebind (on_process (reconcile_side_effect_no_effect ''github_reply'' k)) (\<lambda>_. ereturn PNone)) (\<lambda>_. ?J)"
      by (rule valid_bind) (rule kept_return)
    then have "valid ?J (\<lambda>w. ?J w \<and> (\<not> blocked r \<longrightarrow> ?N w))
      (ebind (on_process (reconcile_side_effect_no_effect ''github_reply'' k)) (\<lambda>_. ereturn PNone)) (\<lambda>_. ?J)"
      by (rule valid_conseq) (use False in simp_all)
    then show ?thesis using False by simp
  qed
  have first: "valid ?J ?P (if login = [] then ereturn None
      else ebind ?list (\<lambda>r. ereturn (case r of Inl e \<Rightarrow> None | Inr rows \<Rightarrow> reconciled_reply (pp_thread_id plan) login rows))) (\<lambda>_. ?P)"
    by (auto intro!: valid_return valid_bind [OF list])
  have rest: "valid ?J ?P (case found of
         None \<Rightarrow>
           ebind ?list (\<lambda>r. if blocked r then block_publish env (pp_item_id plan) ''PUBLISH_RECONCILE_REQUIRED''
             else ebind (on_process (reconcile_side_effect_no_effect ''github_reply'' k)) (\<lambda>_. ereturn PNone))
       | Some url \<Rightarrow>
           ebind (record_side_effect_attempt env (pp_item_id plan) lease ''github_reply'' k ''succeeded'' (PStr url) PNone) (\<lambda>_.
           ebind (publish_event env (pp_item_id plan) lease ''reply_reconciled''
             [(''thread_id'', PStr (pp_thread_id plan)), (''reply_url'', PStr url), (''idempotency_key'', PStr k)]
             (Some (pe_timestamp env))) (\<lambda>_. ereturn (PStr url)))) (\<lambda>_. ?J)" for found
  proof (cases found)
    case None
    then show ?thesis using valid_bind [OF proved cleared] by simp
  next
    case (Some url)
    have "kept posts key sid (ebind (record_side_effect_attempt env (pp_item_id plan) lease ''github_reply'' k ''succeeded'' (PStr url) PNone) (\<lambda>_.
           ebind (publish_event env (pp_item_id plan) lease ''reply_reconciled''
             [(''thread_id'', PStr (pp_thread_id plan)), (''reply_url'', PStr url), (''idempotency_key'', PStr k)]
             (Some (pe_timestamp env))) (\<lambda>_. ereturn (PStr url))))"
      by (intro kept_bind kept_record_attempt kept_publish_event kept_return) simp
    from valid_conseq [OF this inv_planned_inv] Some show ?thesis by simp
  qed
  show ?thesis unfolding reconcile_reply_def blocked_def [symmetric] by (rule valid_bind [OF first rest])
qed

lemma kept_ensure_reply:
  assumes h: "honest_client client t posts" and o: "own_or_other t key (pp_thread_id plan) k"
  shows "kept posts key sid (ensure_reply env client login plan lease k url0)"
  unfolding ensure_reply_def Let_def
proof (rule valid_bind [OF kept_effect_state])
  fix st
  let ?J = "publish_inv posts key sid" and ?u = "recorded_url st url0"
  let ?P = "\<lambda>w. ?J w \<and> (st \<noteq> None \<longrightarrow> planned_at ''github_reply'' k (px_store (w_process w)))"
  have effect: "kept posts key sid (execute_github_side_effect env (pp_item_id plan) lease ''github_reply'' k
      (gc_post_reply client (pp_thread_id plan) (pp_reply_body plan)) id)"
    using o kept_reply_effect [OF h] kept_silent_effect [OF honest_silent(1) [OF h]] by (auto simp: own_or_other_def)
  have rec: "valid ?J ?P (if \<not> truthy ?u \<and> has_status ''unknown'' st
      then reconcile_reply env client login plan lease k else ereturn ?u) (\<lambda>_. ?J)"
  proof (rule valid_if)
    assume "\<not> truthy ?u \<and> has_status ''unknown'' st"
    then have "st \<noteq> None" by (auto simp: has_status_def split: option.splits)
    then show "valid ?J ?P (reconcile_reply env client login plan lease k) (\<lambda>_. ?J)"
      by (intro valid_conseq [OF kept_reconcile_reply [OF h o]]) (simp_all add: inv_planned_def)
  qed (rule valid_return, rule conjunct1)
  have post: "kept posts key sid (if truthy url2 then ereturn url2
      else ebind (execute_github_side_effect env (pp_item_id plan) lease ''github_reply'' k
              (gc_post_reply client (pp_thread_id plan) (pp_reply_body plan)) id) (\<lambda>url.
           ebind (publish_event env (pp_item_id plan) lease ''reply_posted''
              [(''thread_id'', PStr (pp_thread_id plan)), (''reply_url'', PStr url), (''idempotency_key'', PStr k)]
              (Some (pe_timestamp env))) (\<lambda>_. ereturn (PStr url))))" for url2
    by (intro valid_if kept_return kept_bind [OF effect] kept_bind [OF kept_publish_event])
  show "valid ?J ?P (if \<not> truthy ?u \<and> alive st then eraise (side_effect_in_progress ''github_reply'')
      else ebind (if \<not> truthy ?u \<and> has_status ''unknown'' st
                  then reconcile_reply env client login plan lease k else ereturn ?u) (\<lambda>url2.
           if truthy url2 then ereturn url2
           else ebind (execute_github_side_effect env (pp_item_id plan) lease ''github_reply'' k
                        (gc_post_reply client (pp_thread_id plan) (pp_reply_body plan)) id) (\<lambda>url.
                ebind (publish_event env (pp_item_id plan) lease ''reply_posted''
                  [(''thread_id'', PStr (pp_thread_id plan)), (''reply_url'', PStr url), (''idempotency_key'', PStr k)]
                  (Some (pe_timestamp env))) (\<lambda>_. ereturn (PStr url))))) (\<lambda>_. ?J)"
    by (intro valid_if valid_raise valid_bind [OF rec post]) simp
qed

lemma kept_wait:
  assumes "honest_client client t posts"
  shows "kept posts key sid (wait_for_resolution n client t')"
  using assms
  by (induction n) (auto intro!: kept_return kept_bind kept_call honest_silent split: sum.split bool.split)

lemma kept_ensure_resolved:
  assumes "honest_client client t posts"
  shows "kept posts key sid (ensure_resolved env client plan lease k)"
proof -
  have state: "kept posts key sid (effect_state env ''github_resolve'' k)"
    unfolding effect_state_def by (intro kept_on_process side_effect_state_calm)
  have effect: "kept posts key sid (execute_github_side_effect env (pp_item_id plan) lease ''github_resolve'' k
      (gc_resolve_thread client (pp_thread_id plan)) (\<lambda>_. pp_thread_id plan))"
    by (rule kept_silent_effect [OF honest_silent(2) [OF assms]]) simp
  show ?thesis
    unfolding ensure_resolved_def
    by (intro kept_bind [OF state] kept_get_then valid_if kept_return kept_raise kept_bind [OF effect]
        kept_bind [OF kept_publish_event] kept_wait [OF assms])
qed

lemma set_item_id: "dget (set_item i f s) ''session_id'' = dget s ''session_id''"
  by (simp add: set_item_def split: pyval.split)

lemma session_id_text: "dget s ''session_id'' = PStr sid \<Longrightarrow> session_id_of s = sid"
  by (simp add: session_id_of_def)

text \<open>A plan whose item and thread are those of the reply, or neither.\<close>

definition about_thread :: "string \<Rightarrow> string \<Rightarrow> publish_plan \<Rightarrow> bool" where
  "about_thread item_id t plan \<longleftrightarrow> (pp_thread_id plan = t \<longleftrightarrow> pp_item_id plan = item_id)"

definition reply_key :: "string \<Rightarrow> string \<Rightarrow> string" where
  "reply_key sid item_id = sid @ '':'' @ item_id @ '':github_reply''"

lemma kept_plan:
  assumes "honest_client client t posts" "about_thread item_id t plan"
  shows "kept posts (reply_key sid item_id) sid (execute_single_publish_plan env client login plan)"
  unfolding execute_single_publish_plan_def Let_def
proof (rule kept_get_then)
  fix s
  assume s: "dget s ''session_id'' = PStr sid"
  have k: "side_effect_key s (pp_item_id plan) ''github_reply'' = reply_key sid (pp_item_id plan)"
    by (simp add: side_effect_key_def reply_key_def session_id_text [OF s])
  have "own_or_other t (reply_key sid item_id) (pp_thread_id plan) (side_effect_key s (pp_item_id plan) ''github_reply'')"
    unfolding k using assms(2) by (auto simp: own_or_other_def about_thread_def reply_key_def)
  note reply = kept_ensure_reply [OF assms(1) this]
  show "kept posts (reply_key sid item_id) sid
      (ebind (ensure_reply env client login plan (dget (item_of s (pp_item_id plan)) ''active_lease_id'')
          (side_effect_key s (pp_item_id plan) ''github_reply'')
          (if truthy (dget (item_of s (pp_item_id plan)) ''reply_posted'') then dget (item_of s (pp_item_id plan)) ''reply_url'' else PNone)) (\<lambda>url.
        ebind (update_session (set_item (pp_item_id plan) (reply_done url login))) (\<lambda>_.
        ebind (ensure_resolved env client plan (dget (item_of s (pp_item_id plan)) ''active_lease_id'')
          (side_effect_key s (pp_item_id plan) ''github_resolve'')) (\<lambda>_.
        ebind (update_session (set_item (pp_item_id plan) (closed_item (pe_timestamp env)))) (\<lambda>_.
        ebind (publish_event env (pp_item_id plan) (dget (item_of s (pp_item_id plan)) ''active_lease_id'') ''response_published''
          [(''thread_id'', PStr (pp_thread_id plan)), (''reply_url'', url)] (Some (pe_timestamp env))) (\<lambda>_.
          ereturn (pp_item_id plan)))))))"
    by (intro kept_bind [OF reply] kept_bind [OF kept_update_session] kept_bind [OF kept_ensure_resolved [OF assms(1)]]
        kept_bind [OF kept_publish_event] kept_return set_item_id)
qed

lemma kept_plans:
  assumes "honest_client client t posts" "\<forall>plan \<in> set plans. about_thread item_id t plan"
  shows "kept posts (reply_key sid item_id) sid (execute_publish_plans env client login plans)"
  using assms(2)
  by (induction plans) (auto intro!: kept_return kept_bind kept_plan [OF assms(1)])

section \<open>Histories of runs\<close>

text \<open>
  Any number of runs, each from any loaded session of the id, with any plans, locks and
  tokens, and any remaining life; between them recoveries, transactions of other commands,
  and changes on GitHub that post no reply of the program.
\<close>

inductive publishing ::
    "'g github_client \<Rightarrow> ('g \<Rightarrow> nat) \<Rightarrow> string \<Rightarrow> string \<Rightarrow> string \<Rightarrow> 'g world \<Rightarrow> 'g world \<Rightarrow> bool"
  for client :: "'g github_client" and posts :: "'g \<Rightarrow> nat" and sid :: string and item_id :: string and t :: string where
  start: "publishing client posts sid item_id t w w"
| run: "publishing client posts sid item_id t w v \<Longrightarrow> dget session ''session_id'' = PStr sid \<Longrightarrow>
    \<forall>plan \<in> set plans. about_thread item_id t plan \<Longrightarrow>
    publishing client posts sid item_id t w
      (snd (execute_publish_plans env client login plans
        (v\<lparr>w_process := \<lparr>px_store = px_store (w_process v), px_session = session, px_held = [], px_life = life\<rparr>\<rparr>)))"
| recover: "publishing client posts sid item_id t w v \<Longrightarrow>
    publishing client posts sid item_id t w
      (v\<lparr>w_process := (w_process v)\<lparr>px_store := recover locked (px_store (w_process v))\<rparr>\<rparr>)"
| other: "publishing client posts sid item_id t w v \<Longrightarrow>
    publishing client posts sid item_id t w
      (v\<lparr>w_process := (w_process v)\<lparr>px_store := snd (transact (m :: unit mutation) expected ev [] (px_store (w_process v)))\<rparr>\<rparr>)"
| hub: "publishing client posts sid item_id t w v \<Longrightarrow> posts g = posts (w_hub v) \<Longrightarrow>
    publishing client posts sid item_id t w (v\<lparr>w_hub := g\<rparr>)"

definition history_inv :: "('g \<Rightarrow> nat) \<Rightarrow> string \<Rightarrow> 'g world \<Rightarrow> bool" where
  "history_inv posts key w \<longleftrightarrow> rows_named (st_outbox (px_store (w_process w))) \<and> posts (w_hub w) \<le> 1
     \<and> (unsent key (px_store (w_process w)) \<longrightarrow> posts (w_hub w) = 0)"

lemma publish_inv_history:
  "publish_inv posts key sid w \<longleftrightarrow> history_inv posts key w \<and> dget (px_session (w_process w)) ''session_id'' = PStr sid"
  by (auto simp: publish_inv_def history_inv_def grounded_def)

lemma history_store:
  assumes "history_inv posts key v" "calm key (px_store (w_process v)) s"
  shows "history_inv posts key (v\<lparr>w_process := (w_process v)\<lparr>px_store := s\<rparr>\<rparr>)"
  using assms by (auto simp: history_inv_def calm_def)

lemma valid_snd: "valid J P m (\<lambda>_. J) \<Longrightarrow> P w \<Longrightarrow> J (snd (m w))"
  by (cases "m w", cases "fst (m w)") (auto dest: valid_error valid_result)

lemma publishing_inv:
  assumes "publishing client posts sid item_id t w v" "honest_client client t posts" "history_inv posts (reply_key sid item_id) w"
  shows "history_inv posts (reply_key sid item_id) v"
  using assms(1,3)
proof (induction rule: publishing.induct)
  case (run w v session plans env login life)
  let ?x = "\<lparr>px_store = px_store (w_process v), px_session = session, px_held = [], px_life = life\<rparr>"
  have "publish_inv posts (reply_key sid item_id) sid (v\<lparr>w_process := ?x\<rparr>)"
    using run by (simp add: publish_inv_history history_inv_def)
  from valid_snd [OF kept_plans [OF assms(2) run.hyps(3)] this] show ?case by (simp add: publish_inv_history)
next
  case (recover w v locked)
  then show ?case by (auto intro!: history_store recover_calm)
next
  case (other w v m expected ev)
  then show ?case by (auto intro!: history_store calm_same_rows transact_rows_kept)
next
  case (hub w v g)
  then show ?case by (simp add: history_inv_def)
qed


text \<open>
  The assumption on failing calls matters: a reply whose call failed is recorded as failed,
  and a failed command is begun again whatever its retry boundary says. When the call failed
  only in its answer (a timeout after the comment was made), the next run posts it again.
\<close>

lemma failed_reply_begins_again:
  assumes "find_command attempt x = Some r" "o_status r = ''failed''"
  shows "begin_attempt now attempt records command_id owner x = mark_effect now command_id (Some owner) records x"
  using assms by (simp add: begin_attempt_def may_begin_def)

definition ex_client :: "nat github_client" where
  "ex_client = \<lparr>gc_post_reply = (\<lambda>t body g. (Inr ''u'', if t = ''T1'' then Suc g else g)), gc_resolve_thread = (\<lambda>t g. (Inr (), g)),
     gc_list_threads = (\<lambda>g. (Inr [], g)), gc_is_thread_resolved = (\<lambda>t g. (Inr True, g)),
     gc_list_pr_commit_shas = (\<lambda>g. (Inr [], g)), gc_get_stack_context = (\<lambda>g. (Inr ex_context, g)),
     gc_viewer_login = (\<lambda>g. (Inr ''bot'', g))\<rparr>"

definition ex_env :: publish_env where
  "ex_env = \<lparr>pe_repo = ''o/r'', pe_pr_number = ''7'', pe_ledger_path = ''l'', pe_agent_id = ''bot'', pe_timestamp = ''t'',
     pe_now = ''t'', pe_head_commit = [], pe_lock_held = (\<lambda>c. False), pe_owner = (\<lambda>e. ''me'')\<rparr>"

definition ex_plan :: publish_plan where
  "ex_plan = \<lparr>pp_item_id = ''i1'', pp_thread_id = ''T1'', pp_reply_body = ''hello''\<rparr>"

definition ex_world :: "nat \<Rightarrow> nat world" where
  "ex_world life = \<lparr>w_process = \<lparr>px_store = empty_store, px_session = [(''session_id'', PStr ''s'')], px_held = [],
     px_life = life\<rparr>, w_hub = 0\<rparr>"

lemma ex_client_honest: "honest_client ex_client ''T1'' id"
  by (simp add: honest_client_def ex_client_def silent_def never_replied_def row_of_thread_def List.map_filter_simps)


end
