(* ===== verification/Action_Models.thy ===== *)
theory Action_Models
  imports Leases Stack_Context Evidence_Ledger
begin

text \<open>
  What an agent is handed and how it is identified: the work item and the action request with
  their JSON forms and the request hash (\<open>core/models.py\<close>), the text of third parties put
  behind an envelope (\<open>core/untrusted_content.py\<close>), the evidence a request asks for
  (\<open>core/agent_protocol_evidence.py\<close>) and the handling boundary of an item
  (\<open>core/work_item_handlers.py\<close>). A classification is text or absent.
\<close>

section \<open>Conversions\<close>

definition TERMINAL_RESOLUTIONS :: "string list" where
  "TERMINAL_RESOLUTIONS = [''fix'', ''clarify'', ''defer'', ''reject'']"

definition SUPPORTED_PROTOCOL_VERSIONS :: "string list" where
  "SUPPORTED_PROTOCOL_VERSIONS = [''1.1'']"

definition PROTOCOL_VERSION :: string where
  "PROTOCOL_VERSION = ''1.1''"

definition string_tuple :: "pyval \<Rightarrow> py_exn + string list" where
  "string_tuple v =
     (case v of
        PNone \<Rightarrow> Inr [] | PStr s \<Rightarrow> Inr [s]
      | _ \<Rightarrow> sum_bind (py_iter v) (\<lambda>vs. Inr (map py_str vs)))"

definition no_attribute :: "pyval \<Rightarrow> string \<Rightarrow> py_exn" where
  "no_attribute v name = AttributeError (str_repr (type_name v) @ '' object has no attribute '' @ str_repr name)"

definition dict_copy :: "pyval \<Rightarrow> py_exn + pydict" where
  "dict_copy v = (if v = PNone then Inr [] else py_dict v)"

definition optional_dict_copy :: "string \<Rightarrow> pyval \<Rightarrow> py_exn + pydict option" where
  "optional_dict_copy field_name v =
     (case v of
        PNone \<Rightarrow> Inr None | PDict d \<Rightarrow> Inr (Some d)
      | _ \<Rightarrow> Inl (ValueError (field_name @ '' must be a JSON object'')))"

fun dict_list :: "pyval list \<Rightarrow> py_exn + pydict list" where
  "dict_list [] = Inr []"
| "dict_list (v # vs) = sum_bind (py_dict v) (\<lambda>d. sum_bind (dict_list vs) (\<lambda>ds. Inr (d # ds)))"

definition text_default :: "pydict \<Rightarrow> string \<Rightarrow> string \<Rightarrow> string" where
  "text_default d k dflt = py_str (dget_default d k (PStr dflt))"

section \<open>Work items\<close>

record work_item =
  wi_item_id :: string
  wi_item_kind :: string
  wi_source :: string
  wi_title :: string
  wi_body :: string
  wi_path :: pyval
  wi_line :: pyval
  wi_state :: string
  wi_allowed_actions :: "string list"
  wi_classification_evidence :: pyval
  wi_conflict_keys :: "string list"
  wi_reply_evidence :: pyval
  wi_validation_evidence :: "pydict list"
  wi_untrusted_content :: "pydict option"

text \<open>\<open>payload["item_id"]\<close> of a value that need not be a mapping.\<close>

definition value_subscript :: "pyval \<Rightarrow> string \<Rightarrow> py_exn + pyval" where
  "value_subscript v k =
     (case v of
        PDict d \<Rightarrow> subscript d k
      | PStr _ \<Rightarrow> Inl (TypeError ''string indices must be integers'')
      | PList _ \<Rightarrow> Inl (TypeError ''list indices must be integers or slices, not str'')
      | _ \<Rightarrow> Inl (TypeError (str_repr (type_name v) @ '' object is not subscriptable'')))"

definition work_item_from_dict :: "pyval \<Rightarrow> py_exn + work_item" where
  "work_item_from_dict v =
     sum_bind (value_subscript v ''item_id'') (\<lambda>item_id.
     sum_bind (value_subscript v ''item_kind'') (\<lambda>item_kind.
     let payload = (case v of PDict d \<Rightarrow> d | _ \<Rightarrow> []) in
     sum_bind (string_tuple (dget payload ''allowed_actions'')) (\<lambda>allowed_actions.
     sum_bind (string_tuple (dget payload ''conflict_keys'')) (\<lambda>conflict_keys.
     sum_bind (py_iter (dget_default payload ''validation_evidence'' (PList []))) (\<lambda>records.
     sum_bind (dict_list records) (\<lambda>validation_evidence.
     sum_bind (optional_dict_copy ''untrusted_content'' (dget payload ''untrusted_content'')) (\<lambda>untrusted_content.
       Inr \<lparr>wi_item_id = py_str item_id, wi_item_kind = py_str item_kind, wi_source = text_default payload ''source'' [],
            wi_title = text_default payload ''title'' [], wi_body = text_default payload ''body'' [],
            wi_path = dget payload ''path'', wi_line = dget payload ''line'',
            wi_state = text_default payload ''state'' ''open'', wi_allowed_actions = allowed_actions,
            wi_classification_evidence = dget payload ''classification_evidence'', wi_conflict_keys = conflict_keys,
            wi_reply_evidence = dget payload ''reply_evidence'', wi_validation_evidence = validation_evidence,
            wi_untrusted_content = untrusted_content\<rparr>)))))))"

abbreviation texts :: "string list \<Rightarrow> pyval" where
  "texts xs \<equiv> PList (map PStr xs)"

definition optional_entry :: "string \<Rightarrow> pyval \<Rightarrow> pydict" where
  "optional_entry k v = (if v = PNone then [] else [(k, v)])"

definition optional_dict_entry :: "string \<Rightarrow> pyval \<Rightarrow> py_exn + pydict" where
  "optional_dict_entry k v = (if v = PNone then Inr [] else sum_bind (py_dict v) (\<lambda>d. Inr [(k, PDict d)]))"

definition work_item_to_dict :: "work_item \<Rightarrow> py_exn + pydict" where
  "work_item_to_dict w =
     sum_bind (optional_dict_entry ''classification_evidence'' (wi_classification_evidence w)) (\<lambda>classification.
     sum_bind (optional_dict_entry ''reply_evidence'' (wi_reply_evidence w)) (\<lambda>reply.
       Inr ([(''item_id'', PStr (wi_item_id w)), (''item_kind'', PStr (wi_item_kind w)), (''source'', PStr (wi_source w)),
             (''title'', PStr (wi_title w)), (''body'', PStr (wi_body w)), (''state'', PStr (wi_state w)),
             (''allowed_actions'', texts (wi_allowed_actions w))]
            @ optional_entry ''path'' (wi_path w) @ optional_entry ''line'' (wi_line w) @ classification
            @ (if wi_conflict_keys w = [] then [] else [(''conflict_keys'', texts (wi_conflict_keys w))]) @ reply
            @ (if wi_validation_evidence w = [] then []
               else [(''validation_evidence'', PList (map PDict (wi_validation_evidence w)))])
            @ (case wi_untrusted_content w of None \<Rightarrow> [] | Some d \<Rightarrow> [(''untrusted_content'', PDict d)]))))"

section \<open>Action requests\<close>

record action_request =
  ar_schema_version :: string
  ar_request_id :: string
  ar_session_id :: string
  ar_lease_id :: string
  ar_agent_role :: lease_role
  ar_item :: work_item
  ar_allowed_actions :: "string list"
  ar_required_evidence :: "string list"
  ar_repository_context :: pydict
  ar_resume_command :: pyval
  ar_forbidden_actions :: "string list"
  ar_handling_boundary :: "pydict option"

datatype request_error = UnsupportedVersion string | RequestRaised py_exn

definition raised :: "py_exn + 'a \<Rightarrow> request_error + 'a" where
  "raised r = (case r of Inl e \<Rightarrow> Inl (RequestRaised e) | Inr a \<Rightarrow> Inr a)"

definition action_request_from_dict :: "pyval \<Rightarrow> request_error + action_request" where
  "action_request_from_dict v =
     (case v of
        PDict payload \<Rightarrow>
          (let schema_version = str_field payload ''schema_version''
           in if schema_version \<notin> set SUPPORTED_PROTOCOL_VERSIONS then Inl (UnsupportedVersion schema_version)
              else raised
                (sum_bind (text_of_key payload ''request_id'') (\<lambda>request_id.
                 sum_bind (text_of_key payload ''session_id'') (\<lambda>session_id.
                 sum_bind (text_of_key payload ''lease_id'') (\<lambda>lease_id.
                 sum_bind (text_of_key payload ''agent_role'') (\<lambda>role_text.
                 sum_bind (parse_role role_text) (\<lambda>role.
                 sum_bind (subscript payload ''item'') (\<lambda>item_value.
                 sum_bind (work_item_from_dict item_value) (\<lambda>item.
                 sum_bind (sum_bind (subscript payload ''allowed_actions'') string_tuple) (\<lambda>allowed.
                 sum_bind (sum_bind (subscript payload ''required_evidence'') string_tuple) (\<lambda>required.
                 sum_bind (dict_copy (dget payload ''repository_context'')) (\<lambda>context.
                 sum_bind (string_tuple (dget payload ''forbidden_actions'')) (\<lambda>forbidden.
                 sum_bind (optional_dict_copy ''handling_boundary'' (dget payload ''handling_boundary'')) (\<lambda>boundary.
                   Inr \<lparr>ar_schema_version = schema_version, ar_request_id = request_id, ar_session_id = session_id,
                        ar_lease_id = lease_id, ar_agent_role = role, ar_item = item, ar_allowed_actions = allowed,
                        ar_required_evidence = required, ar_repository_context = context,
                        ar_resume_command = dget payload ''resume_command'', ar_forbidden_actions = forbidden,
                        ar_handling_boundary = boundary\<rparr>))))))))))))))
      | _ \<Rightarrow> Inl (RequestRaised (no_attribute v ''get'')))"

definition action_request_to_dict :: "action_request \<Rightarrow> py_exn + pydict" where
  "action_request_to_dict r =
     sum_bind (work_item_to_dict (ar_item r)) (\<lambda>item.
       Inr ([(''schema_version'', PStr (ar_schema_version r)), (''request_id'', PStr (ar_request_id r)),
             (''session_id'', PStr (ar_session_id r)), (''lease_id'', PStr (ar_lease_id r)),
             (''agent_role'', PStr (role_value (ar_agent_role r))), (''item'', PDict item),
             (''allowed_actions'', texts (ar_allowed_actions r)), (''required_evidence'', texts (ar_required_evidence r)),
             (''repository_context'', PDict (ar_repository_context r)), (''forbidden_actions'', texts (ar_forbidden_actions r))]
            @ optional_entry ''resume_command'' (ar_resume_command r)
            @ (case ar_handling_boundary r of None \<Rightarrow> [] | Some d \<Rightarrow> [(''handling_boundary'', PDict d)])))"

text \<open>\<open>ActionRequest.from_dict(request).stable_hash()\<close>.\<close>

definition request_stable_hash :: "pyval \<Rightarrow> request_error + string" where
  "request_stable_hash v =
     sum_bind (action_request_from_dict v) (\<lambda>r.
       raised (sum_bind (action_request_to_dict r) (\<lambda>d. Inr (payload_hash d))))"

section \<open>Third-party text\<close>

definition text_entry :: "pydict \<Rightarrow> string \<Rightarrow> pydict" where
  "text_entry item k = (if truthy (dget item k) then [(k, PStr (py_str (dget item k)))] else [])"

definition untrusted_content_envelope :: "pydict \<Rightarrow> pydict" where
  "untrusted_content_envelope item =
     (let is_thread = (str_field item ''item_kind'' = ''github_thread'');
          author = py_or (dget item ''first_author_login'') (dget item ''latest_author_login'')
      in [(''source'', PStr (if is_thread then ''github_review_thread'' else ''local_finding_producer'')),
          (''body'', PStr (str_field item ''body''))]
         @ text_entry item ''first_body'' @ text_entry item ''latest_body''
         @ (if truthy author then [(''author_login'', PStr (py_str author))]
            else if \<not> is_thread \<and> truthy (dget item ''source'') then [(''producer'', PStr (py_str (dget item ''source'')))]
            else []))"

definition request_item_projection :: "pydict \<Rightarrow> pydict" where
  "request_item_projection item =
     dset ''untrusted_content'' (PDict (untrusted_content_envelope item))
       (dpop ''latest_body'' (dpop ''first_body'' (dpop ''body'' item)))"

section \<open>Required evidence and handling boundaries\<close>

definition classification_of :: "pydict \<Rightarrow> pyval" where
  "classification_of item = nested_get (dget item ''classification_evidence'') ''classification''"

definition required_evidence_for :: "pydict \<Rightarrow> string \<Rightarrow> string list" where
  "required_evidence_for item role =
     (if classification_of item \<in> PStr ` (set TERMINAL_RESOLUTIONS - {''fix''}) then [''note'', ''reply_markdown'']
      else if role = ''fixer''
      then [''note'', ''files'', ''validation_commands'']
           @ (if dget item ''item_kind'' = PStr ''github_thread'' then [''fix_reply''] else [])
      else [''note'', ''reply_markdown''])"

record handling_boundary =
  hb_boundary_id :: string
  hb_item_kinds :: "string list"
  hb_applicability :: string
  hb_priority :: int
  hb_required_evidence :: "string list"
  hb_completion_criteria :: "string list"
  hb_terminal_failure_reasons :: "string list"
  hb_next_actions :: "string list"

definition GITHUB_THREAD_FIX_BOUNDARY :: handling_boundary where
  "GITHUB_THREAD_FIX_BOUNDARY =
     \<lparr>hb_boundary_id = ''github-thread-fix'', hb_item_kinds = [''github_thread''], hb_applicability = ''matched'',
      hb_priority = 100, hb_required_evidence = [''classification'', ''files'', ''validation'', ''reply''],
      hb_completion_criteria = [''accepted_evidence'', ''published_reply'', ''resolved_thread'', ''final_gate''],
      hb_terminal_failure_reasons = [''UNSUPPORTED_WORK_ITEM'', ''BOUNDARY_CONFLICT'', ''MISSING_REQUIRED_EVIDENCE''],
      hb_next_actions = [''issue_action_request'']\<rparr>"

definition DEFAULT_BOUNDARIES :: "handling_boundary list" where
  "DEFAULT_BOUNDARIES = [GITHUB_THREAD_FIX_BOUNDARY]"

definition boundary_matches :: "handling_boundary \<Rightarrow> pydict \<Rightarrow> string \<Rightarrow> py_exn + bool" where
  "boundary_matches b item role =
     (if dget item ''item_kind'' \<notin> PStr ` set (hb_item_kinds b) then Inr False
      else if hb_boundary_id b \<noteq> ''github-thread-fix'' then Inr True
      else if role \<noteq> ''fixer'' then Inr False
      else case py_or (dget item ''classification_evidence'') (PDict []) of
             PDict evidence \<Rightarrow> Inr (dget evidence ''classification'' = PStr ''fix'')
           | v \<Rightarrow> Inl (no_attribute v ''get''))"

fun matching_boundaries :: "handling_boundary list \<Rightarrow> pydict \<Rightarrow> string \<Rightarrow> py_exn + handling_boundary list" where
  "matching_boundaries [] item role = Inr []"
| "matching_boundaries (b # bs) item role =
     sum_bind (boundary_matches b item role) (\<lambda>m.
     sum_bind (matching_boundaries bs item role) (\<lambda>ms. Inr (if m then b # ms else ms)))"

datatype boundary_error = WorkItemBoundaryError string string | BoundaryRaised py_exn

definition select_handling_boundary ::
    "pydict \<Rightarrow> string \<Rightarrow> handling_boundary list \<Rightarrow> boundary_error + handling_boundary" where
  "select_handling_boundary item role boundaries =
     (case matching_boundaries boundaries item role of
        Inl e \<Rightarrow> Inl (BoundaryRaised e)
      | Inr ms \<Rightarrow>
          (case sort_key (\<lambda>b. - hb_priority b) ms of
             [] \<Rightarrow> Inl (WorkItemBoundaryError ''UNSUPPORTED_WORK_ITEM'' (str_field item ''item_id''))
           | [b] \<Rightarrow> Inr b
           | b # c # bs \<Rightarrow> if hb_priority b = hb_priority c
               then Inl (WorkItemBoundaryError ''BOUNDARY_CONFLICT'' (str_field item ''item_id'')) else Inr b))"

definition boundary_summary_for_item :: "pydict \<Rightarrow> string \<Rightarrow> boundary_error + pydict" where
  "boundary_summary_for_item item role =
     sum_bind (select_handling_boundary item role DEFAULT_BOUNDARIES) (\<lambda>b.
       Inr [(''item_id'', PStr (str_field item ''item_id'')), (''item_kind'', PStr (str_field item ''item_kind'')),
            (''boundary_id'', PStr (hb_boundary_id b)), (''applicability'', PStr (hb_applicability b)),
            (''required_evidence'', texts (hb_required_evidence b)),
            (''completion_criteria'', texts (hb_completion_criteria b)),
            (''terminal_failure_reasons'', texts (hb_terminal_failure_reasons b)),
            (''next_action'', case hb_next_actions b of [] \<Rightarrow> PNone | a # as \<Rightarrow> PStr a)])"

definition handling_boundary_summary_or_none :: "pydict \<Rightarrow> string \<Rightarrow> py_exn + pydict option" where
  "handling_boundary_summary_or_none item role =
     (if role \<noteq> ''fixer'' \<or> dget item ''item_kind'' \<noteq> PStr ''github_thread'' then Inr None
      else case boundary_summary_for_item item role of
             Inl (BoundaryRaised e) \<Rightarrow> Inl e
           | Inl _ \<Rightarrow> Inr None
           | Inr s \<Rightarrow> Inr (Some s))"

end
