(* ===== verification/Agent_Submission.thy ===== *)
theory Agent_Submission
  imports Action_Models Publish_Plan Session_Store
begin

text \<open>
  Submitting an action response (\<open>core/agent_protocol_submission.py\<close>, with the lease lookups of
  \<open>core/agent_protocol_leases.py\<close> and the validation records of
  \<open>core/agent_protocol_validation.py\<close>): the response is prepared against its lease, item and
  issued request, its revision binding and the commit it cites are checked on GitHub, the
  lease is submitted and accepted, and the response is folded onto the item. Every rejection
  is recorded in the ledger before it is raised.

  The session is passed explicitly: its items and leases as the lease operations have them,
  and the other fields, the buffered evidence among them. The request file of a lease and
  what GitHub answers are arguments. Timing records of validation commands have no effect on
  the session and are left out; a duration is kept as the text it was written with.
\<close>

section \<open>The session of an agent command\<close>

record agent_session =
  as_leases :: lease_session
  as_doc :: pydict

type_synonym 'a agent_op = "agent_session \<Rightarrow> (effect_error + 'a) \<times> agent_session"

definition areturn :: "'a \<Rightarrow> 'a agent_op" where
  "areturn a s = (Inr a, s)"

definition araise :: "effect_error \<Rightarrow> 'a agent_op" where
  "araise e s = (Inl e, s)"

definition abind :: "'a agent_op \<Rightarrow> ('a \<Rightarrow> 'b agent_op) \<Rightarrow> 'b agent_op" where
  "abind m f s = (case m s of (Inl e, s') \<Rightarrow> (Inl e, s') | (Inr a, s') \<Rightarrow> f a s')"

lemma abind_simps [simp]:
  "m s = (Inl e, s') \<Longrightarrow> abind m f s = (Inl e, s')" "m s = (Inr a, s') \<Longrightarrow> abind m f s = f a s'"
  by (simp_all add: abind_def)

record agent_env =
  ae_repo :: string
  ae_pr_number :: string
  ae_now :: int
  ae_timestamp :: string

datatype request_file = NoFile | BadJson | JsonFile pyval

text \<open>\<open>_items(session).get(item_id)\<close>: items that are not mappings are left out.\<close>

definition session_item :: "agent_session \<Rightarrow> string \<Rightarrow> pydict option" where
  "session_item s item_id = as_dict (dget (s_items (as_leases s)) item_id)"

definition put_session_item :: "string \<Rightarrow> pydict \<Rightarrow> agent_session \<Rightarrow> agent_session" where
  "put_session_item item_id item s = s\<lparr>as_leases := put_item item_id item (as_leases s)\<rparr>"

definition session_text :: "agent_session \<Rightarrow> string \<Rightarrow> string" where
  "session_text s k = py_str (dget (as_doc s) k)"

definition append_ledger ::
    "agent_env \<Rightarrow> string \<Rightarrow> pyval \<Rightarrow> string \<Rightarrow> string \<Rightarrow> string \<Rightarrow> pydict \<Rightarrow> evidence_record agent_op" where
  "append_ledger env item_id lease_ref agent_id role event_type payload s =
     (let r = new_evidence_record (ae_timestamp env) (session_text s ''session_id'') item_id lease_ref agent_id role
                event_type payload None
      in case buffer_append r (as_doc s) of
           Inl e \<Rightarrow> (Inl (EffectRaised e), s)
         | Inr doc \<Rightarrow> (Inr r, s\<lparr>as_doc := doc\<rparr>))"

section \<open>Leases of an item\<close>

text \<open>The fields of the \<open>WorkflowError\<close> a lease error becomes.\<close>

definition recovery_to_dict :: "lease_recovery \<Rightarrow> pydict" where
  "recovery_to_dict r =
     [(''lease_id'', PStr (r_lease_id r)), (''item_id'', PStr (r_item_id r)), (''agent_id'', PStr (r_agent_id r)),
      (''request_id'', PStr (r_request_id r)), (''request_hash'', PStr (r_request_hash r)),
      (''lease_status'', PStr (r_lease_status r)), (''item_state'', PStr (r_item_state r)),
      (''recovery_outcome'', PStr (r_recovery_outcome r)), (''reason_code'', PStr (r_reason_code r))]
     @ (case r_resume_command r of None \<Rightarrow> [] | Some c \<Rightarrow> [(''resume_command'', PStr c)])"

definition active_fixer_lease_for_item :: "lease_session \<Rightarrow> string \<Rightarrow> string option \<Rightarrow> lease option" where
  "active_fixer_lease_for_item s item_id agent_id =
     find (\<lambda>l. l_item_id l = item_id \<and> l_status l = ''active'' \<and> role_value (l_role l) = ''fixer''
               \<and> (agent_id = None \<or> agent_id = Some (l_agent_id l)))
       (map snd (s_leases s))"

definition recover_rebound_github_thread_lease ::
    "agent_session \<Rightarrow> pydict \<Rightarrow> string \<Rightarrow> string \<Rightarrow> (lease \<times> string) option" where
  "recover_rebound_github_thread_lease s response item_id current_lease_id =
     (let i = py_strip item_id
      in case (if i = [] then None else session_item s i) of
           None \<Rightarrow> None
         | Some item \<Rightarrow>
             if dget item ''item_kind'' \<noteq> PStr ''github_thread'' \<or> str_field response ''resolution'' \<noteq> ''fix'' then None
             else if lower_field item ''state'' \<notin> {''stale'', ''claimed''} \<and> \<not> truthy (dget item ''is_outdated'') then None
             else (case active_fixer_lease_for_item (as_leases s) i (Some (str_field response ''agent_id'')) of
                     None \<Rightarrow> None
                   | Some l \<Rightarrow> if lease_id l = [] \<or> lease_id l = current_lease_id then None else Some (l, i)))"

record prepared =
  pr_lease_id :: string
  pr_lease :: lease
  pr_item_id :: string
  pr_item :: pydict
  pr_expected_request_hash :: string

text \<open>The lease stored under an id may have changed since it was prepared; its item too.\<close>

definition release_irrecoverable_request_lease :: "agent_env \<Rightarrow> prepared \<Rightarrow> unit agent_op" where
  "release_irrecoverable_request_lease env p s =
     (let released = (if l_status (pr_lease p) \<in> {''active'', ''submitted''}
                      then release_lease (pr_lease_id p) (ae_now env) (Some ''stale_request_context'') (as_leases s)
                      else (Inr (pr_lease p), as_leases s))
      in case released of
           (Inl (LeaseSubmissionError code detail recovery), ls) \<Rightarrow> (Inl (EffectRaised (ValueError code)), s\<lparr>as_leases := ls\<rparr>)
         | (Inl (LeaseConflictError code detail), ls) \<Rightarrow> (Inl (EffectRaised (ValueError code)), s\<lparr>as_leases := ls\<rparr>)
         | (Inl (LeaseRaised e), ls) \<Rightarrow> (Inl (EffectRaised e), s\<lparr>as_leases := ls\<rparr>)
         | (Inr l, ls) \<Rightarrow>
             (let s1 = s\<lparr>as_leases := ls\<rparr>; active = str_field (pr_item p) ''active_lease_id''
              in (Inr (), if active \<noteq> [] \<and> active \<noteq> pr_lease_id p then s1
                          else put_session_item (pr_item_id p) (clear_claim (return_item_to_claimable_state (pr_item p))) s1)))"

text \<open>The check of a batch before any lease is submitted.\<close>

definition lease_submission_rejection_reason :: "pydict \<Rightarrow> prepared \<Rightarrow> int \<Rightarrow> string option" where
  "lease_submission_rejection_reason response p now =
     (let l = pr_lease p
      in if l_status l = ''submitted'' then Some ''DUPLICATE_SUBMISSION''
         else if l_status l \<noteq> ''active'' then Some ''STALE_LEASE''
         else if is_expired l now then Some ''EXPIRED_LEASE''
         else if l_agent_id l \<noteq> py_str (dget response ''agent_id'') then Some ''WRONG_AGENT''
         else if l_item_id l \<noteq> pr_item_id p then Some ''WRONG_ITEM''
         else if (case l_request_hash l of None \<Rightarrow> ''None'' | Some h \<Rightarrow> h) \<noteq> pr_expected_request_hash p
         then Some ''STALE_REQUEST_CONTEXT'' else None)"

definition lease_recovery_payload_for_response ::
    "agent_session \<Rightarrow> pydict \<Rightarrow> lease \<Rightarrow> string \<Rightarrow> string \<Rightarrow> int \<Rightarrow> pydict" where
  "lease_recovery_payload_for_response s response l item_id request_hash now =
     recovery_to_dict (calculate_lease_recovery_state (as_leases s)
       (if lease_id l = [] then str_field response ''lease_id'' else lease_id l)
       (if truthy (dget response ''agent_id'') then py_str (dget response ''agent_id'') else l_agent_id l)
       (role_str (l_role l)) item_id request_hash now)"

section \<open>Validation commands\<close>

definition VALIDATION_RESULTS :: "string list" where
  "VALIDATION_RESULTS =
     [''pass'', ''passed'', ''success'', ''succeeded'', ''ok'', ''fail'', ''failed'', ''error'', ''skipped'']"

definition looks_like_validation_result :: "string \<Rightarrow> bool" where
  "looks_like_validation_result value \<longleftrightarrow> py_lower (py_strip value) \<in> set VALIDATION_RESULTS"

definition is_digit :: "char \<Rightarrow> bool" where
  "is_digit c \<longleftrightarrow> c \<in> set ''0123456789''"

text \<open>Digits, and optionally a point and digits again: the number of a timing suffix.\<close>

definition is_decimal :: "string \<Rightarrow> bool" where
  "is_decimal s \<longleftrightarrow>
     (case split_char CHR ''.'' s of
        [a] \<Rightarrow> a \<noteq> [] \<and> list_all is_digit a
      | [a, b] \<Rightarrow> a \<noteq> [] \<and> b \<noteq> [] \<and> list_all is_digit a \<and> list_all is_digit b
      | _ \<Rightarrow> False)"

definition timing_unit :: "string \<Rightarrow> string option" where
  "timing_unit s =
     (let n = length s
      in if 2 \<le> n \<and> drop (n - 2) s = ''ms'' \<and> is_decimal (take (n - 2) s) then Some ''ms''
         else if 1 \<le> n \<and> drop (n - 1) s = ''s'' \<and> is_decimal (take (n - 1) s) then Some ''s'' else None)"

definition strip_validation_duration_suffix :: "string \<Rightarrow> string \<times> string option" where
  "strip_validation_duration_suffix value =
     (let (token, found, suffix) = py_rpartition CHR ''@'' (py_strip value)
      in if found \<and> timing_unit suffix \<noteq> None then (token, Some suffix) else (value, None))"

definition split_validation_command_record :: "string \<Rightarrow> string \<times> string \<times> string option" where
  "split_validation_command_record raw =
     (let (command, separator, result) = py_rpartition CHR ''='' raw;
          (token, duration) = strip_validation_duration_suffix result
      in if \<not> separator \<or> \<not> looks_like_validation_result token then (py_strip raw, ''passed'', None)
         else (py_strip command, py_strip token, duration))"

definition validation_row :: "pyval \<Rightarrow> pydict option" where
  "validation_row entry =
     (let (command, result, summary, duration, start_time, end_time) =
            (case entry of
               PDict d \<Rightarrow> (stripped_field d ''command'', stripped_field d ''result'', stripped_field d ''summary'',
                           dget d ''duration'', dget d ''start_time'', dget d ''end_time'')
             | v \<Rightarrow> (case split_validation_command_record (py_strip (py_str (py_or v (PStr [])))) of
                       (c, r, t) \<Rightarrow> (c, r, [], case t of None \<Rightarrow> PNone | Some x \<Rightarrow> PStr x, PNone, PNone)))
      in if command = [] \<or> result = [] then None
         else Some ([(''command'', PStr command), (''result'', PStr result)]
                    @ (if summary = [] then [] else [(''summary'', PStr summary)])
                    @ optional_entry ''duration'' duration @ optional_entry ''start_time'' start_time
                    @ optional_entry ''end_time'' end_time))"

definition normalize_validation_command_records :: "pyval \<Rightarrow> pydict list" where
  "normalize_validation_command_records value =
     (case value of PList xs \<Rightarrow> List.map_filter validation_row xs | _ \<Rightarrow> [])"

section \<open>Rejections\<close>

text \<open>\<open>session.get("leases", {}).get(lease_id) if lease_id else None\<close>.\<close>

definition lease_of_value :: "pyval \<Rightarrow> lease_session \<Rightarrow> py_exn + lease option" where
  "lease_of_value v s =
     (if \<not> truthy v then Inr None
      else case v of
             PStr k \<Rightarrow> Inr (lease_at s k)
           | PDict _ \<Rightarrow> Inl (TypeError (''unhashable type: '' @ str_repr ''dict'')) | PList _ \<Rightarrow> Inl (TypeError (''unhashable type: '' @ str_repr ''list''))
           | _ \<Rightarrow> Inr None)"

definition record_response_rejected :: "agent_env \<Rightarrow> pydict \<Rightarrow> string \<Rightarrow> string option \<Rightarrow> unit agent_op" where
  "record_response_rejected env response reason_code item_id s =
     (case lease_of_value (dget response ''lease_id'') (as_leases s) of
        Inl e \<Rightarrow> (Inl (EffectRaised e), s)
      | Inr l \<Rightarrow>
          (case append_ledger env
                  (case item_id of Some i \<Rightarrow> i | None \<Rightarrow> (case l of None \<Rightarrow> [] | Some x \<Rightarrow> l_item_id x))
                  (dget response ''lease_id'')
                  (if truthy (dget response ''agent_id'') then py_str (dget response ''agent_id'') else ''unknown'')
                  (case l of None \<Rightarrow> ''unknown'' | Some x \<Rightarrow> role_str (l_role x))
                  ''response_rejected'' [(''reason_code'', PStr reason_code)] s of
             (Inl e, s') \<Rightarrow> (Inl e, s') | (Inr r, s') \<Rightarrow> (Inr (), s')))"

definition raise_response_rejected ::
    "agent_env \<Rightarrow> string \<Rightarrow> pydict \<Rightarrow> string \<Rightarrow> string \<Rightarrow> string \<Rightarrow> pydict option \<Rightarrow> 'a agent_op" where
  "raise_response_rejected env status response reason_code item_id lid recovery =
     abind (record_response_rejected env response reason_code (Some item_id)) (\<lambda>_.
       araise (WorkflowError status reason_code
         ([(''item_id'', PStr item_id),
           (''lease_id'', if lid = [] then dget response ''lease_id'' else PStr lid)]
          @ (case recovery of None \<Rightarrow> [] | Some d \<Rightarrow> if d = [] then [] else [(''lease_recovery'', PDict d)]))))"

section \<open>Checking a response\<close>

definition has_classification_evidence :: "pydict \<Rightarrow> bool" where
  "has_classification_evidence item \<longleftrightarrow>
     is_dict (dget item ''classification_evidence'') \<and> classification_of item \<in> PStr ` set TERMINAL_RESOLUTIONS"

definition is_thread_item :: "pydict \<Rightarrow> bool" where
  "is_thread_item item \<longleftrightarrow> dget item ''item_kind'' = PStr ''github_thread''"

definition expanded_response :: "pydict \<Rightarrow> pydict \<Rightarrow> string option \<times> pydict" where
  "expanded_response profile response =
     (let profile_files = normalize_string_list (dget profile ''files'');
          own_files = normalize_string_list (dget response ''files'');
          r1 = (if own_files = [] \<and> profile_files \<noteq> [] then dset ''files'' (texts profile_files) response else response);
          files = (if own_files = [] then profile_files else own_files);
          rows = normalize_validation_command_records (dget profile ''validation_commands'');
          r2 = (if \<not> truthy (dget r1 ''validation_commands'') \<and> rows \<noteq> []
                then dset ''validation_commands'' (PList (map PDict rows)) r1 else r1)
      in if dget r2 ''fix_reply'' \<noteq> PNone \<and> \<not> is_dict (dget r2 ''fix_reply'') then (Some ''INVALID_FIX_REPLY'', r2)
         else let m0 = fold (\<lambda>(k, v). dset k v) (dict_or_empty (dget r2 ''fix_reply'')) (dict_or_empty (dget profile ''fix_reply''));
                  m1 = (if truthy (dget profile ''commit_hash'') \<and> \<not> truthy (dget m0 ''commit_hash'')
                        then dset ''commit_hash'' (dget profile ''commit_hash'') m0 else m0);
                  m2 = (if files \<noteq> [] \<and> \<not> truthy (dget m1 ''files'') then dset ''files'' (texts files) m1 else m1)
              in (None, if str_field r2 ''resolution'' = ''fix'' \<and> m2 \<noteq> [] then dset ''fix_reply'' (PDict m2) r2 else r2))"

definition expand_evidence_ref :: "agent_session \<Rightarrow> pydict \<Rightarrow> string option \<times> pydict" where
  "expand_evidence_ref s response =
     (let ref = stripped_field response ''evidence_ref''
      in if ref = [] then (None, response)
         else case nested_get (dget (as_doc s) ''evidence_profiles'') ref of
                PDict profile \<Rightarrow> expanded_response profile response
              | _ \<Rightarrow> (Some ''EVIDENCE_PROFILE_NOT_FOUND'', response))"

definition forbidden_response_keys :: "string list" where
  "forbidden_response_keys =
     [''github_side_effects'', ''reply_posted'', ''reply_url'', ''thread_resolved'', ''resolved_thread_id'']"

definition claims_direct_github_side_effect :: "pydict \<Rightarrow> bool" where
  "claims_direct_github_side_effect response \<longleftrightarrow> (\<exists>k \<in> set forbidden_response_keys. has_key response k)"

definition validate_fix_response :: "pydict \<Rightarrow> pydict \<Rightarrow> string option" where
  "validate_fix_response response item =
     (if \<not> has_classification_evidence item then Some ''MISSING_CLASSIFICATION''
      else if \<not> truthy (dget response ''files'') then Some ''MISSING_FILES''
      else if \<not> truthy (dget response ''validation_commands'') then Some ''MISSING_VALIDATION_COMMANDS''
      else if \<not> is_thread_item item then None
      else if \<not> truthy (dget response ''fix_reply'') then Some ''MISSING_FIX_REPLY''
      else case dget response ''fix_reply'' of
             PDict f \<Rightarrow>
               (case fix_reply_severity_rejection_reason f item of
                  Some e \<Rightarrow> Some e
                | None \<Rightarrow> validate_fix_reply_for_submit item response)
           | _ \<Rightarrow> Some ''INVALID_FIX_REPLY'')"

definition required_response_fields :: "string list" where
  "required_response_fields = [''request_id'', ''lease_id'', ''agent_id'', ''resolution'', ''note'']"

definition validate_response :: "pydict \<Rightarrow> pydict \<Rightarrow> string option" where
  "validate_response response item =
     (case find (\<lambda>k. \<not> truthy (dget response k)) required_response_fields of
        Some k \<Rightarrow> Some (''MISSING_'' @ py_upper k)
      | None \<Rightarrow>
          if claims_direct_github_side_effect response then Some ''DIRECT_GITHUB_SIDE_EFFECT_FORBIDDEN''
          else let resolution = py_str (dget response ''resolution'')
               in if resolution \<notin> set TERMINAL_RESOLUTIONS then Some ''UNSUPPORTED_RESOLUTION''
                  else if resolution = ''fix'' then validate_fix_response response item
                  else if has_key response ''validation_commands''
                          \<and> normalize_validation_command_records (dget response ''validation_commands'') = []
                  then Some ''INVALID_VALIDATION_COMMANDS''
                  else if \<not> truthy (dget response ''reply_markdown'') then Some ''MISSING_REPLY_MARKDOWN''
                  else None)"

text \<open>The request a response answers: the hash its lease must carry, or why it is refused.\<close>

definition file_request_hash :: "string \<Rightarrow> request_file \<Rightarrow> py_exn + (string + string)" where
  "file_request_hash response_request_id file =
     (case file of
        NoFile \<Rightarrow> Inr (Inl ''REQUEST_CONTEXT_NOT_FOUND'')
      | BadJson \<Rightarrow> Inr (Inl ''INVALID_REQUEST_CONTEXT'')
      | JsonFile v \<Rightarrow>
          (case request_stable_hash v of
             Inl (UnsupportedVersion _) \<Rightarrow> Inr (Inl ''REQUEST_PROTOCOL_SUPERSEDED'')
           | Inl (RequestRaised (AttributeError t)) \<Rightarrow> Inl (AttributeError t)
           | Inl (RequestRaised _) \<Rightarrow> Inr (Inl ''INVALID_REQUEST_CONTEXT'')
           | Inr h \<Rightarrow>
               if response_request_id \<noteq> str_field (dict_or_empty v) ''request_id''
               then Inr (Inl ''STALE_REQUEST_CONTEXT'') else Inr (Inr h)))"

definition given_text :: "string option \<Rightarrow> string" where
  "given_text x = (case x of None \<Rightarrow> [] | Some t \<Rightarrow> t)"

definition expected_request_hash_for_response ::
    "(string \<Rightarrow> request_file) \<Rightarrow> pydict \<Rightarrow> lease \<Rightarrow> py_exn + (string + string)" where
  "expected_request_hash_for_response files response l =
     (let rid = py_str (dget response ''request_id'')
      in if given_text (l_request_path l) \<noteq> [] then file_request_hash rid (files (given_text (l_request_path l)))
         else if given_text (l_request_id l) \<noteq> []
         then Inr (if rid \<noteq> given_text (l_request_id l) then Inl ''STALE_REQUEST_CONTEXT''
                   else Inr (case l_request_hash l of None \<Rightarrow> ''None'' | Some h \<Rightarrow> h))
         else if given_text (l_request_hash l) \<noteq> []
         then Inr (if rid \<noteq> given_text (l_request_hash l) then Inl ''STALE_REQUEST_CONTEXT'' else Inr (given_text (l_request_hash l)))
         else Inr (Inl ''REQUEST_CONTEXT_NOT_FOUND''))"

section \<open>Preparing a submission\<close>

definition required_response_field :: "string \<Rightarrow> pydict \<Rightarrow> string \<Rightarrow> string agent_op" where
  "required_response_field status response k =
     (if truthy (dget response k) then areturn (py_str (dget response k))
      else araise (WorkflowError status (''MISSING_'' @ py_upper k) []))"

text \<open>The checks shared by a lease found by its id and a rebound one.\<close>

definition checked_response ::
    "agent_env \<Rightarrow> string \<Rightarrow> pydict \<Rightarrow> pydict \<Rightarrow> string \<Rightarrow> string \<Rightarrow> pydict agent_op" where
  "checked_response env status response item item_id lid s =
     (case expand_evidence_ref s response of
        (Some reason, r) \<Rightarrow> raise_response_rejected env status r reason item_id lid None s
      | (None, r) \<Rightarrow>
          (case validate_response r item of
             Some reason \<Rightarrow> raise_response_rejected env status r reason item_id lid None s
           | None \<Rightarrow> (Inr r, s)))"

definition reject_submission :: "agent_env \<Rightarrow> string \<Rightarrow> pydict \<Rightarrow> string \<Rightarrow> 'a agent_op" where
  "reject_submission env status response reason =
     abind (record_response_rejected env response reason None) (\<lambda>_. araise (WorkflowError status reason []))"

definition prepare_found ::
    "agent_env \<Rightarrow> (string \<Rightarrow> request_file) \<Rightarrow> string \<Rightarrow> pydict \<Rightarrow> string \<Rightarrow> lease \<Rightarrow> (prepared \<times> pydict) agent_op" where
  "prepare_found env files status response lid l s =
     (let item_id = l_item_id l
      in if truthy (dget response ''item_id'') \<and> py_str (dget response ''item_id'') \<noteq> item_id
         then raise_response_rejected env status response ''ITEM_ID_MISMATCH'' item_id lid None s
         else case session_item s item_id of
                None \<Rightarrow> reject_submission env status response ''ITEM_NOT_FOUND'' s
              | Some item \<Rightarrow>
                  (case checked_response env status response item item_id lid s of
                     (Inl e, s1) \<Rightarrow> (Inl e, s1)
                   | (Inr r, s1) \<Rightarrow>
                       (case expected_request_hash_for_response files r l of
                          Inl e \<Rightarrow> (Inl (EffectRaised e), s1)
                        | Inr (Inl reason) \<Rightarrow>
                            raise_response_rejected env status r reason item_id lid
                              (Some (lease_recovery_payload_for_response s1 r l item_id (str_field r ''request_id'') (ae_now env))) s1
                        | Inr (Inr h) \<Rightarrow>
                            (Inr (\<lparr>pr_lease_id = lid, pr_lease = l, pr_item_id = item_id, pr_item = item,
                                   pr_expected_request_hash = h\<rparr>, r), s1))))"

definition prepare_rebound ::
    "agent_env \<Rightarrow> string \<Rightarrow> pydict \<Rightarrow> lease \<Rightarrow> string \<Rightarrow> (prepared \<times> pydict) agent_op" where
  "prepare_rebound env status response l item_id s =
     (let item = (case session_item s item_id of None \<Rightarrow> [] | Some i \<Rightarrow> i)
      in abind (checked_response env status response item item_id (lease_id l))
           (\<lambda>r. areturn (\<lparr>pr_lease_id = lease_id l, pr_lease = l, pr_item_id = item_id, pr_item = item,
                          pr_expected_request_hash = given_text (l_request_hash l)\<rparr>, r)) s)"

definition prepare_action_response_submission ::
    "agent_env \<Rightarrow> (string \<Rightarrow> request_file) \<Rightarrow> string \<Rightarrow> pydict \<Rightarrow> (prepared \<times> pydict) agent_op" where
  "prepare_action_response_submission env files status response =
     abind (required_response_field status response ''lease_id'') (\<lambda>lid s.
       case lease_at (as_leases s) lid of
         Some l \<Rightarrow> prepare_found env files status response lid l s
       | None \<Rightarrow>
           (case recover_rebound_github_thread_lease s response (str_field response ''item_id'') lid of
              Some (l, item_id) \<Rightarrow> prepare_rebound env status response l item_id s
            | None \<Rightarrow> reject_submission env status response ''LEASE_NOT_FOUND'' s))"

section \<open>Checks on GitHub\<close>

definition lease_exception :: "lease_error \<Rightarrow> effect_error" where
  "lease_exception e =
     (case e of
        LeaseConflictError code detail \<Rightarrow> EffectRaised (ValueError (code @ '': '' @ detail))
      | LeaseSubmissionError code detail recovery \<Rightarrow> EffectRaised (ValueError (code @ '': '' @ detail))
      | LeaseRaised x \<Rightarrow> EffectRaised x)"

definition request_repository_context :: "(string \<Rightarrow> request_file) \<Rightarrow> lease \<Rightarrow> pydict option" where
  "request_repository_context files l =
     (if given_text (l_request_path l) = [] then None
      else case files (given_text (l_request_path l)) of
             JsonFile (PDict request) \<Rightarrow> as_dict (dget request ''repository_context'')
           | _ \<Rightarrow> None)"

text \<open>
  Why the binding of the issued request does not allow the response, from what was issued and
  what is observed now; \<open>None\<close> accepts it. The observation is only read where it is needed.
\<close>

definition binding_rejection ::
    "string \<Rightarrow> pydict option \<Rightarrow> bool \<Rightarrow> stack_context option \<Rightarrow> string option \<times> stack_context option" where
  "binding_rejection pr_number context was_known_stacked observed =
     (let binding = (case context of None \<Rightarrow> None | Some c \<Rightarrow> as_dict (dget c ''revision_binding''));
          availability = (case context of None \<Rightarrow> []
             | Some c \<Rightarrow> (case dget c ''stack_context'' of PDict d \<Rightarrow> str_field d ''availability'' | _ \<Rightarrow> []))
      in if binding \<noteq> None \<and> str_field (the binding) ''pr_number'' \<noteq> pr_number
         then (Some ''STACK_ACTION_CONTEXT_MISMATCH'', None)
         else if binding = None \<and> availability = ''invalid'' then (Some ''STACK_CONTEXT_INVALID'', None)
         else if binding = None \<and> availability \<notin> {''present'', ''unavailable''}
         then (if was_known_stacked then Some ''STALE_REQUEST_CONTEXT'' else None, None)
         else case observed of
                None \<Rightarrow> (if binding \<noteq> None \<or> was_known_stacked then Some ''STACK_CONTEXT_UNAVAILABLE'' else None, None)
              | Some current \<Rightarrow>
                  ((case binding of
                      Some b \<Rightarrow> compare_revision_binding (PDict b) current
                    | None \<Rightarrow>
                        if availability = ''present'' then Some ''STALE_REQUEST_CONTEXT''
                        else if k_availability current = ''present'' then Some ''STALE_REQUEST_CONTEXT''
                        else if k_availability current = ''invalid'' then Some ''STACK_CONTEXT_INVALID''
                        else if k_availability current = ''unavailable'' \<and> was_known_stacked then Some ''STACK_CONTEXT_UNAVAILABLE''
                        else None), Some current))"

definition stack_context_reasons :: "string list" where
  "stack_context_reasons = [''STACK_CONTEXT_INVALID'', ''STACK_CONTEXT_UNAVAILABLE'']"

definition verify_request_revision_binding ::
    "agent_env \<Rightarrow> (string \<Rightarrow> request_file) \<Rightarrow> string \<Rightarrow> stack_context option \<Rightarrow> prepared \<Rightarrow> pydict \<Rightarrow> pydict option agent_op" where
  "verify_request_revision_binding env files status observed p response s =
     (let context = request_repository_context files (pr_lease p);
          (reason, current) = binding_rejection (ae_pr_number env) context (has_observed_stack_membership (as_doc s)) observed;
          s1 = (case current of None \<Rightarrow> s | Some c \<Rightarrow> s\<lparr>as_doc := cache_pull_request_context (as_doc s) (context_to_dict c)\<rparr>)
      in case reason of
           None \<Rightarrow> (Inr (case context of None \<Rightarrow> None | Some c \<Rightarrow> as_dict (dget c ''revision_binding'')), s1)
         | Some code \<Rightarrow>
             abind (record_response_rejected env response code (Some (pr_item_id p))) (\<lambda>_.
             abind (if code \<in> {''STALE_REQUEST_CONTEXT'', ''STACK_ACTION_CONTEXT_MISMATCH''}
                    then release_irrecoverable_request_lease env p else areturn ()) (\<lambda>_.
               araise (WorkflowError status code
                 ([(''item_id'', PStr (pr_item_id p)), (''lease_id'', PStr (pr_lease_id p))]
                  @ (if code \<in> set stack_context_reasons then stack_diagnostic_payload current else []))))) s1)"

definition verify_cited_commit_in_pr ::
    "agent_env \<Rightarrow> string \<Rightarrow> github_error + string list \<Rightarrow> prepared \<Rightarrow> pydict \<Rightarrow> unit agent_op" where
  "verify_cited_commit_in_pr env status commits p response s =
     (let commit = cited_commit response
      in if commit = [] then (Inr (), s)
         else case commits of
                Inl e \<Rightarrow> (Inl (GitHubRaised e), s)
              | Inr shas \<Rightarrow>
                  if commit_in_pr commit shas then (Inr (), s)
                  else raise_response_rejected env status response ''COMMIT_NOT_IN_PR'' (pr_item_id p) (pr_lease_id p) None s)"

section \<open>Accepting a response\<close>

definition local_status_for_resolution :: "string \<Rightarrow> string" where
  "local_status_for_resolution resolution =
     (if resolution = ''fix'' then ''CLOSED'' else if resolution = ''clarify'' then ''CLARIFIED''
      else if resolution = ''defer'' then ''DEFERRED'' else if resolution = ''reject'' then ''DROPPED''
      else py_upper resolution)"

definition copied_entry :: "string \<Rightarrow> string \<Rightarrow> pydict \<Rightarrow> pydict" where
  "copied_entry k source d = (if truthy (dget d source) then [(k, dget d source)] else [])"

definition accepted_response_of :: "pydict \<Rightarrow> pydict" where
  "accepted_response_of response =
     [(''note'', dget response ''note''), (''resolution'', PStr (py_str (dget response ''resolution''))),
      (''files'', dget_default response ''files'' (PList [])),
      (''validation_commands'', dget_default response ''validation_commands'' (PList [])),
      (''reply_markdown'', dget response ''reply_markdown''), (''fix_reply'', dget response ''fix_reply'')]
     @ copied_entry ''revision_binding'' ''_runtime_revision_binding'' response
     @ copied_entry ''evidence_ref'' ''evidence_ref'' response"

text \<open>\<open>item[k] = v\<close> for each pair, in order.\<close>

definition set_all :: "pydict \<Rightarrow> pydict \<Rightarrow> pydict" where
  "set_all kvs d = fold (\<lambda>(k, v). dset k v) kvs d"

definition apply_response_to_item :: "string \<Rightarrow> pydict \<Rightarrow> pydict \<Rightarrow> pydict" where
  "apply_response_to_item timestamp response item =
     (let resolution = py_str (dget response ''resolution'')
      in if is_thread_item item
         then set_all [(''state'', PStr ''publish_ready''), (''status'', PStr ''OPEN''), (''blocking'', PBool True),
                       (''publish_resolution'', PStr resolution), (''accepted_response'', PDict (accepted_response_of response))] item
         else set_all
           ([(''state'', PStr (if resolution = ''fix'' then ''fixed'' else resolution)),
             (''status'', PStr (local_status_for_resolution resolution)), (''blocking'', PBool False),
             (''handled'', PBool True), (''handled_at'', PStr timestamp), (''resolution_note'', dget response ''note''),
             (''validation_evidence'', dget_default response ''validation_commands'' (PList []))]
            @ copied_entry ''revision_binding'' ''_runtime_revision_binding'' response
            @ [(''claimed_by'', PNone), (''claimed_at'', PNone), (''lease_expires_at'', PNone)]
            @ copied_entry ''files'' ''files'' response @ copied_entry ''reply_markdown'' ''reply_markdown'' response
            @ copied_entry ''fix_reply'' ''fix_reply'' response @ copied_entry ''evidence_ref'' ''evidence_ref'' response) item)"

text \<open>What the ledger keeps of an accepted response, to fold it onto the item again.\<close>

definition replayable_action_response :: "pydict \<Rightarrow> pydict" where
  "replayable_action_response response =
     [(''resolution'', dget response ''resolution''), (''note'', dget response ''note''),
      (''files'', dget_default response ''files'' (PList [])),
      (''validation_commands'', dget_default response ''validation_commands'' (PList []))]
     @ optional_entry ''reply_markdown'' (dget response ''reply_markdown'')
     @ optional_entry ''fix_reply'' (dget response ''fix_reply'')
     @ optional_entry ''evidence_ref'' (dget response ''evidence_ref'')"

definition submit_args_of :: "agent_env \<Rightarrow> pydict \<Rightarrow> lease \<Rightarrow> string \<Rightarrow> string \<Rightarrow> submit_args" where
  "submit_args_of env response l item_id request_hash =
     \<lparr>u_agent_id = py_str (dget response ''agent_id''), u_role = role_str (l_role l), u_item_id = item_id,
      u_request_hash = request_hash, u_now = ae_now env\<rparr>"

definition submit_and_accept ::
    "agent_env \<Rightarrow> pydict \<Rightarrow> string \<Rightarrow> lease \<Rightarrow> string \<Rightarrow> string \<Rightarrow> agent_session \<Rightarrow> lease_error option \<times> agent_session" where
  "submit_and_accept env response lid l item_id request_hash s =
     (case submit_lease lid (submit_args_of env response l item_id request_hash) (as_leases s) of
        (Inl e, ls) \<Rightarrow> (Some e, s\<lparr>as_leases := ls\<rparr>)
      | (Inr _, ls) \<Rightarrow>
          (case accept_lease lid (ae_now env) ls of
             (Inl e, ls') \<Rightarrow> (Some e, s\<lparr>as_leases := ls'\<rparr>)
           | (Inr _, ls') \<Rightarrow> (None, s\<lparr>as_leases := ls'\<rparr>)))"

text \<open>The lease is accepted, by its replacement when it was rebound; the lease that was used is returned.\<close>

definition accept_response_lease :: "agent_env \<Rightarrow> string \<Rightarrow> pydict \<Rightarrow> prepared \<Rightarrow> (string \<times> lease) agent_op" where
  "accept_response_lease env status response p s =
     (case submit_and_accept env response (pr_lease_id p) (pr_lease p) (pr_item_id p) (pr_expected_request_hash p) s of
        (None, s1) \<Rightarrow> (Inr (pr_lease_id p, pr_lease p), s1)
      | (Some (LeaseSubmissionError code detail recovery), s1) \<Rightarrow>
          (case (if code \<in> {''STALE_LEASE'', ''LEASE_NOT_FOUND''}
                 then recover_rebound_github_thread_lease s1 response (pr_item_id p) (pr_lease_id p) else None) of
             None \<Rightarrow>
               abind (record_response_rejected env response code (Some (pr_item_id p))) (\<lambda>_.
                 araise (WorkflowError status code
                   ([(''item_id'', PStr (pr_item_id p)), (''lease_id'', PStr (pr_lease_id p))]
                    @ (case recovery of None \<Rightarrow> [] | Some r \<Rightarrow> [(''lease_recovery'', PDict (recovery_to_dict r))])))) s1
           | Some (l, item_id) \<Rightarrow>
               (case submit_and_accept env response (lease_id l) l (pr_item_id p) (given_text (l_request_hash l)) s1 of
                  (None, s2) \<Rightarrow> (Inr (lease_id l, l), s2)
                | (Some e, s2) \<Rightarrow> (Inl (lease_exception e), s2)))
      | (Some e, s1) \<Rightarrow> (Inl (lease_exception e), s1))"

definition reject_verification :: "agent_env \<Rightarrow> pydict \<Rightarrow> string \<Rightarrow> string \<Rightarrow> lease \<Rightarrow> 'a agent_op" where
  "reject_verification env response item_id lid l s =
     (let item = (case session_item s item_id of None \<Rightarrow> [] | Some i \<Rightarrow> i);
          s1 = put_session_item item_id
                 (set_all [(''state'', PStr ''open''), (''blocking'', PBool True), (''verification_rejection_note'', dget response ''note'')] item) s
      in abind (append_ledger env item_id (PStr lid) (py_str (dget response ''agent_id'')) (role_str (l_role l)) ''verification_rejected''
            [(''note'', dget response ''note''), (''validation_commands'', dget_default response ''validation_commands'' (PList []))])
          (\<lambda>r. araise (WorkflowError ''VERIFICATION_REJECTED'' ''VERIFICATION_REJECTED''
             [(''item_id'', PStr item_id), (''lease_id'', PStr lid), (''evidence_record_id'', PStr (er_record_id r))])) s1)"

definition accept_action_response_submission ::
    "agent_env \<Rightarrow> string \<Rightarrow> pydict \<Rightarrow> prepared \<Rightarrow> evidence_record agent_op" where
  "accept_action_response_submission env status response p =
     abind (accept_response_lease env status response p) (\<lambda>(lid, l) s.
       if role_str (l_role l) = ''verifier'' \<and> py_str (dget response ''resolution'') = ''reject''
       then reject_verification env response (pr_item_id p) lid l s
       else (let item = (case session_item s (pr_item_id p) of None \<Rightarrow> [] | Some i \<Rightarrow> i);
                 s1 = put_session_item (pr_item_id p) (apply_response_to_item (ae_timestamp env) response item) s
             in append_ledger env (pr_item_id p) (PStr lid) (py_str (dget response ''agent_id'')) (role_str (l_role l))
                  ''response_accepted''
                  [(''resolution'', dget response ''resolution''), (''note'', dget response ''note''),
                   (''response'', PDict (replayable_action_response response))] s1))"

end
