(* ===== verification/Agent_Protocol.thy ===== *)
theory Agent_Protocol
  imports Agent_Submission Lease_Properties
begin

text \<open>
  The agent protocol (\<open>core/agent_protocol.py\<close>): classifying an item, choosing and issuing the
  next action request, re-entering a lease that is already held, and submitting a response.

  The store is the committed session with its revision and evidence, and the request and
  response files beside it. Commands on a working set are modelled on the whole session,
  which shows the same rows (\<open>Working_Set_Properties\<close>); the claims shown on items are
  derived from the leases at every load and commit. What other processes commit while a
  command reads GitHub is an argument. Writing response skeletons has no effect on the
  protocol and is left out.
\<close>

section \<open>The store\<close>

record agent_store =
  ag_session :: agent_session
  ag_revision :: nat
  ag_evidence :: "pydict list"
  ag_files :: "string \<Rightarrow> request_file"

text \<open>The fields of a lease that a claimed item mirrors; instants stay numbers.\<close>

definition lease_claim :: "lease \<Rightarrow> pydict" where
  "lease_claim l =
     [(''lease_id'', PStr (lease_id l)), (''agent_id'', PStr (l_agent_id l)), (''created_at'', PInt (l_created_at l)),
      (''expires_at'', PInt (l_expires_at l))]"

definition holders :: "lease_session \<Rightarrow> (string \<times> pydict) list" where
  "holders s = map (\<lambda>kl. (l_item_id (snd kl), lease_claim (snd kl))) (filter (\<lambda>kl. is_active (snd kl)) (s_leases s))"

definition project_entry :: "(string \<times> pydict) list \<Rightarrow> string \<times> pyval \<Rightarrow> string \<times> pyval" where
  "project_entry active = (\<lambda>(i, v). (i, case v of PDict item \<Rightarrow> PDict (project_item active i item) | _ \<Rightarrow> v))"

definition project_claims :: "agent_session \<Rightarrow> effect_error + agent_session" where
  "project_claims s =
     (let ls = as_leases s; active = holders ls
      in if \<not> distinct (map fst active)
         then Inl (wrap_store_error (PERSISTENCE_INVALID ''Multiple active leases reference one item.''))
         else Inr (s\<lparr>as_leases := ls\<lparr>s_items := map (project_entry active) (s_items ls)\<rparr>\<rparr>))"

text \<open>What a later load finds: roles become text (\<open>Lease_Properties\<close>).\<close>

definition stored_leases :: "agent_session \<Rightarrow> agent_session" where
  "stored_leases s =
     s\<lparr>as_leases := (as_leases s)\<lparr>s_leases := map (\<lambda>(k, l). (k, reload_lease l)) (s_leases (as_leases s))\<rparr>\<rparr>"

definition commit_agent :: "pydict list \<Rightarrow> agent_session \<Rightarrow> agent_store \<Rightarrow> effect_error + agent_store" where
  "commit_agent evidence s st =
     sum_bind (project_claims s) (\<lambda>p.
       case take_pending_evidence (as_doc p) of
         Inl e \<Rightarrow> Inl (EffectRaised e)
       | Inr (pending, doc) \<Rightarrow>
           Inr (st\<lparr>ag_session := stored_leases (p\<lparr>as_doc := doc\<rparr>), ag_revision := Suc (ag_revision st),
                   ag_evidence := ag_evidence st @ evidence @ pending\<rparr>))"

definition stale_revision :: "nat \<Rightarrow> nat \<Rightarrow> effect_error" where
  "stale_revision expected actual = wrap_store_error (StaleRevisionError (int expected) actual)"

definition transact_agent ::
    "nat option \<Rightarrow> pydict list \<Rightarrow> 'a agent_op \<Rightarrow> agent_store \<Rightarrow> (effect_error + 'a) \<times> agent_store" where
  "transact_agent expected evidence op st =
     (case project_claims (ag_session st) of
        Inl e \<Rightarrow> (Inl e, st)
      | Inr s \<Rightarrow>
          if expected \<notin> {None, Some (ag_revision st)} then (Inl (stale_revision (the expected) (ag_revision st)), st)
          else (case op s of
                  (Inl e, s') \<Rightarrow> (Inl e, st)
                | (Inr a, s') \<Rightarrow>
                    (case commit_agent evidence s' st of Inl e \<Rightarrow> (Inl e, st) | Inr st' \<Rightarrow> (Inr a, st'))))"

text \<open>\<open>_persist_loaded_scope\<close>: what was loaded is written back if nothing was committed since.\<close>

definition persist_loaded :: "nat \<Rightarrow> agent_session \<Rightarrow> agent_store \<Rightarrow> (effect_error + unit) \<times> agent_store" where
  "persist_loaded revision s st = transact_agent (Some revision) [] (\<lambda>current. (Inr (), s)) st"

text \<open>Persist a decided error: the error, unless persisting fails.\<close>

definition persist_and_raise ::
    "nat \<Rightarrow> agent_session \<Rightarrow> effect_error \<Rightarrow> agent_store \<Rightarrow> (effect_error + 'a) \<times> agent_store" where
  "persist_and_raise revision s e st =
     (case persist_loaded revision s st of (Inl x, st') \<Rightarrow> (Inl x, st') | (Inr _, st') \<Rightarrow> (Inl e, st'))"

section \<open>Classification\<close>

definition is_active_triage :: "string \<Rightarrow> string \<times> lease \<Rightarrow> bool" where
  "is_active_triage item_id kl \<longleftrightarrow>
     l_item_id (snd kl) = item_id \<and> role_value (l_role (snd kl)) = ''triage'' \<and> is_active (snd kl)"

definition release_active_triage_lease :: "agent_env \<Rightarrow> string \<Rightarrow> string \<Rightarrow> string option agent_op" where
  "release_active_triage_lease env item_id agent_id s =
     (case find (is_active_triage item_id) (s_leases (as_leases s)) of
        None \<Rightarrow> (Inr None, s)
      | Some (k, l) \<Rightarrow>
          (case release_lease k (ae_now env) (Some ''classification_recorded'') (as_leases s) of
             (Inl e, ls) \<Rightarrow> (Inl (lease_exception e), s\<lparr>as_leases := ls\<rparr>)
           | (Inr _, ls) \<Rightarrow>
               abind (append_ledger env item_id (PStr k) agent_id ''triage'' ''classification_lease_released''
                        [(''reason'', PStr ''classification_recorded'')])
                 (\<lambda>_. areturn (Some k)) (s\<lparr>as_leases := ls\<rparr>)))"

definition classification_evidence_of :: "string \<Rightarrow> pyval \<Rightarrow> string \<Rightarrow> pyval" where
  "classification_evidence_of classification note record_id =
     PDict [(''event_type'', PStr ''classification_recorded''), (''classification'', PStr classification), (''note'', note),
            (''record_id'', PStr record_id)]"

definition freed_after_triage :: "pydict \<Rightarrow> pydict" where
  "freed_after_triage item =
     (let returned = return_item_to_claimable_state item
      in clear_claim (if is_stale_github_thread_item returned then returned else dset ''blocking'' (PBool True) returned))"

definition classify_item ::
    "agent_env \<Rightarrow> string \<Rightarrow> string \<Rightarrow> string \<Rightarrow> string \<Rightarrow> (evidence_record \<times> string option) agent_op" where
  "classify_item env item_id classification agent_id note s =
     (case session_item s item_id of
        None \<Rightarrow> (Inl (WorkflowError ''CLASSIFICATION_REJECTED'' ''ITEM_NOT_FOUND'' [(''item_id'', PStr item_id)]), s)
      | Some item \<Rightarrow>
          abind (append_ledger env item_id PNone agent_id ''triage'' ''classification_recorded''
                   [(''classification'', PStr classification), (''note'', PStr note)]) (\<lambda>r s1.
            let item1 = set_all [(''classification_evidence'', classification_evidence_of classification (PStr note) (er_record_id r)),
                                 (''decision'', PStr classification), (''updated_at'', PStr (ae_timestamp env))] item
            in abind (release_active_triage_lease env item_id agent_id) (\<lambda>released.
                 (\<lambda>s2. (Inr (r, released),
                        if released = None then s2 else put_session_item item_id (freed_after_triage item1) s2)))
               (put_session_item item_id item1 s1)) s)"

definition record_classification ::
    "agent_env \<Rightarrow> string \<Rightarrow> string \<Rightarrow> string \<Rightarrow> string \<Rightarrow> agent_store
       \<Rightarrow> (effect_error + (evidence_record \<times> string option)) \<times> agent_store" where
  "record_classification env item_id classification agent_id note st =
     (let normalized = py_lower (py_strip classification)
      in if normalized \<notin> set TERMINAL_RESOLUTIONS
         then (Inl (WorkflowError ''CLASSIFICATION_REJECTED'' ''UNSUPPORTED_CLASSIFICATION'' [(''item_id'', PStr item_id)]), st)
         else if py_strip note = []
         then (Inl (WorkflowError ''CLASSIFICATION_REJECTED'' ''MISSING_CLASSIFICATION_NOTE'' [(''item_id'', PStr item_id)]), st)
         else transact_agent None [] (classify_item env item_id normalized agent_id note) st)"

section \<open>The next item\<close>

definition item_is_open :: "pydict \<Rightarrow> bool" where
  "item_is_open item =
     (if is_github_thread_item item then is_claimable_github_thread True item
      else py_lower (py_str (py_or (py_or (dget item ''state'') (dget item ''status'')) (PStr ''open'')))
             \<in> set GITHUB_THREAD_CLAIMABLE_STATES - {''stale''})"

definition active_item_ids_of :: "lease_session \<Rightarrow> string list" where
  "active_item_ids_of s = map (\<lambda>kl. l_item_id (snd kl)) (filter (\<lambda>kl. is_active (snd kl)) (s_leases s))"

definition session_items :: "agent_session \<Rightarrow> (string \<times> pydict) list" where
  "session_items s =
     List.map_filter (\<lambda>(i, v). case v of PDict item \<Rightarrow> Some (i, item) | _ \<Rightarrow> None) (s_items (as_leases s))"

definition next_item :: "string option \<Rightarrow> agent_session \<Rightarrow> string \<times> pydict option" where
  "next_item item_id s =
     (let leased = set (active_item_ids_of (as_leases s))
      in if given_text item_id \<noteq> []
         then (given_text item_id,
               (case session_item s (given_text item_id) of
                  None \<Rightarrow> None
                | Some item \<Rightarrow> if given_text item_id \<in> leased \<or> \<not> item_is_open item then None else Some item))
         else (case find (\<lambda>(i, item). i \<notin> leased \<and> item_is_open item) (session_items s) of
                 None \<Rightarrow> ([], None) | Some (i, item) \<Rightarrow> (i, Some item)))"

definition active_lease_for_item :: "lease_session \<Rightarrow> string \<Rightarrow> lease option" where
  "active_lease_for_item s item_id = find (\<lambda>l. l_item_id l = item_id \<and> is_active l) (map snd (s_leases s))"

definition earlier_classification :: "evidence_record list \<Rightarrow> string \<Rightarrow> evidence_record option" where
  "earlier_classification records item_id =
     find (\<lambda>r. er_event_type r = ''classification_recorded'' \<and> er_item_id r = item_id
               \<and> py_lower (stripped_field (er_payload r) ''classification'') \<in> set TERMINAL_RESOLUTIONS) (rev records)"

text \<open>The records of the ledger are \<open>None\<close> when it cannot be read.\<close>

definition restore_classification_evidence :: "evidence_record list option \<Rightarrow> string \<Rightarrow> pydict \<Rightarrow> pydict" where
  "restore_classification_evidence records item_id item =
     (let decision = py_lower (stripped_field item ''decision'')
      in if decision \<in> set TERMINAL_RESOLUTIONS
         then dset ''classification_evidence''
                (classification_evidence_of decision
                  (PStr (py_str (py_or (py_or (dget item ''classification_note'') (dget item ''resolution_note''))
                    (PStr ''Restored from item decision.''))))
                  (py_str (py_or (dget item ''classification_record_id'') (PStr ''session-decision'')))) item
         else case (case records of None \<Rightarrow> None | Some rs \<Rightarrow> earlier_classification rs item_id) of
                None \<Rightarrow> item
              | Some r \<Rightarrow>
                  (let c = py_lower (stripped_field (er_payload r) ''classification'')
                   in dset ''decision'' (PStr c)
                        (dset ''classification_evidence''
                          (classification_evidence_of c
                            (PStr (py_str (py_or (dget (er_payload r) ''note'') (PStr ''Restored from evidence ledger.''))))
                            (er_record_id r)) item)))"

end
