(* ===== verification/Agent_Requests.thy ===== *)
theory Agent_Requests
  imports Agent_Protocol
begin

text \<open>
  Issuing action requests (\<open>issue_action_request\<close>, the re-entry of a lease an agent already
  holds and \<open>claimed_fixer_lease\<close> of \<open>core/agent_protocol.py\<close>, with the refresh of the stack
  observation, the evidence of a refused request and the response skeletons of
  \<open>core/agent_protocol_submission.py\<close>).

  A command loads the session, decides, reads GitHub and commits under the write lock; what
  other processes commit in between is the argument \<open>others\<close>. Random hexadecimal text, the
  observed stack (\<open>None\<close> when reading it raised), the readable ledger records and the failure
  of the files written after a commit are arguments too. Allowed actions are text.
\<close>

section \<open>Requests\<close>

definition lift_exn :: "py_exn + 'a \<Rightarrow> effect_error + 'a" where
  "lift_exn r = (case r of Inl e \<Rightarrow> Inl (EffectRaised e) | Inr a \<Rightarrow> Inr a)"

text \<open>\<open>sorted\<close> of text values; a single value is not compared.\<close>

definition sorted_values :: "pyval list \<Rightarrow> py_exn + pyval list" where
  "sorted_values vs =
     (let ts = List.map_filter (\<lambda>v. case v of PStr t \<Rightarrow> Some t | _ \<Rightarrow> None) vs
      in if length vs \<le> 1 then Inr vs
         else if length ts = length vs then Inr (map PStr (sort ts))
         else Inl (TypeError ''unorderable values''))"

definition allowed_actions_of :: "pydict \<Rightarrow> py_exn + pyval list" where
  "allowed_actions_of item =
     sum_bind (py_iter (py_or (dget item ''allowed_actions'') (texts TERMINAL_RESOLUTIONS))) sorted_values"

definition STACK_MANAGEMENT_ACTIONS :: "string list" where
  "STACK_MANAGEMENT_ACTIONS =
     [''create_stack'', ''checkout_stack'', ''rebase_stack'', ''push_stack'', ''modify_stack'', ''unstack'', ''queue_stack'', ''merge_stack'']"

definition forbidden_actions :: "string list" where
  "forbidden_actions = [''post_github_reply'', ''resolve_github_thread''] @ STACK_MANAGEMENT_ACTIONS"

definition submit_command :: "agent_env \<Rightarrow> string" where
  "submit_command env =
     ''gh-address-cr agent submit '' @ ae_repo env @ '' '' @ ae_pr_number env @ '' --input response.json''"

text \<open>The request of a fresh claim, and of a lost one that is rebuilt.\<close>

definition build_request ::
    "agent_env \<Rightarrow> string \<Rightarrow> string \<Rightarrow> string \<Rightarrow> pyval \<Rightarrow> pydict \<Rightarrow> stack_context \<Rightarrow> py_exn + pydict" where
  "build_request env role lid rid session_id item ctx =
     sum_bind (allowed_actions_of item) (\<lambda>allowed.
     sum_bind (repository_context_for_stack (ae_repo env) (ae_pr_number env) (PDict (context_to_dict ctx))) (\<lambda>context.
     sum_bind (handling_boundary_summary_or_none item role) (\<lambda>boundary.
       Inr ([(''schema_version'', PStr PROTOCOL_VERSION), (''request_id'', PStr rid), (''session_id'', session_id),
             (''lease_id'', PStr lid), (''agent_role'', PStr role),
             (''item'', PDict (dset ''state'' (PStr ''claimed'') (request_item_projection item))),
             (''allowed_actions'', PList allowed), (''required_evidence'', texts (required_evidence_for item role)),
             (''repository_context'', PDict context), (''forbidden_actions'', texts forbidden_actions),
             (''resume_command'', PStr (submit_command env))]
            @ (case boundary of None \<Rightarrow> [] | Some b \<Rightarrow> [(''handling_boundary'', PDict b)])))))"

definition request_hash_of :: "pydict \<Rightarrow> effect_error + string" where
  "request_hash_of request =
     (case request_stable_hash (PDict request) of
        Inr h \<Rightarrow> Inr h
      | Inl (RequestRaised e) \<Rightarrow> Inl (EffectRaised e)
      | Inl (UnsupportedVersion v) \<Rightarrow> Inl (EffectRaised (ValueError v)))"

section \<open>Response skeletons\<close>

definition classified_resolution :: "pydict \<Rightarrow> string option" where
  "classified_resolution item =
     (if has_classification_evidence item then Some (py_str (classification_of item))
      else let decision = py_lower (stripped_field item ''decision'')
           in if decision \<in> set TERMINAL_RESOLUTIONS then Some decision else None)"

definition response_skeleton_for_request :: "pydict \<Rightarrow> string \<Rightarrow> pydict \<Rightarrow> py_exn + pydict" where
  "response_skeleton_for_request request agent_id item =
     sum_bind (text_of_key request ''request_id'') (\<lambda>rid.
     sum_bind (text_of_key request ''lease_id'') (\<lambda>lid.
       let role = str_field request ''agent_role'';
           resolution = (case (if role = ''fixer'' then classified_resolution item else None) of
                           None \<Rightarrow> ''<fix|clarify|defer|reject>'' | Some r \<Rightarrow> r);
           version = (if truthy (dget request ''schema_version'') then py_str (dget request ''schema_version'') else PROTOCOL_VERSION);
           fixing = (role = ''fixer'' \<and> resolution = ''fix'')
       in Inr ([(''schema_version'', PStr version), (''request_id'', PStr rid), (''lease_id'', PStr lid),
                (''agent_id'', PStr agent_id), (''item_id'', PStr (str_field item ''item_id'')),
                (''resolution'', PStr resolution), (''note'', PStr [])]
               @ (if fixing
                  then [(''files'', PList []),
                        (''validation_commands'', PList [PDict [(''command'', PStr []), (''result'', PStr [])]])]
                  else [])
               @ (if is_thread_item item
                  then (if fixing
                        then [(''fix_reply'', PDict [(''summary'', PStr []), (''files'', PList []), (''why'', PStr []),
                                (''test_command'', PStr []), (''test_result'', PStr [])])]
                        else [(''reply_markdown'', PStr [])])
                  else if resolution \<noteq> ''fix'' then [(''reply_markdown'', PStr [])] else []))))"

text \<open>The object on disk when it belongs to this lease; a request must also parse.\<close>

definition payload_for_lease :: "bool \<Rightarrow> request_file \<Rightarrow> string \<Rightarrow> string \<Rightarrow> pydict option" where
  "payload_for_lease validated file rid lid =
     (case file of
        JsonFile (PDict d) \<Rightarrow>
          if (validated \<and> (case action_request_from_dict (PDict d) of Inl e \<Rightarrow> True | Inr r \<Rightarrow> False))
             \<or> py_str (dget d ''request_id'') \<noteq> rid \<or> py_str (dget d ''lease_id'') \<noteq> lid
          then None else Some d
      | _ \<Rightarrow> None)"

definition write_file :: "string \<Rightarrow> pydict \<Rightarrow> agent_store \<Rightarrow> agent_store" where
  "write_file path d st = st\<lparr>ag_files := (ag_files st)(path := JsonFile (PDict d))\<rparr>"

section \<open>The stack observation of a new request\<close>

record request_input =
  ri_role :: string
  ri_agent_id :: string
  ri_item_id :: "string option"
  ri_uuid :: string
  ri_workspace :: string
  ri_observed :: "stack_context option"
  ri_records :: "evidence_record list option"
  ri_projection_error :: "string option"

definition REQUEST_REJECTION_INVARIANTS :: "string list" where
  "REQUEST_REJECTION_INVARIANTS =
     [''head_ref_oid_lag'', ''missing_head_tree_oid'', ''missing_head_ref'', ''missing_head_oid'', ''missing_base_ref'',
      ''invalid_position'', ''invalid_pr_number'', ''invalid_member_state'', ''unsupported_schema'', ''invalid_availability'',
      ''upstream_invalid'', ''selected_member_mismatch'', ''members_not_array'', ''reported_size_mismatch'',
      ''missing_stack_node_id'', ''invalid_stack_number'', ''stack_requires_two_members'', ''positions_not_contiguous'',
      ''duplicate_member_pr_number'', ''selected_member_missing_or_duplicate'', ''merged_members_not_prefix'',
      ''lowest_unmerged_base_mismatch'', ''dependency_chain_mismatch'', ''selected_member_missing'', ''pagination_stack_changed'',
      ''stack_not_object'', ''entries_not_object'', ''member_pull_request_missing'', ''pagination_cursor_invalid'',
      ''stack_missing_during_pagination'', ''selected_stack_entry_invalid'', ''selected_position_mismatch'']"

definition REJECTION_STORAGE_REASONS :: "string list" where
  "REJECTION_STORAGE_REASONS =
     [''PERSISTENCE_BUSY'', ''PERSISTENCE_INVALID'', ''STALE_REVISION'', ''SESSION_NOT_FOUND'', ''STATE_DIR_NOT_WRITABLE'']"

definition storage_reason_text :: "string \<Rightarrow> string" where
  "storage_reason_text reason = (if reason \<in> set REJECTION_STORAGE_REASONS then reason else ''DIAGNOSTIC_WRITE_FAILED'')"

definition rejection_storage_reason :: "effect_error \<Rightarrow> string" where
  "rejection_storage_reason e = (case e of SessionError code _ \<Rightarrow> storage_reason_text code | _ \<Rightarrow> ''DIAGNOSTIC_WRITE_FAILED'')"

definition rejection_payload :: "string \<Rightarrow> pydict \<Rightarrow> pydict" where
  "rejection_payload reason_code payload =
     [(''schema_version'', PStr ''request-rejection.v1''), (''status'', PStr ''REQUEST_REJECTED''),
      (''reason_code'', PStr reason_code), (''waiting_on'', PStr ''stack_refresh''),
      (''stack_diagnostic'', PDict ((''reason_code'', PStr reason_code)
         # (case nested_get (dget payload ''stack_diagnostic'') ''invariant'' of
              PStr i \<Rightarrow> if i \<in> set REQUEST_REJECTION_INVARIANTS then [(''invariant'', PStr i)] else []
            | _ \<Rightarrow> [])))]"

definition append_rejection :: "agent_env \<Rightarrow> string \<Rightarrow> pydict \<Rightarrow> unit agent_op" where
  "append_rejection env record_id payload s =
     (let r = new_evidence_record (ae_timestamp env) (session_text s ''session_id'') [] PNone ''runtime'' ''runtime''
                ''request_rejected'' payload None
      in case buffer_append (r\<lparr>er_record_id := record_id\<rparr>) (as_doc s) of
           Inl e \<Rightarrow> (Inl (EffectRaised e), s)
         | Inr doc \<Rightarrow> (Inr (), s\<lparr>as_doc := doc\<rparr>))"

definition storage_outcome :: "string \<Rightarrow> effect_error + unit \<Rightarrow> agent_store \<Rightarrow> string \<times> pydict" where
  "storage_outcome record_id r st =
     (case r of
        Inr _ \<Rightarrow> (''committed'', [])
      | Inl e \<Rightarrow>
          (if \<exists>row \<in> set (ag_evidence st). dget row ''record_id'' = PStr record_id then ''committed'' else ''not_committed'',
           [(''reason_code'', PStr (rejection_storage_reason e))]))"

text \<open>The decided rejection is recorded in a transaction of its own; failing to do so does not change it.\<close>

definition persist_request_rejection ::
    "agent_env \<Rightarrow> request_input \<Rightarrow> string \<Rightarrow> pydict \<Rightarrow> agent_store \<Rightarrow> pydict \<times> agent_store" where
  "persist_request_rejection env a reason_code payload st =
     (let record_id = ''ev_'' @ ri_uuid a;
          (r, st') = transact_agent None [] (append_rejection env record_id (rejection_payload reason_code payload)) st;
          (storage, why) = storage_outcome record_id r st'
      in (set_all
            ([(''projection'', PStr ''not_attempted''), (''storage'', PStr storage)] @ why
             @ (if storage \<noteq> ''committed'' then []
                else (''record_id'', PStr record_id)
                  # (case ri_projection_error a of
                       None \<Rightarrow> [(''projection'', PStr ''current'')]
                     | Some e \<Rightarrow> [(''projection'', PStr ''failed''), (''reason_code'', PStr (storage_reason_text e))])))
            [(''schema_version'', PStr ''request-rejection-persistence.v1'')],
          st'))"

definition reject_request ::
    "agent_env \<Rightarrow> request_input \<Rightarrow> string \<Rightarrow> stack_context \<Rightarrow> agent_store \<Rightarrow> effect_error \<times> agent_store" where
  "reject_request env a reason_code ctx st =
     (let payload = stack_diagnostic_payload (Some ctx);
          (persistence, st') = persist_request_rejection env a reason_code payload st
      in (WorkflowError ''REQUEST_REJECTED'' reason_code (payload @ [(''rejection_persistence'', PDict persistence)]), st'))"

definition observed_context :: "agent_env \<Rightarrow> stack_context option \<Rightarrow> py_exn + stack_context" where
  "observed_context env observed =
     (case observed of
        Some c \<Rightarrow> Inr c
      | None \<Rightarrow> unavailable_stack_context (ae_repo env) (ae_pr_number env) (ae_timestamp env) None)"

definition refresh_stack_context_for_request ::
    "agent_env \<Rightarrow> request_input \<Rightarrow> agent_session \<Rightarrow> agent_store
       \<Rightarrow> (effect_error + (stack_context \<times> agent_session)) \<times> agent_store" where
  "refresh_stack_context_for_request env a s st =
     (case observed_context env (ri_observed a) of
        Inl e \<Rightarrow> (Inl (EffectRaised e), st)
      | Inr ctx \<Rightarrow>
          (let s1 = s\<lparr>as_doc := cache_pull_request_context (as_doc s) (context_to_dict ctx)\<rparr>
           in if k_availability ctx = ''invalid''
              then (case reject_request env a ''STACK_CONTEXT_INVALID'' ctx st of (e, st') \<Rightarrow> (Inl e, st'))
              else if k_availability ctx = ''unavailable'' \<and> has_observed_stack_membership (as_doc s)
              then (case reject_request env a ''STACK_CONTEXT_UNAVAILABLE'' ctx st of (e, st') \<Rightarrow> (Inl e, st'))
              else (Inr (ctx, s1), st)))"

section \<open>Re-entering a lease\<close>

record requested =
  rq_acquisition :: string
  rq_request_path :: string
  rq_skeleton_path :: string
  rq_lease_id :: string
  rq_resume_token :: "string option"
  rq_item_id :: string
  rq_boundary :: "pydict option"

text \<open>\<open>path.with_name(name)\<close>.\<close>

definition with_name :: "string \<Rightarrow> string \<Rightarrow> string" where
  "with_name path name =
     (let (parent, found, base) = py_rpartition CHR ''/'' path in if found then parent @ ''/'' @ name else name)"

definition skeleton_name :: "string \<Rightarrow> string" where
  "skeleton_name rid = ''action-response-skeleton-'' @ rid @ ''.json''"

definition rebuilt_event :: "agent_env \<Rightarrow> request_input \<Rightarrow> string \<Rightarrow> lease \<Rightarrow> string \<Rightarrow> evidence_record agent_op" where
  "rebuilt_event env a item_id l skeleton_path =
     append_ledger env item_id (PStr (lease_id l)) (ri_agent_id a) (ri_role a) ''request_issued''
       [(''request_id'', PStr (given_text (l_request_id l))), (''request_path'', PStr (given_text (l_request_path l))),
        (''response_skeleton_path'', PStr skeleton_path), (''rebuilt'', PBool True)]"

text \<open>The lost request is rebuilt under its old ids; the hash of the lease follows the file.\<close>

definition rebuild_request ::
    "agent_env \<Rightarrow> request_input \<Rightarrow> nat \<Rightarrow> string \<Rightarrow> pydict \<Rightarrow> lease \<Rightarrow> string \<Rightarrow> agent_session \<Rightarrow> agent_store
       \<Rightarrow> (effect_error + pydict) \<times> agent_store" where
  "rebuild_request env a revision item_id item l skeleton_path s st =
     (case refresh_stack_context_for_request env a s st of
        (Inl e, st1) \<Rightarrow> (Inl e, st1)
      | (Inr (ctx, s1), st1) \<Rightarrow>
          (case lift_exn (build_request env ''fixer'' (lease_id l) (given_text (l_request_id l)) (dget (as_doc s1) ''session_id'') item ctx) of
             Inl e \<Rightarrow> (Inl e, st1)
           | Inr built \<Rightarrow>
               (let request = dset ''response_skeleton_path'' (PStr skeleton_path) built;
                    st2 = write_file (given_text (l_request_path l)) request st1
                in case request_hash_of request of
                     Inl e \<Rightarrow> (Inl e, st2)
                   | Inr h \<Rightarrow>
                       (let s2 = s1\<lparr>as_leases := put_lease (lease_id l) (l\<lparr>l_request_hash := Some h\<rparr>) (as_leases s1)\<rparr>
                        in case rebuilt_event env a item_id l skeleton_path s2 of
                             (Inl e, s3) \<Rightarrow> (Inl e, st2)
                           | (Inr r, s3) \<Rightarrow>
                               (case persist_loaded revision s3 st2 of
                                  (Inl e, st3) \<Rightarrow> (Inl e, st3) | (Inr _, st3) \<Rightarrow> (Inr request, st3))))))"

text \<open>A usable skeleton is kept, also when the agent has begun to fill it in.\<close>

definition ensure_skeleton ::
    "string \<Rightarrow> string \<Rightarrow> string \<Rightarrow> string \<Rightarrow> pydict \<Rightarrow> pydict \<Rightarrow> agent_store \<Rightarrow> (effect_error + unit) \<times> agent_store" where
  "ensure_skeleton path rid lid agent_id request item st =
     (case payload_for_lease False (ag_files st path) rid lid of
        Some d \<Rightarrow> (Inr (), st)
      | None \<Rightarrow>
          (case response_skeleton_for_request request agent_id item of
             Inl e \<Rightarrow> (Inl (EffectRaised e), st) | Inr d \<Rightarrow> (Inr (), write_file path d st)))"

definition reenter_lease ::
    "agent_env \<Rightarrow> request_input \<Rightarrow> nat \<Rightarrow> string \<Rightarrow> pydict \<Rightarrow> lease \<Rightarrow> agent_session \<Rightarrow> agent_store
       \<Rightarrow> (effect_error + requested) \<times> agent_store" where
  "reenter_lease env a revision item_id item l s st =
     (let rid = given_text (l_request_id l); path = given_text (l_request_path l);
          skeleton_path = with_name path (skeleton_name rid);
          (found, st1) = (case payload_for_lease True (ag_files st path) rid (lease_id l) of
                            Some d \<Rightarrow> (Inr d, st)
                          | None \<Rightarrow> rebuild_request env a revision item_id item l skeleton_path s st)
      in case found of
           Inl e \<Rightarrow> (Inl e, st1)
         | Inr request \<Rightarrow>
             (case ensure_skeleton skeleton_path rid (lease_id l) (ri_agent_id a) request item st1 of
                (Inl e, st2) \<Rightarrow> (Inl e, st2)
              | (Inr _, st2) \<Rightarrow>
                  (case handling_boundary_summary_or_none item ''fixer'' of
                     Inl e \<Rightarrow> (Inl (EffectRaised e), st2)
                   | Inr b \<Rightarrow>
                       (Inr \<lparr>rq_acquisition = ''reentered'', rq_request_path = path, rq_skeleton_path = skeleton_path,
                             rq_lease_id = lease_id l, rq_resume_token = l_resume_token l, rq_item_id = item_id,
                             rq_boundary = b\<rparr>, st2))))"

text \<open>The lease and item an agent may re-enter.\<close>

definition own_fixer_lease :: "request_input \<Rightarrow> string \<Rightarrow> agent_session \<Rightarrow> (lease \<times> pydict) option" where
  "own_fixer_lease a item_id s =
     (if ri_role a \<noteq> ''fixer'' \<or> item_id = [] then None
      else case active_fixer_lease_for_item (as_leases s) item_id (Some (ri_agent_id a)) of
             None \<Rightarrow> None
           | Some l \<Rightarrow>
               (case session_item s item_id of
                  None \<Rightarrow> None
                | Some item \<Rightarrow>
                    if given_text (l_request_id l) = [] \<or> given_text (l_request_path l) = [] then None else Some (l, item)))"

section \<open>Issuing a request\<close>

definition expire_loaded :: "agent_env \<Rightarrow> agent_session \<Rightarrow> agent_session" where
  "expire_loaded env s =
     (let (expired, ls) = expire_leases (ae_now env) (as_leases s)
      in s\<lparr>as_leases := return_expired_items_to_open expired ls\<rparr>)"

definition locked_item_error :: "agent_env \<Rightarrow> request_input \<Rightarrow> string \<Rightarrow> lease \<Rightarrow> agent_session \<Rightarrow> effect_error" where
  "locked_item_error env a item_id l s =
     WorkflowError ''LEASE_LOCKED_ITEM'' ''LEASE_LOCKED_ITEM''
       [(''item_id'', PStr item_id),
        (''lease_recovery'', PDict (recovery_to_dict
           (calculate_lease_recovery_state (as_leases s) (lease_id l) (ri_agent_id a) (ri_role a) item_id
              (given_text (l_request_hash l)) (ae_now env))))]"

definition no_item_error :: "agent_env \<Rightarrow> request_input \<Rightarrow> string \<Rightarrow> agent_session \<Rightarrow> effect_error" where
  "no_item_error env a item_id s =
     (case (if item_id = [] then None else active_lease_for_item (as_leases s) item_id) of
        Some l \<Rightarrow> locked_item_error env a item_id l s
      | None \<Rightarrow> WorkflowError ''NO_ELIGIBLE_ITEM'' ''NO_ELIGIBLE_ITEM'' [])"

definition new_lease_id :: "request_input \<Rightarrow> string" where
  "new_lease_id a = ''lease_'' @ ri_uuid a"

definition new_request_id :: "request_input \<Rightarrow> pyval \<Rightarrow> string \<Rightarrow> string" where
  "new_request_id a session_id item_id =
     stable_id ''req''
       [(''session_id'', session_id), (''item_id'', PStr item_id), (''role'', PStr (ri_role a)),
        (''agent_id'', PStr (ri_agent_id a)), (''lease_id'', PStr (new_lease_id a))]"

record claim_plan =
  cp_item_id :: string
  cp_request_id :: string
  cp_request :: pydict
  cp_hash :: string
  cp_boundary :: "pydict option"
  cp_request_path :: string
  cp_skeleton_path :: string
  cp_classification :: pyval
  cp_decision :: pyval
  cp_metadata :: metadata_change

definition claim_args_of :: "agent_env \<Rightarrow> request_input \<Rightarrow> claim_plan \<Rightarrow> pydict \<Rightarrow> claim_args" where
  "claim_args_of env a p item =
     \<lparr>c_agent_id = ri_agent_id a, c_role = ri_role a, c_request_hash = cp_hash p, c_lease_id = Some (new_lease_id a),
      c_uuid_hex = [], c_now = ae_now env, c_ttl_seconds = 3600, c_resume_token = Some (''resume:'' @ cp_request_id p),
      c_request_id = Some (cp_request_id p), c_request_path = Some (cp_request_path p), c_conflict_keys = None,
      c_allow_overlap = (ri_role a = ''fixer'' \<and> is_thread_item item)\<rparr>"

definition lease_rejected :: "string \<Rightarrow> lease_error \<Rightarrow> effect_error" where
  "lease_rejected item_id e =
     (case e of LeaseConflictError code detail \<Rightarrow> WorkflowError ''LEASE_REJECTED'' code [(''item_id'', PStr item_id)]
      | _ \<Rightarrow> lease_exception e)"

definition with_classification :: "claim_plan \<Rightarrow> pydict \<Rightarrow> pydict" where
  "with_classification p item =
     (if is_dict (cp_classification p) \<and> \<not> has_classification_evidence item
      then dset ''decision'' (cp_decision p) (dset ''classification_evidence'' (cp_classification p) item) else item)"

text \<open>The claim is decided again on the committed session, under the write lock.\<close>

definition commit_claim :: "agent_env \<Rightarrow> request_input \<Rightarrow> claim_plan \<Rightarrow> lease agent_op" where
  "commit_claim env a p s0 =
     (let s = expire_loaded env s0
      in case session_item s (cp_item_id p) of
           None \<Rightarrow> (Inl (lease_rejected (cp_item_id p) (LeaseConflictError ''ITEM_NOT_CLAIMABLE'' (cp_item_id p))), s)
         | Some item0 \<Rightarrow>
             (let item = with_classification p item0;
                  s1 = (put_session_item (cp_item_id p) item s)\<lparr>as_doc := apply_metadata_delta (as_doc s) (cp_metadata p)\<rparr>
              in case claim_lease (claim_args_of env a p item) item (as_leases s1) of
                   (Inl e, ls) \<Rightarrow> (Inl (lease_rejected (cp_item_id p) e), s1\<lparr>as_leases := ls\<rparr>)
                 | (Inr l, ls) \<Rightarrow>
                     (Inr l, put_session_item (cp_item_id p)
                        (dset ''active_lease_id'' (PStr (new_lease_id a)) (dset ''state'' (PStr ''claimed'') item))
                        (s1\<lparr>as_leases := ls\<rparr>))))"

definition request_issued :: "agent_env \<Rightarrow> request_input \<Rightarrow> claim_plan \<Rightarrow> string \<Rightarrow> evidence_record" where
  "request_issued env a p session_id =
     new_evidence_record (ae_timestamp env) session_id (cp_item_id p) (PStr (new_lease_id a)) (ri_agent_id a) (ri_role a)
       ''request_issued''
       [(''request_id'', PStr (cp_request_id p)), (''request_path'', PStr (cp_request_path p)),
        (''response_skeleton_path'', PStr (cp_skeleton_path p))] None"

definition plan_claim ::
    "agent_env \<Rightarrow> request_input \<Rightarrow> pyval \<Rightarrow> string \<Rightarrow> pydict \<Rightarrow> stack_context \<Rightarrow> agent_session \<Rightarrow> effect_error + claim_plan" where
  "plan_claim env a metadata_base item_id item ctx s =
     (let rid = new_request_id a (dget (as_doc s) ''session_id'') item_id
      in sum_bind (lift_exn (build_request env (ri_role a) (new_lease_id a) rid (dget (as_doc s) ''session_id'') item ctx)) (\<lambda>request.
         sum_bind (lift_exn (handling_boundary_summary_or_none item (ri_role a))) (\<lambda>boundary.
         sum_bind (request_hash_of request) (\<lambda>h.
           Inr \<lparr>cp_item_id = item_id, cp_request_id = rid, cp_request = request, cp_hash = h, cp_boundary = boundary,
                cp_request_path = ri_workspace a @ ''/action-request-'' @ rid @ ''.json'',
                cp_skeleton_path = ri_workspace a @ ''/'' @ skeleton_name rid,
                cp_classification = dget item ''classification_evidence'', cp_decision = dget item ''decision'',
                cp_metadata = metadata_delta metadata_base (dget (as_doc s) ''metadata'')\<rparr>))))"

definition write_artifacts :: "request_input \<Rightarrow> claim_plan \<Rightarrow> lease \<Rightarrow> agent_store \<Rightarrow> (effect_error + requested) \<times> agent_store" where
  "write_artifacts a p l st =
     (let request = dset ''response_skeleton_path'' (PStr (cp_skeleton_path p)) (cp_request p);
          st1 = write_file (cp_request_path p) request st
      in case session_item (ag_session st) (cp_item_id p) of
           None \<Rightarrow> (Inl (EffectRaised (KeyError (cp_item_id p))), st)
         | Some item \<Rightarrow>
             (case response_skeleton_for_request request (ri_agent_id a) item of
                Inl e \<Rightarrow> (Inl (EffectRaised e), st1)
              | Inr skeleton \<Rightarrow>
                  (Inr \<lparr>rq_acquisition = ''created'', rq_request_path = cp_request_path p,
                        rq_skeleton_path = cp_skeleton_path p, rq_lease_id = new_lease_id a,
                        rq_resume_token = l_resume_token l, rq_item_id = cp_item_id p, rq_boundary = cp_boundary p\<rparr>,
                   write_file (cp_skeleton_path p) skeleton st1)))"

definition claim_item ::
    "agent_env \<Rightarrow> request_input \<Rightarrow> (agent_store \<Rightarrow> agent_store) \<Rightarrow> pyval \<Rightarrow> string \<Rightarrow> pydict \<Rightarrow> agent_session \<Rightarrow> agent_store
       \<Rightarrow> (effect_error + requested) \<times> agent_store" where
  "claim_item env a others metadata_base item_id item s st =
     (case refresh_stack_context_for_request env a s st of
        (Inl e, st1) \<Rightarrow> (Inl e, st1)
      | (Inr (ctx, s1), st1) \<Rightarrow>
          (case plan_claim env a metadata_base item_id item ctx s1 of
             Inl e \<Rightarrow> (Inl e, st1)
           | Inr p \<Rightarrow>
               (case transact_agent None [record_to_json (request_issued env a p (session_text s1 ''session_id''))]
                       (commit_claim env a p) (others st1) of
                  (Inl e, st2) \<Rightarrow> (Inl e, st2)
                | (Inr l, st2) \<Rightarrow> write_artifacts a p l st2)))"

definition classify_first :: "agent_env \<Rightarrow> string \<Rightarrow> string" where
  "classify_first env item_id =
     ''Missing triage classification evidence for '' @ item_id @ ''. Run ''
     @ code_span (''gh-address-cr agent classify '' @ ae_repo env @ '' '' @ ae_pr_number env @ '' '' @ item_id
         @ '' --classification <fix|clarify|defer|reject> --note <why>'')
     @ '' before requesting a fixer lease.''"

definition missing_classification ::
    "agent_env \<Rightarrow> request_input \<Rightarrow> nat \<Rightarrow> string \<Rightarrow> agent_session \<Rightarrow> agent_store \<Rightarrow> (effect_error + requested) \<times> agent_store" where
  "missing_classification env a revision item_id s st =
     (case append_ledger env item_id PNone (ri_agent_id a) (ri_role a) ''request_rejected''
             [(''reason_code'', PStr ''MISSING_CLASSIFICATION'')] s of
        (Inl e, s1) \<Rightarrow> (Inl e, st)
      | (Inr r, s1) \<Rightarrow>
          persist_and_raise revision s1
            (WorkflowError ''REQUEST_REJECTED'' ''MISSING_CLASSIFICATION''
              [(''item_id'', PStr item_id), (''next_action'', PStr (classify_first env item_id))]) st)"

definition issue_loaded ::
    "agent_env \<Rightarrow> request_input \<Rightarrow> (agent_store \<Rightarrow> agent_store) \<Rightarrow> pyval \<Rightarrow> nat \<Rightarrow> agent_session \<Rightarrow> agent_store
       \<Rightarrow> (effect_error + requested) \<times> agent_store" where
  "issue_loaded env a others metadata_base revision s st =
     (case next_item (ri_item_id a) s of
        (item_id, None) \<Rightarrow>
          (case own_fixer_lease a item_id s of
             Some (l, item) \<Rightarrow> reenter_lease env a revision item_id item l s (others st)
           | None \<Rightarrow> persist_and_raise revision s (no_item_error env a item_id s) (others st))
      | (item_id, Some found) \<Rightarrow>
          (let item = (if ri_role a = ''fixer'' \<and> \<not> has_classification_evidence found
                       then restore_classification_evidence (ri_records a) item_id found else found);
               s1 = put_session_item item_id item s
           in if ri_role a = ''fixer'' \<and> \<not> has_classification_evidence item
              then missing_classification env a revision item_id s1 (others st)
              else claim_item env a others metadata_base item_id item s1 st))"

definition issue_action_request ::
    "agent_env \<Rightarrow> request_input \<Rightarrow> (agent_store \<Rightarrow> agent_store) \<Rightarrow> agent_store \<Rightarrow> (effect_error + requested) \<times> agent_store" where
  "issue_action_request env a others st =
     (case project_claims (ag_session st) of
        Inl e \<Rightarrow> (Inl e, st)
      | Inr s \<Rightarrow> issue_loaded env a others (dget (as_doc s) ''metadata'') (ag_revision st) (expire_loaded env s) st)"

section \<open>One-shot compositions\<close>

definition release_claimed :: "agent_env \<Rightarrow> string \<Rightarrow> string \<Rightarrow> bool agent_op" where
  "release_claimed env lid reason s =
     (case release_claimed_lease lid (ae_now env) reason (as_leases s) of
        (Inl e, ls) \<Rightarrow> (Inl (lease_exception e), s\<lparr>as_leases := ls\<rparr>)
      | (Inr released, ls) \<Rightarrow> (Inr released, s\<lparr>as_leases := ls\<rparr>))"

text \<open>A lease claimed here is released when the body raises a \<open>WorkflowError\<close>; a re-entered one is kept.\<close>

definition claimed_fixer_lease ::
    "agent_env \<Rightarrow> request_input \<Rightarrow> (agent_store \<Rightarrow> agent_store)
       \<Rightarrow> (requested \<Rightarrow> agent_store \<Rightarrow> (effect_error + 'a) \<times> agent_store) \<Rightarrow> agent_store \<Rightarrow> (effect_error + 'a) \<times> agent_store" where
  "claimed_fixer_lease env a others body st =
     (case project_claims (ag_session st) of
        Inl e \<Rightarrow> (Inl e, st)
      | Inr s \<Rightarrow>
          (let preexisting = active_fixer_lease_for_item (as_leases s) (given_text (ri_item_id a)) (Some (ri_agent_id a))
           in case issue_action_request env a others st of
                (Inl e, st1) \<Rightarrow> (Inl e, st1)
              | (Inr requested, st1) \<Rightarrow>
                  (case body requested st1 of
                     (Inl (WorkflowError status reason_code payload), st2) \<Rightarrow>
                       if map_option lease_id preexisting = Some (rq_lease_id requested)
                       then (Inl (WorkflowError status reason_code payload), st2)
                       else (case transact_agent None []
                                    (release_claimed env (rq_lease_id requested) (''action_rejected:'' @ reason_code)) st2 of
                               (Inl e, st3) \<Rightarrow> (Inl e, st3)
                             | (Inr _, st3) \<Rightarrow> (Inl (WorkflowError status reason_code payload), st3))
                   | other \<Rightarrow> other)))"

end
