(* ===== verification/Agent_Responses.thy ===== *)
theory Agent_Responses
  imports Agent_Requests
begin

text \<open>
  Submitting an action response as a command (\<open>submit_action_response\<close> of
  \<open>core/agent_protocol.py\<close>, with the reading of response files in
  \<open>core/agent_protocol_submission.py\<close>): the response is read and checked against the loaded
  session and GitHub, the errors decided there are persisted and raised, and the acceptance is
  one transaction at the revision that was loaded, which is tried again when it lost a race.

  What GitHub answers and what other processes commit between the check and the transaction
  may differ from one attempt to the next. The publishing that may follow an accepted response
  is modelled in \<open>Publishing\<close>.
\<close>

section \<open>Reading a response\<close>

record response_codes =
  rc_status :: string
  rc_missing :: string
  rc_invalid :: string
  rc_shape :: string

definition action_response_codes :: response_codes where
  "action_response_codes =
     \<lparr>rc_status = ''ACTION_REJECTED'', rc_missing = ''RESPONSE_FILE_NOT_FOUND'', rc_invalid = ''INVALID_RESPONSE_JSON'',
      rc_shape = ''INVALID_RESPONSE_SHAPE''\<rparr>"

definition load_response_json_object :: "response_codes \<Rightarrow> request_file \<Rightarrow> effect_error + pydict" where
  "load_response_json_object codes file =
     (case file of
        NoFile \<Rightarrow> Inl (WorkflowError (rc_status codes) (rc_missing codes) [])
      | BadJson \<Rightarrow> Inl (WorkflowError (rc_status codes) (rc_invalid codes) [])
      | JsonFile (PDict d) \<Rightarrow> Inr d
      | JsonFile v \<Rightarrow> Inl (WorkflowError (rc_status codes) (rc_shape codes) []))"

section \<open>Checking before the transaction\<close>

definition ACTION_REJECTED :: string where
  "ACTION_REJECTED = ''ACTION_REJECTED''"

definition response_target :: "agent_session \<Rightarrow> pydict \<Rightarrow> string \<times> pydict option" where
  "response_target s response =
     (case lease_at (as_leases s) (str_field response ''lease_id'') of
        None \<Rightarrow> ([], None)
      | Some l \<Rightarrow> (l_item_id l, if l_item_id l = [] then None else session_item s (l_item_id l)))"

definition publish_target_error :: "agent_session \<Rightarrow> pydict \<Rightarrow> effect_error option" where
  "publish_target_error s response =
     (let lid = str_field response ''lease_id''; (item_id, item) = response_target s response;
          unsupported = WorkflowError ACTION_REJECTED ''PUBLISH_UNSUPPORTED_RESPONSE''
                          [(''item_id'', PStr item_id), (''lease_id'', PStr lid)]
      in case item of
           None \<Rightarrow> Some (WorkflowError ACTION_REJECTED ''PUBLISH_TARGET_NOT_FOUND''
                     [(''lease_id'', if lid = [] then PNone else PStr lid)])
         | Some i \<Rightarrow>
             if \<not> is_thread_item i then Some unsupported
             else if str_field response ''resolution'' \<notin> {[], ''fix''} then Some unsupported else None)"

definition validate_publish_shortcut_target :: "pydict \<Rightarrow> unit agent_op" where
  "validate_publish_shortcut_target response s =
     (case publish_target_error s response of Some e \<Rightarrow> (Inl e, s) | None \<Rightarrow> (Inr (), s))"

record submit_view =
  sv_observed :: "stack_context option"
  sv_commits :: "github_error + string list"
  sv_others :: "agent_store \<Rightarrow> agent_store"

definition with_binding :: "pydict option \<Rightarrow> pydict \<Rightarrow> pydict" where
  "with_binding binding response =
     (case binding of None \<Rightarrow> response | Some b \<Rightarrow> dset ''_runtime_revision_binding'' (PDict b) response)"

definition preflight ::
    "agent_env \<Rightarrow> (string \<Rightarrow> request_file) \<Rightarrow> submit_view \<Rightarrow> bool \<Rightarrow> pydict \<Rightarrow> (prepared \<times> pydict) agent_op" where
  "preflight env files view publish response =
     abind (if publish then validate_publish_shortcut_target response else areturn ()) (\<lambda>_.
     abind (prepare_action_response_submission env files ACTION_REJECTED response) (\<lambda>(p, r).
     abind (verify_request_revision_binding env files ACTION_REJECTED (sv_observed view) p r) (\<lambda>binding.
     abind (verify_cited_commit_in_pr env ACTION_REJECTED (sv_commits view) p (with_binding binding r)) (\<lambda>_.
       areturn (p, with_binding binding r)))))"

section \<open>The transaction\<close>

text \<open>A refused response is a value of the transaction, so that what it recorded is committed.\<close>

datatype accept_outcome = Accepted prepared evidence_record | Refused effect_error

definition with_metadata :: "pyval \<Rightarrow> agent_session \<Rightarrow> agent_session" where
  "with_metadata metadata s =
     (if is_dict metadata then s\<lparr>as_doc := dset ''metadata'' metadata (as_doc s)\<rparr> else s)"

definition accept_current ::
    "agent_env \<Rightarrow> (string \<Rightarrow> request_file) \<Rightarrow> pyval \<Rightarrow> pydict \<Rightarrow> accept_outcome agent_op" where
  "accept_current env files metadata response s =
     (case prepare_action_response_submission env files ACTION_REJECTED response (with_metadata metadata s) of
        (Inl e, s1) \<Rightarrow> (Inl e, s1)
      | (Inr (p, r), s1) \<Rightarrow>
          (case accept_action_response_submission env ACTION_REJECTED r p s1 of
             (Inr record, s2) \<Rightarrow> (Inr (Accepted p record), s2)
           | (Inl (WorkflowError status code payload), s2) \<Rightarrow> (Inr (Refused (WorkflowError status code payload)), s2)
           | (Inl e, s2) \<Rightarrow> (Inl e, s2)))"

definition is_workflow_error :: "effect_error \<Rightarrow> bool" where
  "is_workflow_error e \<longleftrightarrow> (case e of WorkflowError _ _ _ \<Rightarrow> True | _ \<Rightarrow> False)"

record submitted =
  sb_lease_id :: string
  sb_item_id :: string
  sb_evidence_record_id :: string

text \<open>The lease that was used is named in the record; it is the replacement of a rebound one.\<close>

definition submitted_of :: "accept_outcome \<Rightarrow> effect_error + submitted" where
  "submitted_of outcome =
     (case outcome of
        Refused e \<Rightarrow> Inl e
      | Accepted p r \<Rightarrow>
          Inr \<lparr>sb_lease_id = py_str (er_lease_id r), sb_item_id = pr_item_id p, sb_evidence_record_id = er_record_id r\<rparr>)"

definition accept_loaded ::
    "agent_env \<Rightarrow> submit_view \<Rightarrow> bool \<Rightarrow> pydict \<Rightarrow> agent_session \<Rightarrow> agent_store \<Rightarrow> (effect_error + submitted) \<times> agent_store" where
  "accept_loaded env view publish response s st =
     (let revision = ag_revision st; files = ag_files st; st1 = sv_others view st
      in case preflight env files view publish response s of
           (Inl e, s1) \<Rightarrow> if is_workflow_error e then persist_and_raise revision s1 e st1 else (Inl e, st1)
         | (Inr (p, r), s1) \<Rightarrow>
             (case transact_agent (Some revision) [] (accept_current env files (dget (as_doc s1) ''metadata'') r) st1 of
                (Inl e, st2) \<Rightarrow> (Inl e, st2)
              | (Inr outcome, st2) \<Rightarrow> (submitted_of outcome, st2)))"

definition accept_action_response ::
    "agent_env \<Rightarrow> submit_view \<Rightarrow> bool \<Rightarrow> string \<Rightarrow> agent_store \<Rightarrow> (effect_error + submitted) \<times> agent_store" where
  "accept_action_response env view publish path st =
     (case load_response_json_object action_response_codes (ag_files st path) of
        Inl e \<Rightarrow> (Inl e, st)
      | Inr response \<Rightarrow>
          (case project_claims (ag_session st) of
             Inl e \<Rightarrow> (Inl e, st)
           | Inr s \<Rightarrow> accept_loaded env view publish response s st))"

text \<open>One attempt of \<open>submit_action_response\<close>, numbered for the views of its attempts.\<close>

definition submit_attempt ::
    "agent_env \<Rightarrow> (nat \<Rightarrow> submit_view) \<Rightarrow> bool \<Rightarrow> string \<Rightarrow> nat \<times> agent_store \<Rightarrow> (effect_error + submitted) \<times> (nat \<times> agent_store)" where
  "submit_attempt env views publish path = (\<lambda>(n, st).
     case accept_action_response env (views n) publish path st of (r, st') \<Rightarrow> (r, (Suc n, st')))"

definition submit_action_response ::
    "agent_env \<Rightarrow> (nat \<Rightarrow> submit_view) \<Rightarrow> bool \<Rightarrow> string \<Rightarrow> agent_store \<Rightarrow> (effect_error + submitted) \<times> agent_store" where
  "submit_action_response env views publish path st =
     (case retry_on_stale_revision STALE_REVISION_ATTEMPTS (submit_attempt env views publish path) (0, st) of
        (r, (n, st')) \<Rightarrow> (r, st'))"

end
