(* ===== verification/Agent_Contract.thy ===== *)
theory Agent_Contract
  imports Agent_Responses
begin

text \<open>
  The contracts of the agent protocol. \<open>agent_operation\<close> is what every operation inside a
  transaction keeps: the invariant of the leases, and a log of lease events that only grows.
  \<open>agent_command\<close> is what every command keeps of the store: the invariant, the revision and the
  evidence, which only grow. A transaction turns an operation into a command. Both are
  interpreted for the operations and commands of the model.
\<close>

section \<open>Operations of a session\<close>

locale agent_operation =
  fixes op :: "'a agent_op"
  assumes keeps_leases: "lease_inv (as_leases s) \<Longrightarrow> lease_inv (as_leases (snd (op s)))"
    and appends_log: "\<exists>es. s_events (as_leases (snd (op s))) = s_events (as_leases s) @ es"
begin

lemma keeps_exclusive:
  assumes "lease_inv (as_leases s)" "lease_at (as_leases (snd (op s))) j = Some l" "is_active l"
    "lease_at (as_leases (snd (op s))) k = Some m" "is_active m" "j \<noteq> k"
  shows "l_item_id l \<noteq> l_item_id m" "compatible l m"
  using keeps_leases [OF assms(1)] assms(2-) unfolding lease_inv_def exclusive_def by blast+

lemma log_grows: "length (s_events (as_leases s)) \<le> length (s_events (as_leases (snd (op s))))"
  using appends_log [of s] by auto

end

text \<open>An operation that leaves the leases and their log alone.\<close>

definition quiet :: "'a agent_op \<Rightarrow> bool" where
  "quiet op \<longleftrightarrow> (\<forall>s. s_leases (as_leases (snd (op s))) = s_leases (as_leases s)
                      \<and> s_events (as_leases (snd (op s))) = s_events (as_leases s))"

lemma quietD:
  assumes "quiet op"
  shows "s_leases (as_leases (snd (op s))) = s_leases (as_leases s)"
    "s_events (as_leases (snd (op s))) = s_events (as_leases s)"
  using assms by (simp_all add: quiet_def)

lemma quiet_result:
  assumes "quiet op" "op s = (r, s')"
  shows "s_leases (as_leases s') = s_leases (as_leases s)" "s_events (as_leases s') = s_events (as_leases s)"
  using quietD [OF assms(1), of s] assms(2) by simp_all

lemma quiet_operation: "quiet op \<Longrightarrow> agent_operation op"
  by unfold_locales (simp_all add: quietD inv_cong [OF quietD(1)])

lemma abind_snd: "snd (abind m f s) = (case fst (m s) of Inl e \<Rightarrow> snd (m s) | Inr a \<Rightarrow> snd (f a (snd (m s))))"
  by (simp add: abind_def split: prod.split sum.split)

lemma quiet_abind:
  assumes "quiet m" "\<And>a. quiet (f a)" shows "quiet (abind m f)"
  using assms unfolding quiet_def abind_snd by (auto split: sum.split)

lemma quiet_return [simp]: "quiet (areturn a)" "quiet (araise e)"
  by (simp_all add: quiet_def areturn_def araise_def)

text \<open>Operations compose.\<close>

lemma abind_operation:
  assumes m: "agent_operation m" and f: "\<And>a. agent_operation (f a)" shows "agent_operation (abind m f)"
proof
  fix s
  show "lease_inv (as_leases s) \<Longrightarrow> lease_inv (as_leases (snd (abind m f s)))"
    using agent_operation.keeps_leases [OF m, of s] agent_operation.keeps_leases [OF f]
    by (simp add: abind_snd split: sum.split)
  obtain es where es: "s_events (as_leases (snd (m s))) = s_events (as_leases s) @ es"
    using agent_operation.appends_log [OF m] by blast
  show "\<exists>es. s_events (as_leases (snd (abind m f s))) = s_events (as_leases s) @ es"
  proof (cases "fst (m s)")
    case (Inl e)
    with es show ?thesis by (simp add: abind_snd)
  next
    case (Inr a)
    obtain es' where "s_events (as_leases (snd (f a (snd (m s))))) = s_events (as_leases (snd (m s))) @ es'"
      using agent_operation.appends_log [OF f] by blast
    with es Inr show ?thesis by (simp add: abind_snd)
  qed
qed

text \<open>A lease operation, seen as an operation of the session.\<close>

definition on_leases :: "(lease_session \<Rightarrow> (lease_error + 'a) \<times> lease_session) \<Rightarrow> 'a agent_op" where
  "on_leases op s = (case op (as_leases s) of
     (Inl e, ls) \<Rightarrow> (Inl (lease_exception e), s\<lparr>as_leases := ls\<rparr>) | (Inr a, ls) \<Rightarrow> (Inr a, s\<lparr>as_leases := ls\<rparr>))"

lemma on_leases_snd [simp]: "as_leases (snd (on_leases op s)) = snd (op (as_leases s))"
  by (simp add: on_leases_def split: prod.split sum.split)

lemma lease_operation_lifts:
  assumes "lease_operation (\<lambda>s. snd (op s)) (\<lambda>_. True)" shows "agent_operation (on_leases op)"
  by unfold_locales (simp_all add: lease_operation.keeps_inv [OF assms] lease_operation.appends_events [OF assms])

text \<open>Two operations with the same effect on the leases.\<close>

lemma operation_cong:
  assumes "agent_operation op"
    "\<And>s. s_leases (as_leases (snd (op' s))) = s_leases (as_leases (snd (op s)))"
    "\<And>s. s_events (as_leases (snd (op' s))) = s_events (as_leases (snd (op s)))"
  shows "agent_operation op'"
  by unfold_locales
    (simp_all add: inv_cong [OF assms(2)] assms(3) agent_operation.keeps_leases [OF assms(1)]
      agent_operation.appends_log [OF assms(1)])

section \<open>Rejections are quiet\<close>

lemma put_session_item_leases [simp]:
  "s_leases (as_leases (put_session_item i d s)) = s_leases (as_leases s)"
  "s_events (as_leases (put_session_item i d s)) = s_events (as_leases s)"
  by (simp_all add: put_session_item_def)

lemma quiet_ledger [simp]: "quiet (append_ledger env i ref agent role event_type payload)"
  by (simp add: quiet_def append_ledger_def Let_def split: sum.split)

lemma quiet_record_rejected [simp]: "quiet (record_response_rejected env response code i)"
  unfolding quiet_def record_response_rejected_def
  by (auto split: sum.splits prod.splits dest: quiet_result [OF quiet_ledger])

lemma quiet_raise_rejected [simp]: "quiet (raise_response_rejected env status response code i lid recovery)"
  unfolding raise_response_rejected_def by (intro quiet_abind) simp_all

lemma quiet_reject_submission [simp]: "quiet (reject_submission env status response reason)"
  unfolding reject_submission_def by (intro quiet_abind) simp_all

lemma quiet_checked [simp]: "quiet (checked_response env status response item i lid)"
  unfolding quiet_def checked_response_def
  by (simp add: quietD [OF quiet_raise_rejected] split: prod.split option.split)

lemma quiet_found [simp]: "quiet (prepare_found env files status response lid l)"
  unfolding quiet_def prepare_found_def
  by (auto simp: Let_def quietD [OF quiet_raise_rejected] quietD [OF quiet_reject_submission]
      quiet_result [OF quiet_checked] split: option.splits prod.splits sum.splits)

lemma quiet_rebound [simp]: "quiet (prepare_rebound env status response l i)"
  unfolding quiet_def prepare_rebound_def Let_def
  by (simp add: quietD [OF quiet_abind [OF quiet_checked]])

lemma quiet_prepare [simp]: "quiet (prepare_action_response_submission env files status response)"
proof -
  have "quiet (required_response_field status response ''lease_id'')"
    by (simp add: quiet_def required_response_field_def areturn_def araise_def)
  then show ?thesis
    unfolding prepare_action_response_submission_def
    by (rule quiet_abind)
      (simp add: quiet_def quietD [OF quiet_found] quietD [OF quiet_rebound] quietD [OF quiet_reject_submission]
        split: option.split prod.split)
qed

lemma quiet_cited [simp]: "quiet (verify_cited_commit_in_pr env status commits p response)"
  unfolding quiet_def verify_cited_commit_in_pr_def
  by (simp add: Let_def quietD [OF quiet_raise_rejected] split: sum.split)

section \<open>The operations of the protocol\<close>

interpretation prepare: agent_operation "prepare_action_response_submission env files status response"
  for env files status response
  by (rule quiet_operation) simp

interpretation cited: agent_operation "verify_cited_commit_in_pr env status commits p response"
  for env status commits p response
  by (rule quiet_operation) simp

interpretation ledger: agent_operation "append_ledger env i ref agent role event_type payload"
  for env i ref agent role event_type payload
  by (rule quiet_operation) simp

text \<open>Releasing the lease of a request that cannot be answered any more.\<close>

lemma release_irrecoverable_effect:
  "as_leases (snd (release_irrecoverable_request_lease env p s)) = as_leases s
   \<or> (\<exists>item. as_leases (snd (release_irrecoverable_request_lease env p s))
          = put_item (pr_item_id p) item (as_leases s))
   \<or> (\<exists>item. as_leases (snd (release_irrecoverable_request_lease env p s))
          = put_item (pr_item_id p) item
              (snd (release_lease (pr_lease_id p) (ae_now env) (Some ''stale_request_context'') (as_leases s))))
   \<or> as_leases (snd (release_irrecoverable_request_lease env p s))
        = snd (release_lease (pr_lease_id p) (ae_now env) (Some ''stale_request_context'') (as_leases s))"
  unfolding release_irrecoverable_request_lease_def Let_def
  by (auto simp: put_session_item_def split: prod.splits sum.splits lease_error.splits)

interpretation irrecoverable: agent_operation "release_irrecoverable_request_lease env p" for env p
proof
  fix s
  show "lease_inv (as_leases s) \<Longrightarrow> lease_inv (as_leases (snd (release_irrecoverable_request_lease env p s)))"
    using release_irrecoverable_effect [of env p s]
    by (elim disjE exE) (simp_all add: release_inv inv_cong [OF leases_frame(1)])
  show "\<exists>es. s_events (as_leases (snd (release_irrecoverable_request_lease env p s))) = s_events (as_leases s) @ es"
    using release_irrecoverable_effect [of env p s] release_events
    by (elim disjE exE) simp_all
qed

text \<open>Checking the revision binding may release the lease; the cached observation is no lease data.\<close>

lemma with_doc_leases [simp]: "as_leases (s\<lparr>as_doc := d\<rparr>) = as_leases s"
  by simp

interpretation binding: agent_operation "verify_request_revision_binding env files status observed p response"
  for env files status observed p response
proof -
  let ?reject = "\<lambda>code current. abind (record_response_rejected env response code (Some (pr_item_id p))) (\<lambda>_.
      abind (if code \<in> {''STALE_REQUEST_CONTEXT'', ''STACK_ACTION_CONTEXT_MISMATCH''}
             then release_irrecoverable_request_lease env p else areturn ()) (\<lambda>_.
        araise (WorkflowError status code
          ([(''item_id'', PStr (pr_item_id p)), (''lease_id'', PStr (pr_lease_id p))]
           @ (if code \<in> set stack_context_reasons then stack_diagnostic_payload current else []))))) :: pydict option agent_op"
  have reject: "agent_operation (?reject code current)" for code current
  proof (intro abind_operation)
    show "agent_operation (record_response_rejected env response code (Some (pr_item_id p)))"
      by (rule quiet_operation) simp
    show "agent_operation (if code \<in> {''STALE_REQUEST_CONTEXT'', ''STACK_ACTION_CONTEXT_MISMATCH''}
        then release_irrecoverable_request_lease env p else areturn ())"
      by (cases "code \<in> {''STALE_REQUEST_CONTEXT'', ''STACK_ACTION_CONTEXT_MISMATCH''}")
        (simp_all only: if_True if_False irrecoverable.agent_operation_axioms quiet_operation [OF quiet_return(1)])
  qed (rule quiet_operation, simp)
  show "agent_operation (verify_request_revision_binding env files status observed p response)"
  proof
    fix s :: agent_session
    let ?b = "binding_rejection (ae_pr_number env) (request_repository_context files (pr_lease p))
                (has_observed_stack_membership (as_doc s)) observed"
    let ?s = "case snd ?b of None \<Rightarrow> s
                | Some c \<Rightarrow> s\<lparr>as_doc := cache_pull_request_context (as_doc s) (context_to_dict c)\<rparr>"
    have same: "as_leases ?s = as_leases s" by (simp split: option.split)
    have run: "snd (verify_request_revision_binding env files status observed p response s)
        = (case fst ?b of None \<Rightarrow> ?s | Some code \<Rightarrow> snd (?reject code (snd ?b) ?s))"
      unfolding verify_request_revision_binding_def Let_def by (simp only: case_prod_beta) (simp split: option.split)
    show "lease_inv (as_leases s) \<Longrightarrow>
        lease_inv (as_leases (snd (verify_request_revision_binding env files status observed p response s)))"
      using agent_operation.keeps_leases [OF reject, of ?s] by (simp only: run same) (simp add: same split: option.split)
    show "\<exists>es. s_events (as_leases (snd (verify_request_revision_binding env files status observed p response s)))
        = s_events (as_leases s) @ es"
      using agent_operation.appends_log [OF reject, of _ _ ?s] by (simp only: run same) (simp add: same split: option.split)
  qed
qed

text \<open>Submitting and accepting the lease of a response.\<close>

lemma submit_and_accept_leases:
  "as_leases (snd (submit_and_accept env response lid l item_id h s))
     = snd (submit_lease lid (submit_args_of env response l item_id h) (as_leases s))
   \<or> as_leases (snd (submit_and_accept env response lid l item_id h s))
     = snd (accept_lease lid (ae_now env) (snd (submit_lease lid (submit_args_of env response l item_id h) (as_leases s))))"
  by (simp add: submit_and_accept_def split: prod.split sum.split)

lemma submit_and_accept_inv:
  "lease_inv (as_leases s) \<Longrightarrow> lease_inv (as_leases (snd (submit_and_accept env response lid l item_id h s)))"
  using submit_and_accept_leases [of env response lid l item_id h s]
  by (elim disjE) (simp_all add: submit_inv accept_inv)

lemma submit_and_accept_events:
  "\<exists>es. s_events (as_leases (snd (submit_and_accept env response lid l item_id h s))) = s_events (as_leases s) @ es"
  using submit_and_accept_leases [of env response lid l item_id h s] submit_events
    submit_accept.seq.appends_events
  by (elim disjE) metis+

text \<open>What accepting does to the leases: one submission, or two when the lease was rebound.\<close>

lemma accept_response_leases:
  obtains (once) s1 where "s1 = snd (submit_and_accept env response (pr_lease_id p) (pr_lease p) (pr_item_id p)
        (pr_expected_request_hash p) s)" "as_leases (snd (accept_response_lease env status response p s)) = as_leases s1"
  | (quietly) s1 m where "s1 = snd (submit_and_accept env response (pr_lease_id p) (pr_lease p) (pr_item_id p)
        (pr_expected_request_hash p) s)" "quiet (m :: unit agent_op)"
      "as_leases (snd (accept_response_lease env status response p s)) = as_leases (snd (m s1))"
  | (rebound) s1 l where "s1 = snd (submit_and_accept env response (pr_lease_id p) (pr_lease p) (pr_item_id p)
        (pr_expected_request_hash p) s)"
      "as_leases (snd (accept_response_lease env status response p s))
        = as_leases (snd (submit_and_accept env response (lease_id l) l (pr_item_id p) (given_text (l_request_hash l)) s1))"
proof -
  obtain r s1 where run: "submit_and_accept env response (pr_lease_id p) (pr_lease p) (pr_item_id p)
      (pr_expected_request_hash p) s = (r, s1)" by fastforce
  then have s1: "s1 = snd (submit_and_accept env response (pr_lease_id p) (pr_lease p) (pr_item_id p)
      (pr_expected_request_hash p) s)" by simp
  show thesis
  proof (cases r)
    case None
    with run show thesis by (intro once [OF s1]) (simp add: accept_response_lease_def)
  next
    case (Some e)
    show thesis
    proof (cases e)
      case (LeaseSubmissionError code detail recovery)
      note e = run Some LeaseSubmissionError
      define found where "found = (if code \<in> {''STALE_LEASE'', ''LEASE_NOT_FOUND''}
          then recover_rebound_github_thread_lease s1 response (pr_item_id p) (pr_lease_id p) else None)"
      show thesis
      proof (cases found)
        case None
        let ?m = "abind (record_response_rejected env response code (Some (pr_item_id p))) (\<lambda>_. areturn ())"
        have "as_leases (snd (accept_response_lease env status response p s)) = as_leases (snd (?m s1))"
          unfolding accept_response_lease_def e prod.case option.case lease_error.case found_def [symmetric] None
          by (simp add: abind_snd areturn_def araise_def split: sum.split)
        then show thesis by (rule quietly [OF s1, rotated]) (intro quiet_abind quiet_record_rejected quiet_return)
      next
        case (Some li)
        then have "as_leases (snd (accept_response_lease env status response p s)) = as_leases (snd (submit_and_accept
            env response (lease_id (fst li)) (fst li) (pr_item_id p) (given_text (l_request_hash (fst li))) s1))"
          unfolding accept_response_lease_def e prod.case option.case lease_error.case found_def [symmetric]
          by (simp split: prod.split option.split)
        then show thesis by (rule rebound [OF s1])
      qed
    next
      case (LeaseConflictError code detail)
      with Some run show thesis by (intro once [OF s1]) (simp add: accept_response_lease_def)
    next
      case (LeaseRaised x)
      with Some run show thesis by (intro once [OF s1]) (simp add: accept_response_lease_def)
    qed
  qed
qed

interpretation accept_lease: agent_operation "accept_response_lease env status response p" for env status response p
proof
  fix s
  show "lease_inv (as_leases s) \<Longrightarrow> lease_inv (as_leases (snd (accept_response_lease env status response p s)))"
    by (cases rule: accept_response_leases [of env response p s status])
      (simp_all add: submit_and_accept_inv inv_cong [OF quietD(1)])
  obtain es where es: "s_events (as_leases (snd (submit_and_accept env response (pr_lease_id p) (pr_lease p) (pr_item_id p)
        (pr_expected_request_hash p) s))) = s_events (as_leases s) @ es"
    using submit_and_accept_events by blast
  show "\<exists>es. s_events (as_leases (snd (accept_response_lease env status response p s))) = s_events (as_leases s) @ es"
  proof (cases rule: accept_response_leases [of env response p s status])
    case (rebound s1 l)
    then show ?thesis using es submit_and_accept_events [of env response "lease_id l" l "pr_item_id p" _ s1] by auto
  qed (simp_all add: es quietD)
qed

lemma quiet_reject_verification [simp]: "quiet (reject_verification env response item_id lid l)"
  unfolding quiet_def reject_verification_def Let_def
  by (simp add: quietD [OF quiet_abind [OF quiet_ledger]])

interpretation accept_submission: agent_operation "accept_action_response_submission env status response p"
  for env status response p
proof -
  have "quiet (\<lambda>s. if role_str (l_role l) = ''verifier'' \<and> py_str (dget response ''resolution'') = ''reject''
      then reject_verification env response (pr_item_id p) lid l s
      else (let item = (case session_item s (pr_item_id p) of None \<Rightarrow> [] | Some i \<Rightarrow> i);
                s1 = put_session_item (pr_item_id p) (apply_response_to_item (ae_timestamp env) response item) s
            in append_ledger env (pr_item_id p) (PStr lid) (py_str (dget response ''agent_id'')) (role_str (l_role l))
                 ''response_accepted''
                 [(''resolution'', dget response ''resolution''), (''note'', dget response ''note''),
                  (''response'', PDict (replayable_action_response response))] s1))" for lid l
    unfolding quiet_def Let_def by (simp add: quietD [OF quiet_reject_verification] quietD [OF quiet_ledger])
  then show "agent_operation (accept_action_response_submission env status response p)"
    unfolding accept_action_response_submission_def
    by (intro abind_operation accept_lease.agent_operation_axioms) (auto intro: quiet_operation)
qed

interpretation preflight: agent_operation "preflight env files view publish response" for env files view publish response
proof -
  have "quiet (if publish then validate_publish_shortcut_target response else areturn ())"
    by (simp add: quiet_def validate_publish_shortcut_target_def areturn_def split: option.split)
  note target = quiet_operation [OF this]
  have checks: "agent_operation (case pr of (p, r) \<Rightarrow>
      abind (verify_request_revision_binding env files ACTION_REJECTED (sv_observed view) p r) (\<lambda>binding.
      abind (verify_cited_commit_in_pr env ACTION_REJECTED (sv_commits view) p (with_binding binding r)) (\<lambda>_.
        areturn (p, with_binding binding r))))" for pr
    by (cases pr, simp only: prod.case)
      (intro abind_operation binding.agent_operation_axioms cited.agent_operation_axioms quiet_operation quiet_return)
  show "agent_operation (preflight env files view publish response)"
    unfolding preflight_def by (intro abind_operation target prepare.agent_operation_axioms checks)
qed

lemma with_metadata_leases [simp]: "as_leases (with_metadata m s) = as_leases s"
  by (simp add: with_metadata_def)

text \<open>The transaction body catches the refusals of the acceptance.\<close>

lemma accept_current_snd:
  "as_leases (snd (accept_current env files metadata response s)) =
     (let prep = prepare_action_response_submission env files ACTION_REJECTED response (with_metadata metadata s)
      in case fst prep of
           Inl e \<Rightarrow> as_leases (snd prep)
         | Inr (p, r) \<Rightarrow> as_leases (snd (accept_action_response_submission env ACTION_REJECTED r p (snd prep))))"
  unfolding accept_current_def Let_def
  by (simp split: prod.split sum.split effect_error.split)

interpretation accept_current: agent_operation "accept_current env files metadata response" for env files metadata response
proof
  fix s :: agent_session
  let ?prep = "prepare_action_response_submission env files ACTION_REJECTED response (with_metadata metadata s)"
  show "lease_inv (as_leases s) \<Longrightarrow> lease_inv (as_leases (snd (accept_current env files metadata response s)))"
    using prepare.keeps_leases [of "with_metadata metadata s"]
    by (simp add: accept_current_snd Let_def accept_submission.keeps_leases split: sum.split prod.split)
  have "\<exists>es. s_events (as_leases (snd (accept_action_response_submission env ACTION_REJECTED r p (snd ?prep))))
      = s_events (as_leases s) @ es" for r p
    using accept_submission.appends_log [of env ACTION_REJECTED r p "snd ?prep"] quietD(2) [OF quiet_prepare] by simp
  then show "\<exists>es. s_events (as_leases (snd (accept_current env files metadata response s))) = s_events (as_leases s) @ es"
    by (simp add: accept_current_snd Let_def quietD [OF quiet_prepare] split: sum.split prod.split)
qed

lemma release_claimed_on_leases: "release_claimed env lid reason = on_leases (release_claimed_lease lid (ae_now env) reason)"
  by (rule ext) (simp add: release_claimed_def on_leases_def)

interpretation release_claimed_op: agent_operation "release_claimed env lid reason" for env lid reason
  unfolding release_claimed_on_leases by (rule lease_operation_lifts) (rule release_claimed.lease_operation_axioms)

text \<open>The expiry of what was loaded, and the claim under the write lock.\<close>

lemma expire_loaded_leases:
  "s_leases (as_leases (expire_loaded env s)) = s_leases (snd (expire_leases (ae_now env) (as_leases s)))"
  "s_events (as_leases (expire_loaded env s)) = s_events (snd (expire_leases (ae_now env) (as_leases s)))"
  by (simp_all add: expire_loaded_def split: prod.split)

lemma expire_loaded_inv: "lease_inv (as_leases s) \<Longrightarrow> lease_inv (as_leases (expire_loaded env s))"
  using inv_cong [OF expire_loaded_leases(1)] by (simp add: expire_inv)

lemma expire_loaded_events: "\<exists>es. s_events (as_leases (expire_loaded env s)) = s_events (as_leases s) @ es"
  using expire_events by (simp add: expire_loaded_leases)

lemma commit_claim_leases:
  obtains (unclaimed) "as_leases (snd (commit_claim env a p s)) = as_leases (expire_loaded env s)"
  | (tried) ls item where "s_leases ls = s_leases (as_leases (expire_loaded env s))"
      "s_events ls = s_events (as_leases (expire_loaded env s))"
      "s_leases (as_leases (snd (commit_claim env a p s))) = s_leases (snd (claim_lease (claim_args_of env a p item) item ls))"
      "s_events (as_leases (snd (commit_claim env a p s))) = s_events (snd (claim_lease (claim_args_of env a p item) item ls))"
proof (cases "session_item (expire_loaded env s) (cp_item_id p)")
  case None
  then show thesis by (intro unclaimed) (simp add: commit_claim_def)
next
  case (Some item0)
  let ?item = "with_classification p item0"
  let ?ls = "as_leases (put_session_item (cp_item_id p) ?item (expire_loaded env s))"
  show thesis
    by (rule tried [of ?ls ?item])
      (use Some in \<open>simp_all add: commit_claim_def Let_def split: prod.split sum.split\<close>)
qed

interpretation commit_claim: agent_operation "commit_claim env a p" for env a p
proof
  fix s :: agent_session
  show "lease_inv (as_leases (snd (commit_claim env a p s)))" if inv: "lease_inv (as_leases s)"
  proof (cases rule: commit_claim_leases [of env a p s])
    case unclaimed
    then show ?thesis by (simp add: expire_loaded_inv inv)
  next
    case (tried ls item)
    have "lease_inv ls" using expire_loaded_inv [OF inv] inv_cong [OF tried(1)] by simp
    then show ?thesis using inv_cong [OF tried(3)] by (simp add: claim_inv)
  qed
  obtain es where es: "s_events (as_leases (expire_loaded env s)) = s_events (as_leases s) @ es"
    using expire_loaded_events by blast
  show "\<exists>es. s_events (as_leases (snd (commit_claim env a p s))) = s_events (as_leases s) @ es"
  proof (cases rule: commit_claim_leases [of env a p s])
    case unclaimed
    with es show ?thesis by simp
  next
    case (tried ls item)
    obtain es' where "s_events (snd (claim_lease (claim_args_of env a p item) item ls)) = s_events ls @ es'"
      using claim_events by blast
    with es tried(2,4) show ?thesis by simp
  qed
qed

text \<open>Classification may release a triage lease.\<close>

lemma release_triage_leases:
  "s_leases (as_leases (snd (release_active_triage_lease env i agent s))) = s_leases (as_leases s)
     \<and> s_events (as_leases (snd (release_active_triage_lease env i agent s))) = s_events (as_leases s)
   \<or> (\<exists>k why. s_leases (as_leases (snd (release_active_triage_lease env i agent s)))
          = s_leases (snd (release_lease k (ae_now env) why (as_leases s)))
        \<and> s_events (as_leases (snd (release_active_triage_lease env i agent s)))
          = s_events (snd (release_lease k (ae_now env) why (as_leases s))))"
proof -
  have "quiet (abind (append_ledger env i (PStr k) agent ''triage'' ''classification_lease_released''
      [(''reason'', PStr ''classification_recorded'')]) (\<lambda>_. areturn (Some k)))" for k
    by (rule quiet_abind) simp_all
  note quiet = quietD [OF this]
  show ?thesis
  proof (cases "find (is_active_triage i) (s_leases (as_leases s))")
    case None
    then show ?thesis by (simp add: release_active_triage_lease_def)
  next
    case (Some kl)
    then show ?thesis
      by (intro disjI2 exI [of _ "fst kl"] exI [of _ "Some ''classification_recorded''"])
        (simp add: release_active_triage_lease_def quiet split: prod.split sum.split)
  qed
qed

interpretation triage_release: agent_operation "release_active_triage_lease env i agent" for env i agent
proof
  fix s :: agent_session
  show "lease_inv (as_leases s) \<Longrightarrow> lease_inv (as_leases (snd (release_active_triage_lease env i agent s)))"
    using release_triage_leases [of env i agent s] inv_cong release_inv by blast
  show "\<exists>es. s_events (as_leases (snd (release_active_triage_lease env i agent s))) = s_events (as_leases s) @ es"
    using release_triage_leases [of env i agent s] release_events by (metis append_Nil2)
qed

interpretation classify: agent_operation "classify_item env i c agent remark" for env i c agent remark
proof (rule agent_operation.intro)
  fix s :: agent_session
  define tail where "tail = (\<lambda>r item1. abind (release_active_triage_lease env i agent) (\<lambda>released s2.
      (Inr (r :: evidence_record, released :: string option) :: effect_error + (evidence_record \<times> string option),
       if released = None then s2 else put_session_item i (freed_after_triage item1) s2)))"
  have quiet: "quiet (\<lambda>s2. (Inr (r, released) :: effect_error + (evidence_record \<times> string option),
       if released = None then s2 else put_session_item i (freed_after_triage item1) s2))" for r released item1
    by (simp add: quiet_def)
  have tail: "agent_operation (tail r item1)" for r item1
    unfolding tail_def by (intro abind_operation triage_release.agent_operation_axioms quiet_operation quiet)
  have run: "s_leases (as_leases (snd (classify_item env i c agent remark s))) = s_leases (as_leases s)
       \<and> s_events (as_leases (snd (classify_item env i c agent remark s))) = s_events (as_leases s)
     \<or> (\<exists>r item1 s1. s_leases (as_leases s1) = s_leases (as_leases s) \<and> s_events (as_leases s1) = s_events (as_leases s)
          \<and> snd (classify_item env i c agent remark s) = snd (tail r item1 s1))"
  proof (cases "session_item s i")
    case None
    then show ?thesis by (simp add: classify_item_def)
  next
    case (Some item)
    let ?l = "append_ledger env i PNone agent ''triage'' ''classification_recorded''
                [(''classification'', PStr c), (''note'', PStr remark)]"
    obtain r s1 where l: "?l s = (r, s1)" by fastforce
    note same = quiet_result [OF quiet_ledger l]
    show ?thesis
    proof (cases r)
      case (Inl e)
      with Some l same show ?thesis by (simp add: classify_item_def)
    next
      case (Inr ev)
      show ?thesis
        using Some l Inr same unfolding classify_item_def tail_def [abs_def]
        by (intro disjI2 exI conjI) (simp_all add: Let_def)
    qed
  qed
  show "lease_inv (as_leases s) \<Longrightarrow> lease_inv (as_leases (snd (classify_item env i c agent remark s)))"
    using run agent_operation.keeps_leases [OF tail] inv_cong by metis
  show "\<exists>es. s_events (as_leases (snd (classify_item env i c agent remark s))) = s_events (as_leases s) @ es"
    using run agent_operation.appends_log [OF tail] by (metis append_Nil2)
qed

end
