(* ===== verification/Agent_History.thy ===== *)
theory Agent_History
  imports Agent_Contract
begin

text \<open>
  Commands of the agent protocol on the committed store, and histories of them. \<open>progress\<close> is
  what a command keeps: the invariant of the leases, and evidence and revision that only grow,
  where an unchanged revision means an unchanged session. A transaction keeps it when its body
  is an \<open>agent_operation\<close>; \<open>agent_command\<close> is interpreted for every command, and the step
  relation \<open>agent_steps\<close> collects the commands of several processes that interleave.
\<close>

section \<open>Progress\<close>

definition store_inv :: "agent_store \<Rightarrow> bool" where
  "store_inv st \<longleftrightarrow> lease_inv (as_leases (ag_session st))"

definition progress :: "agent_store \<Rightarrow> agent_store \<Rightarrow> bool" where
  "progress st st' \<longleftrightarrow>
     (store_inv st \<longrightarrow> store_inv st') \<and> ag_revision st \<le> ag_revision st'
     \<and> (\<exists>es. ag_evidence st' = ag_evidence st @ es)
     \<and> (ag_revision st' = ag_revision st \<longrightarrow> ag_session st' = ag_session st \<and> ag_evidence st' = ag_evidence st)"

lemma progress_refl [simp]: "progress st st"
  by (simp add: progress_def)

lemma progress_trans [trans]: "progress a b \<Longrightarrow> progress b c \<Longrightarrow> progress a c"
  unfolding progress_def by auto

lemma progress_files [simp]: "progress st (st'\<lparr>ag_files := f\<rparr>) = progress st st'"
  by (simp add: progress_def store_inv_def)

lemma progress_write [simp]: "progress st (write_file path d st') = progress st st'"
  by (simp add: write_file_def)

text \<open>What a load and a commit do to the leases.\<close>

lemma project_claims_Inr:
  "project_claims s = Inr s' \<Longrightarrow>
     s_leases (as_leases s') = s_leases (as_leases s) \<and> s_events (as_leases s') = s_events (as_leases s)
     \<and> as_doc s' = as_doc s"
  by (auto simp: project_claims_def Let_def split: if_splits)

lemma map_of_map_values: "map_of (map (\<lambda>(k, v). (k, f v)) xs) k = map_option f (map_of xs k)"
  by (induction xs) auto

lemma stored_lease_at [simp]: "lease_at (as_leases (stored_leases s)) k = map_option reload_lease (lease_at (as_leases s) k)"
  by (simp add: stored_leases_def map_of_map_values)

lemma stored_leases_inv: "lease_inv (as_leases s) \<Longrightarrow> lease_inv (as_leases (stored_leases s))"
proof (rule reloaded_inv)
  assume "lease_inv (as_leases s)"
  then have "distinct (map fst (s_leases (as_leases s)))" by (simp add: lease_inv_def lease_wf_def)
  then show "reloaded (as_leases s) (as_leases (stored_leases s))"
    unfolding reloaded_def by (simp del: stored_lease_at add: stored_leases_def map_of_map_values comp_def case_prod_beta)
qed

lemma commit_agent_Inr:
  assumes "commit_agent evidence s st = Inr st'"
  obtains p pending doc where "project_claims s = Inr p" "take_pending_evidence (as_doc p) = Inr (pending, doc)"
    "st' = st\<lparr>ag_session := stored_leases (p\<lparr>as_doc := doc\<rparr>), ag_revision := Suc (ag_revision st),
              ag_evidence := ag_evidence st @ evidence @ pending\<rparr>"
  using assms unfolding commit_agent_def
  by (cases "project_claims s") (auto simp: sum_bind_def split: sum.splits prod.splits)

lemma transact_agent_cases:
  obtains (unchanged) e where "transact_agent expected evidence op st = (Inl e, st)"
  | (committed) s a s' st' where "project_claims (ag_session st) = Inr s" "op s = (Inr a, s')"
      "expected \<in> {None, Some (ag_revision st)}" "commit_agent evidence s' st = Inr st'"
      "transact_agent expected evidence op st = (Inr a, st')"
proof (cases "project_claims (ag_session st)")
  case (Inl e)
  then show thesis by (intro unchanged) (simp add: transact_agent_def)
next
  case (Inr s)
  note s = Inr
  obtain r s' where op: "op s = (r, s')" by fastforce
  show thesis
  proof (cases "expected \<notin> {None, Some (ag_revision st)}")
    case True
    with s show thesis by (intro unchanged) (simp add: transact_agent_def)
  next
    case False
    show thesis
    proof (cases r)
      case (Inl e)
      with s op False show thesis by (intro unchanged) (simp add: transact_agent_def)
    next
      case (Inr a)
      show thesis
      proof (cases "commit_agent evidence s' st")
        case (Inl e)
        with s op False \<open>r = Inr a\<close> show thesis by (intro unchanged) (simp add: transact_agent_def)
      next
        case (Inr st')
        with s op False \<open>r = Inr a\<close> show thesis by (intro committed) (simp_all add: transact_agent_def)
      qed
    qed
  qed
qed

text \<open>A transaction of a process that loaded the store at \<open>st0\<close>.\<close>

lemma transact_progress:
  assumes before: "progress st0 st"
    and body: "\<And>s. store_inv st0 \<Longrightarrow> lease_inv (as_leases s) \<Longrightarrow> lease_inv (as_leases (snd (op s)))"
  shows "progress st0 (snd (transact_agent expected evidence op st))"
proof (cases rule: transact_agent_cases [of expected evidence op st])
  case (unchanged e)
  with before show ?thesis by simp
next
  case (committed s a s' st')
  from committed(4) obtain p pending doc where p: "project_claims s' = Inr p"
    and st': "st' = st\<lparr>ag_session := stored_leases (p\<lparr>as_doc := doc\<rparr>), ag_revision := Suc (ag_revision st),
              ag_evidence := ag_evidence st @ evidence @ pending\<rparr>"
    by (rule commit_agent_Inr)
  have inv: "store_inv st'" if "store_inv st0"
  proof -
    have "lease_inv (as_leases (ag_session st))" using before that by (simp add: progress_def store_inv_def)
    then have "lease_inv (as_leases s)" using inv_cong [of "as_leases s"] project_claims_Inr [OF committed(1)] by simp
    then have "lease_inv (as_leases s')" using body [OF that, of s] committed(2) by simp
    then have "lease_inv (as_leases (p\<lparr>as_doc := doc\<rparr>))" using inv_cong [of "as_leases p"] project_claims_Inr [OF p] by simp
    then show ?thesis by (simp add: st' store_inv_def stored_leases_inv)
  qed
  from before obtain es where "ag_evidence st = ag_evidence st0 @ es" and "ag_revision st0 \<le> ag_revision st"
    by (auto simp: progress_def)
  then have "progress st0 st'" using inv by (simp add: progress_def st')
  with committed(5) show ?thesis by simp
qed

section \<open>Commands\<close>

locale agent_command =
  fixes cmd :: "agent_store \<Rightarrow> 'r \<times> agent_store"
  assumes progresses: "progress st (snd (cmd st))"
begin

lemma keeps_store: "store_inv st \<Longrightarrow> store_inv (snd (cmd st))"
  using progresses [of st] by (simp add: progress_def)

lemma evidence_durable: "set (ag_evidence st) \<subseteq> set (ag_evidence (snd (cmd st)))"
  using progresses [of st] by (auto simp: progress_def)

lemma unchanged_revision: "ag_revision (snd (cmd st)) = ag_revision st \<Longrightarrow> ag_session (snd (cmd st)) = ag_session st"
  using progresses [of st] by (simp add: progress_def)

lemma after_others: "progress st0 st \<Longrightarrow> progress st0 (snd (cmd st))"
  using progresses progress_trans by blast

end

text \<open>A transaction whose body keeps the contract of operations is a command.\<close>

locale agent_transaction = agent_operation op for op :: "'a agent_op"
begin

sublocale commit: agent_command "transact_agent expected evidence op" for expected evidence
  by unfold_locales (rule transact_progress; simp add: keeps_leases)

end

interpretation classify_transaction: agent_transaction "classify_item env i c agent remark" for env i c agent remark
  by unfold_locales

interpretation claim_transaction: agent_transaction "commit_claim env a p" for env a p
  by unfold_locales

interpretation accept_transaction: agent_transaction "accept_current env files metadata response" for env files metadata response
  by unfold_locales

interpretation release_transaction: agent_transaction "release_claimed env lid reason" for env lid reason
  by unfold_locales

interpretation rejection_transaction: agent_transaction "append_rejection env record_id payload" for env record_id payload
proof -
  have "quiet (append_rejection env record_id payload)"
    by (simp add: quiet_def append_rejection_def Let_def split: sum.split)
  then show "agent_transaction (append_rejection env record_id payload)"
    by (simp add: agent_transaction_def quiet_operation)
qed

interpretation record_classification: agent_command "record_classification env i c agent remark" for env i c agent remark
proof
  fix st
  show "progress st (snd (record_classification env i c agent remark st))"
    unfolding record_classification_def Let_def
    by (auto intro: classify_transaction.commit.progresses)
qed

text \<open>Writing back what was loaded, when what was decided on it kept the invariant.\<close>

lemma persist_loaded_progress:
  assumes "progress st0 st" "store_inv st0 \<Longrightarrow> lease_inv (as_leases s)"
  shows "progress st0 (snd (persist_loaded revision s st))"
  unfolding persist_loaded_def using assms by (intro transact_progress) auto

lemma persist_and_raise_progress:
  assumes "progress st0 st" "store_inv st0 \<Longrightarrow> lease_inv (as_leases s)"
  shows "progress st0 (snd (persist_and_raise revision s e st))"
  using persist_loaded_progress [OF assms, of revision]
  by (cases "persist_loaded revision s st") (simp add: persist_and_raise_def split: sum.split)

section \<open>Issuing requests\<close>

lemma persist_rejection_progress: "progress st0 st \<Longrightarrow> progress st0 (snd (persist_request_rejection env a code payload st))"
  using rejection_transaction.commit.after_others [of st0 st None "[]" env "''ev_'' @ ri_uuid a" "rejection_payload code payload"]
  by (simp add: persist_request_rejection_def Let_def case_prod_beta)

lemma reject_request_progress: "progress st0 st \<Longrightarrow> progress st0 (snd (reject_request env a code ctx st))"
  using persist_rejection_progress [of st0 st env a code "stack_diagnostic_payload (Some ctx)"]
  by (simp add: reject_request_def Let_def case_prod_beta)

lemma refresh_progress: "progress st0 st \<Longrightarrow> progress st0 (snd (refresh_stack_context_for_request env a s st))"
  by (simp add: refresh_stack_context_for_request_def Let_def case_prod_beta reject_request_progress split: sum.split)

lemma refresh_Inr:
  assumes "refresh_stack_context_for_request env a s st = (Inr (ctx, s1), st1)"
  shows "st1 = st" "s1 = s\<lparr>as_doc := cache_pull_request_context (as_doc s) (context_to_dict ctx)\<rparr>"
  using assms by (auto simp: refresh_stack_context_for_request_def Let_def split: sum.splits prod.splits if_splits)

lemma write_artifacts_progress: "progress st0 st \<Longrightarrow> progress st0 (snd (write_artifacts a p l st))"
  by (simp add: write_artifacts_def Let_def split: option.split sum.split)

lemma ensure_skeleton_progress: "progress st0 st \<Longrightarrow> progress st0 (snd (ensure_skeleton path rid lid agent request item st))"
  by (simp add: ensure_skeleton_def split: option.split sum.split)

text \<open>The lease that is re-entered is stored under its id.\<close>

lemma own_fixer_lease_stored:
  assumes "own_fixer_lease a item_id s = Some (l, item)" "lease_inv (as_leases s)"
  shows "lease_at (as_leases s) (lease_id l) = Some l"
proof -
  from assms(1) have "active_fixer_lease_for_item (as_leases s) item_id (Some (ri_agent_id a)) = Some l"
    by (auto simp: own_fixer_lease_def split: if_splits option.splits)
  then have "l \<in> set (map snd (s_leases (as_leases s)))"
    unfolding active_fixer_lease_for_item_def by (auto simp: find_Some_iff)
  then obtain k where k: "(k, l) \<in> set (s_leases (as_leases s))" by auto
  with assms(2) have "lease_at (as_leases s) k = Some l" by (simp add: lease_inv_def lease_wf_def map_of_is_SomeI)
  with assms(2) show ?thesis using lease_inv_id by metis
qed

lemma hash_update_inv:
  assumes "lease_inv ls" "lease_at ls (lease_id l) = Some l"
  shows "lease_inv (put_lease (lease_id l) (l\<lparr>l_request_hash := h\<rparr>) ls)"
  by (rule put_lease_same_inv [OF assms]) (simp add: same_claim_def is_active_def)

lemma rebuild_progress:
  assumes before: "progress st0 st"
    and inv: "store_inv st0 \<Longrightarrow> lease_inv (as_leases s) \<and> lease_at (as_leases s) (lease_id l) = Some l"
  shows "progress st0 (snd (rebuild_request env a revision item_id item l path s st))"
proof -
  obtain r st1 where refresh: "refresh_stack_context_for_request env a s st = (r, st1)" by fastforce
  have p1: "progress st0 st1" using refresh_progress [OF before, of env a s] refresh by simp
  show ?thesis
  proof (cases r)
    case (Inl e)
    with refresh p1 show ?thesis by (simp add: rebuild_request_def)
  next
    case (Inr cs)
    obtain ctx s1 where cs: "cs = (ctx, s1)" by fastforce
    note refresh = refresh [unfolded Inr cs]
    have leases: "as_leases s1 = as_leases s" using refresh_Inr [OF refresh] by simp
    let ?b = "lift_exn (build_request env ''fixer'' (lease_id l) (given_text (l_request_id l)) (dget (as_doc s1) ''session_id'') item ctx)"
    show ?thesis
    proof (cases ?b)
      case (Inl e)
      with refresh p1 show ?thesis by (simp add: rebuild_request_def)
    next
      case (Inr built)
      note built = Inr
      let ?req = "dset ''response_skeleton_path'' (PStr path) built"
      let ?st2 = "write_file (given_text (l_request_path l)) ?req st1"
      show ?thesis
      proof (cases "request_hash_of ?req")
        case (Inl e)
        with refresh built p1 show ?thesis by (simp add: rebuild_request_def Let_def)
      next
        case (Inr h)
        let ?s2 = "s1\<lparr>as_leases := put_lease (lease_id l) (l\<lparr>l_request_hash := Some h\<rparr>) (as_leases s1)\<rparr>"
        obtain x s3 where ev: "rebuilt_event env a item_id l path ?s2 = (x, s3)" by fastforce
        note same = quiet_result(1) [OF quiet_ledger ev [unfolded rebuilt_event_def]]
        have "lease_inv (as_leases s3)" if "store_inv st0"
          using hash_update_inv [of "as_leases s" l "Some h"] inv [OF that] leases by (simp add: inv_cong [OF same])
        then have "progress st0 (snd (persist_loaded revision s3 ?st2))"
          using p1 by (intro persist_loaded_progress) simp_all
        then show ?thesis
          using refresh built Inr ev p1
          by (cases x; cases "persist_loaded revision s3 ?st2"; cases "fst (persist_loaded revision s3 ?st2)")
            (simp_all add: rebuild_request_def Let_def)
      qed
    qed
  qed
qed

lemma reenter_progress:
  assumes before: "progress st0 st"
    and own: "own_fixer_lease a item_id s = Some (l, item)" and inv: "store_inv st0 \<Longrightarrow> lease_inv (as_leases s)"
  shows "progress st0 (snd (reenter_lease env a revision item_id item l s st))"
proof -
  let ?path = "given_text (l_request_path l)" and ?rid = "given_text (l_request_id l)"
  define found where "found = (case payload_for_lease True (ag_files st ?path) ?rid (lease_id l) of
      Some d \<Rightarrow> (Inr d, st)
    | None \<Rightarrow> rebuild_request env a revision item_id item l (with_name ?path (skeleton_name ?rid)) s st)"
  obtain r st1 where r: "found = (r, st1)" by fastforce
  have p1: "progress st0 st1"
  proof -
    have "progress st0 (snd found)"
      unfolding found_def using before rebuild_progress [OF before, of s l] own_fixer_lease_stored [OF own] inv
      by (auto split: option.split)
    with r show ?thesis by simp
  qed
  show ?thesis
  proof (cases r)
    case (Inl e)
    with r p1 show ?thesis unfolding reenter_lease_def Let_def found_def [symmetric] by simp
  next
    case (Inr request)
    let ?e = "ensure_skeleton (with_name ?path (skeleton_name ?rid)) ?rid (lease_id l) (ri_agent_id a) request item st1"
    obtain x st2 where e: "?e = (x, st2)" by fastforce
    have p2: "progress st0 st2" using ensure_skeleton_progress [OF p1] e by (metis snd_conv)
    show ?thesis
      using Inr r e p2 unfolding reenter_lease_def Let_def found_def [symmetric]
      by (cases x) (simp_all split: sum.split)
  qed
qed

text \<open>Other processes, whose commits make progress too.\<close>

locale concurrent_writers =
  fixes others :: "agent_store \<Rightarrow> agent_store"
  assumes others_progress: "progress st (others st)"
begin

lemma others_after: "progress st0 st \<Longrightarrow> progress st0 (others st)"
  using others_progress progress_trans by blast

lemma claim_item_progress: "progress st (snd (claim_item env a others base item_id item s st))"
proof -
  obtain r st1 where refresh: "refresh_stack_context_for_request env a s st = (r, st1)" by fastforce
  have p1: "progress st st1" using refresh_progress [OF progress_refl, of st env a s] refresh by simp
  show ?thesis
  proof (cases r)
    case (Inl e)
    with refresh p1 show ?thesis by (simp add: claim_item_def)
  next
    case (Inr cs)
    obtain ctx s1 where cs: "cs = (ctx, s1)" by fastforce
    show ?thesis
    proof (cases "plan_claim env a base item_id item ctx s1")
      case (Inl e)
      with refresh Inr cs p1 show ?thesis by (simp add: claim_item_def)
    next
      case plan: (Inr p)
      let ?t = "transact_agent None [record_to_json (request_issued env a p (session_text s1 ''session_id''))]
                  (commit_claim env a p) (others st1)"
      obtain x st2 where t: "?t = (x, st2)" by fastforce
      have "progress st (snd ?t)" by (intro claim_transaction.commit.after_others others_after p1)
      with t have "progress st st2" by simp
      then show ?thesis
        using refresh Inr cs plan t write_artifacts_progress [of st st2]
        by (cases x) (simp_all add: claim_item_def)
    qed
  qed
qed

lemma issue_progress: "progress st (snd (issue_action_request env a others st))"
proof (cases "project_claims (ag_session st)")
  case (Inl e)
  then show ?thesis by (simp add: issue_action_request_def)
next
  case (Inr s0)
  let ?s = "expire_loaded env s0"
  have inv: "lease_inv (as_leases ?s)" if "store_inv st"
    using that project_claims_Inr [OF Inr] inv_cong [of "as_leases s0"]
    by (intro expire_loaded_inv) (simp add: store_inv_def)
  have raise: "progress st (snd (persist_and_raise revision s e (others st) :: (effect_error + requested) \<times> agent_store))"
    if "s_leases (as_leases s) = s_leases (as_leases ?s)" for revision s e
    using inv inv_cong [OF that] by (intro persist_and_raise_progress others_progress) simp
  obtain item_id found where n: "next_item (ri_item_id a) ?s = (item_id, found)" by fastforce
  show ?thesis
  proof (cases found)
    case None
    show ?thesis
    proof (cases "own_fixer_lease a item_id ?s")
      case None
      then show ?thesis using Inr n \<open>found = None\<close> raise [OF refl] by (simp add: issue_action_request_def issue_loaded_def)
    next
      case (Some li)
      obtain l item where "li = (l, item)" by fastforce
      with Some reenter_progress [OF others_progress, of a item_id ?s l item st] inv
      show ?thesis using Inr n \<open>found = None\<close> by (simp add: issue_action_request_def issue_loaded_def)
    qed
  next
    case (Some item0)
    have missing: "progress st (snd (missing_classification env a revision item_id s (others st)))"
      if "s_leases (as_leases s) = s_leases (as_leases ?s)" for revision s
    proof -
      let ?l = "append_ledger env item_id PNone (ri_agent_id a) (ri_role a) ''request_rejected''
                  [(''reason_code'', PStr ''MISSING_CLASSIFICATION'')]"
      obtain x s1 where l: "?l s = (x, s1)" by fastforce
      have "s_leases (as_leases s1) = s_leases (as_leases ?s)" using quiet_result(1) [OF quiet_ledger l] that by simp
      from raise [OF this] l show ?thesis
        by (cases x) (simp_all add: missing_classification_def others_progress)
    qed
    show ?thesis
      using Inr n Some missing claim_item_progress by (simp add: issue_action_request_def issue_loaded_def Let_def)
  qed
qed

sublocale issue: agent_command "issue_action_request env a others" for env a
  by unfold_locales (rule issue_progress)

end

section \<open>Submitting responses\<close>

context concurrent_writers
begin

lemma accept_progress: "progress st (snd (accept_action_response env (view\<lparr>sv_others := others\<rparr>) publish path st))"
  (is "progress st (snd (accept_action_response env ?view publish path st))")
proof (cases "load_response_json_object action_response_codes (ag_files st path)")
  case (Inl e)
  then show ?thesis by (simp add: accept_action_response_def)
next
  case (Inr response)
  note response = Inr
  show ?thesis
  proof (cases "project_claims (ag_session st)")
    case (Inl e)
    with response show ?thesis by (simp add: accept_action_response_def)
  next
    case (Inr s)
    obtain r s1 where pre: "preflight env (ag_files st) ?view publish response s = (r, s1)" by fastforce
    have inv: "lease_inv (as_leases s1)" if "store_inv st"
    proof -
      have "lease_inv (as_leases s)"
        using that project_claims_Inr [OF Inr] inv_cong [of "as_leases s"] by (simp add: store_inv_def)
      from preflight.keeps_leases [OF this, of env "ag_files st" ?view publish response] pre show ?thesis by simp
    qed
    have raise: "progress st (snd (persist_and_raise revision s1 e (others st) :: (effect_error + submitted) \<times> agent_store))"
      for revision e
      using inv by (intro persist_and_raise_progress others_progress)
    have trans: "progress st (snd (transact_agent (Some revision) [] (accept_current env files m response') (others st)))"
      for revision files m response'
      by (intro accept_transaction.commit.after_others others_progress)
    show ?thesis
      using response Inr pre raise trans others_progress
      by (simp add: accept_action_response_def accept_loaded_def Let_def case_prod_beta split: sum.split)
  qed
qed

sublocale accept: agent_command "accept_action_response env (view\<lparr>sv_others := others\<rparr>) publish path" for env view publish path
  by unfold_locales (rule accept_progress)

end

text \<open>The attempts of a submission.\<close>

lemma retry_progress:
  assumes "\<And>n st. progress st (snd (snd (operation (n, st))))"
  shows "progress (snd w) (snd (snd (retry_on_stale_revision k operation w)))"
proof (induction k arbitrary: w)
  case 0
  show ?case by simp
next
  case (Suc k)
  obtain r w' where run: "operation w = (r, w')" by (cases "operation w")
  have first: "progress (snd w) (snd w')" using assms [of "snd w" "fst w"] run by simp
  show ?case using run first progress_trans [OF first Suc [of w']] by (simp split: sum.split)
qed

lemma submit_progress:
  assumes "\<And>n x. progress x (sv_others (views n) x)"
  shows "progress st (snd (submit_action_response env views publish path st))"
proof -
  have "progress x (snd (accept_action_response env (views n) publish path x))" for n x
  proof -
    have "concurrent_writers (sv_others (views n))" using assms by (simp add: concurrent_writers_def)
    from concurrent_writers.accept_progress [OF this, of x env "views n" publish path] show ?thesis by simp
  qed
  then have "progress y (snd (snd (submit_attempt env views publish path (n, y))))" for n y
    by (simp add: submit_attempt_def case_prod_beta)
  from retry_progress [of "submit_attempt env views publish path" "(0, st)" STALE_REVISION_ATTEMPTS, OF this]
  show ?thesis by (simp add: submit_action_response_def case_prod_beta)
qed

section \<open>Histories\<close>

text \<open>
  The commands of any number of processes, one commit after the other; while a command reads
  GitHub, others run. An agent may write files at any time.
\<close>

inductive agent_steps :: "agent_store \<Rightarrow> agent_store \<Rightarrow> bool" where
  start: "agent_steps st st"
| classify: "agent_steps st st1 \<Longrightarrow> agent_steps st (snd (record_classification env i c agent remark st1))"
| issue: "agent_steps st st1 \<Longrightarrow> (\<And>x. agent_steps x (others x))
    \<Longrightarrow> agent_steps st (snd (issue_action_request env a others st1))"
| submit: "agent_steps st st1 \<Longrightarrow> (\<And>n x. agent_steps x (sv_others (views n) x))
    \<Longrightarrow> agent_steps st (snd (submit_action_response env views publish path st1))"
| roll_back: "agent_steps st st1 \<Longrightarrow> agent_steps st (snd (transact_agent None [] (release_claimed env lid reason) st1))"
| agent_writes: "agent_steps st st1 \<Longrightarrow> agent_steps st (st1\<lparr>ag_files := files\<rparr>)"

lemma steps_progress: "agent_steps st st' \<Longrightarrow> progress st st'"
proof (induction rule: agent_steps.induct)
  case (issue st st1 others env a)
  then have "concurrent_writers others" by (simp add: concurrent_writers_def)
  from progress_trans [OF issue.IH(1) concurrent_writers.issue_progress [OF this]] show ?case .
next
  case (submit st st1 views env publish path)
  from progress_trans [OF submit.IH(1) submit_progress [OF submit.IH(2)]] show ?case .
qed (simp_all add: record_classification.after_others release_transaction.commit.after_others)

lemma steps_trans: "agent_steps b c \<Longrightarrow> agent_steps a b \<Longrightarrow> agent_steps a c"
  by (induction rule: agent_steps.induct) (auto intro: agent_steps.intros)

text \<open>A one-shot composition is a history of the commands it is made of.\<close>

lemma claimed_steps:
  assumes others: "\<And>x. agent_steps x (others x)" and body: "\<And>rq x. agent_steps x (snd (body rq x))"
  shows "agent_steps st (snd (claimed_fixer_lease env a others body st))"
proof (cases "project_claims (ag_session st)")
  case (Inl e)
  then show ?thesis by (simp add: claimed_fixer_lease_def start)
next
  case (Inr s)
  note s = Inr
  obtain r st1 where i: "issue_action_request env a others st = (r, st1)" by fastforce
  have s1: "agent_steps st st1" using issue [OF start others, of st env a] i by simp
  show ?thesis
  proof (cases r)
    case (Inl e)
    with s i s1 show ?thesis by (simp add: claimed_fixer_lease_def)
  next
    case (Inr rq)
    obtain x st2 where b: "body rq st1 = (x, st2)" by fastforce
    have s2: "agent_steps st st2" using steps_trans [OF body [of st1 rq] s1] b by simp
    note undone = roll_back [OF s2, of env "rq_lease_id rq"]
    show ?thesis
      using s i Inr b s2 undone
      by (cases x) (simp_all add: claimed_fixer_lease_def Let_def case_prod_beta split: effect_error.split sum.split)
  qed
qed

text \<open>Writers of the model: processes that classify, and that release what they claimed.\<close>

interpretation classifying_writers: concurrent_writers "\<lambda>st. snd (record_classification env i c agent remark st)"
  for env i c agent remark
  by unfold_locales (rule record_classification.progresses)

interpretation releasing_writers: concurrent_writers "\<lambda>st. snd (transact_agent None [] (release_claimed env lid reason) st)"
  for env lid reason
  by unfold_locales (rule release_transaction.commit.progresses)

end
