(* ===== verification/Agent_Properties.thy ===== *)
theory Agent_Properties
  imports Agent_History
begin

text \<open>
  What the agent protocol promises: exclusive work over every history of commands, issued
  requests that can be answered, acceptance only for the live holder of a lease, rejections
  that change no work, and one-shot compositions that leave no lease behind.
\<close>

section \<open>A claim that succeeded\<close>

lemma persist_and_raise_Inl [simp]: "fst (persist_and_raise revision s e st) \<noteq> Inr x"
  by (simp add: persist_and_raise_def split: prod.split sum.split)

lemma persist_and_raise_not [simp]: "persist_and_raise revision s e st \<noteq> (Inr x, st')"
  using persist_and_raise_Inl [of revision s e st x] by (metis fst_conv)

lemma reenter_Inr:
  "reenter_lease env a revision item_id item l s st = (Inr rq, st') \<Longrightarrow>
     rq_acquisition rq = ''reentered'' \<and> rq_lease_id rq = lease_id l \<and> rq_item_id rq = item_id"
  by (auto simp: reenter_lease_def Let_def split: prod.splits sum.splits)

lemma missing_classification_not [simp]: "missing_classification env a revision item_id s st \<noteq> (Inr rq, st')"
  by (simp add: missing_classification_def split: prod.split sum.split)

lemma claim_item_Inr:
  assumes "claim_item env a others base item_id item s st = (Inr rq, st')"
  obtains ctx s1 st1 p ev l st2 where
    "refresh_stack_context_for_request env a s st = (Inr (ctx, s1), st1)"
    "plan_claim env a base item_id item ctx s1 = Inr p"
    "transact_agent None ev (commit_claim env a p) (others st1) = (Inr l, st2)"
    "write_artifacts a p l st2 = (Inr rq, st')"
  using assms unfolding claim_item_def by (auto split: prod.splits sum.splits)

lemma write_artifacts_Inr:
  assumes "write_artifacts a p l st = (Inr rq, st')"
  shows "rq_acquisition rq = ''created''" "rq_lease_id rq = new_lease_id a" "rq_request_path rq = cp_request_path p"
    "rq_skeleton_path rq = cp_skeleton_path p" "rq_resume_token rq = l_resume_token l" "rq_item_id rq = cp_item_id p"
    "ag_session st' = ag_session st" "ag_revision st' = ag_revision st" "ag_evidence st' = ag_evidence st"
  using assms by (auto simp: write_artifacts_def Let_def write_file_def split: option.splits sum.splits)

lemma write_artifacts_files:
  assumes "write_artifacts a p l st = (Inr rq, st')"
  obtains item skeleton where
    "response_skeleton_for_request (dset ''response_skeleton_path'' (PStr (cp_skeleton_path p)) (cp_request p))
        (ri_agent_id a) item = Inr skeleton"
    "ag_files st' = ((ag_files st)(cp_request_path p := JsonFile (PDict (dset ''response_skeleton_path''
            (PStr (cp_skeleton_path p)) (cp_request p)))))(cp_skeleton_path p := JsonFile (PDict skeleton))"
  using assms by (auto simp: write_artifacts_def Let_def write_file_def split: option.splits sum.splits)

text \<open>The two ways a request is issued.\<close>

lemma issue_cases:
  assumes "issue_action_request env a others st = (Inr rq, st')"
  obtains (reentered) s0 l item where "project_claims (ag_session st) = Inr s0"
      "own_fixer_lease a (rq_item_id rq) (expire_loaded env s0) = Some (l, item)"
      "rq_acquisition rq = ''reentered''" "rq_lease_id rq = lease_id l"
      "rq_item_id rq = fst (next_item (ri_item_id a) (expire_loaded env s0))"
  | (created) base item ctx s1 st1 p ev l st2 where "rq_acquisition rq = ''created''"
      "plan_claim env a base (cp_item_id p) item ctx s1 = Inr p"
      "transact_agent None ev (commit_claim env a p) (others st1) = (Inr l, st2)"
      "write_artifacts a p l st2 = (Inr rq, st')"
proof -
  from assms obtain s0 where s0: "project_claims (ag_session st) = Inr s0"
    and run: "issue_loaded env a others (dget (as_doc s0) ''metadata'') (ag_revision st) (expire_loaded env s0) st = (Inr rq, st')"
    by (auto simp: issue_action_request_def split: sum.splits)
  obtain item_id found where n: "next_item (ri_item_id a) (expire_loaded env s0) = (item_id, found)" by fastforce
  show thesis
  proof (cases found)
    case None
    show thesis
    proof (cases "own_fixer_lease a item_id (expire_loaded env s0)")
      case None
      with run n \<open>found = None\<close> show thesis by (simp add: issue_loaded_def)
    next
      case (Some li)
      obtain l item where li: "li = (l, item)" by fastforce
      with run n \<open>found = None\<close> Some
      have "reenter_lease env a (ag_revision st) item_id item l (expire_loaded env s0) (others st) = (Inr rq, st')"
        by (simp add: issue_loaded_def)
      from reenter_Inr [OF this] s0 n Some li show thesis by (intro reentered [of s0 l item]) simp_all
    qed
  next
    case (Some item0)
    then obtain item s where "claim_item env a others (dget (as_doc s0) ''metadata'') item_id item s st = (Inr rq, st')"
      using run n by (auto simp: issue_loaded_def Let_def split: if_splits)
    then obtain ctx s1 st1 p ev l st2 where
      c: "plan_claim env a (dget (as_doc s0) ''metadata'') item_id item ctx s1 = Inr p"
        "transact_agent None ev (commit_claim env a p) (others st1) = (Inr l, st2)"
        "write_artifacts a p l st2 = (Inr rq, st')"
      by (rule claim_item_Inr)
    from c(1) have "cp_item_id p = item_id" by (auto simp: plan_claim_def Let_def sum_bind_def split: sum.splits)
    with c show thesis using write_artifacts_Inr(1) [OF c(3)] created by blast
  qed
qed

text \<open>The lease a claim commits.\<close>

lemma claim_id_new [simp]: "claim_id (claim_args_of env a p item) = new_lease_id a"
  by (simp add: claim_id_def new_lease_def claim_args_of_def new_lease_id_def)

lemma commit_claim_Inr:
  assumes "commit_claim env a p s = (Inr l, s')"
  obtains item keys where "l = new_lease (claim_args_of env a p item) (py_str (dget item ''item_id'')) keys (EnumRole (ri_role a))"
    "lease_at (as_leases s') (new_lease_id a) = Some l"
proof -
  obtain item0 where item0: "session_item (expire_loaded env s) (cp_item_id p) = Some item0"
    using assms by (cases "session_item (expire_loaded env s) (cp_item_id p)") (auto simp: commit_claim_def)
  define item where "item = with_classification p item0"
  define s1 where "s1 = (put_session_item (cp_item_id p) item (expire_loaded env s))
      \<lparr>as_doc := apply_metadata_delta (as_doc (expire_loaded env s)) (cp_metadata p)\<rparr>"
  have run: "commit_claim env a p s = (case claim_lease (claim_args_of env a p item) item (as_leases s1) of
        (Inl e, ls) \<Rightarrow> (Inl (lease_rejected (cp_item_id p) e), s1\<lparr>as_leases := ls\<rparr>)
      | (Inr l, ls) \<Rightarrow> (Inr l, put_session_item (cp_item_id p)
            (dset ''active_lease_id'' (PStr (new_lease_id a)) (dset ''state'' (PStr ''claimed'') item)) (s1\<lparr>as_leases := ls\<rparr>)))"
    by (simp only: commit_claim_def Let_def item0 option.case item_def s1_def)
  show thesis
  proof (cases rule: claim_lease_cases [of "claim_args_of env a p item" item "as_leases s1"])
    case (error e)
    with assms run show thesis by simp
  next
    case (claimed keys role item_id)
    then have "role = EnumRole (ri_role a)" using parse_role_Inr by (simp add: claim_args_of_def)
    with claimed assms run show thesis by (intro that [of item keys]) auto
  qed
qed

section \<open>An issued request can be answered\<close>

lemma subscript_dset [simp]: "k \<noteq> k' \<Longrightarrow> subscript (dset k' v d) k = subscript d k"
  by (simp add: subscript_def dset_def update_conv')

lemma text_of_key_dset [simp]: "k \<noteq> k' \<Longrightarrow> text_of_key (dset k' v d) k = text_of_key d k"
  by (simp add: text_of_key_def)

lemma hash_ignores_skeleton_path:
  "request_stable_hash (PDict (dset ''response_skeleton_path'' v d)) = request_stable_hash (PDict d)"
  by (simp add: request_stable_hash_def action_request_from_dict_def str_field_def Let_def)

lemma skeleton_fields:
  assumes "response_skeleton_for_request request agent item = Inr skeleton"
  shows "dget skeleton ''request_id'' = PStr (py_str (dget request ''request_id''))"
    "dget skeleton ''lease_id'' = PStr (py_str (dget request ''lease_id''))" "dget skeleton ''agent_id'' = PStr agent"
  using assms
  by (auto simp: response_skeleton_for_request_def Let_def sum_bind_def text_of_key_def subscript_def dget_def split: sum.splits option.splits)

lemma plan_claim_Inr:
  assumes "plan_claim env a base item_id item ctx s = Inr p"
  shows "cp_item_id p = item_id" "request_hash_of (cp_request p) = Inr (cp_hash p)"
    "dget (cp_request p) ''request_id'' = PStr (cp_request_id p)" "dget (cp_request p) ''lease_id'' = PStr (new_lease_id a)"
    "\<exists>rid. cp_request_path p = ri_workspace a @ ''/action-request-'' @ rid @ ''.json'' \<and> cp_skeleton_path p = ri_workspace a @ ''/'' @ skeleton_name rid"
  using assms
  by (auto simp: plan_claim_def Let_def sum_bind_def lift_exn_def build_request_def split: sum.splits)

text \<open>The committed lease of a claim.\<close>

lemma committed_claim:
  assumes "transact_agent None ev (commit_claim env a p) st = (Inr l, st')"
  obtains item keys where
    "lease_at (as_leases (ag_session st')) (new_lease_id a) =
       Some (reload_lease (new_lease (claim_args_of env a p item) (py_str (dget item ''item_id'')) keys (EnumRole (ri_role a))))"
    "l = new_lease (claim_args_of env a p item) (py_str (dget item ''item_id'')) keys (EnumRole (ri_role a))"
proof (cases rule: transact_agent_cases [of None ev "commit_claim env a p" st])
  case (unchanged e)
  with assms show thesis by simp
next
  case (committed s a' s' st'')
  with assms have run: "commit_claim env a p s = (Inr l, s')" and st': "commit_agent ev s' st = Inr st'" by simp_all
  from run obtain item keys where
    l: "l = new_lease (claim_args_of env a p item) (py_str (dget item ''item_id'')) keys (EnumRole (ri_role a))"
      "lease_at (as_leases s') (new_lease_id a) = Some l"
    by (rule commit_claim_Inr)
  from st' obtain q pending doc where "project_claims s' = Inr q" "ag_session st' = stored_leases (q\<lparr>as_doc := doc\<rparr>)"
    by (rule commit_agent_Inr) auto
  with l project_claims_Inr [of s' q] that show thesis by simp
qed

definition answerable :: "string \<Rightarrow> int \<Rightarrow> requested \<Rightarrow> agent_store \<Rightarrow> bool" where
  "answerable agent expiry rq st \<longleftrightarrow>
     (\<exists>l rid h skeleton. lease_at (as_leases (ag_session st)) (rq_lease_id rq) = Some l
        \<and> is_active l \<and> l_agent_id l = agent \<and> l_request_path l = Some (rq_request_path rq)
        \<and> ag_files st (rq_skeleton_path rq) = JsonFile (PDict skeleton)
        \<and> dget skeleton ''request_id'' = PStr rid \<and> dget skeleton ''lease_id'' = PStr (rq_lease_id rq)
        \<and> dget skeleton ''agent_id'' = PStr agent
        \<and> (\<forall>env response. ae_now env < expiry \<longrightarrow> dget response ''request_id'' = PStr rid \<longrightarrow> dget response ''agent_id'' = PStr agent
             \<longrightarrow> expected_request_hash_for_response (ag_files st) response l = Inr (Inr h)
               \<and> (\<exists>l'. fst (submit_lease (rq_lease_id rq) (submit_args_of env response l (l_item_id l) h)
                            (as_leases (ag_session st))) = Inr l')))"

lemma request_hash_of_Inr: "request_hash_of r = Inr h \<longleftrightarrow> request_stable_hash (PDict r) = Inr h"
  by (auto simp: request_hash_of_def split: sum.splits request_error.splits)

lemma submit_lease_ok:
  assumes "lease_at s lid = Some l" "l_status l = ''active''" "role_value (l_role l) = u_role u" "l_agent_id l = u_agent_id u"
    "l_item_id l = u_item_id u" "\<not> is_expired l (u_now u)" "l_request_hash l = Some (u_request_hash u)"
  shows "\<exists>l'. fst (submit_lease lid u s) = Inr l'"
  using assms by (simp add: submit_lease_def Let_def TERMINAL_LEASE_STATUSES_def)

text \<open>
  C7: an issued request can be answered. When a request was newly issued, the lease it names
  is active and the agent's, its request file is the one the lease points to, the response
  skeleton on disk names the lease and the request, and until an hour after the claim every
  response of that agent with that request id has the hash the lease expects, so that the
  lease can be submitted.
\<close>

theorem issued_request_is_answerable:
  assumes "issue_action_request env a others st = (Inr rq, st')" "rq_acquisition rq = ''created''"
  shows "answerable (ri_agent_id a) (ae_now env + 1000000 * 3600) rq st'"
  using assms(1)
proof (cases rule: issue_cases)
  case (reentered s0 l item)
  with assms(2) show ?thesis by simp
next
  case (created base item ctx s1 st1 p ev l st2)
  note plan = plan_claim_Inr [OF created(2)] and wrote = write_artifacts_Inr [OF created(4)]
  from created(3) obtain it keys where lease:
    "lease_at (as_leases (ag_session st2)) (new_lease_id a) =
       Some (reload_lease (new_lease (claim_args_of env a p it) (py_str (dget it ''item_id'')) keys (EnumRole (ri_role a))))"
    (is "_ = Some ?l")
    by (rule committed_claim)
  from created(4) obtain found skeleton where
    skeleton: "response_skeleton_for_request (dset ''response_skeleton_path'' (PStr (cp_skeleton_path p)) (cp_request p))
        (ri_agent_id a) found = Inr skeleton"
      and files: "ag_files st' = ((ag_files st2)(cp_request_path p := JsonFile (PDict (dset ''response_skeleton_path''
            (PStr (cp_skeleton_path p)) (cp_request p)))))(cp_skeleton_path p := JsonFile (PDict skeleton))"
    by (rule write_artifacts_files)
  have path: "cp_request_path p \<noteq> cp_skeleton_path p" "cp_request_path p \<noteq> []"
    using plan(5) by (auto simp: skeleton_name_def)
  have hash: "request_stable_hash (PDict (dset ''response_skeleton_path'' (PStr (cp_skeleton_path p)) (cp_request p))) = Inr (cp_hash p)"
    using plan(2) by (simp add: hash_ignores_skeleton_path request_hash_of_Inr)
  have fields: "is_active ?l" "l_agent_id ?l = ri_agent_id a" "l_request_path ?l = Some (cp_request_path p)"
      "l_request_hash ?l = Some (cp_hash p)" "l_status ?l = ''active''" "role_str (l_role ?l) = ri_role a"
      "role_value (l_role ?l) = ri_role a" "l_expires_at ?l = ae_now env + 1000000 * 3600"
    by (simp_all add: reload_lease_def new_lease_def claim_args_of_def is_active_iff)
  have "expected_request_hash_for_response (ag_files st') response ?l = Inr (Inr (cp_hash p))"
    if "dget response ''request_id'' = PStr (cp_request_id p)" for response
    using that path plan(3) hash fields(3)
    by (simp add: expected_request_hash_for_response_def given_text_def file_request_hash_def files str_field_def text_default_def
          dict_or_empty_def py_or_def)
  moreover have "\<exists>l'. fst (submit_lease (rq_lease_id rq) (submit_args_of env' response ?l (l_item_id ?l) (cp_hash p))
                   (as_leases (ag_session st'))) = Inr l'"
    if "ae_now env' < ae_now env + 1000000 * 3600" "dget response ''agent_id'' = PStr (ri_agent_id a)" for env' response
    using lease wrote(2,7) fields that by (intro submit_lease_ok [of _ _ ?l]) (simp_all add: submit_args_of_def is_expired_def)
  ultimately show ?thesis
    using lease wrote fields(1-3) skeleton_fields [OF skeleton] plan(3,4) files
    unfolding answerable_def
    by (intro exI [of _ ?l] exI [of _ "cp_request_id p"] exI [of _ "cp_hash p"] exI [of _ skeleton]) simp
qed

section \<open>Accepting a response\<close>

lemma submit_and_accept_None:
  assumes "submit_and_accept env response lid l item_id h s = (None, s')"
  obtains held where "lease_at (as_leases s) lid = Some held" "l_status held = ''active''"
    "l_agent_id held = py_str (dget response ''agent_id'')" "l_item_id held = item_id" "\<not> is_expired held (ae_now env)"
    "l_request_hash held = Some h"
    "lease_at (as_leases s') lid = Some (held\<lparr>l_status := ''accepted'', l_submitted_at := Some (ae_now env),
        l_completed_at := Some (ae_now env)\<rparr>)"
proof (cases rule: submit_lease_cases [of lid "submit_args_of env response l item_id h" "as_leases s"])
  case (error e)
  with assms show thesis by (simp add: submit_and_accept_def split: prod.splits sum.splits)
next
  case (expired l r)
  with assms show thesis by (simp add: submit_and_accept_def)
next
  case (submitted held)
  let ?ls = "snd (submit_lease lid (submit_args_of env response l item_id h) (as_leases s))"
  show thesis
  proof (cases rule: accept_lease_cases [of lid "ae_now env" ?ls])
    case (error e)
    with assms submitted show thesis by (simp add: submit_and_accept_def)
  next
    case (accepted held')
    with assms submitted show thesis by (intro that [of held]) (auto simp: submit_and_accept_def submit_args_of_def)
  qed
qed

lemma submit_and_accept_refused:
  assumes "submit_and_accept env response lid l item_id h s = (Some (LeaseSubmissionError code d r), s')"
    and "code \<in> {''STALE_LEASE'', ''LEASE_NOT_FOUND''}"
  shows "s_leases (as_leases s') = s_leases (as_leases s)"
proof (cases rule: submit_lease_cases [of lid "submit_args_of env response l item_id h" "as_leases s"])
  case (error e)
  with assms show ?thesis by (auto simp: submit_and_accept_def split: prod.splits sum.splits)
next
  case (expired l r')
  with assms(1) have "code = ''EXPIRED_LEASE''" by (simp add: submit_and_accept_def)
  with assms(2) show ?thesis by simp
next
  case (submitted held)
  let ?ls = "snd (submit_lease lid (submit_args_of env response l item_id h) (as_leases s))"
  from submitted(8) have "lease_at ?ls lid = Some (held\<lparr>l_status := ''submitted'', l_submitted_at := Some (ae_now env)\<rparr>)"
    by (simp add: submit_args_of_def)
  then have "\<exists>l'. fst (accept_lease lid (ae_now env) ?ls) = Inr l'" by (simp add: accept_lease_def Let_def)
  with assms submitted show ?thesis by (auto simp: submit_and_accept_def split: prod.splits sum.splits)
qed

lemma abind_raise_not: "(abind m (\<lambda>_. araise x) s = (Inr y, s')) = False"
  by (simp add: abind_def araise_def split: prod.split sum.split)

lemma accept_response_lease_Inr:
  assumes "accept_response_lease env status response p s = (Inr (lid, l), s')"
  obtains held where "lease_at (as_leases s) lid = Some held" "l_status held = ''active''"
    "l_agent_id held = py_str (dget response ''agent_id'')" "l_item_id held = pr_item_id p" "\<not> is_expired held (ae_now env)"
    "\<exists>done. lease_at (as_leases s') lid = Some done \<and> l_status done = ''accepted''"
proof -
  obtain r s1 where run: "submit_and_accept env response (pr_lease_id p) (pr_lease p) (pr_item_id p)
      (pr_expected_request_hash p) s = (r, s1)" by fastforce
  show thesis
  proof (cases r)
    case None
    with run assms have "lid = pr_lease_id p" "s' = s1" by (simp_all add: accept_response_lease_def)
    with submit_and_accept_None [OF run [unfolded None]] that show thesis by fastforce
  next
    case (Some e)
    show thesis
    proof (cases e)
      case (LeaseSubmissionError code detail recovery)
      note e = run Some LeaseSubmissionError
      define found where "found = (if code \<in> {''STALE_LEASE'', ''LEASE_NOT_FOUND''}
          then recover_rebound_github_thread_lease s1 response (pr_item_id p) (pr_lease_id p) else None)"
      show thesis
      proof (cases found)
        case None
        from assms show thesis
          unfolding accept_response_lease_def e prod.case option.case lease_error.case found_def [symmetric] None
          by (simp only: abind_raise_not)
      next
        case (Some li)
        then have stale: "code \<in> {''STALE_LEASE'', ''LEASE_NOT_FOUND''}" by (auto simp: found_def split: if_splits)
        obtain m i where li: "li = (m, i)" by fastforce
        obtain x s2 where again: "submit_and_accept env response (lease_id m) m (pr_item_id p) (given_text (l_request_hash m)) s1
            = (x, s2)" by fastforce
        with assms have "x = None" "lid = lease_id m" "s' = s2"
          unfolding accept_response_lease_def e prod.case option.case lease_error.case found_def [symmetric] Some li
          by (auto split: option.splits)
        note same = submit_and_accept_refused [OF run [unfolded \<open>r = Some e\<close> LeaseSubmissionError] stale]
        from again [unfolded \<open>x = None\<close>] show thesis
          by (rule submit_and_accept_None) (rule that; simp add: \<open>lid = lease_id m\<close> \<open>s' = s2\<close> same [symmetric])
      qed
    next
      case (LeaseConflictError code detail)
      with Some run assms show thesis by (simp add: accept_response_lease_def)
    next
      case (LeaseRaised x)
      with Some run assms show thesis by (simp add: accept_response_lease_def)
    qed
  qed
qed

text \<open>The response that is checked is the one that was read, up to the evidence it refers to.\<close>

lemma dget_if_dset: "k' \<noteq> k \<Longrightarrow> dget (if b then dset k' v d else d) k = dget d k"
  by simp

lemma expanded_keeps:
  assumes "''files'' \<noteq> k" "''validation_commands'' \<noteq> k" "''fix_reply'' \<noteq> k"
  shows "dget (snd (expand_evidence_ref s response)) k = dget response k"
proof -
  have "dget (snd (expanded_response profile response)) k = dget response k" for profile
    unfolding expanded_response_def Let_def
    by (simp only: if_distrib [of "\<lambda>x. dget (snd x) k"] snd_conv dget_if_dset [OF assms(1)] dget_if_dset [OF assms(2)]
        dget_if_dset [OF assms(3)] if_cancel)
  then show ?thesis by (simp add: expand_evidence_ref_def Let_def split: pyval.split)
qed

lemma prepare_keeps:
  assumes "prepare_action_response_submission env files status response s = (Inr (p, r), s')"
    and k: "''files'' \<noteq> k" "''validation_commands'' \<noteq> k" "''fix_reply'' \<noteq> k"
  shows "dget r k = dget response k"
proof -
  have checked: "dget r' k = dget response k" if "checked_response env status response item i lid x = (Inr r', x')"
    for item i lid x r' x'
    using that expanded_keeps [OF k, of x response]
    by (auto simp: checked_response_def raise_response_rejected_def abind_raise_not split: prod.splits option.splits)
  show ?thesis
  proof (cases "truthy (dget response ''lease_id'')")
    case True
    let ?lid = "py_str (dget response ''lease_id'')"
    show ?thesis
    proof (cases "lease_at (as_leases s) ?lid")
      case None
      with assms True show ?thesis
        by (auto simp: prepare_action_response_submission_def required_response_field_def areturn_def abind_def prepare_rebound_def
            reject_submission_def araise_def split: option.splits prod.splits sum.splits dest: checked)
    next
      case (Some l)
      with assms True have "prepare_found env files status response ?lid l s = (Inr (p, r), s')"
        by (simp add: prepare_action_response_submission_def required_response_field_def areturn_def abind_def)
      then show ?thesis
        by (auto simp: prepare_found_def raise_response_rejected_def reject_submission_def abind_raise_not Let_def
            split: if_splits option.splits prod.splits sum.splits dest: checked)
    qed
  next
    case False
    with assms show ?thesis
      by (simp add: prepare_action_response_submission_def required_response_field_def araise_def abind_def)
  qed
qed

text \<open>A record that was appended is in the buffer, and a commit makes it evidence.\<close>

definition buffered :: "evidence_record \<Rightarrow> agent_session \<Rightarrow> bool" where
  "buffered r s \<longleftrightarrow> (\<exists>pending. dget (as_doc s) pending_key = PList pending \<and> PDict (record_to_json r) \<in> set pending)"

lemma append_ledger_Inr:
  assumes "append_ledger env item_id lease_ref agent role event_type payload s = (Inr r, s')"
  shows "er_lease_id r = lease_ref" "er_event_type r = event_type" "er_item_id r = item_id" "er_agent_id r = agent"
    "er_payload r = payload" "as_leases s' = as_leases s" "buffered r s'"
  using assms
  by (auto simp: append_ledger_def new_evidence_record_def Let_def buffer_append_def buffered_def split: sum.splits pyval.splits)

lemma commit_buffered:
  assumes "commit_agent evidence s st = Inr st'" "buffered r s"
  shows "record_to_json r \<in> set (ag_evidence st')"
  using assms(1)
proof (rule commit_agent_Inr)
  fix p pending doc
  assume p: "project_claims s = Inr p" "take_pending_evidence (as_doc p) = Inr (pending, doc)"
    and st': "st' = st\<lparr>ag_session := stored_leases (p\<lparr>as_doc := doc\<rparr>), ag_revision := Suc (ag_revision st),
              ag_evidence := ag_evidence st @ evidence @ pending\<rparr>"
  from assms(2) project_claims_Inr [OF p(1)] obtain rows where
    rows: "dget (as_doc p) pending_key = PList rows" "PDict (record_to_json r) \<in> set rows"
    by (auto simp: buffered_def)
  then have "dget_default (as_doc p) pending_key (PList []) = PList rows"
    by (simp add: dget_default_def dget_def split: option.splits)
  with p(2) have "pending = List.map_filter as_dict rows" by (simp add: take_pending_evidence_def)
  with rows(2) have "record_to_json r \<in> set pending"
    by (force simp: List.map_filter_def as_dict_def)
  then show ?thesis by (simp add: st')
qed

lemma accept_submission_Inr:
  assumes "accept_action_response_submission env status response p s = (Inr r, s')"
  obtains lid l s1 where "accept_response_lease env status response p s = (Inr (lid, l), s1)"
    "s_leases (as_leases s') = s_leases (as_leases s1)" "er_lease_id r = PStr lid" "er_event_type r = ''response_accepted''"
    "er_item_id r = pr_item_id p" "buffered r s'"
proof -
  obtain x s1 where run: "accept_response_lease env status response p s = (x, s1)" by fastforce
  show thesis
  proof (cases x)
    case (Inl e)
    with assms run show thesis by (simp add: accept_action_response_submission_def)
  next
    case (Inr ll)
    obtain lid l where ll: "ll = (lid, l)" by fastforce
    show thesis
    proof (cases "role_str (l_role l) = ''verifier'' \<and> py_str (dget response ''resolution'') = ''reject''")
      case True
      with assms run Inr ll show thesis
        by (simp add: accept_action_response_submission_def reject_verification_def Let_def abind_raise_not abind_def araise_def
            split: prod.splits sum.splits)
    next
      case False
      let ?s2 = "put_session_item (pr_item_id p) (apply_response_to_item (ae_timestamp env) response
          (case session_item s1 (pr_item_id p) of None \<Rightarrow> [] | Some i \<Rightarrow> i)) s1"
      from assms run Inr ll False have "append_ledger env (pr_item_id p) (PStr lid) (py_str (dget response ''agent_id''))
          (role_str (l_role l)) ''response_accepted'' [(''resolution'', dget response ''resolution''), (''note'', dget response ''note''),
            (''response'', PDict (replayable_action_response response))] ?s2 = (Inr r, s')"
        by (simp add: accept_action_response_submission_def Let_def split: if_split_asm)
      note appended = append_ledger_Inr [OF this]
      show thesis
        by (rule that [of lid l s1]) (simp_all add: run Inr ll appended)
    qed
  qed
qed

lemma accept_current_Inr:
  assumes "accept_current env files metadata response s = (Inr (Accepted p r), s')"
  obtains r' s1 where "prepare_action_response_submission env files ACTION_REJECTED response (with_metadata metadata s) = (Inr (p, r'), s1)"
    "accept_action_response_submission env ACTION_REJECTED r' p s1 = (Inr r, s')"
proof -
  obtain x s1 where run: "prepare_action_response_submission env files ACTION_REJECTED response (with_metadata metadata s) = (x, s1)"
    by fastforce
  show thesis
  proof (cases x)
    case (Inl e)
    with assms run show thesis by (simp add: accept_current_def)
  next
    case (Inr pr)
    obtain q r' where pr: "pr = (q, r')" by fastforce
    obtain y s2 where acc: "accept_action_response_submission env ACTION_REJECTED r' q s1 = (y, s2)" by fastforce
    with assms run Inr pr have "q = p" "y = Inr r" "s2 = s'"
      by (cases y; simp add: accept_current_def split: effect_error.splits)+
    with run Inr pr acc that show thesis by simp
  qed
qed

lemma preflight_Inr:
  assumes "preflight env files view publish response s = (Inr (p, r), s')"
  shows "dget r ''agent_id'' = dget response ''agent_id''"
proof -
  let ?v = "(if publish then validate_publish_shortcut_target response else areturn ()) s"
  obtain x s1 where v: "?v = (x, s1)" by fastforce
  show ?thesis
  proof (cases x)
    case (Inl e)
    with assms v show ?thesis by (simp add: preflight_def abind_def)
  next
    case (Inr u)
    obtain y s2 where prep: "prepare_action_response_submission env files ACTION_REJECTED response s1 = (y, s2)" by fastforce
    show ?thesis
    proof (cases y)
      case (Inl e)
      with assms v Inr prep show ?thesis by (simp add: preflight_def abind_def)
    next
      case (Inr qr)
      obtain q r0 where qr: "qr = (q, r0)" by fastforce
      from prepare_keeps [OF prep [unfolded Inr qr], of "''agent_id''"]
      have "dget r0 ''agent_id'' = dget response ''agent_id''" by simp
      with assms v \<open>x = Inr u\<close> prep Inr qr show ?thesis
        by (auto simp: preflight_def abind_def areturn_def with_binding_def split: prod.splits sum.splits option.splits)
    qed
  qed
qed

text \<open>What the transaction of an accepted response found and left.\<close>

lemma accept_current_effect:
  assumes "accept_current env files metadata response s = (Inr (Accepted p r), s')"
  obtains lid held fin where "er_lease_id r = PStr lid" "er_event_type r = ''response_accepted''"
    "er_item_id r = pr_item_id p" "buffered r s'" "lease_at (as_leases s) lid = Some held" "l_status held = ''active''"
    "l_agent_id held = py_str (dget response ''agent_id'')" "l_item_id held = pr_item_id p" "ae_now env < l_expires_at held"
    "lease_at (as_leases s') lid = Some fin" "l_status fin = ''accepted''"
  using assms
proof (rule accept_current_Inr)
  fix r' s1
  assume prep: "prepare_action_response_submission env files ACTION_REJECTED response (with_metadata metadata s) = (Inr (p, r'), s1)"
    and acc: "accept_action_response_submission env ACTION_REJECTED r' p s1 = (Inr r, s')"
  have leases: "s_leases (as_leases s1) = s_leases (as_leases s)" using quiet_result(1) [OF quiet_prepare prep] by simp
  have agent: "dget r' ''agent_id'' = dget response ''agent_id''" using prepare_keeps [OF prep, of "''agent_id''"] by simp
  from acc show thesis
  proof (rule accept_submission_Inr)
    fix lid l s2
    assume sub: "accept_response_lease env ACTION_REJECTED r' p s1 = (Inr (lid, l), s2)"
      and after: "s_leases (as_leases s') = s_leases (as_leases s2)"
      and r: "er_lease_id r = PStr lid" "er_event_type r = ''response_accepted''" "er_item_id r = pr_item_id p" "buffered r s'"
    from sub show thesis
    proof (rule accept_response_lease_Inr)
      fix held
      assume held: "lease_at (as_leases s1) lid = Some held" "l_status held = ''active''"
          "l_agent_id held = py_str (dget r' ''agent_id'')" "l_item_id held = pr_item_id p" "\<not> is_expired held (ae_now env)"
        and fin: "\<exists>fin. lease_at (as_leases s2) lid = Some fin \<and> l_status fin = ''accepted''"
      then obtain fin where "lease_at (as_leases s') lid = Some fin" "l_status fin = ''accepted''" using after by auto
      with held leases agent r show thesis by (intro that [of lid held fin]) (simp_all add: is_expired_def)
    qed
  qed
qed

text \<open>
  C6: a response is accepted only from the live holder of its lease, and durably. When the
  command succeeds, nothing was committed between its check and its transaction; the lease it
  reports was active, unexpired, of the agent the response names and of the item reported, is
  accepted now, and the ledger has the record of the acceptance under the reported id.
\<close>

theorem acceptance_requires_live_lease:
  assumes "accept_action_response env view publish path st = (Inr sb, st')"
  shows "\<exists>response held fin row. ag_files st path = JsonFile (PDict response)
     \<and> ag_revision (sv_others view st) = ag_revision st \<and> ag_revision st' = Suc (ag_revision st)
     \<and> lease_at (as_leases (ag_session (sv_others view st))) (sb_lease_id sb) = Some held
     \<and> l_status held = ''active'' \<and> l_agent_id held = py_str (dget response ''agent_id'')
     \<and> l_item_id held = sb_item_id sb \<and> ae_now env < l_expires_at held
     \<and> lease_at (as_leases (ag_session st')) (sb_lease_id sb) = Some fin \<and> l_status fin = ''accepted''
     \<and> row \<in> set (ag_evidence st') \<and> dget row ''record_id'' = PStr (sb_evidence_record_id sb)
     \<and> dget row ''event_type'' = PStr ''response_accepted''"
proof -
  let ?st1 = "sv_others view st"
  from assms obtain response where loaded: "ag_files st path = JsonFile (PDict response)"
    by (auto simp: accept_action_response_def load_response_json_object_def split: request_file.splits pyval.splits)
  with assms obtain s where s: "project_claims (ag_session st) = Inr s"
    and run: "accept_loaded env view publish response s st = (Inr sb, st')"
    by (auto simp: accept_action_response_def load_response_json_object_def split: sum.splits)
  obtain x s1 where pre: "preflight env (ag_files st) view publish response s = (x, s1)" by fastforce
  show ?thesis
  proof (cases x)
    case (Inl e)
    with run pre show ?thesis by (simp add: accept_loaded_def Let_def split: if_split_asm)
  next
    case (Inr pr)
    obtain q r' where pr: "pr = (q, r')" by fastforce
    let ?op = "accept_current env (ag_files st) (dget (as_doc s1) ''metadata'') r'"
    from run pre Inr pr obtain outcome where t: "transact_agent (Some (ag_revision st)) [] ?op ?st1 = (Inr outcome, st')"
      and "submitted_of outcome = Inr sb"
      by (auto simp: accept_loaded_def Let_def split: prod.splits sum.splits)
    then obtain p r where outcome: "outcome = Accepted p r"
      and sb: "sb = \<lparr>sb_lease_id = py_str (er_lease_id r), sb_item_id = pr_item_id p, sb_evidence_record_id = er_record_id r\<rparr>"
      by (cases outcome) (auto simp: submitted_of_def)
    show ?thesis
    proof (cases rule: transact_agent_cases [of "Some (ag_revision st)" "[]" ?op ?st1])
      case (unchanged e)
      with t show ?thesis by simp
    next
      case (committed s0 a s' st'')
      with t outcome have op: "?op s0 = (Inr (Accepted p r), s')" and commit: "commit_agent [] s' ?st1 = Inr st'" by simp_all
      from op show ?thesis
      proof (rule accept_current_effect)
        fix lid held fin
        assume r: "er_lease_id r = PStr lid" "er_event_type r = ''response_accepted''" "er_item_id r = pr_item_id p" "buffered r s'"
          and held: "lease_at (as_leases s0) lid = Some held" "l_status held = ''active''"
            "l_agent_id held = py_str (dget r' ''agent_id'')" "l_item_id held = pr_item_id p" "ae_now env < l_expires_at held"
          and fin: "lease_at (as_leases s') lid = Some fin" "l_status fin = ''accepted''"
        from commit obtain d pending doc where d: "project_claims s' = Inr d"
            "st' = ?st1\<lparr>ag_session := stored_leases (d\<lparr>as_doc := doc\<rparr>), ag_revision := Suc (ag_revision ?st1),
                ag_evidence := ag_evidence ?st1 @ [] @ pending\<rparr>"
          by (rule commit_agent_Inr)
        have rev: "ag_revision ?st1 = ag_revision st" using committed(3) by auto
        have before: "lease_at (as_leases (ag_session ?st1)) lid = Some held"
          using held(1) project_claims_Inr [OF committed(1)] by simp
        have after: "lease_at (as_leases (ag_session st')) lid = Some (reload_lease fin)"
          using fin(1) d project_claims_Inr [OF d(1)] by simp
        show ?thesis
          using loaded rev before after held fin(2) r sb d(2) commit_buffered [OF commit r(4)] preflight_Inr [OF pre [unfolded Inr pr]]
          by (intro exI [of _ response] exI [of _ held] exI [of _ "reload_lease fin"] exI [of _ "record_to_json r"])
            (simp add: record_to_json_def)
      qed
    qed
  qed
qed

end
