(* ===== verification/Agent_Outcomes.thy ===== *)
theory Agent_Outcomes
  imports Agent_Properties
begin

text \<open>
  Further promises of the agent protocol: exclusive work over every history of commands, the
  record of a refused response, and one-shot compositions that leave no lease behind.
\<close>

section \<open>Histories\<close>

text \<open>
  C5: agents never share work. Whatever commands any number of agents interleave, from a store
  without leases on: two different active leases are never on the same item, and their
  conflict keys are compatible (disjoint, or both read-only, or one fixer's own files). Evidence
  that was committed stays, in its order.
\<close>

theorem agents_never_share_work:
  assumes "agent_steps st st'" "s_leases (as_leases (ag_session st)) = []"
    and "lease_at (as_leases (ag_session st')) j = Some l" "lease_at (as_leases (ag_session st')) k = Some m"
    and "j \<noteq> k" "is_active l" "is_active m"
  shows "l_item_id l \<noteq> l_item_id m \<and> compatible l m \<and> (\<exists>es. ag_evidence st' = ag_evidence st @ es)"
proof -
  have "store_inv st" using assms(2) by (simp add: store_inv_def lease_inv_def lease_wf_def exclusive_def)
  with steps_progress [OF assms(1)] have "exclusive (as_leases (ag_session st'))" and "\<exists>es. ag_evidence st' = ag_evidence st @ es"
    by (simp_all add: progress_def store_inv_def lease_inv_def)
  with assms(3-7) show ?thesis unfolding exclusive_def by blast
qed

section \<open>Refused responses\<close>

definition refusal :: "string \<Rightarrow> agent_session \<Rightarrow> agent_session \<Rightarrow> bool" where
  "refusal code s s' \<longleftrightarrow> as_leases s' = as_leases s
     \<and> (\<exists>r. buffered r s' \<and> er_event_type r = ''response_rejected'' \<and> er_payload r = [(''reason_code'', PStr code)])"

lemma record_rejected_Inr:
  assumes "record_response_rejected env response code i s = (Inr u, s')"
  shows "refusal code s s'"
proof -
  obtain l where l: "lease_of_value (dget response ''lease_id'') (as_leases s) = Inr l"
    using assms by (cases "lease_of_value (dget response ''lease_id'') (as_leases s)") (simp_all add: record_response_rejected_def)
  let ?ledger = "append_ledger env (case i of Some i \<Rightarrow> i | None \<Rightarrow> (case l of None \<Rightarrow> [] | Some x \<Rightarrow> l_item_id x))
      (dget response ''lease_id'') (if truthy (dget response ''agent_id'') then py_str (dget response ''agent_id'') else ''unknown'')
      (case l of None \<Rightarrow> ''unknown'' | Some x \<Rightarrow> role_str (l_role x)) ''response_rejected'' [(''reason_code'', PStr code)] s"
  obtain x s1 where a: "?ledger = (x, s1)" by fastforce
  with assms l obtain r where "x = Inr r" "s' = s1" by (cases x) (simp_all add: record_response_rejected_def)
  with append_ledger_Inr [OF a [unfolded \<open>x = Inr r\<close>]] show ?thesis unfolding refusal_def by auto
qed

lemma raise_rejected_Inl:
  assumes "raise_response_rejected env status response code i lid recovery s = (Inl (WorkflowError status' code' payload), s')"
  shows "status' = status \<and> refusal code' s s'"
proof -
  obtain x s1 where r: "record_response_rejected env response code (Some i) s = (x, s1)" by fastforce
  have "x \<noteq> Inl (WorkflowError a b c)" for a b c
    using r by (auto simp: record_response_rejected_def append_ledger_def Let_def split: sum.splits prod.splits)
  with assms r record_rejected_Inr [of env response code "Some i" s _ s1] show ?thesis
    by (cases x) (auto simp: raise_response_rejected_def araise_def)
qed

lemma reject_submission_Inl:
  assumes "reject_submission env status response code s = (Inl (WorkflowError status' code' payload), s')"
  shows "status' = status \<and> refusal code' s s'"
proof -
  obtain x s1 where r: "record_response_rejected env response code None s = (x, s1)" by fastforce
  have "x \<noteq> Inl (WorkflowError a b c)" for a b c
    using r by (auto simp: record_response_rejected_def append_ledger_def Let_def split: sum.splits prod.splits)
  with assms r record_rejected_Inr [of env response code None s _ s1] show ?thesis
    by (cases x) (auto simp: reject_submission_def araise_def)
qed

lemma checked_response_cases:
  obtains (refused) r code lid' i recovery where
      "checked_response env status response item i0 lid s = raise_response_rejected env status r code i lid' recovery s"
  | (passed) r where "checked_response env status response item i0 lid s = (Inr r, s)"
  by (cases "expand_evidence_ref s response"; cases "fst (expand_evidence_ref s response)";
      cases "validate_response (snd (expand_evidence_ref s response)) item")
    (auto simp: checked_response_def)

lemma found_refused:
  assumes "prepare_found env files status response lid l s = (Inl (WorkflowError status' code payload), s')"
  shows "status' = status \<and> refusal code s s'"
proof (cases "truthy (dget response ''item_id'') \<and> py_str (dget response ''item_id'') \<noteq> l_item_id l")
  case True
  with assms have "(raise_response_rejected env status response ''ITEM_ID_MISMATCH'' (l_item_id l) lid None s :: (effect_error + prepared \<times> pydict) \<times> agent_session)
      = (Inl (WorkflowError status' code payload), s')"
    by (simp add: prepare_found_def)
  then show ?thesis by (rule raise_rejected_Inl)
next
  case False
  show ?thesis
  proof (cases "session_item s (l_item_id l)")
    case None
    with assms False have "(reject_submission env status response ''ITEM_NOT_FOUND'' s :: (effect_error + prepared \<times> pydict) \<times> agent_session) = (Inl (WorkflowError status' code payload), s')"
      by (simp add: prepare_found_def)
    then show ?thesis by (rule reject_submission_Inl)
  next
    case (Some item)
    show ?thesis
    proof (cases rule: checked_response_cases [of env status response item "l_item_id l" lid s])
      case (refused r code' lid' i recovery)
      obtain x s1 where run: "(raise_response_rejected env status r code' i lid' recovery s :: (effect_error + pydict) \<times> agent_session) = (x, s1)" by fastforce
      then obtain e where e: "x = Inl e" by (cases x) (simp_all add: raise_response_rejected_def abind_raise_not)
      from refused run e have "checked_response env status response item (l_item_id l) lid s = (Inl e, s1)" by simp
      then have "prepare_found env files status response lid l s = (Inl e, s1)"
        unfolding prepare_found_def Let_def using False Some by (simp only: if_False option.case prod.case sum.case)
      with assms run e show ?thesis by (simp add: raise_rejected_Inl)
    next
      case (passed r)
      with assms False Some obtain reason recovery where
        "(raise_response_rejected env status r reason (l_item_id l) lid recovery s :: (effect_error + prepared \<times> pydict) \<times> agent_session) = (Inl (WorkflowError status' code payload), s')"
        by (auto simp: prepare_found_def Let_def split: sum.splits)
      then show ?thesis by (rule raise_rejected_Inl)
    qed
  qed
qed

text \<open>
  C17: a refused response changes no work and is on the record. When preparing a response that
  names a lease ends in a \<open>WorkflowError\<close> (unknown or rebound lease, wrong item, missing
  evidence, a request that is gone, superseded or another one), the error has the caller's
  status, leases, items and lease events are unchanged, and the evidence to be committed has a
  rejection with exactly that reason.
\<close>

theorem refused_response_is_recorded:
  assumes "prepare_action_response_submission env files status response s = (Inl (WorkflowError status' code payload), s')"
    and "truthy (dget response ''lease_id'')"
  shows "status' = status \<and> as_leases s' = as_leases s
     \<and> (\<exists>r. buffered r s' \<and> er_event_type r = ''response_rejected'' \<and> er_payload r = [(''reason_code'', PStr code)])"
proof -
  let ?lid = "py_str (dget response ''lease_id'')"
  have "status' = status \<and> refusal code s s'"
  proof (cases "lease_at (as_leases s) ?lid")
    case (Some l)
    with assms have "prepare_found env files status response ?lid l s = (Inl (WorkflowError status' code payload), s')"
      by (simp add: prepare_action_response_submission_def required_response_field_def areturn_def abind_def)
    then show ?thesis by (rule found_refused)
  next
    case None
    show ?thesis
    proof (cases "recover_rebound_github_thread_lease s response (str_field response ''item_id'') ?lid")
      case None
      with assms \<open>lease_at (as_leases s) ?lid = None\<close>
      have "(reject_submission env status response ''LEASE_NOT_FOUND'' s :: (effect_error + prepared \<times> pydict) \<times> agent_session) = (Inl (WorkflowError status' code payload), s')"
        by (simp add: prepare_action_response_submission_def required_response_field_def areturn_def abind_def)
      then show ?thesis by (rule reject_submission_Inl)
    next
      case (Some li)
      obtain l i where li: "li = (l, i)" by fastforce
      let ?item = "case session_item s i of None \<Rightarrow> [] | Some x \<Rightarrow> x"
      from assms \<open>lease_at (as_leases s) ?lid = None\<close> Some li
      have run: "prepare_rebound env status response l i s = (Inl (WorkflowError status' code payload), s')"
        by (simp add: prepare_action_response_submission_def required_response_field_def areturn_def abind_def)
      show ?thesis
      proof (cases rule: checked_response_cases [of env status response ?item i "lease_id l" s])
        case (refused r code' lid' j recovery)
        obtain x s1 where x: "(raise_response_rejected env status r code' j lid' recovery s :: (effect_error + pydict) \<times> agent_session) = (x, s1)" by fastforce
        with run refused have "x = Inl (WorkflowError status' code payload)" "s1 = s'"
          by (cases x; simp add: prepare_rebound_def areturn_def)+
        with x show ?thesis by (simp add: raise_rejected_Inl)
      next
        case (passed r)
        with run show ?thesis by (simp add: prepare_rebound_def areturn_def)
      qed
    qed
  qed
  then show ?thesis by (simp add: refusal_def)
qed

section \<open>One-shot compositions\<close>

text \<open>The transaction that undoes a claim ends in no \<open>WorkflowError\<close> of its own.\<close>

lemma wrapped_is_no_workflow_error [simp]: "\<not> is_workflow_error (wrap_store_error e)"
  by (simp add: is_workflow_error_def wrap_store_error_def split: store_error.split)

lemma release_transaction_cases:
  obtains (failed) e where "transact_agent None [] (release_claimed env lid reason) st = (Inl e, st)" "\<not> is_workflow_error e"
  | (released) b st' where "transact_agent None [] (release_claimed env lid reason) st = (Inr b, st')"
      "\<forall>l. lease_at (as_leases (ag_session st')) lid = Some l \<longrightarrow> \<not> is_active l"
      "\<forall>k. k \<noteq> lid \<longrightarrow> lease_at (as_leases (ag_session st')) k = map_option reload_lease (lease_at (as_leases (ag_session st)) k)"
proof (cases rule: transact_agent_cases [of None "[]" "release_claimed env lid reason" st])
  case (unchanged e)
  have "\<not> is_workflow_error e"
    using unchanged
    by (auto simp: transact_agent_def project_claims_def commit_agent_def release_claimed_def lease_exception_def
        is_workflow_error_def [of "EffectRaised _"] Let_def split: sum.splits prod.splits if_splits lease_error.splits)
  with unchanged show thesis by (rule failed)
next
  case (committed s b s' st')
  from committed(4) obtain p pending doc where p: "project_claims s' = Inr p"
      "ag_session st' = stored_leases (p\<lparr>as_doc := doc\<rparr>)"
    by (rule commit_agent_Inr) auto
  have s': "as_leases s' = snd (release_claimed_lease lid (ae_now env) reason (as_leases s))"
    using committed(2) by (auto simp: release_claimed_def split: prod.splits sum.splits)
  have at: "lease_at (as_leases (ag_session st')) k = map_option reload_lease (lease_at (as_leases s') k)" for k
    using p project_claims_Inr [OF p(1)] by simp
  have same: "lease_at (as_leases s) k = lease_at (as_leases (ag_session st)) k" for k
    using project_claims_Inr [OF committed(1)] by simp
  have gone: "\<not> is_active l" if "lease_at (as_leases s') lid = Some l" for l
    using that by (auto simp: s' release_claimed_leases release_lease_def Let_def is_active_iff split: option.splits if_splits)
  have other: "lease_at (as_leases s') k = lease_at (as_leases s) k" if "k \<noteq> lid" for k
    using that by (auto simp: s' release_claimed_leases release_lease_def Let_def split: option.splits)
  show thesis
    using committed(5) gone other by (intro released [of b st']) (auto simp: at same)
qed

lemma find_in_set: "find P xs = Some x \<Longrightarrow> x \<in> set xs \<and> P x"
  by (metis find_Some_iff nth_mem)

lemma active_fixer_unique:
  assumes "lease_inv ls" "lease_at ls k = Some l" "l_item_id l = i" "l_status l = ''active''" "role_value (l_role l) = ''fixer''"
  shows "active_fixer_lease_for_item ls i (Some (l_agent_id l)) = Some l"
proof -
  let ?P = "\<lambda>l'. l_item_id l' = i \<and> l_status l' = ''active'' \<and> role_value (l_role l') = ''fixer''
      \<and> (Some (l_agent_id l) = None \<or> Some (l_agent_id l) = Some (l_agent_id l'))"
  have "l \<in> set (map snd (s_leases ls))" using assms(2) by (rule map_of_value)
  with assms have "find ?P (map snd (s_leases ls)) \<noteq> None" by (auto simp: find_None_iff)
  then obtain m where m: "find ?P (map snd (s_leases ls)) = Some m" by blast
  then have in_ls: "m \<in> set (map snd (s_leases ls))" and act: "l_item_id m = i" "is_active m"
    using find_in_set [OF m] by (simp_all add: is_active_iff)
  from in_ls obtain j where "(j, m) \<in> set (s_leases ls)" by auto
  then have j: "lease_at ls j = Some m" using assms(1) by (simp add: lease_inv_def lease_wf_def)
  have "j = k"
    using assms(1-4) j act unfolding lease_inv_def exclusive_def by (metis is_active_iff)
  with j m assms(2) show ?thesis by (simp add: active_fixer_lease_for_item_def)
qed

lemma lease_at_loaded:
  assumes "lease_inv ls" "lease_at (snd (expire_leases now ls)) k = Some l" "l_status l = ''active''"
  shows "lease_at ls k = Some l"
  using assms by (auto simp: lease_at_expire expire_view_def needs_expiry_def split: if_splits)

text \<open>The lease an issue re-enters is the one the agent held before.\<close>

lemma reentered_is_held:
  assumes "store_inv st" "issue_action_request env a others st = (Inr rq, st1)" "rq_acquisition rq \<noteq> ''created''"
    and "project_claims (ag_session st) = Inr s" "given_text (ri_item_id a) \<noteq> []"
  shows "map_option lease_id (active_fixer_lease_for_item (as_leases s) (given_text (ri_item_id a)) (Some (ri_agent_id a)))
           = Some (rq_lease_id rq)"
  using assms(2)
proof (cases rule: issue_cases)
  case (reentered s0 l item)
  let ?i = "given_text (ri_item_id a)"
  have s0: "s0 = s" and i: "rq_item_id rq = ?i" using reentered assms(4,5) by (simp_all add: next_item_def Let_def)
  have inv: "lease_inv (as_leases s)"
    using assms(1) project_claims_Inr [OF assms(4)] inv_cong [of "as_leases s"] by (simp add: store_inv_def)
  have own: "own_fixer_lease a ?i (expire_loaded env s) = Some (l, item)" using reentered(2) s0 i by simp
  then have "active_fixer_lease_for_item (as_leases (expire_loaded env s)) ?i (Some (ri_agent_id a)) = Some l"
    by (auto simp: own_fixer_lease_def split: if_splits option.splits)
  then have l: "l_item_id l = ?i" "l_status l = ''active''" "role_value (l_role l) = ''fixer''" "l_agent_id l = ri_agent_id a"
    unfolding active_fixer_lease_for_item_def by (auto dest: find_in_set)
  have "lease_at (as_leases (expire_loaded env s)) (lease_id l) = Some l"
    using own_fixer_lease_stored [OF own expire_loaded_inv [OF inv]] .
  then have "lease_at (snd (expire_leases (ae_now env) (as_leases s))) (lease_id l) = Some l"
    by (simp add: expire_loaded_leases)
  from lease_at_loaded [OF inv this l(2)] have "lease_at (as_leases s) (lease_id l) = Some l" .
  from active_fixer_unique [OF inv this l(1-3)] l(4) reentered(4) show ?thesis by simp
next
  case (created base item ctx s1 st2 p ev l st3)
  with assms(3) show ?thesis by simp
qed

lemma created_is_new:
  assumes "store_inv st" "issue_action_request env a others st = (Inr rq, st1)" "rq_acquisition rq = ''created''"
    and "project_claims (ag_session st) = Inr s" "lease_at (as_leases (ag_session st)) (new_lease_id a) = None"
  shows "map_option lease_id (active_fixer_lease_for_item (as_leases s) i agent) \<noteq> Some (rq_lease_id rq)"
proof
  assume "map_option lease_id (active_fixer_lease_for_item (as_leases s) i agent) = Some (rq_lease_id rq)"
  then obtain l where l: "active_fixer_lease_for_item (as_leases s) i agent = Some l" "lease_id l = rq_lease_id rq" by auto
  from assms(2) have "rq_lease_id rq = new_lease_id a"
  proof (cases rule: issue_cases)
    case (reentered s0 l item)
    with assms(3) show ?thesis by simp
  next
    case (created base item ctx s1 st2 p ev l st3)
    then show ?thesis using write_artifacts_Inr(2) by blast
  qed
  moreover have "lease_inv (as_leases s)"
    using assms(1) project_claims_Inr [OF assms(4)] inv_cong [of "as_leases s"] by (simp add: store_inv_def)
  moreover from l(1) have "l \<in> set (map snd (s_leases (as_leases s)))"
    unfolding active_fixer_lease_for_item_def by (auto dest: find_in_set)
  then obtain k where "(k, l) \<in> set (s_leases (as_leases s))" by auto
  ultimately have "lease_at (as_leases s) (new_lease_id a) = Some l"
    using l(2) lease_inv_id by (metis lease_inv_def lease_wf_def map_of_is_SomeI)
  then show False using assms(5) project_claims_Inr [OF assms(4)] by simp
qed

text \<open>
  C16: a one-shot command leaves no lease it claimed itself behind. When its body ends in a
  \<open>WorkflowError\<close> and the command does too, it is the error of the body; the lease is no longer
  active if it was claimed for the command, every other lease is as the body left it, and when
  the agent re-entered a lease it already held nothing is undone.
\<close>

theorem one_shot_frees_its_claim:
  assumes "store_inv st" "issue_action_request env a others st = (Inr rq, st1)"
    and "body rq st1 = (Inl (WorkflowError status code payload), st2)"
    and "claimed_fixer_lease env a others body st = (Inl e, st')" "is_workflow_error e"
    and "given_text (ri_item_id a) \<noteq> []" "lease_at (as_leases (ag_session st)) (new_lease_id a) = None"
  shows "e = WorkflowError status code payload
     \<and> (if rq_acquisition rq = ''created''
        then (\<forall>l. lease_at (as_leases (ag_session st')) (rq_lease_id rq) = Some l \<longrightarrow> \<not> is_active l)
           \<and> (\<forall>k. k \<noteq> rq_lease_id rq \<longrightarrow> lease_at (as_leases (ag_session st')) k
                = map_option reload_lease (lease_at (as_leases (ag_session st2)) k))
        else st' = st2)"
proof -
  from assms(2) obtain s where s: "project_claims (ag_session st) = Inr s"
    by (auto simp: issue_action_request_def split: sum.splits)
  define held where "held \<longleftrightarrow> map_option lease_id (active_fixer_lease_for_item (as_leases s) (given_text (ri_item_id a))
      (Some (ri_agent_id a))) = Some (rq_lease_id rq)"
  define reason where "reason = ''action_rejected:'' @ code"
  let ?undo = "transact_agent None [] (release_claimed env (rq_lease_id rq) reason) st2"
  have run: "claimed_fixer_lease env a others body st =
      (if held then (Inl (WorkflowError status code payload), st2)
       else (case ?undo of (Inl e, st3) \<Rightarrow> (Inl e, st3) | (Inr _, st3) \<Rightarrow> (Inl (WorkflowError status code payload), st3)))"
    unfolding claimed_fixer_lease_def by (simp only: s assms(2,3) sum.case prod.case Let_def effect_error.case held_def reason_def)
  show ?thesis
  proof (cases "rq_acquisition rq = ''created''")
    case True
    have "\<not> held" unfolding held_def by (rule created_is_new [OF assms(1,2) True s assms(7)])
    show ?thesis
    proof (cases rule: release_transaction_cases [of env "rq_lease_id rq" reason st2])
      case (failed e')
      with run assms(4,5) \<open>\<not> held\<close> show ?thesis by simp
    next
      case (released b st3)
      with run assms(4) \<open>\<not> held\<close> True show ?thesis by simp
    qed
  next
    case False
    have held unfolding held_def by (rule reentered_is_held [OF assms(1,2) False s assms(6)])
    with run assms(4) False show ?thesis by simp
  qed
qed

end
