(* ===== verification/Agent_Examples.thy ===== *)
theory Agent_Examples
  imports Agent_Outcomes
begin

text \<open>
  A session with two classified findings that two agents claim, one after the other, and an
  agent that answers: concrete runs in which the hypotheses of the properties of the agent
  protocol hold. Request ids and hashes are digests; the runs hold for every value of them.
\<close>

section \<open>Two claims\<close>

definition ex_command :: agent_env where
  "ex_command = \<lparr>ae_repo = ''o/r'', ae_pr_number = ''1'', ae_now = 0, ae_timestamp = ''t''\<rparr>"

definition ex_open_item :: "string \<Rightarrow> pydict" where
  "ex_open_item i =
     [(''item_id'', PStr i), (''item_kind'', PStr ''local_finding''), (''state'', PStr ''open''), (''path'', PStr i),
      (''classification_evidence'', PDict [(''classification'', PStr ''fix'')]), (''claimed_by'', PNone), (''claimed_at'', PNone),
      (''lease_expires_at'', PNone)]"

definition ex_open_work :: agent_session where
  "ex_open_work =
     \<lparr>as_leases = \<lparr>s_items = [(''i'', PDict (ex_open_item ''i'')), (''j'', PDict (ex_open_item ''j''))], s_leases = [],
                   s_events = [], s_repo = ''o/r'', s_pr = ''1''\<rparr>,
      as_doc = [(''session_id'', PStr ''s'')]\<rparr>"

definition ex_agents :: agent_store where
  "ex_agents = \<lparr>ag_session = ex_open_work, ag_revision = 1, ag_evidence = [], ag_files = \<lambda>_. NoFile\<rparr>"

definition ex_seen :: stack_context where
  "ex_seen = bare_context ''absent'' ''o/r'' ''1'' ''t''"

definition ex_ask :: "string \<Rightarrow> string \<Rightarrow> request_input" where
  "ex_ask agent i =
     \<lparr>ri_role = ''fixer'', ri_agent_id = agent, ri_item_id = Some i, ri_uuid = i, ri_workspace = ''w'',
      ri_observed = Some ex_seen, ri_records = None, ri_projection_error = None\<rparr>"

definition ex_request :: "string \<Rightarrow> string \<Rightarrow> pydict" where
  "ex_request i rid =
     projr (build_request ex_command ''fixer'' (''lease_'' @ i) rid (PStr ''s'') (ex_open_item i) ex_seen)"

text \<open>What a claim changes in the metadata: the observed stack context is cached.\<close>

definition ex_change :: "pydict \<Rightarrow> metadata_change" where
  "ex_change doc = metadata_delta (dget doc ''metadata'')
     (dget (cache_pull_request_context doc (context_to_dict ex_seen)) ''metadata'')"

definition ex_claim_plan :: "string \<Rightarrow> metadata_change \<Rightarrow> string \<Rightarrow> string \<Rightarrow> claim_plan" where
  "ex_claim_plan i change rid h =
     \<lparr>cp_item_id = i, cp_request_id = rid, cp_request = ex_request i rid, cp_hash = h,
      cp_boundary = projr (handling_boundary_summary_or_none (ex_open_item i) ''fixer''),
      cp_request_path = ''w/action-request-'' @ rid @ ''.json'', cp_skeleton_path = ''w/'' @ skeleton_name rid,
      cp_classification = PDict [(''classification'', PStr ''fix'')], cp_decision = PNone, cp_metadata = change\<rparr>"

text \<open>What an issue takes to succeed, one step after the other.\<close>

lemma issue_created:
  assumes "project_claims (ag_session st) = Inr s" "expire_loaded env s = s" "next_item (ri_item_id a) s = (i, Some item)"
    and "has_classification_evidence item"
    and "refresh_stack_context_for_request env a (put_session_item i item s) st = (Inr (ctx, s1), st)"
    and "plan_claim env a (dget (as_doc s) ''metadata'') i item ctx s1 = Inr p"
    and commit: "\<And>ev. fst (transact_agent None [ev] (commit_claim env a p) (others st)) = Inr (l ev)"
    and artifacts: "\<And>ev l. \<not> isl (fst (write_artifacts a p l (snd (transact_agent None [ev] (commit_claim env a p) (others st)))))"
  shows "\<exists>rq st' ev. issue_action_request env a others st = (Inr rq, st') \<and> rq_acquisition rq = ''created''
           \<and> rq_lease_id rq = new_lease_id a \<and> rq_request_path rq = cp_request_path p
           \<and> ag_session st' = ag_session (snd (transact_agent None [ev] (commit_claim env a p) (others st)))"
proof -
  let ?ev = "record_to_json (request_issued env a p (session_text s1 ''session_id''))"
  let ?st2 = "snd (transact_agent None [?ev] (commit_claim env a p) (others st))"
  obtain rq st' where w: "write_artifacts a p (l ?ev) ?st2 = (Inr rq, st')"
    using artifacts [of "l ?ev" ?ev] by (cases "write_artifacts a p (l ?ev) ?st2"; cases "fst (write_artifacts a p (l ?ev) ?st2)") auto
  have "claim_item env a others (dget (as_doc s) ''metadata'') i item (put_session_item i item s) st = (Inr rq, st')"
    using commit [of ?ev] w by (simp add: claim_item_def assms(5,6) case_prod_beta)
  then have "issue_action_request env a others st = (Inr rq, st')"
    by (simp add: issue_action_request_def issue_loaded_def assms(1-4) Let_def)
  with write_artifacts_Inr [OF w] show ?thesis
    by (intro exI [of _ rq] exI [of _ st'] exI [of _ ?ev]) simp
qed

lemma ex_loaded: "project_claims ex_open_work = Inr ex_open_work" "expire_loaded ex_command ex_open_work = ex_open_work"
  "next_item (Some ''i'') ex_open_work = (''i'', Some (ex_open_item ''i''))" "has_classification_evidence (ex_open_item i)"
  by code_simp+

lemma ex_built: "build_request ex_command ''fixer'' ''lease_i'' rid (PStr ''s'') (ex_open_item ''i'') ex_seen = Inr (ex_request ''i'' rid)"
  "build_request ex_command ''fixer'' ''lease_j'' rid (PStr ''s'') (ex_open_item ''j'') ex_seen = Inr (ex_request ''j'' rid)"
  by code_simp+

lemma ex_parsed:
  "\<not> isl (action_request_from_dict (PDict (ex_request ''i'' rid)))"
  "\<not> isl (action_request_to_dict (projr (action_request_from_dict (PDict (ex_request ''i'' rid)))))"
  "\<not> isl (action_request_from_dict (PDict (ex_request ''j'' rid)))"
  "\<not> isl (action_request_to_dict (projr (action_request_from_dict (PDict (ex_request ''j'' rid)))))"
  by code_simp+

lemma hashed:
  assumes "\<not> isl (action_request_from_dict (PDict r))" "\<not> isl (action_request_to_dict (projr (action_request_from_dict (PDict r))))"
  shows "\<exists>h. request_hash_of r = Inr h"
  using assms unfolding request_hash_of_def request_stable_hash_def
  by (cases "action_request_from_dict (PDict r)"; cases "action_request_to_dict (projr (action_request_from_dict (PDict r)))")
    (simp_all add: raised_def)

lemma ex_boundary: "\<not> isl (handling_boundary_summary_or_none (ex_open_item ''i'') ''fixer'')"
  "\<not> isl (handling_boundary_summary_or_none (ex_open_item ''j'') ''fixer'')"
  by code_simp+

lemma ex_open_item_fields: "dget (ex_open_item i) ''classification_evidence'' = PDict [(''classification'', PStr ''fix'')]"
  "dget (ex_open_item i) ''decision'' = PNone"
  by (simp_all add: ex_open_item_def)

lemma ex_names:
  "text_of_key (ex_request ''i'' rid) ''request_id'' = Inr rid" "text_of_key (ex_request ''i'' rid) ''lease_id'' = Inr ''lease_i''"
  "text_of_key (ex_request ''j'' rid) ''request_id'' = Inr rid" "text_of_key (ex_request ''j'' rid) ''lease_id'' = Inr ''lease_j''"
  by code_simp+

lemma built_skeleton:
  assumes "i \<in> {''i'', ''j''}"
  shows "\<exists>d. response_skeleton_for_request (dset ''response_skeleton_path'' (PStr path) (ex_request i rid)) agent item = Inr d"
proof -
  have "text_of_key (ex_request i rid) ''request_id'' = Inr rid \<and> text_of_key (ex_request i rid) ''lease_id'' = Inr (''lease_'' @ i)"
    using assms ex_names by auto
  then show ?thesis by (simp add: response_skeleton_for_request_def Let_def)
qed

lemma artifacts_written:
  assumes "session_item (ag_session st) (cp_item_id p) = Some item"
    and "\<exists>d. response_skeleton_for_request (dset ''response_skeleton_path'' (PStr (cp_skeleton_path p)) (cp_request p))
           (ri_agent_id a) item = Inr d"
  shows "\<not> isl (fst (write_artifacts a p l st))"
  using assms by (auto simp: write_artifacts_def Let_def)

text \<open>A claim of an item of the example on a session that shows it open.\<close>

lemma ex_issue:
  assumes "i \<in> {''i'', ''j''}" "project_claims (ag_session st) = Inr s" "expire_loaded ex_command s = s"
    and "next_item (Some i) s = (i, Some (ex_open_item i))" "session_text s ''session_id'' = ''s''" "dget (as_doc s) ''session_id'' = PStr ''s''"
    and commit: "\<And>ev rid h. \<not> isl (fst (transact_agent None [ev] (commit_claim ex_command (ex_ask agent i) (ex_claim_plan i (ex_change (as_doc s)) rid h)) st))"
    and stays: "\<And>ev rid h. \<exists>item. session_item (ag_session (snd (transact_agent None [ev]
        (commit_claim ex_command (ex_ask agent i) (ex_claim_plan i (ex_change (as_doc s)) rid h)) st))) i = Some item"
  shows "\<exists>rq st' ev rid h. issue_action_request ex_command (ex_ask agent i) (\<lambda>x. x) st = (Inr rq, st') \<and> rq_acquisition rq = ''created''
           \<and> rq_lease_id rq = ''lease_'' @ i
           \<and> ag_session st' = ag_session (snd (transact_agent None [ev]
                (commit_claim ex_command (ex_ask agent i) (ex_claim_plan i (ex_change (as_doc s)) rid h)) st))"
proof -
  let ?a = "ex_ask agent i" and ?s1 = "put_session_item i (ex_open_item i) s"
  let ?s2 = "?s1\<lparr>as_doc := cache_pull_request_context (as_doc s) (context_to_dict ex_seen)\<rparr>"
  define rid where "rid = new_request_id ?a (PStr ''s'') i"
  have ask: "ri_role ?a = ''fixer''" "ri_workspace ?a = ''w''" "new_lease_id ?a = ''lease_'' @ i"
    by (simp_all add: ex_ask_def new_lease_id_def)
  have built: "build_request ex_command ''fixer'' (''lease_'' @ i) rid (PStr ''s'') (ex_open_item i) ex_seen = Inr (ex_request i rid)"
    using assms(1) ex_built by auto
  obtain h where h: "request_hash_of (ex_request i rid) = Inr h"
    using assms(1) ex_parsed hashed by (metis empty_iff insert_iff)
  obtain b where boundary: "handling_boundary_summary_or_none (ex_open_item i) ''fixer'' = Inr b"
    using assms(1) ex_boundary by (metis empty_iff insert_iff projr_def sum.collapse(2))
  have doc: "as_doc ?s1 = as_doc s" by (simp add: put_session_item_def)
  have sid: "dget (cache_pull_request_context (as_doc s) (context_to_dict ex_seen)) ''session_id'' = PStr ''s''"
    using assms(6) by (simp add: cache_pull_request_context_def Let_def)
  have refresh: "refresh_stack_context_for_request ex_command ?a ?s1 st = (Inr (ex_seen, ?s2), st)"
    unfolding refresh_stack_context_for_request_def observed_context_def doc
    by (simp add: ex_ask_def ex_seen_def bare_context_def)
  have plan: "plan_claim ex_command ?a (dget (as_doc s) ''metadata'') i (ex_open_item i) ex_seen ?s2 = Inr (ex_claim_plan i (ex_change (as_doc s)) rid h)"
    using built h boundary sid
    by (simp add: plan_claim_def lift_exn_def ask rid_def [symmetric] ex_claim_plan_def ex_change_def ex_open_item_fields Let_def)
  let ?t = "\<lambda>ev. transact_agent None [ev] (commit_claim ex_command ?a (ex_claim_plan i (ex_change (as_doc s)) rid h)) st"
  have l: "fst (?t ev) = Inr (projr (fst (?t ev)))" for ev
    by (rule sum.collapse(2) [symmetric], rule commit)
  have artifacts: "\<not> isl (fst (write_artifacts ?a (ex_claim_plan i (ex_change (as_doc s)) rid h) l'
      (snd (transact_agent None [ev] (commit_claim ex_command ?a (ex_claim_plan i (ex_change (as_doc s)) rid h)) st))))" for ev l'
  proof -
    obtain item where "session_item (ag_session (snd (?t ev))) i = Some item" using stays by blast
    then show ?thesis
      by (intro artifacts_written [of _ _ item])
        (simp_all add: ex_claim_plan_def ex_ask_def built_skeleton [OF assms(1)] del: append.simps append_Cons)
  qed
  have n: "next_item (ri_item_id ?a) s = (i, Some (ex_open_item i))" using assms(4) by (simp add: ex_ask_def)
  from issue_created [where others = "\<lambda>x. x", OF assms(2) assms(3) n ex_loaded(4) refresh plan l artifacts]
  obtain rq st' ev where "issue_action_request ex_command ?a (\<lambda>x. x) st = (Inr rq, st')" "rq_acquisition rq = ''created''"
      "rq_lease_id rq = new_lease_id ?a" "ag_session st' = ag_session (snd (transact_agent None [ev]
          (commit_claim ex_command ?a (ex_claim_plan i (ex_change (as_doc s)) rid h)) st))"
    by blast
  then show ?thesis unfolding ask(3) by - (intro exI conjI; assumption)
qed

definition ex_first :: "string \<Rightarrow> string \<Rightarrow> pydict \<Rightarrow> agent_session" where
  "ex_first rid h ev =
     ag_session (snd (transact_agent None [ev] (commit_claim ex_command (ex_ask ''a'' ''i'') (ex_claim_plan ''i'' (ex_change (as_doc ex_open_work)) rid h)) ex_agents))"

lemma ex_first_issue:
  "\<exists>rq st' ev rid h. issue_action_request ex_command (ex_ask ''a'' ''i'') (\<lambda>x. x) ex_agents = (Inr rq, st') \<and> rq_acquisition rq = ''created''
     \<and> rq_lease_id rq = ''lease_'' @ ''i'' \<and> ag_session st' = ex_first rid h ev"
proof -
  have commit: "\<not> isl (fst (transact_agent None [ev] (commit_claim ex_command (ex_ask ''a'' ''i'') (ex_claim_plan ''i'' (ex_change (as_doc ex_open_work)) rid h)) ex_agents))"
    for ev rid h by code_simp
  have stays: "session_item (ex_first rid h ev) ''i'' \<noteq> None" for ev rid h
    by code_simp
  show ?thesis
    unfolding ex_first_def
  proof (rule ex_issue [of "''i''" ex_agents ex_open_work "''a''"])
    show "project_claims (ag_session ex_agents) = Inr ex_open_work" by (simp add: ex_agents_def ex_loaded)
    show "session_text ex_open_work ''session_id'' = ''s''" "dget (as_doc ex_open_work) ''session_id'' = PStr ''s''" by code_simp+
    show "\<exists>item. session_item (ag_session (snd (transact_agent None [ev] (commit_claim ex_command (ex_ask ''a'' ''i'')
        (ex_claim_plan ''i'' (ex_change (as_doc ex_open_work)) rid h)) ex_agents))) ''i'' = Some item" for ev rid h
      using stays [of rid h ev] by (simp only: ex_first_def not_None_eq)
  qed (simp_all only: ex_loaded commit insert_iff simp_thms)
qed

text \<open>The second agent claims the other item.\<close>

definition ex_after :: "string \<Rightarrow> string \<Rightarrow> pydict \<Rightarrow> nat \<Rightarrow> pydict list \<Rightarrow> (string \<Rightarrow> request_file) \<Rightarrow> agent_store" where
  "ex_after rid h ev n es files = \<lparr>ag_session = ex_first rid h ev, ag_revision = n, ag_evidence = es, ag_files = files\<rparr>"

definition ex_both ::
    "string \<Rightarrow> string \<Rightarrow> pydict \<Rightarrow> nat \<Rightarrow> pydict list \<Rightarrow> (string \<Rightarrow> request_file) \<Rightarrow> string \<Rightarrow> string \<Rightarrow> pydict \<Rightarrow> agent_session" where
  "ex_both rid h ev n es files rid' h' ev' =
     ag_session (snd (transact_agent None [ev'] (commit_claim ex_command (ex_ask ''b'' ''j'')
       (ex_claim_plan ''j'' (ex_change (as_doc (ex_first rid h ev))) rid' h')) (ex_after rid h ev n es files)))"

lemma ex_first_loaded: "project_claims (ex_first rid h ev) = Inr (ex_first rid h ev)"
  "expire_loaded ex_command (ex_first rid h ev) = ex_first rid h ev"
  "next_item (Some ''j'') (ex_first rid h ev) = (''j'', Some (ex_open_item ''j''))"
  "session_text (ex_first rid h ev) ''session_id'' = ''s''" "dget (as_doc (ex_first rid h ev)) ''session_id'' = PStr ''s''"
  by code_simp+

lemma ex_both_commits:
  "\<not> isl (fst (transact_agent None [ev'] (commit_claim ex_command (ex_ask ''b'' ''j'')
       (ex_claim_plan ''j'' (ex_change (as_doc (ex_first rid h ev))) rid' h')) (ex_after rid h ev n es files)))"
  "session_item (ex_both rid h ev n es files rid' h' ev') ''j'' \<noteq> None"
  by code_simp+

lemma ex_second_issue:
  "\<exists>rq st' rid' h' ev'. issue_action_request ex_command (ex_ask ''b'' ''j'') (\<lambda>x. x) (ex_after rid h ev n es files) = (Inr rq, st')
     \<and> ag_session st' = ex_both rid h ev n es files rid' h' ev'"
proof -
  have "\<exists>rq st' ev' rid' h'. issue_action_request ex_command (ex_ask ''b'' ''j'') (\<lambda>x. x) (ex_after rid h ev n es files) = (Inr rq, st')
     \<and> rq_acquisition rq = ''created'' \<and> rq_lease_id rq = ''lease_'' @ ''j'' \<and> ag_session st' = ex_both rid h ev n es files rid' h' ev'"
    unfolding ex_both_def
  proof (rule ex_issue [of "''j''" "ex_after rid h ev n es files" "ex_first rid h ev" "''b''"])
    show "project_claims (ag_session (ex_after rid h ev n es files)) = Inr (ex_first rid h ev)"
      by (simp add: ex_after_def ex_first_loaded)
    show "\<exists>item. session_item (ag_session (snd (transact_agent None [ev'] (commit_claim ex_command (ex_ask ''b'' ''j'')
        (ex_claim_plan ''j'' (ex_change (as_doc (ex_first rid h ev))) rid' h')) (ex_after rid h ev n es files)))) ''j'' = Some item"
      for ev' rid' h'
      using ex_both_commits(2) [of rid h ev n es files rid' h' ev'] by (simp only: ex_both_def not_None_eq)
  qed (simp_all only: ex_first_loaded ex_both_commits insert_iff simp_thms)
  then show ?thesis by blast
qed

lemma ex_both_leases:
  "\<exists>l m. lease_at (as_leases (ex_both rid h ev n es files rid' h' ev')) ''lease_i'' = Some l \<and> is_active l
     \<and> lease_at (as_leases (ex_both rid h ev n es files rid' h' ev')) ''lease_j'' = Some m \<and> is_active m"
proof -
  let ?s = "as_leases (ex_both rid h ev n es files rid' h' ev')"
  have "lease_at ?s ''lease_i'' \<noteq> None" "lease_at ?s ''lease_j'' \<noteq> None" by code_simp+
  moreover have "is_active (the (lease_at ?s ''lease_i''))" "is_active (the (lease_at ?s ''lease_j''))" by code_simp+
  ultimately show ?thesis by auto
qed

text \<open>Both agents hold their lease, and evidence was kept.\<close>

theorem agents_never_share_work_witness:
  "\<exists>st' l m. agent_steps ex_agents st' \<and> lease_at (as_leases (ag_session st')) ''lease_i'' = Some l
     \<and> lease_at (as_leases (ag_session st')) ''lease_j'' = Some m \<and> is_active l \<and> is_active m
     \<and> l_item_id l \<noteq> l_item_id m \<and> compatible l m \<and> (\<exists>es. ag_evidence st' = ag_evidence ex_agents @ es)"
proof -
  obtain rq st1 ev rid h where one: "issue_action_request ex_command (ex_ask ''a'' ''i'') (\<lambda>x. x) ex_agents = (Inr rq, st1)"
    and s1: "ag_session st1 = ex_first rid h ev"
    using ex_first_issue by blast
  have st1: "st1 = ex_after rid h ev (ag_revision st1) (ag_evidence st1) (ag_files st1)"
    by (simp add: ex_after_def s1 [symmetric])
  obtain rq' st2 rid' h' ev' where two: "issue_action_request ex_command (ex_ask ''b'' ''j'') (\<lambda>x. x) st1 = (Inr rq', st2)"
    and s2: "ag_session st2 = ex_both rid h ev (ag_revision st1) (ag_evidence st1) (ag_files st1) rid' h' ev'"
    using ex_second_issue [of rid h ev "ag_revision st1" "ag_evidence st1" "ag_files st1"] st1 by metis
  have "agent_steps ex_agents (snd (issue_action_request ex_command (ex_ask ''a'' ''i'') (\<lambda>x. x) ex_agents))"
    by (intro agent_steps.issue agent_steps.start)
  then have "agent_steps ex_agents st1" by (simp add: one)
  then have "agent_steps ex_agents (snd (issue_action_request ex_command (ex_ask ''b'' ''j'') (\<lambda>x. x) st1))"
    by (intro agent_steps.issue agent_steps.start)
  then have run: "agent_steps ex_agents st2" by (simp add: two)
  obtain l m where at: "lease_at (as_leases (ag_session st2)) ''lease_i'' = Some l" "is_active l"
      "lease_at (as_leases (ag_session st2)) ''lease_j'' = Some m" "is_active m"
    unfolding s2 using ex_both_leases by blast
  have empty: "s_leases (as_leases (ag_session ex_agents)) = []" by (simp add: ex_agents_def ex_open_work_def)
  have "''lease_i'' \<noteq> ''lease_j''" by simp
  from agents_never_share_work [OF run empty at(1,3) this at(2,4)] run at show ?thesis
    by (intro exI [of _ st2] exI [of _ l] exI [of _ m] conjI) simp_all
qed

theorem issued_request_is_answerable_witness:
  "\<exists>rq st'. issue_action_request ex_command (ex_ask ''a'' ''i'') (\<lambda>x. x) ex_agents = (Inr rq, st')
     \<and> answerable ''a'' (0 + 1000000 * 3600) rq st'"
proof -
  obtain rq st' where "issue_action_request ex_command (ex_ask ''a'' ''i'') (\<lambda>x. x) ex_agents = (Inr rq, st')"
      "rq_acquisition rq = ''created''"
    using ex_first_issue by blast
  with issued_request_is_answerable [OF this] show ?thesis by (auto simp: ex_ask_def ex_command_def)
qed

text \<open>A one-shot command whose body is rejected gives the lease back.\<close>

lemma ex_released:
  "\<not> isl (fst (transact_agent None [] (release_claimed ex_command ''lease_i'' ''action_rejected:MISSING_FILES'') (ex_after rid h ev n es files)))"
  by code_simp

theorem one_shot_frees_its_claim_witness:
  "\<exists>rq st1 st'. issue_action_request ex_command (ex_ask ''a'' ''i'') (\<lambda>x. x) ex_agents = (Inr rq, st1)
     \<and> rq_acquisition rq = ''created''
     \<and> claimed_fixer_lease ex_command (ex_ask ''a'' ''i'') (\<lambda>x. x)
         (\<lambda>rq x. (Inl (WorkflowError ACTION_REJECTED ''MISSING_FILES'' []) :: effect_error + unit, x)) ex_agents
         = (Inl (WorkflowError ACTION_REJECTED ''MISSING_FILES'' []), st')
     \<and> (\<forall>l. lease_at (as_leases (ag_session st')) (rq_lease_id rq) = Some l \<longrightarrow> \<not> is_active l)"
proof -
  let ?e = "WorkflowError ACTION_REJECTED ''MISSING_FILES'' []"
  let ?body = "\<lambda>rq x. (Inl ?e :: effect_error + unit, x)"
  let ?a = "ex_ask ''a'' ''i''"
  obtain rq st1 ev rid h where one: "issue_action_request ex_command ?a (\<lambda>x. x) ex_agents = (Inr rq, st1)"
    and created: "rq_acquisition rq = ''created''" and lid: "rq_lease_id rq = ''lease_'' @ ''i''" and s1: "ag_session st1 = ex_first rid h ev"
    using ex_first_issue by blast
  have st1: "st1 = ex_after rid h ev (ag_revision st1) (ag_evidence st1) (ag_files st1)"
    by (simp add: ex_after_def s1 [symmetric])
  let ?undo = "transact_agent None [] (release_claimed ex_command ''lease_i'' ''action_rejected:MISSING_FILES'') st1"
  obtain b st' where undo: "?undo = (Inr b, st')"
    using ex_released [of rid h ev "ag_revision st1" "ag_evidence st1" "ag_files st1"] st1
    by (cases ?undo; cases "fst ?undo") auto
  have loaded: "project_claims (ag_session ex_agents) = Inr ex_open_work" by (simp add: ex_agents_def ex_loaded)
  have none: "active_fixer_lease_for_item (as_leases ex_open_work) i agent = None" for i agent
    by (simp add: ex_open_work_def active_fixer_lease_for_item_def)
  have "claimed_fixer_lease ex_command ?a (\<lambda>x. x) ?body ex_agents = (Inl ?e, st')"
    unfolding claimed_fixer_lease_def
    using undo lid by (simp add: loaded one none ACTION_REJECTED_def)
  note run = this
  have inv: "store_inv ex_agents" by (simp add: store_inv_def ex_agents_def ex_open_work_def lease_inv_def lease_wf_def exclusive_def)
  have asked: "given_text (ri_item_id ?a) \<noteq> []" by (simp add: ex_ask_def given_text_def)
  have fresh: "lease_at (as_leases (ag_session ex_agents)) (new_lease_id ?a) = None" by (simp add: ex_agents_def ex_open_work_def)
  from one_shot_frees_its_claim [OF inv one _ run _ asked fresh, of ACTION_REJECTED "''MISSING_FILES''" "[]" st1] created one run
  show ?thesis by (intro exI [of _ rq] exI [of _ st1] exI [of _ st'] conjI) (simp_all add: is_workflow_error_def)
qed

section \<open>An answer\<close>

definition ex_answer :: pydict where
  "ex_answer =
     [(''request_id'', PStr ''r''), (''lease_id'', PStr ''lease_i''), (''agent_id'', PStr ''a''), (''resolution'', PStr ''clarify''),
      (''note'', PStr ''n''), (''reply_markdown'', PStr ''text'')]"

definition ex_active_lease :: lease where
  "ex_active_lease =
     \<lparr>lease_id = ''lease_i'', l_item_id = ''i'', l_agent_id = ''a'', l_role = TextRole ''fixer'', l_status = ''active'',
      l_created_at = 0, l_expires_at = 9, l_resume_token = None, l_request_hash = Some ''h'', l_request_id = Some ''r'',
      l_request_path = None, l_conflict_keys = [], l_submitted_at = None, l_completed_at = None, l_reason = None\<rparr>"

definition ex_claimed :: agent_session where
  "ex_claimed = ex_open_work\<lparr>as_leases := (as_leases ex_open_work)\<lparr>s_leases := [(''lease_i'', ex_active_lease)]\<rparr>\<rparr>"

definition ex_answered :: agent_store where
  "ex_answered = \<lparr>ag_session = ex_claimed, ag_revision = 3, ag_evidence = [], ag_files = (\<lambda>_. JsonFile (PDict ex_answer))\<rparr>"

definition ex_view :: submit_view where
  "ex_view = \<lparr>sv_observed = None, sv_commits = Inr [], sv_others = (\<lambda>x. x)\<rparr>"

text \<open>The steps of the acceptance up to the ledger record, whose id is a digest.\<close>

definition ex_shown :: agent_session where
  "ex_shown = projr (project_claims ex_claimed)"

definition ex_checked :: "(effect_error + (prepared \<times> pydict)) \<times> agent_session" where
  "ex_checked = preflight ex_command (ag_files ex_answered) ex_view False ex_answer ex_shown"

definition ex_prepared :: "(effect_error + (prepared \<times> pydict)) \<times> agent_session" where
  "ex_prepared = prepare_action_response_submission ex_command (ag_files ex_answered) ACTION_REJECTED (snd (projr (fst ex_checked)))
     (with_metadata (dget (as_doc (snd ex_checked)) ''metadata'') ex_shown)"

definition ex_accepted :: "(effect_error + (string \<times> lease)) \<times> agent_session" where
  "ex_accepted = accept_response_lease ex_command ACTION_REJECTED (snd (projr (fst ex_prepared))) (fst (projr (fst ex_prepared))) (snd ex_prepared)"

definition ex_folded :: agent_session where
  "ex_folded =
     (let p = fst (projr (fst ex_prepared)); s = snd ex_accepted;
          item = (case session_item s (pr_item_id p) of None \<Rightarrow> [] | Some i \<Rightarrow> i)
      in put_session_item (pr_item_id p) (apply_response_to_item (ae_timestamp ex_command) (snd (projr (fst ex_prepared))) item) s)"

lemma ex_accepts:
  "\<not> isl (project_claims ex_claimed)" "\<not> isl (fst ex_checked)" "\<not> isl (fst ex_prepared)" "\<not> isl (fst ex_accepted)"
  "role_str (l_role (snd (projr (fst ex_accepted)))) \<noteq> ''verifier''"
  "dget_default (as_doc ex_folded) pending_key (PList []) = PList []"
  by code_simp+

lemma ex_commits:
  "\<not> isl (commit_agent [] (ex_folded\<lparr>as_doc := dset pending_key (PList [PDict (record_to_json r)]) (as_doc ex_folded)\<rparr>) ex_answered)"
  by code_simp

lemma append_ledger_ok:
  assumes "dget_default (as_doc s) pending_key (PList []) = PList []"
  shows "\<exists>r. append_ledger env i ref agent role event_type payload s
      = (Inr r, s\<lparr>as_doc := dset pending_key (PList [PDict (record_to_json r)]) (as_doc s)\<rparr>)"
  using assms by (simp add: append_ledger_def buffer_append_def Let_def)

lemma succeeded: "\<not> isl (fst x) \<Longrightarrow> \<exists>a s. x = (Inr a, s)"
  by (cases x) (auto simp: isl_def sum.expand split: sum.splits, metis sum.exhaust)

lemma projr_Inr: "\<not> isl x \<Longrightarrow> x = Inr (projr x)"
  by (cases x) simp_all

theorem acceptance_requires_live_lease_witness:
  "\<exists>sb st' response held fin row. accept_action_response ex_command ex_view False ''p'' ex_answered = (Inr sb, st')
     \<and> ag_files ex_answered ''p'' = JsonFile (PDict response)
     \<and> lease_at (as_leases (ag_session ex_answered)) (sb_lease_id sb) = Some held \<and> l_status held = ''active''
     \<and> l_agent_id held = py_str (dget response ''agent_id'') \<and> ae_now ex_command < l_expires_at held
     \<and> lease_at (as_leases (ag_session st')) (sb_lease_id sb) = Some fin \<and> l_status fin = ''accepted''
     \<and> row \<in> set (ag_evidence st') \<and> dget row ''event_type'' = PStr ''response_accepted''"
proof -
  obtain p0 r0 s0 where checked: "ex_checked = (Inr (p0, r0), s0)"
    using succeeded [OF ex_accepts(2)] by (metis surj_pair)
  obtain p r s1 where prepared: "ex_prepared = (Inr (p, r), s1)"
    using succeeded [OF ex_accepts(3)] by (metis surj_pair)
  obtain lid l s2 where accepted: "ex_accepted = (Inr (lid, l), s2)"
    using succeeded [OF ex_accepts(4)] by (metis surj_pair)
  have shown: "project_claims ex_claimed = Inr ex_shown"
    unfolding ex_shown_def by (rule projr_Inr) (rule ex_accepts)
  have role: "role_str (l_role l) \<noteq> ''verifier''" using ex_accepts(5) by (simp only: accepted fst_conv snd_conv sum.sel not_False_eq_True)
  have folded: "ex_folded = put_session_item (pr_item_id p) (apply_response_to_item (ae_timestamp ex_command) r
      (case session_item s2 (pr_item_id p) of None \<Rightarrow> [] | Some i \<Rightarrow> i)) s2"
    by (simp add: ex_folded_def prepared accepted)
  obtain ev where ledger: "append_ledger ex_command (pr_item_id p) (PStr lid) (py_str (dget r ''agent_id'')) (role_str (l_role l))
       ''response_accepted'' [(''resolution'', dget r ''resolution''), (''note'', dget r ''note''),
         (''response'', PDict (replayable_action_response r))] ex_folded
      = (Inr ev, ex_folded\<lparr>as_doc := dset pending_key (PList [PDict (record_to_json ev)]) (as_doc ex_folded)\<rparr>)"
    using append_ledger_ok [OF ex_accepts(6)] by blast
  let ?s3 = "ex_folded\<lparr>as_doc := dset pending_key (PList [PDict (record_to_json ev)]) (as_doc ex_folded)\<rparr>"
  have acc: "accept_response_lease ex_command ACTION_REJECTED r p s1 = (Inr (lid, l), s2)"
    using accepted by (simp add: ex_accepted_def prepared)
  have sub: "accept_action_response_submission ex_command ACTION_REJECTED r p s1 = (Inr ev, ?s3)"
    unfolding accept_action_response_submission_def using acc role ledger folded by (simp add: Let_def)
  have prep: "prepare_action_response_submission ex_command (ag_files ex_answered) ACTION_REJECTED r0
      (with_metadata (dget (as_doc s0) ''metadata'') ex_shown) = (Inr (p, r), s1)"
    using prepared by (simp add: ex_prepared_def checked)
  have current: "accept_current ex_command (ag_files ex_answered) (dget (as_doc s0) ''metadata'') r0 ex_shown = (Inr (Accepted p ev), ?s3)"
    unfolding accept_current_def by (simp add: prep sub)
  obtain st' where commit: "commit_agent [] ?s3 ex_answered = Inr st'"
    using ex_commits [of ev] by (cases "commit_agent [] ?s3 ex_answered") auto
  have start: "ag_session ex_answered = ex_claimed" "ag_files ex_answered ''p'' = JsonFile (PDict ex_answer)"
    by (simp_all add: ex_answered_def)
  have trans: "transact_agent (Some (ag_revision ex_answered)) []
      (accept_current ex_command (ag_files ex_answered) (dget (as_doc s0) ''metadata'') r0) ex_answered = (Inr (Accepted p ev), st')"
    unfolding transact_agent_def by (simp add: start shown current commit)
  have pre: "preflight ex_command (ag_files ex_answered) ex_view False ex_answer ex_shown = (Inr (p0, r0), s0)"
    using checked by (simp only: ex_checked_def)
  have alone: "sv_others ex_view ex_answered = ex_answered" by (simp add: ex_view_def)
  have "\<exists>sb. accept_action_response ex_command ex_view False ''p'' ex_answered = (Inr sb, st')"
    unfolding accept_action_response_def accept_loaded_def load_response_json_object_def Let_def
    using trans pre by (simp add: start shown alone submitted_of_def)
  then obtain sb where run: "accept_action_response ex_command ex_view False ''p'' ex_answered = (Inr sb, st')" by blast
  from acceptance_requires_live_lease [OF run, unfolded alone] obtain response held fin row where
    "ag_files ex_answered ''p'' = JsonFile (PDict response)"
    "lease_at (as_leases (ag_session ex_answered)) (sb_lease_id sb) = Some held" "l_status held = ''active''"
    "l_agent_id held = py_str (dget response ''agent_id'')" "ae_now ex_command < l_expires_at held"
    "lease_at (as_leases (ag_session st')) (sb_lease_id sb) = Some fin" "l_status fin = ''accepted''"
    "row \<in> set (ag_evidence st')" "dget row ''event_type'' = PStr ''response_accepted''"
    by (elim exE conjE) (rule that)
  with run show ?thesis
    by (intro exI [of _ sb] exI [of _ st'] exI [of _ response] exI [of _ held] exI [of _ fin] exI [of _ row] conjI)
qed

text \<open>A response that names an unknown lease is refused.\<close>

lemma ex_unknown:
  "lease_of_value (PStr ''x'') (as_leases ex_open_work) = Inr None" "lease_at (as_leases ex_open_work) ''x'' = None"
  "recover_rebound_github_thread_lease ex_open_work [(''lease_id'', PStr ''x'')] (str_field [(''lease_id'', PStr ''x'')] ''item_id'') ''x'' = None"
  "dget_default (as_doc ex_open_work) pending_key (PList []) = PList []"
  by code_simp+

theorem refused_response_is_recorded_witness:
  "\<exists>s'. prepare_action_response_submission ex_command (\<lambda>_. NoFile) ACTION_REJECTED [(''lease_id'', PStr ''x'')] ex_open_work
       = (Inl (WorkflowError ACTION_REJECTED ''LEASE_NOT_FOUND'' []), s') \<and> as_leases s' = as_leases ex_open_work
     \<and> (\<exists>r. buffered r s' \<and> er_event_type r = ''response_rejected'' \<and> er_payload r = [(''reason_code'', PStr ''LEASE_NOT_FOUND'')])"
proof -
  let ?r = "[(''lease_id'', PStr ''x'')]"
  have "\<exists>s'. record_response_rejected ex_command ?r ''LEASE_NOT_FOUND'' None ex_open_work = (Inr (), s')"
    using append_ledger_ok [OF ex_unknown(4), of ex_command "[]" "PStr ''x''" "''unknown''" "''unknown''" "''response_rejected''"
        "[(''reason_code'', PStr ''LEASE_NOT_FOUND'')]"] ex_unknown(1)
    by (auto simp: record_response_rejected_def)
  then obtain s' where r: "record_response_rejected ex_command ?r ''LEASE_NOT_FOUND'' None ex_open_work = (Inr (), s')" by blast
  have run: "prepare_action_response_submission ex_command (\<lambda>_. NoFile) ACTION_REJECTED ?r ex_open_work
      = (Inl (WorkflowError ACTION_REJECTED ''LEASE_NOT_FOUND'' []), s')"
    using r ex_unknown(2,3)
    by (simp add: prepare_action_response_submission_def required_response_field_def areturn_def abind_def reject_submission_def araise_def)
  from refused_response_is_recorded [OF run] run show ?thesis by simp
qed

end
