(* ===== verification/Request_Throttle.thy ===== *)
theory Request_Throttle
  imports Severity
begin

text \<open>
  Coordination of GitHub calls between the sessions of a machine (\<open>github/throttle.py\<close>): what
  counts as a mutation and as a rate-limit signal, the shared backoff, the loops that wait for
  a lock or a read slot, and the lane of mutations as a step relation over concurrent callers.

  Times are integers in milliseconds and the wall clock does not step back. A lock attempt may
  fail (the file system), find the lock held or acquire it; which one is an argument of the
  waiting loops, as is the clock they read. A caller that dies loses its lock. Span events are
  left out.
\<close>

section \<open>Commands and signals\<close>

definition READ_SLOTS :: nat where
  "READ_SLOTS = 8"

definition SLOT_WAIT :: int where
  "SLOT_WAIT = 10000"

definition MUTATION_WAIT :: int where
  "MUTATION_WAIT = 30000"

definition MUTATION_SPACING :: int where
  "MUTATION_SPACING = 1000"

definition BACKOFF :: int where
  "BACKOFF = 60000"

text \<open>The shortest sleep between two attempts: half of \<open>_POLL_SECONDS\<close>.\<close>

definition MIN_POLL :: int where
  "MIN_POLL = 50"

definition is_mutation_command :: "string list \<Rightarrow> bool" where
  "is_mutation_command cmd \<longleftrightarrow> (\<exists>part \<in> set cmd. startswith part ''query=mutation'')"

fun exactly :: "string \<Rightarrow> regex" where
  "exactly [] = REmpty"
| "exactly (c # cs) = RSeq (RClass (\<lambda>x. x = c)) (exactly cs)"

definition quoted_word :: "string \<Rightarrow> string" where
  "quoted_word w = [char_of (34::nat)] @ w @ [char_of (34::nat)]"

definition GRAPHQL_RATE_LIMITED :: regex where
  "GRAPHQL_RATE_LIMITED =
     re_seq [exactly (quoted_word ''type''), RStar is_space, exactly '':'', RStar is_space,
             exactly (quoted_word ''RATE_LIMITED'')]"

definition is_rate_limit_result :: "string option \<Rightarrow> int \<Rightarrow> string \<Rightarrow> bool" where
  "is_rate_limit_result category returncode stdout \<longleftrightarrow>
     (if returncode \<noteq> 0 then category = Some ''rate_limit''
      else re_search_from GRAPHQL_RATE_LIMITED [] stdout \<noteq> None)"

section \<open>The shared files\<close>

datatype hint_file = NoHint | Malformed | Hint pyval

definition read_epoch :: "hint_file \<Rightarrow> string \<Rightarrow> int" where
  "read_epoch f k =
     (case f of
        Hint (PDict d) \<Rightarrow> (case dget d k of PInt i \<Rightarrow> i | _ \<Rightarrow> 0)
      | _ \<Rightarrow> 0)"

text \<open>Opening the backoff: without the lock, or when the file cannot be written, the hint is dropped.\<close>

definition record_rate_limit :: "bool \<Rightarrow> bool \<Rightarrow> int \<Rightarrow> hint_file \<Rightarrow> hint_file" where
  "record_rate_limit locked writable now f =
     (if locked \<and> writable then Hint (PDict [(''until'', PInt (max (now + BACKOFF) (read_epoch f ''until'')))]) else f)"

definition backoff_remaining :: "hint_file \<Rightarrow> int \<Rightarrow> int" where
  "backoff_remaining f now = read_epoch f ''until'' - now"

text \<open>The error of a call refused by the backoff names the whole seconds left, and one more.\<close>

definition raise_if_backoff_open :: "hint_file \<Rightarrow> int \<Rightarrow> int option" where
  "raise_if_backoff_open f now =
     (if backoff_remaining f now \<le> 0 then None else Some (backoff_remaining f now div 1000 + 1))"

section \<open>Waiting for a lock\<close>

datatype lock_attempt = LockError | LockHeld | LockAcquired

text \<open>
  Attempt \<open>n\<close> has the outcome \<open>tries n\<close> and is followed by a look at the clock. The result is
  whether the lock was acquired; \<open>None\<close> is a loop that does not end.
\<close>

partial_function (option) acquire_loop :: "(nat \<Rightarrow> lock_attempt) \<Rightarrow> (nat \<Rightarrow> int) \<Rightarrow> int \<Rightarrow> nat \<Rightarrow> (bool \<times> nat) option" where
  "acquire_loop tries clock deadline n =
     (case tries n of
        LockError \<Rightarrow> Some (False, n)
      | LockAcquired \<Rightarrow> Some (True, n)
      | LockHeld \<Rightarrow> if deadline \<le> clock n then Some (False, n) else acquire_loop tries clock deadline (Suc n))"

definition acquire_named :: "(nat \<Rightarrow> lock_attempt) \<Rightarrow> (nat \<Rightarrow> int) \<Rightarrow> int \<Rightarrow> int \<Rightarrow> (bool \<times> nat) option" where
  "acquire_named tries clock started wait = acquire_loop tries clock (started + wait) 0"

text \<open>One pass over the read slots: the first slot that errs ends it, the first free one is taken.\<close>

fun try_slots :: "(nat \<Rightarrow> lock_attempt) \<Rightarrow> nat list \<Rightarrow> lock_attempt" where
  "try_slots slot [] = LockHeld"
| "try_slots slot (i # is) = (case slot i of LockHeld \<Rightarrow> try_slots slot is | r \<Rightarrow> r)"

definition acquire_slot :: "(nat \<Rightarrow> nat \<Rightarrow> lock_attempt) \<Rightarrow> (nat \<Rightarrow> int) \<Rightarrow> int \<Rightarrow> int \<Rightarrow> (bool \<times> nat) option" where
  "acquire_slot slots clock started wait =
     acquire_loop (\<lambda>n. try_slots (slots n) [0..<READ_SLOTS]) clock (started + wait) 0"

section \<open>Mutations\<close>

text \<open>\<open>_space_mutation\<close>: how long a mutation still has to wait.\<close>

definition mutation_gap :: "int \<Rightarrow> hint_file \<Rightarrow> int" where
  "mutation_gap now f =
     (let gap = MUTATION_SPACING - (now - read_epoch f ''at'')
      in if 0 < gap \<and> gap \<le> MUTATION_SPACING then gap else 0)"

definition mark_mutation :: "bool \<Rightarrow> int \<Rightarrow> hint_file \<Rightarrow> hint_file" where
  "mark_mutation writable now f = (if writable then Hint (PDict [(''at'', PInt now)]) else f)"

text \<open>
  A mutation waits for the lane; with it, or after giving up on it, it looks at the backoff,
  waits for the spacing, calls GitHub and marks the time, and leaves the lane.
\<close>

datatype caller =
    Idle
  | Waiting
  | Ready bool
  | Sleeping bool int
  | Calling bool int
  | Marked bool

record mutation_call =
  mc_start :: int
  mc_end :: int
  mc_marked :: bool

record lane =
  ln_clock :: int
  ln_holder :: "nat option"
  ln_last :: hint_file
  ln_backoff :: hint_file
  ln_caller :: "nat \<Rightarrow> caller"
  ln_calls :: "mutation_call list"
    \<comment> \<open>the finished calls made in the lane, the latest first\<close>

definition in_lane :: "caller \<Rightarrow> bool" where
  "in_lane c = (case c of Ready b \<Rightarrow> b | Sleeping b _ \<Rightarrow> b | Calling b _ \<Rightarrow> b | Marked b \<Rightarrow> b | _ \<Rightarrow> False)"

definition set_caller :: "nat \<Rightarrow> caller \<Rightarrow> lane \<Rightarrow> lane" where
  "set_caller p c s = s\<lparr>ln_caller := (ln_caller s)(p := c)\<rparr>"

text \<open>Releasing a lock, also by the operating system when its owner dies.\<close>

definition leave :: "nat \<Rightarrow> lane \<Rightarrow> lane" where
  "leave p s = set_caller p Idle (s\<lparr>ln_holder := if in_lane (ln_caller s p) then None else ln_holder s\<rparr>)"

definition finish_call :: "nat \<Rightarrow> bool \<Rightarrow> int \<Rightarrow> bool \<Rightarrow> lane \<Rightarrow> lane" where
  "finish_call p locked start writable s =
     set_caller p (Marked locked)
       (s\<lparr>ln_last := mark_mutation writable (ln_clock s) (ln_last s),
          ln_calls := (if locked then [\<lparr>mc_start = start, mc_end = ln_clock s, mc_marked = writable\<rparr>] else []) @ ln_calls s\<rparr>)"

inductive lane_step :: "lane \<Rightarrow> lane \<Rightarrow> bool" where
  tick: "0 \<le> d \<Longrightarrow> lane_step s (s\<lparr>ln_clock := ln_clock s + d\<rparr>)"
| enter: "ln_caller s p = Idle \<Longrightarrow> raise_if_backoff_open (ln_backoff s) (ln_clock s) = None
    \<Longrightarrow> lane_step s (set_caller p Waiting s)"
| acquire: "ln_caller s p = Waiting \<Longrightarrow> ln_holder s = None
    \<Longrightarrow> lane_step s (set_caller p (Ready True) (s\<lparr>ln_holder := Some p\<rparr>))"
| give_up: "ln_caller s p = Waiting \<Longrightarrow> lane_step s (set_caller p (Ready False) s)"
| refused: "ln_caller s p = Ready b \<Longrightarrow> raise_if_backoff_open (ln_backoff s) (ln_clock s) \<noteq> None
    \<Longrightarrow> lane_step s (leave p s)"
| space: "ln_caller s p = Ready b \<Longrightarrow> raise_if_backoff_open (ln_backoff s) (ln_clock s) = None
    \<Longrightarrow> lane_step s (set_caller p (Sleeping b (ln_clock s + mutation_gap (ln_clock s) (ln_last s))) s)"
| call: "ln_caller s p = Sleeping b wake \<Longrightarrow> wake \<le> ln_clock s
    \<Longrightarrow> lane_step s (set_caller p (Calling b (ln_clock s)) s)"
| finish: "ln_caller s p = Calling b start \<Longrightarrow> lane_step s (finish_call p b start writable s)"
| release: "ln_caller s p = Marked b \<Longrightarrow> lane_step s (leave p s)"
| signal: "lane_step s (s\<lparr>ln_backoff := record_rate_limit locked writable (ln_clock s) (ln_backoff s)\<rparr>)"
| death: "lane_step s (leave p s)"

section \<open>The waiting loops return\<close>

lemma acquire_loop_returns:
  assumes "\<And>k. n \<le> k \<Longrightarrow> clock k + MIN_POLL \<le> clock (Suc k)" "deadline \<le> clock n + MIN_POLL * int m"
  shows "\<exists>r k. acquire_loop tries clock deadline n = Some (r, k) \<and> n \<le> k \<and> k \<le> n + m
           \<and> r = (tries k = LockAcquired) \<and> (\<forall>j \<in> {n..<k}. tries j = LockHeld)"
  using assms
proof (induction m arbitrary: n)
  case 0
  then show ?case by (subst acquire_loop.simps) (simp split: lock_attempt.split)
next
  case (Suc m)
  have "deadline \<le> clock (Suc n) + MIN_POLL * int m"
    using Suc.prems(1) [of n] Suc.prems(2) by (simp add: algebra_simps)
  from Suc.IH [of "Suc n", OF _ this] Suc.prems(1)
  obtain r k where rest: "acquire_loop tries clock deadline (Suc n) = Some (r, k)" "Suc n \<le> k" "k \<le> Suc n + m"
      "r = (tries k = LockAcquired)" and held: "\<forall>j \<in> {Suc n..<k}. tries j = LockHeld"
    by fastforce
  show ?case
  proof (cases "tries n = LockHeld \<and> clock n < deadline")
    case True
    with rest held have "\<forall>j \<in> {n..<k}. tries j = LockHeld" by (auto simp: Suc_le_eq le_less)
    with True rest show ?thesis by (subst acquire_loop.simps) auto
  next
    case False
    then show ?thesis by (subst acquire_loop.simps) (auto split: lock_attempt.split)
  qed
qed

lemma try_slots_held: "try_slots slot is = LockHeld \<longleftrightarrow> (\<forall>i \<in> set is. slot i = LockHeld)"
  by (induction "is") (auto split: lock_attempt.split)

text \<open>
  C37: waiting for a lock ends. When the sleeps advance the clock as the code asks for, the wait
  for the mutation lane is over after at most 600 further attempts and the wait for a read slot
  after at most 200; the lane is reported acquired exactly when the last attempt acquired it,
  and every earlier attempt found it held by another session.
\<close>

theorem waits_for_locks_end:
  assumes "\<And>k. clock k + MIN_POLL \<le> clock (Suc k)" "started \<le> clock 0"
  shows "(\<exists>r k. acquire_named tries clock started MUTATION_WAIT = Some (r, k) \<and> k \<le> 600
           \<and> r = (tries k = LockAcquired) \<and> (\<forall>j \<in> {0..<k}. tries j = LockHeld))
    \<and> (\<exists>r k. acquire_slot slots clock started SLOT_WAIT = Some (r, k) \<and> k \<le> 200
           \<and> r = (try_slots (slots k) [0..<READ_SLOTS] = LockAcquired)
           \<and> (\<forall>j \<in> {0..<k}. \<forall>i < READ_SLOTS. slots j i = LockHeld))"
proof
  show "\<exists>r k. acquire_named tries clock started MUTATION_WAIT = Some (r, k) \<and> k \<le> 600
           \<and> r = (tries k = LockAcquired) \<and> (\<forall>j \<in> {0..<k}. tries j = LockHeld)"
    using acquire_loop_returns [of 0 clock "started + MUTATION_WAIT" 600 tries] assms
    by (simp add: acquire_named_def MUTATION_WAIT_def MIN_POLL_def)
  obtain r k where "acquire_slot slots clock started SLOT_WAIT = Some (r, k)" "k \<le> 200"
      "r = (try_slots (slots k) [0..<READ_SLOTS] = LockAcquired)"
      "\<forall>j \<in> {0..<k}. try_slots (slots j) [0..<READ_SLOTS] = LockHeld"
    using acquire_loop_returns [of 0 clock "started + SLOT_WAIT" 200 "\<lambda>n. try_slots (slots n) [0..<READ_SLOTS]"] assms
    by (auto simp: acquire_slot_def SLOT_WAIT_def MIN_POLL_def)
  then show "\<exists>r k. acquire_slot slots clock started SLOT_WAIT = Some (r, k) \<and> k \<le> 200
           \<and> r = (try_slots (slots k) [0..<READ_SLOTS] = LockAcquired)
           \<and> (\<forall>j \<in> {0..<k}. \<forall>i < READ_SLOTS. slots j i = LockHeld)"
    by (auto simp: try_slots_held)
qed

text \<open>Slot 3 becomes free at the second attempt; the mutation lane is never free.\<close>

theorem waits_for_locks_end_witness:
  "(\<exists>r k. acquire_named (\<lambda>_. LockHeld) (\<lambda>n. 100 * int n) 0 MUTATION_WAIT = Some (r, k) \<and> k \<le> 600
           \<and> r = (LockHeld = LockAcquired) \<and> (\<forall>j \<in> {0..<k}. LockHeld = LockHeld))
    \<and> (\<exists>r k. acquire_slot (\<lambda>n i. if n = 1 \<and> i = 3 then LockAcquired else LockHeld) (\<lambda>n. 100 * int n) 0 SLOT_WAIT
              = Some (r, k) \<and> k \<le> 200
           \<and> r = (try_slots (\<lambda>i. if k = 1 \<and> i = 3 then LockAcquired else LockHeld) [0..<READ_SLOTS] = LockAcquired)
           \<and> (\<forall>j \<in> {0..<k}. \<forall>i < READ_SLOTS. (if j = 1 \<and> i = 3 then LockAcquired else LockHeld) = LockHeld))"
  by (rule waits_for_locks_end) (simp_all add: MIN_POLL_def)

section \<open>The lane\<close>

text \<open>Mutations that were made in the lane and marked; \<open>after_marked t\<close> says time \<open>t\<close> is far enough from them.\<close>

definition after_marked :: "int \<Rightarrow> mutation_call list \<Rightarrow> bool" where
  "after_marked t cs \<longleftrightarrow> (\<forall>c \<in> set cs. mc_marked c \<longrightarrow> mc_end c + MUTATION_SPACING \<le> t)"

fun spaced :: "mutation_call list \<Rightarrow> bool" where
  "spaced [] \<longleftrightarrow> True"
| "spaced (c # cs) \<longleftrightarrow> mc_start c \<le> mc_end c \<and> after_marked (mc_start c) cs \<and> spaced cs"

definition caller_ok :: "lane \<Rightarrow> nat \<Rightarrow> bool" where
  "caller_ok s p \<longleftrightarrow> (in_lane (ln_caller s p) \<longrightarrow> ln_holder s = Some p)
     \<and> (\<forall>b start. ln_caller s p = Calling b start \<longrightarrow> start \<le> ln_clock s)
     \<and> (\<forall>t. ln_caller s p \<in> {Sleeping True t, Calling True t} \<longrightarrow> after_marked t (ln_calls s))"

definition lane_inv :: "lane \<Rightarrow> bool" where
  "lane_inv s \<longleftrightarrow> (\<forall>p. caller_ok s p) \<and> read_epoch (ln_last s) ''at'' \<le> ln_clock s
     \<and> (\<forall>c \<in> set (ln_calls s). mc_marked c \<longrightarrow> mc_end c \<le> read_epoch (ln_last s) ''at'')
     \<and> spaced (ln_calls s)"

definition open_lane :: "int \<Rightarrow> hint_file \<Rightarrow> hint_file \<Rightarrow> lane" where
  "open_lane now hint backoff =
     \<lparr>ln_clock = now, ln_holder = None, ln_last = hint, ln_backoff = backoff, ln_caller = (\<lambda>_. Idle), ln_calls = []\<rparr>"

lemma open_lane_inv: "read_epoch hint ''at'' \<le> now \<Longrightarrow> lane_inv (open_lane now hint backoff)"
  by (simp add: lane_inv_def open_lane_def caller_ok_def in_lane_def)

text \<open>A step of one caller that touches nothing the others look at.\<close>

lemma lane_inv_caller:
  assumes "lane_inv s" "ln_calls s' = ln_calls s" "ln_last s' = ln_last s" "ln_clock s' = ln_clock s"
    and "\<And>q. q \<noteq> p \<Longrightarrow> ln_caller s' q = ln_caller s q"
    and "\<And>q. q \<noteq> p \<Longrightarrow> ln_holder s = Some q \<Longrightarrow> ln_holder s' = Some q" and "caller_ok s' p"
  shows "lane_inv s'"
proof -
  have "caller_ok s' q" for q
    using assms by (cases "q = p") (simp_all add: lane_inv_def caller_ok_def)
  with assms(1-4) show ?thesis by (simp add: lane_inv_def)
qed

lemma gap_after_marked:
  assumes "lane_inv s" shows "after_marked (ln_clock s + mutation_gap (ln_clock s) (ln_last s)) (ln_calls s)"
  using assms by (fastforce simp: lane_inv_def after_marked_def mutation_gap_def Let_def MUTATION_SPACING_def)

lemma after_marked_later: "after_marked t cs \<Longrightarrow> t \<le> t' \<Longrightarrow> after_marked t' cs"
  by (force simp: after_marked_def)

lemma in_lane_simps [simp]:
  "in_lane (Ready b) = b" "in_lane (Sleeping b t) = b" "in_lane (Calling b t) = b" "in_lane (Marked b) = b"
  "\<not> in_lane Idle" "\<not> in_lane Waiting"
  by (simp_all add: in_lane_def)

lemma lane_inv_holder: "lane_inv s \<Longrightarrow> in_lane (ln_caller s p) \<Longrightarrow> ln_holder s = Some p"
  by (simp add: lane_inv_def caller_ok_def)

lemma leave_inv: "lane_inv s \<Longrightarrow> lane_inv (leave p s)"
  by (rule lane_inv_caller [of s _ p]) (auto simp: leave_def set_caller_def caller_ok_def dest: lane_inv_holder)

lemma marked_epoch [simp]:
  "read_epoch (mark_mutation writable now f) ''at'' = (if writable then now else read_epoch f ''at'')"
  by (simp add: mark_mutation_def read_epoch_def)

lemma finish_inv:
  assumes inv: "lane_inv s" and c: "ln_caller s p = Calling b start"
  shows "lane_inv (finish_call p b start writable s)"
proof -
  let ?s = "finish_call p b start writable s"
  have start: "start \<le> ln_clock s" and at: "read_epoch (ln_last s) ''at'' \<le> ln_clock s"
    and after: "b \<Longrightarrow> after_marked start (ln_calls s)"
    using inv c by (simp_all add: lane_inv_def caller_ok_def)
  have at': "read_epoch (ln_last ?s) ''at'' = (if writable then ln_clock s else read_epoch (ln_last s) ''at'')"
    by (simp add: finish_call_def set_caller_def)
  have alone: "\<not> in_lane (ln_caller s q)" if "q \<noteq> p" "b" for q
    using that lane_inv_holder [OF inv, of q] lane_inv_holder [OF inv, of p] c by auto
  have "caller_ok ?s q" for q
  proof (cases "q = p")
    case True
    with lane_inv_holder [OF inv, of p] c show ?thesis by (simp add: caller_ok_def finish_call_def set_caller_def)
  next
    case False
    then have "caller_ok s q" using inv by (simp add: lane_inv_def)
    with alone [OF False] False show ?thesis
      by (cases b) (auto simp: caller_ok_def finish_call_def set_caller_def)
  qed
  moreover have "\<forall>c \<in> set (ln_calls ?s). mc_marked c \<longrightarrow> mc_end c \<le> read_epoch (ln_last ?s) ''at''"
    using inv at by (auto simp: lane_inv_def finish_call_def set_caller_def intro: order_trans)
  moreover have "spaced (ln_calls ?s)"
    using inv start after by (simp add: lane_inv_def finish_call_def set_caller_def)
  moreover have "read_epoch (ln_last ?s) ''at'' \<le> ln_clock ?s"
    using at by (simp add: at') (simp add: finish_call_def set_caller_def)
  ultimately show ?thesis by (simp add: lane_inv_def)
qed

lemma lane_step_inv: "lane_step s s' \<Longrightarrow> lane_inv s \<Longrightarrow> lane_inv s'"
proof (induction rule: lane_step.induct)
  case (tick d s)
  have "caller_ok (s\<lparr>ln_clock := ln_clock s + d\<rparr>) q" if "caller_ok s q" for q
    using tick(1) that unfolding caller_ok_def by (force simp del: insert_iff)
  with tick show ?case by (simp add: lane_inv_def)
next
  case (enter s p)
  then show ?case by - (rule lane_inv_caller [of s _ p], simp_all add: caller_ok_def set_caller_def)
next
  case (acquire s p)
  then show ?case by - (rule lane_inv_caller [of s _ p], simp_all add: caller_ok_def set_caller_def)
next
  case (give_up s p)
  then show ?case by - (rule lane_inv_caller [of s _ p], simp_all add: caller_ok_def set_caller_def)
next
  case (space s p b)
  then show ?case using gap_after_marked [of s] lane_inv_holder [of s p]
    by - (rule lane_inv_caller [of s _ p], simp_all add: caller_ok_def set_caller_def)
next
  case (call s p b wake)
  then have "b \<Longrightarrow> after_marked wake (ln_calls s)" by (simp add: lane_inv_def caller_ok_def)
  with call show ?case using after_marked_later [of wake _ "ln_clock s"] lane_inv_holder [of s p]
    by - (rule lane_inv_caller [of s _ p], simp_all add: caller_ok_def set_caller_def)
next
  case (finish s p b start writable)
  then show ?case by (simp add: finish_inv)
next
  case (signal s locked writable)
  then show ?case by (simp add: lane_inv_def caller_ok_def)
qed (simp_all add: leave_inv)

lemma lane_history_inv: "lane_step\<^sup>*\<^sup>* s s' \<Longrightarrow> lane_inv s \<Longrightarrow> lane_inv s'"
  by (induction rule: rtranclp_induct) (auto intro: lane_step_inv)

lemma spaced_nth: "spaced cs \<Longrightarrow> i < j \<Longrightarrow> j < length cs \<Longrightarrow> after_marked (mc_start (cs ! i)) [cs ! j]"
proof (induction cs arbitrary: i j)
  case (Cons c cs)
  then show ?case by (cases i; cases j) (auto simp: after_marked_def)
qed simp

lemma spaced_runs: "spaced cs \<Longrightarrow> c \<in> set cs \<Longrightarrow> mc_start c \<le> mc_end c"
  by (induction cs) auto

text \<open>
  C18: mutations of concurrent sessions do not pile up. In every history of the lane (callers
  that wait, give up, sleep, call, die, and rate-limit signals, in any order) that starts with
  a last-mutation time not in the future, of two calls made in the lane the later one starts at
  least a second after the end of the earlier one, when the earlier one marked its time.
\<close>

theorem mutations_are_spaced:
  assumes "lane_step\<^sup>*\<^sup>* (open_lane now hint backoff) s" "read_epoch hint ''at'' \<le> now"
    and "i < j" "j < length (ln_calls s)" "mc_marked (ln_calls s ! j)"
  shows "mc_end (ln_calls s ! j) + MUTATION_SPACING \<le> mc_start (ln_calls s ! i)
           \<and> mc_start (ln_calls s ! i) \<le> mc_end (ln_calls s ! i)"
proof -
  from lane_history_inv [OF assms(1) open_lane_inv [OF assms(2)]] have "spaced (ln_calls s)" by (simp add: lane_inv_def)
  with assms spaced_nth [of "ln_calls s" i j] spaced_runs [of "ln_calls s" "ln_calls s ! i"] show ?thesis
    by (simp add: after_marked_def)
qed

text \<open>A session that is alone makes its call at once.\<close>

lemma single_call:
  assumes "ln_caller s p = Idle" "ln_holder s = None" "raise_if_backoff_open (ln_backoff s) (ln_clock s) = None"
  shows "\<exists>s' t. lane_step\<^sup>*\<^sup>* s s' \<and> ln_caller s' p = Idle \<and> ln_holder s' = None
           \<and> ln_backoff s' = ln_backoff s \<and> ln_clock s \<le> ln_clock s'
           \<and> ln_calls s' = \<lparr>mc_start = t, mc_end = t, mc_marked = True\<rparr> # ln_calls s"
proof -
  define gap where "gap = mutation_gap (ln_clock s) (ln_last s)"
  have gap: "0 \<le> gap" by (simp add: gap_def mutation_gap_def Let_def)
  define s1 where "s1 = set_caller p Waiting s"
  define s2 where "s2 = set_caller p (Ready True) (s1\<lparr>ln_holder := Some p\<rparr>)"
  define s3 where "s3 = set_caller p (Sleeping True (ln_clock s2 + mutation_gap (ln_clock s2) (ln_last s2))) s2"
  define s4 where "s4 = s3\<lparr>ln_clock := ln_clock s3 + gap\<rparr>"
  define s5 where "s5 = set_caller p (Calling True (ln_clock s4)) s4"
  define s6 where "s6 = finish_call p True (ln_clock s4) True s5"
  note states = s1_def s2_def s3_def s4_def s5_def s6_def set_caller_def finish_call_def
  have "lane_step\<^sup>*\<^sup>* s s1" unfolding s1_def using assms by (intro r_into_rtranclp lane_step.enter)
  also have "lane_step\<^sup>*\<^sup>* s1 s2" unfolding s2_def using assms by (intro r_into_rtranclp lane_step.acquire) (simp_all add: s1_def set_caller_def)
  also have "lane_step\<^sup>*\<^sup>* s2 s3" unfolding s3_def using assms by (intro r_into_rtranclp lane_step.space) (simp_all add: states)
  also have "lane_step\<^sup>*\<^sup>* s3 s4" unfolding s4_def by (intro r_into_rtranclp lane_step.tick gap)
  also have "lane_step\<^sup>*\<^sup>* s4 s5" unfolding s5_def
    by (rule r_into_rtranclp, rule lane_step.call [of _ _ _ "ln_clock s + gap"]) (simp_all add: states gap_def)
  also have "lane_step\<^sup>*\<^sup>* s5 s6" unfolding s6_def by (intro r_into_rtranclp lane_step.finish) (simp add: s5_def set_caller_def)
  also have "lane_step\<^sup>*\<^sup>* s6 (leave p s6)" by (intro r_into_rtranclp lane_step.death)
  finally have "lane_step\<^sup>*\<^sup>* s (leave p s6)" .
  then show ?thesis
    using gap assms by (intro exI [of _ "leave p s6"] exI [of _ "ln_clock s4"]) (simp add: leave_def states)
qed

theorem mutations_are_spaced_witness:
  "\<exists>s. lane_step\<^sup>*\<^sup>* (open_lane 5 NoHint NoHint) s \<and> length (ln_calls s) = 2
     \<and> mc_end (ln_calls s ! 1) + MUTATION_SPACING \<le> mc_start (ln_calls s ! 0)
     \<and> mc_start (ln_calls s ! 0) \<le> mc_end (ln_calls s ! 0)"
proof -
  let ?s0 = "open_lane 5 NoHint NoHint"
  have quiet: "raise_if_backoff_open NoHint t = None" if "0 \<le> t" for t
    using that by (simp add: raise_if_backoff_open_def backoff_remaining_def read_epoch_def)
  obtain s1 t1 where one: "lane_step\<^sup>*\<^sup>* ?s0 s1" "ln_caller s1 0 = Idle" "ln_holder s1 = None" "ln_backoff s1 = NoHint"
      "5 \<le> ln_clock s1" "ln_calls s1 = [\<lparr>mc_start = t1, mc_end = t1, mc_marked = True\<rparr>]"
    using single_call [of ?s0 0] quiet [of 5] by (auto simp: open_lane_def)
  then obtain s2 t2 where two: "lane_step\<^sup>*\<^sup>* s1 s2"
      "ln_calls s2 = [\<lparr>mc_start = t2, mc_end = t2, mc_marked = True\<rparr>, \<lparr>mc_start = t1, mc_end = t1, mc_marked = True\<rparr>]"
    using single_call [of s1 0] quiet [of "ln_clock s1"] by auto
  from one(1) two(1) have run: "lane_step\<^sup>*\<^sup>* ?s0 s2" by (rule rtranclp_trans)
  from mutations_are_spaced [OF run, of 0 1] two(2) run show ?thesis
    by (intro exI [of _ s2]) (simp add: read_epoch_def)
qed

section \<open>The backoff\<close>

lemma epoch_never_shrinks: "read_epoch f ''until'' \<le> read_epoch (record_rate_limit locked writable now f) ''until''"
  by (simp add: record_rate_limit_def read_epoch_def [of "Hint _"])

lemma lane_step_backoff:
  "lane_step s s' \<Longrightarrow> ln_clock s \<le> ln_clock s' \<and> read_epoch (ln_backoff s) ''until'' \<le> read_epoch (ln_backoff s') ''until''"
  by (induction rule: lane_step.induct)
    (simp_all add: set_caller_def leave_def finish_call_def epoch_never_shrinks)

lemma lane_history_backoff:
  "lane_step\<^sup>*\<^sup>* s s' \<Longrightarrow> ln_clock s \<le> ln_clock s' \<and> read_epoch (ln_backoff s) ''until'' \<le> read_epoch (ln_backoff s') ''until''"
  by (induction rule: rtranclp_induct) (auto dest: lane_step_backoff)

definition past_check :: "caller \<Rightarrow> bool" where
  "past_check c = (case c of Sleeping _ _ \<Rightarrow> True | Calling _ _ \<Rightarrow> True | Marked _ \<Rightarrow> True | _ \<Rightarrow> False)"

lemma lane_step_check:
  "lane_step s s' \<Longrightarrow> past_check (ln_caller s' p) \<Longrightarrow>
     past_check (ln_caller s p) \<or> raise_if_backoff_open (ln_backoff s) (ln_clock s) = None"
  by (induction rule: lane_step.induct)
    (auto simp: set_caller_def leave_def finish_call_def past_check_def split: if_splits)

text \<open>
  A recorded rate-limit signal stops new calls of every session for the backoff. After the
  signal and until a minute later, whatever the sessions do, the check in front of a call
  refuses it, and a caller that is about to call, calling or just done had passed the check
  before the signal.
\<close>

theorem rate_limit_backs_off:
  assumes "lane_step\<^sup>*\<^sup>* (s\<lparr>ln_backoff := record_rate_limit True True (ln_clock s) (ln_backoff s)\<rparr>) s'"
    and "ln_clock s' < ln_clock s + BACKOFF"
  shows "raise_if_backoff_open (ln_backoff s') (ln_clock s') \<noteq> None
           \<and> (past_check (ln_caller s' p) \<longrightarrow> past_check (ln_caller s p))"
  using assms
proof (induction rule: rtranclp_induct)
  case base
  then show ?case
    by (simp add: record_rate_limit_def raise_if_backoff_open_def backoff_remaining_def read_epoch_def [of "Hint _"] BACKOFF_def)
next
  case (step s1 s2)
  from lane_step_backoff [OF step.hyps(2)] step.prems have "ln_clock s1 < ln_clock s + BACKOFF" by simp
  with step have before: "raise_if_backoff_open (ln_backoff s1) (ln_clock s1) \<noteq> None"
      "past_check (ln_caller s1 p) \<longrightarrow> past_check (ln_caller s p)"
    by simp_all
  from rtranclp.rtrancl_into_rtrancl [OF step.hyps]
  have "ln_clock s + BACKOFF \<le> read_epoch (ln_backoff s2) ''until''"
    using lane_history_backoff by (force simp: record_rate_limit_def read_epoch_def [of "Hint _"])
  with before lane_step_check [OF step.hyps(2)] step.prems show ?case
    by (auto simp: raise_if_backoff_open_def backoff_remaining_def)
qed

theorem rate_limit_backs_off_witness:
  "raise_if_backoff_open (record_rate_limit True True 7 NoHint) 107 \<noteq> None
     \<and> \<not> past_check (ln_caller (open_lane 107 NoHint (record_rate_limit True True 7 NoHint)) 0)"
proof -
  let ?s = "open_lane 7 NoHint NoHint" and ?h = "record_rate_limit True True 7 NoHint"
  have "lane_step\<^sup>*\<^sup>* (?s\<lparr>ln_backoff := ?h\<rparr>) (open_lane 107 NoHint ?h)"
    using lane_step.tick [of 100 "?s\<lparr>ln_backoff := ?h\<rparr>"] by (simp add: open_lane_def r_into_rtranclp)
  from rate_limit_backs_off [of ?s, of "open_lane 107 NoHint ?h" 0] this show ?thesis
    by (simp add: open_lane_def BACKOFF_def past_check_def)
qed

end
