(* ===== verification/Json_Parse.thy ===== *)
theory Json_Parse
  imports Json_Hash
begin

text \<open>
  Reading JSON text (\<open>json.loads\<close>): white space, literals, integers, strings with their
  escapes, arrays and objects, where the last of two equal keys wins. The value is \<open>None\<close>
  where the decoder raises, and for what the value model lacks: fractions, exponents and
  characters beyond one byte. The calls that read a part of the text are guarded by the
  length of that part, so the functions are total; \<open>json_reads_less\<close> shows that the guard
  always holds. What \<open>json.dumps\<close> prints is read back with the keys in order
  (\<open>json_loads_dumps\<close>).
\<close>

section \<open>Tokens\<close>

definition json_space :: "char \<Rightarrow> bool" where
  "json_space c = ((of_char c :: nat) \<in> {9, 10, 13, 32})"

definition skip_ws :: "string \<Rightarrow> string" where
  "skip_ws s = dropWhile json_space s"

definition hex_val :: "char \<Rightarrow> nat option" where
  "hex_val c =
     (let n = (of_char c :: nat) in
      if 48 \<le> n \<and> n \<le> 57 then Some (n - 48)
      else if 97 \<le> n \<and> n \<le> 102 then Some (n - 87)
      else if 65 \<le> n \<and> n \<le> 70 then Some (n - 55) else None)"

definition hex_four :: "char \<Rightarrow> char \<Rightarrow> char \<Rightarrow> char \<Rightarrow> char option" where
  "hex_four a b c d =
     (case (hex_val a, hex_val b, hex_val c, hex_val d) of
        (Some w, Some x, Some y, Some z) \<Rightarrow>
          if w = 0 \<and> x = 0 then Some (char_of (16 * y + z)) else None
      | _ \<Rightarrow> None)"

text \<open>The one-character escapes.\<close>

definition json_unescape :: "char \<Rightarrow> char option" where
  "json_unescape e =
     (let n = (of_char e :: nat) in
      if n \<in> {34, 47, 92} then Some e
      else if n = 98 then Some (char_of (8::nat)) else if n = 102 then Some (char_of (12::nat))
      else if n = 110 then Some (char_of (10::nat)) else if n = 114 then Some (char_of (13::nat))
      else if n = 116 then Some (char_of (9::nat)) else None)"

definition cons_char :: "char \<Rightarrow> (string \<times> string) option \<Rightarrow> (string \<times> string) option" where
  "cons_char c r = (case r of None \<Rightarrow> None | Some (s, t) \<Rightarrow> Some (c # s, t))"

text \<open>The characters of a string up to its closing quote, and the text after it.\<close>

fun json_chars :: "string \<Rightarrow> (string \<times> string) option" where
  "json_chars [] = None"
| "json_chars (c # cs) =
     (let n = (of_char c :: nat) in
      if n = 34 then Some ([], cs)
      else if n = 92 then
        (case cs of
           [] \<Rightarrow> None
         | e # r \<Rightarrow>
             if e = CHR ''u'' then
               (case r of
                  h1 # h2 # h3 # h4 # r' \<Rightarrow>
                    (case hex_four h1 h2 h3 h4 of None \<Rightarrow> None | Some x \<Rightarrow> cons_char x (json_chars r'))
                | _ \<Rightarrow> None)
             else (case json_unescape e of None \<Rightarrow> None | Some x \<Rightarrow> cons_char x (json_chars r)))
      else if n < 32 then None
      else cons_char c (json_chars cs))"

definition json_digit :: "char \<Rightarrow> bool" where
  "json_digit c = (digit_val c \<noteq> None)"

fun digits_value :: "nat \<Rightarrow> string \<Rightarrow> nat" where
  "digits_value acc [] = acc"
| "digits_value acc (c # cs) = digits_value (10 * acc + (case digit_val c of None \<Rightarrow> 0 | Some d \<Rightarrow> d)) cs"

text \<open>An integer: a leading zero stands alone.\<close>

definition json_digits :: "string \<Rightarrow> string" where
  "json_digits t = (if take 1 t = ''0'' then ''0'' else takeWhile json_digit t)"

definition json_number :: "string \<Rightarrow> (int \<times> string) option" where
  "json_number s =
     (let negative = (take 1 s = ''-''); t = (if negative then drop 1 s else s);
          ds = json_digits t;
          n = int (digits_value 0 ds)
      in if ds = [] then None else Some (if negative then - n else n, drop (length ds) t))"

section \<open>Values\<close>

definition last_wins :: "pydict \<Rightarrow> pydict" where
  "last_wins d = foldl (\<lambda>acc (k, v). dset k v acc) [] d"

definition double_quote :: char where
  "double_quote = CHR 0x22"

lemma skip_ws_length: "length (skip_ws s) \<le> length s"
  by (simp add: skip_ws_def length_dropWhile_le)

lemma cons_char_Some: "cons_char c r = Some (s, t) \<longleftrightarrow> (\<exists>s'. r = Some (s', t) \<and> s = c # s')"
  by (auto simp: cons_char_def split: option.splits)

lemma json_chars_less: "json_chars s = Some (t, r) \<Longrightarrow> length r < length s"
proof (induction "length s" arbitrary: s t rule: less_induct)
  case less
  show ?case
  proof (cases s)
    case (Cons c cs)
    have "length r < length u" if "json_chars u = Some (v, r)" "length u < length s" for u v
      using less.hyps that by blast
    from this less.prems Cons show ?thesis
      by (auto simp: Let_def cons_char_Some split: if_splits list.splits option.splits) (fastforce+)
  qed (use less.prems in simp)
qed

text \<open>One value; the elements of an array after its bracket; the members of an object after its brace.\<close>

function json_value :: "string \<Rightarrow> (pyval \<times> string) option"
  and json_elements :: "string \<Rightarrow> (pyval list \<times> string) option"
  and json_members :: "string \<Rightarrow> (pydict \<times> string) option" where
  "json_value s =
     (case s of
        [] \<Rightarrow> None
      | c # cs \<Rightarrow>
          if c = double_quote then map_option (\<lambda>(t, r). (PStr t, r)) (json_chars cs)
          else if c = CHR ''['' then
            (if take 1 (skip_ws cs) = '']'' then Some (PList [], drop 1 (skip_ws cs))
             else map_option (\<lambda>(vs, r). (PList vs, r)) (json_elements (skip_ws cs)))
          else if c = CHR ''{'' then
            (if take 1 (skip_ws cs) = ''}'' then Some (PDict [], drop 1 (skip_ws cs))
             else map_option (\<lambda>(d, r). (PDict (last_wins d), r)) (json_members (skip_ws cs)))
          else if startswith s ''null'' then Some (PNone, drop 4 s)
          else if startswith s ''true'' then Some (PBool True, drop 4 s)
          else if startswith s ''false'' then Some (PBool False, drop 5 s)
          else map_option (\<lambda>(i, r). (PInt i, r)) (json_number s))"
| "json_elements s =
     (case json_value s of
        None \<Rightarrow> None
      | Some (v, r) \<Rightarrow>
          (case skip_ws r of
             [] \<Rightarrow> None
           | c # t \<Rightarrow>
               if c = CHR '']'' then Some ([v], t)
               else if c = CHR '','' \<and> length t < length s
               then map_option (\<lambda>(vs, r'). (v # vs, r')) (json_elements (skip_ws t))
               else None))"
| "json_members s =
     (if take 1 s \<noteq> [double_quote] then None
      else case json_chars (drop 1 s) of
        None \<Rightarrow> None
      | Some (k, r) \<Rightarrow>
          (if take 1 (skip_ws r) \<noteq> '':'' then None
           else case json_value (skip_ws (drop 1 (skip_ws r))) of
             None \<Rightarrow> None
           | Some (v, r2) \<Rightarrow>
               (case skip_ws r2 of
                  [] \<Rightarrow> None
                | c # t \<Rightarrow>
                    if c = CHR ''}'' then Some ([(k, v)], t)
                    else if c = CHR '','' \<and> length t < length s
                    then map_option (\<lambda>(d, r'). ((k, v) # d, r')) (json_members (skip_ws t))
                    else None)))"
  by pat_completeness auto
termination
proof (relation "measure (\<lambda>x. case x of Inl s \<Rightarrow> 2 * length s | Inr (Inl s) \<Rightarrow> Suc (2 * length s)
    | Inr (Inr s) \<Rightarrow> Suc (2 * length s))", goal_cases)
  case 1
  then show ?case by simp
next
  case (2 s c cs)
  then show ?case using skip_ws_length [of cs] by simp
next
  case (3 s c cs)
  then show ?case using skip_ws_length [of cs] by simp
next
  case 4
  then show ?case by simp
next
  case (5 s vr v r c t)
  then show ?case using skip_ws_length [of t] by simp
next
  case (6 s kr k r)
  then have "length r < length (drop 1 s)" by (auto dest: json_chars_less)
  then show ?case using skip_ws_length [of r] skip_ws_length [of "drop 1 (skip_ws r)"] by simp
next
  case (7 s kr k r vr v r2 c t)
  then show ?case using skip_ws_length [of t] by simp
qed

declare json_value.simps [simp del] json_elements.simps [simp del] json_members.simps [simp del]

text \<open>A whole text: one value between white space.\<close>

definition json_loads :: "string \<Rightarrow> pyval option" where
  "json_loads s =
     (case json_value (skip_ws s) of
        None \<Rightarrow> None | Some (v, r) \<Rightarrow> if skip_ws r = [] then Some v else None)"

section \<open>Reading consumes text\<close>

lemma json_number_less:
  assumes "json_number s = Some (i, r)"
  shows "length r < length s"
proof -
  define t where "t = (if take 1 s = ''-'' then drop 1 s else s)"
  define ds where "ds = json_digits t"
  have "ds \<noteq> []" "r = drop (length ds) t"
    using assms by (auto simp: json_number_def Let_def t_def ds_def split: if_splits)
  moreover have "t \<noteq> []" using \<open>ds \<noteq> []\<close> by (auto simp: ds_def json_digits_def split: if_splits)
  moreover have "length t \<le> length s" by (simp add: t_def)
  ultimately show ?thesis by (cases t; cases ds) auto
qed

lemma skip_ws_less: "skip_ws r = c # t \<Longrightarrow> length t < length r"
  using skip_ws_length [of r] by simp

lemma json_reads_less:
  "\<forall>v r. json_value s = Some (v, r) \<longrightarrow> length r < length s"
  and "\<forall>vs r. json_elements s' = Some (vs, r) \<longrightarrow> length r < length s'"
  and "\<forall>d r. json_members s'' = Some (d, r) \<longrightarrow> length r < length s''"
proof (induction s and s' and s'' rule: json_value_json_elements_json_members.induct)
  case (1 s)
  show ?case
  proof (intro allI impI)
    fix v r
    assume reads: "json_value s = Some (v, r)"
    then obtain c cs where s: "s = c # cs" by (cases s) (simp_all add: json_value.simps)
    note shorter = skip_ws_length [of cs]
    note IH = "1.IH" [OF s]
    from reads s shorter IH show "length r < length s"
      by (simp add: json_value.simps [of "c # cs"] split: if_splits)
         (auto dest!: json_chars_less json_number_less)
  qed
next
  case (2 s)
  show ?case
  proof (intro allI impI)
    fix vs r
    assume reads: "json_elements s = Some (vs, r)"
    obtain v r1 where first: "json_value s = Some (v, r1)"
      using reads by (subst (asm) json_elements.simps) (auto split: option.splits)
    obtain c t where sep: "skip_ws r1 = c # t"
      using reads first by (subst (asm) json_elements.simps) (auto split: list.splits)
    have "length t < length s" using 2(1) first skip_ws_less [OF sep] by fastforce
    moreover have "r = t \<or> (\<exists>vs'. json_elements (skip_ws t) = Some (vs', r) \<and> c = CHR '','')"
      using reads first sep by (subst (asm) json_elements.simps) (auto split: if_splits)
    ultimately show "length r < length s"
      using 2(2) [OF first _ sep] skip_ws_length [of t] by fastforce
  qed
next
  case (3 s)
  show ?case
  proof (intro allI impI)
    fix d r
    assume reads: "json_members s = Some (d, r)"
    obtain k r1 where key: "json_chars (drop 1 s) = Some (k, r1)" and q: "take 1 s = [double_quote]"
      using reads by (subst (asm) json_members.simps) (auto split: option.splits if_splits)
    obtain v r2 where first: "json_value (skip_ws (drop 1 (skip_ws r1))) = Some (v, r2)"
        and colon: "take 1 (skip_ws r1) = '':''"
      using reads key q by (subst (asm) json_members.simps) (auto split: option.splits if_splits)
    obtain c t where sep: "skip_ws r2 = c # t"
      using reads key q first colon by (subst (asm) json_members.simps) (auto split: list.splits)
    have "length r2 < length (skip_ws (drop 1 (skip_ws r1)))" using 3(1) key q first colon by fastforce
    then have "length t < length s"
      using skip_ws_less [OF sep] json_chars_less [OF key] skip_ws_length [of r1] skip_ws_length [of "drop 1 (skip_ws r1)"]
      by simp
    moreover have "r = t \<or> (\<exists>d'. json_members (skip_ws t) = Some (d', r) \<and> c = CHR '','')"
      using reads key q first colon sep by (subst (asm) json_members.simps) (auto split: if_splits)
    ultimately show "length r < length s"
      using 3(2) [OF _ key _ _ first _ sep] q colon skip_ws_length [of t] by fastforce
  qed
qed

section \<open>Reading what was printed\<close>

lemma char_cases_of:
  fixes c :: char
  assumes "(of_char c :: nat) = n"
  shows "c = char_of n"
  using assms by (metis char_of_char)

lemma hex_val_digit: "n < 16 \<Longrightarrow> hex_val (hex_digit n) = Some n"
  by (auto simp: hex_val_def hex_digit_def Let_def of_char_of)

lemma hex_four_byte:
  "hex_four CHR ''0'' CHR ''0'' (hex_digit ((of_char c :: nat) div 16)) (hex_digit (of_char c mod 16)) = Some c"
proof -
  have "hex_val CHR ''0'' = Some 0" by (simp add: hex_val_def)
  moreover have "(of_char c :: nat) div 16 < 16" using nat_of_char_less_256 [of c] by (simp add: div_less_iff_less_mult)
  moreover have "(of_char c :: nat) mod 16 < 16" by simp
  ultimately show ?thesis by (simp add: hex_four_def hex_val_digit)
qed

lemma json_chars_char: "json_chars (json_char True c @ t) = cons_char c (json_chars t)"
proof -
  let ?n = "of_char c :: nat"
  consider (esc) "?n = 34 \<or> ?n = 92" | (named) "?n \<in> {8, 9, 10, 12, 13}"
    | (byte) "?n \<notin> {8, 9, 10, 12, 13, 34, 92}" "?n < 32 \<or> 126 < ?n"
    | (plain) "?n \<notin> {34, 92}" "32 \<le> ?n" "?n \<le> 126" by fastforce
  then show ?thesis
  proof cases
    case esc
    then show ?thesis by (auto simp: json_char_def json_unescape_def Let_def)
  next
    case named
    then show ?thesis by (auto simp: json_char_def json_unescape_def Let_def dest: char_cases_of)
  next
    case byte
    then show ?thesis using hex_four_byte [of c] by (auto simp: json_char_def Let_def)
  next
    case plain
    then show ?thesis by (auto simp: json_char_def Let_def)
  qed
qed

lemma quote_char [simp]: "char_of (34::nat) = double_quote"
  by (simp add: double_quote_def char_of_def bit_0)

lemma of_quote [simp]: "(of_char double_quote :: nat) = 34"
  by (simp add: double_quote_def)

lemma json_chars_string: "json_chars (concat (map (json_char True) s) @ double_quote # t) = Some (s, t)"
proof (induction s)
  case Nil
  then show ?case by (simp add: double_quote_def)
next
  case (Cons c s)
  then show ?case by (simp add: json_chars_char cons_char_def)
qed

text \<open>What may follow a number.\<close>

definition after_value :: "string \<Rightarrow> bool" where
  "after_value s = (case s of [] \<Rightarrow> True | c # cs \<Rightarrow> \<not> json_digit c)"

lemma digits_value_parse:
  "parse_digits acc p ds = Some n \<Longrightarrow> \<forall>c \<in> set ds. json_digit c \<Longrightarrow> digits_value acc ds = n"
  by (induction ds arbitrary: acc p) (auto simp: json_digit_def split: if_splits)

lemma nat_dec_all_digits: "\<forall>c \<in> set (nat_dec n). json_digit c"
  using nat_dec_digit_val by (auto simp: json_digit_def)

lemma nat_dec_zero_head: "take 1 (nat_dec n) = ''0'' \<Longrightarrow> n = 0"
proof (induction n rule: nat_dec.induct)
  case (1 n)
  show ?case
  proof (cases "n < 10")
    case True
    then have "digit_char n = CHR ''0''" using "1.prems" by (simp add: nat_dec_small)
    then show ?thesis using True digit_val_char [of n] by (simp add: digit_val_def)
  next
    case False
    then have "take 1 (nat_dec (n div 10)) = ''0''"
      using "1.prems" by (cases "nat_dec (n div 10)") (simp_all add: nat_dec_large [OF False])
    then have "n div 10 = 0" using "1.IH" False by blast
    with False show ?thesis by simp
  qed
qed

lemma takeWhile_digits: "after_value t \<Longrightarrow> takeWhile json_digit (nat_dec n @ t) = nat_dec n"
  using nat_dec_all_digits [of n] by (cases t) (simp_all add: takeWhile_append after_value_def)

lemma json_digits_dec:
  assumes "after_value t"
  shows "json_digits (nat_dec n @ t) = nat_dec n"
proof (cases "take 1 (nat_dec n @ t) = ''0''")
  case True
  then have "take 1 (nat_dec n) = ''0''" by (cases "nat_dec n") simp_all
  then have "n = 0" by (rule nat_dec_zero_head)
  moreover have "nat_dec 0 = ''0''" by code_simp
  ultimately show ?thesis by (simp add: json_digits_def)
next
  case False
  then show ?thesis using takeWhile_digits [OF assms] by (simp add: json_digits_def)
qed

lemma digits_value_dec: "digits_value 0 (nat_dec n) = n"
  by (rule digits_value_parse [OF parse_nat_dec nat_dec_all_digits])

lemma nat_dec_head: "\<exists>d ds. nat_dec n = d # ds \<and> json_digit d"
  using nat_dec_all_digits [of n] by (cases "nat_dec n") auto

lemma json_number_dec:
  assumes "after_value t"
  shows "json_number (int_dec i @ t) = Some (i, t)"
proof (cases "i < 0")
  case True
  then show ?thesis
    by (simp add: json_number_def int_dec_def Let_def digits_value_dec json_digits_dec [OF assms])
next
  case False
  have "take 1 (nat_dec (nat i) @ t) \<noteq> ''-''"
    using nat_dec_head [of "nat i"] by (auto simp: json_digit_def digit_val_def)
  with False show ?thesis
    by (simp add: json_number_def int_dec_def Let_def digits_value_dec json_digits_dec [OF assms])
qed

text \<open>Values a JSON text can be printed from: the keys of an object are distinct. Reading sorts them.\<close>

fun json_ok :: "pyval \<Rightarrow> bool" where
  "json_ok (PList xs) = list_all json_ok xs"
| "json_ok (PDict d) = (distinct (map fst d) \<and> list_all (\<lambda>(k, v). json_ok v) d)"
| "json_ok v = True"

fun json_sorted :: "pyval \<Rightarrow> pyval" where
  "json_sorted (PList xs) = PList (map json_sorted xs)"
| "json_sorted (PDict d) = PDict (sort_key fst (map (\<lambda>(k, v). (k, json_sorted v)) d))"
| "json_sorted v = v"

lemma sort_key_map: "(\<And>x. f (g x) = f' x) \<Longrightarrow> sort_key f (map g xs) = map g (sort_key f' xs)"
proof (induction xs)
  case (Cons x xs)
  have "insort_key f (g y) (map g ys) = map g (insort_key f' y ys)" for y ys
    by (induction ys) (simp_all add: Cons.prems)
  with Cons show ?case by simp
qed simp

definition json_member :: "string \<times> pyval \<Rightarrow> string" where
  "json_member kv = json_string True (fst kv) @ '':'' @ json_text True (snd kv)"

lemma json_text_dict:
  "json_text True (PDict d) = ''{'' @ py_join '','' (map json_member (sort_key fst d)) @ ''}''"
proof -
  have "sort_key fst (map (\<lambda>(k, v). (k, json_text True v)) d) = map (\<lambda>(k, v). (k, json_text True v)) (sort_key fst d)"
    by (rule sort_key_map) auto
  then show ?thesis
    by (auto simp: json_member_def case_prod_beta intro!: arg_cong [of _ _ "py_join '',''"])
qed

lemma json_sorted_dict:
  "json_sorted (PDict d) = PDict (map (\<lambda>(k, v). (k, json_sorted v)) (sort_key fst d))"
  by (simp, rule sort_key_map) auto

lemma last_wins_distinct: "distinct (map fst d) \<Longrightarrow> last_wins d = d"
proof -
  have "distinct (map fst (acc @ d)) \<Longrightarrow> foldl (\<lambda>acc (k, v). dset k v acc) acc d = acc @ d" for acc
  proof (induction d arbitrary: acc)
    case (Cons kv d)
    have "k \<notin> fst ` set ac \<Longrightarrow> dset k v ac = ac @ [(k, v)]" for k v and ac :: pydict
      by (induction ac) (auto simp: dset_def)
    with Cons show ?case by (cases kv) auto
  qed simp
  from this [of "[]"] show "distinct (map fst d) \<Longrightarrow> last_wins d = d" by (simp add: last_wins_def)
qed

lemma skip_ws_Cons: "\<not> json_space c \<Longrightarrow> skip_ws (c # s) = c # s"
  by (simp add: skip_ws_def)

lemma punctuation [simp]:
  "\<not> json_space double_quote" "\<not> json_space CHR '',''" "\<not> json_space CHR '':''" "\<not> json_space CHR '']''"
  "\<not> json_space CHR ''[''" "\<not> json_space CHR ''{''" "\<not> json_space CHR ''}''"
  "double_quote \<noteq> CHR ''[''" "double_quote \<noteq> CHR ''{''" "double_quote \<noteq> CHR '']''" "double_quote \<noteq> CHR ''}''"
  "CHR ''['' \<noteq> double_quote" "CHR ''{'' \<noteq> double_quote"
  "CHR ''n'' \<noteq> double_quote" "CHR ''t'' \<noteq> double_quote" "CHR ''f'' \<noteq> double_quote"
  by (simp_all add: json_space_def double_quote_def)

lemma int_dec_head: "\<exists>c cs. int_dec i = c # cs \<and> (json_digit c \<or> c = CHR ''-'')"
  using nat_dec_head [of "nat i"] by (auto simp: int_dec_def)

lemma digit_not_punctuation:
  "json_digit c \<or> c = CHR ''-'' \<Longrightarrow> \<not> json_space c \<and> c \<noteq> double_quote \<and> c \<notin> set '']}[{ntf''"
  by (auto simp: json_digit_def digit_val_def json_space_def double_quote_def Let_def split: if_splits)

lemma json_text_head:
  "\<exists>c cs. json_text True v = c # cs \<and> \<not> json_space c \<and> c \<noteq> CHR '']'' \<and> c \<noteq> CHR ''}''"
proof (cases v)
  case (PInt i)
  obtain c cs where "int_dec i = c # cs" "json_digit c \<or> c = CHR ''-''" using int_dec_head by blast
  then show ?thesis using PInt digit_not_punctuation [of c] by auto
qed (auto simp: json_string_def json_space_def)

lemma skip_json_text [simp]: "skip_ws (json_text True v @ t) = json_text True v @ t"
  using json_text_head [of v] by (auto simp: skip_ws_Cons)

abbreviation reads_back :: "pyval \<Rightarrow> bool" where
  "reads_back v \<equiv> \<forall>t. after_value t \<longrightarrow> json_value (json_text True v @ t) = Some (json_sorted v, t)"

lemma after_value_simps [simp]:
  "after_value []" "after_value (CHR '','' # t)" "after_value (CHR '']'' # t)" "after_value (CHR ''}'' # t)"
  by (simp_all add: after_value_def json_digit_def digit_val_def)

lemma json_elements_join:
  assumes "xs \<noteq> []" "\<forall>x \<in> set xs. reads_back x"
  shows "json_elements (py_join '','' (map (json_text True) xs) @ CHR '']'' # t) = Some (map json_sorted xs, t)"
  using assms
proof (induction xs rule: induct_list012)
  case 1
  then show ?case by simp
next
  case (2 x)
  then show ?case by (subst json_elements.simps) (simp add: skip_ws_Cons)
next
  case (3 x y zs)
  then show ?case
    by (subst json_elements.simps) (cases zs; simp add: skip_ws_Cons)
qed

lemma json_members_read:
  assumes "reads_back v"
  shows json_members_last: "json_members (json_member (k, v) @ CHR ''}'' # t) = Some ([(k, json_sorted v)], t)"
    and json_members_more: "json_members (json_member (k, v) @ CHR '','' # t)
          = map_option (\<lambda>(d, r). ((k, json_sorted v) # d, r)) (json_members (skip_ws t))"
  using assms by (subst json_members.simps, simp add: json_member_def json_string_def skip_ws_Cons json_chars_string)+

lemma skip_json_member [simp]: "skip_ws (json_member kv @ t) = json_member kv @ t"
  by (simp add: json_member_def json_string_def skip_ws_Cons)

lemma json_members_join:
  assumes "d \<noteq> []" "\<forall>kv \<in> set d. reads_back (snd kv)"
  shows "json_members (py_join '','' (map json_member d) @ CHR ''}'' # t)
    = Some (map (\<lambda>kv. (fst kv, json_sorted (snd kv))) d, t)"
  using assms
proof (induction d rule: induct_list012)
  case 1
  then show ?case by simp
next
  case (2 kv)
  then show ?case using json_members_last [of "snd kv" "fst kv" t] by simp
next
  case (3 kv lv es)
  have "skip_ws (py_join '','' (map json_member (lv # es)) @ u) = py_join '','' (map json_member (lv # es)) @ u" for u
    by (cases es) simp_all
  with 3 show ?case
    using json_members_more [of "snd kv" "fst kv"] by simp
qed

lemma json_value_list:
  assumes "\<forall>x \<in> set xs. reads_back x"
  shows "reads_back (PList xs)"
proof (cases xs)
  case Nil
  then show ?thesis by (simp add: json_value.simps skip_ws_Cons)
next
  case (Cons y ys)
  obtain c cs where head: "json_text True y = c # cs" "\<not> json_space c" "c \<noteq> CHR '']''" using json_text_head by blast
  have "py_join '','' (map (json_text True) xs) = c # u \<Longrightarrow> ?thesis" for u
    using json_elements_join [of xs] assms Cons head by (simp add: json_value.simps skip_ws_Cons)
  moreover have "\<exists>u. py_join '','' (map (json_text True) xs) = c # u" using Cons head by (cases ys) simp_all
  ultimately show ?thesis by blast
qed

lemma json_value_dict:
  assumes "distinct (map fst d)" "\<forall>kv \<in> set d. reads_back (snd kv)"
  shows "reads_back (PDict d)"
proof (cases "sort_key fst d")
  case Nil
  then have "d = []" by (metis set_empty set_sort)
  then show ?thesis by (simp add: json_value.simps skip_ws_Cons)
next
  case (Cons y ys)
  let ?d = "sort_key fst d"
  have "py_join '','' (map json_member ?d) = double_quote # u \<Longrightarrow>
      json_members (double_quote # u @ CHR ''}'' # t) = Some (map (\<lambda>kv. (fst kv, json_sorted (snd kv))) ?d, t)" for u t
    using json_members_join [of ?d t] assms(2) Cons by (metis Cons_eq_appendI list.discI set_sort)
  moreover obtain u where u: "py_join '','' (map json_member ?d) = double_quote # u"
    using Cons by (cases ys) (simp_all add: json_member_def json_string_def)
  moreover have "distinct (map fst (map (\<lambda>kv. (fst kv, json_sorted (snd kv))) ?d))"
    using assms(1) by (simp add: o_def distinct_map inj_on_def)
  ultimately show ?thesis
    unfolding json_text_dict json_sorted_dict
    by (simp add: json_value.simps [of "CHR ''{'' # s" for s] skip_ws_Cons last_wins_distinct case_prod_beta)
qed

lemma json_value_int: "reads_back (PInt i)"
proof -
  obtain c cs where "int_dec i = c # cs" "json_digit c \<or> c = CHR ''-''" using int_dec_head by blast
  then show ?thesis
    using digit_not_punctuation [of c] json_number_dec [of _ i]
    by (auto simp: json_value.simps startswith_def)
qed

lemma json_value_text: "json_ok v \<Longrightarrow> reads_back v"
proof (induction v rule: json_sorted.induct)
  case (1 xs)
  then show ?case by (intro json_value_list) (auto simp: list_all_iff)
next
  case (2 d)
  then show ?case by (intro json_value_dict) (auto simp: list_all_iff)
qed ((rule json_value_int | (auto simp: json_value.simps startswith_def json_string_def json_chars_string)[1])+)

text \<open>Whatever the value, printing it and reading it back gives the value with its keys in order.\<close>

theorem json_loads_dumps: "json_ok v \<Longrightarrow> json_loads (json_dumps v) = Some (json_sorted v)"
  using json_value_text [of v] skip_json_text [of v "[]"]
  by (auto simp: json_loads_def json_dumps_def dest!: spec [of _ "[]"]) (simp add: skip_ws_def)

end
