(* ===== verification/Findings_Intake.thy ===== *)
theory Findings_Intake
  imports Json_Parse Severity Evidence_Ledger Stack_Context
begin

text \<open>
  The intake of findings (\<open>intake/findings.py\<close>): JSON and NDJSON payloads and fenced
  \<open>finding\<close> blocks, the normal form of a finding, its fingerprint and its item id. The text
  of the errors of the JSON decoder is left out: a text it refuses is \<open>NotJson\<close>, a line of
  an NDJSON payload \<open>BadNdjson\<close> with its number.
\<close>

datatype intake_error =
    FindingsFormatError string
  | NotJson
  | BadNdjson nat
  | IntakeRaised py_exn

section \<open>Text\<close>

text \<open>\<open>str.splitlines\<close>: a trailing line break opens no further line.\<close>

definition line_break :: "char \<Rightarrow> bool" where
  "line_break c = ((of_char c :: nat) \<in> {10, 11, 12, 13, 28, 29, 30})"

abbreviation newline :: char where
  "newline \<equiv> CHR 0x0A"

definition after_break :: "char \<Rightarrow> string \<Rightarrow> string" where
  "after_break c s = (if c = CHR 0x0D \<and> take 1 s = [newline] then drop 1 s else s)"

lemma after_break_length: "length (after_break c s) \<le> length s"
  by (simp add: after_break_def)

function splitlines :: "string \<Rightarrow> string list" where
  "splitlines [] = []"
| "splitlines (c # cs) =
     (if line_break c then [] # splitlines (after_break c cs)
      else (case splitlines cs of [] \<Rightarrow> [[c]] | l # ls \<Rightarrow> (c # l) # ls))"
  by pat_completeness auto
termination by (relation "measure length") (auto simp: less_Suc_eq_le after_break_length)

definition py_rstrip :: "string \<Rightarrow> string" where
  "py_rstrip s = rev (dropWhile is_space (rev s))"

text \<open>\<open>re.sub(r"\s+", " ", text)\<close>.\<close>

function squeeze :: "string \<Rightarrow> string" where
  "squeeze [] = []"
| "squeeze (c # cs) = (if is_space c then CHR '' '' # squeeze (dropWhile is_space cs) else c # squeeze cs)"
  by pat_completeness auto
termination by (relation "measure length") (auto simp: less_Suc_eq_le length_dropWhile_le)

definition normalize_text :: "string \<Rightarrow> string" where
  "normalize_text value = py_lower (squeeze (py_strip value))"

text \<open>
  \<open>textwrap.dedent\<close>: the longest blank prefix common to the lines that hold text is removed;
  a blank line becomes empty.
\<close>

definition indent_char :: "char \<Rightarrow> bool" where
  "indent_char c \<longleftrightarrow> c = CHR '' '' \<or> c = CHR 0x09"

fun common_prefix :: "string \<Rightarrow> string \<Rightarrow> string" where
  "common_prefix (x # xs) (y # ys) = (if x = y then x # common_prefix xs ys else [])"
| "common_prefix xs ys = []"

fun margin_of :: "string list \<Rightarrow> string" where
  "margin_of [] = []"
| "margin_of [l] = takeWhile indent_char l"
| "margin_of (l # m # ls) = common_prefix (takeWhile indent_char l) (margin_of (m # ls))"

definition blank_line :: "string \<Rightarrow> bool" where
  "blank_line l = list_all indent_char l"

definition dedent_lines :: "string list \<Rightarrow> string list" where
  "dedent_lines ls =
     (let margin = margin_of (filter (\<lambda>l. \<not> blank_line l) ls)
      in map (\<lambda>l. if blank_line l then [] else drop (length margin) l) ls)"

definition dedent :: "string \<Rightarrow> string" where
  "dedent text = py_join [newline] (dedent_lines (split_char newline text))"

section \<open>JSON and NDJSON payloads\<close>

definition canonical_findings_payload :: "pydict list \<Rightarrow> string" where
  "canonical_findings_payload findings = json_dumps (PList (map PDict findings))"

text \<open>The lines are numbered from 1, blank ones left out.\<close>

fun ndjson_records :: "nat \<Rightarrow> string list \<Rightarrow> intake_error + pyval list" where
  "ndjson_records n [] = Inr []"
| "ndjson_records n (l # ls) =
     (case json_loads l of
        None \<Rightarrow> Inl (BadNdjson n)
      | Some v \<Rightarrow> (case ndjson_records (Suc n) ls of Inl e \<Rightarrow> Inl e | Inr vs \<Rightarrow> Inr (v # vs)))"

definition parse_ndjson :: "string \<Rightarrow> bool \<Rightarrow> intake_error + pyval list" where
  "parse_ndjson payload had_error =
     (let lines = filter (\<lambda>l. py_strip l \<noteq> []) (splitlines payload)
      in if lines = [] \<and> had_error then Inl NotJson else ndjson_records 1 lines)"

definition enclosed_records :: "pydict \<Rightarrow> pyval list" where
  "enclosed_records data =
     (case List.map_filter (\<lambda>k. case dget data k of PList xs \<Rightarrow> Some xs | _ \<Rightarrow> None) [''findings'', ''issues'', ''results''] of
        [] \<Rightarrow> [PDict data] | xs # _ \<Rightarrow> xs)"

definition parse_records :: "string \<Rightarrow> intake_error + pyval list" where
  "parse_records raw =
     (let payload = py_strip raw
      in if payload = [] then Inr []
         else if startswith payload ''['' then
           (case json_loads payload of
              None \<Rightarrow> parse_ndjson payload True
            | Some (PList xs) \<Rightarrow> Inr xs
            | Some v \<Rightarrow> Inl (FindingsFormatError ''Expected a JSON array.''))
         else if startswith payload ''{'' then
           (case json_loads payload of
              None \<Rightarrow> parse_ndjson payload True
            | Some (PDict d) \<Rightarrow> Inr (enclosed_records d)
            | Some v \<Rightarrow> Inl (FindingsFormatError ''Expected a JSON object.''))
         else parse_ndjson payload False)"

section \<open>The normal form of a finding\<close>

definition first_truthy :: "pydict \<Rightarrow> string list \<Rightarrow> pyval \<Rightarrow> pyval" where
  "first_truthy record keys v = foldr (\<lambda>k w. py_or (dget record k) w) keys v"

definition given_value :: "pyval \<Rightarrow> bool" where
  "given_value v \<longleftrightarrow> v \<notin> {PNone, PStr []}"

definition kept_fields :: "string list \<Rightarrow> pydict \<Rightarrow> pydict" where
  "kept_fields ks record =
     List.map_filter (\<lambda>k. if has_key record k \<and> given_value (dget record k) then Some (k, dget record k) else None) ks"

definition normalize_finding :: "pyval \<Rightarrow> intake_error + pydict" where
  "normalize_finding value =
     (case value of
        PDict record \<Rightarrow>
          (let path = first_truthy record [''path'', ''file''] (dget record ''filename'');
               line = first_truthy record [''line'', ''start_line''] (dget record ''position'');
               title = first_truthy record [''title'', ''rule'', ''check''] (PStr ''Imported review finding'');
               body = first_truthy record [''body'', ''message'', ''description''] title
           in if \<not> truthy path then Inl (FindingsFormatError ''Each finding must include path/file/filename.'')
              else if \<not> given_value line then Inl (FindingsFormatError ''Each finding must include line/start_line/position.'')
              else (case py_int line of
                 Inl e \<Rightarrow> Inl (FindingsFormatError (''Invalid line value: '' @ py_str line))
               | Inr n \<Rightarrow>
                   Inr ([(''title'', PStr (py_str title)), (''path'', PStr (py_str path)), (''line'', PInt n),
                         (''body'', PStr (py_str body))]
                        @ kept_fields [''start_line'', ''end_line'', ''severity'', ''category'', ''confidence'', ''head_sha'']
                            record)))
      | _ \<Rightarrow> Inl (FindingsFormatError ''Each finding must be a JSON object.''))"

section \<open>Identity\<close>

definition fingerprint_text :: "pydict \<Rightarrow> string" where
  "fingerprint_text finding =
     py_join ''|''
       [py_str (dget_default finding ''path'' (PStr [])),
        py_str (py_or (py_or (dget finding ''start_line'') (dget finding ''line'')) (PStr [])),
        py_str (py_or (dget finding ''end_line'') (PStr [])),
        normalize_text (py_str (dget_default finding ''category'' (PStr []))),
        normalize_text (py_str (dget_default finding ''title'' (PStr []))),
        normalize_text (py_str (dget_default finding ''body'' (PStr [])))]"

definition fingerprint_finding :: "pydict \<Rightarrow> string" where
  "fingerprint_finding finding = take 16 (sha256_hex (fingerprint_text finding))"

definition local_finding_item_id :: "string \<Rightarrow> pydict \<Rightarrow> string" where
  "local_finding_item_id source finding =
     ''local-finding:''
     @ take 16 (sha256_hex (json_dumps (PDict [(''source'', PStr source), (''fingerprint'', PStr (fingerprint_finding finding))])))"

definition with_local_item_fields :: "string \<Rightarrow> pydict \<Rightarrow> pydict" where
  "with_local_item_fields source finding =
     dset ''source'' (PStr source) (dset ''item_kind'' (PStr ''local_finding'')
       (dset ''item_id'' (PStr (local_finding_item_id source finding)) finding))"

section \<open>Finding blocks\<close>

definition is_backtick :: "char \<Rightarrow> bool" where
  "is_backtick c \<longleftrightarrow> (of_char c :: nat) = 96"

definition FINDING_FENCE :: regex where
  "FINDING_FENCE =
     re_seq [RClass is_backtick, RClass is_backtick, RClass is_backtick, RAlt (re_word ''finding'') (re_word ''review-finding''),
             RStar is_space, REnd]"

definition CLOSING_FENCE :: regex where
  "CLOSING_FENCE = re_seq [RClass is_backtick, RClass is_backtick, RClass is_backtick, RStar is_space, REnd]"

text \<open>\<open>pattern.match\<close>.\<close>

definition re_match :: "regex \<Rightarrow> string \<Rightarrow> bool" where
  "re_match r s = (re_matches r ([], s, None) \<noteq> [])"

definition unterminated :: intake_error where
  "unterminated = FindingsFormatError (''Unterminated finding block. Close it with '' @ replicate 3 CHR 0x60 @ ''.'')"

text \<open>The scan of the lines; the first argument is the open block, when there is one.\<close>

fun scan_blocks :: "string list option \<Rightarrow> string list \<Rightarrow> intake_error + string list" where
  "scan_blocks None [] = Inr []"
| "scan_blocks (Some block) [] = Inl unterminated"
| "scan_blocks None (l # ls) = scan_blocks (if re_match FINDING_FENCE l then Some [] else None) ls"
| "scan_blocks (Some block) (l # ls) =
     (if re_match CLOSING_FENCE l
      then (case scan_blocks None ls of Inl e \<Rightarrow> Inl e | Inr blocks \<Rightarrow> Inr (py_join [newline] block # blocks))
      else scan_blocks (Some (block @ [l])) ls)"

definition extract_finding_blocks :: "string \<Rightarrow> intake_error + string list" where
  "extract_finding_blocks raw = scan_blocks None (splitlines raw)"

definition FIELD_ALIASES :: "(string \<times> string) list" where
  "FIELD_ALIASES =
     [(''file'', ''path''), (''filename'', ''path''), (''start_line'', ''line''), (''position'', ''line''), (''rule'', ''title''),
      (''check'', ''title''), (''message'', ''body''), (''description'', ''body'')]"

definition ALLOWED_FIELDS :: "string list" where
  "ALLOWED_FIELDS = [''title'', ''path'', ''line'', ''body'', ''severity'', ''category'', ''confidence'', ''head_sha'']"

definition field_name :: "string \<Rightarrow> string" where
  "field_name key =
     (let k = py_lower (py_strip key) in case map_of FIELD_ALIASES k of None \<Rightarrow> k | Some f \<Rightarrow> f)"

type_synonym block_fields = "(string \<times> string) list"

text \<open>Everything after a \<open>body\<close> field belongs to the body.\<close>

fun block_lines :: "block_fields \<Rightarrow> string list \<Rightarrow> intake_error + (block_fields \<times> string list)" where
  "block_lines fs [] = Inr (fs, [])"
| "block_lines fs (raw # ls) =
     (let line = py_rstrip raw; (key0, separated, value0) = py_partition CHR '':'' line;
          key = field_name key0; value = py_lstrip value0
      in if py_strip line = [] then block_lines fs ls
         else if \<not> separated then Inl (FindingsFormatError (''Invalid finding line: '' @ str_repr line))
         else if key \<notin> set ALLOWED_FIELDS then Inl (FindingsFormatError (''Unsupported finding field: '' @ key))
         else if key = ''body''
         then Inr (fs, (if value \<in> {[], ''|'', ''>''} then [] else [value]) @ map py_rstrip ls)
         else block_lines (AList.update key value fs) ls)"

definition parse_block_lines :: "string \<Rightarrow> intake_error + (block_fields \<times> string list)" where
  "parse_block_lines block = block_lines [] (splitlines block)"

definition field_text :: "block_fields \<Rightarrow> string \<Rightarrow> string" where
  "field_text fs k = (case map_of fs k of None \<Rightarrow> [] | Some v \<Rightarrow> v)"

definition missing_field :: "block_fields \<Rightarrow> string option" where
  "missing_field fs = find (\<lambda>k. py_strip (field_text fs k) = []) [''title'', ''path'', ''line'']"

definition optional_fields :: "block_fields \<Rightarrow> pydict" where
  "optional_fields fs =
     List.map_filter (\<lambda>k. if field_text fs k = [] then None else Some (k, PStr (field_text fs k)))
       [''severity'', ''category'', ''confidence'', ''head_sha'']"

definition parse_finding_block :: "string \<Rightarrow> intake_error + pydict" where
  "parse_finding_block block =
     sum_bind (parse_block_lines block) (\<lambda>(fs, body_lines).
       case missing_field fs of
         Some k \<Rightarrow> Inl (FindingsFormatError (''Each finding block must include a '' @ k @ ''.''))
       | None \<Rightarrow>
           if body_lines = [] then Inl (FindingsFormatError ''Each finding block must include a body.'')
           else let body = py_strip (dedent (py_join [newline] body_lines))
                in if body = [] then Inl (FindingsFormatError ''Each finding block must include a non-empty body.'')
                   else (case int_of_str (field_text fs ''line'') of
                      None \<Rightarrow> Inl (FindingsFormatError (''Invalid line value: '' @ str_repr (field_text fs ''line'')))
                    | Some n \<Rightarrow>
                        Inr ([(''title'', PStr (py_strip (field_text fs ''title''))),
                              (''path'', PStr (py_strip (field_text fs ''path''))), (''line'', PInt n), (''body'', PStr body)]
                             @ optional_fields fs)))"

definition no_blocks :: intake_error where
  "no_blocks = FindingsFormatError (''No fixed '' @ [CHR 0x60] @ ''finding'' @ [CHR 0x60] @ '' blocks found. Use fenced ''
     @ replicate 3 CHR 0x60 @ ''finding blocks.'')"

definition parse_finding_blocks :: "string \<Rightarrow> intake_error + pydict list" where
  "parse_finding_blocks raw =
     (let payload = py_strip raw
      in if payload = [] then Inr []
         else sum_bind (extract_finding_blocks payload) (\<lambda>blocks.
                if blocks = [] then Inl no_blocks else sum_map parse_finding_block blocks))"

section \<open>Payloads\<close>

definition normalize_findings_payload :: "string \<Rightarrow> string \<Rightarrow> intake_error + pydict list" where
  "normalize_findings_payload source raw =
     sum_bind
       (if source \<in> {''review-to-findings'', ''finding-blocks''} then parse_finding_blocks raw
        else if source \<in> {''json'', ''code-review'', ''adapter''}
        then sum_bind (parse_records raw) (sum_map normalize_finding)
        else Inl (FindingsFormatError (''Unsupported findings source: '' @ source)))
       (\<lambda>findings. Inr (map (with_local_item_fields source) findings))"

end
