(* ===== verification/Finding_Blocks.thy ===== *)
theory Finding_Blocks
  imports Findings_Intake
begin

text \<open>
  Fenced finding blocks as a producer writes them, and the proof that the intake reads every
  block back, with any prose before it.
\<close>

section \<open>Writing blocks\<close>

record written_finding =
  wf_title :: string
  wf_path :: string
  wf_line :: int
  wf_extra :: "(string \<times> string) list"
  wf_body :: "string list"

definition fence :: string where
  "fence = replicate 3 CHR 0x60"

definition field_line :: "string \<times> string \<Rightarrow> string" where
  "field_line kv = fst kv @ '': '' @ snd kv"

definition head_fields :: "written_finding \<Rightarrow> (string \<times> string) list" where
  "head_fields f = [(''title'', wf_title f), (''path'', wf_path f), (''line'', int_dec (wf_line f))] @ wf_extra f"

definition block_text :: "written_finding \<Rightarrow> string list" where
  "block_text f = map field_line (head_fields f) @ [''body: |''] @ wf_body f"

definition written_block :: "written_finding \<Rightarrow> string list" where
  "written_block f = [fence @ ''finding''] @ block_text f @ [fence]"

text \<open>Blocks, each with the lines of prose before it.\<close>

definition written_payload :: "(string list \<times> written_finding) list \<Rightarrow> string" where
  "written_payload pfs = py_join [newline] (concat (map (\<lambda>(prose, f). prose @ written_block f) pfs))"

definition single_line :: "string \<Rightarrow> bool" where
  "single_line l = list_all (\<lambda>c. \<not> line_break c) l"

definition plain_value :: "string \<Rightarrow> bool" where
  "plain_value v \<longleftrightarrow> single_line v \<and> v \<noteq> [] \<and> \<not> is_space (hd v) \<and> \<not> is_space (last v)"

definition well_written :: "written_finding \<Rightarrow> bool" where
  "well_written f \<longleftrightarrow> plain_value (wf_title f) \<and> plain_value (wf_path f)
     \<and> distinct (map fst (wf_extra f))
     \<and> list_all (\<lambda>(k, v). k \<in> {''severity'', ''category'', ''confidence'', ''head_sha''} \<and> plain_value v) (wf_extra f)
     \<and> wf_body f \<noteq> [] \<and> last (wf_body f) \<noteq> []
     \<and> list_all (\<lambda>l. single_line l \<and> py_rstrip l = l \<and> \<not> re_match CLOSING_FENCE l) (wf_body f)
     \<and> py_strip (dedent (py_join [newline] (wf_body f))) = py_join [newline] (wf_body f)"

definition prose_line :: "string \<Rightarrow> bool" where
  "prose_line l \<longleftrightarrow> single_line l \<and> \<not> re_match FINDING_FENCE l"

text \<open>The finding a block stands for.\<close>

definition finding_of :: "written_finding \<Rightarrow> pydict" where
  "finding_of f =
     [(''title'', PStr (wf_title f)), (''path'', PStr (wf_path f)), (''line'', PInt (wf_line f)),
      (''body'', PStr (py_join [newline] (wf_body f)))] @ optional_fields (wf_extra f)"

section \<open>Lines\<close>

lemma line_break_newline [simp]: "line_break newline"
  by (simp add: line_break_def)

lemma splitlines_line: "single_line l \<Longrightarrow> l \<noteq> [] \<Longrightarrow> splitlines l = [l]"
proof (induction l)
  case (Cons c cs)
  then show ?case by (cases cs) (auto simp: single_line_def)
qed simp

lemma splitlines_more: "single_line l \<Longrightarrow> splitlines (l @ newline # t) = l # splitlines t"
  by (induction l) (simp_all add: single_line_def after_break_def)

lemma splitlines_join:
  assumes "ls \<noteq> []" "list_all single_line ls" "last ls \<noteq> []"
  shows "splitlines (py_join [newline] ls) = ls"
  using assms by (induction ls rule: induct_list012) (simp_all add: splitlines_line splitlines_more)

lemma py_join_last:
  "ls \<noteq> [] \<Longrightarrow> last ls \<noteq> [] \<Longrightarrow> py_join sep ls \<noteq> [] \<and> last (py_join sep ls) = last (last ls)"
  by (induction ls rule: induct_list012) simp_all

lemma plain_strip [simp]: "plain_value v \<Longrightarrow> py_strip v = v"
  by (rule py_strip_id) (simp add: plain_value_def)

lemma rstrip_plain: "s \<noteq> [] \<Longrightarrow> \<not> is_space (last s) \<Longrightarrow> py_rstrip s = s"
  unfolding py_rstrip_def by (metis dropWhile_eq_self_iff hd_rev rev_rev_ident)

section \<open>Scanning\<close>

lemma re_match_first:
  "re_match (re_seq (RClass p # rs)) l \<Longrightarrow> \<exists>c cs. l = c # cs \<and> p c"
  by (cases l) (auto simp: re_match_def re_seq_def split: if_splits)

lemma closing_fence_first: "re_match CLOSING_FENCE (c # cs) \<Longrightarrow> is_backtick c"
  unfolding CLOSING_FENCE_def by (drule re_match_first) simp

lemma opening_matches: "re_match FINDING_FENCE (fence @ ''finding'')"
  by code_simp

lemma closing_matches: "re_match CLOSING_FENCE fence"
  by code_simp

lemma scan_prose: "list_all prose_line ls \<Longrightarrow> scan_blocks None (ls @ rest) = scan_blocks None rest"
  by (induction ls) (simp_all add: prose_line_def)

lemma scan_open:
  "list_all (\<lambda>l. \<not> re_match CLOSING_FENCE l) ls \<Longrightarrow> scan_blocks (Some b) (ls @ rest) = scan_blocks (Some (b @ ls)) rest"
  by (induction ls arbitrary: b) simp_all

lemma scan_written:
  assumes "list_all (\<lambda>l. \<not> re_match CLOSING_FENCE l) (block_text f)"
  shows "scan_blocks None (written_block f @ rest)
    = (case scan_blocks None rest of Inl e \<Rightarrow> Inl e | Inr bs \<Rightarrow> Inr (py_join [newline] (block_text f) # bs))"
  using scan_open [OF assms, of "[]" "fence # rest"]
  by (simp add: written_block_def opening_matches closing_matches)

lemma scan_payload:
  assumes "list_all (\<lambda>(prose, f). list_all prose_line prose \<and> list_all (\<lambda>l. \<not> re_match CLOSING_FENCE l) (block_text f)) pfs"
  shows "scan_blocks None (concat (map (\<lambda>(prose, f). prose @ written_block f) pfs))
    = Inr (map (\<lambda>(prose, f). py_join [newline] (block_text f)) pfs)"
  using assms by (induction pfs) (auto simp: scan_prose scan_written)

section \<open>Reading a block\<close>

declare block_lines.simps(2) [simp del]

definition scalar_keys :: "string list" where
  "scalar_keys = [''title'', ''path'', ''line'', ''severity'', ''category'', ''confidence'', ''head_sha'']"

lemma scalar_key:
  assumes "k \<in> set scalar_keys"
  shows "k \<noteq> [] \<and> \<not> is_space (hd k) \<and> CHR '':'' \<notin> set k \<and> single_line k \<and> \<not> is_backtick (hd k)
    \<and> field_name k = k \<and> k \<in> set ALLOWED_FIELDS \<and> k \<noteq> ''body''"
proof -
  have "list_all (\<lambda>k. k \<noteq> [] \<and> \<not> is_space (hd k) \<and> CHR '':'' \<notin> set k \<and> single_line k \<and> \<not> is_backtick (hd k)
      \<and> field_name k = k \<and> k \<in> set ALLOWED_FIELDS \<and> k \<noteq> ''body'') scalar_keys" by code_simp
  with assms show ?thesis by (simp add: list_all_iff)
qed

lemma field_line_ends:
  assumes "k \<in> set scalar_keys" "plain_value v"
  shows "field_line (k, v) \<noteq> [] \<and> \<not> is_space (hd (field_line (k, v))) \<and> \<not> is_space (last (field_line (k, v)))"
  using scalar_key [OF assms(1)] assms(2) by (cases k) (simp_all add: field_line_def plain_value_def)

lemma block_field:
  assumes "k \<in> set scalar_keys" "plain_value v"
  shows "block_lines fs (field_line (k, v) # ls) = block_lines (AList.update k v fs) ls"
proof -
  note ends = field_line_ends [OF assms]
  have "py_rstrip (field_line (k, v)) = field_line (k, v)" using ends by (simp add: rstrip_plain)
  moreover have "py_strip (field_line (k, v)) \<noteq> []" using ends py_strip_id [of "field_line (k, v)"] by simp
  moreover have "py_partition CHR '':'' (field_line (k, v)) = (k, True, CHR '' '' # v)"
    using scalar_key [OF assms(1)] by (simp add: field_line_def)
  moreover have "py_lstrip (CHR '' '' # v) = v"
    using assms(2) by (cases v) (simp_all add: py_lstrip_def plain_value_def is_space_def)
  ultimately show ?thesis using scalar_key [OF assms(1)] by (simp add: block_lines.simps(2) Let_def)
qed

lemma update_fresh: "k \<notin> fst ` set fs \<Longrightarrow> AList.update k v fs = fs @ [(k, v)]"
  by (induction fs) auto

lemma block_fields:
  assumes "list_all (\<lambda>(k, v). k \<in> set scalar_keys \<and> plain_value v) kvs" "distinct (map fst (fs @ kvs))"
  shows "block_lines fs (map field_line kvs @ ls) = block_lines (fs @ kvs) ls"
  using assms
proof (induction kvs arbitrary: fs)
  case (Cons kv kvs)
  obtain k v where kv: "kv = (k, v)" by (cases kv)
  have "block_lines fs (map field_line (kv # kvs) @ ls) = block_lines (AList.update k v fs) (map field_line kvs @ ls)"
    using Cons.prems(1) by (simp add: kv block_field)
  also have "AList.update k v fs = fs @ [(k, v)]" using Cons.prems(2) by (intro update_fresh) (simp add: kv)
  finally show ?case using Cons.IH [of "fs @ [(k, v)]"] Cons.prems by (simp add: kv)
qed simp

lemma block_body: "block_lines fs (''body: |'' # ls) = Inr (fs, map py_rstrip ls)"
proof -
  have "py_rstrip ''body: |'' = ''body: |''" "py_strip ''body: |'' \<noteq> []" "py_partition CHR '':'' ''body: |'' = (''body'', True, '' |'')"
    "field_name ''body'' = ''body''" "py_lstrip '' |'' = ''|''" "''body'' \<in> set ALLOWED_FIELDS" by code_simp+
  then show ?thesis by (simp add: block_lines.simps(2) Let_def)
qed

lemma int_dec_plain: "plain_value (int_dec i)"
proof -
  have d: "\<not> is_space (hd (nat_dec n)) \<and> \<not> is_space (last (nat_dec n)) \<and> single_line (nat_dec n)" for n
    using nat_dec_ends [of n] nat_dec_digits [of n]
    by (auto simp: single_line_def list_all_iff line_break_def of_char_digit_char)
  moreover have "\<not> is_space CHR ''-''" "\<not> line_break CHR ''-''" by (simp_all add: is_space_def line_break_def)
  ultimately show ?thesis by (simp add: plain_value_def int_dec_def single_line_def)
qed

lemma head_fields_scalar:
  assumes "well_written f"
  shows "list_all (\<lambda>(k, v). k \<in> set scalar_keys \<and> plain_value v) (head_fields f) \<and> distinct (map fst (head_fields f))"
proof -
  have "list_all (\<lambda>(k, v). k \<in> set scalar_keys \<and> k \<notin> {''title'', ''path'', ''line''} \<and> plain_value v) (wf_extra f)"
    using assms unfolding well_written_def scalar_keys_def by (elim conjE list.pred_mono_strong) auto
  moreover have "distinct (map fst (wf_extra f))" "plain_value (wf_title f)" "plain_value (wf_path f)"
    using assms by (simp_all add: well_written_def)
  moreover have "{''title'', ''path'', ''line''} \<subseteq> set scalar_keys" by (simp add: scalar_keys_def)
  ultimately show ?thesis using int_dec_plain [of "wf_line f"] by (fastforce simp: head_fields_def list_all_iff)
qed

lemma block_text_lines:
  assumes "well_written f"
  shows "list_all (\<lambda>l. single_line l \<and> \<not> re_match CLOSING_FENCE l) (block_text f)" "last (block_text f) \<noteq> []"
proof -
  have "single_line (field_line (k, v)) \<and> \<not> re_match CLOSING_FENCE (field_line (k, v))"
    if "k \<in> set scalar_keys" "plain_value v" for k v
    using scalar_key [OF that(1)] that(2) closing_fence_first
    by (cases k) (auto simp: field_line_def single_line_def plain_value_def line_break_def)
  moreover have "single_line ''body: |''" "\<not> re_match CLOSING_FENCE ''body: |''" by code_simp+
  ultimately show "list_all (\<lambda>l. single_line l \<and> \<not> re_match CLOSING_FENCE l) (block_text f)"
    using head_fields_scalar [OF assms] assms
    by (auto simp: block_text_def list_all_iff well_written_def)
  show "last (block_text f) \<noteq> []" using assms by (simp add: block_text_def well_written_def)
qed

lemma parse_written_block:
  assumes "well_written f"
  shows "parse_finding_block (py_join [newline] (block_text f)) = Inr (finding_of f)"
proof -
  note f = assms [unfolded well_written_def]
  have "splitlines (py_join [newline] (block_text f)) = block_text f"
    using block_text_lines [OF assms] by (intro splitlines_join) (auto simp: list_all_iff block_text_def)
  moreover have "map py_rstrip (wf_body f) = wf_body f"
    using f by (intro map_idI) (simp add: list_all_iff)
  ultimately have lines: "parse_block_lines (py_join [newline] (block_text f)) = Inr (head_fields f, wf_body f)"
    using head_fields_scalar [OF assms] block_fields [of "head_fields f" "[]"]
    by (simp add: parse_block_lines_def block_text_def block_body)
  have "missing_field (head_fields f) = None"
    using f int_dec_plain [of "wf_line f"]
    by (simp add: missing_field_def field_text_def head_fields_def) (simp add: plain_value_def)
  moreover have "py_join [newline] (wf_body f) \<noteq> []"
    using f by (cases "wf_body f" rule: remdups_adj.cases) simp_all
  moreover have "field_text (head_fields f) k = field_text (wf_extra f) k" if "k \<notin> {''title'', ''path'', ''line''}" for k
    using that by (auto simp: field_text_def head_fields_def)
  then have "optional_fields (head_fields f) = optional_fields (wf_extra f)"
    by (simp add: optional_fields_def map_filter_simps)
  ultimately show ?thesis
    using f by (simp add: parse_finding_block_def lines finding_of_def) (simp add: field_text_def head_fields_def)
qed


definition ex_written :: written_finding where
  "ex_written = \<lparr>wf_title = ''Race: unsafe'', wf_path = ''src/a.py'', wf_line = 12, wf_extra = [(''severity'', ''P1'')],
     wf_body = [''The lock'', ''  is not held.'']\<rparr>"

lemma ex_written_well: "well_written ex_written"
proof -
  have "plain_value (wf_title ex_written)" "plain_value (wf_path ex_written)" "distinct (map fst (wf_extra ex_written))"
    "list_all (\<lambda>(k, v). k \<in> {''severity'', ''category'', ''confidence'', ''head_sha''} \<and> plain_value v) (wf_extra ex_written)"
    "wf_body ex_written \<noteq> []" "last (wf_body ex_written) \<noteq> []"
    "list_all (\<lambda>l. single_line l \<and> py_rstrip l = l \<and> \<not> re_match CLOSING_FENCE l) (wf_body ex_written)"
    "py_strip (dedent (py_join [newline] (wf_body ex_written))) = py_join [newline] (wf_body ex_written)" by code_simp+
  then show ?thesis by (simp add: well_written_def)
qed


end
