(* ===== verification/Findings_Ingest.thy ===== *)
theory Findings_Ingest
  imports Findings_Intake
begin

text \<open>
  Findings in a session: the bookkeeping of producers (\<open>core/handoff.py\<close>) and, of
  \<open>commands/high_level.py\<close>, the ingestion of a payload with its synchronisation, the
  defaults of a session, its loop state and its counters. A loaded session holds a
  dictionary under \<open>items\<close>; the clock is an argument.
\<close>

definition updated_with :: "pydict \<Rightarrow> pydict \<Rightarrow> pydict" where
  "updated_with kvs d = foldl (\<lambda>acc (k, v). dset k v acc) d kvs"

section \<open>Producers\<close>

definition ensured_handoff :: "pyval \<Rightarrow> pydict" where
  "ensured_handoff value =
     (let h = dsetdefault ''last_consumed_sha256'' PNone (case value of PDict d \<Rightarrow> d | _ \<Rightarrow> [])
      in if is_dict (dget h ''producer_results'') then h else dset ''producer_results'' (PDict []) h)"

definition ensure_handoff_state :: "pydict \<Rightarrow> pydict" where
  "ensure_handoff_state session = dset ''handoff'' (PDict (ensured_handoff (dget session ''handoff''))) session"

definition producer_result :: "string \<Rightarrow> pydict list \<Rightarrow> bool \<Rightarrow> string \<Rightarrow> string \<Rightarrow> pydict" where
  "producer_result source findings sync_enabled submitted_at payload_sha256 =
     [(''status'', PStr ''submitted''), (''source'', PStr source), (''findings_count'', PInt (int (length findings))),
      (''payload_sha256'',
        PStr (if payload_sha256 = [] then sha256_hex (canonical_findings_payload findings) else payload_sha256)),
      (''sync_enabled'', PBool sync_enabled), (''submitted_at'', PStr submitted_at)]"

definition record_producer_result ::
    "string \<Rightarrow> pydict list \<Rightarrow> bool \<Rightarrow> string \<Rightarrow> string \<Rightarrow> pydict \<Rightarrow> pydict" where
  "record_producer_result source findings sync_enabled submitted_at payload_sha256 session =
     (let h = ensured_handoff (dget session ''handoff'');
          results = (case dget h ''producer_results'' of PDict d \<Rightarrow> d | _ \<Rightarrow> []);
          result = producer_result source findings sync_enabled submitted_at payload_sha256
      in dset ''handoff''
           (PDict (dset ''producer_results'' (PDict (dset source (PDict result) results)) h)) session)"

section \<open>Ingestion\<close>

definition EMPTY_FINDINGS_INPUT_MESSAGE :: string where
  "EMPTY_FINDINGS_INPUT_MESSAGE = ''Findings input is empty. Use [] for an explicit empty producer result.''"

text \<open>A payload of another producer is read as JSON; the ids name the producer.\<close>

definition format_source :: "string \<Rightarrow> string" where
  "format_source source = (if source = ''adapter'' then ''adapter'' else ''json'')"

definition for_source :: "string \<Rightarrow> pydict \<Rightarrow> pydict" where
  "for_source source finding =
     (if source = format_source source then finding
      else with_local_item_fields source
             (filter (\<lambda>(k, v). k \<notin> {''item_id'', ''item_kind'', ''source''}) finding))"

definition read_findings :: "string \<Rightarrow> string \<Rightarrow> intake_error + pydict list" where
  "read_findings source raw =
     (if py_strip raw = [] then Inl (FindingsFormatError EMPTY_FINDINGS_INPUT_MESSAGE)
      else sum_bind (normalize_findings_payload (format_source source) raw) (\<lambda>findings.
             Inr (map (for_source source) findings)))"

definition finding_severity :: "string \<Rightarrow> pyval \<Rightarrow> pydict option" where
  "finding_severity source raw_severity =
     severity_evidence raw_severity ''producer_payload''
       (if raw_severity = PNone then None else Some (py_strip (py_str raw_severity))) (PStr source)"

text \<open>An unreadable severity of the payload removes the stored one; a missing one keeps it.\<close>

definition with_severity :: "string \<Rightarrow> pyval \<Rightarrow> pydict \<Rightarrow> pydict" where
  "with_severity source raw_severity item =
     (case finding_severity source raw_severity of
        Some e \<Rightarrow> apply_severity_evidence (Some e) item
      | None \<Rightarrow> if raw_severity = PNone then item else apply_severity_evidence None item)"

definition reopened :: "string \<Rightarrow> pydict \<Rightarrow> pydict" where
  "reopened now item =
     dsetdefault ''validation_commands'' (PList [])
      (dsetdefault ''reply_url'' PNone
       (dsetdefault ''reply_posted'' (PBool False)
        (dsetdefault ''history'' (PList [])
         (updated_with
            [(''updated_at'', PStr now), (''status'', PStr ''OPEN''), (''state'', PStr ''open''), (''blocking'', PBool True),
             (''handled'', PBool False), (''needs_human'', PBool False)]
            (dsetdefault ''created_at'' (PStr now) item)))))"

definition ingested_item :: "string \<Rightarrow> string \<Rightarrow> pydict \<Rightarrow> pyval \<Rightarrow> pydict" where
  "ingested_item now source finding existing =
     (let item = (case existing of PDict d \<Rightarrow> d | _ \<Rightarrow> [])
      in reopened now (with_severity source (dget finding ''severity'') (updated_with (dpop ''severity'' finding) item)))"

definition finding_id :: "pydict \<Rightarrow> string" where
  "finding_id finding = py_str (dget finding ''item_id'')"

definition ingest_finding :: "string \<Rightarrow> string \<Rightarrow> pydict \<Rightarrow> pydict \<Rightarrow> pydict" where
  "ingest_finding now source items finding =
     dset (finding_id finding) (PDict (ingested_item now source finding (dget items (finding_id finding)))) items"

definition closed_by_sync :: "string \<Rightarrow> pydict \<Rightarrow> pydict" where
  "closed_by_sync now item =
     updated_with
       [(''status'', PStr ''CLOSED''), (''state'', PStr ''closed''), (''blocking'', PBool False), (''handled'', PBool True),
        (''handled_at'', PStr now), (''updated_at'', PStr now)] item"

definition missing_from :: "string \<Rightarrow> string list \<Rightarrow> string \<Rightarrow> pydict \<Rightarrow> bool" where
  "missing_from source incoming item_id item \<longleftrightarrow>
     dget item ''item_kind'' = PStr ''local_finding'' \<and> dget item ''source'' = PStr source \<and> item_id \<notin> set incoming"

definition synchronised :: "string \<Rightarrow> string \<Rightarrow> string list \<Rightarrow> pydict \<Rightarrow> pydict" where
  "synchronised now source incoming items =
     map (\<lambda>(k, v). (k, case v of PDict d \<Rightarrow> if missing_from source incoming k d then PDict (closed_by_sync now d) else v
                       | _ \<Rightarrow> v)) items"

definition doc_items :: "pydict \<Rightarrow> pydict" where
  "doc_items session = (case dget session ''items'' of PDict d \<Rightarrow> d | _ \<Rightarrow> [])"

definition ingest_items :: "string \<Rightarrow> string \<Rightarrow> bool \<Rightarrow> pydict list \<Rightarrow> pydict \<Rightarrow> pydict" where
  "ingest_items now source sync findings items =
     (let items1 = foldl (ingest_finding now source) items findings
      in if sync then synchronised now source (map finding_id findings) items1 else items1)"

record ingest_options =
  io_source :: string
  io_sync :: bool
  io_scan_id :: string
  io_handoff_sha256 :: string

definition noted_handoff :: "string \<Rightarrow> ingest_options \<Rightarrow> pydict list \<Rightarrow> pydict \<Rightarrow> pydict" where
  "noted_handoff now opts findings session =
     (let s = record_producer_result (io_source opts) findings (io_sync opts) now (io_handoff_sha256 opts) session
      in if io_handoff_sha256 opts = [] then s
         else dset ''handoff''
                (PDict (dset ''last_consumed_sha256'' (PStr (io_handoff_sha256 opts)) (ensured_handoff (dget s ''handoff'')))) s)"

text \<open>The session changes only after the whole payload was read.\<close>

definition ingest_native_findings ::
    "string \<Rightarrow> ingest_options \<Rightarrow> string \<Rightarrow> pydict \<Rightarrow> intake_error + (pydict list \<times> pydict)" where
  "ingest_native_findings now opts raw session =
     sum_bind (read_findings (io_source opts) raw) (\<lambda>findings.
       let items = doc_items session;
           s1 = (if io_scan_id opts = [] then session else dset ''current_scan_id'' (PStr (io_scan_id opts)) session);
           s2 = dset ''items'' (PDict (ingest_items now (io_source opts) (io_sync opts) findings items)) s1
       in case record_new_item_observations now (Some now) (map fst items) (noted_handoff now opts findings s2) of
            Inl e \<Rightarrow> Inl (IntakeRaised e)
          | Inr s3 \<Rightarrow> Inr (findings, s3))"

section \<open>The rest of a native session\<close>

definition idle_loop_state :: pydict where
  "idle_loop_state =
     [(''run_id'', PNone), (''status'', PStr ''IDLE''), (''iteration'', PInt 0), (''max_iterations'', PInt 0),
      (''current_item_id'', PNone), (''last_error'', PStr []), (''last_started_at'', PNone), (''last_completed_at'', PNone)]"

definition ensure_native_session_fields :: "string \<Rightarrow> pydict \<Rightarrow> pydict" where
  "ensure_native_session_fields now session =
     dsetdefault ''metrics'' (PDict [])
      (dsetdefault ''loop_state'' (PDict idle_loop_state)
       (ensure_handoff_state
        (dsetdefault ''history'' (PList [])
         (dsetdefault ''leases'' (PDict [])
          (dsetdefault ''items'' (PDict [])
           (dsetdefault ''current_scan_id'' PNone
            (dsetdefault ''updated_at'' (PStr now)
             (dsetdefault ''created_at'' (PStr now)
              (dsetdefault ''schema_version'' (PInt 1) session)))))))))"

record loop_state =
  lo_run_id :: string
  lo_status :: string
  lo_iteration :: int
  lo_max_iterations :: int
  lo_current_item :: pyval
  lo_last_error :: string

definition set_loop_state :: "string \<Rightarrow> loop_state \<Rightarrow> pydict \<Rightarrow> pydict" where
  "set_loop_state now l session =
     (let before = (case dget session ''loop_state'' of PDict d \<Rightarrow> d | _ \<Rightarrow> [])
      in dset ''loop_state''
           (PDict (updated_with
              [(''run_id'', PStr (lo_run_id l)), (''status'', PStr (lo_status l)), (''iteration'', PInt (lo_iteration l)),
               (''max_iterations'', PInt (lo_max_iterations l)), (''current_item_id'', lo_current_item l),
               (''last_error'', PStr (lo_last_error l)),
               (''last_started_at'', py_or (dget before ''last_started_at'') (PStr now)),
               (''last_completed_at'',
                 if lo_status l \<in> {''PASSED'', ''FAILED'', ''BLOCKED'', ''NEEDS_HUMAN''} then PStr now else PNone)] before))
           session)"

definition dict_values :: "pydict \<Rightarrow> pydict list" where
  "dict_values d = List.map_filter (\<lambda>kv. as_dict (snd kv)) d"

definition count_where :: "('a \<Rightarrow> bool) \<Rightarrow> 'a list \<Rightarrow> pyval" where
  "count_where p xs = PInt (int (length (filter p xs)))"

definition blocking_local :: "pydict \<Rightarrow> bool" where
  "blocking_local item \<longleftrightarrow> dget item ''item_kind'' = PStr ''local_finding'' \<and> truthy (dget item ''blocking'')"

definition open_thread :: "pydict \<Rightarrow> bool" where
  "open_thread item \<longleftrightarrow>
     dget item ''item_kind'' = PStr ''github_thread'' \<and> py_upper (str_field item ''status'') \<notin> {''CLOSED'', ''DROPPED''}"

definition native_metrics :: "pydict list \<Rightarrow> pydict" where
  "native_metrics items =
     [(''blocking_items_count'', count_where (\<lambda>i. truthy (dget i ''blocking'')) items),
      (''open_local_findings_count'', count_where blocking_local items),
      (''unresolved_github_threads_count'', count_where open_thread items),
      (''needs_human_items_count'', count_where (\<lambda>i. truthy (dget i ''needs_human'')) items)]"

definition recalc_native_metrics :: "pydict \<Rightarrow> pydict" where
  "recalc_native_metrics session =
     dset ''metrics'' (PDict (native_metrics (dict_values (doc_items session)))) session"

definition first_blocking_item :: "pydict \<Rightarrow> pydict option" where
  "first_blocking_item session = find (\<lambda>i. truthy (dget i ''blocking'')) (dict_values (doc_items session))"

definition first_local_item :: "pydict \<Rightarrow> pydict option" where
  "first_local_item session =
     find (\<lambda>i. dget i ''item_kind'' = PStr ''local_finding'') (dict_values (doc_items session))"

definition blocking_local_items :: "pydict \<Rightarrow> pydict list" where
  "blocking_local_items session = filter blocking_local (dict_values (doc_items session))"

end
