(* ===== verification/Review_Runtime.thy ===== *)
theory Review_Runtime
  imports Findings_Ingest Gate_Service Primary_Action Action_Models
begin

text \<open>
  The review commands (\<open>review\<close>, \<open>address\<close>, \<open>findings\<close>, \<open>adapter\<close>, \<open>threads\<close>:
  \<open>HighLevelReviewRuntime\<close> and its helpers in \<open>commands/high_level.py\<close>): preflight checks,
  loading or creating the session, ingestion of findings, the merge of the observed threads,
  the inline gate and the summaries, with every save. The parsed arguments, what the findings
  file or the adapter gave, what GitHub answered, the clock, the random text of a file name and
  what other processes commit before each save are arguments. The workspace of the target is
  valid and can be written; spans, printing for people and the file of the last summary are
  left out.
\<close>

section \<open>Summaries\<close>

definition or_null :: "string option \<Rightarrow> pyval" where
  "or_null x = (case x of None \<Rightarrow> PNone | Some t \<Rightarrow> PStr t)"

definition summary_commands :: "string \<Rightarrow> string \<Rightarrow> pydict" where
  "summary_commands repo pr_number =
     map (\<lambda>(k, c). (k, PStr c))
       [(''address'', tmpl_address repo pr_number), (''review_auto_simple'', tmpl_review_auto_simple repo pr_number),
        (''threads'', tmpl_threads repo pr_number), (''classify'', tmpl_classify repo pr_number),
        (''next'', tmpl_next_fixer repo pr_number), (''batch_next'', tmpl_batch_next repo pr_number None),
        (''submit'', tmpl_submit repo pr_number ''response.json''), (''resolve'', tmpl_resolve_single repo pr_number),
        (''resolve_batch'', tmpl_resolve_batch repo pr_number ''batch-response.json''),
        (''resolve_homogeneous'', tmpl_resolve_homogeneous repo pr_number),
        (''resolve_decline'', tmpl_resolve_decline repo pr_number ''reject''),
        (''resolve_stale'', tmpl_resolve_stale repo pr_number), (''publish'', tmpl_publish repo pr_number),
        (''final_gate'', tmpl_final_gate repo pr_number)]"

definition action_dict :: "primary_action \<Rightarrow> pydict" where
  "action_dict a =
     [(''kind'', PStr (pa_kind a)), (''command'', or_null (pa_command a)), (''item_id'', or_null (pa_item_id a)),
      (''why_now'', PStr (pa_why_now a)), (''requires_human'', PBool (pa_requires_human a))]"

text \<open>The state of a command: its arguments and what its environment gives.\<close>

record review_args =
  ra_command :: string
  ra_input :: bool
  ra_source :: string
  ra_sync :: bool
  ra_scan_id :: string
  ra_handoff_sha256 :: string
  ra_audit_id :: string
  ra_max_iterations :: int
  ra_lean :: bool
  ra_auto_simple :: bool

record review_reads =
  rr_stack :: "stack_context option"
  rr_threads :: "github_error + pydict list"
  rr_checks :: "github_error + pydict list"
  rr_files :: "github_error + pyval list"

record review_env =
  re_repo :: string
  re_pr_number :: string
  re_now :: string
  re_uuid :: string
  re_workspace :: string
  re_ledger_path :: string
  re_lock_held :: "string \<Rightarrow> bool"
  re_json_error :: string
  re_error_text :: "effect_error \<Rightarrow> string"
  re_findings :: "string + string"
  re_adapter :: "string + string"
  re_reads :: review_reads
  re_others :: "nat \<Rightarrow> runtime_store option \<Rightarrow> runtime_store option"

record review_outcome =
  rv_exit :: int
  rv_summary :: pydict
  rv_artifact :: "(string \<times> pydict) option"

record verdict =
  ve_status :: string
  ve_reason_code :: string
  ve_waiting_on :: "string option"
  ve_next_action :: string
  ve_exit :: int

section \<open>Thread rows\<close>

definition thread_row :: "bool \<Rightarrow> nat \<Rightarrow> string \<Rightarrow> pydict \<Rightarrow> pydict" where
  "thread_row lean n key item =
     (let status = str_field item ''status''; state = str_field item ''state'';
          thread_id = py_or (py_or (dget item ''thread_id'') (dget item ''origin_ref'')) (PStr (removeprefix key ''github-thread:''));
          reply = dget item ''reply_evidence''
      in [(''item_id'', PStr (py_str (py_or (dget item ''item_id'') (PStr key)))), (''alias'', PStr (''T'' @ nat_dec n)),
          (''thread_id'', thread_id), (''path'', dget item ''path''), (''line'', dget item ''line''),
          (''state'', if state = [] then PNone else PStr state), (''status'', if status = [] then PNone else PStr status),
          (''is_resolved'', PBool (is_resolved_github_thread item)),
          (''is_outdated'', PBool (is_stale_or_outdated_github_thread item)),
          (''accepted_response_present'', PBool (is_dict (dget item ''accepted_response'')))]
         @ (if lean
            then [(''claimable'', PBool (is_claimable_github_thread False item)),
                  (''reply_evidence_present'', PBool (is_dict reply \<and> truthy reply))]
            else [(''body'', dget item ''body''), (''url'', dget item ''url''), (''item_kind'', PStr ''github_thread''),
                  (''reply_evidence'', if is_dict reply then reply else PNone)]))"

definition sorted_threads :: "pydict \<Rightarrow> (string \<times> pydict) list" where
  "sorted_threads session =
     filter (\<lambda>(k, item). dget item ''item_kind'' = PStr ''github_thread'')
       (List.map_filter (\<lambda>(k, v). map_option (Pair k) (as_dict v)) (sort_key fst (doc_items session)))"

definition native_thread_rows :: "bool \<Rightarrow> pydict \<Rightarrow> pydict list" where
  "native_thread_rows lean session =
     map (\<lambda>(n, (k, item)). thread_row lean n k item) (zip [1..<Suc (length (sorted_threads session))] (sorted_threads session))"

definition claimable_item_ids :: "pydict list \<Rightarrow> string list" where
  "claimable_item_ids rows =
     map (\<lambda>r. py_str (dget r ''item_id''))
       (filter (\<lambda>r. truthy (dget r ''item_id'') \<and> is_claimable_github_thread False r) rows)"

definition response_row :: "string \<Rightarrow> pyval" where
  "response_row item_id = PDict
     [(''item_id'', PStr item_id), (''request_id'', PStr ''<request_id from agent next>''),
      (''lease_id'', PStr ''<lease_id from agent next>''), (''summary'', PStr ''<per-thread fix summary>''),
      (''why'', PStr ''<why this fixes this review thread>'')]"

definition batch_response_skeleton :: "string list \<Rightarrow> pydict" where
  "batch_response_skeleton item_ids =
     [(''schema_version'', PStr PROTOCOL_VERSION), (''agent_id'', PStr ''<agent_id>''), (''resolution'', PStr ''fix''),
      (''common'', PDict
         [(''files'', PList [PStr ''<file_path>'']),
          (''validation_commands'', PList [PDict [(''command'', PStr ''<test_command>''),
              (''result'', PStr ''<passed|failed + key signal>'')]]),
          (''fix_reply'', PDict [(''test_command'', PStr ''<test_command>''),
              (''test_result'', PStr ''<passed|failed + key signal>'')])]),
      (''items'', PList (map response_row item_ids))]"

text \<open>
  The item an alias stands for (\<open>resolve_thread_alias\<close> of \<open>core/workflow.py\<close>), on the loaded
  session: \<open>T\<close> and digits, counted in the order of the keys. Other text is returned as it is.
\<close>

definition alias_index :: "string \<Rightarrow> nat option" where
  "alias_index token =
     (case py_strip token of
        [] \<Rightarrow> None
      | c # ds \<Rightarrow> if c = CHR ''T'' \<and> ds \<noteq> [] \<and> list_all json_digit ds then Some (digits_value 0 ds) else None)"

definition thread_ids :: "pydict \<Rightarrow> string list" where
  "thread_ids session = map (\<lambda>(k, item). py_str (py_or (dget item ''item_id'') (PStr k))) (sorted_threads session)"

definition resolve_thread_alias :: "pydict \<Rightarrow> string \<Rightarrow> effect_error + string" where
  "resolve_thread_alias session token =
     (case alias_index token of
        None \<Rightarrow> Inr token
      | Some n \<Rightarrow>
          (let ids = thread_ids session
           in if 1 \<le> n \<and> n \<le> length ids then Inr (ids ! (n - 1))
              else Inl (WorkflowError ''FAST_FIX_REJECTED'' ''THREAD_ALIAS_NOT_FOUND'' [])))"

section \<open>The summary of a command\<close>

definition metric_count :: "pydict \<Rightarrow> string \<Rightarrow> string \<times> pyval" where
  "metric_count metrics k = (k, dget_default metrics k (PInt 0))"

definition count_names :: "string list" where
  "count_names =
     [''blocking_items_count'', ''open_local_findings_count'', ''unresolved_github_threads_count'', ''needs_human_items_count'']"

definition preflight_summary :: "review_env \<Rightarrow> string \<Rightarrow> verdict \<Rightarrow> py_exn + pydict" where
  "preflight_summary env command v =
     sum_bind (project_primary_action (re_repo env) (re_pr_number env) command (ve_status v) (ve_reason_code v)
                 (ve_waiting_on v) []) (\<lambda>act.
       Inr [(''status'', PStr (ve_status v)), (''repo'', PStr (re_repo env)), (''pr_number'', PStr (re_pr_number env)),
            (''item_id'', PNone), (''item_kind'', PNone), (''counts'', PDict (map (\<lambda>k. (k, PNone)) count_names)),
            (''artifact_path'', PStr (re_workspace env)), (''reason_code'', PStr (ve_reason_code v)),
            (''waiting_on'', or_null (ve_waiting_on v)), (''next_action'', PStr (ve_next_action v)),
            (''exit_code'', PInt (ve_exit v)), (''gate_scope'', PStr ''inline''),
            (''commands'', PDict (summary_commands (re_repo env) (re_pr_number env))),
            (''primary_action'', PDict (action_dict act))])"

definition stack_of_session :: "review_env \<Rightarrow> pydict \<Rightarrow> py_exn + pydict" where
  "stack_of_session env session =
     (case cached_stack_context session of
        Some c \<Rightarrow> if c = [] then sum_bind (unavailable_stack_context (re_repo env) (re_pr_number env) (re_now env) None)
                               (\<lambda>u. Inr (context_to_dict u))
                  else Inr c
      | None \<Rightarrow> sum_bind (unavailable_stack_context (re_repo env) (re_pr_number env) (re_now env) None)
                  (\<lambda>u. Inr (context_to_dict u)))"

definition opt_field :: "pydict option \<Rightarrow> string \<Rightarrow> pyval" where
  "opt_field item k = (case item of None \<Rightarrow> PNone | Some i \<Rightarrow> dget i k)"

text \<open>The fields of a summary that do not depend on what is recorded about it.\<close>

definition base_summary ::
    "review_env \<Rightarrow> verdict \<Rightarrow> string option \<Rightarrow> pydict option \<Rightarrow> pydict \<Rightarrow> pydict \<Rightarrow> pydict" where
  "base_summary env v artifact item stack session =
     (let metrics = (case dget session ''metrics'' of PDict d \<Rightarrow> d | _ \<Rightarrow> []);
          availability = py_str (py_or (dget stack ''availability'') (PStr ''unavailable''))
      in [(''status'', PStr (ve_status v)), (''repo'', PStr (re_repo env)), (''pr_number'', PStr (re_pr_number env)),
          (''item_id'', opt_field item ''item_id''), (''item_kind'', opt_field item ''item_kind''),
          (''counts'', PDict (map (metric_count metrics) count_names)),
          (''artifact_path'', PStr (case artifact of None \<Rightarrow> re_workspace env | Some p \<Rightarrow> p)),
          (''reason_code'', PStr (ve_reason_code v)), (''waiting_on'', or_null (ve_waiting_on v)),
          (''next_action'', PStr (ve_next_action v)), (''exit_code'', PInt (ve_exit v)), (''gate_scope'', PStr ''inline''),
          (''completion_scope'', PStr ''pull_request''), (''stack_context'', PDict stack),
          (''stack_merge_readiness'',
            PStr (if availability \<in> {''unavailable'', ''invalid''} then ''unknown'' else ''not_evaluated'')),
          (''commands'', PDict (summary_commands (re_repo env) (re_pr_number env)))])"

text \<open>An action that differs from the last one recorded is stored, with a save of its own.\<close>

definition with_observation :: "review_env \<Rightarrow> primary_action \<Rightarrow> pydict \<Rightarrow> pydict option" where
  "with_observation env act session =
     (let metadata = (case dget session ''metadata'' of PDict d \<Rightarrow> d | _ \<Rightarrow> []);
          session1 = dset ''metadata'' (PDict metadata) session;
          observation = build_recommendation_observation session1 act (re_now env)
      in if is_dict (dget metadata ''recommendation_observation'')
            \<and> nested_get (dget metadata ''recommendation_observation'') ''fingerprint'' = dget observation ''fingerprint''
         then None
         else Some (dset ''metadata'' (PDict (dset ''recommendation_observation'' (PDict observation) metadata)) session1))"

type_synonym review_state = "pydict \<times> runtime_store option"

definition save_after :: "review_env \<Rightarrow> nat \<Rightarrow> review_state \<Rightarrow> (effect_error + unit) \<times> review_state" where
  "save_after env n = (\<lambda>(session, st).
     case save_session session (re_others env n st) of (r, session', st') \<Rightarrow> (r, session', st'))"

definition record_recommendation ::
    "review_env \<Rightarrow> primary_action \<Rightarrow> review_state \<Rightarrow> (effect_error + unit) \<times> review_state" where
  "record_recommendation env act = (\<lambda>(session, st).
     case with_observation env act session of
       None \<Rightarrow> (Inr (), (session, st))
     | Some session' \<Rightarrow> save_after env 1 (session', st))"

definition native_summary ::
    "review_env \<Rightarrow> review_args \<Rightarrow> verdict \<Rightarrow> string option \<Rightarrow> pydict option \<Rightarrow> pydict \<Rightarrow> bool
       \<Rightarrow> review_state \<Rightarrow> (effect_error + pydict) \<times> review_state" where
  "native_summary env args v artifact item diagnostics include_threads = (\<lambda>(session, st).
     case sum_bind (stack_of_session env session) (\<lambda>stack.
            sum_bind (project_primary_action (re_repo env) (re_pr_number env) (ra_command args) (ve_status v)
                        (ve_reason_code v) (ve_waiting_on v) session) (\<lambda>act. Inr (stack, act))) of
       Inl e \<Rightarrow> (Inl (EffectRaised e), (session, st))
     | Inr (stack, act) \<Rightarrow>
         (let summary = base_summary env v artifact item stack session
                @ [(''primary_action'', PDict (action_dict act)),
                   (''context'', PDict (project_context_summary session (pa_item_id act)))]
          in case (if session = [] then (Inr (), (session, st)) else record_recommendation env act (session, st)) of
               (Inl e, w) \<Rightarrow> (Inl e, w)
             | (Inr _, w) \<Rightarrow>
                 (Inr (summary @ (if diagnostics = [] then [] else [(''diagnostics'', PDict diagnostics)])
                       @ (if ra_command args = ''threads'' \<or> include_threads
                          then [(''threads'', PList (map PDict (native_thread_rows (ra_lean args) (fst w))))] else [])), w)))"

section \<open>Request files\<close>

definition native_action_request :: "review_env \<Rightarrow> string \<Rightarrow> string \<Rightarrow> pydict \<Rightarrow> pydict" where
  "native_action_request env command run_id item =
     [(''mode'', PStr ''native-runtime-fixer''), (''repo'', PStr (re_repo env)), (''pr_number'', PStr (re_pr_number env)),
      (''run_id'', PStr run_id), (''item'', PDict (request_item_projection item)),
      (''instructions'', PList
         [PStr ''Inspect the selected item and decide one resolution: fix, clarify, defer, or reject.'',
          PStr (''Submit structured evidence with '' @ in_backticks ''gh-address-cr agent submit''
                @ '' or rerun the originating command after recording the fix.'')]),
      (''resume_command'', PStr (''gh-address-cr '' @ command @ '' '' @ re_repo env @ '' '' @ re_pr_number env))]"

definition native_request_path :: "review_env \<Rightarrow> string \<Rightarrow> string" where
  "native_request_path env run_id =
     re_workspace env @ ''/loop-request-native-'' @ run_id @ ''-'' @ re_uuid env @ ''.json''"

definition simple_request_path :: "review_env \<Rightarrow> string \<Rightarrow> string" where
  "simple_request_path env run_id =
     re_workspace env @ ''/simple-address-request-'' @ run_id @ ''-'' @ re_uuid env @ ''.json''"

definition simple_instructions :: "string list" where
  "simple_instructions =
     [''Resolve each actionable GitHub thread with '' @ in_backticks ''agent resolve <item_id> ...''
        @ ''; classification is recorded internally, no separate classify step is required.'',
      ''When one set of files/validation evidence addresses multiple threads, run '' @ in_backticks ''agent next --batch''
        @ '' to write a BatchActionResponse skeleton, then '' @ in_backticks ''agent resolve --input <file>''
        @ '' with per-thread summary/why entries.'',
      ''Use '' @ in_backticks ''agent resolve --why <why>'' @ '' only for a homogeneous repeated concern, and ''
        @ in_backticks ''agent resolve --stale'' @ '' for STALE/outdated threads.'',
      ''To decline (not fix) a repeated concern across threads with one shared reply, use ''
        @ in_backticks ''agent resolve --disposition reject|clarify --files <paths> --why <why>'' @ ''.'',
      ''After accepted evidence is present, run '' @ in_backticks ''agent publish'' @ ''.'']"

definition simple_address_request :: "review_env \<Rightarrow> string \<Rightarrow> string \<Rightarrow> pydict \<Rightarrow> pydict" where
  "simple_address_request env command run_id session =
     (let rows = native_thread_rows False session; ids = claimable_item_ids rows
      in [(''mode'', PStr ''simple-address''), (''repo'', PStr (re_repo env)), (''pr_number'', PStr (re_pr_number env)),
          (''run_id'', PStr run_id), (''source_command'', PStr command), (''threads'', PList (map PDict rows)),
          (''claimable_item_ids'', PList (map PStr ids)), (''batch_response_skeleton'', PDict (batch_response_skeleton ids)),
          (''instructions'', PList (map PStr simple_instructions)),
          (''commands'', PDict (summary_commands (re_repo env) (re_pr_number env)))])"

section \<open>The steps of a run\<close>

datatype review_error =
    BadFindings string
  | GitHubFailed github_error
  | Escaped py_exn

definition preflight_block :: "string \<Rightarrow> verdict" where
  "preflight_block next_action =
     \<lparr>ve_status = ''BLOCKED'', ve_reason_code = ''INVALID_FINDINGS_INPUT'', ve_waiting_on = Some ''findings_input'',
      ve_next_action = next_action, ve_exit = 2\<rparr>"

definition reads_input :: "review_args \<Rightarrow> bool" where
  "reads_input args \<longleftrightarrow> ra_command args \<in> {''review'', ''findings''} \<and> ra_input args"

definition preflight_error :: "review_env \<Rightarrow> review_args \<Rightarrow> string option" where
  "preflight_error env args =
     (if ra_sync args \<and> ra_source args = []
      then Some (in_backticks ''--sync''
             @ '' requires an explicit --source so missing findings stay scoped to one producer.'')
      else if reads_input args
      then (case re_findings env of
              Inl text \<Rightarrow> Some text
            | Inr raw \<Rightarrow> if py_strip raw = [] then Some EMPTY_FINDINGS_INPUT_MESSAGE else None)
      else None)"

definition run_id_of :: "review_env \<Rightarrow> review_args \<Rightarrow> string" where
  "run_id_of env args =
     (if ra_audit_id args \<noteq> [] then ra_audit_id args else ''native-'' @ replace_char CHR '':'' CHR ''-'' (re_now env))"

definition load_or_create ::
    "review_env \<Rightarrow> runtime_store option \<Rightarrow> (effect_error + pydict) \<times> runtime_store option" where
  "load_or_create env st =
     (case load_session (re_repo env) (re_pr_number env) (re_ledger_path env) (re_lock_held env) st of
        (Inr session, st') \<Rightarrow> (Inr (ensure_native_session_fields (re_now env) session), st')
      | (Inl (SessionError code detail), st') \<Rightarrow>
          if code = ''SESSION_NOT_FOUND''
          then (Inr (ensure_native_session_fields (re_now env)
                  (new_session (re_repo env) (re_pr_number env) (re_ledger_path env) ''ACTIVE'')), st')
          else (Inl (SessionError code detail), st')
      | (Inl e, st') \<Rightarrow> (Inl e, st'))"

definition with_loop :: "review_env \<Rightarrow> review_args \<Rightarrow> string \<Rightarrow> pyval \<Rightarrow> string \<Rightarrow> pydict \<Rightarrow> pydict" where
  "with_loop env args status item_id last_error session =
     set_loop_state (re_now env)
       \<lparr>lo_run_id = run_id_of env args, lo_status = status, lo_iteration = 1, lo_max_iterations = ra_max_iterations args,
        lo_current_item = item_id, lo_last_error = last_error\<rparr> session"

definition intake_failure :: "review_env \<Rightarrow> intake_error \<Rightarrow> review_error" where
  "intake_failure env e =
     (case e of
        FindingsFormatError text \<Rightarrow> BadFindings text
      | NotJson \<Rightarrow> BadFindings (re_json_error env)
      | BadNdjson n \<Rightarrow> BadFindings (''Invalid NDJSON input on line '' @ nat_dec n @ '': '' @ re_json_error env)
      | IntakeRaised x \<Rightarrow> Escaped x)"

definition ingest_options_of :: "review_args \<Rightarrow> ingest_options" where
  "ingest_options_of args =
     \<lparr>io_source = (if ra_source args \<noteq> [] then ra_source args else if ra_command args = ''adapter'' then ''adapter'' else ''json''),
      io_sync = ra_sync args, io_scan_id = ra_scan_id args,
      io_handoff_sha256 = (if ra_command args = ''adapter'' then [] else ra_handoff_sha256 args)\<rparr>"

definition ingest_raw :: "review_env \<Rightarrow> review_args \<Rightarrow> string \<Rightarrow> pydict \<Rightarrow> review_error + pydict" where
  "ingest_raw env args raw session =
     (case ingest_native_findings (re_now env) (ingest_options_of args) raw session of
        Inl e \<Rightarrow> Inl (intake_failure env e) | Inr (findings, session') \<Rightarrow> Inr session')"

definition ingest_step :: "review_env \<Rightarrow> review_args \<Rightarrow> pydict \<Rightarrow> review_error + pydict" where
  "ingest_step env args session =
     (if reads_input args
      then ingest_raw env args (case re_findings env of Inl e \<Rightarrow> [] | Inr raw \<Rightarrow> raw) session
      else if ra_command args = ''adapter''
      then (case re_adapter env of
              Inl text \<Rightarrow> if text = [] then ingest_raw env args [] session else Inl (BadFindings text)
            | Inr raw \<Rightarrow> ingest_raw env args raw session)
      else Inr session)"

definition check_counts :: "pydict list \<Rightarrow> pydict" where
  "check_counts checks =
     foldl (\<lambda>counts check.
              let bucket = py_lower (py_str (py_or (dget check ''bucket'') (PStr ''unknown'')))
              in dset bucket (PInt (1 + (case dget counts bucket of PInt n \<Rightarrow> n | _ \<Rightarrow> 0))) counts) [] checks"

definition check_summary :: "github_error + pydict list \<Rightarrow> pydict" where
  "check_summary checks =
     (case checks of
        Inr rows \<Rightarrow> [(''availability'', PStr ''present''), (''counts'', PDict (check_counts rows))]
      | Inl e \<Rightarrow>
          if ge_reason_code e = ''GITHUB_PR_HAS_NO_CHECKS''
          then [(''availability'', PStr ''present''), (''counts'', PDict [])]
          else [(''availability'', PStr ''unavailable''), (''counts'', PDict []), (''diagnostic_code'', PStr (ge_reason_code e))])"

definition with_check_metadata :: "review_reads \<Rightarrow> pydict \<Rightarrow> pydict" where
  "with_check_metadata reads session =
     (case dget_default session ''metadata'' (PDict []) of
        PDict metadata \<Rightarrow>
          (let m1 = dset ''check_summary'' (PDict (check_summary (rr_checks reads))) metadata;
               m2 = (case rr_files reads of
                       Inr files \<Rightarrow> dset ''changed_files'' (PList files) m1
                     | Inl e \<Rightarrow> dset ''changed_files_diagnostic_code'' (PStr (ge_reason_code e)) (dset ''changed_files'' (PList []) m1))
           in dset ''metadata'' (PDict m2) session)
      | _ \<Rightarrow> session)"

definition observed_stack :: "review_env \<Rightarrow> py_exn + stack_context" where
  "observed_stack env =
     (case rr_stack (re_reads env) of
        Some c \<Rightarrow> Inr c
      | None \<Rightarrow> unavailable_stack_context (re_repo env) (re_pr_number env) (re_now env) None)"

text \<open>The result, and the session as the error handlers see it.\<close>

definition observe_step :: "review_env \<Rightarrow> pydict \<Rightarrow> (review_error + (pydict \<times> pydict list)) \<times> pydict" where
  "observe_step env session =
     (case observed_stack env of
        Inl e \<Rightarrow> (Inl (Escaped e), session)
      | Inr c \<Rightarrow>
          (let s1 = cache_pull_request_context session (context_to_dict c)
           in case rr_threads (re_reads env) of
                Inl e \<Rightarrow> (Inl (GitHubFailed e), s1)
              | Inr rows \<Rightarrow>
                  (case record_new_item_observations (re_now env) (Some (re_now env)) (map fst (doc_items s1))
                          (session_with_remote_threads s1 rows None) of
                     Inl e \<Rightarrow> (Inl (Escaped e), s1)
                   | Inr s2 \<Rightarrow> (Inr (with_check_metadata (re_reads env) s2, rows), s1))))"

definition ingest_and_load ::
    "review_env \<Rightarrow> review_args \<Rightarrow> pydict \<Rightarrow> (review_error + (pydict \<times> pydict list)) \<times> pydict" where
  "ingest_and_load env args session =
     (case ingest_step env args session of
        Inl e \<Rightarrow> (Inl e, session)
      | Inr s1 \<Rightarrow>
          if ra_command args \<in> {''address'', ''review'', ''threads'', ''adapter''} then observe_step env s1
          else (Inr (s1, []), s1))"

section \<open>The end of a run\<close>

type_synonym review_end = "(effect_error + review_outcome) \<times> runtime_store option"

text \<open>Every run ends by saving its session with its loop state and counters, and then summarises it.\<close>

definition final_session :: "review_env \<Rightarrow> review_args \<Rightarrow> verdict \<Rightarrow> pydict option \<Rightarrow> pydict \<Rightarrow> pydict" where
  "final_session env args v item session =
     recalc_native_metrics
       (with_loop env args (ve_status v) (opt_field item ''item_id'')
          (if ve_status v = ''PASSED'' then [] else ve_next_action v) session)"

definition finish ::
    "review_env \<Rightarrow> review_args \<Rightarrow> verdict \<Rightarrow> (string \<times> pydict) option \<Rightarrow> pydict option \<Rightarrow> pydict \<Rightarrow> bool
       \<Rightarrow> pydict \<Rightarrow> runtime_store option \<Rightarrow> review_end" where
  "finish env args v artifact item diagnostics include_threads session st =
     (case save_after env 0 (final_session env args v item session, st) of
        (Inl e, (s1, st1)) \<Rightarrow> (Inl e, st1)
      | (Inr _, w1) \<Rightarrow>
          (case native_summary env args v (map_option fst artifact) item diagnostics include_threads w1 of
             (Inl e, (s2, st2)) \<Rightarrow> (Inl e, st2)
           | (Inr summary, (s2, st2)) \<Rightarrow>
               (Inr \<lparr>rv_exit = ve_exit v, rv_summary = summary, rv_artifact = artifact\<rparr>, st2)))"

definition blocked :: "string \<Rightarrow> string \<Rightarrow> string \<Rightarrow> int \<Rightarrow> verdict" where
  "blocked reason_code waiting_on next_action code =
     \<lparr>ve_status = ''BLOCKED'', ve_reason_code = reason_code, ve_waiting_on = Some waiting_on, ve_next_action = next_action,
      ve_exit = code\<rparr>"

definition github_waiting_on :: "pydict \<Rightarrow> string" where
  "github_waiting_on diagnostics =
     (let category = dget diagnostics ''stderr_category''
      in if category = PStr ''auth'' then ''github_auth''
         else if category = PStr ''network'' then ''github_network''
         else if category = PStr ''permission_mismatch'' then ''github_permission''
         else if category \<in> {PStr ''environment'', PStr ''sandbox''} then ''github_environment''
         else if category = PStr ''rate_limit'' then ''github_rate_limit''
         else ''github'')"

definition handle_failure ::
    "review_env \<Rightarrow> review_args \<Rightarrow> review_error \<Rightarrow> pydict \<Rightarrow> runtime_store option \<Rightarrow> review_end" where
  "handle_failure env args e session st =
     (case e of
        Escaped x \<Rightarrow> (Inl (EffectRaised x), st)
      | BadFindings text \<Rightarrow>
          finish env args (blocked ''INVALID_FINDINGS_INPUT'' ''findings_input'' text 2) None None [] False session st
      | GitHubFailed g \<Rightarrow>
          finish env args (blocked (ge_reason_code g) (github_waiting_on (ge_diagnostics g)) (ge_detail g) 5)
            None None (ge_diagnostics g) False session st)"

definition auto_simple_run :: "review_args \<Rightarrow> bool" where
  "auto_simple_run args \<longleftrightarrow> ra_command args = ''address'' \<or> (ra_command args = ''review'' \<and> ra_auto_simple args)"

definition not_eligible_text :: string where
  "not_eligible_text =
     ''Auto-simple only handles GitHub review threads. Run normal review/findings/adapter workflow ''
     @ ''to handle local findings, then rerun this command.''"

definition emit_auto_simple_not_eligible ::
    "review_env \<Rightarrow> review_args \<Rightarrow> pydict option \<Rightarrow> pydict \<Rightarrow> runtime_store option \<Rightarrow> review_end" where
  "emit_auto_simple_not_eligible env args item session st =
     finish env args (blocked ''AUTO_SIMPLE_NOT_ELIGIBLE'' ''local_findings'' not_eligible_text 5) None item [] True session st"

definition auto_simple_local_gate_failed :: "gate_result \<Rightarrow> bool" where
  "auto_simple_local_gate_failed r \<longleftrightarrow>
     list_ex (\<lambda>c. c \<in> {''FINAL_GATE_BLOCKING_LOCAL_ITEMS'', ''FINAL_GATE_MISSING_VALIDATION_EVIDENCE''}) (gr_failure_codes r)"

definition first_local_or_blocking :: "pydict \<Rightarrow> pydict option" where
  "first_local_or_blocking session =
     (case first_local_item session of
        Some i \<Rightarrow> if i = [] then first_blocking_item session else Some i
      | None \<Rightarrow> first_blocking_item session)"

definition emit_simple_address ::
    "review_env \<Rightarrow> review_args \<Rightarrow> gate_result \<Rightarrow> pydict \<Rightarrow> runtime_store option \<Rightarrow> review_end" where
  "emit_simple_address env args r session st =
     (if auto_simple_local_gate_failed r
      then emit_auto_simple_not_eligible env args (first_local_or_blocking session) session st
      else finish env args
             (blocked ''WAITING_FOR_SIMPLE_ADDRESS'' ''agent_fix''
               (''Address GitHub review threads with per-thread agent evidence, then run ''
                @ in_backticks (''gh-address-cr agent publish '' @ re_repo env @ '' '' @ re_pr_number env)
                @ '' and rerun this command.'') 5)
             (Some (simple_request_path env (run_id_of env args),
                    simple_address_request env (ra_command args) (run_id_of env args) session))
             (first_blocking_item session) [] True session st)"

definition waiting_for_fix :: "review_env \<Rightarrow> review_args \<Rightarrow> string \<Rightarrow> verdict" where
  "waiting_for_fix env args path =
     blocked ''WAITING_FOR_FIX'' ''human_fix''
       (''Address the finding by running: ''
        @ in_backticks (''gh-address-cr submit-action '' @ path @ '' --resolution <fix|clarify|defer|reject> --note <note> -- ''
            @ ''gh-address-cr '' @ ra_command args @ '' '' @ re_repo env @ '' '' @ re_pr_number env)) 5"

definition emit_blocked ::
    "review_env \<Rightarrow> review_args \<Rightarrow> gate_result \<Rightarrow> pydict \<Rightarrow> runtime_store option \<Rightarrow> review_end" where
  "emit_blocked env args r session st =
     (let item = first_blocking_item session; path = native_request_path env (run_id_of env args)
      in if opt_field item ''item_kind'' = PStr ''local_finding''
         then finish env args (waiting_for_fix env args path)
                (map_option (\<lambda>i. (path, native_action_request env (ra_command args) (run_id_of env args) i)) item)
                item [] False session st
         else finish env args (blocked ''BLOCKING_ITEMS_REMAIN'' ''unresolved_items'' (gate_next_action r) 5)
                None item [] False session st)"

definition passed_verdict :: "review_env \<Rightarrow> review_args \<Rightarrow> verdict" where
  "passed_verdict env args =
     \<lparr>ve_status = ''PASSED'', ve_reason_code = ''PASSED'', ve_waiting_on = None,
      ve_next_action =
        (if ra_command args = ''findings''
         then ''Run '' @ in_backticks (''gh-address-cr review '' @ re_repo env @ '' '' @ re_pr_number env)
              @ '' to continue PR orchestration, including GitHub thread handling and final-gate checks.''
         else ''No action required.''),
      ve_exit = 0\<rparr>"

definition emit_gate ::
    "review_env \<Rightarrow> review_args \<Rightarrow> gate_result \<Rightarrow> pydict \<Rightarrow> runtime_store option \<Rightarrow> review_end" where
  "emit_gate env args r session st =
     (if gate_passed r then finish env args (passed_verdict env args) None None [] (auto_simple_run args) session st
      else if auto_simple_run args then emit_simple_address env args r session st
      else emit_blocked env args r session st)"

section \<open>A run\<close>

definition run_loaded :: "review_env \<Rightarrow> review_args \<Rightarrow> pydict \<Rightarrow> runtime_store option \<Rightarrow> review_end" where
  "run_loaded env args session st =
     (case ingest_and_load env args (with_loop env args ''ACTIVE'' PNone [] session) of
        (Inl e, s1) \<Rightarrow> handle_failure env args e s1 st
      | (Inr (s1, remote_threads), s2) \<Rightarrow>
          (let s = recalc_native_metrics s1
           in if auto_simple_run args \<and> blocking_local_items s \<noteq> []
              then emit_auto_simple_not_eligible env args (Some (hd (blocking_local_items s))) s st
              else case evaluate_final_gate s remote_threads [] None [] None of
                     Inl e \<Rightarrow> (Inl (EffectRaised e), st)
                   | Inr r \<Rightarrow> emit_gate env args r s st))"

definition handle_parsed :: "review_env \<Rightarrow> review_args \<Rightarrow> runtime_store option \<Rightarrow> review_end" where
  "handle_parsed env args st =
     (case preflight_error env args of
        Some text \<Rightarrow>
          (case preflight_summary env (ra_command args) (preflight_block text) of
             Inl e \<Rightarrow> (Inl (EffectRaised e), st)
           | Inr summary \<Rightarrow> (Inr \<lparr>rv_exit = 2, rv_summary = summary, rv_artifact = None\<rparr>, st))
      | None \<Rightarrow>
          (case load_or_create env st of
             (Inl e, st1) \<Rightarrow> (Inl e, st1)
           | (Inr session, st1) \<Rightarrow> run_loaded env args session st1))"

definition PERSISTENCE_NEXT_ACTIONS :: "(string \<times> string) list" where
  "PERSISTENCE_NEXT_ACTIONS =
     [(''STALE_REVISION'',
       ''Another gh-address-cr command changed this session after it was loaded. Rerun the same command; ''
       @ ''it reloads the current state.''),
      (''PERSISTENCE_BUSY'',
       ''The runtime store stayed locked past its bounded wait. Let the other gh-address-cr command finish, ''
       @ ''then rerun the same command.''),
      (''PERSISTENCE_INVALID'',
       ''The runtime store failed an integrity check. Stop: do not edit session.json, evidence.jsonl, or ''
       @ ''runtime.sqlite3, and keep legacy-v1-recovery intact. Report it with ''
       @ in_backticks ''gh-address-cr submit-feedback'' @ ''.'')]"

definition session_error_guidance :: "string \<Rightarrow> string \<Rightarrow> verdict" where
  "session_error_guidance reason_code text =
     (case map_of PERSISTENCE_NEXT_ACTIONS reason_code of
        Some hint \<Rightarrow> blocked reason_code ''runtime_store'' (hint @ '' ('' @ text @ '')'') 5
      | None \<Rightarrow>
          blocked reason_code
            (if reason_code = ''STATE_DIR_NOT_WRITABLE'' then ''state_directory''
             else if reason_code \<in> {''INVALID_REPO'', ''INVALID_PR_NUMBER''} then ''pr_scope'' else ''session'') text 5)"

definition retryable_reason :: "string \<Rightarrow> bool" where
  "retryable_reason reason_code \<longleftrightarrow> reason_code \<in> set RETRYABLE_SESSION_REASONS"

definition emit_session_error ::
    "review_env \<Rightarrow> review_args \<Rightarrow> effect_error \<Rightarrow> string \<Rightarrow> runtime_store option \<Rightarrow> review_end" where
  "emit_session_error env args e reason_code st =
     (case native_summary env args (session_error_guidance reason_code (re_error_text env e)) None None [] False ([], st) of
        (Inl x, w) \<Rightarrow> (Inl x, st)
      | (Inr summary, w) \<Rightarrow>
          (Inr \<lparr>rv_exit = 5, rv_summary = summary @ [(''retryable'', PBool (retryable_reason reason_code))],
                rv_artifact = None\<rparr>, st))"

text \<open>A session that cannot be loaded or saved is reported; any other exception is raised.\<close>

definition handle_review :: "review_env \<Rightarrow> review_args \<Rightarrow> runtime_store option \<Rightarrow> review_end" where
  "handle_review env args st =
     (case handle_parsed env args st of
        (Inl (SessionError code detail), st') \<Rightarrow> emit_session_error env args (SessionError code detail) code st'
      | other \<Rightarrow> other)"

end
