(* ===== verification/Intake_Properties.thy ===== *)
theory Intake_Properties
  imports Findings_Ingest
begin

text \<open>
  The properties of the intake of findings: findings survive their canonical payload, fenced
  blocks are read back as they were written, and what an ingestion changes in a session,
  exactly.
\<close>

section \<open>Canonical payloads\<close>

lemma kept_fields_has_key [simp]:
  "has_key (kept_fields ks d) k \<longleftrightarrow> k \<in> set ks \<and> has_key d k \<and> given_value (dget d k)"
  by (induction ks) (auto simp: kept_fields_def map_filter_simps)

lemma kept_fields_dget: "dget (kept_fields ks d) k = (if has_key (kept_fields ks d) k then dget d k else PNone)"
  by (induction ks) (auto simp: kept_fields_def map_filter_simps dget_not_has_key)

lemma kept_fields_same:
  assumes "\<And>k. k \<in> set ks \<Longrightarrow> (has_key d k \<and> given_value (dget d k)) = (has_key e k \<and> given_value (dget e k))"
    and "\<And>k. k \<in> set ks \<Longrightarrow> has_key d k \<Longrightarrow> given_value (dget d k) \<Longrightarrow> dget d k = dget e k"
  shows "kept_fields ks d = kept_fields ks e"
proof -
  have "(if has_key d k \<and> given_value (dget d k) then Some (k, dget d k) else None)
      = (if has_key e k \<and> given_value (dget e k) then Some (k, dget e k) else None)" if "k \<in> set ks" for k
    using assms [OF that] by auto
  then show ?thesis unfolding kept_fields_def by (induction ks) (simp_all add: map_filter_simps)
qed

lemma kept_fields_cong:
  "(\<And>k. k \<in> set ks \<Longrightarrow> map_of d k = map_of e k) \<Longrightarrow> kept_fields ks d = kept_fields ks e"
  by (rule kept_fields_same) (simp_all add: has_key_def dget_def)

lemma kept_fields_kept:
  assumes "\<And>k. k \<in> set ks \<Longrightarrow> \<not> has_key base k"
  shows "kept_fields ks (base @ kept_fields ks d) = kept_fields ks d"
  by (rule kept_fields_same) (use assms in \<open>auto simp: dget_append kept_fields_dget\<close>)

text \<open>The fields of a finding that its normal form is made of.\<close>

definition finding_keys :: "string list" where
  "finding_keys =
     [''path'', ''file'', ''filename'', ''line'', ''start_line'', ''position'', ''title'', ''rule'', ''check'', ''body'',
      ''message'', ''description'', ''end_line'', ''severity'', ''category'', ''confidence'', ''head_sha'']"

lemma normalize_finding_cong:
  assumes "\<And>k. k \<in> set finding_keys \<Longrightarrow> map_of d k = map_of e k"
  shows "normalize_finding (PDict d) = normalize_finding (PDict e)"
proof -
  have g: "list_all (\<lambda>k. dget d k = dget e k) finding_keys"
    using assms by (simp add: dget_def list_all_iff)
  have "kept_fields [''start_line'', ''end_line'', ''severity'', ''category'', ''confidence'', ''head_sha''] d
      = kept_fields [''start_line'', ''end_line'', ''severity'', ''category'', ''confidence'', ''head_sha''] e"
    by (rule kept_fields_cong) (use assms in \<open>auto simp: finding_keys_def\<close>)
  then show ?thesis
    using g by (simp add: normalize_finding_def first_truthy_def finding_keys_def Let_def split: sum.split)
qed

lemma normalize_finding_Inr:
  assumes "normalize_finding v = Inr f"
  obtains t p n b d where "f = [(''title'', PStr t), (''path'', PStr p), (''line'', PInt n), (''body'', PStr b)]
      @ kept_fields [''start_line'', ''end_line'', ''severity'', ''category'', ''confidence'', ''head_sha''] d"
    "t \<noteq> []" "p \<noteq> []" "b \<noteq> []"
proof -
  obtain d where v: "v = PDict d" using assms by (cases v) (simp_all add: normalize_finding_def)
  define path where "path = first_truthy d [''path'', ''file''] (dget d ''filename'')"
  define title where "title = first_truthy d [''title'', ''rule'', ''check''] (PStr ''Imported review finding'')"
  define body where "body = first_truthy d [''body'', ''message'', ''description''] title"
  have "truthy title" by (auto simp: title_def first_truthy_def py_or_def)
  then have "truthy body" by (auto simp: body_def first_truthy_def py_or_def)
  obtain n where "truthy path" and f: "f = [(''title'', PStr (py_str title)), (''path'', PStr (py_str path)), (''line'', PInt n),
      (''body'', PStr (py_str body))]
      @ kept_fields [''start_line'', ''end_line'', ''severity'', ''category'', ''confidence'', ''head_sha''] d"
    using assms unfolding v normalize_finding_def path_def title_def body_def
    by (auto simp: Let_def split: if_splits sum.splits)
  from that [OF f] \<open>truthy title\<close> \<open>truthy body\<close> \<open>truthy path\<close> show thesis by (simp add: py_str_truthy)
qed

lemma normalize_finding_idem:
  assumes "normalize_finding v = Inr f" "dget f ''line'' \<noteq> PInt 0"
  shows "normalize_finding (PDict f) = Inr f"
proof -
  let ?ks = "[''start_line'', ''end_line'', ''severity'', ''category'', ''confidence'', ''head_sha'']"
  obtain t p n b d where f: "f = [(''title'', PStr t), (''path'', PStr p), (''line'', PInt n), (''body'', PStr b)] @ kept_fields ?ks d"
    and ne: "t \<noteq> []" "p \<noteq> []" "b \<noteq> []" by (rule normalize_finding_Inr [OF assms(1)])
  have n: "n \<noteq> 0" using assms(2) by (simp add: f)
  have "kept_fields ?ks ([(''title'', PStr t), (''path'', PStr p), (''line'', PInt n), (''body'', PStr b)] @ kept_fields ?ks d)
      = kept_fields ?ks d"
    by (rule kept_fields_kept) auto
  then show ?thesis
    using ne n by (simp add: f normalize_finding_def first_truthy_def py_or_def given_value_def Let_def)
qed

lemma map_of_sorted: "distinct (map fst d) \<Longrightarrow> map_of (sort_key fst d) = map_of d"
  by (simp add: map_of_inject_set distinct_map)

text \<open>A finding whose values are read back as they are printed.\<close>

definition printable :: "pydict \<Rightarrow> bool" where
  "printable f \<longleftrightarrow> distinct (map fst f) \<and> list_all (\<lambda>(k, v). json_ok v \<and> json_sorted v = v) f"

lemma json_sorted_printable: "printable f \<Longrightarrow> json_sorted (PDict f) = PDict (sort_key fst f)"
  unfolding printable_def json_sorted_dict
  by (auto simp: list_all_iff intro!: map_idI)

lemma json_chars_canonical: "\<exists>u. canonical_findings_payload fs = CHR ''['' # u @ '']''"
  by (simp add: canonical_findings_payload_def json_dumps_def)

lemma parse_canonical:
  assumes "list_all printable fs"
  shows "parse_records (canonical_findings_payload fs) = Inr (map (\<lambda>f. PDict (sort_key fst f)) fs)"
proof -
  obtain u where u: "canonical_findings_payload fs = CHR ''['' # u @ '']''" using json_chars_canonical by blast
  have "py_strip (canonical_findings_payload fs) = canonical_findings_payload fs"
    by (rule py_strip_id) (simp add: u is_space_def)
  moreover have "json_ok (PList (map PDict fs))"
    using assms by (auto simp: list_all_iff printable_def)
  then have "json_loads (canonical_findings_payload fs) = Some (PList (map (\<lambda>f. PDict (sort_key fst f)) fs))"
    using assms json_sorted_printable
    by (simp add: canonical_findings_payload_def json_loads_dumps list_all_iff del: json_sorted.simps(2))
  ultimately show ?thesis by (simp add: parse_records_def u startswith_def)
qed

lemma with_local_item_fields_cong:
  "k \<notin> {''item_id'', ''item_kind'', ''source''} \<Longrightarrow> map_of (with_local_item_fields src f) k = map_of f k"
  by (auto simp: with_local_item_fields_def dset_def update_conv')

lemma resubmitted_finding:
  assumes "normalize_finding v = Inr base" "f = with_local_item_fields src base" "printable f" "dget f ''line'' \<noteq> PInt 0"
  shows "normalize_finding (PDict (sort_key fst f)) = Inr base"
proof -
  have "dget base ''line'' \<noteq> PInt 0" using assms(2,4) by (simp add: with_local_item_fields_def)
  then have "normalize_finding (PDict base) = Inr base" by (rule normalize_finding_idem [OF assms(1)])
  moreover have "map_of (sort_key fst f) k = map_of base k" if "k \<in> set finding_keys" for k
    using assms(3) with_local_item_fields_cong [of k src base] that
    by (auto simp: map_of_sorted printable_def assms(2) finding_keys_def)
  ultimately show ?thesis using normalize_finding_cong by metis
qed

text \<open>
  C21: Findings survive their canonical payload. When a payload is accepted from a producer of
  JSON findings, the canonical text of the accepted findings, with the ids and kinds the
  program added, is accepted again from the same producer and gives the same findings: every
  field and every item id. The lines must not be 0 (a missing line for the program) and the
  remaining values must print as they are read, with the keys of nested objects in order.
\<close>

theorem findings_survive_resubmission:
  assumes "source \<in> {''json'', ''code-review'', ''adapter''}" "normalize_findings_payload source raw = Inr findings"
    and "list_all (\<lambda>f. printable f \<and> dget f ''line'' \<noteq> PInt 0) findings"
  shows "normalize_findings_payload source (canonical_findings_payload findings) = Inr findings"
proof -
  obtain vs bases where "parse_records raw = Inr vs" and b: "sum_map normalize_finding vs = Inr bases"
      and f: "findings = map (with_local_item_fields source) bases"
    using assms(1,2) by (auto simp: normalize_findings_payload_def sum_bind_def split: sum.splits if_splits)
  have "parse_records (canonical_findings_payload findings) = Inr (map (\<lambda>f. PDict (sort_key fst f)) findings)"
    using assms(3) by (intro parse_canonical) (auto simp: list_all_iff)
  moreover have "list_all2 (\<lambda>v b. normalize_finding v = Inr b) vs bases" using b by (simp add: sum_map_Inr)
  then have "list_all2 (\<lambda>v b. normalize_finding v = Inr b) (map (\<lambda>f. PDict (sort_key fst f)) findings) bases"
    using assms(3) unfolding f
    by (induction vs bases rule: list_all2_induct) (auto intro: resubmitted_finding)
  ultimately show ?thesis
    using assms(1) by (auto simp: normalize_findings_payload_def sum_map_Inr [symmetric] f)
qed

section \<open>What an ingestion changes\<close>

lemma updated_with_simps [simp]:
  "updated_with [] d = d" "updated_with ((k, v) # kvs) d = updated_with kvs (dset k v d)"
  by (simp_all add: updated_with_def)

lemma updated_with_dget:
  "distinct (map fst kvs) \<Longrightarrow> dget (updated_with kvs d) k = (if has_key kvs k then dget kvs k else dget d k)"
proof (induction kvs arbitrary: d)
  case (Cons kv kvs)
  then show ?case by (cases kv) (auto simp: has_key_dom)
qed simp

lemma buffer_all_frame: "buffer_all rs s = Inr s' \<Longrightarrow> k \<noteq> pending_key \<Longrightarrow> dget s' k = dget s k"
  by (induction rs arbitrary: s) (auto simp: buffer_append_def split: pyval.splits sum.splits)

lemma doc_items_cong: "dget s ''items'' = dget s' ''items'' \<Longrightarrow> doc_items s = doc_items s'"
  by (simp add: doc_items_def)

lemma ingested_items:
  assumes "ingest_native_findings now opts raw session = Inr (findings, session')"
  shows "doc_items session' = ingest_items now (io_source opts) (io_sync opts) findings (doc_items session)
    \<and> read_findings (io_source opts) raw = Inr findings"
proof -
  let ?items = "ingest_items now (io_source opts) (io_sync opts) findings (doc_items session)"
  have r: "read_findings (io_source opts) raw = Inr findings"
    using assms by (auto simp: ingest_native_findings_def sum_bind_def Let_def split: sum.splits)
  obtain s1 where "record_new_item_observations now (Some now) (map fst (doc_items session))
      (noted_handoff now opts findings (dset ''items'' (PDict ?items) s1)) = Inr session'"
    using assms r by (auto simp: ingest_native_findings_def Let_def split: sum.splits)
  then have "dget session' ''items'' = dget (noted_handoff now opts findings (dset ''items'' (PDict ?items) s1)) ''items''"
    unfolding record_new_item_observations_def by (rule buffer_all_frame) (simp add: pending_key_def)
  then have "dget session' ''items'' = PDict ?items"
    by (simp add: noted_handoff_def record_producer_result_def Let_def)
  with r show ?thesis by (simp add: doc_items_def)
qed

lemma ingest_fold_other:
  "k \<notin> finding_id ` set fs \<Longrightarrow> map_of (foldl (ingest_finding now src) items fs) k = map_of items k"
  by (induction fs arbitrary: items) (auto simp: ingest_finding_def dset_def update_conv')

lemma ingest_fold_keys:
  "fst ` set (foldl (ingest_finding now src) items fs) = fst ` set items \<union> finding_id ` set fs"
  by (induction fs arbitrary: items) (auto simp: ingest_finding_def dset_def dom_update)

lemma ingest_fold_own:
  assumes "k \<in> finding_id ` set fs"
  shows "\<exists>f \<in> set fs. \<exists>old. finding_id f = k
    \<and> dget (foldl (ingest_finding now src) items fs) k = PDict (ingested_item now src f old)"
  using assms
proof (induction fs rule: rev_induct)
  case (snoc f fs)
  show ?case
  proof (cases "finding_id f = k")
    case True
    then show ?thesis by (auto simp: ingest_finding_def)
  next
    case False
    with snoc show ?thesis by (auto simp: ingest_finding_def)
  qed
qed simp

text \<open>What a synchronisation makes of an item: a missing local finding of the producer is closed.\<close>

definition after_sync :: "string \<Rightarrow> string \<Rightarrow> string list \<Rightarrow> string \<Rightarrow> pyval \<Rightarrow> pyval" where
  "after_sync now src incoming k v =
     (case v of PDict d \<Rightarrow> if missing_from src incoming k d then PDict (closed_by_sync now d) else v | _ \<Rightarrow> v)"

lemma synchronised_dget:
  "dget (synchronised now src incoming items) k = after_sync now src incoming k (dget items k)"
proof -
  have "dget (map (\<lambda>(k, v). (k, g k v)) items) k = (if has_key items k then g k (dget items k) else PNone)"
    for g :: "string \<Rightarrow> pyval \<Rightarrow> pyval"
    by (induction items) auto
  then show ?thesis
    by (simp add: synchronised_def after_sync_def dget_not_has_key)
qed

text \<open>The keys of a finding whose values an item takes over as they are.\<close>

definition carried_keys :: "string list" where
  "carried_keys =
     [''title'', ''path'', ''line'', ''body'', ''start_line'', ''end_line'', ''category'', ''confidence'', ''head_sha'', ''item_id'',
      ''item_kind'', ''source'']"

definition intake_finding :: "string \<Rightarrow> pydict \<Rightarrow> bool" where
  "intake_finding src f \<longleftrightarrow> distinct (map fst f) \<and> fst ` set f \<subseteq> insert ''severity'' (set carried_keys)
     \<and> dget f ''item_kind'' = PStr ''local_finding'' \<and> dget f ''source'' = PStr src
     \<and> has_key f ''item_kind'' \<and> has_key f ''source'' \<and> has_key f ''item_id''"

lemma kept_fields_distinct: "distinct ks \<Longrightarrow> distinct (map fst (kept_fields ks d))"
  and kept_fields_keys: "fst ` set (kept_fields ks d) \<subseteq> set ks"
  by (induction ks) (auto simp: kept_fields_def map_filter_simps)

lemma with_local_item_fields_intake:
  assumes "distinct (map fst f)" "fst ` set f \<subseteq> insert ''severity'' (set carried_keys)"
  shows "intake_finding src (with_local_item_fields src f)"
  using assms
  by (auto simp: intake_finding_def with_local_item_fields_def dset_def dom_update distinct_update
      has_key_def update_conv' carried_keys_def dget_def)

lemma normalized_keys:
  assumes "normalize_finding v = Inr f"
  shows "distinct (map fst f) \<and> fst ` set f \<subseteq> insert ''severity'' (set carried_keys)"
proof -
  let ?ks = "[''start_line'', ''end_line'', ''severity'', ''category'', ''confidence'', ''head_sha'']"
  obtain t p n b d where f: "f = [(''title'', PStr t), (''path'', PStr p), (''line'', PInt n), (''body'', PStr b)] @ kept_fields ?ks d"
    by (rule normalize_finding_Inr [OF assms])
  show ?thesis
    using kept_fields_distinct [of ?ks d] kept_fields_keys [of ?ks d]
    by (auto simp: f carried_keys_def)
qed

lemma read_findings_intake:
  assumes "read_findings src raw = Inr fs" "f \<in> set fs"
  shows "intake_finding src f"
proof -
  obtain gs where g: "normalize_findings_payload (format_source src) raw = Inr gs" and fs: "fs = map (for_source src) gs"
    using assms(1) by (auto simp: read_findings_def sum_bind_def split: if_splits sum.splits)
  obtain vs bases where b: "sum_map normalize_finding vs = Inr bases"
      and gs: "gs = map (with_local_item_fields (format_source src)) bases"
    using g by (auto simp: normalize_findings_payload_def format_source_def sum_bind_def split: sum.splits if_splits)
  obtain base where base: "base \<in> set bases" and f: "f = for_source src (with_local_item_fields (format_source src) base)"
    using assms(2) fs gs by auto
  obtain v where "normalize_finding v = Inr base"
    using b base by (auto simp: sum_map_Inr list_all2_conv_all_nth in_set_conv_nth)
  then have k: "intake_finding (format_source src) (with_local_item_fields (format_source src) base)"
    by (intro with_local_item_fields_intake) (auto dest: normalized_keys)
  show ?thesis
  proof (cases "src = format_source src")
    case True
    with k f show ?thesis by (simp add: for_source_def)
  next
    case False
    have "intake_finding src (with_local_item_fields src (filter P g))"
      if "intake_finding s g" for P s and g :: pydict
      by (rule with_local_item_fields_intake) (use that in \<open>auto simp: intake_finding_def distinct_map_filter\<close>)
    from this [OF k] show ?thesis using False by (simp add: f for_source_def)
  qed
qed

lemma with_severity_dget:
  "k \<notin> {''severity'', ''severity_evidence''} \<Longrightarrow> dget (with_severity src raw item) k = dget item k"
  by (auto simp: with_severity_def apply_severity_evidence_def split: option.split)

definition open_item :: "pydict \<Rightarrow> bool" where
  "open_item item \<longleftrightarrow>
     dget item ''status'' = PStr ''OPEN'' \<and> dget item ''state'' = PStr ''open'' \<and> dget item ''blocking'' = PBool True
     \<and> dget item ''handled'' = PBool False \<and> dget item ''needs_human'' = PBool False"

definition carries :: "pydict \<Rightarrow> pydict \<Rightarrow> bool" where
  "carries item f \<longleftrightarrow> list_all (\<lambda>k. has_key f k \<longrightarrow> dget item k = dget f k) carried_keys"

lemma reopened_dget:
  "open_item (reopened now item)" "list_all (\<lambda>k. dget (reopened now item) k = dget item k) carried_keys"
  by (simp_all add: reopened_def open_item_def carried_keys_def dget_dsetdefault)

lemma ingested_item_open: "open_item (ingested_item now src f old)"
  by (simp add: ingested_item_def reopened_dget Let_def)

lemma ingested_item_carries:
  assumes "intake_finding src f"
  shows "carries (ingested_item now src f old) f"
proof -
  define item where "item = (case old of PDict d \<Rightarrow> d | _ \<Rightarrow> [])"
  have d: "distinct (map fst (dpop ''severity'' f))"
    using assms by (simp add: intake_finding_def dpop_def distinct_delete)
  have "dget (ingested_item now src f old) k = dget f k" if "k \<in> set carried_keys" "has_key f k" for k
  proof -
    have "k \<notin> {''severity'', ''severity_evidence''}" using that(1) by (auto simp: carried_keys_def)
    then have "dget (with_severity src (dget f ''severity'') (updated_with (dpop ''severity'' f) item)) k = dget f k"
      using that by (auto simp: with_severity_dget updated_with_dget [OF d])
    then show ?thesis
      using reopened_dget(2) that(1) by (simp add: ingested_item_def item_def Let_def list_all_iff)
  qed
  then show ?thesis by (simp add: carries_def list_all_iff)
qed

lemma carries_origin:
  assumes "intake_finding src f" "carries item f"
  shows "dget item ''item_kind'' = PStr ''local_finding'' \<and> dget item ''source'' = PStr src"
  using assms by (simp add: intake_finding_def carries_def carried_keys_def)


definition ex_sync :: ingest_options where
  "ex_sync = \<lparr>io_source = ''lint'', io_sync = True, io_scan_id = [], io_handoff_sha256 = ''d1''\<rparr>"

definition ex_session :: pydict where
  "ex_session =
     [(''session_id'', PStr ''o/r#7''),
      (''items'', PDict
         [(''local-finding:1'', PDict [(''item_kind'', PStr ''local_finding''), (''source'', PStr ''lint''), (''blocking'', PBool True)]),
          (''local-finding:2'', PDict [(''item_kind'', PStr ''local_finding''), (''source'', PStr ''other''), (''blocking'', PBool True)])])]"


definition ex_base :: pydict where
  "ex_base = [(''title'', PStr ''unused''), (''path'', PStr ''a.py''), (''line'', PInt 3), (''body'', PStr ''remove it'')]"

theorem findings_survive_resubmission_witness:
  "normalize_findings_payload ''json'' (canonical_findings_payload [with_local_item_fields ''json'' ex_base])
     = Inr [with_local_item_fields ''json'' ex_base]"
proof (rule findings_survive_resubmission [of "''json''" "json_dumps (PDict ex_base)"])
  have "sum_bind (parse_records (json_dumps (PDict ex_base))) (sum_map normalize_finding) = Inr [ex_base]" by code_simp
  then show "normalize_findings_payload ''json'' (json_dumps (PDict ex_base)) = Inr [with_local_item_fields ''json'' ex_base]"
    by (simp add: normalize_findings_payload_def)
qed (simp_all add: printable_def with_local_item_fields_def ex_base_def)

end
