(* ===== verification/Review_Properties.thy ===== *)
theory Review_Properties
  imports Review_Runtime Intake_Properties
begin

text \<open>
  The properties of the review commands: what a success means, that every outcome is one of
  three exit codes with a matching summary, that a refused payload changes no item, and that
  the aliases of the threads name the rows they are shown in.
\<close>

section \<open>Aliases\<close>

lemma alias_index_shown: "alias_index (CHR ''T'' # nat_dec n) = Some n"
proof -
  have "py_strip (CHR ''T'' # nat_dec n) = CHR ''T'' # nat_dec n"
    using nat_dec_ends [of n] by (intro py_strip_id) (simp add: is_space_def)
  then show ?thesis
    using nat_dec_all_digits [of n] by (simp add: alias_index_def digits_value_dec list_all_iff)
qed

lemma thread_rows_nth:
  assumes "i < length (sorted_threads session)"
  shows "native_thread_rows lean session ! i
    = thread_row lean (Suc i) (fst (sorted_threads session ! i)) (snd (sorted_threads session ! i))"
  using assms by (simp add: native_thread_rows_def case_prod_beta del: upt_Suc)

lemma thread_rows_length [simp]: "length (native_thread_rows lean session) = length (sorted_threads session)"
  by (simp add: native_thread_rows_def del: upt_Suc)

lemma thread_row_ids:
  "dget (thread_row lean n k item) ''alias'' = PStr (CHR ''T'' # nat_dec n)"
  "dget (thread_row lean n k item) ''item_id'' = PStr (py_str (py_or (dget item ''item_id'') (PStr k)))"
  by (simp_all add: thread_row_def Let_def)

text \<open>
  C39: The aliases of the threads are read back. The row at every position shows the alias T
  with the number of that position; resolving it in the same session, in either form of the
  rows, gives the item id shown in the row. An alias beyond the rows, or T0, is an error and
  never the id of some other thread; any other text comes back unchanged.
\<close>

theorem aliases_resolve:
  shows "(\<forall>i < length (native_thread_rows lean session).
       \<exists>a. dget (native_thread_rows lean session ! i) ''alias'' = PStr a \<and> a = CHR ''T'' # nat_dec (Suc i)
         \<and> map_sum id PStr (resolve_thread_alias session a) = Inr (dget (native_thread_rows lean session ! i) ''item_id''))
    \<and> (\<forall>n. n = 0 \<or> length (native_thread_rows lean session) < n \<longrightarrow>
         resolve_thread_alias session (CHR ''T'' # nat_dec n)
           = Inl (WorkflowError ''FAST_FIX_REJECTED'' ''THREAD_ALIAS_NOT_FOUND'' []))
    \<and> (\<forall>token. alias_index token = None \<longrightarrow> resolve_thread_alias session token = Inr token)"
  by (auto simp: resolve_thread_alias_def alias_index_shown thread_rows_nth thread_row_ids thread_ids_def case_prod_beta Let_def)

definition ex_thread_session :: pydict where
  "ex_thread_session =
     [(''items'', PDict
        [(''github-thread:B'', PDict [(''item_kind'', PStr ''github_thread''), (''item_id'', PStr ''github-thread:B'')]),
         (''local-finding:1'', PDict [(''item_kind'', PStr ''local_finding'')]),
         (''github-thread:A'', PDict [(''item_kind'', PStr ''github_thread'')])])]"

theorem aliases_resolve_witness:
  "dget (native_thread_rows True ex_thread_session ! 1) ''alias'' = PStr ''T2''
     \<and> resolve_thread_alias ex_thread_session ''T2'' = Inr ''github-thread:B''
     \<and> resolve_thread_alias ex_thread_session ''T3'' = Inl (WorkflowError ''FAST_FIX_REJECTED'' ''THREAD_ALIAS_NOT_FOUND'' [])"
proof -
  have l: "length (native_thread_rows True ex_thread_session) = 2" by code_simp
  have i: "dget (native_thread_rows True ex_thread_session ! 1) ''item_id'' = PStr ''github-thread:B''" by code_simp
  have d: "nat_dec (Suc 1) = ''2''" "nat_dec 3 = ''3''" by code_simp+
  from aliases_resolve [of True ex_thread_session] have
    a: "\<forall>i < 2. \<exists>a. dget (native_thread_rows True ex_thread_session ! i) ''alias'' = PStr a \<and> a = CHR ''T'' # nat_dec (Suc i)
         \<and> map_sum id PStr (resolve_thread_alias ex_thread_session a) = Inr (dget (native_thread_rows True ex_thread_session ! i) ''item_id'')"
    and b: "\<forall>n. n = 0 \<or> 2 < n \<longrightarrow> resolve_thread_alias ex_thread_session (CHR ''T'' # nat_dec n)
           = Inl (WorkflowError ''FAST_FIX_REJECTED'' ''THREAD_ALIAS_NOT_FOUND'' [])"
    unfolding l by blast+
  from spec [OF a, of 1] i d(1) have "dget (native_thread_rows True ex_thread_session ! 1) ''alias'' = PStr ''T2''"
    "map_sum id PStr (resolve_thread_alias ex_thread_session ''T2'') = Inr (PStr ''github-thread:B'')" by auto
  moreover from this(2) have "resolve_thread_alias ex_thread_session ''T2'' = Inr ''github-thread:B''"
    by (cases "resolve_thread_alias ex_thread_session ''T2''") simp_all
  moreover from spec [OF b, of 3] d(2) have
    "resolve_thread_alias ex_thread_session ''T3'' = Inl (WorkflowError ''FAST_FIX_REJECTED'' ''THREAD_ALIAS_NOT_FOUND'' [])" by simp
  ultimately show ?thesis by simp
qed

section \<open>How a run ends\<close>

text \<open>
  A session was committed, and after it at most one more with the same items (the one that
  remembers the recommendation).
\<close>

definition recorded ::
    "review_env \<Rightarrow> pydict \<Rightarrow> runtime_store option \<Rightarrow> runtime_store option \<Rightarrow> bool" where
  "recorded env saved st st' \<longleftrightarrow>
     (\<exists>p committed. save_session saved (re_others env 0 st) = (Inr (), p, committed)
        \<and> (st' = committed
           \<or> (\<exists>q p'. save_session q (re_others env 1 committed) = (Inr (), p', st') \<and> doc_items q = doc_items saved)))"

lemma taken_items:
  "take_pending_evidence s = Inr (evidence, p) \<Longrightarrow> dget p ''items'' = dget s ''items''"
  by (auto simp: take_pending_evidence_def pending_key_def split: pyval.splits)

lemma with_persistence_items: "dget (with_persistence n p) ''items'' = dget p ''items''"
  by (simp add: with_persistence_def)

lemma saved_items:
  "save_session s st = (Inr u, p, st') \<Longrightarrow> doc_items p = doc_items s"
  by (intro doc_items_cong)
     (auto simp: save_session_def Let_def with_persistence_items taken_items split: sum.splits option.splits prod.splits)

lemma with_observation_items:
  "with_observation env act s = Some s' \<Longrightarrow> doc_items s' = doc_items s"
  by (auto simp: with_observation_def Let_def doc_items_def split: if_splits)

lemma finish_Inr:
  assumes "finish env args v artifact item diagnostics threads s st = (Inr out, st')"
  shows "rv_exit out = ve_exit v \<and> dget (rv_summary out) ''exit_code'' = PInt (ve_exit v)
    \<and> dget (rv_summary out) ''status'' = PStr (ve_status v) \<and> dget (rv_summary out) ''reason_code'' = PStr (ve_reason_code v)
    \<and> recorded env (final_session env args v item s) st st'"
proof -
  let ?saved = "final_session env args v item s"
  obtain p st1 where first: "save_session ?saved (re_others env 0 st) = (Inr (), p, st1)"
    using assms by (auto simp: finish_def save_after_def split: prod.splits sum.splits)
  obtain summary s2 where second: "native_summary env args v (map_option fst artifact) item diagnostics threads (p, st1) = (Inr summary, (s2, st'))"
      and out: "out = \<lparr>rv_exit = ve_exit v, rv_summary = summary, rv_artifact = artifact\<rparr>"
    using assms first by (auto simp: finish_def save_after_def split: prod.splits sum.splits)
  have "st' = st1 \<or> (\<exists>q p'. save_session q (re_others env 1 st1) = (Inr (), p', st') \<and> doc_items q = doc_items ?saved)"
    using second saved_items [OF first] with_observation_items
    by (fastforce simp: native_summary_def record_recommendation_def save_after_def Let_def
        split: prod.splits sum.splits option.splits if_splits)
  then have "recorded env ?saved st st'" using first by (auto simp: recorded_def)
  moreover obtain stack act rest where "summary = base_summary env v (map_option fst artifact) item stack p @ rest"
    using second by (auto simp: native_summary_def Let_def split: prod.splits sum.splits if_splits)
  ultimately show ?thesis by (simp add: out base_summary_def Let_def)
qed

lemma final_session_items:
  "doc_items (final_session env args v item s) = doc_items s"
  "dget (final_session env args v item s) ''items'' = dget s ''items''"
  by (simp_all add: final_session_def recalc_native_metrics_def with_loop_def set_loop_state_def Let_def doc_items_def)

lemma final_session_status:
  "nested_get (dget (final_session env args v item s) ''loop_state'') ''status'' = PStr (ve_status v)"
  by (simp add: final_session_def recalc_native_metrics_def with_loop_def set_loop_state_def Let_def nested_get_def)

lemma blocked_simps [simp]:
  "ve_exit (blocked c w n x) = x" "ve_status (blocked c w n x) = ''BLOCKED''" "ve_reason_code (blocked c w n x) = c"
  by (simp_all add: blocked_def)

definition finishes ::
    "review_env \<Rightarrow> review_args \<Rightarrow> pydict \<Rightarrow> runtime_store option \<Rightarrow> (verdict \<Rightarrow> pydict option \<Rightarrow> bool) \<Rightarrow> review_end \<Rightarrow> bool" where
  "finishes env args s st P e \<longleftrightarrow>
     (\<exists>v artifact item diagnostics threads. e = finish env args v artifact item diagnostics threads s st \<and> P v item)"

lemma finishesI: "P v item \<Longrightarrow> finishes env args s st P (finish env args v artifact item diagnostics threads s st)"
  unfolding finishes_def by blast

lemma finishes_if: "(b \<Longrightarrow> finishes env args s st P x) \<Longrightarrow> (\<not> b \<Longrightarrow> finishes env args s st P y) \<Longrightarrow> finishes env args s st P (if b then x else y)"
  by simp

definition refused :: "verdict \<Rightarrow> bool" where
  "refused v \<longleftrightarrow> ve_status v = ''BLOCKED'' \<and> ve_exit v = 5"

lemma emit_gate_finishes:
  "finishes env args s st (\<lambda>v item. if gate_passed r then v = passed_verdict env args \<and> item = None else refused v)
     (emit_gate env args r s st)"
  unfolding emit_gate_def emit_simple_address_def emit_auto_simple_not_eligible_def emit_blocked_def waiting_for_fix_def Let_def
  by (intro finishes_if; rule finishesI; simp add: refused_def)

lemma not_eligible_finishes:
  "finishes env args s st (\<lambda>v item. refused v) (emit_auto_simple_not_eligible env args i s st)"
  unfolding emit_auto_simple_not_eligible_def by (rule finishesI) (simp add: refused_def)

definition reads_github :: "review_args \<Rightarrow> bool" where
  "reads_github args \<longleftrightarrow> ra_command args \<in> {''address'', ''review'', ''threads'', ''adapter''}"

lemma ingest_and_load_Inr:
  assumes "ingest_and_load env args session = (Inr (s, rows), s')"
  shows "if reads_github args then rr_threads (re_reads env) = Inr rows else rows = []"
  using assms
  by (auto simp: ingest_and_load_def observe_step_def reads_github_def Let_def split: sum.splits prod.splits if_splits)

text \<open>A failed read of findings leaves the items as they were.\<close>

lemma ingest_failed_items:
  assumes "ingest_and_load env args session = (Inl (BadFindings reason), s')"
  shows "s' = session"
  using assms
  by (auto simp: ingest_and_load_def observe_step_def Let_def split: sum.splits prod.splits if_splits)

text \<open>The three ways a loaded run goes on.\<close>

lemma run_loaded_cases:
  assumes "run_loaded env args session st = (Inr out, st')"
  obtains (failed) e s where "ingest_and_load env args (with_loop env args ''ACTIVE'' PNone [] session) = (Inl e, s)"
      "handle_failure env args e s st = (Inr out, st')"
    | (local) s1 rows s2 where "ingest_and_load env args (with_loop env args ''ACTIVE'' PNone [] session) = (Inr (s1, rows), s2)"
      "auto_simple_run args" "blocking_local_items (recalc_native_metrics s1) \<noteq> []"
      "finishes env args (recalc_native_metrics s1) st (\<lambda>v item. refused v) (Inr out, st')"
    | (judged) s1 rows s2 r where "ingest_and_load env args (with_loop env args ''ACTIVE'' PNone [] session) = (Inr (s1, rows), s2)"
      "auto_simple_run args \<Longrightarrow> blocking_local_items (recalc_native_metrics s1) = []"
      "evaluate_final_gate (recalc_native_metrics s1) rows [] None [] None = Inr r"
      "finishes env args (recalc_native_metrics s1) st
         (\<lambda>v item. if gate_passed r then v = passed_verdict env args \<and> item = None else refused v) (Inr out, st')"
proof -
  obtain x s2 where load: "ingest_and_load env args (with_loop env args ''ACTIVE'' PNone [] session) = (x, s2)"
    by (cases "ingest_and_load env args (with_loop env args ''ACTIVE'' PNone [] session)")
  note run = assms [unfolded run_loaded_def load prod.case]
  show thesis
  proof (cases x)
    case (Inl e)
    with failed [of e s2] load run show ?thesis by simp
  next
    case (Inr sr)
    obtain s1 rows where sr: "sr = (s1, rows)" by (cases sr)
    show ?thesis
    proof (cases "auto_simple_run args \<and> blocking_local_items (recalc_native_metrics s1) \<noteq> []")
      case True
      with run Inr sr have e: "emit_auto_simple_not_eligible env args
          (Some (hd (blocking_local_items (recalc_native_metrics s1)))) (recalc_native_metrics s1) st = (Inr out, st')"
        by (simp add: Let_def)
      have "finishes env args (recalc_native_metrics s1) st (\<lambda>v item. refused v) (Inr out, st')"
        unfolding e [symmetric] by (rule not_eligible_finishes)
      then show ?thesis using local [of s1 rows s2] True load Inr sr by simp
    next
      case False
      then obtain r where r: "evaluate_final_gate (recalc_native_metrics s1) rows [] None [] None = Inr r"
        and e: "emit_gate env args r (recalc_native_metrics s1) st = (Inr out, st')"
        using run Inr sr by (auto simp: Let_def split: sum.splits)
      have "finishes env args (recalc_native_metrics s1) st
         (\<lambda>v item. if gate_passed r then v = passed_verdict env args \<and> item = None else refused v) (Inr out, st')"
        unfolding e [symmetric] by (rule emit_gate_finishes)
      then show ?thesis using judged [of s1 rows s2 r] r False load Inr sr by simp
    qed
  qed
qed

lemma finishesD:
  assumes "finishes env args s st P (Inr out, st')"
  obtains v item where "P v item" "rv_exit out = ve_exit v" "dget (rv_summary out) ''exit_code'' = PInt (ve_exit v)"
    "dget (rv_summary out) ''status'' = PStr (ve_status v)" "dget (rv_summary out) ''reason_code'' = PStr (ve_reason_code v)"
    "recorded env (final_session env args v item s) st st'"
proof -
  obtain v artifact item diagnostics threads
    where f: "finish env args v artifact item diagnostics threads s st = (Inr out, st')" and "P v item"
    using assms unfolding finishes_def by metis
  with finish_Inr [OF f] that show thesis by blast
qed

definition failure_verdict :: "review_error \<Rightarrow> verdict \<Rightarrow> bool" where
  "failure_verdict e v \<longleftrightarrow> ve_status v = ''BLOCKED''
     \<and> (case e of BadFindings t \<Rightarrow> ve_exit v = 2 \<and> ve_reason_code v = ''INVALID_FINDINGS_INPUT'' | _ \<Rightarrow> ve_exit v = 5)"

lemma failure_finishes:
  assumes "handle_failure env args e s st = (Inr out, st')"
  shows "finishes env args s st (\<lambda>v item. failure_verdict e v) (Inr out, st')"
proof (cases e)
  case (Escaped x)
  with assms show ?thesis by (simp add: handle_failure_def)
next
  case (BadFindings t)
  show ?thesis
    unfolding assms [symmetric] handle_failure_def BadFindings review_error.case
    by (rule finishesI) (simp add: failure_verdict_def)
next
  case (GitHubFailed g)
  show ?thesis
    unfolding assms [symmetric] handle_failure_def GitHubFailed review_error.case
    by (rule finishesI) (simp add: failure_verdict_def)
qed

lemma preflight_summary_fields:
  "preflight_summary env c v = Inr summary \<Longrightarrow>
     dget summary ''exit_code'' = PInt (ve_exit v) \<and> dget summary ''status'' = PStr (ve_status v)
     \<and> dget summary ''reason_code'' = PStr (ve_reason_code v)"
  unfolding preflight_summary_def sum_bind_Inr by (elim exE conjE, drule sym [of "Inr _"]) simp

text \<open>The three ways a command ends with an outcome.\<close>

lemma handle_review_cases:
  assumes "handle_review env args st = (Inr out, st')"
  obtains (preflight) reason summary where "preflight_error env args = Some reason" "st' = st" "rv_exit out = 2"
      "preflight_summary env (ra_command args) (preflight_block reason) = Inr summary" "rv_summary out = summary"
    | (unloaded) e st1 w where "rv_exit out = 5" "st' = st1"
      "rv_summary out = fst w @ snd w" "dget (fst w) ''exit_code'' = PInt 5" "dget (fst w) ''status'' = PStr ''BLOCKED''"
      "has_key (fst w) ''exit_code''" "has_key (fst w) ''status''"
      "handle_parsed env args st = (Inl e, st1)"
    | (run) session st1 where "load_or_create env st = (Inr session, st1)" "run_loaded env args session st1 = (Inr out, st')"
proof -
  obtain x st1 where h: "handle_parsed env args st = (x, st1)" by (cases "handle_parsed env args st")
  show thesis
  proof (cases x)
    case (Inl e)
    then obtain code detail where e: "e = SessionError code detail"
      and emit: "emit_session_error env args e code st1 = (Inr out, st')"
      using assms h by (cases e) (auto simp: handle_review_def)
    let ?v = "session_error_guidance code (re_error_text env e)"
    have v: "ve_exit ?v = 5" "ve_status ?v = ''BLOCKED''" by (simp_all add: session_error_guidance_def split: option.split)
    obtain summary w where n: "native_summary env args ?v None None [] False ([], st1) = (Inr summary, w)"
      and out: "st' = st1" "out = \<lparr>rv_exit = 5, rv_summary = summary @ [(''retryable'', PBool (retryable_reason code))], rv_artifact = None\<rparr>"
      using emit by (auto simp: emit_session_error_def split: prod.splits sum.splits)
    obtain stack rest where "summary = base_summary env ?v None None stack [] @ rest"
      using n by (auto simp: native_summary_def Let_def split: prod.splits sum.splits if_splits)
    then have "dget summary ''exit_code'' = PInt 5" "dget summary ''status'' = PStr ''BLOCKED''"
      "has_key summary ''exit_code''" "has_key summary ''status''" using v by (simp_all add: base_summary_def Let_def)
    with unloaded [of st1 "(summary, [(''retryable'', PBool (retryable_reason code))])" e] out h Inl show ?thesis by simp
  next
    case (Inr o1)
    then have p: "handle_parsed env args st = (Inr out, st')" using assms h by (simp add: handle_review_def)
    show ?thesis
    proof (cases "preflight_error env args")
      case None
      with p run show ?thesis by (auto simp: handle_parsed_def split: prod.splits sum.splits)
    next
      case (Some reason)
      with p preflight show ?thesis by (auto simp: handle_parsed_def split: sum.splits)
    qed
  qed
qed

text \<open>
  C9: Every outcome of a review command is one of three. Whatever GitHub, the store, the
  producer and other processes do, an outcome has exit code 0 with status PASSED, or 2 or 5
  with status BLOCKED, and the printed summary carries the same exit code.
\<close>

theorem review_outcomes_consistent:
  assumes "handle_review env args st = (Inr out, st')"
  shows "rv_exit out \<in> {0, 2, 5} \<and> dget (rv_summary out) ''exit_code'' = PInt (rv_exit out)
    \<and> dget (rv_summary out) ''status'' = PStr (if rv_exit out = 0 then ''PASSED'' else ''BLOCKED'')"
  using assms
proof (cases rule: handle_review_cases)
  case (preflight reason summary)
  with preflight_summary_fields [OF preflight(4)] show ?thesis by (simp add: preflight_block_def)
next
  case (unloaded e st1 w)
  then show ?thesis by (simp add: dget_append)
next
  case (run session st1)
  from run(2) show ?thesis
  proof (cases rule: run_loaded_cases)
    case (failed e s)
    from failure_finishes [OF failed(2)] show ?thesis
      by (rule finishesD) (cases e; simp add: failure_verdict_def)
  next
    case (local s1 rows s2)
    from local(4) show ?thesis by (rule finishesD) (simp add: refused_def)
  next
    case (judged s1 rows s2 r)
    from judged(4) show ?thesis by (rule finishesD) (auto simp: refused_def passed_verdict_def split: if_splits)
  qed
qed


lemma load_or_create_items: "doc_items (with_loop env args l i m session) = doc_items session"
  by (simp add: with_loop_def set_loop_state_def Let_def doc_items_def)

text \<open>
  Refused findings change no item. When a review command exits with 2 (an unreadable or
  empty payload, an adapter that failed, a synchronisation without a producer), the reason is
  INVALID_FINDINGS_INPUT and either nothing was written, or the session it loaded (or newly
  created) was committed with exactly the items it had: no finding of the payload is kept,
  and none is closed by the synchronisation.
\<close>

theorem refused_findings_change_no_item:
  assumes "handle_review env args st = (Inr out, st')" "rv_exit out = 2"
  shows "dget (rv_summary out) ''reason_code'' = PStr ''INVALID_FINDINGS_INPUT''
    \<and> (st' = st \<or> (\<exists>session opened saved. load_or_create env st = (Inr session, opened)
         \<and> recorded env saved opened st' \<and> doc_items saved = doc_items session))"
  using assms(1)
proof (cases rule: handle_review_cases)
  case (preflight reason summary)
  with preflight_summary_fields [OF preflight(4)] show ?thesis by (simp add: preflight_block_def)
next
  case (unloaded e st1 w)
  with assms(2) show ?thesis by simp
next
  case (run session st1)
  from run(2) show ?thesis
  proof (cases rule: run_loaded_cases)
    case (failed e s)
    from failure_finishes [OF failed(2)] obtain v item where
      v: "failure_verdict e v"
      "rv_exit out = ve_exit v" "dget (rv_summary out) ''reason_code'' = PStr (ve_reason_code v)"
      "recorded env (final_session env args v item s) st1 st'"
      by (rule finishesD) auto
    obtain reason where e: "e = BadFindings reason" using v(1,2) assms(2) by (cases e) (simp_all add: failure_verdict_def)
    have "doc_items s = doc_items session"
      using ingest_failed_items [OF failed(1) [unfolded e]] by (simp add: load_or_create_items)
    then have "doc_items (final_session env args v item s) = doc_items session" by (simp add: final_session_items)
    moreover have "ve_reason_code v = ''INVALID_FINDINGS_INPUT''" using v(1) by (simp add: e failure_verdict_def)
    ultimately show ?thesis using v(3,4) run(1)
      by (intro conjI disjI2 exI [of _ session] exI [of _ st1] exI [of _ "final_session env args v item s"]) simp_all
  next
    case (local s1 rows s2)
    from local(4) have False by (rule finishesD) (use assms(2) in \<open>simp add: refused_def\<close>)
    then show ?thesis ..
  next
    case (judged s1 rows s2 r)
    from judged(4) have False
      by (rule finishesD) (use assms(2) in \<open>auto simp: refused_def passed_verdict_def split: if_splits\<close>)
    then show ?thesis ..
  qed
qed

section \<open>Examples\<close>

definition ex_review_env :: review_env where
  "ex_review_env =
     \<lparr>re_repo = ''o/r'', re_pr_number = ''7'', re_now = ''t'', re_uuid = ''u'', re_workspace = ''w'', re_ledger_path = ''l'',
      re_lock_held = (\<lambda>c. False), re_json_error = ''Expecting value'', re_error_text = (\<lambda>e. []), re_findings = Inr ''[]'',
      re_adapter = Inl ''no adapter'',
      re_reads = \<lparr>rr_stack = Some (bare_context ''unavailable'' ''o/r'' ''7'' ''t''), rr_threads = Inr [], rr_checks = Inr [], rr_files = Inr []\<rparr>,
      re_others = (\<lambda>n st. st)\<rparr>"

definition ex_review_args :: "string \<Rightarrow> review_args" where
  "ex_review_args command =
     \<lparr>ra_command = command, ra_input = False, ra_source = [], ra_sync = False, ra_scan_id = [], ra_handoff_sha256 = [],
      ra_audit_id = ''run'', ra_max_iterations = 1, ra_lean = True, ra_auto_simple = False\<rparr>"

section \<open>Runs of the examples\<close>

text \<open>
  A verdict is written and printed when the session can be saved, and saved once more with any
  observation of the recommendation.
\<close>

definition can_finish ::
    "review_env \<Rightarrow> review_args \<Rightarrow> verdict \<Rightarrow> pydict option \<Rightarrow> pydict \<Rightarrow> runtime_store option \<Rightarrow> pydict \<Rightarrow> bool" where
  "can_finish env args v item session st observation \<longleftrightarrow>
     (case save_session (final_session env args v item session) (re_others env 0 st) of
        (Inr u, p, st1) \<Rightarrow>
          (let metadata = (case dget p ''metadata'' of PDict d \<Rightarrow> d | _ \<Rightarrow> [])
           in p \<noteq> [] \<and> \<not> is_dict (dget metadata ''recommendation_observation'')
              \<and> \<not> isl (stack_of_session env p)
              \<and> \<not> isl (project_primary_action (re_repo env) (re_pr_number env) (ra_command args) (ve_status v)
                          (ve_reason_code v) (ve_waiting_on v) p)
              \<and> \<not> isl (fst (save_session
                   (dset ''metadata'' (PDict (dset ''recommendation_observation'' (PDict observation) metadata))
                     (dset ''metadata'' (PDict metadata) p)) (re_others env 1 st1))))
      | _ \<Rightarrow> False)"

lemma finish_ends:
  assumes "\<And>observation. can_finish env args v item session st observation"
  shows "\<exists>out st'. finish env args v artifact item diagnostics threads session st = (Inr out, st') \<and> rv_exit out = ve_exit v"
proof -
  obtain p st1 where saved: "save_session (final_session env args v item session) (re_others env 0 st) = (Inr (), p, st1)"
    using assms [of "[]"] by (auto simp: can_finish_def split: prod.splits sum.splits)
  note rest = assms [unfolded can_finish_def saved prod.case sum.case Let_def]
  obtain stack act where projected: "stack_of_session env p = Inr stack"
    "project_primary_action (re_repo env) (re_pr_number env) (ra_command args) (ve_status v) (ve_reason_code v) (ve_waiting_on v) p = Inr act"
    using rest [of "[]"]
    by (cases "stack_of_session env p";
        cases "project_primary_action (re_repo env) (re_pr_number env) (ra_command args) (ve_status v)
          (ve_reason_code v) (ve_waiting_on v) p") simp_all
  obtain q where q: "with_observation env act p = Some q" "\<not> isl (fst (save_session q (re_others env 1 st1)))"
    using rest by (auto simp: with_observation_def Let_def)
  obtain p' st' where again: "save_session q (re_others env 1 st1) = (Inr (), p', st')"
    using q(2) by (cases "save_session q (re_others env 1 st1)"; cases "fst (save_session q (re_others env 1 st1))") auto
  show ?thesis
    using rest [of "[]"]
    by (auto simp: finish_def save_after_def saved native_summary_def projected record_recommendation_def q(1) again [unfolded One_nat_def] Let_def)
qed

definition ex_loaded :: pydict where
  "ex_loaded = (case load_or_create ex_review_env None of (Inr s, _) \<Rightarrow> s | _ \<Rightarrow> [])"

definition ex_started :: "string \<Rightarrow> pydict" where
  "ex_started command = with_loop ex_review_env (ex_review_args command) ''ACTIVE'' PNone [] ex_loaded"

lemma ex_review_run:
  assumes "preflight_error ex_review_env (ex_review_args command) = None"
    "run_loaded ex_review_env (ex_review_args command) ex_loaded None = (Inr out, st')"
  shows "handle_review ex_review_env (ex_review_args command) None = (Inr out, st')"
proof -
  have "load_or_create ex_review_env None = (Inr ex_loaded, None)" by code_simp
  with assms show ?thesis by (simp add: handle_review_def handle_parsed_def)
qed

lemma ex_failing_adapter:
  obtains out st' where "handle_review ex_review_env (ex_review_args ''adapter'') None = (Inr out, st')" "rv_exit out = 2"
proof -
  let ?args = "ex_review_args ''adapter''"
  let ?v = "blocked ''INVALID_FINDINGS_INPUT'' ''findings_input'' ''no adapter'' 2"
  have "can_finish ex_review_env ?args ?v None (ex_started ''adapter'') None observation" for observation by code_simp
  from finish_ends [OF this] obtain out st' where
    f: "finish ex_review_env ?args ?v None None [] False (ex_started ''adapter'') None = (Inr out, st')" "rv_exit out = 2"
    by fastforce
  have "ingest_and_load ex_review_env ?args (ex_started ''adapter'') = (Inl (BadFindings ''no adapter''), ex_started ''adapter'')"
    by code_simp
  then have "run_loaded ex_review_env ?args ex_loaded None = (Inr out, st')"
    using f(1) by (simp add: run_loaded_def ex_started_def [symmetric] handle_failure_def)
  moreover have "preflight_error ex_review_env ?args = None" by code_simp
  ultimately show thesis using that ex_review_run f(2) by blast
qed

theorem refused_findings_change_no_item_witness:
  "\<exists>out st'. handle_review ex_review_env (ex_review_args ''adapter'') None = (Inr out, st')
     \<and> dget (rv_summary out) ''reason_code'' = PStr ''INVALID_FINDINGS_INPUT''"
proof -
  obtain out st' where r: "handle_review ex_review_env (ex_review_args ''adapter'') None = (Inr out, st')" "rv_exit out = 2"
    by (rule ex_failing_adapter)
  from refused_findings_change_no_item [OF r] r(1) show ?thesis by blast
qed

theorem review_outcomes_consistent_witness:
  "\<exists>out st'. handle_review ex_review_env (ex_review_args ''adapter'') None = (Inr out, st')
     \<and> dget (rv_summary out) ''exit_code'' = PInt 2 \<and> dget (rv_summary out) ''status'' = PStr ''BLOCKED''"
proof -
  obtain out st' where r: "handle_review ex_review_env (ex_review_args ''adapter'') None = (Inr out, st')" "rv_exit out = 2"
    by (rule ex_failing_adapter)
  from review_outcomes_consistent [OF r(1)] r show ?thesis by simp
qed

definition ex_failure_session :: pydict where
  "ex_failure_session = snd (ingest_and_load ex_review_env (ex_review_args ''threads'') (ex_started ''threads''))"

definition ex_observed :: pydict where
  "ex_observed = fst (projr (fst (ingest_and_load ex_review_env (ex_review_args ''threads'') (ex_started ''threads''))))"

lemma ex_clear_threads:
  obtains out st' where "handle_review ex_review_env (ex_review_args ''threads'') None = (Inr out, st')" "rv_exit out = 0"
proof -
  let ?args = "ex_review_args ''threads''"
  let ?v = "passed_verdict ex_review_env ?args"
  let ?s = "recalc_native_metrics ex_observed"
  have "can_finish ex_review_env ?args ?v None ?s None observation" for observation by code_simp
  from finish_ends [OF this] obtain out st' where
    f: "finish ex_review_env ?args ?v None None [] False ?s None = (Inr out, st')" "rv_exit out = ve_exit ?v"
    by blast
  have load: "ingest_and_load ex_review_env ?args (ex_started ''threads'') = (Inr (ex_observed, []), ex_failure_session)" by code_simp
  have "case evaluate_final_gate ?s [] [] None [] None of Inr r \<Rightarrow> gate_passed r | _ \<Rightarrow> False" by code_simp
  then obtain r where "evaluate_final_gate ?s [] [] None [] None = Inr r" "gate_passed r" by (auto split: sum.splits)
  moreover have "\<not> auto_simple_run ?args" by code_simp
  ultimately have "run_loaded ex_review_env ?args ex_loaded None = (Inr out, st')"
    unfolding run_loaded_def ex_started_def [symmetric] load using f(1) by (simp add: emit_gate_def Let_def)
  moreover have "preflight_error ex_review_env ?args = None" by code_simp
  ultimately show thesis using that ex_review_run f(2) by (simp add: passed_verdict_def)
qed


end
