(* ===== verification/Orch_Session.thy ===== *)
theory Orch_Session
  imports Agent_Responses Json_Parse
begin

text \<open>
  The session of the orchestrator (\<open>orchestrator/session.py\<close>) and its worker packets
  (\<open>orchestrator/worker.py\<close>): dispatch receipts, the projection of canonical leases to
  dispatches, the file \<open>orchestration.json\<close>, and the check of a worker's response file.

  A method maps the session (and the audit log it appends to) to its result and the session
  it leaves. The canonical runtime state is a dictionary that is passed in. Fields of a stored
  session are read at the types \<open>to_dict\<close> writes them with; a file with a field of another
  type fails when it is read, where the code fails at the field's first use.
\<close>

section \<open>State\<close>

definition ORCHESTRATION_SCHEMA_VERSION :: int where
  "ORCHESTRATION_SCHEMA_VERSION = 2"

definition DISPATCH_RECEIPT_SCHEMA_VERSION :: string where
  "DISPATCH_RECEIPT_SCHEMA_VERSION = ''dispatch-receipt.v2''"

definition SUPPORTED_RECEIPT_VERSIONS :: "string list" where
  "SUPPORTED_RECEIPT_VERSIONS = [''dispatch-receipt.v1'', DISPATCH_RECEIPT_SCHEMA_VERSION]"

definition ORCHESTRATOR_AGENT_PREFIX :: string where
  "ORCHESTRATOR_AGENT_PREFIX = ''orchestrator:''"

definition CANONICAL_ACTIVE_STATUSES :: "string list" where
  "CANONICAL_ACTIVE_STATUSES = [''active'', ''submitted'']"

text \<open>A text in single quotes, inserted as it is.\<close>

definition single_quoted :: "string \<Rightarrow> string" where
  "single_quoted s = [CHR 0x27] @ s @ [CHR 0x27]"

datatype orch_error =
    DispatchValidationError string
  | OrchestrationSessionError string
  | WorkerPacketValidationError string
  | HumanHandoffRequired string
  | OrchRaised effect_error

definition orch_exn :: "py_exn \<Rightarrow> orch_error" where
  "orch_exn e = OrchRaised (EffectRaised e)"

record dispatch_receipt =
  dr_item_id :: string
  dr_assigned_role :: string
  dr_agent_id :: string
  dr_lease_id :: string
  dr_request_id :: string
  dr_runtime_revision :: int
  dr_delivery_token :: string
  dr_retry_count :: int
  dr_waiting_for_human :: bool
  dr_handoff_reason :: "string option"
  dr_artifact_path :: "string option"

record orch_session =
  os_run_id :: string
  os_repo :: string
  os_pr_number :: string
  os_state :: string
  os_config :: "(string \<times> int) list"
  os_completed :: bool
  os_completed_at :: "string option"
  os_completed_reason :: "string option"
  os_dispatches :: "(string \<times> dispatch_receipt) list"
  os_queued :: "string list"
  os_retry_counts :: "(string \<times> int) list"
  os_warnings :: "string list"

definition default_config :: "(string \<times> int) list" where
  "default_config = [(''max_concurrency'', 3), (''circuit_breaker_threshold'', 3)]"

definition new_orchestration :: "string \<Rightarrow> string \<Rightarrow> string \<Rightarrow> orch_session" where
  "new_orchestration run_id repo pr_number =
     \<lparr>os_run_id = run_id, os_repo = repo, os_pr_number = pr_number, os_state = ''INITIALIZED'', os_config = default_config,
      os_completed = False, os_completed_at = None, os_completed_reason = None, os_dispatches = [], os_queued = [],
      os_retry_counts = [], os_warnings = []\<rparr>"

definition config_value :: "orch_session \<Rightarrow> string \<Rightarrow> int" where
  "config_value s k = (case map_of (os_config s) k of None \<Rightarrow> 3 | Some n \<Rightarrow> n)"

section \<open>The audit log\<close>

record orch_audit =
  oa_timestamp :: string
  oa_failure :: "string \<Rightarrow> string option"
    \<comment> \<open>the type and message of the error when appending the event fails\<close>

definition append_audit_warning :: "string \<Rightarrow> string \<Rightarrow> orch_session \<Rightarrow> orch_session" where
  "append_audit_warning event_type error s =
     (let message = event_type @ '': '' @ error;
          ws = (if message \<in> set (os_warnings s) then os_warnings s else os_warnings s @ [message])
      in s\<lparr>os_warnings := drop (length ws - 8) ws\<rparr>)"

definition pop_audit_warnings :: "orch_session \<Rightarrow> string list \<times> orch_session" where
  "pop_audit_warnings s = (os_warnings s, s\<lparr>os_warnings := []\<rparr>)"

type_synonym orch_state = "orch_session \<times> pydict list"

definition log_audit_event :: "orch_audit \<Rightarrow> string \<Rightarrow> pydict \<Rightarrow> orch_state \<Rightarrow> orch_state" where
  "log_audit_event a event_type details = (\<lambda>(s, log).
     case oa_failure a event_type of
       None \<Rightarrow> (s, log @ [[(''timestamp'', PStr (oa_timestamp a)), (''run_id'', PStr (os_run_id s)),
                           (''event_type'', PStr event_type), (''details'', PDict details)]])
     | Some error \<Rightarrow> (append_audit_warning event_type error s, log))"

section \<open>Dispatches\<close>

definition canonical_active_lease :: "pydict \<Rightarrow> string \<Rightarrow> string \<Rightarrow> pydict option" where
  "canonical_active_lease runtime lid item_id =
     (case nested_get (dget runtime ''leases'') lid of
        PDict l \<Rightarrow>
          if str_field l ''item_id'' \<noteq> item_id \<or> py_lower (str_field l ''status'') \<notin> set CANONICAL_ACTIVE_STATUSES
          then None else Some l
      | _ \<Rightarrow> None)"

definition put_dispatch :: "string \<Rightarrow> dispatch_receipt \<Rightarrow> orch_session \<Rightarrow> orch_session" where
  "put_dispatch item_id r s = s\<lparr>os_dispatches := AList.update item_id r (os_dispatches s)\<rparr>"

definition new_receipt ::
    "string \<Rightarrow> string \<Rightarrow> string \<Rightarrow> string \<Rightarrow> string \<Rightarrow> int \<Rightarrow> string \<Rightarrow> dispatch_receipt" where
  "new_receipt item_id role agent_id lid rid revision token =
     \<lparr>dr_item_id = item_id, dr_assigned_role = role, dr_agent_id = agent_id, dr_lease_id = lid, dr_request_id = rid,
      dr_runtime_revision = revision, dr_delivery_token = token, dr_retry_count = 0, dr_waiting_for_human = False,
      dr_handoff_reason = None, dr_artifact_path = None\<rparr>"

definition project_dispatch :: "orch_audit \<Rightarrow> dispatch_receipt \<Rightarrow> orch_state \<Rightarrow> orch_state" where
  "project_dispatch a r = (\<lambda>(s, log).
     log_audit_event a ''DISPATCH_PROJECTED''
       [(''item_id'', PStr (dr_item_id r)), (''role'', PStr (dr_assigned_role r))] (put_dispatch (dr_item_id r) r s, log))"

definition token_mismatch :: orch_error where
  "token_mismatch = DispatchValidationError ''Dispatch token does not match the active projection.''"

definition validate_dispatch :: "string \<Rightarrow> string \<Rightarrow> pydict \<Rightarrow> orch_session \<Rightarrow> orch_error + dispatch_receipt" where
  "validate_dispatch item_id token runtime s =
     (case map_of (os_dispatches s) item_id of
        None \<Rightarrow> Inl token_mismatch
      | Some r \<Rightarrow>
          if dr_delivery_token r \<noteq> token then Inl token_mismatch
          else if canonical_active_lease runtime (dr_lease_id r) item_id = None
          then Inl (DispatchValidationError ''Canonical lease is no longer active for this item.'')
          else Inr r)"

definition remove_dispatch :: "orch_audit \<Rightarrow> string \<Rightarrow> string \<Rightarrow> orch_state \<Rightarrow> (orch_error + unit) \<times> orch_state" where
  "remove_dispatch a item_id token = (\<lambda>(s, log).
     case map_of (os_dispatches s) item_id of
       None \<Rightarrow> (Inr (), (s, log))
     | Some r \<Rightarrow>
         if dr_delivery_token r \<noteq> token then (Inl token_mismatch, (s, log))
         else (Inr (), log_audit_event a ''DISPATCH_REMOVED'' [(''item_id'', PStr item_id)]
                 (s\<lparr>os_dispatches := AList.delete item_id (os_dispatches s)\<rparr>, log)))"

section \<open>Reconciliation\<close>

definition leases_of :: "pydict \<Rightarrow> pydict" where
  "leases_of runtime = (case dget runtime ''leases'' of PDict d \<Rightarrow> d | _ \<Rightarrow> [])"

definition mirrors_lease :: "pydict \<Rightarrow> string \<times> dispatch_receipt \<Rightarrow> bool" where
  "mirrors_lease runtime = (\<lambda>(item_id, r). canonical_active_lease runtime (dr_lease_id r) item_id \<noteq> None)"

text \<open>A lease the orchestrator holds and can hand back to a worker.\<close>

definition orchestrated :: "pydict \<Rightarrow> bool" where
  "orchestrated l \<longleftrightarrow>
     str_field l ''item_id'' \<noteq> [] \<and> startswith (str_field l ''agent_id'') ORCHESTRATOR_AGENT_PREFIX
     \<and> py_lower (str_field l ''status'') \<in> set CANONICAL_ACTIVE_STATUSES \<and> truthy (dget l ''resume_token'')"

definition rebuilt_receipt :: "int \<Rightarrow> string \<Rightarrow> pydict \<Rightarrow> dispatch_receipt" where
  "rebuilt_receipt revision lid l =
     new_receipt (str_field l ''item_id'') (str_field l ''role'') (py_str (dget l ''agent_id'')) lid
       (str_field l ''request_id'') revision (py_str (dget l ''resume_token''))"

fun rebuild_dispatches ::
    "orch_audit \<Rightarrow> int \<Rightarrow> pydict \<Rightarrow> nat \<Rightarrow> orch_state \<Rightarrow> nat \<times> orch_state" where
  "rebuild_dispatches a revision [] n st = (n, st)"
| "rebuild_dispatches a revision ((lid, PDict l) # ls) n st =
     (if \<not> orchestrated l \<or> map_of (os_dispatches (fst st)) (str_field l ''item_id'') \<noteq> None
      then rebuild_dispatches a revision ls n st
      else rebuild_dispatches a revision ls (Suc n)
             (log_audit_event a ''DISPATCH_REBUILT'' [(''item_id'', PStr (str_field l ''item_id''))]
               (put_dispatch (str_field l ''item_id'') (rebuilt_receipt revision lid l) (fst st), snd st)))"
| "rebuild_dispatches a revision ((lid, _) # ls) n st = rebuild_dispatches a revision ls n st"

record reconciliation =
  rec_retained :: nat
  rec_removed :: nat
  rec_rebuilt :: nat
  rec_revision :: int

definition reconcile_dispatches :: "orch_audit \<Rightarrow> pydict \<Rightarrow> int \<Rightarrow> orch_state \<Rightarrow> reconciliation \<times> orch_state" where
  "reconcile_dispatches a runtime revision = (\<lambda>(s, log).
     let kept = filter (mirrors_lease runtime) (os_dispatches s);
         (rebuilt, s', log') = rebuild_dispatches a revision (leases_of runtime) 0 (s\<lparr>os_dispatches := kept\<rparr>, log)
     in (\<lparr>rec_retained = length (os_dispatches s') - rebuilt, rec_removed = length (os_dispatches s) - length kept,
          rec_rebuilt = rebuilt, rec_revision = revision\<rparr>, (s', log')))"

section \<open>The session file\<close>

definition text_value :: "string option \<Rightarrow> pyval" where
  "text_value t = (case t of None \<Rightarrow> PNone | Some x \<Rightarrow> PStr x)"

definition int_dict :: "(string \<times> int) list \<Rightarrow> pyval" where
  "int_dict d = PDict (map (\<lambda>(k, n). (k, PInt n)) d)"

definition str_list :: "string list \<Rightarrow> pyval" where
  "str_list xs = PList (map PStr xs)"

definition receipt_to_dict :: "dispatch_receipt \<Rightarrow> pydict" where
  "receipt_to_dict r =
     [(''schema_version'', PStr DISPATCH_RECEIPT_SCHEMA_VERSION), (''item_id'', PStr (dr_item_id r)),
      (''assigned_role'', PStr (dr_assigned_role r)), (''agent_id'', PStr (dr_agent_id r)),
      (''lease_id'', PStr (dr_lease_id r)), (''request_id'', PStr (dr_request_id r)),
      (''runtime_revision'', PInt (dr_runtime_revision r)), (''delivery_token'', PStr (dr_delivery_token r)),
      (''retry_count'', PInt (dr_retry_count r)), (''waiting_for_human'', PBool (dr_waiting_for_human r)),
      (''handoff_reason'', text_value (dr_handoff_reason r)), (''artifact_path'', text_value (dr_artifact_path r))]"

text \<open>Reading a field: \<open>data[k]\<close> of text, and \<open>data.get(k, default)\<close> at a given type.\<close>

definition ill_typed :: "string \<Rightarrow> orch_error" where
  "ill_typed k = orch_exn (TypeError (''unexpected type of '' @ k))"

definition need_text :: "pydict \<Rightarrow> string \<Rightarrow> orch_error + string" where
  "need_text d k =
     (case map_of d k of None \<Rightarrow> Inl (orch_exn (KeyError k)) | Some (PStr t) \<Rightarrow> Inr t | Some v \<Rightarrow> Inl (ill_typed k))"

definition get_as :: "(pyval \<Rightarrow> 'a option) \<Rightarrow> 'a \<Rightarrow> pydict \<Rightarrow> string \<Rightarrow> orch_error + 'a" where
  "get_as f fallback d k =
     (case map_of d k of None \<Rightarrow> Inr fallback
      | Some v \<Rightarrow> (case f v of None \<Rightarrow> Inl (ill_typed k) | Some x \<Rightarrow> Inr x))"

definition as_text :: "pyval \<Rightarrow> string option" where
  "as_text v = (case v of PStr t \<Rightarrow> Some t | _ \<Rightarrow> None)"

definition as_number :: "pyval \<Rightarrow> int option" where
  "as_number v = (case v of PInt i \<Rightarrow> Some i | _ \<Rightarrow> None)"

definition as_flag :: "pyval \<Rightarrow> bool option" where
  "as_flag v = (case v of PBool b \<Rightarrow> Some b | _ \<Rightarrow> None)"

definition as_opt_text :: "pyval \<Rightarrow> string option option" where
  "as_opt_text v = (case v of PNone \<Rightarrow> Some None | PStr t \<Rightarrow> Some (Some t) | _ \<Rightarrow> None)"

definition all_some :: "('a \<Rightarrow> 'b option) \<Rightarrow> 'a list \<Rightarrow> 'b list option" where
  "all_some f xs = (if None \<in> set (map f xs) then None else Some (map (the \<circ> f) xs))"

definition as_texts :: "pyval \<Rightarrow> string list option" where
  "as_texts v = (case v of PList xs \<Rightarrow> all_some as_text xs | _ \<Rightarrow> None)"

definition as_numbers :: "pyval \<Rightarrow> (string \<times> int) list option" where
  "as_numbers v =
     (case v of PDict d \<Rightarrow> all_some (\<lambda>(k, x). map_option (Pair k) (as_number x)) d | _ \<Rightarrow> None)"

definition receipt_from_dict :: "pydict \<Rightarrow> orch_error + dispatch_receipt" where
  "receipt_from_dict d =
     (if dget d ''schema_version'' \<notin> PStr ` set SUPPORTED_RECEIPT_VERSIONS
      then Inl (OrchestrationSessionError ''Unsupported dispatch receipt schema version.'')
      else
        sum_bind (need_text d ''item_id'') (\<lambda>item_id.
        sum_bind (need_text d ''assigned_role'') (\<lambda>role.
        sum_bind (need_text d ''agent_id'') (\<lambda>agent_id.
        sum_bind (need_text d ''lease_id'') (\<lambda>lid.
        sum_bind (need_text d ''request_id'') (\<lambda>rid.
        sum_bind (case map_of d ''runtime_revision'' of
                    None \<Rightarrow> Inl (orch_exn (KeyError ''runtime_revision''))
                  | Some v \<Rightarrow> (case py_int v of Inl e \<Rightarrow> Inl (orch_exn e) | Inr n \<Rightarrow> Inr n)) (\<lambda>revision.
        sum_bind (need_text d ''delivery_token'') (\<lambda>token.
        sum_bind (get_as as_number 0 d ''retry_count'') (\<lambda>retries.
        sum_bind (get_as as_flag False d ''waiting_for_human'') (\<lambda>waiting.
        sum_bind (get_as as_opt_text None d ''handoff_reason'') (\<lambda>reason.
        sum_bind (get_as as_opt_text None d ''artifact_path'') (\<lambda>path.
          Inr ((new_receipt item_id role agent_id lid rid revision token)
                 \<lparr>dr_retry_count := retries, dr_waiting_for_human := waiting, dr_handoff_reason := reason,
                  dr_artifact_path := path\<rparr>)))))))))))))"

definition session_to_dict :: "orch_session \<Rightarrow> pydict" where
  "session_to_dict s =
     [(''schema_version'', PInt ORCHESTRATION_SCHEMA_VERSION), (''run_id'', PStr (os_run_id s)), (''repo'', PStr (os_repo s)),
      (''pr_number'', PStr (os_pr_number s)), (''state'', PStr (os_state s)), (''config'', int_dict (os_config s)),
      (''completed'', PBool (os_completed s)), (''completed_at'', text_value (os_completed_at s)),
      (''completed_reason'', text_value (os_completed_reason s)),
      (''active_dispatches'', PDict (map (\<lambda>(k, r). (k, PDict (receipt_to_dict r))) (os_dispatches s))),
      (''queued_items'', str_list (os_queued s)), (''retry_counts'', int_dict (os_retry_counts s)),
      (''audit_warnings'', str_list (os_warnings s))]"

definition receipts_from_dict :: "pyval \<Rightarrow> orch_error + (string \<times> dispatch_receipt) list" where
  "receipts_from_dict v =
     (case v of
        PDict d \<Rightarrow>
          sum_map (\<lambda>(k, x). case x of PDict r \<Rightarrow> sum_bind (receipt_from_dict r) (\<lambda>y. Inr (k, y))
                              | _ \<Rightarrow> Inl (ill_typed k)) d
      | _ \<Rightarrow> Inl (ill_typed ''active_dispatches''))"

definition V1_WARNING :: string where
  "V1_WARNING =
     ''ORCHESTRATION_V1_RECONCILE_REQUIRED: legacy shadow leases were discarded; runtime reconciliation is required''"

definition session_from_dict :: "string \<Rightarrow> pydict \<Rightarrow> orch_error + orch_session" where
  "session_from_dict fresh_run d =
     sum_bind (case py_int (py_or (dget d ''schema_version'') (PInt 1)) of Inl e \<Rightarrow> Inl (orch_exn e) | Inr n \<Rightarrow> Inr n) (\<lambda>version.
       if version \<notin> {1, ORCHESTRATION_SCHEMA_VERSION}
       then Inl (OrchestrationSessionError ''Unsupported orchestration schema version.'')
       else
         sum_bind (get_as as_text fresh_run d ''run_id'') (\<lambda>run_id.
         sum_bind (need_text d ''repo'') (\<lambda>repo.
         sum_bind (need_text d ''pr_number'') (\<lambda>pr_number.
         sum_bind (get_as as_text ''INITIALIZED'' d ''state'') (\<lambda>state.
         sum_bind (get_as as_numbers default_config d ''config'') (\<lambda>config.
         sum_bind (get_as as_flag False d ''completed'') (\<lambda>completed.
         sum_bind (get_as as_opt_text None d ''completed_at'') (\<lambda>completed_at.
         sum_bind (get_as as_opt_text None d ''completed_reason'') (\<lambda>completed_reason.
         sum_bind (get_as as_texts [] d ''queued_items'') (\<lambda>queued.
         sum_bind (get_as as_numbers [] d ''retry_counts'') (\<lambda>retries.
         sum_bind (get_as as_texts [] d ''audit_warnings'') (\<lambda>warnings.
         sum_bind (if version = ORCHESTRATION_SCHEMA_VERSION
                   then receipts_from_dict (dget_default d ''active_dispatches'' (PDict [])) else Inr []) (\<lambda>dispatches.
           Inr \<lparr>os_run_id = run_id, os_repo = repo, os_pr_number = pr_number, os_state = state, os_config = config,
                os_completed = completed, os_completed_at = completed_at, os_completed_reason = completed_reason,
                os_dispatches = dispatches, os_queued = queued, os_retry_counts = retries,
                os_warnings = warnings @ (if version \<noteq> ORCHESTRATION_SCHEMA_VERSION \<and> truthy (dget d ''active_leases'')
                                          then [V1_WARNING] else [])\<rparr>)))))))))))))"

text \<open>\<open>write_json_atomic\<close> sorts the keys of every object.\<close>

definition saved_file :: "orch_session \<Rightarrow> request_file" where
  "saved_file s = JsonFile (json_sorted (PDict (session_to_dict s)))"

definition load_orchestration_session :: "string \<Rightarrow> request_file \<Rightarrow> orch_error + orch_session" where
  "load_orchestration_session fresh_run file =
     (case file of
        NoFile \<Rightarrow> Inl (OrchestrationSessionError ''orchestration.json is missing. Session cannot be resumed.'')
      | BadJson \<Rightarrow> Inl (OrchestrationSessionError ''orchestration.json is corrupted. Session cannot be resumed.'')
      | JsonFile (PDict d) \<Rightarrow> session_from_dict fresh_run d
      | JsonFile v \<Rightarrow> Inl (orch_exn (AttributeError (str_repr (type_name v) @ '' object has no attribute '' @ single_quoted ''get''))))"

section \<open>Workers\<close>

definition MAX_RETRIES :: int where
  "MAX_RETRIES = 3"

record worker_reads =
  wr_files :: "string \<Rightarrow> request_file"
  wr_blank :: "string \<Rightarrow> bool"
    \<comment> \<open>the file that is no JSON is blank\<close>
  wr_json_error :: "string \<Rightarrow> string"

definition validate_action_response :: "pyval \<Rightarrow> string list \<Rightarrow> orch_error + unit" where
  "validate_action_response response required =
     (case response of
        PDict d \<Rightarrow>
          (let evidence = (case dget d ''evidence'' of PDict e \<Rightarrow> e | _ \<Rightarrow> d)
           in case find (\<lambda>k. \<not> has_key evidence k) required of
                None \<Rightarrow> Inr ()
              | Some k \<Rightarrow> Inl (WorkerPacketValidationError
                    (''ActionResponse evidence missing required field: '' @ str_repr k @ ''.'')))
      | _ \<Rightarrow> Inl (orch_exn (AttributeError (str_repr (type_name response) @ '' object has no attribute '' @ single_quoted ''get''))))"

definition parse_and_validate_response ::
    "worker_reads \<Rightarrow> string \<Rightarrow> string list \<Rightarrow> int \<Rightarrow> orch_error + pyval" where
  "parse_and_validate_response w path required retry_count =
     (case wr_files w path of
        NoFile \<Rightarrow> Inl (WorkerPacketValidationError (''Response path '' @ single_quoted path @ '' does not exist.''))
      | BadJson \<Rightarrow>
          if wr_blank w path then Inl (WorkerPacketValidationError (''Response path '' @ single_quoted path @ '' is empty.''))
          else if MAX_RETRIES \<le> retry_count
          then Inl (HumanHandoffRequired (''Max retries ('' @ int_dec MAX_RETRIES @ '') reached. Failed to parse JSON: '' @ wr_json_error w path))
          else Inl (WorkerPacketValidationError (''Failed to parse JSON response: '' @ wr_json_error w path))
      | JsonFile response \<Rightarrow> sum_bind (validate_action_response response required) (\<lambda>_. Inr response))"

definition REQUIRED_WORKER_EVIDENCE :: "string list" where
  "REQUIRED_WORKER_EVIDENCE = [''files'', ''validation_commands'', ''note'', ''fix_reply'']"

definition build_worker_packet ::
    "string \<Rightarrow> string \<Rightarrow> string \<Rightarrow> string \<Rightarrow> string \<Rightarrow> pydict \<Rightarrow> string \<Rightarrow> pydict \<Rightarrow> pydict \<Rightarrow> pydict" where
  "build_worker_packet uuid run_id token role session_id item response_path action_request receipt =
     (let request = (if action_request \<noteq> [] then action_request
                     else [(''request_id'', PStr (''req-'' @ uuid)), (''session_id'', PStr session_id),
                           (''lease_id'', PStr (str_field receipt ''lease_id'')), (''agent_role'', PStr role),
                           (''item'', PDict (request_item_projection item)),
                           (''allowed_actions'', str_list [''fix'', ''clarify'', ''defer'']),
                           (''required_evidence'', str_list REQUIRED_WORKER_EVIDENCE)])
      in [(''schema_version'', PStr ''worker-packet.v2''), (''orchestration_run_id'', PStr run_id),
          (''delivery_token'', PStr token), (''dispatch_receipt'', PDict receipt), (''role_requested'', PStr role),
          (''action_request'', PDict request),
          (''relevant_file_context'', PStr (py_str (dget_default item ''path'' (PStr ''unknown''))
             @ '':'' @ py_str (dget_default item ''line'' (PStr ''0'')))),
          (''submit_recovery_instruction'', PStr
             (''Run validation commands to verify your fix. Write the response JSON strictly to the response_path.'')),
          (''response_path'', PStr response_path)])"

end
