(* ===== verification/Orchestrator.thy ===== *)
theory Orchestrator
  imports Orch_Session Gate_Service
begin

text \<open>
  The commands of the orchestrator (\<open>orchestrator/harness.py\<close>): starting, resuming, showing and
  stopping a session, one dispatch step, and submitting a worker's response, over the agent
  protocol and the file \<open>orchestration.json\<close>; and the plan of the autopilot.

  A command maps the world (the store of the agent protocol, the session file and the audit
  log) to an exit code with the printed signal, or to the exception that escapes it, and the
  world it leaves. The texts of exceptions, random ids, what GitHub answers and other processes
  commit, and the time a reconciliation took are arguments. Parsing of arguments, writing the
  session file (which is taken to succeed) and telemetry are left out.
\<close>

section \<open>The world\<close>

record orch_env =
  oe_agent :: agent_env
  oe_audit :: orch_audit
  oe_request :: request_input
  oe_views :: "nat \<Rightarrow> submit_view"
  oe_others :: "agent_store \<Rightarrow> agent_store"
  oe_load_error :: "nat \<Rightarrow> effect_error option"
    \<comment> \<open>of each load of the canonical session in the command\<close>
  oe_blank :: "string \<Rightarrow> bool"
  oe_json_error :: "string \<Rightarrow> string"
  oe_error_text :: "effect_error \<Rightarrow> string"
  oe_error_name :: "orch_error \<Rightarrow> string"
  oe_uuid :: string
  oe_slow :: bool
  oe_seconds :: pyval

record orch_world =
  ow_store :: agent_store
  ow_file :: request_file
  ow_audit :: "pydict list"

type_synonym answer = "int \<times> pydict"

type_synonym command = "orch_world \<Rightarrow> (orch_error + answer) \<times> orch_world"

definition orch_text :: "orch_env \<Rightarrow> orch_error \<Rightarrow> string" where
  "orch_text env e =
     (case e of DispatchValidationError m \<Rightarrow> m | OrchestrationSessionError m \<Rightarrow> m | WorkerPacketValidationError m \<Rightarrow> m
      | HumanHandoffRequired m \<Rightarrow> m | OrchRaised (EffectRaised x) \<Rightarrow> exn_str x | OrchRaised x \<Rightarrow> oe_error_text env x)"

definition output_signal :: "string \<Rightarrow> string \<Rightarrow> string \<Rightarrow> string \<Rightarrow> string list \<Rightarrow> pydict" where
  "output_signal status reason_code next_action message warnings =
     [(''status'', PStr status), (''reason_code'', PStr reason_code), (''next_action'', PStr next_action),
      (''message'', PStr message)] @ (if warnings = [] then [] else [(''warnings'', str_list warnings)])"

text \<open>\<open>ClaimLease.to_dict\<close>; instants stay numbers.\<close>

definition lease_to_dict :: "lease \<Rightarrow> pydict" where
  "lease_to_dict l =
     [(''lease_id'', PStr (lease_id l)), (''item_id'', PStr (l_item_id l)), (''agent_id'', PStr (l_agent_id l)),
      (''role'', PStr (role_value (l_role l))), (''status'', PStr (l_status l)),
      (''conflict_keys'', str_list (l_conflict_keys l)), (''created_at'', PInt (l_created_at l)),
      (''expires_at'', PInt (l_expires_at l))]
     @ List.map_filter (\<lambda>(k, t). map_option (\<lambda>x. (k, PStr x)) t)
         [(''resume_token'', l_resume_token l), (''request_hash'', l_request_hash l), (''request_id'', l_request_id l),
          (''request_path'', l_request_path l)]"

definition runtime_of :: "nat \<Rightarrow> agent_session \<Rightarrow> pydict" where
  "runtime_of revision s =
     dset ''persistence'' (PDict [(''schema_version'', PInt 3), (''revision'', PInt (int revision))])
       (dset ''leases'' (PDict (map (\<lambda>(k, l). (k, PDict (lease_to_dict l))) (s_leases (as_leases s))))
         (dset ''items'' (PDict (s_items (as_leases s))) (as_doc s)))"

definition load_runtime_state :: "orch_env \<Rightarrow> nat \<Rightarrow> agent_store \<Rightarrow> orch_error + pydict" where
  "load_runtime_state env n st =
     (case oe_load_error env n of
        Some e \<Rightarrow> Inl (OrchRaised e)
      | None \<Rightarrow> (case project_claims (ag_session st) of
                  Inl e \<Rightarrow> Inl (OrchRaised e) | Inr s \<Rightarrow> Inr (runtime_of (ag_revision st) s)))"

section \<open>Versions\<close>

definition MIN_REQUIRED_VERSION :: string where
  "MIN_REQUIRED_VERSION = ''0.0.1''"

definition version_tuple :: "string \<Rightarrow> nat list" where
  "version_tuple value =
     (let core = hd (split_char CHR ''+'' (hd (split_char CHR ''-'' value)));
          heads = map (takeWhile json_digit) (split_char CHR ''.'' core)
      in map (digits_value 0) (filter (\<lambda>h. h \<noteq> []) heads))"

fun tuple_le :: "nat list \<Rightarrow> nat list \<Rightarrow> bool" where
  "tuple_le [] ys = True"
| "tuple_le (x # xs) [] = False"
| "tuple_le (x # xs) (y # ys) = (x < y \<or> x = y \<and> tuple_le xs ys)"

definition check_runtime_version :: "string \<Rightarrow> bool" where
  "check_runtime_version version = tuple_le (version_tuple MIN_REQUIRED_VERSION) (version_tuple version)"

section \<open>The queue\<close>

definition active_runtime_items :: "pydict \<Rightarrow> string list" where
  "active_runtime_items runtime =
     List.map_filter (\<lambda>(k, v). case v of
         PDict l \<Rightarrow> if py_lower (str_field l ''status'') \<in> {''active'', ''submitted''} \<and> truthy (dget l ''item_id'')
                    then Some (py_str (dget l ''item_id'')) else None
       | _ \<Rightarrow> None) (leases_of runtime)"

definition eligible_runtime_items :: "pydict \<Rightarrow> string list" where
  "eligible_runtime_items runtime =
     (case dget runtime ''items'' of
        PDict items \<Rightarrow>
          filter (\<lambda>k. k \<notin> set (active_runtime_items runtime)
                      \<and> (case dget items k of PDict i \<Rightarrow> truthy (dget i ''blocking'') \<and> \<not> truthy (dget i ''handled'') | _ \<Rightarrow> False))
            (sort (map fst items))
      | _ \<Rightarrow> [])"

definition reconcile_from_runtime :: "orch_env \<Rightarrow> pydict \<Rightarrow> orch_state \<Rightarrow> orch_error + orch_state" where
  "reconcile_from_runtime env runtime st =
     (case (case dget runtime ''persistence'' of PDict p \<Rightarrow> py_int (py_or (dget p ''revision'') (PInt 0)) | _ \<Rightarrow> Inr 0) of
        Inl e \<Rightarrow> Inl (orch_exn e)
      | Inr revision \<Rightarrow> Inr (snd (reconcile_dispatches (oe_audit env) runtime revision st)))"

definition BUDGET_TEXT :: string where
  "BUDGET_TEXT = ''reconciliation exceeded 1.000s budget''"

definition sync_queue :: "orch_env \<Rightarrow> nat \<Rightarrow> bool \<Rightarrow> agent_store \<Rightarrow> orch_state \<Rightarrow> (orch_error + unit) \<times> orch_state" where
  "sync_queue env n enforce_budget store st =
     (case load_runtime_state env n store of
        Inl e \<Rightarrow> (Inl e, st)
      | Inr runtime \<Rightarrow>
          (case reconcile_from_runtime env runtime st of
             Inl e \<Rightarrow> (Inl e, st)
           | Inr (s, log) \<Rightarrow>
               (let queued = filter (\<lambda>k. map_of (os_dispatches s) k = None) (eligible_runtime_items runtime);
                    st' = (s\<lparr>os_queued := queued\<rparr>, log)
                in if enforce_budget \<and> oe_slow env then (Inl (OrchRaised (RuntimeError BUDGET_TEXT)), st')
                   else (Inr (), st'))))"

definition load_session_file :: "orch_env \<Rightarrow> orch_world \<Rightarrow> orch_error + orch_session" where
  "load_session_file env w = load_orchestration_session (''run-'' @ oe_uuid env) (ow_file w)"

definition is_session_error :: "orch_error \<Rightarrow> bool" where
  "is_session_error e \<longleftrightarrow> (case e of OrchestrationSessionError m \<Rightarrow> True | _ \<Rightarrow> False)"

definition config_put :: "string \<Rightarrow> int \<Rightarrow> orch_session \<Rightarrow> orch_session" where
  "config_put k n s = s\<lparr>os_config := AList.update k n (os_config s)\<rparr>"

definition saved :: "orch_session \<Rightarrow> pydict list \<Rightarrow> orch_world \<Rightarrow> orch_world" where
  "saved s log w = w\<lparr>ow_file := saved_file s, ow_audit := log\<rparr>"

section \<open>Starting, resuming, status and stop\<close>

definition run_label :: "orch_env \<Rightarrow> orch_session \<Rightarrow> string" where
  "run_label env s = os_run_id s @ '' for '' @ ae_repo (oe_agent env) @ ''/pr-'' @ ae_pr_number (oe_agent env)"

text \<open>A session for \<open>start\<close>: the stored one unless it is complete with nothing left, or a new one.\<close>

definition open_for_start :: "orch_env \<Rightarrow> orch_world \<Rightarrow> orch_error + orch_session option" where
  "open_for_start env w =
     (case load_session_file env w of
        Inl e \<Rightarrow> if is_session_error e
                 then Inr (Some (new_orchestration (''run-'' @ take 8 (oe_uuid env)) (ae_repo (oe_agent env)) (ae_pr_number (oe_agent env))))
                 else Inl e
      | Inr s \<Rightarrow>
          if \<not> os_completed s then Inr (Some s)
          else (case load_runtime_state env 0 (ow_store w) of
                  Inl e \<Rightarrow> Inl e
                | Inr runtime \<Rightarrow>
                    Inr (if eligible_runtime_items runtime = [] then None else Some (s\<lparr>os_completed := False\<rparr>))))"

definition handle_start :: "orch_env \<Rightarrow> int \<Rightarrow> int \<Rightarrow> command" where
  "handle_start env max_concurrency threshold w =
     (let failed = (\<lambda>e log. (Inr (5, output_signal ''FAILED'' ''SYSTEM_ERROR'' ''HALT''
                        (''Failed to start orchestration: '' @ orch_text env e) []), w\<lparr>ow_audit := log\<rparr>))
      in case open_for_start env w of
           Inl e \<Rightarrow> failed e (ow_audit w)
         | Inr None \<Rightarrow> (Inr (0, output_signal ''LOCKED'' ''SESSION_LOCKED'' ''HALT'' ''Session is locked and fully handled.'' []), w)
         | Inr (Some s) \<Rightarrow>
             (case sync_queue env 1 False (ow_store w)
                     (config_put ''circuit_breaker_threshold'' threshold (config_put ''max_concurrency'' max_concurrency s), ow_audit w) of
                (Inl e, (s1, log)) \<Rightarrow> failed e log
              | (Inr _, (s1, log)) \<Rightarrow>
                  (let (warnings, s2) = pop_audit_warnings s1
                   in (Inr (0, output_signal ''SUCCESS'' ''INITIALIZED'' ''PROCEED''
                         (''Initialized session '' @ run_label env s2 @ '' (queued='' @ nat_dec (length (os_queued s2)) @ '')'') warnings),
                       saved s2 log w))))"

definition handle_resume :: "orch_env \<Rightarrow> command" where
  "handle_resume env w =
     (let failed = (\<lambda>e log.
            (Inr (if is_session_error e then (2, output_signal ''FAILED'' ''SESSION_ERROR'' ''HALT'' (orch_text env e) [])
                  else (5, output_signal ''FAILED'' ''SYSTEM_ERROR'' ''HALT'' (''Failed to resume orchestration: '' @ orch_text env e) [])),
             w\<lparr>ow_audit := log\<rparr>))
      in case load_session_file env w of
           Inl e \<Rightarrow> failed e (ow_audit w)
         | Inr s \<Rightarrow>
             (case sync_queue env 0 False (ow_store w) (s, ow_audit w) of
                (Inl e, (s1, log)) \<Rightarrow> failed e log
              | (Inr _, (s1, log)) \<Rightarrow>
                  (let (warnings, s2) = pop_audit_warnings s1
                   in (Inr (0, output_signal ''SUCCESS'' ''RESUMED'' ''PROCEED'' (''Resumed session '' @ run_label env s2) warnings),
                       saved s2 log w))))"

text \<open>The classes derived from \<open>RuntimeError\<close>; \<open>SessionError\<close> and \<open>WorkflowError\<close> are among them.\<close>

definition is_runtime_error :: "orch_error \<Rightarrow> bool" where
  "is_runtime_error e \<longleftrightarrow>
     (case e of OrchRaised (SessionError _ _) \<Rightarrow> True | OrchRaised (WorkflowError _ _ _) \<Rightarrow> True
      | OrchRaised (RuntimeError _) \<Rightarrow> True | OrchRaised (GitHubRaised _) \<Rightarrow> True | _ \<Rightarrow> False)"

definition status_failure :: "orch_env \<Rightarrow> orch_error \<Rightarrow> answer" where
  "status_failure env e =
     (if is_session_error e then (2, output_signal ''FAILED'' ''SESSION_ERROR'' ''HALT'' (orch_text env e) [])
      else if is_runtime_error e then (2, output_signal ''FAILED'' ''RECONCILIATION_TIMEOUT'' ''RETRY'' (orch_text env e) [])
      else (5, output_signal ''FAILED'' ''SYSTEM_ERROR'' ''HALT'' (''Unexpected error during status: '' @ orch_text env e) []))"

definition handle_status :: "orch_env \<Rightarrow> command" where
  "handle_status env w =
     (case load_session_file env w of
        Inl e \<Rightarrow> (Inr (status_failure env e), w)
      | Inr s \<Rightarrow>
          (case sync_queue env 0 True (ow_store w) (s, ow_audit w) of
             (Inl e, (s1, log)) \<Rightarrow> (Inr (status_failure env e), w\<lparr>ow_audit := log\<rparr>)
           | (Inr _, (s1, log)) \<Rightarrow>
               (let (warnings, s2) = pop_audit_warnings s1
                in (Inr (0, [(''status'', PStr ''READY''), (''reason_code'', PStr ''STATUS_OK''), (''next_action'', PStr ''PROCEED''),
                             (''run_id'', PStr (os_run_id s2)), (''active_dispatches'', PInt (int (length (os_dispatches s2)))),
                             (''queued_items'', PInt (int (length (os_queued s2)))), (''reconciliation_seconds'', oe_seconds env)]
                            @ (if warnings = [] then [] else [(''warnings'', str_list warnings)])),
                    saved s2 log w))))"

definition run_authoritative_gate :: "orch_env \<Rightarrow> agent_store \<Rightarrow> orch_error + int" where
  "run_authoritative_gate env st =
     (case load_runtime_state env 1 st of
        Inl (OrchRaised (SessionError code x)) \<Rightarrow> Inr 1
      | Inl e \<Rightarrow> Inl e
      | Inr runtime \<Rightarrow>
          (case evaluate_final_gate runtime [] [] None [] None of
             Inl e \<Rightarrow> Inl (orch_exn e) | Inr r \<Rightarrow> Inr (gate_exit_code r)))"

definition stop_failure :: "orch_error \<Rightarrow> orch_error + answer" where
  "stop_failure e =
     (case e of
        OrchRaised (SessionError code x) \<Rightarrow>
          Inr (2, output_signal ''FAILED'' ''GATE_FAILED'' ''HALT'' ''Cannot stop: authoritative runtime state is unavailable.'' [])
      | OrchestrationSessionError m \<Rightarrow>
          Inr (0, output_signal ''SUCCESS'' ''COMPLETED'' ''HALT'' ''agent orchestrate stop: no active session found'' [])
      | _ \<Rightarrow> Inl e)"

definition handle_stop :: "orch_env \<Rightarrow> command" where
  "handle_stop env w =
     (case load_session_file env w of
        Inl e \<Rightarrow> (stop_failure e, w)
      | Inr s \<Rightarrow>
          (case sync_queue env 0 False (ow_store w) (s, ow_audit w) of
             (Inl e, (s1, log)) \<Rightarrow> (stop_failure e, w\<lparr>ow_audit := log\<rparr>)
           | (Inr _, (s1, log)) \<Rightarrow>
               if os_dispatches s1 \<noteq> []
               then (Inr (2, output_signal ''FAILED'' ''ACTIVE_LEASES_EXIST'' ''HALT''
                       (''Cannot stop: '' @ nat_dec (length (os_dispatches s1)) @ '' active dispatches exist.'') []), w\<lparr>ow_audit := log\<rparr>)
               else (case run_authoritative_gate env (ow_store w) of
                       Inl e \<Rightarrow> (stop_failure e, w\<lparr>ow_audit := log\<rparr>)
                     | Inr rc \<Rightarrow>
                         if rc \<noteq> 0
                         then (Inr (2, output_signal ''FAILED'' ''GATE_FAILED'' ''HALT'' ''Cannot stop: final-gate failed.'' []),
                               w\<lparr>ow_audit := log\<rparr>)
                         else (Inr (0, output_signal ''SUCCESS'' ''COMPLETED'' ''HALT'' ''agent orchestrate stop completed'' []),
                               saved (s1\<lparr>os_completed := True, os_completed_at := Some (ae_timestamp (oe_agent env)),
                                        os_completed_reason := Some ''Manual stop via agent orchestrate stop''\<rparr>) log w))))"

section \<open>Submitting a response\<close>

definition worker_reads_of :: "orch_env \<Rightarrow> agent_store \<Rightarrow> worker_reads" where
  "worker_reads_of env st = \<lparr>wr_files = ag_files st, wr_blank = oe_blank env, wr_json_error = oe_json_error env\<rparr>"

definition retry_count_of :: "orch_session \<Rightarrow> string \<Rightarrow> int" where
  "retry_count_of s item_id = (case map_of (os_retry_counts s) item_id of None \<Rightarrow> 0 | Some n \<Rightarrow> n)"

definition put_retry :: "string \<Rightarrow> int \<Rightarrow> orch_session \<Rightarrow> orch_session" where
  "put_retry item_id n s = s\<lparr>os_retry_counts := AList.update item_id n (os_retry_counts s)\<rparr>"

definition mark_waiting :: "string \<Rightarrow> string \<Rightarrow> string \<Rightarrow> orch_session \<Rightarrow> orch_session" where
  "mark_waiting item_id reason path s =
     (case map_of (os_dispatches s) item_id of
        None \<Rightarrow> s
      | Some r \<Rightarrow> put_dispatch item_id
          (r\<lparr>dr_waiting_for_human := True, dr_handoff_reason := Some reason, dr_artifact_path := Some path\<rparr>) s)"

record worker_submission =
  sa_item :: string
  sa_token :: string
  sa_input :: string

text \<open>A response that is not usable: counted, and handed to a human at the threshold.\<close>

definition refuse_response :: "orch_env \<Rightarrow> worker_submission \<Rightarrow> string \<Rightarrow> orch_session \<Rightarrow> answer \<times> orch_session" where
  "refuse_response env a reason s =
     (let n = retry_count_of s (sa_item a) + 1; s1 = put_retry (sa_item a) n s;
          threshold = config_value s1 ''circuit_breaker_threshold''
      in if threshold \<le> n
         then ((2, output_signal ''FAILED'' ''HUMAN_INTERVENTION_REQUIRED'' ''HANDOFF''
                  (''CRITICAL: Human Handoff Required: Max retries ('' @ int_dec threshold @ '') reached for '' @ sa_item a @ ''.'') []),
               mark_waiting (sa_item a) reason (sa_input a) s1)
         else ((2, output_signal ''FAILED'' ''PAYLOAD_CORRUPT'' ''RETRY'' (''Submission failed: '' @ reason) []), s1))"

definition hand_off :: "orch_env \<Rightarrow> worker_submission \<Rightarrow> string \<Rightarrow> orch_session \<Rightarrow> answer \<times> orch_session" where
  "hand_off env a reason s =
     ((2, output_signal ''FAILED'' ''HUMAN_INTERVENTION_REQUIRED'' ''HANDOFF'' (''CRITICAL: Human Handoff Required: '' @ reason) []),
      mark_waiting (sa_item a) reason (sa_input a)
        (put_retry (sa_item a) (max (retry_count_of s (sa_item a)) (config_value s ''circuit_breaker_threshold'')) s))"

definition submit_failure :: "orch_env \<Rightarrow> orch_error \<Rightarrow> answer" where
  "submit_failure env e =
     (case e of
        WorkerPacketValidationError m \<Rightarrow> (2, output_signal ''FAILED'' ''STALE_REQUEST_CONTEXT'' ''RETRY'' (''Submission failed: '' @ m) [])
      | DispatchValidationError m \<Rightarrow> (2, output_signal ''FAILED'' ''STALE_REQUEST_CONTEXT'' ''RETRY'' (''Submission failed: '' @ m) [])
      | OrchestrationSessionError m \<Rightarrow> (2, output_signal ''FAILED'' ''SESSION_ERROR'' ''HALT'' (''Submission failed: '' @ m) [])
      | HumanHandoffRequired m \<Rightarrow>
          (2, output_signal ''FAILED'' ''HUMAN_INTERVENTION_REQUIRED'' ''HANDOFF'' (''CRITICAL: Human Handoff Required: '' @ m) [])
      | OrchRaised x \<Rightarrow> (5, output_signal ''FAILED'' ''SYSTEM_ERROR'' ''HALT'' (''Unexpected error: '' @ orch_text env e) []))"

text \<open>The part after the dispatch was validated; the reconciled session is already saved.\<close>

definition submit_validated :: "orch_env \<Rightarrow> worker_submission \<Rightarrow> orch_session \<Rightarrow> orch_world \<Rightarrow> answer \<times> orch_world" where
  "submit_validated env a s w =
     (case parse_and_validate_response (worker_reads_of env (ow_store w)) (sa_input a) REQUIRED_WORKER_EVIDENCE
             (retry_count_of s (sa_item a)) of
        Inl (WorkerPacketValidationError m) \<Rightarrow>
          (case refuse_response env a m s of (r, s1) \<Rightarrow> (r, saved s1 (ow_audit w) w))
      | Inl (HumanHandoffRequired m) \<Rightarrow>
          (case hand_off env a m s of (r, s1) \<Rightarrow> (r, saved s1 (ow_audit w) w))
      | Inl e \<Rightarrow> (submit_failure env e, w)
      | Inr response \<Rightarrow>
          (case submit_action_response (oe_agent env) (oe_views env) False (sa_input a) (ow_store w) of
             (Inl (WorkflowError status code payload), st) \<Rightarrow>
               ((2, output_signal ''FAILED'' code ''RETRY''
                   (''Submission failed: '' @ code @ '': '' @ oe_error_text env (WorkflowError status code payload)) []),
                saved s (ow_audit w) (w\<lparr>ow_store := st\<rparr>))
           | (Inl e, st) \<Rightarrow> (submit_failure env (OrchRaised e), w\<lparr>ow_store := st\<rparr>)
           | (Inr submitted, st) \<Rightarrow>
               (case remove_dispatch (oe_audit env) (sa_item a) (sa_token a) (s, ow_audit w) of
                  (Inl e, (s1, log)) \<Rightarrow> (submit_failure env e, w\<lparr>ow_store := st, ow_audit := log\<rparr>)
                | (Inr _, (s1, log)) \<Rightarrow>
                    (let (warnings, s2) = pop_audit_warnings (s1\<lparr>os_retry_counts := AList.delete (sa_item a) (os_retry_counts s1)\<rparr>)
                     in ((0, output_signal ''SUCCESS'' ''SUBMITTED'' ''PROCEED'' (''Verified and submitted '' @ sa_item a) warnings),
                         saved s2 log (w\<lparr>ow_store := st\<rparr>))))))"

definition handle_submit :: "orch_env \<Rightarrow> worker_submission \<Rightarrow> command" where
  "handle_submit env a w =
     (case load_session_file env w of
        Inl e \<Rightarrow> (Inr (submit_failure env e), w)
      | Inr s \<Rightarrow>
          (case load_runtime_state env 0 (ow_store w) of
             Inl e \<Rightarrow> (Inr (submit_failure env e), w)
           | Inr runtime \<Rightarrow>
               (case reconcile_from_runtime env runtime (s, ow_audit w) of
                  Inl e \<Rightarrow> (Inr (submit_failure env e), w)
                | Inr (s1, log) \<Rightarrow>
                    (case validate_dispatch (sa_item a) (sa_token a) runtime s1 of
                       Inl e \<Rightarrow> (Inr (submit_failure env e), saved s1 log w)
                     | Inr r \<Rightarrow> (case submit_validated env a s1 (saved s1 log w) of (answer, w') \<Rightarrow> (Inr answer, w'))))))"

section \<open>A dispatch step\<close>

record step_args =
  st_role :: "string option"
  st_max_concurrency :: "int option"
  st_threshold :: "int option"

definition with_config :: "string \<Rightarrow> int option \<Rightarrow> orch_session \<Rightarrow> orch_session" where
  "with_config k n s = (case n of None \<Rightarrow> s | Some x \<Rightarrow> config_put k x s)"

text \<open>The session to step with, or the answer when there is none.\<close>

definition prepare_session_for_step :: "orch_env \<Rightarrow> step_args \<Rightarrow> orch_world \<Rightarrow> (answer + orch_session) \<times> pydict list" where
  "prepare_session_for_step env a w =
     (let failed = (\<lambda>e. (2,
            if is_session_error e then output_signal ''FAILED'' ''SESSION_ERROR'' ''HALT'' (orch_text env e) []
            else output_signal ''FAILED'' ''SYSTEM_ERROR'' ''HALT'' (''Failed to synchronize runtime queue: '' @ orch_text env e) []))
      in case load_session_file env w of
           Inl e \<Rightarrow> (Inl (failed e), ow_audit w)
         | Inr s \<Rightarrow>
             (case sync_queue env 0 False (ow_store w)
                     (with_config ''circuit_breaker_threshold'' (st_threshold a)
                        (with_config ''max_concurrency'' (st_max_concurrency a) s), ow_audit w) of
                (Inl e, (s1, log)) \<Rightarrow> (Inl (failed e), log)
              | (Inr _, (s1, log)) \<Rightarrow>
                  if os_completed s1 \<and> os_queued s1 = [] \<and> os_dispatches s1 = []
                  then (Inl (0, output_signal ''LOCKED'' ''SESSION_LOCKED'' ''HALT'' ''Session is locked and fully handled.'' []), log)
                  else (let s2 = s1\<lparr>os_completed := False\<rparr>; limit = config_value s2 ''max_concurrency''
                        in if limit \<le> int (length (os_dispatches s2))
                           then (Inl (0, output_signal ''WAITING'' ''MAX_CONCURRENCY_REACHED'' ''RETRY''
                                   (''Max concurrency ('' @ int_dec limit @ '') reached.'') (os_warnings s2)), log)
                           else (Inr s2, log))))"

definition idle_answer :: "orch_session \<Rightarrow> answer" where
  "idle_answer s =
     (0, if os_dispatches s = []
         then output_signal ''SUCCESS'' ''QUEUE_EMPTY'' ''HALT'' ''Zero pending items.'' (os_warnings s)
         else output_signal ''WAITING'' ''WAITING_FOR_LEASES'' ''RETRY''
                (''Waiting for '' @ nat_dec (length (os_dispatches s)) @ '' active dispatches.'') (os_warnings s))"

definition handle_workflow_error ::
    "orch_env \<Rightarrow> string \<Rightarrow> string \<Rightarrow> orch_session \<Rightarrow> pydict list \<Rightarrow> command" where
  "handle_workflow_error env code message s log w =
     (if code = ''NO_ELIGIBLE_ITEM''
      then (case sync_queue env 1 False (ow_store w) (s, log) of
              (Inl e, (s1, log1)) \<Rightarrow> (Inl e, w\<lparr>ow_audit := log1\<rparr>)
            | (Inr _, (s1, log1)) \<Rightarrow> (Inr (idle_answer s1), saved s1 log1 w))
      else if code = ''MISSING_CLASSIFICATION''
      then (Inr (0, output_signal ''WAITING'' code ''RETRY'' message (os_warnings s)), saved s log w)
      else (Inr (2, output_signal ''FAILED'' ''WORKFLOW_DISPATCH_FAILED'' ''RETRY''
                  (''Workflow dispatch failed: '' @ code @ '': '' @ message) []), w\<lparr>ow_audit := log\<rparr>))"

definition key_text :: "pydict \<Rightarrow> string \<Rightarrow> orch_error + string" where
  "key_text d k = (case map_of d k of None \<Rightarrow> Inl (orch_exn (KeyError k)) | Some v \<Rightarrow> Inr (py_str v))"

definition read_request :: "agent_store \<Rightarrow> string \<Rightarrow> orch_error + pydict" where
  "read_request st path =
     (case ag_files st path of
        JsonFile (PDict d) \<Rightarrow> Inr d
      | JsonFile v \<Rightarrow> Inl (orch_exn (AttributeError (str_repr (type_name v) @ '' object has no attribute '' @ single_quoted ''get'')))
      | _ \<Rightarrow> Inl (OrchRaised (RuntimeError path)))"

definition orchestrator_agent :: "orch_session \<Rightarrow> string" where
  "orchestrator_agent s = ORCHESTRATOR_AGENT_PREFIX @ os_run_id s"

text \<open>The receipt of a claim, from the request on disk and the committed lease.\<close>

definition claim_receipt ::
    "orch_env \<Rightarrow> string \<Rightarrow> orch_session \<Rightarrow> requested \<Rightarrow> agent_store \<Rightarrow> orch_error + (pydict \<times> dispatch_receipt)" where
  "claim_receipt env role s rq st =
     sum_bind (read_request st (rq_request_path rq)) (\<lambda>request.
     sum_bind (load_runtime_state env 1 st) (\<lambda>runtime.
     sum_bind (case dget runtime ''persistence'' of
                 PDict p \<Rightarrow> (case py_int (py_or (dget p ''revision'') (PInt 0)) of Inl e \<Rightarrow> Inl (orch_exn e) | Inr n \<Rightarrow> Inr n)
               | _ \<Rightarrow> Inr 0) (\<lambda>revision.
     let l = (case nested_get (dget runtime ''leases'') (rq_lease_id rq) of PDict d \<Rightarrow> d | _ \<Rightarrow> [])
     in sum_bind (key_text request ''request_id'') (\<lambda>rid.
        sum_bind (key_text l ''resume_token'') (\<lambda>token.
          Inr (request, new_receipt (rq_item_id rq) role (orchestrator_agent s) (rq_lease_id rq) rid revision token))))))"

definition worker_packet ::
    "orch_env \<Rightarrow> string \<Rightarrow> orch_session \<Rightarrow> dispatch_receipt \<Rightarrow> pydict \<Rightarrow> orch_error + pydict" where
  "worker_packet env role s r request =
     (case dget_default request ''item'' (PDict []) of
        PDict item \<Rightarrow>
          Inr (build_worker_packet (oe_uuid env) (os_run_id s) (dr_delivery_token r) role
                 (py_str (py_or (dget request ''session_id'')
                    (PStr (concat (map (\<lambda>c. if c = CHR ''/'' then ''__'' else [c]) (ae_repo (oe_agent env)))
                           @ ''/pr-'' @ ae_pr_number (oe_agent env)))))
                 item (ri_workspace (oe_request env) @ ''/response-'' @ dr_item_id r @ ''.json'') request (receipt_to_dict r))
      | v \<Rightarrow> Inl (orch_exn (AttributeError (str_repr (type_name v) @ '' object has no attribute '' @ single_quoted ''get''))))"

definition release_undispatched_claim :: "orch_env \<Rightarrow> string \<Rightarrow> agent_store \<Rightarrow> bool \<times> agent_store" where
  "release_undispatched_claim env lid st =
     (if lid = [] then (False, st)
      else case transact_agent None [] (release_claimed (oe_agent env) lid ''dispatch_projection_failed'') st of
             (Inr b, st') \<Rightarrow> (b, st') | (Inl e, st') \<Rightarrow> (False, st'))"

definition step_failure :: "orch_env \<Rightarrow> requested \<Rightarrow> orch_error \<Rightarrow> pydict list \<Rightarrow> orch_world \<Rightarrow> answer \<times> orch_world" where
  "step_failure env rq e log w =
     (case release_undispatched_claim env (rq_lease_id rq) (ow_store w) of
        (released, st) \<Rightarrow>
          ((5, output_signal ''FAILED'' ''DISPATCH_PROJECTION_FAILED'' (if released then ''RETRY'' else ''HALT'')
              (''Failed to project worker dispatch ('' @ oe_error_name env e @ ''): '' @ orch_text env e) []),
           w\<lparr>ow_store := st, ow_audit := log\<rparr>))"

definition dispatch_claim ::
    "orch_env \<Rightarrow> string \<Rightarrow> orch_session \<Rightarrow> pydict list \<Rightarrow> requested \<Rightarrow> orch_world \<Rightarrow> answer \<times> orch_world" where
  "dispatch_claim env role s log rq w =
     (case claim_receipt env role s rq (ow_store w) of
        Inl e \<Rightarrow> step_failure env rq e log w
      | Inr (request, r) \<Rightarrow>
          (let (s1, log1) = project_dispatch (oe_audit env) r (s, log);
               (warnings, s2) = pop_audit_warnings s1;
               s3 = s2\<lparr>os_queued := filter (\<lambda>k. k \<noteq> dr_item_id r) (os_queued s2)\<rparr>
           in case worker_packet env role s3 r request of
                Inl e \<Rightarrow> step_failure env rq e log1 w
              | Inr packet \<Rightarrow>
                  ((0, [(''status'', PStr ''DISPATCHED''), (''reason_code'', PStr ''NEW_TASK''), (''next_action'', PStr ''PROCEED''),
                        (''packet'', PDict packet)] @ (if warnings = [] then [] else [(''warnings'', str_list warnings)])),
                   saved s3 log1 w)))"

definition step_request :: "orch_env \<Rightarrow> string \<Rightarrow> orch_session \<Rightarrow> request_input" where
  "step_request env role s = (oe_request env)\<lparr>ri_role := role, ri_agent_id := orchestrator_agent s, ri_item_id := None\<rparr>"

definition handle_step :: "orch_env \<Rightarrow> step_args \<Rightarrow> command" where
  "handle_step env a w =
     (case prepare_session_for_step env a w of
        (Inl answer, log) \<Rightarrow> (Inr answer, w\<lparr>ow_audit := log\<rparr>)
      | (Inr s, log) \<Rightarrow>
          if os_queued s = [] then (Inr (idle_answer s), w\<lparr>ow_audit := log\<rparr>)
          else (let role = (case st_role a of None \<Rightarrow> ''fixer'' | Some r \<Rightarrow> if r = [] then ''fixer'' else r)
                in case issue_action_request (oe_agent env) (step_request env role s) (oe_others env) (ow_store w) of
                     (Inl (WorkflowError status code payload), st) \<Rightarrow>
                       handle_workflow_error env code (oe_error_text env (WorkflowError status code payload)) s log
                         (w\<lparr>ow_store := st\<rparr>)
                   | (Inl e, st) \<Rightarrow> (Inl (OrchRaised e), w\<lparr>ow_store := st, ow_audit := log\<rparr>)
                   | (Inr rq, st) \<Rightarrow>
                       (case dispatch_claim env role s log rq (w\<lparr>ow_store := st\<rparr>) of (answer, w') \<Rightarrow> (Inr answer, w'))))"

section \<open>The autopilot\<close>

definition SENSITIVE_MARKERS :: "string list" where
  "SENSITIVE_MARKERS =
     [''security'', ''unsafe'', ''auth'', ''token'', ''secret'', ''api'', ''data loss'', ''performance'']"

definition TRIVIAL_MARKERS :: "string list" where
  "TRIVIAL_MARKERS =
     [''typo'', ''spelling'', ''grammar'', ''documentation'', ''docs'', ''readme'', ''comment'', ''wording'']"

definition ascii_alnum :: "char \<Rightarrow> bool" where
  "ascii_alnum c \<longleftrightarrow> (let n = (of_char c :: nat) in 48 \<le> n \<and> n \<le> 57 \<or> 65 \<le> n \<and> n \<le> 90 \<or> 97 \<le> n \<and> n \<le> 122)"

text \<open>What follows a marker at the start of the text; a space of the marker is any run of spaces.\<close>

fun after_marker :: "string \<Rightarrow> string \<Rightarrow> string option" where
  "after_marker [] t = Some t"
| "after_marker (m # ms) [] = None"
| "after_marker (m # ms) (c # t) =
     (if m = CHR '' '' then (if is_space c then after_marker ms (dropWhile is_space t) else None)
      else if m = c then after_marker ms t else None)"

definition marked_here :: "string list \<Rightarrow> string \<Rightarrow> bool" where
  "marked_here markers t \<longleftrightarrow>
     list_ex (\<lambda>m. case after_marker m t of None \<Rightarrow> False | Some [] \<Rightarrow> True | Some (c # _) \<Rightarrow> \<not> ascii_alnum c) markers"

fun marked :: "string list \<Rightarrow> bool \<Rightarrow> string \<Rightarrow> bool" where
  "marked markers inside [] = False"
| "marked markers inside (c # t) = (\<not> inside \<and> marked_here markers (c # t) \<or> marked markers (ascii_alnum c) t)"

definition looks_trivial :: "pydict \<Rightarrow> bool" where
  "looks_trivial item \<longleftrightarrow>
     (let t = py_lower (py_join '' '' (map (str_field item) [''title'', ''body'', ''first_body'', ''path'']))
      in marked TRIVIAL_MARKERS False t \<and> \<not> marked SENSITIVE_MARKERS False t)"

definition effects :: "bool \<Rightarrow> bool \<Rightarrow> bool \<Rightarrow> pydict" where
  "effects side runtime github =
     [(''side_effect'', PBool side), (''runtime_state_effect'', PBool runtime), (''github_side_effect'', PBool github)]"

definition requires_execute :: "string \<times> pyval" where
  "requires_execute = (''requires_execute'', PBool True)"

definition autopilot_item_steps :: "string \<Rightarrow> pydict \<Rightarrow> pydict list" where
  "autopilot_item_steps item_id item =
     (let trivial = looks_trivial item
      in [[(''item_id'', PStr item_id), (''command'', PStr ''agent classify'')] @ effects True True False @ [requires_execute]
            @ (if trivial then [(''classification'', PStr ''fix'')]
               else [(''requires_decision'', PBool True),
                     (''classification_options'', str_list [''fix'', ''clarify'', ''defer'', ''reject''])]),
          [(''item_id'', PStr item_id), (''command'', PStr ''agent next''),
           (''role'', PStr (if trivial then ''fixer'' else ''triage''))] @ effects True True False @ [requires_execute],
          [(''item_id'', PStr item_id), (''command'', PStr ''agent submit'')] @ effects True True False @ [requires_execute]])"

definition autopilot_steps :: "pydict \<Rightarrow> pydict list" where
  "autopilot_steps runtime =
     concat (map (\<lambda>(k, v). case v of
                PDict i \<Rightarrow> if truthy (dget i ''blocking'') \<and> \<not> truthy (dget i ''handled'') then autopilot_item_steps k i else []
              | _ \<Rightarrow> [])
        (sort_key fst (case dget runtime ''items'' of PDict d \<Rightarrow> d | _ \<Rightarrow> [])))
     @ [(''command'', PStr ''agent publish'') # effects True True True @ [requires_execute],
        (''command'', PStr ''final-gate'') # effects False False False]"

definition handle_autopilot :: "orch_env \<Rightarrow> bool \<Rightarrow> command" where
  "handle_autopilot env execute w =
     (case load_runtime_state env 0 (ow_store w) of
        Inl e \<Rightarrow> (Inl e, w)
      | Inr runtime \<Rightarrow>
          (Inr (if execute then 2 else 0,
             [(''status'', PStr (if execute then ''FAILED'' else ''PLAN_ONLY'')),
              (''reason_code'', PStr (if execute then ''AUTOPILOT_EXECUTION_NOT_ENABLED'' else ''AUTOPILOT_PLAN_READY'')),
              (''next_action'', PStr (if execute then ''This guarded v1 only supports dry-run planning.''
                 else ''This is a dry-run plan only; it performs no side effects. Execute the planned steps yourself with ''
                      @ in_backticks ''agent resolve'' @ '' / '' @ in_backticks ''agent publish'' @ '' / ''
                      @ in_backticks ''final-gate'' @ ''.'')),
              (''repo'', PStr (ae_repo (oe_agent env))), (''pr_number'', PStr (ae_pr_number (oe_agent env))),
              (''executes_side_effects'', PBool False), (''side_effects_enabled'', PBool False),
              (''execute_requested'', PBool execute), (''steps'', PList (map PDict (autopilot_steps runtime)))]), w))"

section \<open>Dispatch of the subcommands\<close>

datatype subcommand =
    Start int int | Status | Step step_args | Resume | Stop | Submit worker_submission | Autopilot bool | Unknown string

fun run_subcommand :: "orch_env \<Rightarrow> subcommand \<Rightarrow> command" where
  "run_subcommand env (Start m t) w = handle_start env m t w"
| "run_subcommand env Status w = handle_status env w"
| "run_subcommand env (Step a) w = handle_step env a w"
| "run_subcommand env Resume w = handle_resume env w"
| "run_subcommand env Stop w = handle_stop env w"
| "run_subcommand env (Submit a) w = handle_submit env a w"
| "run_subcommand env (Autopilot x) w = handle_autopilot env x w"
| "run_subcommand env (Unknown x) w =
     (Inr (2, output_signal ''FAILED'' ''INVALID_SUBCOMMAND'' ''HALT''
        (''Invalid subcommand: '' @ x @ ''. Use one of ''
         @ py_repr (str_list [''start'', ''status'', ''step'', ''resume'', ''stop'', ''submit'', ''autopilot''])) []), w)"

definition handle_agent_orchestrate :: "orch_env \<Rightarrow> string \<Rightarrow> subcommand \<Rightarrow> orch_world \<Rightarrow> answer \<times> orch_world" where
  "handle_agent_orchestrate env version sub w =
     (if \<not> check_runtime_version version
      then ((2, output_signal ''FAILED'' ''INCOMPATIBLE_RUNTIME'' ''HALT'' (''Incompatible Runtime CLI version: '' @ version) []), w)
      else case run_subcommand env sub w of
             (Inr answer, w') \<Rightarrow> (answer, w')
           | (Inl e, w') \<Rightarrow> ((5, output_signal ''FAILED'' ''SYSTEM_ERROR'' ''HALT'' (orch_text env e) []), w'))"

end
