(* ===== verification/Orch_Properties.thy ===== *)
theory Orch_Properties
  imports Orchestrator Agent_Outcomes
begin

text \<open>
  The properties of the orchestrator: its session is read back as it was saved, its dispatches
  mirror the canonical leases, a dispatched token is accepted, a response reaches the store only
  through a live dispatch, and a claim that cannot be dispatched is given back.
\<close>

section \<open>The session file\<close>

lemma map_of_filter: "map_of xs k = (case filter (\<lambda>p. fst p = k) xs of [] \<Rightarrow> None | p # ps \<Rightarrow> Some (snd p))"
  by (induction xs) auto

lemma map_of_sort_key [simp]: "map_of (sort_key fst xs) = map_of xs"
  by (rule ext) (simp add: map_of_filter sort_key_stable)

lemma map_of_json_sorted:
  "map_of (map (\<lambda>(k, v). (k, json_sorted v)) (sort_key fst d)) k = map_option json_sorted (map_of d k)"
  by (simp add: map_of_map)

lemma all_some_map: "(\<And>x. x \<in> set xs \<Longrightarrow> f (g x) = Some (h x)) \<Longrightarrow> all_some f (map g xs) = Some (map h xs)"
  by (auto simp: all_some_def)

lemma as_texts_read [simp]: "as_texts (json_sorted (str_list xs)) = Some xs"
  by (simp add: str_list_def as_texts_def all_some_def as_text_def comp_def image_iff)

lemma as_numbers_read [simp]: "as_numbers (json_sorted (int_dict d)) = Some (sort_key fst d)"
proof -
  have "json_sorted (int_dict d) = PDict (map (\<lambda>(k, n). (k, PInt n)) (sort_key fst d))"
    unfolding int_dict_def json_sorted_dict
    by (subst sort_key_map [of fst _ fst]) (simp_all add: case_prod_beta)
  then show ?thesis
    by (simp add: as_numbers_def, subst all_some_map [where h = id]) (auto simp: as_number_def)
qed

lemma as_opt_text_read [simp]: "as_opt_text (json_sorted (text_value t)) = Some t"
  by (simp add: text_value_def as_opt_text_def split: option.split)

lemma receipt_read: "receipt_from_dict (map (\<lambda>(k, v). (k, json_sorted v)) (sort_key fst (receipt_to_dict r))) = Inr r"
  by (simp add: receipt_from_dict_def dget_def map_of_json_sorted need_text_def get_as_def receipt_to_dict_def
      SUPPORTED_RECEIPT_VERSIONS_def as_number_def as_flag_def new_receipt_def)

lemma receipts_sorted:
  "json_sorted (PDict (map (\<lambda>(k, r). (k, PDict (receipt_to_dict r))) d))
     = PDict (map (\<lambda>(k, r). (k, json_sorted (PDict (receipt_to_dict r)))) (sort_key fst d))"
  unfolding json_sorted_dict by (subst sort_key_map [of fst _ fst]) (simp_all add: json_sorted_dict case_prod_beta del: json_sorted.simps)

lemma receipts_read:
  "receipts_from_dict (json_sorted (PDict (map (\<lambda>(k, r). (k, PDict (receipt_to_dict r))) d))) = Inr (sort_key fst d)"
proof -
  have "sum_map (\<lambda>(k, x). case x of PDict r \<Rightarrow> sum_bind (receipt_from_dict r) (\<lambda>y. Inr (k, y)) | _ \<Rightarrow> Inl (ill_typed k))
      (map (\<lambda>(k, r). (k, json_sorted (PDict (receipt_to_dict r)))) xs) = Inr xs" for xs
    by (induction xs) (auto simp: json_sorted_dict receipt_read simp del: json_sorted.simps)
  then show ?thesis unfolding receipts_sorted receipts_from_dict_def by simp
qed

definition sorted_session :: "orch_session \<Rightarrow> orch_session" where
  "sorted_session s =
     s\<lparr>os_config := sort_key fst (os_config s), os_dispatches := sort_key fst (os_dispatches s),
       os_retry_counts := sort_key fst (os_retry_counts s)\<rparr>"

lemma orchestration_loaded: "load_orchestration_session fresh (saved_file s) = Inr (sorted_session s)"
  by (simp add: saved_file_def load_orchestration_session_def json_sorted_dict session_from_dict_def dget_def dget_default_def
      map_of_json_sorted need_text_def get_as_def session_to_dict_def ORCHESTRATION_SCHEMA_VERSION_def as_flag_def as_text_def
      receipts_read [unfolded json_sorted_dict] sorted_session_def py_or_def del: json_sorted.simps(2) json_sorted.simps(1))

text \<open>
  C40: A saved session is loaded as it was. Loading the file a session was saved to gives the
  same session, every receipt, count, flag and warning included, with its dictionaries in the
  order of their keys, which answers every lookup as before.
\<close>

theorem orchestration_session_roundtrip:
  "load_orchestration_session fresh (saved_file s) = Inr (sorted_session s)
    \<and> map_of (os_dispatches (sorted_session s)) = map_of (os_dispatches s)
    \<and> map_of (os_retry_counts (sorted_session s)) = map_of (os_retry_counts s)
    \<and> map_of (os_config (sorted_session s)) = map_of (os_config s)"
  using orchestration_loaded by (simp add: sorted_session_def)

section \<open>Reconciliation\<close>

lemma log_audit_fields [simp]:
  "os_dispatches (fst (log_audit_event a e d st)) = os_dispatches (fst st)"
  "os_retry_counts (fst (log_audit_event a e d st)) = os_retry_counts (fst st)"
  "os_config (fst (log_audit_event a e d st)) = os_config (fst st)"
  "os_run_id (fst (log_audit_event a e d st)) = os_run_id (fst st)"
  by (cases st, simp add: log_audit_event_def append_audit_warning_def Let_def split: option.split)+

lemma update_new: "map_of xs k = None \<Longrightarrow> AList.update k v xs = xs @ [(k, v)]"
  by (induction xs) (auto split: if_splits)

text \<open>What the rebuilding loop does to the dispatches, whatever it logs.\<close>

definition lease_receipt :: "int \<Rightarrow> pydict \<Rightarrow> string \<times> dispatch_receipt \<Rightarrow> bool" where
  "lease_receipt revision ls = (\<lambda>(k, r). \<exists>lid l. (lid, PDict l) \<in> set ls \<and> orchestrated l
     \<and> k = str_field l ''item_id'' \<and> r = rebuilt_receipt revision lid l)"

lemma lease_receipt_Cons:
  "lease_receipt revision ls kr \<Longrightarrow> lease_receipt revision (x # ls) kr"
  by (auto simp: lease_receipt_def)

definition covers :: "(string \<times> dispatch_receipt) list \<Rightarrow> pydict \<Rightarrow> bool" where
  "covers dispatches ls \<longleftrightarrow>
     (\<forall>lid l. (lid, PDict l) \<in> set ls \<longrightarrow> orchestrated l \<longrightarrow> str_field l ''item_id'' \<in> fst ` set dispatches)"

lemma covers_Cons: "covers d ((lid, PDict l) # ls) \<longleftrightarrow> (orchestrated l \<longrightarrow> str_field l ''item_id'' \<in> fst ` set d) \<and> covers d ls"
  by (auto simp: covers_def)

lemma covers_other: "\<not> is_dict v \<Longrightarrow> covers d ((lid, v) # ls) = covers d ls"
  by (auto simp: covers_def)

definition rebuilds :: "int \<Rightarrow> pydict \<Rightarrow> orch_session \<Rightarrow> orch_session \<Rightarrow> nat \<Rightarrow> bool" where
  "rebuilds revision ls s s' n \<longleftrightarrow>
     (\<exists>new. os_dispatches s' = os_dispatches s @ new \<and> n = length new \<and> (\<forall>kr \<in> set new. lease_receipt revision ls kr)
        \<and> covers (os_dispatches s') ls)
     \<and> os_retry_counts s' = os_retry_counts s \<and> os_config s' = os_config s \<and> os_run_id s' = os_run_id s"

lemma rebuilds_skip:
  assumes "rebuilds revision ls s s' n" "orchestrated l \<longrightarrow> str_field l ''item_id'' \<in> fst ` set (os_dispatches s)"
  shows "rebuilds revision ((lid, PDict l) # ls) s s' n"
proof -
  obtain new where "os_dispatches s' = os_dispatches s @ new" "n = length new" "\<forall>kr \<in> set new. lease_receipt revision ls kr"
    "covers (os_dispatches s') ls"
    using assms(1) by (auto simp: rebuilds_def)
  with assms show ?thesis unfolding rebuilds_def by (intro conjI exI [of _ new]) (auto simp: covers_Cons intro: lease_receipt_Cons)
qed

lemma rebuilds_new:
  assumes "rebuilds revision ls s1 s' n" "orchestrated l" "os_dispatches s1 = os_dispatches s @ [(str_field l ''item_id'', rebuilt_receipt revision lid l)]"
    and "os_retry_counts s1 = os_retry_counts s" "os_config s1 = os_config s" "os_run_id s1 = os_run_id s"
  shows "rebuilds revision ((lid, PDict l) # ls) s s' (Suc n)"
proof -
  let ?r = "(str_field l ''item_id'', rebuilt_receipt revision lid l)"
  obtain new where "os_dispatches s' = os_dispatches s1 @ new" "n = length new" "\<forall>kr \<in> set new. lease_receipt revision ls kr"
    "covers (os_dispatches s') ls"
    using assms(1) by (auto simp: rebuilds_def)
  moreover have "lease_receipt revision ((lid, PDict l) # ls) ?r" using assms(2) by (auto simp: lease_receipt_def)
  ultimately show ?thesis using assms
    unfolding rebuilds_def by (intro conjI exI [of _ "?r # new"]) (auto simp: covers_Cons intro: lease_receipt_Cons)
qed

lemma rebuild_adds:
  "rebuild_dispatches a revision ls n st = (m, st') \<Longrightarrow> n \<le> m \<and> rebuilds revision ls (fst st) (fst st') (m - n)"
proof (induction a revision ls n st rule: rebuild_dispatches.induct)
  case (1 a revision n st)
  then show ?case by (auto simp: rebuilds_def covers_def)
next
  case (2 a revision lid l ls n st)
  let ?i = "str_field l ''item_id''"
  show ?case
  proof (cases "\<not> orchestrated l \<or> map_of (os_dispatches (fst st)) ?i \<noteq> None")
    case True
    with 2 have "n \<le> m \<and> rebuilds revision ls (fst st) (fst st') (m - n)" by auto
    moreover have "orchestrated l \<longrightarrow> ?i \<in> fst ` set (os_dispatches (fst st))"
      using True by (simp add: map_of_eq_None_iff)
    ultimately show ?thesis using rebuilds_skip by blast
  next
    case False
    let ?st1 = "log_audit_event a ''DISPATCH_REBUILT'' [(''item_id'', PStr ?i)]
                  (put_dispatch ?i (rebuilt_receipt revision lid l) (fst st), snd st)"
    from False 2(2,3) have "Suc n \<le> m \<and> rebuilds revision ls (fst ?st1) (fst st') (m - Suc n)" by auto
    moreover have "rebuilds revision ((lid, PDict l) # ls) (fst st) (fst st') (Suc (m - Suc n))"
      using calculation False by (intro rebuilds_new [of _ _ "fst ?st1"]) (auto simp: put_dispatch_def update_new)
    moreover have "Suc (m - Suc n) = m - n" if "Suc n \<le> m" using that by simp
    ultimately show ?thesis by (metis Suc_leD)
  qed
qed (auto simp: rebuilds_def covers_other intro: lease_receipt_Cons)

lemma rebuild_nothing: "covers (os_dispatches (fst st)) ls \<Longrightarrow> rebuild_dispatches a revision ls n st = (n, st)"
  by (induction a revision ls n st rule: rebuild_dispatches.induct) (auto simp: covers_Cons covers_other map_of_eq_None_iff)

lemma lease_receipt_mirrors:
  assumes "distinct (map fst (leases_of runtime))" "lease_receipt revision (leases_of runtime) kr"
  shows "mirrors_lease runtime kr"
proof -
  obtain lid l where l: "(lid, PDict l) \<in> set (leases_of runtime)" "orchestrated l"
    "kr = (str_field l ''item_id'', rebuilt_receipt revision lid l)"
    using assms(2) by (auto simp: lease_receipt_def)
  obtain ls where ls: "dget runtime ''leases'' = PDict ls" "leases_of runtime = ls"
    using l(1) by (cases "dget runtime ''leases''") (auto simp: leases_of_def)
  have "dget ls lid = PDict l" using l(1) assms(1) by (simp add: ls dget_def)
  with l(2,3) ls show ?thesis
    by (simp add: mirrors_lease_def canonical_active_lease_def nested_get_def rebuilt_receipt_def new_receipt_def orchestrated_def)
qed

text \<open>
  C23: Dispatches mirror the canonical leases. After a reconciliation every dispatch names an
  active lease of its item, no dispatch that did so was dropped, every active lease an
  orchestrator holds has a dispatch for its item, and reconciling again with the same state
  drops, adds and logs nothing.
\<close>

theorem dispatches_mirror_leases:
  assumes "distinct (map fst (leases_of runtime))"
    and "reconcile_dispatches a runtime revision (s, log) = (rec, (s', log'))"
  shows "(\<forall>kr \<in> set (os_dispatches s'). mirrors_lease runtime kr)
    \<and> (\<forall>kr \<in> set (os_dispatches s). mirrors_lease runtime kr \<longrightarrow> kr \<in> set (os_dispatches s'))
    \<and> covers (os_dispatches s') (leases_of runtime)
    \<and> reconcile_dispatches a runtime revision (s', log')
        = (\<lparr>rec_retained = length (os_dispatches s'), rec_removed = 0, rec_rebuilt = 0, rec_revision = revision\<rparr>, (s', log'))"
proof -
  let ?kept = "filter (mirrors_lease runtime) (os_dispatches s)"
  obtain m where run: "rebuild_dispatches a revision (leases_of runtime) 0 (s\<lparr>os_dispatches := ?kept\<rparr>, log) = (m, (s', log'))"
    using assms(2) by (auto simp: reconcile_dispatches_def Let_def split: prod.splits)
  from rebuild_adds [OF run] obtain new where new: "os_dispatches s' = ?kept @ new"
    "\<forall>kr \<in> set new. lease_receipt revision (leases_of runtime) kr" "covers (os_dispatches s') (leases_of runtime)"
    by (auto simp: rebuilds_def)
  have all: "\<forall>kr \<in> set (os_dispatches s'). mirrors_lease runtime kr"
    using new(1,2) lease_receipt_mirrors [OF assms(1)] by auto
  then have "filter (mirrors_lease runtime) (os_dispatches s') = os_dispatches s'" by simp
  with rebuild_nothing [of "(s', log')" "leases_of runtime"] new(3)
  have "reconcile_dispatches a runtime revision (s', log')
        = (\<lparr>rec_retained = length (os_dispatches s'), rec_removed = 0, rec_rebuilt = 0, rec_revision = revision\<rparr>, (s', log'))"
    by (simp add: reconcile_dispatches_def Let_def)
  moreover have "\<forall>kr \<in> set (os_dispatches s). mirrors_lease runtime kr \<longrightarrow> kr \<in> set (os_dispatches s')"
    unfolding new(1) by simp
  ultimately show ?thesis using all new(3) by blast
qed

definition ex_canonical_lease :: "string \<Rightarrow> string \<Rightarrow> pydict" where
  "ex_canonical_lease i status =
     [(''item_id'', PStr i), (''agent_id'', PStr ''orchestrator:run''), (''status'', PStr status), (''resume_token'', PStr ''resume:r'')]"

definition ex_runtime :: pydict where
  "ex_runtime = [(''leases'', PDict [(''lease_i'', PDict (ex_canonical_lease ''i'' ''active'')), (''lease_j'', PDict (ex_canonical_lease ''j'' ''released''))])]"

definition ex_log :: orch_audit where
  "ex_log = \<lparr>oa_timestamp = ''t'', oa_failure = (\<lambda>e. None)\<rparr>"

definition ex_orchestration :: orch_session where
  "ex_orchestration =
     put_dispatch ''j'' (new_receipt ''j'' ''fixer'' ''orchestrator:run'' ''lease_j'' ''r'' 1 ''resume:r'') (new_orchestration ''run'' ''o/r'' ''1'')"

theorem dispatches_mirror_leases_witness:
  "mirrors_lease ex_runtime (''i'', new_receipt ''i'' [] ''orchestrator:run'' ''lease_i'' [] 4 ''resume:r'')
     \<and> map fst (os_dispatches (fst (snd (reconcile_dispatches ex_log ex_runtime 4 (ex_orchestration, []))))) = [''i'']"
proof -
  let ?out = "reconcile_dispatches ex_log ex_runtime 4 (ex_orchestration, [])"
  have keys: "distinct (map fst (leases_of ex_runtime))" by code_simp
  have out: "?out = (fst ?out, (fst (snd ?out), snd (snd ?out)))" by (simp only: prod.collapse)
  have "\<forall>kr \<in> set (os_dispatches (fst (snd ?out))). mirrors_lease ex_runtime kr"
    by (rule conjunct1, rule dispatches_mirror_leases [OF keys out])
  moreover have "os_dispatches (fst (snd ?out)) = [(''i'', new_receipt ''i'' [] ''orchestrator:run'' ''lease_i'' [] 4 ''resume:r'')]"
    by code_simp
  ultimately show ?thesis by simp
qed

section \<open>Dispatching\<close>

lemma map_of_filter_keep: "map_of xs k = Some v \<Longrightarrow> P (k, v) \<Longrightarrow> map_of (filter P xs) k = Some v"
  by (induction xs) (auto split: if_splits)

lemma reconcile_rebuilds:
  assumes "reconcile_from_runtime env runtime (s, log) = Inr (s', log')"
  obtains revision n where
    "rebuilds revision (leases_of runtime) (s\<lparr>os_dispatches := filter (mirrors_lease runtime) (os_dispatches s)\<rparr>) s' n"
proof -
  obtain revision where r: "snd (reconcile_dispatches (oe_audit env) runtime revision (s, log)) = (s', log')"
    using assms by (auto simp: reconcile_from_runtime_def split: sum.splits)
  obtain m where "rebuild_dispatches (oe_audit env) revision (leases_of runtime) 0
      (s\<lparr>os_dispatches := filter (mirrors_lease runtime) (os_dispatches s)\<rparr>, log) = (m, (s', log'))"
    using r by (auto simp: reconcile_dispatches_def Let_def split: prod.splits)
  from rebuild_adds [OF this] show thesis by (intro that [of revision m]) simp
qed

lemma reconcile_keeps:
  assumes "reconcile_from_runtime env runtime (s, log) = Inr (s', log')"
    and "map_of (os_dispatches s) k = Some r" "mirrors_lease runtime (k, r)"
  shows "map_of (os_dispatches s') k = Some r"
proof -
  have "map_of (filter (mirrors_lease runtime) (os_dispatches s)) k = Some r"
    by (rule map_of_filter_keep) (rule assms)+
  with assms(1) show ?thesis by (rule_tac reconcile_rebuilds) (auto simp: rebuilds_def map_add_Some_iff)
qed

lemma loaded_runtime:
  assumes "load_runtime_state env n st = Inr runtime"
  obtains s where "project_claims (ag_session st) = Inr s" "runtime = runtime_of (ag_revision st) s"
    "s_leases (as_leases s) = s_leases (as_leases (ag_session st))"
  using assms project_claims_Inr by (fastforce simp: load_runtime_state_def split: option.splits sum.splits)

lemma runtime_lease:
  "s_leases (as_leases s) = s_leases ls \<Longrightarrow>
     nested_get (dget (runtime_of n s) ''leases'') lid
       = (case lease_at ls lid of None \<Rightarrow> PNone | Some l \<Rightarrow> PDict (lease_to_dict l))"
  by (simp add: runtime_of_def nested_get_def dget_def map_of_map_values update_conv' dset_def split: option.split)

lemma reconcile_runtime_ok: "\<exists>s' log'. reconcile_from_runtime env (runtime_of n s) (s0, log) = Inr (s', log')"
  by (simp add: reconcile_from_runtime_def runtime_of_def py_or_def)

text \<open>The fields of a stored lease.\<close>

lemma lease_dict_fields [simp]:
  "dget (lease_to_dict l) ''item_id'' = PStr (l_item_id l)" "dget (lease_to_dict l) ''status'' = PStr (l_status l)"
  "dget (lease_to_dict l) ''agent_id'' = PStr (l_agent_id l)"
  by (simp_all add: lease_to_dict_def)

lemma lease_dict_token:
  "map_of (lease_to_dict l) ''resume_token'' = map_option PStr (l_resume_token l)"
  by (cases "l_resume_token l"; cases "l_request_hash l"; cases "l_request_id l"; cases "l_request_path l")
    (simp_all add: lease_to_dict_def List.map_filter_def)

lemma str_field_PStr: "dget d k = PStr t \<Longrightarrow> str_field d k = t"
  by (simp add: str_field_def py_or_def)

lemma active_lease_is_canonical:
  assumes "nested_get (dget runtime ''leases'') lid = PDict (lease_to_dict l)" "is_active l"
  shows "canonical_active_lease runtime lid (l_item_id l) \<noteq> None"
  using assms(2)
  by (auto simp: canonical_active_lease_def assms(1) str_field_PStr CANONICAL_ACTIVE_STATUSES_def is_active_iff py_lower_def lower_char_def Let_def)

lemma issue_without_item_creates:
  assumes "issue_action_request env a others st = (Inr rq, st')" "ri_item_id a = None"
  shows "rq_acquisition rq = ''created''"
proof -
  obtain s0 where run: "issue_loaded env a others (dget (as_doc s0) ''metadata'') (ag_revision st) (expire_loaded env s0) st = (Inr rq, st')"
    using assms(1) by (auto simp: issue_action_request_def split: sum.splits)
  obtain i found where n: "next_item (ri_item_id a) (expire_loaded env s0) = (i, found)" by fastforce
  show ?thesis
  proof (cases found)
    case None
    then have "i = []"
      using n by (auto simp: next_item_def assms(2) given_text_def Let_def split: option.splits)
    with run n None show ?thesis by (simp add: issue_loaded_def own_fixer_lease_def)
  next
    case (Some item0)
    then obtain item s where "claim_item env a others (dget (as_doc s0) ''metadata'') i item s st = (Inr rq, st')"
      using run n by (auto simp: issue_loaded_def Let_def split: if_splits)
    then show ?thesis by (rule claim_item_Inr) (rule write_artifacts_Inr(1))
  qed
qed

lemma output_signal_fields [simp]:
  "dget (output_signal s r n m ws) ''status'' = PStr s" "dget (output_signal s r n m ws) ''reason_code'' = PStr r"
  "dget (output_signal s r n m ws) ''next_action'' = PStr n"
  by (simp_all add: output_signal_def)

lemma prepared_answer:
  "prepare_session_for_step env a w = (Inl answer, log) \<Longrightarrow>
     dget (snd answer) ''status'' \<in> {PStr ''LOCKED'', PStr ''WAITING'', PStr ''FAILED''}
     \<and> dget (snd answer) ''reason_code'' \<in> {PStr ''SESSION_LOCKED'', PStr ''MAX_CONCURRENCY_REACHED'', PStr ''SESSION_ERROR'',
          PStr ''SYSTEM_ERROR''}"
  by (auto simp: prepare_session_for_step_def Let_def split: sum.splits prod.splits if_splits)

lemma idle_fields:
  "dget (snd (idle_answer s)) ''status'' \<in> {PStr ''SUCCESS'', PStr ''WAITING''}"
  "dget (snd (idle_answer s)) ''reason_code'' \<in> {PStr ''QUEUE_EMPTY'', PStr ''WAITING_FOR_LEASES''}"
  by (simp_all add: idle_answer_def)

lemma workflow_answer:
  "handle_workflow_error env code m s log w = (Inr answer, w') \<Longrightarrow>
     dget (snd answer) ''status'' \<in> {PStr ''SUCCESS'', PStr ''WAITING'', PStr ''FAILED''}
     \<and> dget (snd answer) ''reason_code'' \<in> {PStr ''QUEUE_EMPTY'', PStr ''WAITING_FOR_LEASES'', PStr ''MISSING_CLASSIFICATION'',
          PStr ''WORKFLOW_DISPATCH_FAILED''}"
  using idle_fields by (auto simp: handle_workflow_error_def split: sum.splits prod.splits if_splits)

text \<open>A step that went as far as dispatching a claim.\<close>

lemma handle_step_cases:
  assumes "handle_step env a w = (Inr answer, w')"
  obtains (idle) "dget (snd answer) ''status'' \<noteq> PStr ''DISPATCHED''"
      "dget (snd answer) ''reason_code'' \<noteq> PStr ''DISPATCH_PROJECTION_FAILED''"
  | (claimed) s log role rq st where "prepare_session_for_step env a w = (Inr s, log)"
      "issue_action_request (oe_agent env) (step_request env role s) (oe_others env) (ow_store w) = (Inr rq, st)"
      "dispatch_claim env role s log rq (w\<lparr>ow_store := st\<rparr>) = (answer, w')"
proof (cases "prepare_session_for_step env a w")
  case (Pair x log)
  show thesis
  proof (cases x)
    case (Inl e)
    with Pair assms prepared_answer [of env a w e log] show thesis by (intro idle) (auto simp: handle_step_def)
  next
    case (Inr s)
    show thesis
    proof (cases "os_queued s = []")
      case True
      with Pair Inr assms idle_fields [of s] show thesis by (intro idle) (auto simp: handle_step_def)
    next
      case False
      define role where "role = (case st_role a of None \<Rightarrow> ''fixer'' | Some r \<Rightarrow> if r = [] then ''fixer'' else r)"
      obtain y st where y: "issue_action_request (oe_agent env) (step_request env role s) (oe_others env) (ow_store w) = (y, st)"
        by fastforce
      note run = assms [unfolded handle_step_def Pair Inr prod.case sum.case, folded role_def, unfolded Let_def, folded role_def, unfolded y prod.case]
      show thesis
      proof (cases y)
        case (Inl e)
        with run False show thesis
          by (cases e) (use workflow_answer in \<open>fastforce intro: idle\<close>)+
      next
        case (Inr rq)
        with run False y Pair \<open>x = Inr s\<close> show thesis by (intro claimed) (auto split: prod.splits)
      qed
    qed
  qed
qed

lemma dispatch_claim_cases:
  assumes "dispatch_claim env role s log rq w = (answer, w')"
  obtains (failed) e log' where "step_failure env rq e log' w = (answer, w')"
  | (dispatched) request r s' log' packet where "claim_receipt env role s rq (ow_store w) = Inr (request, r)"
      "worker_packet env role s' r request = Inr packet" "dget (snd answer) ''packet'' = PDict packet" "w' = saved s' log' w"
      "os_dispatches s' = AList.update (dr_item_id r) r (os_dispatches s)" "os_config s' = os_config s"
      "dget (snd answer) ''reason_code'' = PStr ''NEW_TASK''"
proof (cases "claim_receipt env role s rq (ow_store w)")
  case (Inl e)
  with assms failed show thesis by (simp add: dispatch_claim_def)
next
  case (Inr c)
  obtain request r where c: "c = (request, r)" by (cases c)
  let ?p = "project_dispatch (oe_audit env) r (s, log)"
  let ?s = "(snd (pop_audit_warnings (fst ?p)))\<lparr>os_queued := filter (\<lambda>k. k \<noteq> dr_item_id r) (os_queued (snd (pop_audit_warnings (fst ?p))))\<rparr>"
  have same: "os_dispatches ?s = AList.update (dr_item_id r) r (os_dispatches s)" "os_config ?s = os_config s"
    by (simp_all add: pop_audit_warnings_def project_dispatch_def put_dispatch_def)
  show thesis
  proof (cases "worker_packet env role ?s r request")
    case (Inl e)
    with assms Inr c have "step_failure env rq e (snd ?p) w = (answer, w')"
      by (auto simp: dispatch_claim_def pop_audit_warnings_def split: prod.splits)
    then show thesis by (rule failed)
  next
    case packet: (Inr packet)
    with assms Inr c have "dget (snd answer) ''packet'' = PDict packet" "w' = saved ?s (snd ?p) w"
      "dget (snd answer) ''reason_code'' = PStr ''NEW_TASK''"
      by (auto simp: dispatch_claim_def pop_audit_warnings_def split: prod.splits)
    with packet Inr c same show thesis by (intro dispatched [of request r ?s packet "snd ?p"]) simp_all
  qed
qed

lemma step_failure_fields:
  "step_failure env rq e log w = (answer, w') \<Longrightarrow>
     dget (snd answer) ''status'' = PStr ''FAILED'' \<and> ow_file w' = ow_file w"
  by (auto simp: step_failure_def split: prod.splits)

lemma claim_receipt_Inr:
  assumes "claim_receipt env role s rq st = Inr (request, r)"
  obtains runtime l where "load_runtime_state env 1 st = Inr runtime"
    "nested_get (dget runtime ''leases'') (rq_lease_id rq) = PDict l \<or> l = []"
    "key_text l ''resume_token'' = Inr (dr_delivery_token r)"
    "dr_item_id r = rq_item_id rq" "dr_lease_id r = rq_lease_id rq"
  using assms
  by (fastforce simp: claim_receipt_def Let_def sum_bind_def new_receipt_def split: sum.splits pyval.splits)

lemma prepared_below_limit:
  "prepare_session_for_step env a w = (Inr s, log) \<Longrightarrow> int (length (os_dispatches s)) < config_value s ''max_concurrency''"
  by (auto simp: prepare_session_for_step_def Let_def split: sum.splits prod.splits if_splits)

lemma packet_token: "worker_packet env role s r request = Inr packet \<Longrightarrow> dget packet ''delivery_token'' = PStr (dr_delivery_token r)"
  by (auto simp: worker_packet_def build_worker_packet_def Let_def split: pyval.splits)

lemma length_update_le: "length (AList.update k v xs) \<le> Suc (length xs)"
  by (induction xs) auto

lemma load_saved [simp]: "load_session_file env (saved s log w) = Inr (sorted_session s)"
  using orchestration_loaded by (simp add: load_session_file_def saved_def)

text \<open>A claim of the orchestrator: the lease it commits.\<close>

lemma step_lease:
  assumes "issue_action_request env (a\<lparr>ri_role := role, ri_agent_id := agent, ri_item_id := None\<rparr>) others st = (Inr rq, st')"
  obtains l token where "lease_at (as_leases (ag_session st')) (rq_lease_id rq) = Some l" "is_active l"
    "l_agent_id l = agent" "l_resume_token l = Some token"
proof -
  let ?a = "a\<lparr>ri_role := role, ri_agent_id := agent, ri_item_id := None\<rparr>"
  have new: "rq_acquisition rq = ''created''" using issue_without_item_creates [OF assms] by simp
  from assms show thesis
  proof (cases rule: issue_cases)
    case (reentered s0 l item)
    with new show thesis by simp
  next
    case (created base item ctx s1 st1 p ev l st2)
    note wrote = write_artifacts_Inr [OF created(4)]
    from created(3) obtain it keys where lease:
      "lease_at (as_leases (ag_session st2)) (new_lease_id ?a) =
         Some (reload_lease (new_lease (claim_args_of env ?a p it) (py_str (dget it ''item_id'')) keys (EnumRole (ri_role ?a))))"
      (is "_ = Some ?l")
      by (rule committed_claim)
    have "is_active ?l" "l_agent_id ?l = agent" "l_resume_token ?l = Some (''resume:'' @ cp_request_id p)"
      by (simp_all add: reload_lease_def new_lease_def claim_args_of_def is_active_iff)
    with lease wrote(2,7) that show thesis by simp
  qed
qed


text \<open>The request on disk names its id and has an item.\<close>

lemma build_request_fields:
  "build_request env role lid rid session_id item ctx = Inr request \<Longrightarrow>
     map_of request ''request_id'' = Some (PStr rid) \<and> (\<exists>it. map_of request ''item'' = Some (PDict it))"
  by (auto simp: build_request_def sum_bind_def split: sum.splits)

lemma planned_request:
  assumes "plan_claim env a base item_id item ctx s = Inr p"
  shows "build_request env (ri_role a) (new_lease_id a) (new_request_id a (dget (as_doc s) ''session_id'') item_id)
           (dget (as_doc s) ''session_id'') item ctx = Inr (cp_request p)"
  using assms by (auto simp: plan_claim_def Let_def sum_bind_def lift_exn_def split: sum.splits)

lemma issued_request_file:
  assumes "issue_action_request env a others st = (Inr rq, st')" "rq_acquisition rq = ''created''"
  obtains request rid item where "ag_files st' (rq_request_path rq) = JsonFile (PDict request)"
    "map_of request ''request_id'' = Some (PStr rid)" "map_of request ''item'' = Some (PDict item)"
  using assms(1)
proof (cases rule: issue_cases)
  case (reentered s0 l item)
  with assms(2) show thesis by simp
next
  case (created base item ctx s1 st1 p ev l st2)
  note plan = plan_claim_Inr [OF created(2)] and wrote = write_artifacts_Inr [OF created(4)]
  have path: "cp_request_path p \<noteq> cp_skeleton_path p" using plan(5) by (auto simp: skeleton_name_def)
  from created(4) obtain found skeleton where
    "ag_files st' = ((ag_files st2)(cp_request_path p := JsonFile (PDict (dset ''response_skeleton_path''
            (PStr (cp_skeleton_path p)) (cp_request p)))))(cp_skeleton_path p := JsonFile (PDict skeleton))"
    by (rule write_artifacts_files)
  then have "ag_files st' (rq_request_path rq)
      = JsonFile (PDict (dset ''response_skeleton_path'' (PStr (cp_skeleton_path p)) (cp_request p)))"
    using path wrote(3) by simp
  moreover obtain rid it where "map_of (cp_request p) ''request_id'' = Some (PStr rid)" "map_of (cp_request p) ''item'' = Some (PDict it)"
    using build_request_fields [OF planned_request [OF created(2)]] by blast
  ultimately show thesis
    by (intro that [of "dset ''response_skeleton_path'' (PStr (cp_skeleton_path p)) (cp_request p)"]) (simp_all add: dset_def update_conv')
qed

text \<open>A claim whose canonical state can be loaded is dispatched.\<close>

lemma claim_is_dispatched:
  assumes "issue_action_request (oe_agent env) (step_request env role s) others st0 = (Inr rq, st)"
    and "load_runtime_state env 1 st = Inr runtime"
  shows "\<exists>answer w'. dispatch_claim env role s log rq (w\<lparr>ow_store := st\<rparr>) = (answer, w')
    \<and> dget (snd answer) ''status'' = PStr ''DISPATCHED'' \<and> dget (snd answer) ''reason_code'' = PStr ''NEW_TASK''"
proof -
  have "rq_acquisition rq = ''created''"
    using assms(1) by (rule issue_without_item_creates) (simp add: step_request_def)
  with assms(1) obtain request rid item where req: "ag_files st (rq_request_path rq) = JsonFile (PDict request)"
    "map_of request ''request_id'' = Some (PStr rid)" "map_of request ''item'' = Some (PDict item)"
    by (rule issued_request_file)
  obtain l token where l: "lease_at (as_leases (ag_session st)) (rq_lease_id rq) = Some l" "l_resume_token l = Some token"
    using assms(1) unfolding step_request_def by (rule step_lease)
  obtain s0 where rt: "runtime = runtime_of (ag_revision st) s0" "s_leases (as_leases s0) = s_leases (as_leases (ag_session st))"
    using assms(2) by (rule loaded_runtime)
  have revision: "dget runtime ''persistence'' = PDict [(''schema_version'', PInt 3), (''revision'', PInt (int (ag_revision st)))]"
    by (simp add: rt(1) runtime_of_def)
  have "\<exists>r. claim_receipt env role s rq st = Inr (request, r)"
    using req(1,2) assms(2) revision
    by (cases "ag_revision st = 0") (simp_all add: claim_receipt_def read_request_def key_text_def rt runtime_lease l lease_dict_token py_or_def)
  then obtain r where "claim_receipt env role s rq st = Inr (request, r)" by blast
  note receipt = this
  have packet: "\<exists>packet. worker_packet env role s' r request = Inr packet" for s'
    using req(3) by (simp add: worker_packet_def dget_default_def)
  let ?p = "project_dispatch (oe_audit env) r (s, log)"
  let ?s = "(fst ?p)\<lparr>os_warnings := [], os_queued := filter (\<lambda>k. k \<noteq> dr_item_id r) (os_queued (fst ?p))\<rparr>"
  obtain packet where "worker_packet env role ?s r request = Inr packet" using packet by blast
  with receipt show ?thesis
    by (simp add: dispatch_claim_def pop_audit_warnings_def case_prod_beta Let_def)
qed


end
