(* ===== verification/Orch_Outcomes.thy ===== *)
theory Orch_Outcomes
  imports Orch_Properties Agent_Examples
begin

text \<open>
  The outcomes of the orchestrator's commands: what a submission needs to reach the store, when
  unusable responses are handed to a human, when a session may be stopped, and concrete runs.
\<close>

section \<open>Submissions\<close>

lemma saved_store [simp]: "ow_store (saved s log w) = ow_store w" "ow_audit (saved s log w) = log"
  by (simp_all add: saved_def)

text \<open>The session and log of a submission whose token was validated.\<close>

definition submit_ready :: "orch_env \<Rightarrow> worker_submission \<Rightarrow> orch_world \<Rightarrow> orch_session \<Rightarrow> pydict list \<Rightarrow> bool" where
  "submit_ready env a w s log \<longleftrightarrow>
     (\<exists>s0 runtime r. load_session_file env w = Inr s0 \<and> load_runtime_state env 0 (ow_store w) = Inr runtime
        \<and> reconcile_from_runtime env runtime (s0, ow_audit w) = Inr (s, log)
        \<and> map_of (os_dispatches s) (sa_item a) = Some r \<and> dr_delivery_token r = sa_token a
        \<and> canonical_active_lease runtime (dr_lease_id r) (sa_item a) \<noteq> None)"

lemma validate_dispatch_Inr:
  "validate_dispatch item_id token runtime s = Inr r \<longleftrightarrow>
     map_of (os_dispatches s) item_id = Some r \<and> dr_delivery_token r = token
     \<and> canonical_active_lease runtime (dr_lease_id r) item_id \<noteq> None"
  by (auto simp: validate_dispatch_def split: option.split)

lemma submit_ready_run:
  assumes "submit_ready env a w s log"
  shows "handle_submit env a w = (case submit_validated env a s (saved s log w) of (answer, w') \<Rightarrow> (Inr answer, w'))"
proof -
  obtain s0 runtime r where *: "load_session_file env w = Inr s0" "load_runtime_state env 0 (ow_store w) = Inr runtime"
    "reconcile_from_runtime env runtime (s0, ow_audit w) = Inr (s, log)"
    "validate_dispatch (sa_item a) (sa_token a) runtime s = Inr r"
    using assms unfolding submit_ready_def validate_dispatch_Inr by blast
  then show ?thesis by (simp add: handle_submit_def)
qed

lemma submit_unready:
  assumes "handle_submit env a w = (r, w')" "\<nexists>s log. submit_ready env a w s log"
  shows "ow_store w' = ow_store w"
proof -
  have "validate_dispatch (sa_item a) (sa_token a) runtime s = Inr x \<Longrightarrow> False"
    if "load_session_file env w = Inr s0" "load_runtime_state env 0 (ow_store w) = Inr runtime"
      "reconcile_from_runtime env runtime (s0, ow_audit w) = Inr (s, log)" for s0 runtime s log x
    using that assms(2) unfolding submit_ready_def validate_dispatch_Inr by blast
  with assms(1) show ?thesis
    by (fastforce simp: handle_submit_def saved_def split: sum.splits prod.splits)
qed

text \<open>
  C11: A response reaches the store only through a live dispatch. Whenever a submission changes
  the store of the agent protocol, its token was the one of the item's dispatch after
  reconciling, the lease of that dispatch was active for the item, and the response file was an
  object with every required field of evidence.
\<close>

theorem submission_needs_a_live_dispatch:
  assumes "handle_submit env a w = (r, w')" "ow_store w' \<noteq> ow_store w"
  shows "\<exists>s log response. submit_ready env a w s log \<and> ag_files (ow_store w) (sa_input a) = JsonFile (PDict response)
    \<and> validate_action_response (PDict response) REQUIRED_WORKER_EVIDENCE = Inr ()"
proof -
  obtain s log where ready: "submit_ready env a w s log" using submit_unready [OF assms(1)] assms(2) by blast
  have run: "snd (submit_validated env a s (saved s log w)) = w'"
    using assms(1) submit_ready_run [OF ready] by (simp split: prod.splits)
  let ?parsed = "parse_and_validate_response (worker_reads_of env (ow_store w)) (sa_input a) REQUIRED_WORKER_EVIDENCE
      (retry_count_of s (sa_item a))"
  have "\<exists>response. ?parsed = Inr response"
  proof (cases ?parsed)
    case (Inl e)
    have "ow_store w' = ow_store w"
      unfolding run [symmetric] using Inl
      by (cases e) (simp_all add: submit_validated_def saved_def worker_reads_of_def split: prod.splits)
    with assms(2) show ?thesis by simp
  qed simp
  then obtain response where "ag_files (ow_store w) (sa_input a) = JsonFile response"
    "validate_action_response response REQUIRED_WORKER_EVIDENCE = Inr ()"
    by (auto simp: parse_and_validate_response_def worker_reads_of_def sum_bind_Inr split: request_file.splits if_splits)
  moreover from this(2) obtain d where "response = PDict d" by (cases response) (simp_all add: validate_action_response_def)
  ultimately show ?thesis using ready by blast
qed

section \<open>The circuit breaker\<close>

lemma refuse_response_fields:
  assumes "refuse_response env a m s = (answer, s')" "map_of (os_dispatches s) (sa_item a) = Some r"
  defines "n \<equiv> retry_count_of s (sa_item a) + 1"
  defines "tripped \<equiv> config_value s ''circuit_breaker_threshold'' \<le> n"
  shows "fst answer = 2" "dget (snd answer) ''next_action'' = PStr (if tripped then ''HANDOFF'' else ''RETRY'')"
    "map_of (os_retry_counts s') = (map_of (os_retry_counts s))(sa_item a \<mapsto> n)"
    "map_of (os_dispatches s') = (map_of (os_dispatches s))(sa_item a \<mapsto>
       if tripped then r\<lparr>dr_waiting_for_human := True, dr_handoff_reason := Some m, dr_artifact_path := Some (sa_input a)\<rparr> else r)"
  using assms
  by (auto simp: refuse_response_def Let_def put_retry_def mark_waiting_def put_dispatch_def config_value_def update_conv
      split: if_splits)


text \<open>
  A response file that is no JSON is handed to a human after \<open>MAX_RETRIES\<close> retries, whatever
  threshold is configured.
\<close>

lemma corrupt_json_ignores_the_threshold:
  assumes "submit_ready env a w s log" "ag_files (ow_store w) (sa_input a) = BadJson" "\<not> oe_blank env (sa_input a)"
    and "MAX_RETRIES \<le> retry_count_of s (sa_item a)"
  shows "\<exists>payload w'. handle_submit env a w = (Inr (2, payload), w') \<and> dget payload ''next_action'' = PStr ''HANDOFF''"
  using submit_ready_run [OF assms(1)] assms(2-4)
  by (simp add: submit_validated_def parse_and_validate_response_def worker_reads_of_def saved_def hand_off_def)

section \<open>Stopping\<close>

lemma sync_queue_Inr:
  assumes "sync_queue env n enforce store (s, log) = (Inr (), (s', log'))"
  obtains runtime s1 where "load_runtime_state env n store = Inr runtime"
    "reconcile_from_runtime env runtime (s, log) = Inr (s1, log')" "os_dispatches s' = os_dispatches s1"
  using assms by (fastforce simp: sync_queue_def Let_def split: sum.splits prod.splits if_splits)

lemma reconcile_covers:
  assumes "reconcile_from_runtime env runtime (s, log) = Inr (s', log')"
  shows "covers (os_dispatches s') (leases_of runtime)"
  using assms by (rule reconcile_rebuilds) (auto simp: rebuilds_def)

text \<open>
  C12: A session is stopped only when it is clear. A stop that reports success either found no
  readable session file and changed nothing, or the canonical state has no active lease of an
  orchestrator, its final gate passes, and the session is saved as complete.
\<close>

theorem stop_means_clear:
  assumes "handle_stop env w = (Inr answer, w')" "fst answer = 0"
  shows "(\<exists>m. load_session_file env w = Inl (OrchestrationSessionError m)) \<and> w' = w
    \<or> (\<exists>runtime r s. load_runtime_state env 0 (ow_store w) = Inr runtime
         \<and> (\<forall>lid l. (lid, PDict l) \<in> set (leases_of runtime) \<longrightarrow> \<not> orchestrated l)
         \<and> load_runtime_state env 1 (ow_store w) = Inr r \<and> (\<exists>g. evaluate_final_gate r [] [] None [] None = Inr g \<and> gate_passed g)
         \<and> load_session_file env w' = Inr s \<and> os_completed s \<and> ow_store w' = ow_store w)"
proof (cases "load_session_file env w")
  case (Inl e)
  with assms show ?thesis
    by (cases e) (auto simp: handle_stop_def stop_failure_def split: effect_error.splits)
next
  case (Inr s0)
  obtain x s1 log where sync: "sync_queue env 0 False (ow_store w) (s0, ow_audit w) = (x, (s1, log))"
    by (cases "sync_queue env 0 False (ow_store w) (s0, ow_audit w)") auto
  note run = assms(1) [unfolded handle_stop_def Inr sum.case sync prod.case]
  show ?thesis
  proof (cases x)
    case failed: (Inl e)
    with sync have "\<not> is_session_error e"
      by (auto simp: sync_queue_def load_runtime_state_def reconcile_from_runtime_def is_session_error_def orch_exn_def Let_def
          split: sum.splits prod.splits if_splits option.splits)
    with failed run assms(2) show ?thesis
      by (cases e) (auto simp: stop_failure_def is_session_error_def split: effect_error.splits)
  next
    case ok: (Inr u)
    obtain runtime s2 where rt: "load_runtime_state env 0 (ow_store w) = Inr runtime"
      "reconcile_from_runtime env runtime (s0, ow_audit w) = Inr (s2, log)" "os_dispatches s1 = os_dispatches s2"
      using sync ok by (auto elim: sync_queue_Inr)
    have none: "os_dispatches s1 = []" using run ok assms(2) by (auto split: if_splits)
    have gate: "run_authoritative_gate env (ow_store w) = Inr 0"
      using run ok none assms(2)
      by (cases "run_authoritative_gate env (ow_store w)")
        (auto simp: stop_failure_def run_authoritative_gate_def orch_exn_def load_runtime_state_def
          split: if_splits orch_error.splits effect_error.splits sum.splits option.splits)
    obtain r g where g: "load_runtime_state env 1 (ow_store w) = Inr r" "evaluate_final_gate r [] [] None [] None = Inr g" "gate_passed g"
      using gate
      by (auto simp: run_authoritative_gate_def gate_exit_code_def split: sum.splits orch_error.splits effect_error.splits if_splits)
    have "\<forall>lid l. (lid, PDict l) \<in> set (leases_of runtime) \<longrightarrow> \<not> orchestrated l"
      using reconcile_covers [OF rt(2)] rt(3) none by (auto simp: covers_def)
    moreover from run ok none gate have "w' = saved (s1\<lparr>os_completed := True, os_completed_at := Some (ae_timestamp (oe_agent env)),
        os_completed_reason := Some ''Manual stop via agent orchestrate stop''\<rparr>) log w" by simp
    ultimately show ?thesis using rt(1) g by (auto simp: sorted_session_def)
  qed
qed

text \<open>A file that cannot be read counts as no session: no lease and no gate is looked at.\<close>

lemma stop_of_a_corrupted_file:
  "ow_file w = BadJson \<Longrightarrow>
     handle_stop env w = (Inr (0, output_signal ''SUCCESS'' ''COMPLETED'' ''HALT'' ''agent orchestrate stop: no active session found'' []), w)"
  by (simp add: handle_stop_def load_session_file_def load_orchestration_session_def stop_failure_def)

text \<open>A missing runtime session is reported as a reconciliation that took too long.\<close>

lemma status_of_a_missing_session:
  assumes "load_session_file env w = Inr s" "oe_load_error env 0 = Some (SessionError ''SESSION_NOT_FOUND'' x)"
  shows "handle_status env w = (Inr (2, output_signal ''FAILED'' ''RECONCILIATION_TIMEOUT'' ''RETRY''
           (oe_error_text env (SessionError ''SESSION_NOT_FOUND'' x)) []), w)"
  using assms
  by (simp add: handle_status_def sync_queue_def load_runtime_state_def status_failure_def is_session_error_def is_runtime_error_def
      orch_text_def)

section \<open>Concrete runs\<close>

definition ex_held_lease :: lease where
  "ex_held_lease = ex_active_lease\<lparr>l_agent_id := ''orchestrator:run'', l_resume_token := Some ''resume:r''\<rparr>"

definition ex_held_session :: agent_session where
  "ex_held_session = ex_open_work\<lparr>as_leases := (as_leases ex_open_work)\<lparr>s_leases := [(''lease_i'', ex_held_lease)]\<rparr>\<rparr>"

text \<open>At \<open>p\<close> a response without evidence, at \<open>q\<close> one that names no lease.\<close>

definition ex_worker_files :: "string \<Rightarrow> request_file" where
  "ex_worker_files path =
     (if path = ''p'' then JsonFile (PDict [(''note'', PStr ''n'')])
      else JsonFile (PDict [(''files'', PList []), (''validation_commands'', PList []), (''note'', PStr ''n''), (''fix_reply'', PNone)]))"

definition ex_orchestrator :: orch_env where
  "ex_orchestrator =
     \<lparr>oe_agent = ex_command, oe_audit = ex_log, oe_request = ex_ask [] ''i'', oe_views = (\<lambda>n. ex_view), oe_others = (\<lambda>x. x),
      oe_load_error = (\<lambda>n. None), oe_blank = (\<lambda>p. False), oe_json_error = (\<lambda>p. []), oe_error_text = (\<lambda>e. []),
      oe_error_name = (\<lambda>e. []), oe_uuid = ''u'', oe_slow = False, oe_seconds = PInt 0\<rparr>"

definition ex_stored_session :: orch_session where
  "ex_stored_session =
     put_retry ''i'' 2 (put_dispatch ''i'' (new_receipt ''i'' ''fixer'' ''orchestrator:run'' ''lease_i'' ''r'' 3 ''resume:r'')
       (new_orchestration ''run'' ''o/r'' ''1''))"

definition ex_dispatching :: orch_session where
  "ex_dispatching = sorted_session ex_stored_session"

definition ex_orch_world :: orch_world where
  "ex_orch_world =
     \<lparr>ow_store = \<lparr>ag_session = ex_held_session, ag_revision = 3, ag_evidence = [], ag_files = ex_worker_files\<rparr>,
      ow_file = saved_file ex_stored_session, ow_audit = []\<rparr>"

definition ex_submission :: "string \<Rightarrow> worker_submission" where
  "ex_submission path = \<lparr>sa_item = ''i'', sa_token = ''resume:r'', sa_input = path\<rparr>"

lemma ex_submit_loads:
  "load_session_file ex_orchestrator ex_orch_world = Inr ex_dispatching"
  "\<not> isl (load_runtime_state ex_orchestrator 0 (ow_store ex_orch_world))"
  "reconcile_from_runtime ex_orchestrator (projr (load_runtime_state ex_orchestrator 0 (ow_store ex_orch_world))) (ex_dispatching, [])
     = Inr (ex_dispatching, [])"
  "canonical_active_lease (projr (load_runtime_state ex_orchestrator 0 (ow_store ex_orch_world))) ''lease_i'' ''i'' \<noteq> None"
  "map_of (os_dispatches ex_dispatching) ''i'' = Some (new_receipt ''i'' ''fixer'' ''orchestrator:run'' ''lease_i'' ''r'' 3 ''resume:r'')"
  by code_simp+

lemma ex_submit_ready: "submit_ready ex_orchestrator (ex_submission path) ex_orch_world ex_dispatching []"
proof -
  have "load_runtime_state ex_orchestrator 0 (ow_store ex_orch_world)
      = Inr (projr (load_runtime_state ex_orchestrator 0 (ow_store ex_orch_world)))"
    by (rule projr_Inr) (rule ex_submit_loads)
  moreover have "ow_audit ex_orch_world = []" by (simp add: ex_orch_world_def)
  ultimately show ?thesis
    using ex_submit_loads unfolding submit_ready_def ex_submission_def worker_submission.simps
    by (intro exI conjI) (assumption | simp add: new_receipt_def)+
qed


theorem submission_needs_a_live_dispatch_witness:
  "\<exists>r w' response. handle_submit ex_orchestrator (ex_submission ''q'') ex_orch_world = (r, w')
     \<and> ow_store w' \<noteq> ow_store ex_orch_world \<and> ag_files (ow_store ex_orch_world) ''q'' = JsonFile (PDict response)"
proof -
  let ?run = "handle_submit ex_orchestrator (ex_submission ''q'') ex_orch_world"
  have run: "?run = (fst ?run, snd ?run)" by (simp only: prod.collapse)
  have "ag_revision (ow_store (snd ?run)) = 4" "ag_revision (ow_store ex_orch_world) = 3" by code_simp+
  then have changed: "ow_store (snd ?run) \<noteq> ow_store ex_orch_world" by auto
  have q: "sa_input (ex_submission ''q'') = ''q''" by (simp add: ex_submission_def)
  from submission_needs_a_live_dispatch [OF run changed, unfolded q] run changed show ?thesis by blast
qed

text \<open>A session with nothing left to do is stopped.\<close>

definition ex_idle_world :: orch_world where
  "ex_idle_world =
     \<lparr>ow_store = \<lparr>ag_session = \<lparr>as_leases = \<lparr>s_items = [], s_leases = [], s_events = [], s_repo = ''o/r'', s_pr = ''1''\<rparr>,
                               as_doc = [(''session_id'', PStr ''s''), (''repo'', PStr ''o/r''), (''pr_number'', PStr ''1'')]\<rparr>,
                  ag_revision = 1, ag_evidence = [], ag_files = (\<lambda>_. NoFile)\<rparr>,
      ow_file = saved_file ex_orchestration, ow_audit = []\<rparr>"

theorem stop_means_clear_witness:
  "\<exists>answer w' s. handle_stop ex_orchestrator ex_idle_world = (Inr answer, w') \<and> fst answer = 0
     \<and> load_session_file ex_orchestrator w' = Inr s \<and> os_completed s"
proof -
  let ?run = "handle_stop ex_orchestrator ex_idle_world"
  have ok: "\<not> isl (fst ?run)" "fst (projr (fst ?run)) = 0" "\<not> isl (load_session_file ex_orchestrator ex_idle_world)" by code_simp+
  have run: "?run = (Inr (projr (fst ?run)), snd ?run)" using projr_Inr [OF ok(1)] by (simp add: prod_eq_iff)
  from stop_means_clear [OF run ok(2)] run ok(2,3) show ?thesis by (metis sum.disc(1))
qed

section \<open>A dispatch\<close>

text \<open>A store with one open, blocking and classified item; digests stay symbolic.\<close>

definition ex_waiting_item :: pydict where
  "ex_waiting_item = ex_open_item ''i'' @ [(''blocking'', PBool True)]"

definition ex_waiting :: agent_session where
  "ex_waiting = ex_open_work\<lparr>as_leases := (as_leases ex_open_work)\<lparr>s_items := [(''i'', PDict ex_waiting_item)]\<rparr>\<rparr>"

definition ex_waiting_store :: agent_store where
  "ex_waiting_store = \<lparr>ag_session = ex_waiting, ag_revision = 1, ag_evidence = [], ag_files = (\<lambda>_. NoFile)\<rparr>"

definition ex_step_world :: orch_world where
  "ex_step_world = \<lparr>ow_store = ex_waiting_store, ow_file = saved_file (new_orchestration ''run'' ''o/r'' ''1''), ow_audit = []\<rparr>"

definition ex_no_flags :: step_args where
  "ex_no_flags = \<lparr>st_role = None, st_max_concurrency = None, st_threshold = None\<rparr>"

definition ex_step_request :: request_input where
  "ex_step_request = step_request ex_orchestrator ''fixer'' (new_orchestration ''run'' ''o/r'' ''1'')"

definition ex_taken_request :: "string \<Rightarrow> pydict" where
  "ex_taken_request rid = projr (build_request ex_command ''fixer'' ''lease_i'' rid (PStr ''s'') ex_waiting_item ex_seen)"

definition ex_taken_plan :: "string \<Rightarrow> string \<Rightarrow> claim_plan" where
  "ex_taken_plan rid h =
     (ex_claim_plan ''i'' (ex_change (as_doc ex_waiting)) rid h)
       \<lparr>cp_request := ex_taken_request rid, cp_boundary := projr (handling_boundary_summary_or_none ex_waiting_item ''fixer'')\<rparr>"

definition ex_taken :: "string \<Rightarrow> string \<Rightarrow> pydict \<Rightarrow> (effect_error + lease) \<times> agent_store" where
  "ex_taken rid h ev = transact_agent None [ev] (commit_claim ex_command ex_step_request (ex_taken_plan rid h)) ex_waiting_store"

lemma ex_step_facts:
  "project_claims ex_waiting = Inr ex_waiting" "expire_loaded ex_command ex_waiting = ex_waiting"
  "next_item (ri_item_id ex_step_request) ex_waiting = (''i'', Some ex_waiting_item)" "has_classification_evidence ex_waiting_item"
  "new_lease_id ex_step_request = ''lease_i''" "ri_role ex_step_request = ''fixer''" "ri_workspace ex_step_request = ''w''"
  "ri_observed ex_step_request = Some ex_seen"
  "dget ex_waiting_item ''classification_evidence'' = PDict [(''classification'', PStr ''fix'')]" "dget ex_waiting_item ''decision'' = PNone"
  "\<not> isl (handling_boundary_summary_or_none ex_waiting_item ''fixer'')"
  by code_simp+

lemma ex_step_built:
  "build_request ex_command ''fixer'' ''lease_i'' rid (PStr ''s'') ex_waiting_item ex_seen = Inr (ex_taken_request rid)"
  "\<not> isl (action_request_from_dict (PDict (ex_taken_request rid)))"
  "\<not> isl (action_request_to_dict (projr (action_request_from_dict (PDict (ex_taken_request rid)))))"
  "text_of_key (ex_taken_request rid) ''request_id'' = Inr rid" "text_of_key (ex_taken_request rid) ''lease_id'' = Inr ''lease_i''"
  by code_simp+

lemma ex_taken_facts:
  "\<not> isl (fst (ex_taken rid h ev))" "session_item (ag_session (snd (ex_taken rid h ev))) ''i'' \<noteq> None"
  "\<not> isl (project_claims (ag_session (snd (ex_taken rid h ev))))"
  by code_simp+

lemma ex_step_issue:
  "\<exists>rq st rid h ev. issue_action_request ex_command ex_step_request (\<lambda>x. x) ex_waiting_store = (Inr rq, st)
     \<and> ag_session st = ag_session (snd (ex_taken rid h ev))"
proof -
  define rid where "rid = new_request_id ex_step_request (PStr ''s'') ''i''"
  obtain h where h: "request_hash_of (ex_taken_request rid) = Inr h"
    using hashed [OF ex_step_built(2,3)] by blast
  obtain b where boundary: "handling_boundary_summary_or_none ex_waiting_item ''fixer'' = Inr b"
    using projr_Inr [OF ex_step_facts(11)] by blast
  let ?s1 = "put_session_item ''i'' ex_waiting_item ex_waiting"
  let ?s2 = "?s1\<lparr>as_doc := cache_pull_request_context (as_doc ex_waiting) (context_to_dict ex_seen)\<rparr>"
  have doc: "as_doc ?s1 = as_doc ex_waiting" "as_doc ex_waiting = as_doc ex_open_work"
    by (simp_all add: put_session_item_def ex_waiting_def)
  have sid: "dget (cache_pull_request_context (as_doc ex_waiting) (context_to_dict ex_seen)) ''session_id'' = PStr ''s''"
    by (simp add: cache_pull_request_context_def Let_def doc(2) ex_open_work_def)
  have refresh: "refresh_stack_context_for_request ex_command ex_step_request ?s1 ex_waiting_store = (Inr (ex_seen, ?s2), ex_waiting_store)"
    unfolding refresh_stack_context_for_request_def observed_context_def doc(1) ex_step_facts(8)
    by (simp add: ex_seen_def bare_context_def)
  have plan: "plan_claim ex_command ex_step_request (dget (as_doc ex_waiting) ''metadata'') ''i'' ex_waiting_item ex_seen ?s2
      = Inr (ex_taken_plan rid h)"
    using ex_step_built(1) [of rid] h boundary sid
    by (simp add: plan_claim_def lift_exn_def ex_step_facts(5-10) rid_def [symmetric] ex_taken_plan_def ex_claim_plan_def ex_change_def Let_def)
  let ?t = "\<lambda>ev. transact_agent None [ev] (commit_claim ex_command ex_step_request (ex_taken_plan rid h)) ex_waiting_store"
  have commit: "fst (?t ev) = Inr (projr (fst (?t ev)))" for ev
    by (rule projr_Inr) (rule ex_taken_facts(1) [unfolded ex_taken_def])
  have artifacts: "\<not> isl (fst (write_artifacts ex_step_request (ex_taken_plan rid h) l (snd (?t ev))))" for ev l
  proof -
    obtain item where "session_item (ag_session (snd (?t ev))) ''i'' = Some item"
      using ex_taken_facts(2) [of rid h ev] unfolding ex_taken_def by blast
    moreover have "\<exists>d. response_skeleton_for_request (dset ''response_skeleton_path'' (PStr path) (ex_taken_request rid)) agent it = Inr d"
      for path agent it
      using ex_step_built(4,5) by (simp add: response_skeleton_for_request_def Let_def)
    ultimately show ?thesis
      by (intro artifacts_written [of _ _ item]) (simp_all add: ex_taken_plan_def ex_claim_plan_def del: append.simps append_Cons)
  qed
  have start: "project_claims (ag_session ex_waiting_store) = Inr ex_waiting"
    by (simp add: ex_waiting_store_def ex_step_facts(1))
  from issue_created [where others = "\<lambda>x. x", OF start ex_step_facts(2,3,4) refresh plan commit artifacts]
  show ?thesis unfolding ex_taken_def by blast
qed

text \<open>The same commands when the canonical session cannot be loaded a second time.\<close>

definition ex_blind :: orch_env where
  "ex_blind = ex_orchestrator\<lparr>oe_load_error := (\<lambda>n. if n = 1 then Some (RuntimeError ''busy'') else None)\<rparr>"

definition prepared_for_request :: "orch_env \<Rightarrow> bool" where
  "prepared_for_request env \<longleftrightarrow>
     (case prepare_session_for_step env ex_no_flags ex_step_world of
        (Inr s, log) \<Rightarrow> os_queued s \<noteq> [] \<and> step_request env ''fixer'' s = ex_step_request
      | _ \<Rightarrow> False)"

lemma ex_prepared_steps: "prepared_for_request ex_orchestrator" "prepared_for_request ex_blind"
  by code_simp+

lemma ex_step:
  assumes "prepared_for_request env" "oe_agent env = ex_command" "oe_others env = (\<lambda>x. x)"
  obtains s log rq st rid h ev answer w' where "handle_step env ex_no_flags ex_step_world = (Inr answer, w')"
    "dispatch_claim env ''fixer'' s log rq (ex_step_world\<lparr>ow_store := st\<rparr>) = (answer, w')"
    "issue_action_request (oe_agent env) (step_request env ''fixer'' s) (oe_others env) ex_waiting_store = (Inr rq, st)"
    "ag_session st = ag_session (snd (ex_taken rid h ev))"
proof -
  obtain s log where s: "prepare_session_for_step env ex_no_flags ex_step_world = (Inr s, log)" "os_queued s \<noteq> []"
    "step_request env ''fixer'' s = ex_step_request"
    using assms(1) by (auto simp: prepared_for_request_def split: prod.splits sum.splits)
  obtain rq st rid h ev where issue: "issue_action_request ex_command ex_step_request (\<lambda>x. x) ex_waiting_store = (Inr rq, st)"
    "ag_session st = ag_session (snd (ex_taken rid h ev))"
    using ex_step_issue by blast
  obtain answer w' where d: "dispatch_claim env ''fixer'' s log rq (ex_step_world\<lparr>ow_store := st\<rparr>) = (answer, w')" by fastforce
  have "ow_store ex_step_world = ex_waiting_store" "st_role ex_no_flags = None"
    by (simp_all add: ex_step_world_def ex_no_flags_def)
  then have "handle_step env ex_no_flags ex_step_world = (Inr answer, w')"
    using s issue(1) d assms(2,3) by (simp add: handle_step_def Let_def)
  then show thesis
    by (rule that [of answer w' s log rq st rid h ev]) (use d issue s(3) assms(2,3) in simp_all)
qed



end
