(* ===== verification/Spec2Isabelle.thy ===== *)
theory Spec2Isabelle
  imports Lease_Properties Final_Gate Stack_Gate Store_Properties Working_Set_Properties Session_Properties Publish_Properties
    Primary_Action Command_Templates Agent_Examples Request_Throttle Finding_Blocks Review_Properties Orch_Outcomes
begin

text \<open>
  gh-address-cr drives the review of a pull request to completion: it keeps a session of work
  items (review threads of GitHub and local findings), hands items to agents under claim
  leases, publishes their accepted answers, and lets a final gate decide whether completion
  may be claimed. This development models that core as it is written in Python under
  \<open>src/src/gh_address_cr/\<close>; paths below are relative to it.

  The parts and how they interact.
  A session is a document of JSON values, kept for each pull request in a runtime store
  (\<open>core/runtime_store.py\<close>) with its evidence log, its outbox of side effects and a revision.
  Commands load it, change it and save it (\<open>core/session.py\<close>); a save names the revision it
  was read at, is refused when another process has committed since, and is then retried.
  Leases (\<open>core/leases.py\<close>) live in the session and give an agent exclusive rights to
  conflict keys of an item. Publishing (\<open>core/publisher.py\<close>) turns accepted responses into
  replies and resolutions on GitHub; every such call is planned, marked in flight and
  recorded through the outbox (\<open>core/side_effect_outbox.py\<close>), so that an interrupted call is
  looked up on GitHub before it is made again. The gate (\<open>core/gate.py\<close>) observes GitHub,
  merges the threads into the session and judges it with the kernel
  (\<open>core/runtime_kernel/final_gate.py\<close>); the stack gate (\<open>core/stack_gate.py\<close>) does so for
  every pull request of a stack up to a selected one. What an agent should do next is
  projected from the same session (\<open>core/primary_action.py\<close>). An agent classifies an item, asks
  for an action request, which claims the item under a lease, and submits a response, which
  is checked against its request, its lease and GitHub before it is folded onto the item
  (\<open>core/agent_protocol.py\<close>). Calls of GitHub by all sessions of a machine are coordinated
  through lock files and hints (\<open>github/throttle.py\<close>). Local findings of producers enter the
  session through the intake (\<open>intake/findings.py\<close>); the review commands
  (\<open>commands/high_level.py\<close>) ingest them, merge the observed threads, judge the session with
  the gate and save it. The orchestrator (\<open>orchestrator/\<close>) drives workers over the agent
  protocol: it mirrors the leases its own agents hold as dispatches, hands each worker the
  token of its lease, and takes back a response under that token only.

  Theories and the code they model.
  \<^item> \<open>Py_Prelude\<close>: the Python values, with the dictionary, string and conversion operations
    the source uses; exceptions are the values of \<open>py_exn\<close>, a call that may raise returns
    \<open>py_exn + 'a\<close>. Dictionaries are association lists, since their order is observable.
  \<^item> \<open>Thread_State\<close>: \<open>core/github_thread_state.py\<close>, \<open>core/local_item_state.py\<close> and the
    return of items to a claimable state in \<open>core/utils.py\<close>.
  \<^item> \<open>Command_Templates\<close>: \<open>core/command_templates.py\<close>, with the quoting of the shell.
  \<^item> \<open>Conflict_Keys\<close>, \<open>Leases\<close>, \<open>Lease_Contract\<close>, \<open>Lease_Properties\<close>: \<open>core/leases.py\<close>.
    The contract is the locale \<open>lease_operation\<close>, interpreted for each operation; the step
    relation \<open>lease_step\<close> gives the reachable sessions.
  \<^item> \<open>Json_Hash\<close>: canonical JSON and SHA-256 on 32-bit words, as the code identifies data.
  \<^item> \<open>Stack_Context\<close>: \<open>core/runtime_kernel/stack.py\<close>.
  \<^item> \<open>Validation_Evidence\<close>: \<open>core/validation_evidence.py\<close>, \<open>core/logic_validation.py\<close>.
  \<^item> \<open>Final_Gate\<close>: \<open>core/runtime_kernel/final_gate.py\<close>; \<open>Gate_Service\<close>: \<open>core/gate.py\<close>;
    \<open>Stack_Gate\<close>: \<open>core/stack_gate.py\<close>.
  \<^item> \<open>Evidence_Ledger\<close>: \<open>evidence/ledger.py\<close>; \<open>Runtime_Store\<close>: \<open>core/runtime_store.py\<close>;
    \<open>Side_Effects\<close>: \<open>core/side_effect_outbox.py\<close>. \<open>Store_Contract\<close> states the contract of
    store operations (locale \<open>store_operation\<close>) and \<open>Store_Properties\<close> what follows for
    histories of them, for the revision token (locale \<open>token_operation\<close>) and for processes
    that run side effects. \<open>Working_Set\<close> has the transactions on declared rows of the store,
    \<open>Working_Set_Properties\<close> what they show and change.
  \<^item> \<open>Session_Store\<close>, \<open>Session_Properties\<close>: \<open>core/session.py\<close>.
  \<^item> \<open>Severity\<close>: \<open>core/severity.py\<close> with the regular expressions it searches;
    \<open>Reply_Templates\<close>: \<open>core/reply_templates.py\<close>.
  \<^item> \<open>Publish_Plan\<close>, \<open>Publishing\<close>, \<open>Publish_Contract\<close>, \<open>Publish_Properties\<close>:
    \<open>core/publisher.py\<close>. A world is a publishing process and what it knows of GitHub; the
    client of GitHub is an argument of the model.
  \<^item> \<open>Primary_Action\<close>: \<open>core/primary_action.py\<close>.
  \<^item> \<open>Action_Models\<close>: work items, action requests and their hash (\<open>core/models.py\<close>), the
    envelope of third-party text (\<open>core/untrusted_content.py\<close>), required evidence and handling
    boundaries. \<open>Agent_Submission\<close>: \<open>core/agent_protocol_submission.py\<close>,
    \<open>core/agent_protocol_leases.py\<close>, \<open>core/agent_protocol_validation.py\<close>. \<open>Agent_Protocol\<close>,
    \<open>Agent_Requests\<close> and \<open>Agent_Responses\<close>: \<open>core/agent_protocol.py\<close> (classification and the next
    item; issuing, re-entering and one-shot claims; submitting), on a store that is the
    committed session with its revision, its evidence and the request files beside it.
    \<open>Agent_Contract\<close> states what an operation on the session keeps (locale
    \<open>agent_operation\<close>), \<open>Agent_History\<close> what a command on the store keeps (locales
    \<open>agent_command\<close>, \<open>agent_transaction\<close>, \<open>concurrent_writers\<close>) and the step relation
    \<open>agent_steps\<close> of interleaved commands; \<open>Agent_Properties\<close> and \<open>Agent_Outcomes\<close> have the
    promises, \<open>Agent_Examples\<close> concrete runs of them.
  \<^item> \<open>Request_Throttle\<close>: \<open>github/throttle.py\<close>, with the step relation \<open>lane_step\<close> of the
    callers that share the lane of mutations.
  \<^item> \<open>Json_Parse\<close>: \<open>json.loads\<close> and the order of keys of a written file; it is read back here.
    \<open>Findings_Intake\<close>: \<open>intake/findings.py\<close>; \<open>Findings_Ingest\<close>: \<open>core/handoff.py\<close> and the
    ingestion, loop state and counters of \<open>commands/high_level.py\<close>; \<open>Intake_Properties\<close> and
    \<open>Finding_Blocks\<close> what they promise.
  \<^item> \<open>Review_Runtime\<close>, \<open>Review_Properties\<close>: the review commands of \<open>commands/high_level.py\<close>,
    the aliases of threads of \<open>core/workflow.py\<close> and the guidance of session errors of
    \<open>core/session.py\<close>. A command maps its arguments, its environment and the store to an exit
    code with the printed summary, or an exception, and the store.
  \<^item> \<open>Orch_Session\<close>: \<open>orchestrator/session.py\<close> and \<open>orchestrator/worker.py\<close>;
    \<open>Orchestrator\<close>: \<open>orchestrator/harness.py\<close>, over the store of the agent protocol;
    \<open>Orch_Properties\<close> (the session file, reconciliation, dispatching) and \<open>Orch_Outcomes\<close>
    (submitting and stopping, with concrete runs).

  What the groups of lemmas show.
  \<^item> Leases: active leases never share a conflict key, claims and submissions succeed exactly
    under the stated conditions, an ended lease stays ended, and expiry refines the abstract
    rule of deadlines.
  \<^item> Store: an update is based on the revision it names or is refused, the outbox moves along
    the edges of its command machine, a succeeded effect is final and a foreign process
    cannot record a result, in every history of transactions. A working set shows the rows a
    whole load shows, and a transaction on it changes no row it did not select.
  \<^item> Sessions: when a save is stale, that the retry runs at most three times and that one
    quiet moment is enough for it, and the merge of concurrent metadata changes.
  \<^item> Gates: the kernel passes exactly when no fact blocks, its decision does not depend on
    the order of the facts, the service passes only on clear observations and saves the
    session it judged, and the stack gate names the lowest failing member.
  \<^item> Publishing: in every history of runs, each of which may be killed anywhere, a reply is
    posted at most once, provided that a call of GitHub that fails posts nothing; the reply
    that was posted is recognised again by its marker.
  \<^item> Agents: in every interleaving of commands active leases stay exclusive and evidence is
    only appended; an issued request can be answered until its lease expires; a response is
    accepted only from the live holder of its lease, at the revision it was checked at, and
    its acceptance is in the ledger; a refused response changes no work and is recorded; a
    one-shot command releases the lease it claimed and keeps one it re-entered.
  \<^item> Throttle: the waits for locks end within a fixed number of attempts, marked mutations
    of the lane are a second apart, and a recorded rate-limit signal refuses every call
    for a minute.
  \<^item> Intake: accepted findings survive being written and read again, fenced blocks are read
    back as they were written, and an ingestion changes exactly the items of its producer.
  \<^item> Review commands: every outcome is a pass or a block with a consistent exit code, a pass
    commits a session with nothing open, refused findings change no item, and the alias of
    a row resolves to the item of that row.
  \<^item> Orchestrator: the session file is loaded as it was saved, dispatches mirror the canonical
    leases, a dispatched token is accepted by the next command, a claim that could not be
    dispatched is given back, a response reaches the store only through a live dispatch,
    unusable responses end with a human, and a stop reports success only when nothing is open.
    Three lemmas of \<open>Orch_Outcomes\<close> state where the commands report less than they
    mean to.
  \<^item> Next action: completion is offered only when nothing is left, and the item offered is
    the most urgent one.

  Bounds and fuel. A stale save is retried at most \<open>STALE_REVISION_ATTEMPTS\<close> (3) times, as in
  the code; the wait for a resolution polls as often as the code does. SHA-256 and the
  parsers recurse on their input. The loops that wait for a lock are partial functions; they
  return when the clock they read advances by the sleeps of the code. No definition needs
  fuel that the code does not have.

  Conventions. Text is ASCII. Time is an argument, written as the ISO text the code compares.
  Calls of GitHub, the liveness of a process and the result of a file lock are arguments of
  the definitions that use them; the assumptions on them stand in the theorems. A killed
  process is a prefix of its steps.

  Not modelled. Files, SQL and threads as such (a store is the committed data, concurrent
  reads are their outcomes), the migration of the store, telemetry,
  tracing and audit logs, the command line and the rendering of results, batches of agents,
  the fast paths and the matching of the workflow, and the converters of foreign review
  formats; the manifest lists them one by one.
\<close>

end
